(* ===== verification/Go_Prelude.thy ===== *)
theory Go_Prelude
  imports Main "HOL-Library.AList" "HOL-Library.Char_ord" "HOL-Library.List_Lexorder"
    "HOL-Library.Sublist" "HOL-Library.Multiset"
begin

text \<open>
  What every other theory of the development shares: Go errors as values, the functions of
  \<^verbatim>\<open>strings\<close>, \<^verbatim>\<open>strconv\<close> and \<^verbatim>\<open>sort\<close> that the source calls, and Go maps.

  \<^item> A Go string is an Isabelle \<^typ>\<open>string\<close>, one \<^typ>\<open>char\<close> per byte; the order on strings is
    the bytewise one (\<^verbatim>\<open>HOL-Library.List_Lexorder\<close>).
  \<^item> A Go map with string keys is an association list with distinct keys. The list order
    stands for the iteration order, which Go leaves open: a theorem about an operation that
    ranges over a map is a theorem about every list.
  \<^item> Case mapping (\<^verbatim>\<open>strings.ToLower\<close>, \<^verbatim>\<open>strings.EqualFold\<close>) is modelled on ASCII letters; bytes
    outside ASCII are left unchanged.
\<close>

named_theorems go_string \<open>rewrite rules for the string functions\<close>
named_theorems go_map \<open>rewrite rules for maps as association lists\<close>

section \<open>Errors\<close>

text \<open>\<^verbatim>\<open>errors.New\<close>/\<^verbatim>\<open>fmt.Errorf\<close> make an \<open>Error\<close>, \<^verbatim>\<open>errors.Join\<close> a \<open>Joined\<close>.\<close>

datatype go_error = Error string | Joined "go_error list"

type_synonym 'a res = "go_error + 'a"

definition join_err :: "go_error option \<Rightarrow> go_error option \<Rightarrow> go_error option" where
  "join_err a b =
     (case (a, b) of
        (None, None) \<Rightarrow> None
      | (Some e, None) \<Rightarrow> Some (Joined [e])
      | (None, Some e) \<Rightarrow> Some (Joined [e])
      | (Some e, Some f) \<Rightarrow> Some (Joined [e, f]))"

lemma join_err_None [simp]: "join_err a b = None \<longleftrightarrow> a = None \<and> b = None"
  by (auto simp: join_err_def split: option.splits)

fun bind_res :: "'a res \<Rightarrow> ('a \<Rightarrow> 'b res) \<Rightarrow> 'b res" where
  "bind_res (Inl e) f = Inl e"
| "bind_res (Inr x) f = f x"

lemma bind_res_Inr_iff: "bind_res r f = Inr y \<longleftrightarrow> (\<exists>x. r = Inr x \<and> f x = Inr y)"
  by (cases r) auto

lemma bind_res_Inl_iff: "bind_res r f = Inl e \<longleftrightarrow> r = Inl e \<or> (\<exists>x. r = Inr x \<and> f x = Inl e)"
  by (cases r) auto

section \<open>Strings\<close>

subsection \<open>Trimming\<close>

text \<open>The UTF-8 encodings of the runes for which \<^verbatim>\<open>unicode.IsSpace\<close> holds.\<close>

definition space_encs :: "string list" where
  "space_encs =
     [[CHR 0x09], [CHR 0x0A], [CHR 0x0B], [CHR 0x0C], [CHR 0x0D], [CHR 0x20],
      [CHR 0xC2, CHR 0x85], [CHR 0xC2, CHR 0xA0], [CHR 0xE1, CHR 0x9A, CHR 0x80],
      [CHR 0xE2, CHR 0x80, CHR 0x80], [CHR 0xE2, CHR 0x80, CHR 0x81], [CHR 0xE2, CHR 0x80, CHR 0x82],
      [CHR 0xE2, CHR 0x80, CHR 0x83], [CHR 0xE2, CHR 0x80, CHR 0x84], [CHR 0xE2, CHR 0x80, CHR 0x85],
      [CHR 0xE2, CHR 0x80, CHR 0x86], [CHR 0xE2, CHR 0x80, CHR 0x87], [CHR 0xE2, CHR 0x80, CHR 0x88],
      [CHR 0xE2, CHR 0x80, CHR 0x89], [CHR 0xE2, CHR 0x80, CHR 0x8A], [CHR 0xE2, CHR 0x80, CHR 0xA8],
      [CHR 0xE2, CHR 0x80, CHR 0xA9], [CHR 0xE2, CHR 0x80, CHR 0xAF], [CHR 0xE2, CHR 0x81, CHR 0x9F],
      [CHR 0xE3, CHR 0x80, CHR 0x80]]"

fun starts_with :: "string \<Rightarrow> string \<Rightarrow> bool" where
  "starts_with [] s = True"
| "starts_with (c # p) [] = False"
| "starts_with (c # p) (d # s) = (c = d \<and> starts_with p s)"

lemma starts_with_prefix: "starts_with p s \<longleftrightarrow> prefix p s"
  by (induction p s rule: starts_with.induct) auto

text \<open>The length of the first of the given encodings that \<open>s\<close> starts with, 0 when there is none.\<close>

fun lead_len :: "string list \<Rightarrow> string \<Rightarrow> nat" where
  "lead_len [] s = 0"
| "lead_len (e # es) s = (if e \<noteq> [] \<and> starts_with e s then length e else lead_len es s)"

lemma lead_len_pos: "0 < lead_len es s \<Longrightarrow> s \<noteq> []"
  by (induction es) (auto split: if_splits elim: starts_with.elims)

lemma lead_len_Nil [simp]: "lead_len es [] = 0"
  using lead_len_pos by blast

lemma lead_len_drop: "0 < lead_len es s \<Longrightarrow> length s - lead_len es s < length s"
  using lead_len_pos [of es s] by simp

function strip_lead :: "string list \<Rightarrow> string \<Rightarrow> string" where
  "strip_lead es s = (if lead_len es s = 0 then s else strip_lead es (drop (lead_len es s) s))"
  by pat_completeness auto
termination
  by (relation "measure (length \<circ> snd)") (auto simp: lead_len_drop)

declare strip_lead.simps [simp del]

lemma strip_lead_Nil [simp]: "strip_lead es [] = []"
  by (simp add: strip_lead.simps)

lemma lead_len_strip_lead [simp]: "lead_len es (strip_lead es s) = 0"
  by (induction es s rule: strip_lead.induct) (metis strip_lead.simps)

lemma strip_lead_id: "lead_len es s = 0 \<Longrightarrow> strip_lead es s = s"
  by (simp add: strip_lead.simps)

lemma suffix_strip_lead: "suffix (strip_lead es s) s"
proof (induction es s rule: strip_lead.induct)
  case (1 es s)
  show ?case
  proof (cases "lead_len es s = 0")
    case True
    then show ?thesis by (simp add: strip_lead_id)
  next
    case False
    then have "suffix (strip_lead es (drop (lead_len es s) s)) (drop (lead_len es s) s)"
      by (rule "1.IH")
    then have "suffix (strip_lead es (drop (lead_len es s) s)) s"
      using suffix_drop suffix_order.trans by blast
    with False show ?thesis by (simp add: strip_lead.simps [of es s])
  qed
qed

lemma lead_len_prefix: "prefix t s \<Longrightarrow> lead_len es s = 0 \<Longrightarrow> lead_len es t = 0"
  by (induction es) (auto simp: starts_with_prefix split: if_splits intro: prefix_order.trans)

text \<open>\<^verbatim>\<open>strings.TrimSpace\<close>: white space is cut on the left, then on the right.\<close>

definition trim_left :: "string \<Rightarrow> string" where
  "trim_left s = strip_lead space_encs s"

definition trim_right :: "string \<Rightarrow> string" where
  "trim_right s = rev (strip_lead (map rev space_encs) (rev s))"

definition trim_space :: "string \<Rightarrow> string" where
  "trim_space s = trim_right (trim_left s)"

lemma prefix_trim_right: "prefix (trim_right s) s"
  using suffix_strip_lead [of "map rev space_encs" "rev s"]
  by (simp add: trim_right_def suffix_to_prefix)

lemma trim_space_idem [simp, go_string]: "trim_space (trim_space s) = trim_space s"
proof -
  have "lead_len space_encs (trim_space s) = 0"
    unfolding trim_space_def by (rule lead_len_prefix [OF prefix_trim_right]) (simp add: trim_left_def)
  then have "trim_left (trim_space s) = trim_space s"
    by (simp add: trim_left_def strip_lead_id)
  moreover have "trim_right (trim_right t) = trim_right t" for t
    by (simp add: trim_right_def strip_lead_id)
  ultimately show ?thesis
    by (simp add: trim_space_def)
qed

lemma trim_space_Nil [simp, go_string]: "trim_space [] = []"
  by (simp add: trim_space_def trim_left_def trim_right_def)

definition trimmed :: "string \<Rightarrow> bool" where
  "trimmed s \<longleftrightarrow> trim_space s = s"

lemma trimmed_trim_space [simp]: "trimmed (trim_space s)"
  by (simp add: trimmed_def)

lemma trim_space_trimmed: "trimmed s \<Longrightarrow> trim_space s = s"
  by (simp add: trimmed_def)

text \<open>\<^verbatim>\<open>strings.TrimRight(s, cutset)\<close> for a one-byte cutset.\<close>

definition trim_right_byte :: "string \<Rightarrow> char \<Rightarrow> string" where
  "trim_right_byte s c = rev (dropWhile (\<lambda>d. d = c) (rev s))"

subsection \<open>Prefixes, search, split, join, replace\<close>

definition trim_prefix :: "string \<Rightarrow> string \<Rightarrow> string" where
  "trim_prefix s p = (if starts_with p s then drop (length p) s else s)"

definition ends_with :: "string \<Rightarrow> string \<Rightarrow> bool" where
  "ends_with p s = starts_with (rev p) (rev s)"

definition trim_suffix :: "string \<Rightarrow> string \<Rightarrow> string" where
  "trim_suffix s p = (if ends_with p s then take (length s - length p) s else s)"

fun str_contains :: "string \<Rightarrow> string \<Rightarrow> bool" where
  "str_contains [] t = (t = [])"
| "str_contains (c # s) t = (starts_with t (c # s) \<or> str_contains s t)"

lemma str_contains_sublist: "str_contains s t \<longleftrightarrow> sublist t s"
  by (induction s) (auto simp: starts_with_prefix sublist_Cons_right)

fun join_str :: "string \<Rightarrow> string list \<Rightarrow> string" where
  "join_str sep [] = []"
| "join_str sep [x] = x"
| "join_str sep (x # y # ys) = x @ sep @ join_str sep (y # ys)"

text \<open>\<^verbatim>\<open>Error()\<close>: \<^verbatim>\<open>errors.Join\<close> puts each error on a line.\<close>

fun error_text :: "go_error \<Rightarrow> string" where
  "error_text (Error s) = s"
| "error_text (Joined es) = join_str [CHR 0x0A] (map error_text es)"

text \<open>\<^verbatim>\<open>strings.SplitN(s, sep, 2)\<close> for a one-byte separator.\<close>

definition split2 :: "string \<Rightarrow> char \<Rightarrow> string list" where
  "split2 s c =
     (case dropWhile (\<lambda>d. d \<noteq> c) s of
        [] \<Rightarrow> [s]
      | _ # rest \<Rightarrow> [takeWhile (\<lambda>d. d \<noteq> c) s, rest])"

lemma split2_append: "c \<notin> set a \<Longrightarrow> split2 (a @ c # b) c = [a, b]"
  by (auto simp: split2_def dropWhile_append takeWhile_append dropWhile_eq_Nil_conv)

text \<open>\<^verbatim>\<open>strings.ReplaceAll(s, old, new)\<close> for a one-byte \<open>old\<close>.\<close>

definition replace_byte :: "string \<Rightarrow> char \<Rightarrow> string \<Rightarrow> string" where
  "replace_byte s c new = concat (map (\<lambda>d. if d = c then new else [d]) s)"

definition lower_byte :: "char \<Rightarrow> char" where
  "lower_byte c =
     (let n = (of_char c :: nat) in if 65 \<le> n \<and> n \<le> 90 then char_of (n + 32) else c)"

definition to_lower :: "string \<Rightarrow> string" where
  "to_lower s = map lower_byte s"

lemma lower_byte_idem: "lower_byte (lower_byte c) = lower_byte c"
  by (auto simp: lower_byte_def Let_def)

lemma to_lower_idem [simp, go_string]: "to_lower (to_lower s) = to_lower s"
  by (simp add: to_lower_def lower_byte_idem)

lemma to_lower_Nil_iff [simp]: "to_lower s = [] \<longleftrightarrow> s = []"
  by (simp add: to_lower_def)

text \<open>Lower-casing touches letters only, so it does not change what is trimmed.\<close>

lemma lower_byte_caseless: "\<not> (65 \<le> (of_char c :: nat) \<and> (of_char c :: nat) \<le> 90) \<Longrightarrow>
    \<not> (97 \<le> (of_char c :: nat) \<and> (of_char c :: nat) \<le> 122) \<Longrightarrow> lower_byte d = c \<longleftrightarrow> d = c"
  by (auto simp: lower_byte_def Let_def split: if_splits)

definition caseless :: "string \<Rightarrow> bool" where
  "caseless e \<longleftrightarrow> list_all (\<lambda>c. lower_byte c = c \<and> \<not> (97 \<le> (of_char c :: nat) \<and> (of_char c :: nat) \<le> 122)) e"

lemma lower_byte_eq:
  assumes "lower_byte c = c" "\<not> (97 \<le> (of_char c :: nat) \<and> (of_char c :: nat) \<le> 122)"
  shows "c = lower_byte d \<longleftrightarrow> c = d"
  unfolding eq_commute [of c]
proof (rule lower_byte_caseless)
  show "\<not> (65 \<le> (of_char c :: nat) \<and> (of_char c :: nat) \<le> 90)"
  proof
    assume a: "65 \<le> (of_char c :: nat) \<and> (of_char c :: nat) \<le> 90"
    then have "(of_char (lower_byte c) :: nat) = of_char c + 32" by (simp add: lower_byte_def Let_def)
    with assms(1) show False by simp
  qed
qed (rule assms(2))

lemma starts_with_to_lower: "caseless e \<Longrightarrow> starts_with e (to_lower s) = starts_with e s"
  by (induction e s rule: starts_with.induct) (simp_all add: caseless_def to_lower_def lower_byte_eq)

lemma lead_len_to_lower: "list_all caseless es \<Longrightarrow> lead_len es (to_lower s) = lead_len es s"
  by (induction es) (auto simp: starts_with_to_lower)

lemma strip_lead_to_lower: "list_all caseless es \<Longrightarrow> strip_lead es (to_lower s) = to_lower (strip_lead es s)"
proof (induction es s rule: strip_lead.induct)
  case (1 es s)
  show ?case
  proof (cases "lead_len es s = 0")
    case True
    with 1 show ?thesis by (simp add: strip_lead_id lead_len_to_lower)
  next
    case False
    have d: "drop n (to_lower s) = to_lower (drop n s)" for n by (simp add: to_lower_def drop_map)
    show ?thesis
      using 1 False by (simp add: strip_lead.simps [of es s] strip_lead.simps [of es "to_lower s"] lead_len_to_lower d)
  qed
qed

lemma trim_space_to_lower [simp, go_string]: "trim_space (to_lower s) = to_lower (trim_space s)"
proof -
  have c: "list_all caseless space_encs" "list_all caseless (map rev space_encs)" by code_simp+
  have r: "rev (to_lower t) = to_lower (rev t)" for t by (simp add: to_lower_def rev_map)
  show ?thesis
    by (simp add: trim_space_def trim_left_def trim_right_def r strip_lead_to_lower [OF c(1)] strip_lead_to_lower [OF c(2)])
qed

definition equal_fold :: "string \<Rightarrow> string \<Rightarrow> bool" where
  "equal_fold s t \<longleftrightarrow> to_lower s = to_lower t"

definition str_of :: "char \<Rightarrow> string" where
  "str_of c = [c]"

section \<open>Decimal numbers\<close>

definition digit_char :: "nat \<Rightarrow> char" where
  "digit_char d = char_of (48 + d)"

definition is_digit :: "char \<Rightarrow> bool" where
  "is_digit c \<longleftrightarrow> 48 \<le> (of_char c :: nat) \<and> (of_char c :: nat) \<le> 57"

definition digit_val :: "char \<Rightarrow> nat" where
  "digit_val c = of_char c - 48"

fun nat_digits :: "nat \<Rightarrow> string" where
  "nat_digits n = (if n < 10 then [digit_char n] else nat_digits (n div 10) @ [digit_char (n mod 10)])"

declare nat_digits.simps [simp del]

definition digits_val :: "string \<Rightarrow> nat" where
  "digits_val s = foldl (\<lambda>a c. 10 * a + digit_val c) 0 s"

text \<open>\<^verbatim>\<open>strconv.Itoa\<close>, \<^verbatim>\<open>strconv.FormatInt(_, 10)\<close> and the \<^verbatim>\<open>%d\<close> verb.\<close>

definition itoa :: "int \<Rightarrow> string" where
  "itoa i = (if i < 0 then ''-'' @ nat_digits (nat (- i)) else nat_digits (nat i))"

text \<open>
  \<^verbatim>\<open>strconv.Atoi\<close> and \<^verbatim>\<open>strconv.ParseInt(_, 10, 64)\<close>: an optional sign, at least one digit,
  a value in the range of \<^verbatim>\<open>int64\<close>; \<open>None\<close> is the error.
\<close>

definition atoi :: "string \<Rightarrow> int option" where
  "atoi s =
     (let neg = (s \<noteq> [] \<and> hd s = CHR ''-'');
          ds = (if s \<noteq> [] \<and> (hd s = CHR ''-'' \<or> hd s = CHR ''+'') then tl s else s);
          v = (if neg then - int (digits_val ds) else int (digits_val ds))
      in if ds \<noteq> [] \<and> list_all is_digit ds \<and> - (2 ^ 63) \<le> v \<and> v < 2 ^ 63 then Some v else None)"

lemma digit_char_props:
  assumes "d < 10"
  shows "is_digit (digit_char d)" "digit_val (digit_char d) = d"
  using assms by (simp_all add: is_digit_def digit_char_def digit_val_def)

lemma nat_digits_is_digit: "list_all is_digit (nat_digits n)"
proof (induction n rule: nat_digits.induct)
  case (1 n)
  then show ?case
    by (subst nat_digits.simps) (auto simp: digit_char_props)
qed

lemma digits_val_nat_digits [simp]: "digits_val (nat_digits n) = n"
proof (induction n rule: nat_digits.induct)
  case (1 n)
  then show ?case
    by (subst nat_digits.simps) (auto simp: digits_val_def digit_char_props)
qed

lemma nat_digits_not_Nil [simp]: "nat_digits n \<noteq> []"
  by (subst nat_digits.simps) simp

lemma nat_digits_inj: "nat_digits m = nat_digits n \<Longrightarrow> m = n"
  by (metis digits_val_nat_digits)

lemma hd_nat_digits: "is_digit (hd (nat_digits n))"
  using nat_digits_is_digit [of n] nat_digits_not_Nil [of n] by (cases "nat_digits n") auto

lemma atoi_itoa: "- (2 ^ 63) \<le> i \<Longrightarrow> i < 2 ^ 63 \<Longrightarrow> atoi (itoa i) = Some i"
  using hd_nat_digits [of "nat i"]
  by (auto simp: atoi_def itoa_def Let_def nat_digits_is_digit is_digit_def)

lemma is_digit_not_colon: "is_digit c \<Longrightarrow> c \<noteq> CHR '':''"
  by (auto simp: is_digit_def)

lemma itoa_no_colon: "CHR '':'' \<notin> set (itoa i)"
  using nat_digits_is_digit [of "nat i"] nat_digits_is_digit [of "nat (- i)"]
  by (auto simp: itoa_def list_all_iff dest: is_digit_not_colon)

lemma lead_len_hd: "\<forall>e \<in> set es. e \<noteq> [] \<longrightarrow> hd e \<noteq> c \<Longrightarrow> lead_len es (c # t) = 0"
proof (induction es)
  case (Cons e es)
  then show ?case by (cases e) auto
qed simp

lemma trim_space_digits:
  assumes "list_all is_digit s"
  shows "trim_space s = s"
proof -
  have d: "lead_len es (c # t) = 0" if "is_digit c" "es = space_encs \<or> es = map rev space_encs" for es c t
    by (rule lead_len_hd) (use that in \<open>auto simp: space_encs_def is_digit_def\<close>)
  have "lead_len space_encs s = 0" using assms d by (cases s) auto
  then have l: "trim_left s = s" by (simp add: trim_left_def strip_lead_id)
  have "list_all is_digit (rev s)" using assms by (simp add: list_all_iff)
  then have "lead_len (map rev space_encs) (rev s) = 0" using d by (cases "rev s") auto
  then show ?thesis by (simp add: trim_space_def l trim_right_def strip_lead_id)
qed

section \<open>Maps\<close>

type_synonym 'v gmap = "(string \<times> 'v) list"

definition wf_map :: "'v gmap \<Rightarrow> bool" where
  "wf_map m \<longleftrightarrow> distinct (map fst m)"

definition mget :: "'v gmap \<Rightarrow> string \<Rightarrow> 'v option" where
  "mget m k = map_of m k"

definition mput :: "string \<Rightarrow> 'v \<Rightarrow> 'v gmap \<Rightarrow> 'v gmap" where
  "mput k v m = AList.update k v m"

definition mdel :: "string \<Rightarrow> 'v gmap \<Rightarrow> 'v gmap" where
  "mdel k m = AList.delete k m"

definition mkeys :: "'v gmap \<Rightarrow> string list" where
  "mkeys m = map fst m"

definition mvals :: "'v gmap \<Rightarrow> 'v list" where
  "mvals m = map snd m"

lemma mget_Nil [simp, go_map]: "mget [] k = None"
  by (simp add: mget_def)

lemma mget_Cons [go_map]: "mget ((k', v) # m) k = (if k' = k then Some v else mget m k)"
  by (simp add: mget_def)

lemma mget_mput [simp, go_map]: "mget (mput k v m) k' = (if k' = k then Some v else mget m k')"
  by (simp add: mget_def mput_def update_conv')

lemma mget_mdel [simp, go_map]: "mget (mdel k m) k' = (if k' = k then None else mget m k')"
  by (simp add: mget_def mdel_def delete_conv')

lemma wf_map_Nil [simp]: "wf_map []"
  by (simp add: wf_map_def)

lemma wf_map_mput [simp]: "wf_map m \<Longrightarrow> wf_map (mput k v m)"
  by (simp add: wf_map_def mput_def distinct_update)

lemma wf_map_mdel [simp]: "wf_map m \<Longrightarrow> wf_map (mdel k m)"
  by (simp add: wf_map_def mdel_def distinct_delete)

lemma wf_map_filter [simp]: "wf_map m \<Longrightarrow> wf_map (filter P m)"
  by (simp add: wf_map_def distinct_map_filter)

lemma mget_in_vals: "mget m k = Some v \<Longrightarrow> v \<in> set (mvals m)"
  by (force simp: mget_def mvals_def dest: map_of_SomeD)

lemma mget_iff: "wf_map m \<Longrightarrow> mget m k = Some v \<longleftrightarrow> (k, v) \<in> set m"
  by (simp add: mget_def wf_map_def)

lemma mvals_mget: "wf_map m \<Longrightarrow> v \<in> set (mvals m) \<longleftrightarrow> (\<exists>k. mget m k = Some v)"
  by (force simp: mvals_def mget_iff)

lemma set_mvals_filter: "set (mvals (filter (\<lambda>(k, r). P r) m)) = {r \<in> set (mvals m). P r}"
  by (force simp: mvals_def)

text \<open>Storing a value under a key that stands for its identity replaces the value with that identity.\<close>

lemma set_mvals_mput:
  assumes "wf_map m" "\<And>k' q. mget m k' = Some q \<Longrightarrow> k' = k \<longleftrightarrow> ident q = ident x"
  shows "set (mvals (mput k x m)) = insert x {q \<in> set (mvals m). ident q \<noteq> ident x}"
proof -
  have "q \<in> set (mvals (mput k x m)) \<longleftrightarrow> q = x \<or> (\<exists>k'. k' \<noteq> k \<and> mget m k' = Some q)" for q
    using assms(1) by (auto simp: mvals_mget)
  moreover have "(\<exists>k'. k' \<noteq> k \<and> mget m k' = Some q) \<longleftrightarrow> q \<in> set (mvals m) \<and> ident q \<noteq> ident x" for q
    using assms by (auto simp: mvals_mget)
  ultimately show ?thesis by auto
qed

lemma mget_filter:
  "wf_map m \<Longrightarrow> mget (filter P m) k = (case mget m k of None \<Rightarrow> None | Some v \<Rightarrow> if P (k, v) then Some v else None)"
  by (induction m) (auto simp: mget_def wf_map_def map_of_eq_None_iff split: option.splits)

lemma mget_None_iff: "mget m k = None \<longleftrightarrow> k \<notin> set (mkeys m)"
  by (simp add: mget_def mkeys_def map_of_eq_None_iff)

lemma set_mkeys_mput [simp, go_map]: "set (mkeys (mput k v m)) = insert k (set (mkeys m))"
  by (simp add: mkeys_def mput_def dom_update)

lemma set_mkeys_mdel [simp, go_map]: "set (mkeys (mdel k m)) = set (mkeys m) - {k}"
  by (simp add: mkeys_def mdel_def delete_keys flip: set_map)

text \<open>Setting and deleting keys from a list, in order.\<close>

definition mput_all :: "(string \<times> 'v) list \<Rightarrow> 'v gmap \<Rightarrow> 'v gmap" where
  "mput_all kvs m = fold (\<lambda>(k, v). mput k v) kvs m"

lemma mput_all_simps [simp, go_map]:
  "mput_all [] m = m"
  "mput_all ((k, v) # kvs) m = mput_all kvs (mput k v m)"
  by (simp_all add: mput_all_def)

lemma mput_all_append: "mput_all (xs @ ys) m = mput_all ys (mput_all xs m)"
  by (simp add: mput_all_def)

lemma mget_mput_all: "mget (mput_all kvs m) k = (case map_of (rev kvs) k of None \<Rightarrow> mget m k | Some v \<Rightarrow> Some v)"
  by (induction kvs arbitrary: m) (auto simp: map_add_def split: option.splits)

lemma map_of_rev_keys: "distinct (map fst xs) \<Longrightarrow> map_of (rev xs) = map_of xs"
  using map_of_inject_set [of "rev xs" xs] by (simp add: rev_map [symmetric])

lemma mget_mput_all_distinct:
  "distinct (map fst kvs) \<Longrightarrow>
     mget (mput_all kvs m) k = (case map_of kvs k of None \<Rightarrow> mget m k | Some v \<Rightarrow> Some v)"
  by (simp add: mget_mput_all map_of_rev_keys)

lemma wf_map_mput_all [simp]: "wf_map m \<Longrightarrow> wf_map (mput_all kvs m)"
  by (induction kvs arbitrary: m) auto

section \<open>Time\<close>

text \<open>
  A \<^verbatim>\<open>time.Time\<close> in UTC is the number of nanoseconds since its zero value (midnight of
  1 January of year 1, a Monday), so \<^verbatim>\<open>IsZero\<close> is \<open>t = 0\<close>; a \<^verbatim>\<open>time.Duration\<close> is a number of
  nanoseconds.
\<close>

type_synonym gtime = int

definition is_zero :: "gtime \<Rightarrow> bool" where
  "is_zero t \<longleftrightarrow> t = 0"

definition nanos_hour :: int where "nanos_hour = 3600000000000"
definition nanos_day :: int where "nanos_day = 86400000000000"
definition nanos_week :: int where "nanos_week = 604800000000000"

text \<open>The Unix epoch, 1 January 1970, on this scale.\<close>

definition unix_epoch :: int where "unix_epoch = 62135596800000000000"

definition unix_seconds :: "gtime \<Rightarrow> int" where
  "unix_seconds t = (t - unix_epoch) div 1000000000"

text \<open>
  \<^verbatim>\<open>Time.Sub\<close> saturates at the bounds of an int64 duration; \<^verbatim>\<open>Milliseconds\<close> truncates
  towards zero.
\<close>

definition time_sub :: "gtime \<Rightarrow> gtime \<Rightarrow> int" where
  "time_sub t u = max (- (2 ^ 63)) (min (2 ^ 63 - 1) (t - u))"

definition milliseconds :: "int \<Rightarrow> int" where
  "milliseconds d = (if d < 0 then - ((- d) div 1000000) else d div 1000000)"

section \<open>Sorting\<close>

text \<open>
  \<^verbatim>\<open>sort.Slice\<close> with the comparison \<open>lt\<close>: insertion sort, which is what Go runs on at most
  twelve elements. On longer slices Go promises a sorted permutation but no order among equal elements;
  the facts below about the result are of that kind.
\<close>

fun insert_less :: "('a \<Rightarrow> 'a \<Rightarrow> bool) \<Rightarrow> 'a \<Rightarrow> 'a list \<Rightarrow> 'a list" where
  "insert_less lt x [] = [x]"
| "insert_less lt x (y # ys) = (if lt y x then y # insert_less lt x ys else x # y # ys)"

definition sort_slice :: "('a \<Rightarrow> 'a \<Rightarrow> bool) \<Rightarrow> 'a list \<Rightarrow> 'a list" where
  "sort_slice lt xs = foldr (insert_less lt) xs []"

lemma mset_insert_less [simp]: "mset (insert_less lt x ys) = add_mset x (mset ys)"
  by (induction ys) auto

lemma mset_sort_slice [simp]: "mset (sort_slice lt xs) = mset xs"
  unfolding sort_slice_def by (induction xs) auto

lemma set_sort_slice [simp]: "set (sort_slice lt xs) = set xs"
  by (metis mset_sort_slice set_mset_mset)

lemma length_sort_slice [simp]: "length (sort_slice lt xs) = length xs"
  by (metis mset_sort_slice size_mset)

lemma distinct_sort_slice [simp]: "distinct (sort_slice lt xs) = distinct xs"
  by (metis mset_sort_slice mset_eq_imp_distinct_iff)

lemma length_filter_sort_slice: "length (filter P (sort_slice lt xs)) = length (filter P xs)"
  by (metis mset_filter mset_sort_slice size_mset)

definition strict_weak :: "('a \<Rightarrow> 'a \<Rightarrow> bool) \<Rightarrow> bool" where
  "strict_weak lt \<longleftrightarrow> (\<forall>x y. lt x y \<longrightarrow> \<not> lt y x) \<and> (\<forall>x y z. \<not> lt y x \<longrightarrow> \<not> lt z y \<longrightarrow> \<not> lt z x)"

lemma strict_weak_key: "strict_weak (\<lambda>a b. (f a :: 'b :: linorder) < f b)" "strict_weak (\<lambda>a b. f a > f b)"
  by (auto simp: strict_weak_def)

lemma sorted_insert_less:
  assumes "strict_weak lt" "sorted_wrt (\<lambda>a b. \<not> lt b a) ys"
  shows "sorted_wrt (\<lambda>a b. \<not> lt b a) (insert_less lt x ys)"
  using assms(2)
proof (induction ys)
  case (Cons y ys)
  have set: "set (insert_less lt x ys) = insert x (set ys)"
    by (metis mset_insert_less set_mset_add_mset_insert set_mset_mset)
  show ?case
  proof (cases "lt y x")
    case True
    with assms(1) have "\<not> lt x y" unfolding strict_weak_def by blast
    with True Cons.IH Cons.prems set show ?thesis by simp
  next
    case False
    have "\<forall>z \<in> set ys. \<not> lt z x"
    proof
      fix z
      assume "z \<in> set ys"
      then have "\<not> lt z y" using Cons.prems by simp
      with False assms(1) show "\<not> lt z x" unfolding strict_weak_def by blast
    qed
    with False Cons.prems show ?thesis by simp
  qed
qed simp

lemma sorted_sort_slice: "strict_weak lt \<Longrightarrow> sorted_wrt (\<lambda>a b. \<not> lt b a) (sort_slice lt xs)"
  unfolding sort_slice_def by (induction xs) (auto intro: sorted_insert_less)

end
