(* ===== verification/Tenant_Cache.thy ===== *)
theory Tenant_Cache
  imports Go_Prelude
begin

text \<open>
  The tenant of a request (\<^verbatim>\<open>pkg/storage/tenant.go\<close>, \<^verbatim>\<open>pkg/storage/query.go\<close>) and the cache keyed
  by tenant (\<^verbatim>\<open>pkg/cache/tenant_cache.go\<close>) on which the rule engine, the driver cache and the
  provider-instance cache are built. The locale \<open>keyed_cache\<close> is the contract these three rely on;
  it is interpreted on the model of \<^verbatim>\<open>TenantCache\<close>. Every method of the Go type holds the cache's
  mutex for its whole body, so each is one atomic step here.
\<close>

section \<open>The tenant carried by a context\<close>

text \<open>A context matters to the modelled code only by the tenant stored in it; \<open>[]\<close> is none.\<close>

type_synonym ctx = string

definition background :: ctx where
  "background = []"

definition with_tenant :: "ctx \<Rightarrow> string \<Rightarrow> ctx" where
  "with_tenant c tenant_id =
     (let t = trim_space tenant_id in if t = [] then c else t)"

definition tenant_from_context :: "ctx \<Rightarrow> string" where
  "tenant_from_context c = trim_space c"

definition resolve_tenant :: "ctx \<Rightarrow> string \<Rightarrow> string" where
  "resolve_tenant c explicit =
     (let e = trim_space explicit in if e \<noteq> [] then e else tenant_from_context c)"

lemma tenant_with_tenant:
  "tenant_from_context (with_tenant c t) = (if trim_space t = [] then tenant_from_context c else trim_space t)"
  by (simp add: tenant_from_context_def with_tenant_def Let_def)

lemma tenant_background [simp]: "tenant_from_context background = []"
  by (simp add: tenant_from_context_def background_def)

lemma trim_tenant_from_context [simp]: "trim_space (tenant_from_context c) = tenant_from_context c"
  by (simp add: tenant_from_context_def)

section \<open>The cache\<close>

record 'v tenant_cache =
  tc_items :: "'v gmap"

definition new_tenant_cache :: "'v tenant_cache" where
  "new_tenant_cache = \<lparr>tc_items = []\<rparr>"

definition tc_get :: "'v tenant_cache \<Rightarrow> string \<Rightarrow> 'v option" where
  "tc_get c tenant_id = mget (tc_items c) tenant_id"

definition tc_set :: "string \<Rightarrow> 'v \<Rightarrow> 'v tenant_cache \<Rightarrow> 'v tenant_cache" where
  "tc_set tenant_id v c = c\<lparr>tc_items := mput tenant_id v (tc_items c)\<rparr>"

definition tc_delete :: "string \<Rightarrow> 'v tenant_cache \<Rightarrow> 'v tenant_cache" where
  "tc_delete tenant_id c = c\<lparr>tc_items := mdel tenant_id (tc_items c)\<rparr>"

text \<open>\<^verbatim>\<open>Range\<close> calls a function on every entry; the function is a state transformer here.\<close>

definition tc_range :: "(string \<Rightarrow> 'v \<Rightarrow> 's \<Rightarrow> 's) \<Rightarrow> 'v tenant_cache \<Rightarrow> 's \<Rightarrow> 's" where
  "tc_range fn c s = fold (\<lambda>(k, v). fn k v) (tc_items c) s"

definition tc_keys :: "'v tenant_cache \<Rightarrow> string list" where
  "tc_keys c = mkeys (tc_items c)"

definition tc_wf :: "'v tenant_cache \<Rightarrow> bool" where
  "tc_wf c \<longleftrightarrow> wf_map (tc_items c)"

section \<open>The contract of a cache keyed by tenant\<close>

locale keyed_cache =
  fixes empty :: "'c"
    and get :: "'c \<Rightarrow> string \<Rightarrow> 'v option"
    and put :: "string \<Rightarrow> 'v \<Rightarrow> 'c \<Rightarrow> 'c"
    and del :: "string \<Rightarrow> 'c \<Rightarrow> 'c"
    and keys :: "'c \<Rightarrow> string list"
  assumes get_empty: "get empty k = None"
    and get_put: "get (put k v c) k' = (if k' = k then Some v else get c k')"
    and get_del: "get (del k c) k' = (if k' = k then None else get c k')"
    and keys_get: "k \<in> set (keys c) \<longleftrightarrow> get c k \<noteq> None"
begin

lemma put_isolated: "k' \<noteq> k \<Longrightarrow> get (put k v c) k' = get c k'"
  by (simp add: get_put)

lemma del_isolated: "k' \<noteq> k \<Longrightarrow> get (del k c) k' = get c k'"
  by (simp add: get_del)

text \<open>Deleting a list of keys, as the \<^verbatim>\<open>Close\<close> and \<^verbatim>\<open>Refresh\<close> methods of the clients do.\<close>

lemma get_fold_del: "get (fold del ks c) k = (if k \<in> set ks then None else get c k)"
  by (induction ks arbitrary: c) (auto simp: get_del)

lemma fold_del_keys: "get (fold del (keys c) c) k = None"
  by (simp add: get_fold_del keys_get)

lemma get_fold_del_if:
  "get (fold (\<lambda>k. if P k then (\<lambda>c. c) else del k) ks c) k
     = (if k \<in> set ks \<and> \<not> P k then None else get c k)"
  by (induction ks arbitrary: c) (auto simp: get_del)

end

interpretation tc: keyed_cache new_tenant_cache tc_get tc_set tc_delete tc_keys
  by unfold_locales
     (simp_all add: new_tenant_cache_def tc_get_def tc_set_def tc_delete_def tc_keys_def
        mget_None_iff)

lemma tc_wf_ops [simp]:
  "tc_wf new_tenant_cache"
  "tc_wf c \<Longrightarrow> tc_wf (tc_set k v c)"
  "tc_wf c \<Longrightarrow> tc_wf (tc_delete k c)"
  by (simp_all add: tc_wf_def new_tenant_cache_def tc_set_def tc_delete_def)

declare tc.get_empty [simp] tc.get_put [simp] tc.get_del [simp]

end
