(* ===== verification/Go_Values.thy ===== *)
theory Go_Values
  imports Go_Prelude
begin

text \<open>
  The dynamic values of the program (\<^verbatim>\<open>interface{}\<close> as \<^verbatim>\<open>encoding/json\<close> fills it), their
  \<^verbatim>\<open>%v\<close> rendering and \<^verbatim>\<open>reflect.DeepEqual\<close>, the event of \<^verbatim>\<open>pkg/core/event.go\<close>, and
  \<^verbatim>\<open>Flatten\<close> of \<^verbatim>\<open>pkg/core/flatten.go\<close>.

  A \<^verbatim>\<open>float64\<close> is represented by its \<^verbatim>\<open>%v\<close> rendering, the shortest decimal that identifies it.
\<close>

section \<open>Values\<close>

datatype gval =
    VNil
  | VBool bool
  | VNum string
  | VStr string
  | VStrs "string list"
  | VList "gval list"
  | VMap "(string \<times> gval) list"

lemma size_map_value [termination_simp]:
  "(k, c) \<in> set m \<Longrightarrow> size c < Suc (size_list (size_prod (\<lambda>_. 0) size) m)"
  by (induction m) auto

lemma size_list_value [termination_simp]:
  "c \<in> set xs \<Longrightarrow> size c < Suc (size_list size xs)"
  by (induction xs) auto

lemma size_zip_value [termination_simp]:
  "(a, b) \<in> set (zip xs ys) \<Longrightarrow> size a < Suc (size_list size xs)"
  by (rule size_list_value) (rule set_zip_leftD)

lemma size_enum_value [termination_simp]:
  "(i, c) \<in> set (enumerate n xs) \<Longrightarrow> size c < Suc (size_list size xs)"
  by (rule size_list_value) (auto simp: enumerate_eq_zip dest: set_zip_rightD)

text \<open>\<^verbatim>\<open>fmt.Sprintf("%v", v)\<close>: a map prints its keys in order.\<close>

fun sprint_v :: "gval \<Rightarrow> string" where
  "sprint_v VNil = ''<nil>''"
| "sprint_v (VBool b) = (if b then ''true'' else ''false'')"
| "sprint_v (VNum s) = s"
| "sprint_v (VStr s) = s"
| "sprint_v (VStrs ss) = ''['' @ join_str '' '' ss @ '']''"
| "sprint_v (VList xs) = ''['' @ join_str '' '' (map sprint_v xs) @ '']''"
| "sprint_v (VMap m) =
     ''map['' @ join_str '' '' (map (\<lambda>(k, s). k @ '':'' @ s)
        (sort_key fst (map (\<lambda>(k, v). (k, sprint_v v)) m))) @ '']''"

text \<open>\<^verbatim>\<open>reflect.DeepEqual\<close>: maps compare by content; the floats 0 and -0 are equal.\<close>

definition num_eq :: "string \<Rightarrow> string \<Rightarrow> bool" where
  "num_eq a b \<longleftrightarrow> a = b \<or> (a \<in> {''0'', ''-0''} \<and> b \<in> {''0'', ''-0''})"

fun deep_equal :: "gval \<Rightarrow> gval \<Rightarrow> bool" where
  "deep_equal VNil w = (w = VNil)"
| "deep_equal (VBool a) w = (w = VBool a)"
| "deep_equal (VNum a) w = (case w of VNum b \<Rightarrow> num_eq a b | _ \<Rightarrow> False)"
| "deep_equal (VStr a) w = (w = VStr a)"
| "deep_equal (VStrs a) w = (w = VStrs a)"
| "deep_equal (VList xs) w =
     (case w of VList ys \<Rightarrow> length xs = length ys \<and> (\<forall>(x, y) \<in> set (zip xs ys). deep_equal x y)
      | _ \<Rightarrow> False)"
| "deep_equal (VMap m) w =
     (case w of VMap n \<Rightarrow> length m = length n \<and>
        (\<forall>(k, x) \<in> set m. case map_of n k of None \<Rightarrow> False | Some y \<Rightarrow> deep_equal x y)
      | _ \<Rightarrow> False)"

section \<open>Events\<close>

text \<open>
  \<^verbatim>\<open>core.Event\<close>. \<open>None\<close> is the nil map; \<open>VNil\<close> is the nil \<^verbatim>\<open>RawObject\<close>. A payload is the list
  of its bytes.
\<close>

record event =
  ev_provider :: string
  ev_provider_type :: string
  ev_name :: string
  ev_event_type :: string
  ev_action :: string
  ev_resource_type :: string
  ev_resource_id :: string
  ev_resource_name :: string
  ev_actor_id :: string
  ev_actor_name :: string
  ev_occurred_at :: string
  ev_request_id :: string
  ev_log_id :: string
  ev_headers :: "string list gmap option"
  ev_data :: "gval gmap option"
  ev_raw_payload :: string
  ev_raw_object :: gval
  ev_state_id :: string
  ev_tenant_id :: string
  ev_installation_id :: string
  ev_instance_key :: string
  ev_namespace_id :: string
  ev_namespace_name :: string

definition zero_event :: event where
  "zero_event =
     \<lparr>ev_provider = [], ev_provider_type = [], ev_name = [], ev_event_type = [], ev_action = [],
      ev_resource_type = [], ev_resource_id = [], ev_resource_name = [], ev_actor_id = [],
      ev_actor_name = [], ev_occurred_at = [], ev_request_id = [], ev_log_id = [],
      ev_headers = None, ev_data = None, ev_raw_payload = [], ev_raw_object = VNil,
      ev_state_id = [], ev_tenant_id = [], ev_installation_id = [], ev_instance_key = [],
      ev_namespace_id = [], ev_namespace_name = []\<rparr>"

section \<open>Flatten\<close>

definition field_path :: "string \<Rightarrow> string \<Rightarrow> string" where
  "field_path p k = p @ ''.'' @ k"

definition index_path :: "string \<Rightarrow> nat \<Rightarrow> string" where
  "index_path p i = p @ ''['' @ itoa (int i) @ '']''"

fun flatten_into :: "string \<Rightarrow> gval \<Rightarrow> gval gmap \<Rightarrow> gval gmap" where
  "flatten_into p (VMap m) out = fold (\<lambda>(k, c). flatten_into (field_path p k) c) m out"
| "flatten_into p (VList xs) out =
     fold (\<lambda>(i, c). flatten_into (index_path p i) c) (enumerate 0 xs)
       (mput (p @ ''[]'') (VList xs) (mput p (VList xs) out))"
| "flatten_into p v out = mput p v out"

definition flatten :: "gval gmap \<Rightarrow> gval gmap" where
  "flatten data = fold (\<lambda>(k, v). flatten_into k v) data []"

text \<open>
  The specification: the entries a value contributes, as one list. A leaf contributes itself, an
  array contributes itself twice (under its path and under the path with brackets) and its
  elements, an object only its members.
\<close>

fun entries :: "string \<Rightarrow> gval \<Rightarrow> (string \<times> gval) list" where
  "entries p (VMap m) = concat (map (\<lambda>(k, c). entries (field_path p k) c) m)"
| "entries p (VList xs) =
     (p, VList xs) # (p @ ''[]'', VList xs) #
       concat (map (\<lambda>(i, c). entries (index_path p i) c) (enumerate 0 xs))"
| "entries p v = [(p, v)]"

definition all_entries :: "gval gmap \<Rightarrow> (string \<times> gval) list" where
  "all_entries data = concat (map (\<lambda>(k, v). entries k v) data)"

lemma fold_mput_all:
  "(\<And>x out. x \<in> set xs \<Longrightarrow> f x out = mput_all (g x) out) \<Longrightarrow>
     fold f xs out = mput_all (concat (map g xs)) out"
  by (induction xs arbitrary: out) (auto simp: mput_all_append)

lemma flatten_into_entries: "flatten_into p v out = mput_all (entries p v) out"
proof (induction p v out rule: flatten_into.induct)
  case (1 p m out)
  show ?case
    by (simp, rule fold_mput_all) (use 1 in \<open>auto split: prod.splits\<close>)
next
  case (2 p xs out)
  show ?case
    by (simp, rule fold_mput_all) (use 2 in \<open>auto split: prod.splits\<close>)
qed auto

lemma flatten_eq_mput_all: "flatten data = mput_all (all_entries data) []"
  unfolding flatten_def all_entries_def
  by (rule fold_mput_all) (auto simp: flatten_into_entries)

lemma wf_map_flatten: "wf_map (flatten data)"
  by (simp add: flatten_eq_mput_all)

lemma mset_all_entries: "mset data = mset data' \<Longrightarrow> mset (all_entries data) = mset (all_entries data')"
proof -
  have "mset (all_entries d) = sum_mset (image_mset (\<lambda>(k, v). mset (entries k v)) (mset d))" for d
    by (induction d) (auto simp: all_entries_def)
  then show "mset data = mset data' \<Longrightarrow> ?thesis" by simp
qed

lemma flatten_dom: "set (mkeys (flatten data)) = fst ` set (all_entries data)"
proof -
  have "set (mkeys (mput_all kvs m)) = set (mkeys m) \<union> fst ` set kvs" for kvs and m :: "gval gmap"
  proof (induction kvs arbitrary: m)
    case (Cons kv kvs)
    then show ?case by (cases kv) (simp add: Un_assoc)
  qed simp
  then show ?thesis by (simp add: flatten_eq_mput_all mkeys_def)
qed

text \<open>
  \<^verbatim>\<open>Flatten\<close> loses nothing and invents nothing. When no two parts of the payload
  render to the same dotted path, looking a path up in the flattened map gives exactly the value
  that the payload holds at that path (and nothing for a path it does not hold), in whatever order
  Go ranges over the maps involved.
\<close>

theorem flatten_lookup:
  assumes "distinct (map fst (all_entries data))" and "mset data' = mset data"
  shows "mget (flatten data') path = map_of (all_entries data) path"
proof -
  have m: "mset (all_entries data') = mset (all_entries data)"
    using assms(2) by (rule mset_all_entries)
  then have d: "distinct (map fst (all_entries data'))"
    using assms(1) by (metis mset_eq_imp_distinct_iff mset_map)
  from m have "set (all_entries data') = set (all_entries data)"
    by (rule mset_eq_setD)
  with d assms(1) have "map_of (all_entries data') = map_of (all_entries data)"
    by (simp add: map_of_inject_set)
  with d show ?thesis
    by (simp add: flatten_eq_mput_all mget_mput_all_distinct split: option.splits)
qed

theorem flatten_lookup_witness:
  "mget (flatten [(''b'', VBool True), (''a'', VList [VMap [(''x'', VStr ''y'')]])]) ''a[0].x''
     = Some (VStr ''y'')"
proof -
  let ?d = "[(''a'', VList [VMap [(''x'', VStr ''y'')]]), (''b'', VBool True)]"
  have d: "distinct (map fst (all_entries ?d))"
    by code_simp
  have "map_of (all_entries ?d) ''a[0].x'' = Some (VStr ''y'')"
    by code_simp
  then show ?thesis
    using flatten_lookup [OF d, of "[(''b'', VBool True), (''a'', VList [VMap [(''x'', VStr ''y'')]])]" "''a[0].x''"]
    by simp
qed

text \<open>
  The hypothesis of the previous property is needed: a payload in which a member name
  contains a dot can render two values to one path, and then the flattened value depends on the
  order in which Go ranges over the map, which the language leaves open.
\<close>

theorem flatten_order_dependent:
  "mget (flatten [(''a'', VMap [(''b'', VNum ''1'')]), (''a.b'', VNum ''2'')]) ''a.b'' = Some (VNum ''2'')
   \<and> mget (flatten [(''a.b'', VNum ''2''), (''a'', VMap [(''b'', VNum ''1'')])]) ''a.b'' = Some (VNum ''1'')"
  by code_simp

end
