(* ===== verification/Rule_Rewrite.thy ===== *)
theory Rule_Rewrite
  imports Go_Prelude
begin

text \<open>
  \<^verbatim>\<open>pkg/core/rules_rewrite.go\<close>: rewriting the paths of a rule expression into variables the
  expression library accepts. The Go loops run an index over the expression; here they run over
  the rest of the expression, and a local buffer is an accumulator. The reference definition
  \<open>lex_expr\<close> splits an expression into tokens, and the rewriter is shown to be a token-wise map.
\<close>

section \<open>Character classes and keywords\<close>

definition is_ident_start :: "char \<Rightarrow> bool" where
  "is_ident_start ch \<longleftrightarrow>
     (let n = (of_char ch :: nat)
      in (97 \<le> n \<and> n \<le> 122) \<or> (65 \<le> n \<and> n \<le> 90) \<or> ch = CHR ''_'')"

definition is_ident_char :: "char \<Rightarrow> bool" where
  "is_ident_char ch \<longleftrightarrow> is_ident_start ch \<or> is_digit ch"

definition is_terminator :: "char \<Rightarrow> bool" where
  "is_terminator ch \<longleftrightarrow>
     ch \<in> {CHR '' '', CHR 0x09, CHR 0x0A, CHR 0x0D, CHR '','', CHR '';''} \<or>
     ch \<in> {CHR ''+'', CHR ''-'', CHR ''*'', CHR ''/'', CHR ''%''} \<or>
     ch \<in> {CHR ''='', CHR ''!'', CHR ''<'', CHR ''>'', CHR ''&'', CHR ''|''} \<or>
     ch = CHR '')''"

definition is_keyword :: "string \<Rightarrow> bool" where
  "is_keyword token \<longleftrightarrow> token \<in> {''true'', ''false'', ''null''}"

definition is_function_name :: "string \<Rightarrow> bool" where
  "is_function_name token \<longleftrightarrow> token \<in> {''contains'', ''like''}"

definition safe_var_name :: "string \<Rightarrow> string" where
  "safe_var_name token = ''v_'' @ map (\<lambda>ch. if is_ident_char ch then ch else CHR ''_'') token"

section \<open>The scanners\<close>

definition parse_identifier :: "string \<Rightarrow> string \<times> string" where
  "parse_identifier s = (takeWhile is_ident_char s, dropWhile is_ident_char s)"

fun next_non_space_is :: "string \<Rightarrow> char \<Rightarrow> bool" where
  "next_non_space_is [] want = False"
| "next_non_space_is (c # s) want =
     (if c \<in> {CHR '' '', CHR 0x09, CHR 0x0A, CHR 0x0D} then next_non_space_is s want else c = want)"

text \<open>
  \<open>bd\<close> and \<open>pd\<close> are \<^verbatim>\<open>bracketDepth\<close> and \<^verbatim>\<open>parenDepth\<close>; \<open>q\<close> is \<^verbatim>\<open>quote\<close>, \<open>None\<close> for 0. The result
  is the token and the rest of the expression.
\<close>

fun parse_path :: "nat \<Rightarrow> nat \<Rightarrow> char option \<Rightarrow> string \<Rightarrow> string \<times> string" where
  "parse_path bd pd q [] = ([], [])"
| "parse_path bd pd (Some u) (c # s) =
     (if c = CHR 0x5C \<and> s \<noteq> [] then
        (let (t, r) = parse_path bd pd (Some u) (tl s) in (c # hd s # t, r))
      else
        (let (t, r) = parse_path bd pd (if c = u then None else Some u) s in (c # t, r)))"
| "parse_path bd pd None (c # s) =
     (if c = CHR 0x27 \<or> c = CHR 0x22 then
        (let (t, r) = parse_path bd pd (Some c) s in (c # t, r))
      else
        let bd' = (if c = CHR ''['' then bd + 1 else if c = CHR '']'' then bd - 1 else bd);
            pd' = (if c = CHR ''('' then (if 0 < bd then pd + 1 else pd)
                   else if c = CHR '')'' then pd - 1 else pd)
        in if bd' = 0 \<and> pd' = 0 \<and> is_terminator c then ([], c # s)
           else (let (t, r) = parse_path bd' pd' None s in (c # t, r)))"

definition parse_json_path_token :: "string \<Rightarrow> string \<times> string" where
  "parse_json_path_token s = parse_path 0 0 None s"

lemma parse_path_concat [simp]: "fst (parse_path bd pd q s) @ snd (parse_path bd pd q s) = s"
proof (induction bd pd q s rule: parse_path.induct)
  case (2 bd pd u c s)
  then show ?case by (cases s) (auto simp: case_prod_beta)
qed (auto simp: Let_def case_prod_beta)

lemma parse_path_append: "parse_path bd pd q s = (t, r) \<Longrightarrow> t @ r = s"
  using parse_path_concat [of bd pd q s] by simp

lemma length_parse_path: "length (snd (parse_path bd pd q s)) \<le> length s"
  by (metis length_append le_add2 parse_path_concat)

lemma starter_not_special:
  assumes "c = CHR ''$'' \<or> is_ident_start c"
  shows "\<not> is_terminator c" "c \<noteq> CHR 0x27" "c \<noteq> CHR 0x22" "c \<noteq> CHR ''[''"
    "c \<noteq> CHR '']''" "c \<noteq> CHR ''(''" "c \<noteq> CHR '')''"
  using assms by (auto simp: is_terminator_def is_ident_start_def)

lemma parse_token_Cons:
  assumes "c = CHR ''$'' \<or> is_ident_start c"
  shows "parse_json_path_token (c # s) = (c # fst (parse_path 0 0 None s), snd (parse_path 0 0 None s))"
  using starter_not_special [OF assms]
  by (simp add: parse_json_path_token_def split: prod.splits)

lemma parse_token_shorter:
  "(t, r) = parse_json_path_token (c # s) \<Longrightarrow> c = CHR ''$'' \<or> is_ident_start c \<Longrightarrow>
     length r < Suc (length s)"
  by (simp add: parse_token_Cons length_parse_path less_Suc_eq_le)

lemma parse_identifier_shorter:
  "(t, r) = parse_identifier (c # s) \<Longrightarrow> is_ident_start c \<Longrightarrow> length r < Suc (length s)"
  by (simp add: parse_identifier_def is_ident_char_def length_dropWhile_le less_Suc_eq_le)

section \<open>The rewriter\<close>

definition token_path :: "string \<Rightarrow> string" where
  "token_path token = (if hd token \<noteq> CHR ''$'' then ''$.'' @ token else token)"

text \<open>
  \<open>q\<close> is \<^verbatim>\<open>inString\<close> with \<^verbatim>\<open>stringQuote\<close>; \<open>out\<close> and \<open>vm\<close> are the builder and the variable map.
\<close>

function rewrite_loop :: "char option \<Rightarrow> string \<Rightarrow> string \<Rightarrow> string gmap \<Rightarrow> string \<times> string gmap" where
  "rewrite_loop q [] out vm = (out, vm)"
| "rewrite_loop (Some u) (ch # s) out vm =
     (if ch = CHR 0x5C \<and> s \<noteq> [] then rewrite_loop (Some u) (tl s) (out @ [ch, hd s]) vm
      else rewrite_loop (if ch = u then None else Some u) s (out @ [ch]) vm)"
| "rewrite_loop None (ch # s) out vm =
     (if ch = CHR 0x22 \<or> ch = CHR 0x27 then rewrite_loop (Some ch) s (out @ [ch]) vm
      else if ch = CHR ''$'' \<or> is_ident_start ch then
        (let (ident, nxt) = parse_identifier (ch # s)
         in if is_ident_start ch \<and> is_function_name ident \<and> next_non_space_is nxt (CHR ''('')
            then rewrite_loop None nxt (out @ ident) vm
            else
              (let (token, nxt) = parse_json_path_token (ch # s)
               in if is_keyword token then rewrite_loop None nxt (out @ token) vm
                  else let path = token_path token; safe = safe_var_name path
                       in rewrite_loop None nxt (out @ safe) (mput safe path vm)))
      else rewrite_loop None s (out @ [ch]) vm)"
  by pat_completeness auto
termination
  by (relation "measure (\<lambda>(q, s, out, vm). length s)")
     (auto dest: parse_token_shorter parse_identifier_shorter)

definition rewrite_expression :: "string \<Rightarrow> string \<times> string gmap" where
  "rewrite_expression expr = rewrite_loop None expr [] []"

section \<open>The reference: a lexer and a token-wise rendering\<close>

text \<open>
  \<open>Quoted\<close> bytes lie inside a string literal, \<open>Call\<close> is the name of a rule function in front of its
  parenthesis, \<open>Keyword\<close> one of the three constants, \<open>Path\<close> a field reference, \<open>Other\<close> any other byte.
\<close>

datatype tok = Quoted string | Call string | Keyword string | Path string | Other char

function lex_expr :: "char option \<Rightarrow> string \<Rightarrow> tok list" where
  "lex_expr q [] = []"
| "lex_expr (Some u) (ch # s) =
     (if ch = CHR 0x5C \<and> s \<noteq> [] then Quoted [ch, hd s] # lex_expr (Some u) (tl s)
      else Quoted [ch] # lex_expr (if ch = u then None else Some u) s)"
| "lex_expr None (ch # s) =
     (if ch = CHR 0x22 \<or> ch = CHR 0x27 then Quoted [ch] # lex_expr (Some ch) s
      else if ch = CHR ''$'' \<or> is_ident_start ch then
        (let (ident, nxt) = parse_identifier (ch # s)
         in if is_ident_start ch \<and> is_function_name ident \<and> next_non_space_is nxt (CHR ''('')
            then Call ident # lex_expr None nxt
            else
              (let (token, nxt) = parse_json_path_token (ch # s)
               in (if is_keyword token then Keyword token else Path token) # lex_expr None nxt))
      else Other ch # lex_expr None s)"
  by pat_completeness auto
termination
  by (relation "measure (\<lambda>(q, s). length s)")
     (auto dest: parse_token_shorter parse_identifier_shorter)

fun tok_src :: "tok \<Rightarrow> string" where
  "tok_src (Quoted s) = s"
| "tok_src (Call s) = s"
| "tok_src (Keyword s) = s"
| "tok_src (Path s) = s"
| "tok_src (Other c) = [c]"

fun tok_out :: "tok \<Rightarrow> string" where
  "tok_out (Path s) = safe_var_name (token_path s)"
| "tok_out t = tok_src t"

fun tok_paths :: "tok \<Rightarrow> string list" where
  "tok_paths (Path s) = [token_path s]"
| "tok_paths t = []"

definition expr_paths :: "string \<Rightarrow> string list" where
  "expr_paths expr = concat (map tok_paths (lex_expr None expr))"

definition safe_entries :: "string list \<Rightarrow> (string \<times> string) list" where
  "safe_entries ps = map (\<lambda>p. (safe_var_name p, p)) ps"

lemma parse_identifier_concat: "parse_identifier s = (t, r) \<Longrightarrow> t @ r = s"
  by (auto simp: parse_identifier_def)

lemma parse_token_concat: "parse_json_path_token s = (t, r) \<Longrightarrow> t @ r = s"
  by (auto simp: parse_json_path_token_def intro: parse_path_append)

lemma lex_src: "concat (map tok_src (lex_expr q s)) = s"
proof (induction q s rule: lex_expr.induct)
  case (3 ch s)
  obtain i n where i: "parse_identifier (ch # s) = (i, n)" by fastforce
  obtain t r where t: "parse_json_path_token (ch # s) = (t, r)" by fastforce
  have "i @ n = ch # s" "t @ r = ch # s"
    using i t by (auto dest: parse_identifier_concat parse_token_concat)
  with 3 i t show ?case by (cases "ch = CHR ''$''") (simp_all split: if_splits)
qed auto

lemma rewrite_loop_lex:
  "rewrite_loop q s out vm =
     (out @ concat (map tok_out (lex_expr q s)),
      mput_all (safe_entries (concat (map tok_paths (lex_expr q s)))) vm)"
proof (induction q s out vm rule: rewrite_loop.induct)
  case (3 ch s out vm)
  obtain i n where i: "parse_identifier (ch # s) = (i, n)" by fastforce
  obtain t r where t: "parse_json_path_token (ch # s) = (t, r)" by fastforce
  from 3 i t show ?case
    by (cases "ch = CHR ''$''") (simp_all add: safe_entries_def Let_def split: if_splits)
qed (auto simp: safe_entries_def)

text \<open>
  C6: \<^verbatim>\<open>rewriteExpression\<close> is lossless outside the paths. The expression is cut into
  consecutive tokens that together spell it; string literals, function names in front of a
  parenthesis, the constants and every other byte are copied, each path is replaced by its
  variable name, and the variable map holds exactly the paths met, the later one winning when two
  have the same name.
\<close>

theorem rewrite_expression_tokens:
  "concat (map tok_src (lex_expr None expr)) = expr
   \<and> fst (rewrite_expression expr) = concat (map tok_out (lex_expr None expr))
   \<and> snd (rewrite_expression expr) = mput_all (safe_entries (expr_paths expr)) []"
  by (simp add: rewrite_expression_def rewrite_loop_lex lex_src expr_paths_def)

text \<open>
  C7: evaluating a rewritten rule reads the fields its author wrote. When the paths of an
  expression have pairwise different variable names, the variable map sends the variable of each
  path of the expression back to that path.
\<close>

theorem rewrite_resolves_paths:
  assumes "inj_on safe_var_name (set (expr_paths expr))" and "path \<in> set (expr_paths expr)"
  shows "mget (snd (rewrite_expression expr)) (safe_var_name path) = Some path"
proof -
  let ?vm = "mput_all (safe_entries (expr_paths expr)) []"
  have "\<forall>kv \<in> set (rev (safe_entries (expr_paths expr))). \<exists>p \<in> set (expr_paths expr). kv = (safe_var_name p, p)"
    by (auto simp: safe_entries_def)
  moreover have "safe_var_name path \<in> fst ` set (rev (safe_entries (expr_paths expr)))"
    using assms(2) by (force simp: safe_entries_def)
  then obtain v where v: "map_of (rev (safe_entries (expr_paths expr))) (safe_var_name path) = Some v"
    by (metis map_of_eq_None_iff not_None_eq)
  ultimately obtain p where "p \<in> set (expr_paths expr)" "safe_var_name p = safe_var_name path" "v = p"
    by (metis map_of_SomeD prod.inject)
  with assms have "v = path" by (auto dest: inj_onD)
  with v show ?thesis
    using rewrite_expression_tokens [of expr] by (simp add: mget_mput_all)
qed

theorem rewrite_resolves_paths_witness:
  "mget (snd (rewrite_expression ''action == 1 && $.pull_request.draft == false''))
     ''v___pull_request_draft'' = Some ''$.pull_request.draft''"
proof -
  let ?e = "''action == 1 && $.pull_request.draft == false''"
  have p: "expr_paths ?e = [''$.action'', ''$.pull_request.draft'']"
    by code_simp
  have s: "safe_var_name ''$.action'' = ''v___action''"
    "safe_var_name ''$.pull_request.draft'' = ''v___pull_request_draft''"
    by code_simp+
  have "inj_on safe_var_name (set (expr_paths ?e))"
    by (simp add: p s)
  then show ?thesis
    using rewrite_resolves_paths [of ?e "''$.pull_request.draft''"] by (simp add: p s)
qed

text \<open>
  Two different paths can get one variable name, and then the earlier comparison silently
  reads the field of the later one: a rule that compares \<^verbatim>\<open>a.b\<close> with 1 and \<^verbatim>\<open>a_b\<close> with 2 is
  compiled to an expression that reads \<^verbatim>\<open>$.a_b\<close> in both places.
\<close>

theorem rewrite_collision:
  "rewrite_expression ''a.b == 1 && a_b == 2'' =
     (''v___a_b == 1 && v___a_b == 2'', [(''v___a_b'', ''$.a_b'')])"
  by code_simp

end
