(* ===== verification/Rule_Functions.thy ===== *)
theory Rule_Functions
  imports Go_Values
begin

text \<open>
  \<^verbatim>\<open>pkg/core/rules_functions.go\<close>: the functions \<^verbatim>\<open>contains\<close> and \<^verbatim>\<open>like\<close> of the rule language.
  Of the standard library it models \<^verbatim>\<open>utf8.DecodeRune\<close> and the fragment of \<^verbatim>\<open>regexp\<close> that
  \<^verbatim>\<open>likePatternToRegex\<close> can produce (anchors, escaped and plain literals, \<^verbatim>\<open>.\<close> and \<^verbatim>\<open>.*\<close>); a
  regular expression outside the fragment is an error of the model, which is shown not to occur.
\<close>

text \<open>A call returns, fails with an error, or panics.\<close>

datatype 'a outcome = Return 'a | Fails go_error | Panics string

section \<open>contains\<close>

definition slice_contains :: "gval list \<Rightarrow> gval \<Rightarrow> bool" where
  "slice_contains values needle = list_ex (\<lambda>item. deep_equal item needle) values"

text \<open>
  \<^verbatim>\<open>Value.MapIndex\<close> panics when the key's type is not that of the map's keys; all maps of the
  program have string keys.
\<close>

fun reflect_contains :: "gval \<Rightarrow> gval \<Rightarrow> bool outcome" where
  "reflect_contains (VList xs) needle = Return (slice_contains xs needle)"
| "reflect_contains (VStrs ss) needle = Return (slice_contains (map VStr ss) needle)"
| "reflect_contains (VMap m) (VStr k) = Return (mget m k \<noteq> None)"
| "reflect_contains (VMap m) VNil = Return False"
| "reflect_contains (VMap m) needle = Panics ''reflect.Value.MapIndex''"
| "reflect_contains hay needle = Return False"

text \<open>A single slice argument with at least two elements is the argument list.\<close>

fun unpack_args :: "gval list \<Rightarrow> gval list" where
  "unpack_args [VList xs] = (if 2 \<le> length xs then xs else [VList xs])"
| "unpack_args [VStrs ss] = (if 2 \<le> length ss then map VStr ss else [VStrs ss])"
| "unpack_args args = args"

fun map_outcome :: "('a \<Rightarrow> 'b) \<Rightarrow> 'a outcome \<Rightarrow> 'b outcome" where
  "map_outcome f (Return x) = Return (f x)"
| "map_outcome f (Fails e) = Fails e"
| "map_outcome f (Panics s) = Panics s"

definition contains_func :: "gval list \<Rightarrow> gval outcome" where
  "contains_func args0 =
     (let args = unpack_args args0 in
      if args = [] then Fails (Error ''contains expects 2 args, got 0'')
      else if 2 < length args then
        Return (VBool (slice_contains (butlast args) (last args)))
      else if length args \<noteq> 2 then
        Fails (Error (''contains expects 2 args, got '' @ itoa (int (length args))))
      else if args ! 0 = VNil \<or> args ! 1 = VNil then Return (VBool False)
      else
        (case args ! 0 of
           VStr hay \<Rightarrow>
             (case args ! 1 of
                VStr needle \<Rightarrow> Return (VBool (str_contains hay needle))
              | _ \<Rightarrow> Return (VBool False))
         | VList hay \<Rightarrow> Return (VBool (slice_contains hay (args ! 1)))
         | VStrs hay \<Rightarrow>
             (case args ! 1 of
                VStr needle \<Rightarrow> Return (VBool (needle \<in> set hay))
              | _ \<Rightarrow> Return (VBool False))
         | hay \<Rightarrow> map_outcome VBool (reflect_contains hay (args ! 1))))"

text \<open>
  \<^verbatim>\<open>contains\<close> on two arguments decides substring for strings, membership for
  arrays and presence of a key for objects, is false for a null argument, and panics exactly when
  an object is asked for something that is neither a string nor null.
\<close>

theorem contains_two_args:
  "contains_func [hay, needle] =
     (case (hay, needle) of
        (VNil, _) \<Rightarrow> Return (VBool False)
      | (_, VNil) \<Rightarrow> Return (VBool False)
      | (VStr h, VStr n) \<Rightarrow> Return (VBool (sublist n h))
      | (VList xs, n) \<Rightarrow> Return (VBool (\<exists>x \<in> set xs. deep_equal x n))
      | (VStrs ss, VStr n) \<Rightarrow> Return (VBool (n \<in> set ss))
      | (VMap m, VStr k) \<Rightarrow> Return (VBool (k \<in> set (mkeys m)))
      | (VMap m, _) \<Rightarrow> Panics ''reflect.Value.MapIndex''
      | _ \<Rightarrow> Return (VBool False))"
  by (cases hay; cases needle)
     (simp_all add: contains_func_def Let_def slice_contains_def list_ex_iff str_contains_sublist
        mget_None_iff)

section \<open>Runes\<close>

definition str_bytes :: "string \<Rightarrow> nat list" where
  "str_bytes s = map of_char s"

definition cont_byte :: "nat \<Rightarrow> bool" where
  "cont_byte b \<longleftrightarrow> 128 \<le> b \<and> b \<le> 191"

text \<open>
  \<^verbatim>\<open>utf8.DecodeRune\<close>: the rune, the number of bytes it takes, and whether the encoding was valid;
  an invalid byte decodes to U+FFFD with width 1.
\<close>

fun decode_rune :: "nat list \<Rightarrow> nat \<times> nat \<times> bool" where
  "decode_rune [] = (65533, 0, False)"
| "decode_rune (b # s) =
     (if b < 128 then (b, 1, True)
      else if 194 \<le> b \<and> b \<le> 223 then
        (case s of
           b1 # _ \<Rightarrow> if cont_byte b1 then ((b - 192) * 64 + (b1 - 128), 2, True) else (65533, 1, False)
         | _ \<Rightarrow> (65533, 1, False))
      else if 224 \<le> b \<and> b \<le> 239 then
        (case s of
           b1 # b2 # _ \<Rightarrow>
             if (if b = 224 then 160 else 128) \<le> b1 \<and> b1 \<le> (if b = 237 then 159 else 191) \<and> cont_byte b2
             then ((b - 224) * 4096 + (b1 - 128) * 64 + (b2 - 128), 3, True) else (65533, 1, False)
         | _ \<Rightarrow> (65533, 1, False))
      else if 240 \<le> b \<and> b \<le> 244 then
        (case s of
           b1 # b2 # b3 # _ \<Rightarrow>
             if (if b = 240 then 144 else 128) \<le> b1 \<and> b1 \<le> (if b = 244 then 143 else 191)
                \<and> cont_byte b2 \<and> cont_byte b3
             then ((b - 240) * 262144 + (b1 - 128) * 4096 + (b2 - 128) * 64 + (b3 - 128), 4, True)
             else (65533, 1, False)
         | _ \<Rightarrow> (65533, 1, False))
      else (65533, 1, False))"

lemma decode_width: "0 < fst (snd (decode_rune (b # s)))"
  by (auto split: list.splits)

function decode_all :: "nat list \<Rightarrow> (nat \<times> bool) list" where
  "decode_all [] = []"
| "decode_all (b # s) =
     (let (r, w, ok) = decode_rune (b # s) in (r, ok) # decode_all (drop w (b # s)))"
  by pat_completeness auto
termination
proof (relation "measure length", goal_cases)
  case (2 b s x r y w ok)
  then have "0 < w" using decode_width [of b s] by (metis fst_conv snd_conv)
  then show ?case by simp
qed simp

declare decode_rune.simps [simp del]
declare decode_all.simps(2) [simp del]

definition runes :: "string \<Rightarrow> nat list" where
  "runes s = map fst (decode_all (str_bytes s))"

definition valid_utf8 :: "string \<Rightarrow> bool" where
  "valid_utf8 s = list_all snd (decode_all (str_bytes s))"

lemma decode_all_ascii: "\<forall>b \<in> set a. b < 128 \<Longrightarrow> decode_all (a @ t) = map (\<lambda>b. (b, True)) a @ decode_all t"
  by (induction a) (auto simp: decode_all.simps decode_rune.simps)

text \<open>A valid encoding of more than one byte consists of bytes outside ASCII and is context free.\<close>

lemma decode_rune_multi:
  assumes "decode_rune (b # s) = (r, w, True)" and "128 \<le> b"
  obtains p where "b # s = p @ drop w (b # s)" "\<forall>x \<in> set p. 128 \<le> x" "128 \<le> r"
    "\<And>t. decode_rune (p @ t) = (r, w, True) \<and> length p = w" "p \<noteq> []"
proof
  show "b # s = take w (b # s) @ drop w (b # s)" by simp
  show "\<forall>x \<in> set (take w (b # s)). 128 \<le> x"
    using assms by (auto simp: decode_rune.simps cont_byte_def split: if_splits list.splits)
  show "128 \<le> r"
    using assms by (auto simp: decode_rune.simps cont_byte_def split: if_splits list.splits)
  show "decode_rune (take w (b # s) @ t) = (r, w, True) \<and> length (take w (b # s)) = w" for t
    using assms by (auto simp: decode_rune.simps cont_byte_def split: if_splits list.splits)
  show "take w (b # s) \<noteq> []"
    using assms decode_width [of b s] by simp
qed

section \<open>like\<close>

definition is_meta :: "char \<Rightarrow> bool" where
  "is_meta c \<longleftrightarrow> c \<in> {CHR 0x5C, CHR ''.'', CHR ''+'', CHR ''*'', CHR ''?'', CHR ''('', CHR '')'', CHR ''|'',
      CHR ''['', CHR '']'', CHR ''{'', CHR ''}'', CHR ''^'', CHR ''$''}"

text \<open>\<^verbatim>\<open>regexp.QuoteMeta\<close>.\<close>

definition quote_meta :: "string \<Rightarrow> string" where
  "quote_meta s = concat (map (\<lambda>c. if is_meta c then [CHR 0x5C, c] else [c]) s)"

definition like_pattern_to_regex :: "string \<Rightarrow> string" where
  "like_pattern_to_regex pattern =
     (let escaped = quote_meta pattern;
          escaped = replace_byte escaped (CHR ''%'') ''.*'';
          escaped = replace_byte escaped (CHR ''_'') ''.''
      in ''^'' @ escaped @ ''$'')"

text \<open>The regular expressions of the fragment, as items between the two anchors.\<close>

datatype re_item = RLit nat | RAny | RStar

definition meta_runes :: "nat list" where
  "meta_runes = [92, 46, 43, 42, 63, 40, 41, 124, 91, 93, 123, 125, 94, 36]"

fun parse_items :: "nat list \<Rightarrow> re_item list option" where
  "parse_items [] = None"
| "parse_items (c # s) =
     (if c = 36 \<and> s = [] then Some []
      else if c = 92 then
        (case s of [] \<Rightarrow> None | d # s' \<Rightarrow> if d \<in> set meta_runes then map_option (Cons (RLit d)) (parse_items s') else None)
      else if c = 46 then
        (case s of
           d # s' \<Rightarrow> if d = 42 then map_option (Cons RStar) (parse_items s') else map_option (Cons RAny) (parse_items s)
         | [] \<Rightarrow> None)
      else if c \<in> set meta_runes then None
      else map_option (Cons (RLit c)) (parse_items s))"

text \<open>Without flags, \<^verbatim>\<open>.\<close> matches every rune but the newline, and \<^verbatim>\<open>$\<close> only the end of the text.\<close>

fun re_match :: "re_item list \<Rightarrow> nat list \<Rightarrow> bool" where
  "re_match [] xs = (xs = [])"
| "re_match (RLit c # ps) xs = (case xs of [] \<Rightarrow> False | x # xs' \<Rightarrow> x = c \<and> re_match ps xs')"
| "re_match (RAny # ps) xs = (case xs of [] \<Rightarrow> False | x # xs' \<Rightarrow> x \<noteq> 10 \<and> re_match ps xs')"
| "re_match (RStar # ps) [] = re_match ps []"
| "re_match (RStar # ps) (x # xs) = (re_match ps (x # xs) \<or> (x \<noteq> 10 \<and> re_match (RStar # ps) xs))"

definition regexp_match_string :: "string \<Rightarrow> string \<Rightarrow> bool res" where
  "regexp_match_string regex s =
     (if \<not> valid_utf8 regex then Inl (Error ''error parsing regexp: invalid UTF-8'')
      else
        (case runes regex of
           c # rest \<Rightarrow>
             (case (if c = 94 then parse_items rest else None) of
                Some items \<Rightarrow> Inr (re_match items (runes s))
              | None \<Rightarrow> Inl (Error ''regexp outside the modelled fragment''))
         | [] \<Rightarrow> Inl (Error ''regexp outside the modelled fragment'')))"

definition like_func :: "gval list \<Rightarrow> gval outcome" where
  "like_func args =
     (case args of
        [l, p] \<Rightarrow>
          (case l of
             VStr left \<Rightarrow>
               (case p of
                  VStr pattern \<Rightarrow>
                    (case regexp_match_string (like_pattern_to_regex pattern) left of
                       Inl e \<Rightarrow> Fails e
                     | Inr b \<Rightarrow> Return (VBool b))
                | _ \<Rightarrow> Return (VBool False))
           | _ \<Rightarrow> Return (VBool False))
      | _ \<Rightarrow> Fails (Error ''like expects 2 args''))"

text \<open>The specification: SQL's \<^verbatim>\<open>LIKE\<close> on runes.\<close>

fun sql_like :: "nat list \<Rightarrow> nat list \<Rightarrow> bool" where
  "sql_like [] xs = (xs = [])"
| "sql_like (p # ps) [] = (p = 37 \<and> sql_like ps [])"
| "sql_like (p # ps) (x # xs) =
     (if p = 37 then sql_like ps (x # xs) \<or> sql_like (p # ps) xs
      else if p = 95 then sql_like ps xs
      else p = x \<and> sql_like ps xs)"

definition esc_rune :: "nat \<Rightarrow> nat list" where
  "esc_rune b = (if b \<in> set meta_runes then [92, b] else if b = 37 then [46, 42] else if b = 95 then [46] else [b])"

definition item_of :: "nat \<Rightarrow> re_item" where
  "item_of b = (if b = 37 then RStar else if b = 95 then RAny else RLit b)"

lemma char_eq_iff_code: "c = d \<longleftrightarrow> (of_char c :: nat) = of_char d"
  by simp

lemma is_meta_code: "is_meta c \<longleftrightarrow> (of_char c :: nat) \<in> set meta_runes"
  unfolding is_meta_def meta_runes_def by (simp only: insert_iff empty_iff char_eq_iff_code list.set) simp

lemma like_regex_bytes:
  "str_bytes (like_pattern_to_regex p) = [94] @ concat (map esc_rune (str_bytes p)) @ [36]"
proof -
  have c: "(c = CHR ''%'') = ((of_char c :: nat) = 37)" "(c = CHR ''_'') = ((of_char c :: nat) = 95)" for c
    by (simp_all only: char_eq_iff_code) simp_all
  have "map of_char (replace_byte (replace_byte (if is_meta c then [CHR 0x5C, c] else [c]) (CHR ''%'') ''.*'') (CHR ''_'') ''.'')
          = esc_rune (of_char c)" for c
    by (auto simp: replace_byte_def esc_rune_def is_meta_code c meta_runes_def)
  then have "map of_char (replace_byte (replace_byte (quote_meta p) (CHR ''%'') ''.*'') (CHR ''_'') ''.'')
        = concat (map (\<lambda>c. esc_rune (of_char c)) p)"
    by (induction p) (simp_all add: quote_meta_def replace_byte_def)
  then show ?thesis
    by (simp add: like_pattern_to_regex_def str_bytes_def comp_def)
qed

lemma esc_rune_high: "128 \<le> b \<Longrightarrow> esc_rune b = [b]"
  by (auto simp: esc_rune_def meta_runes_def)

lemma esc_rune_low: "b < 128 \<Longrightarrow> \<forall>x \<in> set (esc_rune b). x < 128"
  by (auto simp: esc_rune_def meta_runes_def)

lemma concat_esc_high: "\<forall>x \<in> set p. 128 \<le> x \<Longrightarrow> concat (map esc_rune p) = p"
  by (induction p) (auto simp: esc_rune_high)

lemma decode_all_esc:
  "list_all snd (decode_all bs) \<Longrightarrow>
     decode_all (concat (map esc_rune bs) @ t) =
       map (\<lambda>b. (b, True)) (concat (map esc_rune (map fst (decode_all bs)))) @ decode_all t"
proof (induction bs rule: decode_all.induct)
  case (2 b s)
  obtain r w ok where d: "decode_rune (b # s) = (r, w, ok)" by (metis prod.exhaust)
  with "2.prems" have ok: "ok" "list_all snd (decode_all (drop w (b # s)))"
    by (simp_all add: decode_all.simps)
  note IH = "2.IH" [OF d [symmetric] refl refl ok(2)]
  have dec: "decode_all (b # s) = (r, True) # decode_all (drop w (b # s))"
    using d ok by (simp add: decode_all.simps)
  show ?case
  proof (cases "b < 128")
    case True
    with d have "r = b" "w = 1" by (simp_all add: decode_rune.simps)
    with True IH show ?thesis
      by (simp add: dec decode_all_ascii [OF esc_rune_low])
  next
    case False
    then have "128 \<le> b" by simp
    with d ok(1) obtain p where p: "b # s = p @ drop w (b # s)" "\<forall>x \<in> set p. 128 \<le> x" "128 \<le> r"
      "\<And>t. decode_rune (p @ t) = (r, w, True) \<and> length p = w" "p \<noteq> []"
      by (auto elim: decode_rune_multi)
    let ?rest = "concat (map esc_rune (drop w (b # s))) @ t"
    have "concat (map esc_rune (b # s)) @ t = p @ ?rest"
      using p(2) by (subst p(1)) (simp only: map_append concat_append concat_esc_high append_assoc)
    moreover have "decode_all (p @ ?rest) = (r, True) # decode_all ?rest"
      using p(4) [of ?rest] p(5) by (cases p) (auto simp: decode_all.simps)
    ultimately show ?thesis
      using IH p(3) by (simp add: dec esc_rune_high)
  qed
qed simp

lemma parse_items_esc: "parse_items (concat (map esc_rune rs) @ [36]) = Some (map item_of rs)"
proof (induction rs)
  case (Cons r rs)
  have hd: "\<exists>d ds. concat (map esc_rune rs) @ [36] = d # ds \<and> d \<noteq> 42"
    by (cases rs) (auto simp: esc_rune_def meta_runes_def)
  then obtain d ds where t: "concat (map esc_rune rs) @ [36] = d # ds" and d: "d \<noteq> 42" by blast
  note eqs = parse_items.simps(2) [of 92 "r # d # ds"] parse_items.simps(2) [of 46 "42 # d # ds"]
    parse_items.simps(2) [of 46 "d # ds"] parse_items.simps(2) [of r "d # ds"]
  have "parse_items (d # ds) = Some (map item_of rs)"
    using Cons t by simp
  then have "parse_items (esc_rune r @ d # ds) = Some (map item_of (r # rs))"
    using d by (auto simp del: parse_items.simps(2) simp: eqs esc_rune_def item_of_def meta_runes_def)
  with t show ?case by simp
qed simp

lemma re_match_sql_like: "10 \<notin> set xs \<Longrightarrow> re_match (map item_of ps) xs = sql_like ps xs"
proof (induction ps xs rule: sql_like.induct)
  case (3 p ps x xs)
  then show ?case by (cases "p = 37") (auto simp: item_of_def)
qed (auto simp: item_of_def)

lemma like_regex_match:
  assumes "valid_utf8 p"
  shows "regexp_match_string (like_pattern_to_regex p) l = Inr (re_match (map item_of (runes p)) (runes l))"
proof -
  have "decode_all (str_bytes (like_pattern_to_regex p))
      = map (\<lambda>b. (b, True)) ([94] @ concat (map esc_rune (runes p)) @ [36])"
    using assms decode_all_ascii [of "[94]"] decode_all_ascii [of "[36]" "[]"] decode_all_esc [of "str_bytes p" "[36]"]
    by (simp add: like_regex_bytes valid_utf8_def runes_def)
  then have "runes (like_pattern_to_regex p) = 94 # concat (map esc_rune (runes p)) @ [36]"
    "valid_utf8 (like_pattern_to_regex p)"
    by (simp_all add: runes_def valid_utf8_def comp_def list_all_iff)
  then show ?thesis
    by (simp add: regexp_match_string_def parse_items_esc)
qed

text \<open>
  C12: \<^verbatim>\<open>like\<close> is SQL's \<^verbatim>\<open>LIKE\<close>. For every well-formed pattern and every text
  without a newline, translating the pattern to a regular expression and running it decides exactly
  whether the text matches with \<^verbatim>\<open>%\<close> for any run of characters and \<^verbatim>\<open>_\<close> for one character; in
  particular every other character of the pattern, the regular-expression operators included,
  stands for itself.
\<close>

theorem like_is_sql_like:
  assumes "valid_utf8 p" and "10 \<notin> set (runes l)"
  shows "like_func [VStr l, VStr p] = Return (VBool (sql_like (runes p) (runes l)))"
  using assms by (simp add: like_func_def like_regex_match re_match_sql_like)

theorem like_is_sql_like_witness:
  "like_func [VStr ''refs/heads/a.b'', VStr ''refs/%/a._''] = Return (VBool True)"
proof -
  have "valid_utf8 ''refs/%/a._''" "10 \<notin> set (runes ''refs/heads/a.b'')"
    "sql_like (runes ''refs/%/a._'') (runes ''refs/heads/a.b'')"
    by code_simp+
  then show ?thesis
    using like_is_sql_like by simp
qed

text \<open>
  A newline in the text defeats both wildcards: no pattern made of \<^verbatim>\<open>%\<close> alone
  matches a text of two lines, although \<^verbatim>\<open>%\<close> is documented to match any length of text.
\<close>

theorem like_newline:
  "like_func [VStr [CHR ''a'', CHR 0x0A, CHR ''b''], VStr ''%''] = Return (VBool False)
   \<and> sql_like (runes ''%'') (runes [CHR ''a'', CHR 0x0A, CHR ''b''])"
  by code_simp

end
