(* ===== verification/Rule_Engine.thy ===== *)
theory Rule_Engine
  imports Tenant_Cache Go_Values Rule_Rewrite Rule_Functions
begin

text \<open>
  The rule engine: \<^verbatim>\<open>pkg/core/rules.go\<close>, \<^verbatim>\<open>pkg/core/rules_resolve.go\<close>, the rule part of
  \<^verbatim>\<open>pkg/core/config.go\<close> and \<^verbatim>\<open>ruleMatchesFromRules\<close> of \<^verbatim>\<open>pkg/webhook/match_helpers.go\<close>.

  The expression library (\<^verbatim>\<open>govaluate\<close>), the JSONPath library, the JSON decoder and SHA-1 are
  parameters, the fields of \<open>rule_lib\<close>. Log lines are not modelled. \<^verbatim>\<open>Update\<close> and the evaluation
  methods hold the engine's lock for everything they do to it, so each is one step.
\<close>

section \<open>Data\<close>

record rule =
  r_id :: string
  r_when :: string
  r_emit :: "string list"
  r_driver_id :: string
  r_transform_js :: string
  r_driver_name :: string
  r_driver_config_json :: string
  r_driver_enabled :: bool

record 'e compiled_rule =
  cr_id :: string
  cr_when :: string
  cr_emit :: "string list"
  cr_driver_id :: string
  cr_transform_js :: string
  cr_driver_name :: string
  cr_driver_config_json :: string
  cr_driver_enabled :: bool
  cr_vars :: "string list"
  cr_var_map :: "string gmap"
  cr_expr :: 'e

record 'e rule_set =
  rs_rules :: "'e compiled_rule list"
  rs_strict :: bool

record 'e rule_engine =
  re_rules :: "'e compiled_rule list"
  re_strict :: bool
  re_tenant :: "'e rule_set tenant_cache option"

record rule_match =
  rm_topic :: string
  rm_driver_id :: string
  rm_transform_js :: string
  rm_driver_name :: string
  rm_rule_id :: string
  rm_rule_when :: string
  rm_driver_config_json :: string
  rm_driver_enabled :: bool

record matched_rule =
  mr_id :: string
  mr_when :: string
  mr_emit :: "string list"
  mr_driver_id :: string
  mr_transform_js :: string
  mr_driver_name :: string
  mr_driver_config_json :: string
  mr_driver_enabled :: bool

record rules_config =
  rc_rules :: "rule list"
  rc_strict :: bool
  rc_tenant_id :: string

text \<open>Third-party and hashing code as parameters; \<open>'e\<close> is the type of compiled expressions.\<close>

record 'e rule_lib =
  gv_compile :: "string \<Rightarrow> (string \<times> (gval list \<Rightarrow> gval outcome)) list \<Rightarrow> 'e res"
  gv_vars :: "'e \<Rightarrow> string list"
  gv_evaluate :: "'e \<Rightarrow> gval gmap option \<Rightarrow> gval outcome"
  jp_get :: "string \<Rightarrow> gval \<Rightarrow> gval res"
  json_decode :: "string \<Rightarrow> gval res"
  sha1_hex :: "string \<Rightarrow> string"

section \<open>Emit lists\<close>

text \<open>The kinds of YAML node that \<^verbatim>\<open>UnmarshalYAML\<close> distinguishes.\<close>

datatype yaml_node = ScalarNode string | SequenceNode "yaml_node list" | OtherNode

fun unmarshal_items :: "yaml_node list \<Rightarrow> string list res" where
  "unmarshal_items [] = Inr []"
| "unmarshal_items (ScalarNode s # ns) = bind_res (unmarshal_items ns) (\<lambda>ss. Inr (s # ss))"
| "unmarshal_items (_ # ns) = Inl (Error ''emit items must be strings'')"

fun unmarshal_emit :: "yaml_node \<Rightarrow> string list res" where
  "unmarshal_emit (ScalarNode s) = (if s = [] then Inr [] else Inr [s])"
| "unmarshal_emit (SequenceNode ns) = unmarshal_items ns"
| "unmarshal_emit OtherNode = Inl (Error ''emit must be a string or list of strings'')"

fun emit_values :: "string list \<Rightarrow> string list" where
  "emit_values [] = []"
| "emit_values (val # e) =
     (let trimmed = trim_space val in if trimmed \<noteq> [] then trimmed # emit_values e else emit_values e)"

lemma emit_values_eq: "emit_values e = filter (\<lambda>s. s \<noteq> []) (map trim_space e)"
  by (induction e) (auto simp: Let_def)

lemma emit_values_idem [simp]: "emit_values (emit_values e) = emit_values e"
  by (induction e) (auto simp: Let_def)

section \<open>Normalising rules\<close>

definition normalize_rule :: "rule \<Rightarrow> rule" where
  "normalize_rule rule = rule\<lparr>r_when := trim_space (r_when rule), r_emit := emit_values (r_emit rule),
     r_driver_id := trim_space (r_driver_id rule)\<rparr>"

fun normalize_rules_from :: "nat \<Rightarrow> rule list \<Rightarrow> rule list res" where
  "normalize_rules_from i [] = Inr []"
| "normalize_rules_from i (r # rs) =
     (let rule = normalize_rule r in
      if r_driver_id rule = [] then
        Inl (Error (''rule '' @ itoa (int i) @ '' is missing driver_id''))
      else if r_when rule = [] \<or> r_emit rule = [] then
        Inl (Error (''rule '' @ itoa (int i) @ '' is missing when or emit''))
      else bind_res (normalize_rules_from (Suc i) rs) (\<lambda>out. Inr (rule # out)))"

definition normalize_rules :: "rule list \<Rightarrow> rule list res" where
  "normalize_rules rules = normalize_rules_from 0 rules"

definition complete_rule :: "rule \<Rightarrow> bool" where
  "complete_rule r \<longleftrightarrow>
     trim_space (r_driver_id r) \<noteq> [] \<and> trim_space (r_when r) \<noteq> [] \<and> emit_values (r_emit r) \<noteq> []"

lemma normalize_rule_idem [simp]: "normalize_rule (normalize_rule r) = normalize_rule r"
  by (simp add: normalize_rule_def)

lemma complete_normalize [simp]: "complete_rule (normalize_rule r) = complete_rule r"
  by (simp add: complete_rule_def normalize_rule_def)

lemma normalize_rules_from_cases:
  "normalize_rules_from i rs =
     (if list_all complete_rule rs then Inr (map normalize_rule rs)
      else normalize_rules_from i rs) \<and>
   (\<not> list_all complete_rule rs \<longrightarrow> (\<exists>e. normalize_rules_from i rs = Inl e))"
proof (induction rs arbitrary: i)
  case (Cons r rs)
  show ?case
    using Cons [of "Suc i"]
    by (cases "complete_rule r"; cases "list_all complete_rule rs")
       (auto simp: Let_def normalize_rule_def complete_rule_def)
qed simp

text \<open>
  \<^verbatim>\<open>NormalizeRules\<close> accepts a rule set exactly when every rule has, after
  trimming, a driver, a condition and at least one topic; then it returns every rule, trimmed, in
  order, and normalising again changes nothing. One bad rule rejects the whole set.
\<close>

theorem normalize_rules_correct:
  "(list_all complete_rule rs \<longrightarrow>
      normalize_rules rs = Inr (map normalize_rule rs) \<and>
      normalize_rules (map normalize_rule rs) = Inr (map normalize_rule rs))
   \<and> (\<not> list_all complete_rule rs \<longrightarrow> (\<exists>e. normalize_rules rs = Inl e))"
  using normalize_rules_from_cases [of 0 rs] normalize_rules_from_cases [of 0 "map normalize_rule rs"]
  by (auto simp: normalize_rules_def list.pred_map comp_def)

definition sample_rule :: rule where
  "sample_rule = \<lparr>r_id = [], r_when = '' action == 1 '', r_emit = ['' pr.opened ''], r_driver_id = ''d1 '',
     r_transform_js = [], r_driver_name = [], r_driver_config_json = [], r_driver_enabled = True\<rparr>"

theorem normalize_rules_correct_witness:
  "normalize_rules [sample_rule] = Inr [normalize_rule sample_rule]
   \<and> r_emit (normalize_rule sample_rule) = [''pr.opened'']"
proof -
  have "list_all complete_rule [sample_rule]" "r_emit (normalize_rule sample_rule) = [''pr.opened'']"
    by code_simp+
  then show ?thesis using normalize_rules_correct [of "[sample_rule]"] by simp
qed

section \<open>Rule identifiers\<close>

definition normalize_rule_parts :: "string list \<Rightarrow> string list" where
  "normalize_rule_parts vs = sort (filter (\<lambda>s. s \<noteq> []) (map trim_space vs))"

definition rule_id_from_parts :: "'e rule_lib \<Rightarrow> string \<Rightarrow> string list \<Rightarrow> string \<Rightarrow> string" where
  "rule_id_from_parts lib whn emit driver_id =
     (let driver_key = trim_space driver_id;
          key = trim_space whn @ ''|'' @ join_str '','' (normalize_rule_parts emit) @ ''|'' @ driver_key
      in ''rule_'' @ sha1_hex lib key)"

text \<open>
  The identifier the engine derives for a rule without one is stable: it depends
  on the condition, the driver and the set of topics with their multiplicities, not on the order of
  the topics nor on white space around any part, nor on blank topics.
\<close>

theorem rule_id_stable:
  assumes "mset (emit_values emit) = mset (emit_values emit')"
    and "trim_space w = trim_space w'" and "trim_space d = trim_space d'"
  shows "rule_id_from_parts lib w emit d = rule_id_from_parts lib w' emit' d'"
proof -
  have "normalize_rule_parts emit = normalize_rule_parts emit'"
    using assms(1) unfolding normalize_rule_parts_def emit_values_eq
    by (intro properties_for_sort) simp_all
  with assms(2,3) show ?thesis by (simp add: rule_id_from_parts_def)
qed

definition trivial_lib :: "unit rule_lib" where
  "trivial_lib = \<lparr>gv_compile = (\<lambda>s fns. Inr ()), gv_vars = (\<lambda>e. [''v___action'']),
     gv_evaluate = (\<lambda>e ps. case ps of None \<Rightarrow> Fails (Error ''no parameters'')
        | Some m \<Rightarrow> (case mget m ''v___action'' of
              Some (VStr s) \<Rightarrow> Return (VBool (s = ''opened'')) | _ \<Rightarrow> Return (VBool True))),
     jp_get = (\<lambda>path v. case v of VMap m \<Rightarrow> (case mget m (drop 2 path) of Some x \<Rightarrow> Inr x | None \<Rightarrow> Inl (Error ''unknown key''))
        | _ \<Rightarrow> Inl (Error ''not an object'')),
     json_decode = (\<lambda>s. Inr VNil), sha1_hex = (\<lambda>s. s)\<rparr>"

theorem rule_id_stable_witness:
  "rule_id_from_parts trivial_lib ''a '' [''y'', '' x'', '' ''] ''d'' = rule_id_from_parts trivial_lib ''a'' [''x'', ''y''] '' d''"
proof -
  have "mset (emit_values [''y'', '' x'', '' '']) = mset (emit_values [''x'', ''y''])"
    "trim_space ''a '' = trim_space ''a''" "trim_space ''d'' = trim_space '' d''"
    by code_simp+
  then show ?thesis by (rule rule_id_stable)
qed

section \<open>Resolving the parameters of a rule\<close>

fun normalize_json_path_result :: "gval \<Rightarrow> gval" where
  "normalize_json_path_result (VList []) = VNil"
| "normalize_json_path_result (VList [x]) = x"
| "normalize_json_path_result v = v"

definition resolve_json_path :: "'e rule_lib \<Rightarrow> event \<Rightarrow> string \<Rightarrow> gval res" where
  "resolve_json_path lib ev path =
     (if ev_raw_object ev \<noteq> VNil then
        bind_res (jp_get lib path (ev_raw_object ev)) (\<lambda>v. Inr (normalize_json_path_result v))
      else if ev_raw_payload ev = [] then
        (case ev_data ev of
           Some data \<Rightarrow> bind_res (jp_get lib path (VMap data)) (\<lambda>v. Inr (normalize_json_path_result v))
         | None \<Rightarrow> Inr VNil)
      else
        bind_res (json_decode lib (ev_raw_payload ev)) (\<lambda>raw.
          bind_res (jp_get lib path raw) (\<lambda>v. Inr (normalize_json_path_result v))))"

text \<open>One variable: its value and the path or name to report as missing, if any.\<close>

definition resolve_var :: "'e rule_lib \<Rightarrow> event \<Rightarrow> string gmap \<Rightarrow> string \<Rightarrow> gval \<times> string list" where
  "resolve_var lib ev var_map name =
     (case mget var_map name of
        Some path \<Rightarrow>
          (case resolve_json_path lib ev path of
             Inl e \<Rightarrow> (VNil, [path])
           | Inr value \<Rightarrow> (value, if value = VNil then [path] else []))
      | None \<Rightarrow>
          (case (case ev_data ev of None \<Rightarrow> None | Some data \<Rightarrow> mget data name) of
             Some value \<Rightarrow> (value, [])
           | None \<Rightarrow> (VNil, [name])))"

fun resolve_vars :: "'e rule_lib \<Rightarrow> event \<Rightarrow> string gmap \<Rightarrow> string list \<Rightarrow> gval gmap \<Rightarrow> string list
    \<Rightarrow> gval gmap \<times> string list" where
  "resolve_vars lib ev vm [] params missing = (params, missing)"
| "resolve_vars lib ev vm (name # vars) params missing =
     (let (value, miss) = resolve_var lib ev vm name
      in resolve_vars lib ev vm vars (mput name value params) (missing @ miss))"

definition resolve_rule_params ::
    "'e rule_lib \<Rightarrow> event \<Rightarrow> string list \<Rightarrow> string gmap \<Rightarrow> gval gmap option \<times> string list" where
  "resolve_rule_params lib ev vars var_map =
     (if vars = [] then
        (if ev_raw_payload ev = [] then (ev_data ev, []) else (None, []))
      else
        (let (params, missing) = resolve_vars lib ev var_map vars [] [] in (Some params, missing)))"

lemma resolve_vars_missing:
  "snd (resolve_vars lib ev vm vars params missing) =
     missing @ concat (map (\<lambda>n. snd (resolve_var lib ev vm n)) vars)"
  by (induction vars arbitrary: params missing) (auto simp: case_prod_beta)

lemma resolve_vars_get:
  "mget (fst (resolve_vars lib ev vm vars params missing)) n =
     (if n \<in> set vars then Some (fst (resolve_var lib ev vm n)) else mget params n)"
  by (induction vars arbitrary: params missing) (auto simp: case_prod_beta)

section \<open>Compiling and updating\<close>

definition rule_functions :: "(string \<times> (gval list \<Rightarrow> gval outcome)) list" where
  "rule_functions = [(''contains'', contains_func), (''like'', like_func)]"

definition compile_rule :: "'e rule_lib \<Rightarrow> rule \<Rightarrow> 'e compiled_rule res" where
  "compile_rule lib rule =
     (let (rewritten, var_map) = rewrite_expression (r_when rule) in
      bind_res (gv_compile lib rewritten rule_functions) (\<lambda>expr.
        let emit = emit_values (r_emit rule);
            rule_id = trim_space (r_id rule);
            rule_id = (if rule_id = [] then rule_id_from_parts lib (r_when rule) emit (r_driver_id rule)
                       else rule_id)
        in Inr \<lparr>cr_id = rule_id, cr_when = r_when rule, cr_emit = emit,
             cr_driver_id = trim_space (r_driver_id rule),
             cr_transform_js = trim_space (r_transform_js rule),
             cr_driver_name = trim_space (r_driver_name rule),
             cr_driver_config_json = trim_space (r_driver_config_json rule),
             cr_driver_enabled = r_driver_enabled rule,
             cr_vars = gv_vars lib expr, cr_var_map = var_map, cr_expr = expr\<rparr>))"

fun compile_rules :: "'e rule_lib \<Rightarrow> rule list \<Rightarrow> 'e compiled_rule list res" where
  "compile_rules lib [] = Inr []"
| "compile_rules lib (r # rs) =
     bind_res (compile_rule lib r) (\<lambda>c. bind_res (compile_rules lib rs) (\<lambda>cs. Inr (c # cs)))"

definition engine_update ::
    "'e rule_lib \<Rightarrow> rules_config \<Rightarrow> 'e rule_engine \<Rightarrow> go_error option \<times> 'e rule_engine" where
  "engine_update lib cfg r =
     (case compile_rules lib (rc_rules cfg) of
        Inl err \<Rightarrow> (Some err, r)
      | Inr rules \<Rightarrow>
          (let tenant_id = trim_space (rc_tenant_id cfg) in
           if tenant_id = [] then (None, r\<lparr>re_rules := rules, re_strict := rc_strict cfg\<rparr>)
           else
             (let tenant = (case re_tenant r of None \<Rightarrow> new_tenant_cache | Some c \<Rightarrow> c) in
              if rules = [] then (None, r\<lparr>re_tenant := Some (tc_delete tenant_id tenant)\<rparr>)
              else (None, r\<lparr>re_tenant := Some (tc_set tenant_id
                       \<lparr>rs_rules = rules, rs_strict = rc_strict cfg\<rparr> tenant)\<rparr>))))"

definition new_rule_engine :: "'e rule_lib \<Rightarrow> rules_config \<Rightarrow> 'e rule_engine res" where
  "new_rule_engine lib cfg =
     (let engine = \<lparr>re_rules = [], re_strict = rc_strict cfg, re_tenant = None\<rparr> in
      case engine_update lib cfg engine of
        (Some err, _) \<Rightarrow> Inl err
      | (None, engine') \<Rightarrow> Inr engine')"

section \<open>Evaluating\<close>

text \<open>The rules and the mode an evaluation for a tenant uses; \<open>None\<close> where the code returns early.\<close>

definition engine_rules :: "'e rule_engine \<Rightarrow> string \<Rightarrow> ('e compiled_rule list \<times> bool) option" where
  "engine_rules r tenant_id0 =
     (let tenant_id = trim_space tenant_id0;
          sel = (if tenant_id \<noteq> [] then
                   (case re_tenant r of
                      None \<Rightarrow> None
                    | Some c \<Rightarrow> (case tc_get c tenant_id of
                                  None \<Rightarrow> None
                                | Some s \<Rightarrow> Some (rs_rules s, rs_strict s)))
                 else Some (re_rules r, re_strict r))
      in case sel of
           None \<Rightarrow> None
         | Some (rules, strict) \<Rightarrow> if rules = [] then None else Some (rules, strict))"

text \<open>
  One pass of the loop: a rule with missing parameters is skipped in strict mode, one whose
  evaluation fails or is not a boolean does not fire.
\<close>

definition rule_fires :: "'e rule_lib \<Rightarrow> event \<Rightarrow> bool \<Rightarrow> 'e compiled_rule \<Rightarrow> bool outcome" where
  "rule_fires lib ev strict rule =
     (let (params, missing) = resolve_rule_params lib ev (cr_vars rule) (cr_var_map rule) in
      if strict \<and> missing \<noteq> [] then Return False
      else
        (case gv_evaluate lib (cr_expr rule) params of
           Return v \<Rightarrow> Return (v = VBool True)
         | Fails e \<Rightarrow> Return False
         | Panics s \<Rightarrow> Panics s))"

definition rule_match_of :: "'e compiled_rule \<Rightarrow> string \<Rightarrow> rule_match" where
  "rule_match_of rule topic =
     \<lparr>rm_topic = topic, rm_driver_id = cr_driver_id rule, rm_transform_js = cr_transform_js rule,
      rm_driver_name = cr_driver_name rule, rm_rule_id = cr_id rule, rm_rule_when = cr_when rule,
      rm_driver_config_json = cr_driver_config_json rule, rm_driver_enabled = cr_driver_enabled rule\<rparr>"

definition matched_rule_of :: "'e compiled_rule \<Rightarrow> matched_rule" where
  "matched_rule_of rule =
     \<lparr>mr_id = cr_id rule, mr_when = cr_when rule, mr_emit = cr_emit rule,
      mr_driver_id = cr_driver_id rule, mr_transform_js = cr_transform_js rule,
      mr_driver_name = cr_driver_name rule, mr_driver_config_json = cr_driver_config_json rule,
      mr_driver_enabled = cr_driver_enabled rule\<rparr>"

fun evaluate_loop :: "'e rule_lib \<Rightarrow> event \<Rightarrow> bool \<Rightarrow> 'e compiled_rule list \<Rightarrow> rule_match list
    \<Rightarrow> rule_match list outcome" where
  "evaluate_loop lib ev strict [] matches = Return matches"
| "evaluate_loop lib ev strict (rule # rules) matches =
     (case rule_fires lib ev strict rule of
        Return ok \<Rightarrow>
          evaluate_loop lib ev strict rules
            (if ok then matches @ map (rule_match_of rule) (cr_emit rule) else matches)
      | Fails e \<Rightarrow> Fails e
      | Panics s \<Rightarrow> Panics s)"

definition evaluate_for_tenant ::
    "'e rule_lib \<Rightarrow> event \<Rightarrow> string \<Rightarrow> 'e rule_engine \<Rightarrow> rule_match list outcome" where
  "evaluate_for_tenant lib ev tenant_id r =
     (case engine_rules r tenant_id of
        None \<Rightarrow> Return []
      | Some (rules, strict) \<Rightarrow> evaluate_loop lib ev strict rules [])"

fun evaluate_rules_loop :: "'e rule_lib \<Rightarrow> event \<Rightarrow> bool \<Rightarrow> 'e compiled_rule list \<Rightarrow> matched_rule list
    \<Rightarrow> matched_rule list outcome" where
  "evaluate_rules_loop lib ev strict [] matches = Return matches"
| "evaluate_rules_loop lib ev strict (rule # rules) matches =
     (case rule_fires lib ev strict rule of
        Return ok \<Rightarrow>
          evaluate_rules_loop lib ev strict rules (if ok then matches @ [matched_rule_of rule] else matches)
      | Fails e \<Rightarrow> Fails e
      | Panics s \<Rightarrow> Panics s)"

definition evaluate_rules_for_tenant ::
    "'e rule_lib \<Rightarrow> event \<Rightarrow> string \<Rightarrow> 'e rule_engine \<Rightarrow> matched_rule list outcome" where
  "evaluate_rules_for_tenant lib ev tenant_id r =
     (case engine_rules r tenant_id of
        None \<Rightarrow> Return []
      | Some (rules, strict) \<Rightarrow> evaluate_rules_loop lib ev strict rules [])"

section \<open>What the engine guarantees\<close>

lemma engine_rules_update:
  assumes "engine_update lib cfg r = (None, r')" and "compile_rules lib (rc_rules cfg) = Inr rules"
  shows "engine_rules r' t =
     (if trim_space t = trim_space (rc_tenant_id cfg)
      then (if rules = [] then None else Some (rules, rc_strict cfg))
      else engine_rules r t)"
proof (cases "trim_space (rc_tenant_id cfg) = []")
  case True
  with assms show ?thesis
    by (auto simp: engine_update_def engine_rules_def Let_def)
next
  case False
  with assms obtain c where c: "re_tenant r' = Some c" "re_rules r' = re_rules r" "re_strict r' = re_strict r"
    "\<And>u. tc_get c u = (if u = trim_space (rc_tenant_id cfg)
        then (if rules = [] then None else Some \<lparr>rs_rules = rules, rs_strict = rc_strict cfg\<rparr>)
        else (case re_tenant r of None \<Rightarrow> None | Some c \<Rightarrow> tc_get c u))"
    by (cases "re_tenant r"; cases "rules = []") (auto simp: engine_update_def Let_def)
  show ?thesis
    by (simp add: engine_rules_def c Let_def False split: option.split)
qed

text \<open>
  C3: an update is atomic and touches one tenant. When one of its rules does not
  compile, the engine is unchanged; otherwise the rules used for the tenant named in the
  configuration are exactly the compiled ones (none, when the configuration is empty), and those
  used for any other tenant are the ones used before.
\<close>

theorem engine_update_atomic_isolated:
  "(case compile_rules lib (rc_rules cfg) of
      Inl err \<Rightarrow> engine_update lib cfg r = (Some err, r)
    | Inr rules \<Rightarrow>
        fst (engine_update lib cfg r) = None \<and>
        engine_rules (snd (engine_update lib cfg r)) t =
          (if trim_space t = trim_space (rc_tenant_id cfg)
           then (if rules = [] then None else Some (rules, rc_strict cfg))
           else engine_rules r t))"
proof (cases "compile_rules lib (rc_rules cfg)")
  case (Inl err)
  then show ?thesis by (simp add: engine_update_def)
next
  case (Inr rules)
  then have "fst (engine_update lib cfg r) = None"
    by (auto simp: engine_update_def Let_def split: option.splits)
  then have "engine_update lib cfg r = (None, snd (engine_update lib cfg r))"
    by (metis prod.collapse)
  from engine_rules_update [OF this Inr] \<open>fst _ = None\<close> Inr show ?thesis by simp
qed

lemma evaluate_rules_loop_filter:
  "\<forall>r \<in> set rules. \<exists>b. rule_fires lib ev strict r = Return b \<Longrightarrow>
     evaluate_rules_loop lib ev strict rules acc =
       Return (acc @ map matched_rule_of (filter (\<lambda>r. rule_fires lib ev strict r = Return True) rules))"
  by (induction rules arbitrary: acc) auto

lemma rule_fires_iff:
  "rule_fires lib ev strict r = Return True \<longleftrightarrow>
     (strict \<longrightarrow> snd (resolve_rule_params lib ev (cr_vars r) (cr_var_map r)) = []) \<and>
     gv_evaluate lib (cr_expr r) (fst (resolve_rule_params lib ev (cr_vars r) (cr_var_map r))) = Return (VBool True)"
  by (auto simp: rule_fires_def Let_def case_prod_beta split: outcome.splits)

lemma rule_fires_total:
  "gv_evaluate lib (cr_expr r) (fst (resolve_rule_params lib ev (cr_vars r) (cr_var_map r))) \<noteq> Panics s \<Longrightarrow>
   rule_fires lib ev strict r \<noteq> Panics s"
  by (auto simp: rule_fires_def Let_def case_prod_beta split: outcome.splits)

lemma rule_fires_not_Fails: "rule_fires lib ev strict r \<noteq> Fails e"
  by (auto simp: rule_fires_def Let_def case_prod_beta split: outcome.splits)

text \<open>
  C2: evaluation selects exactly the right rules, in their order. When no expression
  panics, the matched rules of a tenant are those of its rules whose condition evaluates to true on
  the resolved parameters and, in strict mode, for which no referenced field is missing; a rule
  whose evaluation fails or gives something other than a boolean is left out without affecting the
  others.
\<close>

theorem evaluate_rules_selects:
  assumes "engine_rules eng t = Some (rules, strict)"
    and "\<forall>r \<in> set rules. \<forall>s. gv_evaluate lib (cr_expr r)
           (fst (resolve_rule_params lib ev (cr_vars r) (cr_var_map r))) \<noteq> Panics s"
  shows "evaluate_rules_for_tenant lib ev t eng =
     Return (map matched_rule_of (filter (\<lambda>r.
        gv_evaluate lib (cr_expr r) (fst (resolve_rule_params lib ev (cr_vars r) (cr_var_map r)))
          = Return (VBool True) \<and>
        (strict \<longrightarrow> snd (resolve_rule_params lib ev (cr_vars r) (cr_var_map r)) = [])) rules))"
proof -
  have "\<exists>b. rule_fires lib ev strict r = Return b" if "r \<in> set rules" for r
    using assms(2) that rule_fires_total [of lib r ev _ strict] rule_fires_not_Fails [of lib ev strict r]
    by (cases "rule_fires lib ev strict r") auto
  then show ?thesis
    using assms(1) by (simp add: evaluate_rules_for_tenant_def evaluate_rules_loop_filter rule_fires_iff conj_commute)
qed

definition sample_compiled :: "unit compiled_rule" where
  "sample_compiled = \<lparr>cr_id = ''r1'', cr_when = ''action'', cr_emit = [''pr.opened''], cr_driver_id = ''d1'',
     cr_transform_js = [], cr_driver_name = ''amqp'', cr_driver_config_json = [], cr_driver_enabled = True,
     cr_vars = [''v___action''], cr_var_map = [(''v___action'', ''$.action'')], cr_expr = ()\<rparr>"

definition sample_engine :: "unit rule_engine" where
  "sample_engine = \<lparr>re_rules = [sample_compiled], re_strict = True, re_tenant = None\<rparr>"

definition opened_event :: event where
  "opened_event = zero_event\<lparr>ev_raw_object := VMap [(''action'', VStr ''opened'')]\<rparr>"

theorem evaluate_rules_selects_witness:
  "evaluate_rules_for_tenant trivial_lib opened_event [] sample_engine = Return [matched_rule_of sample_compiled]"
proof -
  have e: "engine_rules sample_engine [] = Some ([sample_compiled], True)"
    by (simp add: engine_rules_def sample_engine_def)
  have p: "resolve_rule_params trivial_lib opened_event (cr_vars sample_compiled) (cr_var_map sample_compiled)
      = (Some [(''v___action'', VStr ''opened'')], [])"
    by code_simp
  have v: "gv_evaluate trivial_lib (cr_expr sample_compiled) (Some [(''v___action'', VStr ''opened'')]) = Return (VBool True)"
    by code_simp
  show ?thesis
    by (subst evaluate_rules_selects [OF e]) (simp_all add: p v [simplified])
qed

section \<open>The two evaluation methods agree\<close>

fun rule_matches_from_rules :: "matched_rule list \<Rightarrow> rule_match list" where
  "rule_matches_from_rules [] = []"
| "rule_matches_from_rules (rule # rules) =
     map (\<lambda>topic. \<lparr>rm_topic = topic, rm_driver_id = mr_driver_id rule,
        rm_transform_js = mr_transform_js rule, rm_driver_name = mr_driver_name rule,
        rm_rule_id = mr_id rule, rm_rule_when = mr_when rule,
        rm_driver_config_json = mr_driver_config_json rule,
        rm_driver_enabled = mr_driver_enabled rule\<rparr>) (mr_emit rule)
     @ rule_matches_from_rules rules"

lemma rule_matches_append:
  "rule_matches_from_rules (xs @ ys) = rule_matches_from_rules xs @ rule_matches_from_rules ys"
  by (induction xs) auto

lemma rule_matches_snoc:
  "rule_matches_from_rules (acc @ [matched_rule_of r])
     = rule_matches_from_rules acc @ map (rule_match_of r) (cr_emit r)"
  by (simp add: rule_matches_append matched_rule_of_def rule_match_of_def)

lemma evaluate_loops_agree:
  "evaluate_loop lib ev strict rules (rule_matches_from_rules acc) =
     map_outcome rule_matches_from_rules (evaluate_rules_loop lib ev strict rules acc)"
proof (induction rules arbitrary: acc)
  case (Cons r rules)
  show ?case
    using Cons [of acc] Cons [of "acc @ [matched_rule_of r]", unfolded rule_matches_snoc]
    by (cases "rule_fires lib ev strict r") simp_all
qed simp

text \<open>
  The engine's two ways to evaluate an event agree: expanding the matched rules of
  \<^verbatim>\<open>EvaluateRules\<close> into one match per topic, as the webhook handlers do with
  \<^verbatim>\<open>ruleMatchesFromRules\<close>, gives the matches that \<^verbatim>\<open>Evaluate\<close> returns, in the same order.
\<close>

theorem evaluate_agrees_with_evaluate_rules:
  "evaluate_for_tenant lib ev t eng =
     map_outcome rule_matches_from_rules (evaluate_rules_for_tenant lib ev t eng)"
  using evaluate_loops_agree [of lib ev _ _ "[]", simplified]
  by (simp add: evaluate_for_tenant_def evaluate_rules_for_tenant_def split: option.splits)

end
