(* ===== verification/Publisher.thy ===== *)
theory Publisher
  imports Go_Values
begin

text \<open>
  \<^verbatim>\<open>pkg/core/publisher.go\<close> and the broker part of \<^verbatim>\<open>pkg/core/config.go\<close>: building publishers from a
  configuration, retrying, the multiplexer with its dead-letter driver, and closing.

  The Relaybus SDK, JSON and protobuf encoding, clocks and identifiers are parameters, the fields of
  \<open>pub_lib\<close>. What they are asked to do is recorded in a world, on which their answers may depend, so
  a broker that fails at some times and not at others is one instance. A context's \<^verbatim>\<open>Done\<close> channel is
  the field \<open>pl_ctx_err\<close>: the error of the context when it is done in a given world.
\<close>

section \<open>Configuration\<close>

record kafka_config =
  kc_brokers :: "string list"
  kc_broker :: string
  kc_topic_prefix :: string
  kc_retry_count :: int

record nats_config =
  nc_url :: string
  nc_subject_prefix :: string
  nc_retry_count :: int

record amqp_config =
  ac_url :: string
  ac_exchange :: string
  ac_routing_key_template :: string
  ac_mandatory :: bool
  ac_immediate :: bool
  ac_retry_count :: int

record http_config =
  hc_endpoint :: string
  hc_retry_count :: int
  hc_webhook_token :: string

record publish_retry_config =
  pr_attempts :: int
  pr_delay_ms :: int

record relaybus_config =
  rb_driver :: string
  rb_drivers :: "string list"
  rb_kafka :: kafka_config
  rb_nats :: nats_config
  rb_amqp :: amqp_config
  rb_http :: http_config
  rb_publish_retry :: publish_retry_config
  rb_dlq_driver :: string

definition zero_relaybus :: relaybus_config where
  "zero_relaybus =
     \<lparr>rb_driver = [], rb_drivers = [],
      rb_kafka = \<lparr>kc_brokers = [], kc_broker = [], kc_topic_prefix = [], kc_retry_count = 0\<rparr>,
      rb_nats = \<lparr>nc_url = [], nc_subject_prefix = [], nc_retry_count = 0\<rparr>,
      rb_amqp = \<lparr>ac_url = [], ac_exchange = [], ac_routing_key_template = [], ac_mandatory = False,
        ac_immediate = False, ac_retry_count = 0\<rparr>,
      rb_http = \<lparr>hc_endpoint = [], hc_retry_count = 0, hc_webhook_token = []\<rparr>,
      rb_publish_retry = \<lparr>pr_attempts = 0, pr_delay_ms = 0\<rparr>, rb_dlq_driver = []\<rparr>"

section \<open>Messages, publishers, the outside world\<close>

record message =
  msg_id :: string
  msg_topic :: string
  msg_payload :: string
  msg_timestamp :: gtime
  msg_content_type :: string
  msg_metadata :: "string gmap"
  msg_schema_version :: string

record retry_policy =
  rp_max_attempts :: int
  rp_base_delay :: int
  rp_max_delay :: int

text \<open>The configurations handed to \<^verbatim>\<open>relaycore.NewPublisher\<close> and \<^verbatim>\<open>httpadapter.NewPublisher\<close>.\<close>

datatype backend =
    KafkaBackend retry_policy "string list" string
  | NatsBackend retry_policy string string
  | AmqpBackend retry_policy string string string bool bool
  | HttpBackend string "string gmap"

text \<open>
  \<open>Relaybus\<close> wraps an SDK publisher \<open>'p\<close>; \<open>Retrying\<close> is \<^verbatim>\<open>retryingPublisher\<close> (its base may be nil)
  with attempts and delay; \<open>Mux\<close> is \<^verbatim>\<open>publisherMux\<close>.
\<close>

datatype 'p publisher =
    Relaybus 'p
  | Retrying "'p publisher option" int int
  | Mux "(string \<times> 'p publisher) list" "string list" string

text \<open>The world: messages sent so far, publishers closed, backends asked for.\<close>

record 'p world =
  w_sent :: "('p \<times> string \<times> message) list"
  w_closed :: "'p list"
  w_built :: "backend list"

record 'p pub_lib =
  pl_new :: "backend \<Rightarrow> 'p world \<Rightarrow> 'p res"
  pl_send :: "'p \<Rightarrow> string \<Rightarrow> message \<Rightarrow> 'p world \<Rightarrow> go_error option"
  pl_close :: "'p \<Rightarrow> 'p world \<Rightarrow> go_error option"
  pl_ctx_err :: "'p world \<Rightarrow> go_error option"
  pl_now :: "'p world \<Rightarrow> gtime"
  pl_uuid :: "'p world \<Rightarrow> string"
  pl_json_value :: "gval \<Rightarrow> string res"
  pl_json_event :: "event \<Rightarrow> string res"
  pl_proto :: "string \<Rightarrow> string \<Rightarrow> string \<Rightarrow> string res"

type_synonym ('p, 'a) action = "'p world \<Rightarrow> 'a \<times> 'p world"

section \<open>Sending one message\<close>

definition event_metadata :: "event \<Rightarrow> string gmap" where
  "event_metadata ev =
     (let put_if = (\<lambda>k v m. if v \<noteq> [] then mput k v m else m);
          m = put_if ''provider'' (ev_provider ev) [];
          m = put_if ''event'' (ev_name ev) m;
          m = put_if ''request_id'' (ev_request_id ev) m;
          m = put_if ''state_id'' (ev_state_id ev) m;
          m = put_if ''installation_id'' (ev_installation_id ev) m;
          m = put_if ''provider_instance_key'' (ev_instance_key ev) m;
          m = put_if ''tenant_id'' (ev_tenant_id ev) m;
          m = put_if ''log_id'' (ev_log_id ev) m;
          m = mput ''content_type'' ''application/x-protobuf'' m
      in mput ''schema'' ''cloud.v1.EventPayload'' m)"

definition publish_payload :: "'p pub_lib \<Rightarrow> event \<Rightarrow> string res" where
  "publish_payload lib ev =
     (let raw = ev_raw_payload ev;
          raw = (if raw = [] \<and> ev_raw_object ev \<noteq> VNil then
                   (case pl_json_value lib (ev_raw_object ev) of Inr data \<Rightarrow> data | Inl _ \<Rightarrow> raw)
                 else raw)
      in if raw = [] then pl_json_event lib ev else Inr raw)"

definition relaybus_publish :: "'p pub_lib \<Rightarrow> 'p \<Rightarrow> string \<Rightarrow> event \<Rightarrow> ('p, go_error option) action" where
  "relaybus_publish lib p topic ev w =
     (case publish_payload lib ev of
        Inl err \<Rightarrow> (Some err, w)
      | Inr raw \<Rightarrow>
          (case pl_proto lib (ev_provider ev) (ev_name ev) raw of
             Inl err \<Rightarrow> (Some err, w)
           | Inr proto \<Rightarrow>
               (let msg = \<lparr>msg_id = (if trim_space (ev_log_id ev) = [] then pl_uuid lib w else ev_log_id ev),
                      msg_topic = topic, msg_payload = proto, msg_timestamp = pl_now lib w,
                      msg_content_type = ''application/x-protobuf'',
                      msg_metadata = event_metadata ev, msg_schema_version = ''v1''\<rparr>
                in (pl_send lib p topic msg w, w\<lparr>w_sent := w_sent w @ [(p, topic, msg)]\<rparr>))))"

section \<open>Retrying and multiplexing\<close>

text \<open>
  The loop of \<^verbatim>\<open>retryingPublisher.Publish\<close>: \<open>n\<close> attempts are left, \<open>last_err\<close> is \<^verbatim>\<open>lastErr\<close>. Between two
  attempts a positive delay waits for the timer or the context, whichever comes first.
\<close>

fun retry_loop :: "('p world \<Rightarrow> go_error option) \<Rightarrow> int \<Rightarrow> ('p, go_error option) action \<Rightarrow> nat
    \<Rightarrow> go_error option \<Rightarrow> ('p, go_error option) action" where
  "retry_loop ctx delay step 0 last_err w = (last_err, w)"
| "retry_loop ctx delay step (Suc n) last_err w =
     (case step w of
        (None, w') \<Rightarrow> (None, w')
      | (Some err, w') \<Rightarrow>
          if n = 0 \<or> delay \<le> 0 then retry_loop ctx delay step n (Some err) w'
          else
            (case ctx w' of
               Some ce \<Rightarrow> (join_err (Some err) (Some ce), w')
             | None \<Rightarrow> retry_loop ctx delay step n (Some err) w'))"

text \<open>\<open>look\<close> is the lookup in \<^verbatim>\<open>m.publishers\<close>, giving the publish action of a driver.\<close>

fun mux_loop :: "(string \<Rightarrow> ('p, go_error option) action option) \<Rightarrow> string \<Rightarrow> string list
    \<Rightarrow> go_error option \<Rightarrow> ('p, go_error option) action" where
  "mux_loop look dlq_driver [] err w = (err, w)"
| "mux_loop look dlq_driver (driver # targets) err w =
     (let normalized = to_lower driver in
      case look normalized of
        None \<Rightarrow> mux_loop look dlq_driver targets (join_err err (Some (Error (''unknown driver '' @ driver)))) w
      | Some pub \<Rightarrow>
          (case pub w of
             (None, w') \<Rightarrow> mux_loop look dlq_driver targets err w'
           | (Some publish_err, w') \<Rightarrow>
               (let err' = join_err err (Some publish_err);
                    w'' = (if dlq_driver \<noteq> [] \<and> dlq_driver \<noteq> normalized then
                             (case look dlq_driver of Some dlq \<Rightarrow> snd (dlq w') | None \<Rightarrow> w')
                           else w')
                in mux_loop look dlq_driver targets err' w'')))"

lemma size_map_publisher [termination_simp]:
  "map_of m k = Some c \<Longrightarrow> size c < Suc (size_list (size_prod (\<lambda>_. 0) size) m)"
  by (induction m) (auto split: if_splits)

lemma size_map_publisher' [termination_simp]:
  "map_of m k = Some c \<Longrightarrow> size c < Suc (size_list (\<lambda>x. Suc (size (snd x))) m)"
  by (induction m) (auto split: if_splits)

fun publish :: "'p pub_lib \<Rightarrow> 'p publisher \<Rightarrow> string \<Rightarrow> event \<Rightarrow> ('p, go_error option) action" where
  "publish lib (Relaybus p) topic ev w = relaybus_publish lib p topic ev w"
| "publish lib (Retrying None attempts delay) topic ev w = (Some (Error ''publisher not configured''), w)"
| "publish lib (Retrying (Some base) attempts delay) topic ev w =
     retry_loop (pl_ctx_err lib) delay (\<lambda>w'. publish lib base topic ev w')
       (if attempts \<le> 0 then 1 else nat attempts) None w"
| "publish lib (Mux pubs defaults dlq) topic ev w =
     mux_loop (\<lambda>d. map_option (\<lambda>p w'. publish lib p topic ev w') (map_of pubs d)) dlq defaults None w"

fun publish_for_drivers ::
    "'p pub_lib \<Rightarrow> 'p publisher \<Rightarrow> string \<Rightarrow> event \<Rightarrow> string list \<Rightarrow> ('p, go_error option) action" where
  "publish_for_drivers lib (Mux pubs defaults dlq) topic ev drivers w =
     mux_loop (\<lambda>d. map_option (\<lambda>p. publish lib p topic ev) (map_of pubs d)) dlq
       (if drivers = [] then defaults else drivers) None w"
| "publish_for_drivers lib pub topic ev drivers w = publish lib pub topic ev w"

lemma size_fst_snd_publisher [termination_simp]:
  "(a, b) \<in> set m \<Longrightarrow> size b < Suc (size_list (size_prod (\<lambda>_. 0) size) m)"
  by (induction m) auto

fun close_loop :: "('p, go_error option) action list \<Rightarrow> go_error option \<Rightarrow> ('p, go_error option) action" where
  "close_loop [] err w = (err, w)"
| "close_loop (c # cs) err w = (let (e, w') = c w in close_loop cs (join_err err e) w')"

fun close_publisher :: "'p pub_lib \<Rightarrow> 'p publisher \<Rightarrow> ('p, go_error option) action" where
  "close_publisher lib (Relaybus p) w = (pl_close lib p w, w\<lparr>w_closed := w_closed w @ [p]\<rparr>)"
| "close_publisher lib (Retrying None attempts delay) w = (None, w)"
| "close_publisher lib (Retrying (Some base) attempts delay) w = close_publisher lib base w"
| "close_publisher lib (Mux pubs defaults dlq) w =
     close_loop (map (\<lambda>(k, p) w'. close_publisher lib p w') pubs) None w"

section \<open>Building\<close>

definition relaybus_retry_policy :: "publish_retry_config \<Rightarrow> retry_policy" where
  "relaybus_retry_policy cfg =
     (let attempts = (if pr_attempts cfg \<le> 0 then 1 else pr_attempts cfg);
          delay = pr_delay_ms cfg * 1000000;
          delay = (if delay < 0 then 0 else delay)
      in \<lparr>rp_max_attempts = attempts, rp_base_delay = delay, rp_max_delay = delay\<rparr>)"

type_synonym 'p factories = "(relaybus_config \<Rightarrow> 'p publisher res) gmap"

text \<open>\<open>None\<close> is the nil factory.\<close>

definition register_publisher_driver ::
    "string \<Rightarrow> (relaybus_config \<Rightarrow> 'p publisher res) option \<Rightarrow> 'p factories \<Rightarrow> 'p factories" where
  "register_publisher_driver name factory fs =
     (case factory of
        None \<Rightarrow> fs
      | Some f \<Rightarrow> if name = [] then fs else mput (to_lower name) f fs)"

definition kafka_brokers :: "kafka_config \<Rightarrow> string list" where
  "kafka_brokers k = (if kc_brokers k = [] \<and> kc_broker k \<noteq> [] then [kc_broker k] else kc_brokers k)"

definition driver_retry_config :: "relaybus_config \<Rightarrow> string \<Rightarrow> publish_retry_config" where
  "driver_retry_config cfg driver =
     (let result = rb_publish_retry cfg;
          d = to_lower (trim_space driver);
          set_if = (\<lambda>n. if 0 < n then result\<lparr>pr_attempts := n\<rparr> else result)
      in if d = ''amqp'' then set_if (ac_retry_count (rb_amqp cfg))
         else if d = ''nats'' then set_if (nc_retry_count (rb_nats cfg))
         else if d = ''kafka'' then set_if (kc_retry_count (rb_kafka cfg))
         else if d = ''http'' then set_if (hc_retry_count (rb_http cfg))
         else result)"

definition validate_publisher_driver :: "'p factories \<Rightarrow> relaybus_config \<Rightarrow> string \<Rightarrow> go_error option" where
  "validate_publisher_driver fs cfg driver =
     (let d = to_lower (trim_space driver) in
      if d = ''amqp'' then
        (if ac_url (rb_amqp cfg) = [] then Some (Error ''amqp url is required'') else None)
      else if d = ''nats'' then
        (if nc_url (rb_nats cfg) = [] then Some (Error ''nats url is required'') else None)
      else if d = ''kafka'' then
        (if kafka_brokers (rb_kafka cfg) = [] then Some (Error ''kafka brokers are required'') else None)
      else if d = ''http'' then
        (if trim_space (hc_endpoint (rb_http cfg)) = [] then Some (Error ''http endpoint is required'') else None)
      else if mget fs (to_lower driver) \<noteq> None then None
      else Some (Error (''unsupported relaybus driver: '' @ driver)))"

fun validate_drivers :: "'p factories \<Rightarrow> relaybus_config \<Rightarrow> string list \<Rightarrow> go_error option" where
  "validate_drivers fs cfg [] = None"
| "validate_drivers fs cfg (d # ds) =
     (case validate_publisher_driver fs cfg d of Some e \<Rightarrow> Some e | None \<Rightarrow> validate_drivers fs cfg ds)"

definition config_drivers :: "relaybus_config \<Rightarrow> string list" where
  "config_drivers cfg =
     (if rb_drivers cfg = [] \<and> rb_driver cfg \<noteq> [] then [rb_driver cfg] else rb_drivers cfg)"

definition validate_publisher_config :: "'p factories \<Rightarrow> relaybus_config \<Rightarrow> go_error option" where
  "validate_publisher_config fs cfg = validate_drivers fs cfg (config_drivers cfg)"

definition ask_backend :: "'p pub_lib \<Rightarrow> backend \<Rightarrow> ('p publisher \<Rightarrow> 'p publisher) \<Rightarrow> ('p, 'p publisher res) action" where
  "ask_backend lib b wrap w =
     (case pl_new lib b w of Inl e \<Rightarrow> Inl e | Inr p \<Rightarrow> Inr (wrap (Relaybus p)), w\<lparr>w_built := w_built w @ [b]\<rparr>)"

definition new_single_publisher :: "'p pub_lib \<Rightarrow> 'p factories \<Rightarrow> relaybus_config \<Rightarrow> string
    \<Rightarrow> publish_retry_config \<Rightarrow> ('p, 'p publisher res) action" where
  "new_single_publisher lib fs cfg driver retry_cfg w =
     (let d = to_lower driver in
      if d = ''kafka'' then
        (let brokers = kafka_brokers (rb_kafka cfg) in
         if brokers = [] then (Inl (Error ''kafka brokers are required''), w)
         else ask_backend lib (KafkaBackend (relaybus_retry_policy retry_cfg) brokers (kc_topic_prefix (rb_kafka cfg))) id w)
      else if d = ''nats'' then
        (if nc_url (rb_nats cfg) = [] then (Inl (Error ''nats url is required''), w)
         else ask_backend lib (NatsBackend (relaybus_retry_policy retry_cfg) (nc_url (rb_nats cfg))
                 (nc_subject_prefix (rb_nats cfg))) id w)
      else if d = ''amqp'' then
        (if ac_url (rb_amqp cfg) = [] then (Inl (Error ''amqp url is required''), w)
         else ask_backend lib (AmqpBackend (relaybus_retry_policy retry_cfg) (ac_url (rb_amqp cfg))
                 (ac_exchange (rb_amqp cfg)) (ac_routing_key_template (rb_amqp cfg))
                 (ac_mandatory (rb_amqp cfg)) (ac_immediate (rb_amqp cfg))) id w)
      else if d = ''http'' then
        (if trim_space (hc_endpoint (rb_http cfg)) = [] then (Inl (Error ''http endpoint is required''), w)
         else
           (let token = trim_space (hc_webhook_token (rb_http cfg));
                headers = (if token \<noteq> [] then mput ''X-Webhook-Token'' token [] else [])
            in ask_backend lib (HttpBackend (hc_endpoint (rb_http cfg)) headers)
                 (\<lambda>base. if pr_attempts retry_cfg \<le> 1 then base
                         else Retrying (Some base) (pr_attempts retry_cfg) (pr_delay_ms retry_cfg * 1000000)) w))
      else
        (case mget fs d of
           Some factory \<Rightarrow> (factory cfg, w)
         | None \<Rightarrow> (Inl (Error (''unsupported relaybus driver: '' @ driver)), w)))"

text \<open>\<^verbatim>\<open>retryPublisherBuild\<close>: up to ten attempts, a wait after each failure.\<close>

definition build_attempts :: nat where
  "build_attempts = 10"

fun build_loop :: "('p world \<Rightarrow> go_error option) \<Rightarrow> ('p, 'p publisher res) action \<Rightarrow> nat \<Rightarrow> go_error
    \<Rightarrow> ('p, 'p publisher res) action" where
  "build_loop ctx build 0 last_err w = (Inl last_err, w)"
| "build_loop ctx build (Suc n) last_err w =
     (case build w of
        (Inr pub, w') \<Rightarrow> (Inr pub, w')
      | (Inl err, w') \<Rightarrow>
          (case ctx w' of
             Some ce \<Rightarrow> (Inl (Joined [err, ce]), w')
           | None \<Rightarrow> build_loop ctx build n err w'))"

definition retry_publisher_build :: "'p pub_lib \<Rightarrow> ('p, 'p publisher res) action \<Rightarrow> ('p, 'p publisher res) action" where
  "retry_publisher_build lib build w = build_loop (pl_ctx_err lib) build build_attempts (Error []) w"

fun build_drivers :: "'p pub_lib \<Rightarrow> 'p factories \<Rightarrow> relaybus_config \<Rightarrow> string list
    \<Rightarrow> (string \<times> 'p publisher) list \<Rightarrow> string list
    \<Rightarrow> ('p, (string \<times> 'p publisher) list \<times> string list) action" where
  "build_drivers lib fs cfg [] pubs built w = ((pubs, built), w)"
| "build_drivers lib fs cfg (driver # drivers) pubs built w =
     (case retry_publisher_build lib (new_single_publisher lib fs cfg driver (driver_retry_config cfg driver)) w of
        (Inl err, w') \<Rightarrow> build_drivers lib fs cfg drivers pubs built w'
      | (Inr pub, w') \<Rightarrow>
          build_drivers lib fs cfg drivers (mput (to_lower driver) pub pubs) (built @ [to_lower driver]) w')"

definition new_publisher :: "'p pub_lib \<Rightarrow> 'p factories \<Rightarrow> relaybus_config \<Rightarrow> ('p, 'p publisher res) action" where
  "new_publisher lib fs cfg w =
     (case build_drivers lib fs cfg (config_drivers cfg) [] [] w of
        ((pubs, built), w') \<Rightarrow>
          if pubs = [] then (Inl (Error ''no publishers available''), w')
          else (Inr (Mux pubs built (to_lower (trim_space (rb_dlq_driver cfg)))), w'))"

section \<open>Guarantees\<close>

text \<open>The run of \<open>k\<close> attempts of an action, each in the world the one before left.\<close>

definition after_runs :: "('p, 'a) action \<Rightarrow> nat \<Rightarrow> 'p world \<Rightarrow> 'p world" where
  "after_runs step k w = ((\<lambda>w. snd (step w)) ^^ k) w"

lemma after_runs_simps [simp]:
  "after_runs step 0 w = w"
  "after_runs step (Suc k) w = after_runs step k (snd (step w))"
  by (simp_all add: after_runs_def funpow_Suc_right del: funpow.simps(2))

definition attempt_run :: "('p world \<Rightarrow> go_error option) \<Rightarrow> int \<Rightarrow> ('p, go_error option) action \<Rightarrow> nat
    \<Rightarrow> 'p world \<Rightarrow> go_error option \<times> 'p world \<Rightarrow> nat \<Rightarrow> bool" where
  "attempt_run ctx delay step n w r k \<longleftrightarrow>
     k < n \<and> snd r = after_runs step (Suc k) w \<and>
     (\<forall>i < k. fst (step (after_runs step i w)) \<noteq> None) \<and>
     (fst r = None \<longleftrightarrow> fst (step (after_runs step k w)) = None) \<and>
     (fst r \<noteq> None \<longrightarrow> Suc k = n \<or> (0 < delay \<and> ctx (snd r) \<noteq> None))"

definition attempt_log :: "('p world \<Rightarrow> go_error option) \<Rightarrow> int \<Rightarrow> ('p, go_error option) action \<Rightarrow> nat
    \<Rightarrow> 'p world \<Rightarrow> go_error option \<times> 'p world \<Rightarrow> bool" where
  "attempt_log ctx delay step n w r \<longleftrightarrow> (\<exists>k. attempt_run ctx delay step n w r k)"

lemma attempt_run_step:
  assumes "attempt_run ctx delay step n (snd (step w)) r k" and "fst (step w) \<noteq> None"
  shows "attempt_run ctx delay step (Suc n) w r (Suc k)"
proof -
  have "fst (step (after_runs step i w)) \<noteq> None" if "i < Suc k" for i
    using that assms by (cases i) (auto simp: attempt_run_def)
  then show ?thesis
    using assms(1) by (auto simp: attempt_run_def simp del: not_None_eq)
qed

lemma attempt_log_step:
  "attempt_log ctx delay step n (snd (step w)) r \<Longrightarrow> fst (step w) \<noteq> None \<Longrightarrow>
     attempt_log ctx delay step (Suc n) w r"
  unfolding attempt_log_def using attempt_run_step by blast

lemma attempt_log_one:
  "fst r = fst (step w) \<or> (fst r \<noteq> None \<and> fst (step w) \<noteq> None) \<Longrightarrow> snd r = snd (step w) \<Longrightarrow>
   fst r \<noteq> None \<longrightarrow> n = 0 \<or> (0 < delay \<and> ctx (snd r) \<noteq> None) \<Longrightarrow> attempt_log ctx delay step (Suc n) w r"
  unfolding attempt_log_def attempt_run_def by (intro exI [of _ 0]) auto

lemma retry_loop_attempts: "attempt_log ctx delay step (Suc n) w (retry_loop ctx delay step (Suc n) last_err w)"
proof (induction n arbitrary: last_err w)
  case 0
  show ?case
    by (rule attempt_log_one) (auto split: option.splits prod.splits)
next
  case (Suc n)
  obtain e w' where s: "step w = (e, w')" by fastforce
  show ?case
  proof (cases e)
    case None
    with s show ?thesis by (intro attempt_log_one) auto
  next
    case (Some err)
    show ?thesis
    proof (cases "0 < delay \<and> ctx w' \<noteq> None")
      case True
      with Some s show ?thesis by (intro attempt_log_one) auto
    next
      case False
      then have "retry_loop ctx delay step (Suc (Suc n)) last_err w = retry_loop ctx delay step (Suc n) (Some err) w'"
        using s Some by (auto simp del: retry_loop.simps simp: retry_loop.simps(2) [of ctx delay step "Suc n"] split: option.splits)
      with Suc [of w' "Some err"] s Some show ?thesis
        by (metis attempt_log_step fst_conv option.distinct(1) snd_conv)
    qed
  qed
qed

text \<open>
  C35: the retrying publisher makes at least one and at most the configured number of
  attempts (one, when that is not positive), one after the other, and stops at the first that
  succeeds; it reports success exactly when the last attempt it made succeeded, and it gives up
  early only when the context is done during a positive delay.
\<close>

theorem retrying_publisher_attempts:
  "attempt_log (pl_ctx_err lib) delay (publish lib base topic ev) (if attempts \<le> 0 then 1 else nat attempts) w
     (publish lib (Retrying (Some base) attempts delay) topic ev w)"
proof -
  have "(if attempts \<le> 0 then 1 else nat attempts) = Suc (nat attempts - 1)"
    by auto
  then show ?thesis
    using retry_loop_attempts [of "pl_ctx_err lib" delay "publish lib base topic ev" "nat attempts - 1" w None]
    by simp
qed

text \<open>Every target is known and accepts the event, each in the world the one before left.\<close>

fun all_delivered :: "(string \<Rightarrow> ('p, go_error option) action option) \<Rightarrow> string list \<Rightarrow> 'p world
    \<Rightarrow> 'p world \<Rightarrow> bool" where
  "all_delivered look [] w w' = (w' = w)"
| "all_delivered look (d # ds) w w' =
     (case look (to_lower d) of
        None \<Rightarrow> False
      | Some pub \<Rightarrow> fst (pub w) = None \<and> all_delivered look ds (snd (pub w)) w')"

lemma mux_loop_keeps_error: "err \<noteq> None \<Longrightarrow> fst (mux_loop look dlq ds err w) \<noteq> None"
  by (induction look dlq ds err w rule: mux_loop.induct)
     (auto simp: Let_def split: option.splits prod.splits)

lemma mux_loop_None:
  "fst (mux_loop look dlq ds err w) = None \<longleftrightarrow>
     err = None \<and> all_delivered look ds w (snd (mux_loop look dlq ds err w))"
proof (induction ds arbitrary: err w)
  case (Cons d ds)
  have keep: "\<exists>y. fst (mux_loop look dlq ds (join_err err (Some e)) v) = Some y" for e v
    using mux_loop_keeps_error [of "join_err err (Some e)" look dlq ds v] by auto
  show ?case
    using Cons keep
    by (auto simp: Let_def split: option.split prod.split)
qed simp

definition mux_look :: "'p pub_lib \<Rightarrow> (string \<times> 'p publisher) list \<Rightarrow> string \<Rightarrow> event \<Rightarrow> string
    \<Rightarrow> ('p, go_error option) action option" where
  "mux_look lib pubs topic ev d = map_option (\<lambda>p. publish lib p topic ev) (map_of pubs d)"

text \<open>
  C36: the multiplexer never swallows a failure. Publishing to a list of drivers (the
  default ones when none is named) reports no error exactly when every one of them is configured
  and accepted the event, and then nothing else was sent: the dead-letter driver is not used.
\<close>

theorem mux_reports_failures:
  "fst (publish_for_drivers lib (Mux pubs defaults dlq) topic ev drivers w) = None \<longleftrightarrow>
     all_delivered (mux_look lib pubs topic ev) (if drivers = [] then defaults else drivers) w
       (snd (publish_for_drivers lib (Mux pubs defaults dlq) topic ev drivers w))"
  by (simp add: mux_loop_None mux_look_def [abs_def])

text \<open>
  A driver that fails hands the event to the dead-letter driver exactly once,
  whatever that one answers, and the failure is still reported; a failing dead-letter driver is not
  retried on itself.
\<close>

theorem mux_dead_letter:
  assumes "map_of pubs (to_lower driver) = Some pub" and "publish lib pub topic ev w = (Some e, w')"
    and "map_of pubs dlq = Some dpub" and "dlq \<noteq> []"
  shows "publish_for_drivers lib (Mux pubs defaults dlq) topic ev [driver] w =
     (Some (Joined [e]), if dlq = to_lower driver then w' else snd (publish lib dpub topic ev w'))"
  using assms by (simp add: Let_def join_err_def)

definition sample_pub_lib :: "string pub_lib" where
  "sample_pub_lib = \<lparr>pl_new = (\<lambda>b w. Inr ''p''),
     pl_send = (\<lambda>p topic m w. if p = ''down'' then Some (Error ''unreachable'') else None),
     pl_close = (\<lambda>p w. None), pl_ctx_err = (\<lambda>w. None), pl_now = (\<lambda>w. 0), pl_uuid = (\<lambda>w. ''id''),
     pl_json_value = (\<lambda>v. Inr ''{}''), pl_json_event = (\<lambda>e. Inr ''{}''), pl_proto = (\<lambda>a b c. Inr c)\<rparr>"

definition empty_world :: "'p world" where
  "empty_world = \<lparr>w_sent = [], w_closed = [], w_built = []\<rparr>"

theorem mux_dead_letter_witness:
  "map (\<lambda>(p, t, m). (p, t)) (w_sent (snd (publish_for_drivers sample_pub_lib
      (Mux [(''amqp'', Relaybus ''down''), (''dlq'', Relaybus ''up'')] [''amqp''] ''dlq'') ''t'' zero_event [''AMQP''] empty_world)))
    = [(''down'', ''t''), (''up'', ''t'')]"
proof -
  let ?pubs = "[(''amqp'', Relaybus ''down''), (''dlq'', Relaybus ''up'')]"
  let ?w' = "snd (publish sample_pub_lib (Relaybus ''down'') ''t'' zero_event empty_world)"
  have a: "map_of ?pubs (to_lower ''AMQP'') = Some (Relaybus ''down'')" by code_simp
  have b: "publish sample_pub_lib (Relaybus ''down'') ''t'' zero_event empty_world = (Some (Error ''unreachable''), ?w')"
    by (simp add: relaybus_publish_def publish_payload_def sample_pub_lib_def zero_event_def Let_def)
  have d: "''dlq'' \<noteq> to_lower ''AMQP''" by code_simp
  have s: "map (\<lambda>(p, t, m). (p, t)) (w_sent (snd (publish sample_pub_lib (Relaybus ''up'') ''t'' zero_event ?w')))
      = [(''down'', ''t''), (''up'', ''t'')]"
    by (simp add: relaybus_publish_def publish_payload_def sample_pub_lib_def zero_event_def empty_world_def Let_def)
  show ?thesis
    using mux_dead_letter [OF a b, of "''dlq''" "Relaybus ''up''" "[''amqp'']"] d s by simp
qed

subsection \<open>Building\<close>

lemma build_loop_bound:
  "(\<And>w. length (w_built (snd (build w))) \<le> Suc (length (w_built w))) \<Longrightarrow>
     length (w_built (snd (build_loop ctx build n last_err w))) \<le> n + length (w_built w)"
proof (induction n arbitrary: last_err w)
  case (Suc n)
  obtain r w' where b: "build w = (r, w')" by fastforce
  with Suc.prems [of w] have "length (w_built w') \<le> Suc (length (w_built w))" by simp
  with Suc.IH [OF Suc.prems] b show ?case
    by (auto split: sum.split option.split intro: order_trans)
      (metis add_Suc_right add_le_mono1 order_trans Suc_le_mono add.commute nat_add_left_cancel_le)
qed simp

lemma new_single_built:
  "\<exists>bs. w_built (snd (new_single_publisher lib fs cfg d rc w)) = w_built w @ bs \<and> length bs \<le> 1"
  by (auto simp: new_single_publisher_def ask_backend_def Let_def split: option.split)

lemma new_single_length:
  "length (w_built (snd (new_single_publisher lib fs cfg d rc w))) \<le> Suc (length (w_built w))"
  using new_single_built [of lib fs cfg d rc w] by auto

lemma retry_build_bound:
  "length (w_built (snd (retry_publisher_build lib (new_single_publisher lib fs cfg d rc) w)))
     \<le> build_attempts + length (w_built w)"
  unfolding retry_publisher_build_def by (rule build_loop_bound) (rule new_single_length)

definition built_ok :: "string list \<Rightarrow> (string \<times> 'p publisher) list \<Rightarrow> string list \<Rightarrow> bool" where
  "built_ok drivers pubs built \<longleftrightarrow>
     wf_map pubs \<and> set built = set (mkeys pubs) \<and> set built \<subseteq> to_lower ` set drivers"

lemma build_drivers_ok:
  assumes "built_ok all pubs built" and "set drivers \<subseteq> set all"
    and "build_drivers lib fs cfg drivers pubs built w = ((pubs', built'), w')"
  shows "built_ok all pubs' built' \<and> length (w_built w') \<le> build_attempts * length drivers + length (w_built w)"
  using assms
proof (induction drivers arbitrary: pubs built w)
  case (Cons d ds)
  obtain r v where r: "retry_publisher_build lib (new_single_publisher lib fs cfg d (driver_retry_config cfg d)) w = (r, v)"
    by fastforce
  have v: "length (w_built v) \<le> build_attempts + length (w_built w)"
    using retry_build_bound [of lib fs cfg d "driver_retry_config cfg d" w] r by simp
  show ?case
  proof (cases r)
    case (Inl e)
    with Cons.prems r have "built_ok all pubs' built' \<and> length (w_built w') \<le> build_attempts * length ds + length (w_built v)"
      by (intro Cons.IH [of pubs built v]) auto
    with v show ?thesis by simp
  next
    case (Inr pub)
    have "built_ok all (mput (to_lower d) pub pubs) (built @ [to_lower d])"
      using Cons.prems by (auto simp: built_ok_def)
    with Cons.prems r Inr have "built_ok all pubs' built' \<and> length (w_built w') \<le> build_attempts * length ds + length (w_built v)"
      by (intro Cons.IH [of "mput (to_lower d) pub pubs" "built @ [to_lower d]" v]) auto
    with v show ?thesis by simp
  qed
qed simp

text \<open>
  Building never loops and never yields a broken multiplexer. At most ten backend
  connections are tried per configured driver, and when a multiplexer comes out it has at least one
  default driver, each default driver is one of the configured ones (in lower case) and resolves to
  a publisher, so publishing to the defaults cannot meet an unknown driver.
\<close>

theorem new_publisher_well_formed:
  assumes "new_publisher lib fs cfg w = (r, w')"
  shows "length (w_built w') \<le> 10 * length (config_drivers cfg) + length (w_built w) \<and>
     (\<forall>pub. r = Inr pub \<longrightarrow>
        (\<exists>pubs defaults dlq. pub = Mux pubs defaults dlq \<and> defaults \<noteq> [] \<and>
           set defaults \<subseteq> to_lower ` set (config_drivers cfg) \<and>
           (\<forall>d \<in> set defaults. mget pubs (to_lower d) \<noteq> None)))"
proof -
  obtain pubs built v where b: "build_drivers lib fs cfg (config_drivers cfg) [] [] w = ((pubs, built), v)"
    by (metis prod.exhaust)
  have "built_ok (config_drivers cfg) pubs built \<and>
      length (w_built v) \<le> build_attempts * length (config_drivers cfg) + length (w_built w)"
    by (rule build_drivers_ok [OF _ _ b]) (simp_all add: built_ok_def mkeys_def)
  then have ok: "built_ok (config_drivers cfg) pubs built"
    and len: "length (w_built v) \<le> 10 * length (config_drivers cfg) + length (w_built w)"
    by (simp_all add: build_attempts_def)
  have "mget pubs (to_lower d) \<noteq> None" if "d \<in> set built" for d
    using ok that by (auto simp: built_ok_def mget_None_iff)
  moreover have "pubs \<noteq> [] \<Longrightarrow> built \<noteq> []"
    using ok by (cases pubs) (auto simp: built_ok_def mkeys_def)
  ultimately show ?thesis
    using assms b ok [unfolded built_ok_def] len
    by (simp del: not_None_eq add: new_publisher_def split: if_splits) auto
qed

theorem new_publisher_well_formed_witness:
  "\<exists>r w'. new_publisher sample_pub_lib [] (zero_relaybus\<lparr>rb_driver := ''AMQP'',
        rb_amqp := (rb_amqp zero_relaybus)\<lparr>ac_url := ''amqp://h''\<rparr>\<rparr>) empty_world = (r, w') \<and> length (w_built w') \<le> 10"
proof -
  let ?cfg = "zero_relaybus\<lparr>rb_driver := ''AMQP'', rb_amqp := (rb_amqp zero_relaybus)\<lparr>ac_url := ''amqp://h''\<rparr>\<rparr>"
  obtain r w' where r: "new_publisher sample_pub_lib [] ?cfg empty_world = (r, w')" by fastforce
  have "length (config_drivers ?cfg) = 1" "length (w_built (empty_world :: string world)) = 0"
    by (simp_all add: config_drivers_def zero_relaybus_def empty_world_def)
  with new_publisher_well_formed [OF r] r show ?thesis by simp
qed

text \<open>
  Validating a configuration and building from it agree on what is wrong. For a
  driver name without white space around it, building fails before any backend is contacted exactly
  when validation reports an error, with that error; and when validation accepts a built-in driver,
  exactly one backend is asked for.
\<close>

theorem validate_agrees_with_build:
  assumes "trimmed driver" and "mget fs (to_lower driver) = None"
  shows "case validate_publisher_driver fs cfg driver of
      Some e \<Rightarrow> new_single_publisher lib fs cfg driver rc w = (Inl e, w)
    | None \<Rightarrow> (\<exists>b. w_built (snd (new_single_publisher lib fs cfg driver rc w)) = w_built w @ [b])"
proof -
  consider "to_lower driver = ''amqp''" | "to_lower driver = ''nats''" | "to_lower driver = ''kafka''"
    | "to_lower driver = ''http''"
    | "to_lower driver \<notin> {''amqp'', ''nats'', ''kafka'', ''http''}" by blast
  then show ?thesis
    using assms(2)
    by cases (simp_all add: validate_publisher_driver_def new_single_publisher_def trim_space_trimmed [OF assms(1)]
        ask_backend_def Let_def)
qed

theorem validate_agrees_with_build_witness:
  "new_single_publisher sample_pub_lib [] zero_relaybus ''NATS'' (rb_publish_retry zero_relaybus) empty_world
     = (Inl (Error ''nats url is required''), empty_world)"
proof -
  have t: "trimmed ''NATS''" and m: "mget ([] :: string factories) (to_lower ''NATS'') = None"
    and v: "validate_publisher_driver ([] :: string factories) zero_relaybus ''NATS'' = Some (Error ''nats url is required'')"
    by code_simp+
  from validate_agrees_with_build [OF t m, where cfg = zero_relaybus and lib = sample_pub_lib
      and rc = "rb_publish_retry zero_relaybus" and w = empty_world]
  show ?thesis by (simp add: v)
qed

text \<open>
  With white space around the driver name the two disagree: validation trims the
  name and accepts \<^verbatim>\<open>" amqp "\<close>, building does not trim it and answers that the driver is
  unsupported, so a configuration that passed validation cannot be used.
\<close>

theorem validate_accepts_unbuildable:
  "validate_publisher_driver [] (zero_relaybus\<lparr>rb_amqp := (rb_amqp zero_relaybus)\<lparr>ac_url := ''u''\<rparr>\<rparr>) '' amqp '' = None
   \<and> fst (new_single_publisher lib [] (zero_relaybus\<lparr>rb_amqp := (rb_amqp zero_relaybus)\<lparr>ac_url := ''u''\<rparr>\<rparr>) '' amqp '' rc w)
       = Inl (Error ''unsupported relaybus driver:  amqp '')"
proof -
  have t: "trim_space '' amqp '' = ''amqp''" "to_lower '' amqp '' = '' amqp ''" "to_lower ''amqp'' = ''amqp''"
    by code_simp+
  show ?thesis
    by (simp add: validate_publisher_driver_def new_single_publisher_def t Let_def)
qed

end
