(* ===== verification/App_Config.thy ===== *)
theory App_Config
  imports Publisher
begin

text \<open>
  The configuration of the server: \<^verbatim>\<open>pkg/auth\<close> (provider settings and provider names),
  \<^verbatim>\<open>pkg/providers/contracts.go\<close> (the table of providers) and \<^verbatim>\<open>applyDefaults\<close> of
  \<^verbatim>\<open>pkg/core/config.go\<close>. Reading and decoding the YAML file is not modelled; \<^verbatim>\<open>url.Parse\<close> is a
  parameter giving scheme and host.
\<close>

section \<open>Provider names and the table of providers\<close>

definition normalize_provider_name :: "string \<Rightarrow> string" where
  "normalize_provider_name provider =
     (let p = to_lower (trim_space provider);
          p = replace_byte p (CHR ''-'') ''_''
      in if p = ''jira'' then ''atlassian'' else p)"

definition is_github_provider :: "string \<Rightarrow> bool" where
  "is_github_provider provider \<longleftrightarrow> normalize_provider_name provider = ''github''"

datatype provider_type = TypeUnknown | TypeSCM | TypeCollaboration

datatype capability = CapabilityWebhookReceive | CapabilityOAuthInstall | CapabilityAPIClient

record provider_definition =
  pd_name :: string
  pd_type :: provider_type
  pd_capabilities :: "capability list"

fun provider_type_text :: "provider_type \<Rightarrow> string" where
  "provider_type_text TypeUnknown = ''unknown''"
| "provider_type_text TypeSCM = ''scm''"
| "provider_type_text TypeCollaboration = ''collaboration''"

definition has_capability :: "provider_definition \<Rightarrow> capability \<Rightarrow> bool" where
  "has_capability d capability = list_ex (\<lambda>c. c = capability) (pd_capabilities d)"

definition definition_by_provider :: "string \<Rightarrow> provider_definition option" where
  "definition_by_provider name =
     (let n = to_lower (trim_space name);
          all_caps = [CapabilityWebhookReceive, CapabilityOAuthInstall, CapabilityAPIClient]
      in if n = ''github'' then Some \<lparr>pd_name = ''github'', pd_type = TypeSCM, pd_capabilities = all_caps\<rparr>
         else if n = ''gitlab'' then Some \<lparr>pd_name = ''gitlab'', pd_type = TypeSCM, pd_capabilities = all_caps\<rparr>
         else if n = ''bitbucket'' then Some \<lparr>pd_name = ''bitbucket'', pd_type = TypeSCM, pd_capabilities = all_caps\<rparr>
         else if n = ''slack'' then
           Some \<lparr>pd_name = ''slack'', pd_type = TypeCollaboration,
             pd_capabilities = [CapabilityWebhookReceive, CapabilityOAuthInstall]\<rparr>
         else if n = ''jira'' then
           Some \<lparr>pd_name = ''atlassian'', pd_type = TypeCollaboration, pd_capabilities = all_caps\<rparr>
         else if n = ''atlassian'' then
           Some \<lparr>pd_name = ''atlassian'', pd_type = TypeCollaboration, pd_capabilities = all_caps\<rparr>
         else None)"

definition provider_type_for :: "string \<Rightarrow> provider_type" where
  "provider_type_for name =
     (case definition_by_provider name of Some d \<Rightarrow> pd_type d | None \<Rightarrow> TypeUnknown)"

section \<open>Settings of a provider\<close>

record webhook_config =
  wh_path :: string
  wh_secret :: string

record github_app_config =
  app_id :: int
  private_key_path :: string
  private_key_pem :: string
  app_slug :: string

record oauth_config =
  client_id :: string
  client_secret :: string
  scopes :: "string list"

record api_config =
  base_url :: string
  web_base_url :: string

record provider_config =
  pc_enabled :: bool
  pc_key :: string
  pc_webhook :: webhook_config
  pc_app :: github_app_config
  pc_oauth :: oauth_config
  pc_api :: api_config

record auth_providers =
  ap_github :: provider_config
  ap_gitlab :: provider_config
  ap_bitbucket :: provider_config
  ap_slack :: provider_config
  ap_atlassian :: provider_config
  ap_jira :: provider_config
  ap_extra :: "provider_config gmap option"

definition zero_provider_config :: provider_config where
  "zero_provider_config =
     \<lparr>pc_enabled = False, pc_key = [], pc_webhook = \<lparr>wh_path = [], wh_secret = []\<rparr>,
      pc_app = \<lparr>app_id = 0, private_key_path = [], private_key_pem = [], app_slug = []\<rparr>,
      pc_oauth = \<lparr>client_id = [], client_secret = [], scopes = []\<rparr>,
      pc_api = \<lparr>base_url = [], web_base_url = []\<rparr>\<rparr>"

definition provider_config_set :: "provider_config \<Rightarrow> bool" where
  "provider_config_set cfg \<longleftrightarrow>
     pc_enabled cfg \<or>
     (pc_key cfg \<noteq> [] \<or> wh_path (pc_webhook cfg) \<noteq> [] \<or> wh_secret (pc_webhook cfg) \<noteq> []) \<or>
     (app_id (pc_app cfg) \<noteq> 0 \<or> private_key_path (pc_app cfg) \<noteq> [] \<or>
        private_key_pem (pc_app cfg) \<noteq> [] \<or> app_slug (pc_app cfg) \<noteq> []) \<or>
     (client_id (pc_oauth cfg) \<noteq> [] \<or> client_secret (pc_oauth cfg) \<noteq> [] \<or> scopes (pc_oauth cfg) \<noteq> []) \<or>
     (base_url (pc_api cfg) \<noteq> [] \<or> web_base_url (pc_api cfg) \<noteq> [])"

fun find_extra :: "string \<Rightarrow> provider_config gmap \<Rightarrow> provider_config option" where
  "find_extra provider [] = None"
| "find_extra provider ((key, cfg) # m) =
     (if normalize_provider_name key = provider then Some cfg else find_extra provider m)"

definition provider_config_for :: "auth_providers \<Rightarrow> string \<Rightarrow> provider_config \<times> bool" where
  "provider_config_for c provider0 =
     (let provider = normalize_provider_name provider0 in
      if provider = ''github'' then (ap_github c, True)
      else if provider = ''gitlab'' then (ap_gitlab c, True)
      else if provider = ''bitbucket'' then (ap_bitbucket c, True)
      else if provider = ''slack'' then (ap_slack c, True)
      else if provider = ''atlassian'' \<or> provider = ''jira'' then
        (if provider_config_set (ap_atlassian c) then (ap_atlassian c, True)
         else (ap_jira c, provider_config_set (ap_jira c)))
      else
        (case ap_extra c of
           None \<Rightarrow> (zero_provider_config, False)
         | Some extra \<Rightarrow>
             (case mget extra provider of
                Some cfg \<Rightarrow> (cfg, True)
              | None \<Rightarrow>
                  (case find_extra provider extra of
                     Some cfg \<Rightarrow> (cfg, True)
                   | None \<Rightarrow> (zero_provider_config, False)))))"

section \<open>The application configuration\<close>

record server_config =
  sv_port :: int
  sv_public_base_url :: string
  sv_read_timeout_ms :: int
  sv_write_timeout_ms :: int
  sv_idle_timeout_ms :: int
  sv_read_header_ms :: int
  sv_max_body_bytes :: int
  sv_debug_events :: bool
  sv_cors_origins :: "string list"
  sv_cors_headers :: "string list"
  sv_tenant_header_fallback :: bool
  sv_max_replay_concurrency :: int

record storage_config =
  st_driver :: string
  st_dsn :: string
  st_dialect :: string
  st_auto_migrate :: bool
  st_max_open_conns :: int
  st_max_idle_conns :: int
  st_conn_max_lifetime_ms :: int
  st_conn_max_idle_time_ms :: int

record oauth2_config =
  o2_enabled :: bool
  o2_issuer :: string
  o2_audience :: string
  o2_required_scopes :: "string list"
  o2_required_roles :: "string list"
  o2_required_groups :: "string list"
  o2_mode :: string
  o2_client_id :: string
  o2_client_secret :: string
  o2_scopes :: "string list"
  o2_redirect_url :: string
  o2_authorize_url :: string
  o2_token_url :: string
  o2_jwks_url :: string

record app_config =
  cf_server :: server_config
  cf_providers :: auth_providers
  cf_relaybus :: relaybus_config
  cf_storage :: storage_config
  cf_redirect_base_url :: string
  cf_oauth_redirect_base_url :: string
  cf_oauth2 :: oauth2_config
  cf_endpoint :: string

definition default_cors_allowed_origins :: "(string \<Rightarrow> (string \<times> string) option) \<Rightarrow> string \<Rightarrow> string list" where
  "default_cors_allowed_origins url_parse endpoint =
     (case url_parse (trim_space endpoint) of
        Some (scheme, host) \<Rightarrow>
          if scheme \<noteq> [] \<and> host \<noteq> [] then [scheme @ ''://'' @ host]
          else [''http://localhost:3000'', ''http://127.0.0.1:3000'']
      | None \<Rightarrow> [''http://localhost:3000'', ''http://127.0.0.1:3000''])"

definition or_int :: "int \<Rightarrow> int \<Rightarrow> int" where
  "or_int v d = (if v = 0 then d else v)"

definition or_str :: "string \<Rightarrow> string \<Rightarrow> string" where
  "or_str v d = (if v = [] then d else v)"

definition default_path :: "string \<Rightarrow> provider_config \<Rightarrow> provider_config" where
  "default_path path c = c\<lparr>pc_webhook := (pc_webhook c)\<lparr>wh_path := or_str (wh_path (pc_webhook c)) path\<rparr>\<rparr>"

definition default_providers :: "auth_providers \<Rightarrow> auth_providers" where
  "default_providers p0 =
     (let p = p0\<lparr>ap_github := default_path ''/webhooks/github'' (ap_github p0)\<rparr>;
          p = p\<lparr>ap_gitlab := default_path ''/webhooks/gitlab'' (ap_gitlab p)\<rparr>;
          p = p\<lparr>ap_bitbucket := default_path ''/webhooks/bitbucket'' (ap_bitbucket p)\<rparr>;
          p = p\<lparr>ap_slack := default_path ''/webhooks/slack'' (ap_slack p)\<rparr>;
          p = p\<lparr>ap_atlassian := default_path ''/webhooks/atlassian'' (ap_atlassian p)\<rparr>
      in p\<lparr>ap_jira := default_path (wh_path (pc_webhook (ap_atlassian p))) (ap_jira p)\<rparr>)"

definition default_server :: "server_config \<Rightarrow> server_config" where
  "default_server s =
     s\<lparr>sv_port := or_int (sv_port s) 8080,
       sv_read_timeout_ms := or_int (sv_read_timeout_ms s) 5000,
       sv_write_timeout_ms := or_int (sv_write_timeout_ms s) 10000,
       sv_idle_timeout_ms := or_int (sv_idle_timeout_ms s) 60000,
       sv_read_header_ms := or_int (sv_read_header_ms s) 5000,
       sv_max_body_bytes := or_int (sv_max_body_bytes s) 1048576\<rparr>"

definition default_relaybus :: "relaybus_config \<Rightarrow> relaybus_config" where
  "default_relaybus r =
     r\<lparr>rb_publish_retry := \<lparr>pr_attempts = or_int (pr_attempts (rb_publish_retry r)) 3,
         pr_delay_ms = or_int (pr_delay_ms (rb_publish_retry r)) 500\<rparr>\<rparr>"

definition default_storage :: "storage_config \<Rightarrow> storage_config" where
  "default_storage s =
     s\<lparr>st_max_open_conns := or_int (st_max_open_conns s) 2,
       st_max_idle_conns := or_int (st_max_idle_conns s) 1,
       st_conn_max_lifetime_ms := or_int (st_conn_max_lifetime_ms s) 300000,
       st_conn_max_idle_time_ms := or_int (st_conn_max_idle_time_ms s) 60000\<rparr>"

definition default_cors_headers :: "string list" where
  "default_cors_headers =
     [''Accept'', ''Authorization'', ''Content-Type'', ''Connect-Protocol-Version'', ''Connect-Timeout-Ms'',
      ''X-API-Key'', ''X-Tenant-ID'', ''X-Githooks-Tenant-ID'']"

definition apply_auth_defaults :: "string \<Rightarrow> oauth2_config \<Rightarrow> oauth2_config" where
  "apply_auth_defaults endpoint o2 =
     (if \<not> o2_enabled o2 then o2
      else
        o2\<lparr>o2_mode := or_str (o2_mode o2) ''auto'',
           o2_redirect_url :=
             (if o2_redirect_url o2 = [] \<and> endpoint \<noteq> []
              then trim_right_byte endpoint (CHR ''/'') @ ''/auth/callback'' else o2_redirect_url o2),
           o2_scopes := (if o2_scopes o2 = [] then [''openid'', ''profile'', ''email''] else o2_scopes o2)\<rparr>)"

definition complete_server :: "(string \<Rightarrow> (string \<times> string) option) \<Rightarrow> string \<Rightarrow> server_config \<Rightarrow> server_config" where
  "complete_server url_parse endpoint sv =
     sv\<lparr>sv_cors_origins := (if sv_cors_origins sv = [] then default_cors_allowed_origins url_parse endpoint
                            else sv_cors_origins sv),
        sv_cors_headers := (if sv_cors_headers sv = [] then default_cors_headers else sv_cors_headers sv),
        sv_max_replay_concurrency :=
          (if sv_max_replay_concurrency sv \<le> 0 then 8 else sv_max_replay_concurrency sv)\<rparr>"

definition apply_defaults :: "(string \<Rightarrow> (string \<times> string) option) \<Rightarrow> app_config \<Rightarrow> app_config" where
  "apply_defaults url_parse cfg0 =
     (let cfg = cfg0\<lparr>cf_server := default_server (cf_server cfg0)\<rparr>;
          cfg = cfg\<lparr>cf_endpoint := or_str (cf_endpoint cfg) (sv_public_base_url (cf_server cfg))\<rparr>;
          cfg = cfg\<lparr>cf_redirect_base_url := or_str (cf_redirect_base_url cfg) (cf_oauth_redirect_base_url cfg)\<rparr>;
          cfg = cfg\<lparr>cf_providers := default_providers (cf_providers cfg)\<rparr>;
          cfg = cfg\<lparr>cf_relaybus := default_relaybus (cf_relaybus cfg)\<rparr>;
          cfg = cfg\<lparr>cf_storage := default_storage (cf_storage cfg)\<rparr>;
          cfg = cfg\<lparr>cf_server := complete_server url_parse (cf_endpoint cfg) (cf_server cfg)\<rparr>
      in cfg\<lparr>cf_oauth2 := apply_auth_defaults (cf_endpoint cfg) (cf_oauth2 cfg)\<rparr>)"

lemma or_idem [simp]: "or_int (or_int v d) d = or_int v d" "or_str (or_str s t) t = or_str s t"
  by (simp_all add: or_int_def or_str_def)

lemma default_path_idem [simp]: "default_path p (default_path p c) = default_path p c"
  by (simp add: default_path_def)

lemma default_parts_idem [simp]:
  "default_server (default_server s) = default_server s"
  "default_relaybus (default_relaybus r) = default_relaybus r"
  "default_storage (default_storage t) = default_storage t"
  by (simp_all add: default_server_def default_relaybus_def default_storage_def)

lemma default_providers_fields:
  "ap_atlassian (default_providers p) = default_path ''/webhooks/atlassian'' (ap_atlassian p)"
  "ap_jira (default_providers p) =
     default_path (wh_path (pc_webhook (default_path ''/webhooks/atlassian'' (ap_atlassian p)))) (ap_jira p)"
  "ap_github (default_providers p) = default_path ''/webhooks/github'' (ap_github p)"
  "ap_gitlab (default_providers p) = default_path ''/webhooks/gitlab'' (ap_gitlab p)"
  "ap_bitbucket (default_providers p) = default_path ''/webhooks/bitbucket'' (ap_bitbucket p)"
  "ap_slack (default_providers p) = default_path ''/webhooks/slack'' (ap_slack p)"
  "ap_extra (default_providers p) = ap_extra p"
  by (simp_all add: default_providers_def Let_def)

lemma default_providers_idem [simp]: "default_providers (default_providers p) = default_providers p"
  by (rule auth_providers.equality) (simp_all add: default_providers_fields)

lemma apply_auth_defaults_idem [simp]:
  "apply_auth_defaults e (apply_auth_defaults e o2) = apply_auth_defaults e o2"
  by (cases "o2_enabled o2") (simp_all add: apply_auth_defaults_def)

lemma cors_not_Nil [simp]:
  "default_cors_allowed_origins u e \<noteq> []" "default_cors_headers \<noteq> []"
  by (auto simp: default_cors_allowed_origins_def default_cors_headers_def split: option.splits)

lemma complete_server_idem [simp]:
  "complete_server u e (default_server (complete_server u e (default_server s)))
     = complete_server u e (default_server s)"
  "sv_public_base_url (default_server s) = sv_public_base_url s"
  "sv_public_base_url (complete_server u e s) = sv_public_base_url s"
  by (rule server_config.equality) (simp_all add: complete_server_def default_server_def)

lemma apply_defaults_fields:
  "cf_endpoint (apply_defaults u c) = or_str (cf_endpoint c) (sv_public_base_url (cf_server c))"
  "cf_server (apply_defaults u c) =
     complete_server u (cf_endpoint (apply_defaults u c)) (default_server (cf_server c))"
  "cf_providers (apply_defaults u c) = default_providers (cf_providers c)"
  "cf_relaybus (apply_defaults u c) = default_relaybus (cf_relaybus c)"
  "cf_storage (apply_defaults u c) = default_storage (cf_storage c)"
  "cf_redirect_base_url (apply_defaults u c) = or_str (cf_redirect_base_url c) (cf_oauth_redirect_base_url c)"
  "cf_oauth_redirect_base_url (apply_defaults u c) = cf_oauth_redirect_base_url c"
  "cf_oauth2 (apply_defaults u c) = apply_auth_defaults (cf_endpoint (apply_defaults u c)) (cf_oauth2 c)"
  by (simp_all add: apply_defaults_def Let_def)

text \<open>
  Applying the defaults to a configuration twice is the same as applying them
  once, so a configuration that was completed, stored and loaded again is not changed.
\<close>

theorem apply_defaults_idempotent:
  "apply_defaults u (apply_defaults u cfg) = apply_defaults u cfg"
  by (rule app_config.equality) (simp_all add: apply_defaults_fields)

text \<open>
  The defaults make the separate Jira settings dead. After they are applied the
  Atlassian settings always count as present, because they have a webhook path, so looking up
  \<^verbatim>\<open>jira\<close> or \<^verbatim>\<open>atlassian\<close> gives the Atlassian settings even when only the Jira section was
  filled in.
\<close>

theorem jira_settings_shadowed:
  "provider_config_for (cf_providers (apply_defaults u cfg)) ''jira''
     = (default_path ''/webhooks/atlassian'' (ap_atlassian (cf_providers cfg)), True)"
proof -
  have n: "normalize_provider_name ''jira'' = ''atlassian''"
    by code_simp
  have s: "provider_config_set (default_path ''/webhooks/atlassian'' c)" for c
    by (simp add: provider_config_set_def default_path_def or_str_def)
  have "ap_atlassian (cf_providers (apply_defaults u cfg)) = default_path ''/webhooks/atlassian'' (ap_atlassian (cf_providers cfg))"
    by (simp add: apply_defaults_fields default_providers_fields)
  then show ?thesis
    by (simp add: provider_config_for_def n s Let_def)
qed

end
