(* ===== verification/Store_Records.thy ===== *)
theory Store_Records
  imports Tenant_Cache
begin

text \<open>
  The records and interfaces of \<^verbatim>\<open>pkg/storage/store.go\<close>. An interface of the source is a locale:
  its operations are the \<open>fixes\<close>, what its clients rely on are the \<open>assumes\<close>. The in-memory
  implementations (\<^verbatim>\<open>pkg/storage/mocks_*.go\<close>) in \<^verbatim>\<open>Mem_Stores\<close> and \<^verbatim>\<open>Event_Logs\<close> interpret them.

  A pointer result is an \<^verbatim>\<open>option\<close>; the clock readings an operation makes are arguments.
\<close>

section \<open>Records\<close>

record install_record =
  in_id :: string
  in_tenant :: string
  in_provider :: string
  in_account_id :: string
  in_account_name :: string
  in_installation_id :: string
  in_instance_key :: string
  in_enterprise_id :: string
  in_enterprise_slug :: string
  in_enterprise_name :: string
  in_access_token :: string
  in_refresh_token :: string
  in_expires_at :: "gtime option"
  in_metadata_json :: string
  in_created_at :: gtime
  in_updated_at :: gtime

record namespace_record =
  ns_id :: string
  ns_tenant :: string
  ns_provider :: string
  ns_account_id :: string
  ns_installation_id :: string
  ns_instance_key :: string
  ns_repo_id :: string
  ns_owner :: string
  ns_repo_name :: string
  ns_full_name :: string
  ns_visibility :: string
  ns_default_branch :: string
  ns_http_url :: string
  ns_ssh_url :: string
  ns_webhooks_enabled :: bool
  ns_created_at :: gtime
  ns_updated_at :: gtime

record rule_record =
  rr_tenant :: string
  rr_id :: string
  rr_when :: string
  rr_emit :: "string list"
  rr_driver_id :: string
  rr_transform_js :: string
  rr_driver_name :: string
  rr_driver_config_json :: string
  rr_driver_enabled :: bool
  rr_created_at :: gtime
  rr_updated_at :: gtime

record driver_record =
  dr_tenant :: string
  dr_id :: string
  dr_name :: string
  dr_config_json :: string
  dr_enabled :: bool
  dr_created_at :: gtime
  dr_updated_at :: gtime

record instance_record =
  pi_id :: string
  pi_tenant :: string
  pi_provider :: string
  pi_key :: string
  pi_config_json :: string
  pi_redirect_base_url :: string
  pi_enabled :: bool
  pi_created_at :: gtime
  pi_updated_at :: gtime

record namespace_filter =
  nf_tenant :: string
  nf_provider :: string
  nf_account_id :: string
  nf_installation_id :: string
  nf_instance_key :: string
  nf_repo_id :: string
  nf_owner :: string
  nf_repo_name :: string
  nf_full_name :: string
  nf_limit :: int

section \<open>Record identifiers\<close>

text \<open>\<open>sha\<close> is SHA-256 rendered in hexadecimal.\<close>

definition hash_id_input :: "string list \<Rightarrow> string" where
  "hash_id_input parts = concat (map (\<lambda>p. trim_space p @ '':'') parts)"

definition hash_id :: "(string \<Rightarrow> string) \<Rightarrow> string list \<Rightarrow> string" where
  "hash_id sha parts = sha (hash_id_input parts)"

definition namespace_record_id :: "(string \<Rightarrow> string) \<Rightarrow> namespace_record \<Rightarrow> string" where
  "namespace_record_id sha r = hash_id sha [ns_tenant r, ns_provider r, ns_instance_key r, ns_repo_id r]"

definition install_record_id :: "(string \<Rightarrow> string) \<Rightarrow> install_record \<Rightarrow> string" where
  "install_record_id sha r = hash_id sha [in_tenant r, in_provider r, in_account_id r, in_installation_id r]"

definition instance_record_id :: "(string \<Rightarrow> string) \<Rightarrow> instance_record \<Rightarrow> string" where
  "instance_record_id sha r = hash_id sha [pi_tenant r, pi_provider r, pi_key r]"

lemma append_sep_inj:
  assumes "a @ c # x = b @ c # y" "c \<notin> set a" "c \<notin> set b"
  shows "a = b \<and> x = y"
proof -
  have "takeWhile (\<lambda>d. d \<noteq> c) (a @ c # x) = a" "takeWhile (\<lambda>d. d \<noteq> c) (b @ c # y) = b"
    using assms(2,3) by (auto simp: takeWhile_append)
  with assms(1) have "a = b" by metis
  with assms(1) show ?thesis by simp
qed

lemma hash_id_input_inj:
  "\<forall>p \<in> set ps \<union> set qs. CHR '':'' \<notin> set (trim_space p) \<Longrightarrow> hash_id_input ps = hash_id_input qs \<Longrightarrow>
     map trim_space ps = map trim_space qs"
proof (induction ps arbitrary: qs)
  case Nil
  then show ?case by (cases qs) (auto simp: hash_id_input_def)
next
  case (Cons p ps)
  then obtain q qs' where q: "qs = q # qs'"
    by (cases qs) (auto simp: hash_id_input_def)
  with Cons.prems(2) have "trim_space p @ CHR '':'' # hash_id_input ps = trim_space q @ CHR '':'' # hash_id_input qs'"
    by (simp add: hash_id_input_def)
  then have "trim_space p = trim_space q \<and> hash_id_input ps = hash_id_input qs'"
    by (rule append_sep_inj) (use Cons.prems(1) q in auto)
  with Cons.IH [of qs'] Cons.prems(1) q show ?case by auto
qed

text \<open>
  Two provider instances get the same record identifier only when tenant,
  provider and key agree up to white space around them, provided the hash does not collide and none
  of the parts contains the separator.
\<close>

theorem instance_record_id_injective:
  assumes "inj sha"
    and "\<forall>p \<in> {pi_tenant a, pi_provider a, pi_key a, pi_tenant b, pi_provider b, pi_key b}.
           CHR '':'' \<notin> set (trim_space p)"
    and "instance_record_id sha a = instance_record_id sha b"
  shows "trim_space (pi_tenant a) = trim_space (pi_tenant b) \<and>
     trim_space (pi_provider a) = trim_space (pi_provider b) \<and> trim_space (pi_key a) = trim_space (pi_key b)"
proof -
  have "hash_id_input [pi_tenant a, pi_provider a, pi_key a] = hash_id_input [pi_tenant b, pi_provider b, pi_key b]"
    using assms(1,3) by (simp add: instance_record_id_def hash_id_def inj_eq)
  then have "map trim_space [pi_tenant a, pi_provider a, pi_key a] = map trim_space [pi_tenant b, pi_provider b, pi_key b]"
    by (rule hash_id_input_inj [rotated]) (use assms(2) in auto)
  then show ?thesis by simp
qed

definition sample_instance :: instance_record where
  "sample_instance = \<lparr>pi_id = [], pi_tenant = ''acme'', pi_provider = ''github'', pi_key = ''k1'', pi_config_json = [],
     pi_redirect_base_url = [], pi_enabled = True, pi_created_at = 0, pi_updated_at = 0\<rparr>"

theorem instance_record_id_injective_witness:
  "trim_space (pi_key sample_instance) = trim_space (pi_key (sample_instance\<lparr>pi_key := '' k1''\<rparr>))"
proof -
  have t: "trim_space '' k1'' = ''k1''" "trim_space ''k1'' = ''k1''" "trim_space ''acme'' = ''acme''"
    "trim_space ''github'' = ''github''"
    by code_simp+
  have "instance_record_id (\<lambda>s. s) sample_instance = instance_record_id (\<lambda>s. s) (sample_instance\<lparr>pi_key := '' k1''\<rparr>)"
    by (simp add: instance_record_id_def hash_id_def hash_id_input_def sample_instance_def t)
  then show ?thesis
    using instance_record_id_injective [of "\<lambda>s. s" sample_instance "sample_instance\<lparr>pi_key := '' k1''\<rparr>"]
    by (simp add: sample_instance_def t)
qed

text \<open>
  A part that contains the separator moves the boundary: an instance of tenant
  \<^verbatim>\<open>a\<close> with provider \<^verbatim>\<open>b:c\<close> and one of tenant \<^verbatim>\<open>a:b\<close> with provider \<^verbatim>\<open>c\<close> share their
  identifier, whatever the hash.
\<close>

theorem record_id_boundary_collision:
  "instance_record_id sha (sample_instance\<lparr>pi_tenant := ''a'', pi_provider := ''b:c''\<rparr>)
     = instance_record_id sha (sample_instance\<lparr>pi_tenant := ''a:b'', pi_provider := ''c''\<rparr>)"
proof -
  have "trim_space ''a'' = ''a''" "trim_space ''b:c'' = ''b:c''" "trim_space ''a:b'' = ''a:b''" "trim_space ''c'' = ''c''"
    by code_simp+
  then show ?thesis
    by (simp add: instance_record_id_def hash_id_def hash_id_input_def)
qed

section \<open>Interfaces\<close>

text \<open>What the clients that only read drivers need of a driver store; \<open>None\<close> is nil.\<close>

type_synonym driver_by_id = "(ctx \<Rightarrow> string \<Rightarrow> driver_record option res) option"

text \<open>
  \<^verbatim>\<open>storage.RuleStore\<close> as its clients use it. \<open>create_rule\<close> takes the record, a clock
  reading formatted as an identifier and two clock readings (creation and update time).
\<close>

locale rule_store =
  fixes list_rules :: "ctx \<Rightarrow> 's \<Rightarrow> rule_record list res"
    and get_rule :: "ctx \<Rightarrow> string \<Rightarrow> 's \<Rightarrow> rule_record option res"
    and create_rule :: "ctx \<Rightarrow> string \<times> gtime \<times> gtime \<Rightarrow> rule_record \<Rightarrow> 's \<Rightarrow> rule_record res \<times> 's"
    and update_rule :: "ctx \<Rightarrow> gtime \<times> gtime \<Rightarrow> rule_record \<Rightarrow> 's \<Rightarrow> rule_record res \<times> 's"
    and delete_rule :: "ctx \<Rightarrow> string \<Rightarrow> 's \<Rightarrow> go_error option \<times> 's"
    and inv :: "'s \<Rightarrow> bool"
  assumes list_ok: "inv s \<Longrightarrow> \<exists>rs. list_rules c s = Inr rs \<and>
        (\<forall>r. r \<in> set rs \<longleftrightarrow> get_rule c (rr_id r) s = Inr (Some r))"
    and create_ok: "inv s \<Longrightarrow> create_rule c clk rec s = (Inr r, s') \<Longrightarrow>
        rr_tenant rec \<in> {[], tenant_from_context c} \<Longrightarrow>
        inv s' \<and> get_rule c (rr_id r) s' = Inr (Some r) \<and> rr_tenant r = tenant_from_context c"
    and update_ok: "inv s \<Longrightarrow> update_rule c clk2 rec s = (Inr r, s') \<Longrightarrow>
        rr_tenant rec \<in> {[], tenant_from_context c} \<Longrightarrow>
        inv s' \<and> get_rule c (rr_id rec) s' = Inr (Some r) \<and> rr_id r = rr_id rec \<and>
        rr_tenant r = tenant_from_context c \<and> (\<forall>i. i \<noteq> rr_id rec \<longrightarrow> get_rule c i s' = get_rule c i s)"
    and delete_ok: "inv s \<Longrightarrow> delete_rule c rid s = (None, s') \<Longrightarrow>
        inv s' \<and> get_rule c rid s' = Inr None \<and> (\<forall>i. i \<noteq> rid \<longrightarrow> get_rule c i s' = get_rule c i s)"
begin

lemma created_rule_listed:
  assumes "inv s" "create_rule c clk rec s = (Inr r, s')" "rr_tenant rec \<in> {[], tenant_from_context c}"
  shows "\<exists>rs. list_rules c s' = Inr rs \<and> r \<in> set rs"
  using create_ok [OF assms] list_ok [of s' c] by auto

lemma deleted_rule_unlisted:
  assumes "inv s" "delete_rule c rid s = (None, s')" "list_rules c s' = Inr rs" "r \<in> set rs"
  shows "rr_id r \<noteq> rid"
  using delete_ok [OF assms(1,2)] list_ok [of s' c] assms(3,4) by auto

end

text \<open>\<^verbatim>\<open>storage.DriverStore\<close>, for the clients that resolve a driver by its identifier.\<close>

locale driver_store =
  fixes get_driver_by_id :: "ctx \<Rightarrow> string \<Rightarrow> 's \<Rightarrow> driver_record option res"
    and list_drivers :: "ctx \<Rightarrow> 's \<Rightarrow> driver_record list res"
    and inv :: "'s \<Rightarrow> bool"
  assumes get_by_id_ok: "inv s \<Longrightarrow> trim_space rid \<noteq> [] \<Longrightarrow>
        \<exists>d. get_driver_by_id c rid s = Inr d \<and>
          (case d of None \<Rightarrow> \<forall>ds. list_drivers c s = Inr ds \<longrightarrow> (\<forall>x \<in> set ds. dr_id x \<noteq> trim_space rid)
           | Some x \<Rightarrow> dr_id x = trim_space rid \<and> (\<forall>ds. list_drivers c s = Inr ds \<longrightarrow> x \<in> set ds))"
    and list_ok: "inv s \<Longrightarrow> \<exists>ds. list_drivers c s = Inr ds \<and> (\<forall>d \<in> set ds. dr_tenant d = tenant_from_context c)"
begin

lemma found_driver_of_tenant:
  assumes "inv s" "trim_space rid \<noteq> []" "get_driver_by_id c rid s = Inr (Some d)"
  shows "dr_tenant d = tenant_from_context c" "dr_id d = trim_space rid"
  using get_by_id_ok [OF assms(1,2), of c] list_ok [OF assms(1), of c] assms(3) by auto

end

end
