(* ===== verification/Mem_Stores.thy ===== *)
theory Mem_Stores
  imports Store_Records
begin

text \<open>
  The in-memory stores of \<^verbatim>\<open>pkg/storage/mocks_drivers.go\<close>, \<^verbatim>\<open>mocks_rules.go\<close>,
  \<^verbatim>\<open>mocks_provider_instances.go\<close>, \<^verbatim>\<open>mocks_namespaces.go\<close> and \<^verbatim>\<open>mocks_installations.go\<close>. The state
  of each is its map \<^verbatim>\<open>values\<close>. Every method holds the store's mutex for its whole body, so each is
  one atomic step; \<^verbatim>\<open>Close\<close> does nothing.
\<close>

section \<open>Drivers\<close>

type_synonym driver_mem = "driver_record gmap"

definition driver_key :: "string \<Rightarrow> string \<Rightarrow> string" where
  "driver_key tenant_id name = tenant_id @ ''|'' @ name"

definition list_drivers :: "ctx \<Rightarrow> driver_mem \<Rightarrow> driver_record list res" where
  "list_drivers c m = Inr (filter (\<lambda>r. dr_tenant r = tenant_from_context c) (mvals m))"

definition get_driver :: "ctx \<Rightarrow> string \<Rightarrow> driver_mem \<Rightarrow> driver_record option res" where
  "get_driver c name m = Inr (mget m (driver_key (tenant_from_context c) name))"

definition get_driver_by_id :: "ctx \<Rightarrow> string \<Rightarrow> driver_mem \<Rightarrow> driver_record option res" where
  "get_driver_by_id c id0 m =
     (let tenant_id = tenant_from_context c; rid = trim_space id0 in
      if rid = [] then Inr None
      else Inr (find (\<lambda>r. dr_tenant r = tenant_id \<and> dr_id r = rid) (mvals m)))"

definition upsert_driver :: "ctx \<Rightarrow> gtime \<times> gtime \<Rightarrow> driver_record \<Rightarrow> driver_mem \<Rightarrow> driver_record res \<times> driver_mem" where
  "upsert_driver c clk record0 m =
     (let tenant_id = tenant_from_context c;
          r = record0\<lparr>dr_tenant := tenant_id\<rparr>;
          r = (if dr_id r = [] then
                 r\<lparr>dr_id := (if tenant_id \<noteq> [] then tenant_id @ '':'' @ dr_name r else dr_name r)\<rparr>
               else r);
          r = (if is_zero (dr_created_at r) then r\<lparr>dr_created_at := fst clk\<rparr> else r);
          r = r\<lparr>dr_updated_at := snd clk\<rparr>;
          m' = filter (\<lambda>(k, stored). \<not> (dr_tenant stored = tenant_id \<and> dr_name stored \<noteq> dr_name r)) m
      in (Inr r, mput (driver_key tenant_id (dr_name r)) r m'))"

definition delete_driver :: "ctx \<Rightarrow> string \<Rightarrow> driver_mem \<Rightarrow> go_error option \<times> driver_mem" where
  "delete_driver c name m = (None, mdel (driver_key (tenant_from_context c) name) m)"

definition driver_inv :: "driver_mem \<Rightarrow> bool" where
  "driver_inv m \<longleftrightarrow> wf_map m \<and> (\<forall>(k, r) \<in> set m. k = driver_key (dr_tenant r) (dr_name r)) \<and>
     (\<forall>(k, r) \<in> set m. \<forall>(l, s) \<in> set m. dr_tenant r = dr_tenant s \<longrightarrow> r = s)"

lemma find_Some_D: "find P xs = Some x \<Longrightarrow> x \<in> set xs \<and> P x"
  by (induction xs) (auto split: if_splits)

interpretation dmem: driver_store get_driver_by_id list_drivers driver_inv
proof
  fix s rid c
  assume "trim_space rid \<noteq> []"
  then show "\<exists>d. get_driver_by_id c rid s = Inr d \<and>
      (case d of None \<Rightarrow> \<forall>ds. list_drivers c s = Inr ds \<longrightarrow> (\<forall>x \<in> set ds. dr_id x \<noteq> trim_space rid)
       | Some x \<Rightarrow> dr_id x = trim_space rid \<and> (\<forall>ds. list_drivers c s = Inr ds \<longrightarrow> x \<in> set ds))"
    by (auto simp: get_driver_by_id_def list_drivers_def find_None_iff split: option.split dest: find_Some_D)
qed (simp add: list_drivers_def)

lemma set_mput: "wf_map m \<Longrightarrow> set (mput k v m) = insert (k, v) {(k', v'). (k', v') \<in> set m \<and> k' \<noteq> k}"
  by (auto simp: mget_iff [symmetric] split: if_splits)

lemma set_mdel: "wf_map m \<Longrightarrow> set (mdel k m) = {(k', v'). (k', v') \<in> set m \<and> k' \<noteq> k}"
  by (auto simp: mget_iff [symmetric] split: if_splits)

lemma in_mvals: "v \<in> set (mvals m) \<longleftrightarrow> (\<exists>k. (k, v) \<in> set m)"
  by (force simp: mvals_def)

lemma upsert_driver_cases:
  obtains r where "upsert_driver c clk rec m =
      (Inr r, mput (driver_key (tenant_from_context c) (dr_name rec)) r
         (filter (\<lambda>(k, s). \<not> (dr_tenant s = tenant_from_context c \<and> dr_name s \<noteq> dr_name rec)) m))"
    "dr_tenant r = tenant_from_context c" "dr_name r = dr_name rec"
  by (auto simp: upsert_driver_def Let_def)

lemma driver_inv_I:
  assumes "wf_map m" "\<And>k r. (k, r) \<in> set m \<Longrightarrow> k = driver_key (dr_tenant r) (dr_name r)"
    "\<And>k l r s. (k, r) \<in> set m \<Longrightarrow> (l, s) \<in> set m \<Longrightarrow> dr_tenant r = dr_tenant s \<Longrightarrow> r = s"
  shows "driver_inv m"
  using assms unfolding driver_inv_def by blast+

lemma driver_inv_D:
  assumes "driver_inv m"
  shows "wf_map m" "\<And>k r. (k, r) \<in> set m \<Longrightarrow> k = driver_key (dr_tenant r) (dr_name r)"
    "\<And>k l r s. (k, r) \<in> set m \<Longrightarrow> (l, s) \<in> set m \<Longrightarrow> dr_tenant r = dr_tenant s \<Longrightarrow> r = s"
  using assms unfolding driver_inv_def by blast+

lemma driver_inv_upsert:
  assumes "driver_inv m"
  shows "driver_inv (snd (upsert_driver c clk rec m))"
proof -
  note inv = driver_inv_D [OF assms]
  let ?t = "tenant_from_context c"
  let ?m = "filter (\<lambda>(k, s). \<not> (dr_tenant s = ?t \<and> dr_name s \<noteq> dr_name rec)) m"
  obtain r where u: "upsert_driver c clk rec m = (Inr r, mput (driver_key ?t (dr_name rec)) r ?m)"
    and r: "dr_tenant r = ?t" "dr_name r = dr_name rec"
    by (rule upsert_driver_cases)
  have w: "wf_map ?m" using inv(1) by simp
  have mem: "(l, s) \<in> set (mput (driver_key ?t (dr_name rec)) r ?m) \<longleftrightarrow>
      l = driver_key ?t (dr_name rec) \<and> s = r \<or> (l, s) \<in> set m \<and> dr_tenant s \<noteq> ?t \<and> l \<noteq> driver_key ?t (dr_name rec)"
    for l s
    unfolding set_mput [OF w] using inv(2) [of l s] by auto
  show ?thesis
    unfolding u snd_conv
  proof (rule driver_inv_I)
    fix k x l y
    assume k: "(k, x) \<in> set (mput (driver_key ?t (dr_name rec)) r ?m)"
    then show "k = driver_key (dr_tenant x) (dr_name x)"
      unfolding mem using inv(2) [of k x] r by auto
    assume "(l, y) \<in> set (mput (driver_key ?t (dr_name rec)) r ?m)" "dr_tenant x = dr_tenant y"
    with k show "x = y"
      unfolding mem using inv(3) r(1) by metis
  qed (use w in simp)
qed

lemma driver_inv_delete: "driver_inv m \<Longrightarrow> driver_inv (snd (delete_driver c name m))"
proof (rule driver_inv_I)
  assume inv: "driver_inv m"
  note w = driver_inv_D(1) [OF inv]
  fix k r l s
  show "wf_map (snd (delete_driver c name m))" using w by (simp add: delete_driver_def)
  assume "(k, r) \<in> set (snd (delete_driver c name m))"
  then have k: "(k, r) \<in> set m" using w by (simp add: delete_driver_def set_mdel)
  then show "k = driver_key (dr_tenant r) (dr_name r)" by (rule driver_inv_D(2) [OF inv])
  assume "(l, s) \<in> set (snd (delete_driver c name m))"
  then have "(l, s) \<in> set m" using w by (simp add: delete_driver_def set_mdel)
  with k show "dr_tenant r = dr_tenant s \<Longrightarrow> r = s" by (rule driver_inv_D(3) [OF inv])
qed

lemma length_le_1: "distinct xs \<Longrightarrow> (\<And>x y. x \<in> set xs \<Longrightarrow> y \<in> set xs \<Longrightarrow> x = y) \<Longrightarrow> length xs \<le> 1"
proof (cases xs)
  case (Cons a ys)
  assume d: "distinct xs" and u: "\<And>x y. x \<in> set xs \<Longrightarrow> y \<in> set xs \<Longrightarrow> x = y"
  have "b \<notin> set ys" for b
    using u [of a b] d Cons by auto
  then have "ys = []" by (cases ys) auto
  with Cons show ?thesis by simp
qed simp

lemma driver_inv_unique:
  assumes "driver_inv m"
  shows "length (filter (\<lambda>r. dr_tenant r = t) (mvals m)) \<le> 1"
proof -
  have "distinct (mvals m)"
    unfolding mvals_def distinct_map
  proof
    show "distinct m" using driver_inv_D(1) [OF assms] by (simp add: wf_map_def distinct_map)
    show "inj_on snd (set m)"
      by (rule inj_onI) (metis driver_inv_D(2) [OF assms] prod.collapse)
  qed
  then have "distinct (filter (\<lambda>r. dr_tenant r = t) (mvals m))" by simp
  moreover have "x = y" if "x \<in> set (filter (\<lambda>r. dr_tenant r = t) (mvals m))"
    "y \<in> set (filter (\<lambda>r. dr_tenant r = t) (mvals m))" for x y
    using that driver_inv_D(3) [OF assms] by (auto simp: in_mvals)
  ultimately show ?thesis by (rule length_le_1)
qed

text \<open>The store after a sequence of calls, each with its own context.\<close>

datatype driver_call = DUpsert ctx "gtime \<times> gtime" driver_record | DDelete ctx string

fun driver_calls :: "driver_call list \<Rightarrow> driver_mem \<Rightarrow> driver_mem" where
  "driver_calls [] m = m"
| "driver_calls (DUpsert c clk r # cs) m = driver_calls cs (snd (upsert_driver c clk r m))"
| "driver_calls (DDelete c name # cs) m = driver_calls cs (snd (delete_driver c name m))"

lemma driver_inv_calls: "driver_inv m \<Longrightarrow> driver_inv (driver_calls cs m)"
  by (induction cs m rule: driver_calls.induct) (auto intro: driver_inv_upsert driver_inv_delete)

text \<open>
  Whatever calls the in-memory driver store has served, it lists at most one
  driver for each tenant, that driver belongs to the tenant, and \<^verbatim>\<open>GetDriverByID\<close> finds a driver exactly
  when it is listed.
\<close>

theorem driver_store_one_per_tenant:
  "\<exists>ds. list_drivers c (driver_calls cs []) = Inr ds \<and> length ds \<le> 1 \<and>
     (case get_driver_by_id c i (driver_calls cs []) of
        Inl e \<Rightarrow> False
      | Inr None \<Rightarrow> \<not> (trim_space i \<noteq> [] \<and> trim_space i \<in> dr_id ` set ds)
      | Inr (Some d) \<Rightarrow> ds = [d] \<and> dr_id d = trim_space i \<and> dr_tenant d = tenant_from_context c)"
proof -
  let ?m = "driver_calls cs []"
  have inv: "driver_inv ?m" by (rule driver_inv_calls) (simp add: driver_inv_def mvals_def)
  let ?ds = "filter (\<lambda>r. dr_tenant r = tenant_from_context c) (mvals ?m)"
  have l: "list_drivers c ?m = Inr ?ds" by (simp add: list_drivers_def)
  have one: "length ?ds \<le> 1" by (rule driver_inv_unique [OF inv])
  then have single: "?ds = [d]" if "d \<in> set ?ds" for d
    using that by (cases ?ds) auto
  show ?thesis
  proof (cases "trim_space i = []")
    case True
    with l one show ?thesis by (simp add: get_driver_by_id_def)
  next
    case False
    then obtain d where "get_driver_by_id c i ?m = Inr d"
      by (simp add: get_driver_by_id_def)
    with False l one single dmem.get_by_id_ok [OF inv False, of c] dmem.found_driver_of_tenant [OF inv False, of c]
    show ?thesis by (cases d) auto
  qed
qed

section \<open>Rules\<close>

type_synonym rule_mem = "rule_record gmap"

definition tenant_visible :: "ctx \<Rightarrow> string \<Rightarrow> bool" where
  "tenant_visible c t \<longleftrightarrow> \<not> (tenant_from_context c \<noteq> [] \<and> t \<noteq> tenant_from_context c)"

definition list_rules :: "ctx \<Rightarrow> rule_mem \<Rightarrow> rule_record list res" where
  "list_rules c m = Inr (filter (\<lambda>r. tenant_visible c (rr_tenant r)) (mvals m))"

definition get_rule :: "ctx \<Rightarrow> string \<Rightarrow> rule_mem \<Rightarrow> rule_record option res" where
  "get_rule c rid m =
     (case mget m rid of
        None \<Rightarrow> Inr None
      | Some r \<Rightarrow> if tenant_visible c (rr_tenant r) then Inr (Some r) else Inr None)"

definition put_rule :: "ctx \<Rightarrow> gtime \<times> gtime \<Rightarrow> rule_record \<Rightarrow> rule_mem \<Rightarrow> rule_record res \<times> rule_mem" where
  "put_rule c clk r m =
     (let r = (if is_zero (rr_created_at r) then r\<lparr>rr_created_at := fst clk\<rparr> else r);
          r = r\<lparr>rr_updated_at := snd clk\<rparr>
      in (Inr r, mput (rr_id r) r m))"

definition rule_prepared :: "ctx \<Rightarrow> rule_record \<Rightarrow> rule_record" where
  "rule_prepared c r =
     (let r = (if rr_tenant r = [] then r\<lparr>rr_tenant := tenant_from_context c\<rparr> else r)
      in r\<lparr>rr_driver_id := trim_space (rr_driver_id r)\<rparr>)"

definition create_rule ::
  "ctx \<Rightarrow> string \<times> gtime \<times> gtime \<Rightarrow> rule_record \<Rightarrow> rule_mem \<Rightarrow> rule_record res \<times> rule_mem" where
  "create_rule c clk r m =
     (let r = rule_prepared c r;
          r = (if rr_id r = [] then r\<lparr>rr_id := fst clk\<rparr> else r)
      in put_rule c (snd clk) r m)"

definition update_rule :: "ctx \<Rightarrow> gtime \<times> gtime \<Rightarrow> rule_record \<Rightarrow> rule_mem \<Rightarrow> rule_record res \<times> rule_mem" where
  "update_rule c clk r m = put_rule c clk (rule_prepared c r) m"

definition delete_rule :: "ctx \<Rightarrow> string \<Rightarrow> rule_mem \<Rightarrow> go_error option \<times> rule_mem" where
  "delete_rule c rid m = (None, mdel rid m)"

definition rule_inv :: "rule_mem \<Rightarrow> bool" where
  "rule_inv m \<longleftrightarrow> wf_map m \<and> (\<forall>(k, r) \<in> set m. k = rr_id r)"

lemma rule_inv_put: "rule_inv m \<Longrightarrow> rule_inv (mput (rr_id r) r m)"
  by (auto simp: rule_inv_def set_mput)

lemma rule_inv_del: "rule_inv m \<Longrightarrow> rule_inv (mdel k m)"
  by (auto simp: rule_inv_def set_mdel)

lemma rule_inv_listed: "rule_inv m \<Longrightarrow> r \<in> set (mvals m) \<longleftrightarrow> mget m (rr_id r) = Some r"
  by (auto simp: rule_inv_def in_mvals mget_iff)

lemma put_rule_props:
  assumes "put_rule c clk rec m = (Inr r, m')"
  shows "m' = mput (rr_id rec) r m" "rr_id r = rr_id rec" "rr_tenant r = rr_tenant rec"
  using assms by (auto simp: put_rule_def Let_def split: if_splits)

lemma rule_prepared_props:
  "rr_id (rule_prepared c r) = rr_id r"
  "rr_tenant r \<in> {[], tenant_from_context c} \<Longrightarrow> rr_tenant (rule_prepared c r) = tenant_from_context c"
  by (auto simp: rule_prepared_def Let_def)

interpretation rmem: rule_store list_rules get_rule create_rule update_rule delete_rule rule_inv
proof
  fix s c
  assume "rule_inv s"
  then show "\<exists>rs. list_rules c s = Inr rs \<and> (\<forall>r. (r \<in> set rs) = (get_rule c (rr_id r) s = Inr (Some r)))"
    by (auto simp: list_rules_def get_rule_def rule_inv_listed split: option.split)
next
  fix s c clk rec r s'
  assume s: "rule_inv s" and cr: "create_rule c clk rec s = (Inr r, s')"
    and t: "rr_tenant rec \<in> {[], tenant_from_context c}"
  let ?p = "rule_prepared c rec"
  have "put_rule c (snd clk) (if rr_id ?p = [] then ?p\<lparr>rr_id := fst clk\<rparr> else ?p) s = (Inr r, s')"
    using cr by (simp add: create_rule_def Let_def)
  note p = put_rule_props [OF this]
  have "rr_tenant r = tenant_from_context c"
    using p(3) rule_prepared_props(2) [OF t] by (simp split: if_splits)
  then show "rule_inv s' \<and> get_rule c (rr_id r) s' = Inr (Some r) \<and> rr_tenant r = tenant_from_context c"
    using s p(1,2) rule_inv_put [OF s, of r]
    by (simp add: get_rule_def rule_inv_def tenant_visible_def)
next
  fix s c clk rec r s'
  assume s: "rule_inv s" and u: "update_rule c clk rec s = (Inr r, s')"
    and t: "rr_tenant rec \<in> {[], tenant_from_context c}"
  note p = put_rule_props [OF u [unfolded update_rule_def], unfolded rule_prepared_props]
  have "rr_tenant r = tenant_from_context c" using p(3) rule_prepared_props(2) [OF t] by simp
  then show "rule_inv s' \<and> get_rule c (rr_id rec) s' = Inr (Some r) \<and> rr_id r = rr_id rec \<and>
      rr_tenant r = tenant_from_context c \<and> (\<forall>i. i \<noteq> rr_id rec \<longrightarrow> get_rule c i s' = get_rule c i s)"
    using s p(1,2) rule_inv_put [OF s, of r]
    by (simp add: get_rule_def rule_inv_def tenant_visible_def)
next
  fix s c rid s'
  assume s: "rule_inv s" and "delete_rule c rid s = (None, s')"
  then show "rule_inv s' \<and> get_rule c rid s' = Inr None \<and> (\<forall>i. i \<noteq> rid \<longrightarrow> get_rule c i s' = get_rule c i s)"
    using rule_inv_del [OF s, of rid] by (auto simp: delete_rule_def get_rule_def rule_inv_def)
qed

section \<open>Provider instances\<close>

type_synonym instance_mem = "instance_record gmap"

definition provider_instance_key :: "string \<Rightarrow> string \<Rightarrow> string \<Rightarrow> string" where
  "provider_instance_key tenant_id provider key = tenant_id @ ''|'' @ provider @ ''|'' @ key"

definition list_instances :: "ctx \<Rightarrow> string \<Rightarrow> instance_mem \<Rightarrow> instance_record list res" where
  "list_instances c provider m =
     Inr (filter (\<lambda>r. tenant_visible c (pi_tenant r) \<and> \<not> (provider \<noteq> [] \<and> pi_provider r \<noteq> provider)) (mvals m))"

definition get_instance :: "ctx \<Rightarrow> string \<Rightarrow> string \<Rightarrow> instance_mem \<Rightarrow> instance_record option res" where
  "get_instance c provider key m = Inr (mget m (provider_instance_key (tenant_from_context c) provider key))"

definition upsert_instance ::
  "(string \<Rightarrow> string) \<Rightarrow> ctx \<Rightarrow> gtime \<times> gtime \<Rightarrow> instance_record \<Rightarrow> instance_mem \<Rightarrow>
     instance_record res \<times> instance_mem" where
  "upsert_instance sha c clk r m =
     (let r = (if pi_tenant r = [] then r\<lparr>pi_tenant := tenant_from_context c\<rparr> else r);
          r = (if pi_id r = [] then r\<lparr>pi_id := instance_record_id sha r\<rparr> else r);
          r = (if is_zero (pi_created_at r) then r\<lparr>pi_created_at := fst clk\<rparr> else r);
          r = r\<lparr>pi_updated_at := snd clk\<rparr>
      in (Inr r, mput (provider_instance_key (pi_tenant r) (pi_provider r) (pi_key r)) r m))"

definition delete_instance :: "ctx \<Rightarrow> string \<Rightarrow> string \<Rightarrow> instance_mem \<Rightarrow> go_error option \<times> instance_mem" where
  "delete_instance c provider key m =
     (None, mdel (provider_instance_key (tenant_from_context c) provider key) m)"

section \<open>Namespaces\<close>

type_synonym namespace_mem = "namespace_record gmap"

definition namespace_key :: "string \<Rightarrow> string \<Rightarrow> string \<Rightarrow> string \<Rightarrow> string" where
  "namespace_key tenant_id provider instance_key repo_id =
     tenant_id @ ''|'' @ provider @ ''|'' @ instance_key @ ''|'' @ repo_id"

definition upsert_namespace ::
  "(string \<Rightarrow> string) \<Rightarrow> ctx \<Rightarrow> gtime \<times> gtime \<Rightarrow> namespace_record \<Rightarrow> namespace_mem \<Rightarrow>
     go_error option \<times> namespace_mem" where
  "upsert_namespace sha c clk r m =
     (let r = (if ns_tenant r = [] then r\<lparr>ns_tenant := tenant_from_context c\<rparr> else r);
          r = (if ns_id r = [] then r\<lparr>ns_id := namespace_record_id sha r\<rparr> else r);
          r = (if is_zero (ns_created_at r) then r\<lparr>ns_created_at := fst clk\<rparr> else r);
          r = r\<lparr>ns_updated_at := snd clk\<rparr>
      in (None, mput (namespace_key (ns_tenant r) (ns_provider r) (ns_instance_key r) (ns_repo_id r)) r m))"

definition get_namespace :: "ctx \<Rightarrow> string \<Rightarrow> string \<Rightarrow> string \<Rightarrow> namespace_mem \<Rightarrow> namespace_record option res" where
  "get_namespace c provider repo_id instance_key m =
     Inr (mget m (namespace_key (tenant_from_context c) provider instance_key repo_id))"

definition field_matches :: "string \<Rightarrow> string \<Rightarrow> bool" where
  "field_matches want v \<longleftrightarrow> \<not> (want \<noteq> [] \<and> v \<noteq> want)"

definition namespace_matches :: "string \<Rightarrow> namespace_filter \<Rightarrow> namespace_record \<Rightarrow> bool" where
  "namespace_matches tenant_id f r \<longleftrightarrow>
     field_matches tenant_id (ns_tenant r) \<and> field_matches (nf_provider f) (ns_provider r) \<and>
     field_matches (nf_instance_key f) (ns_instance_key r) \<and> field_matches (nf_account_id f) (ns_account_id r) \<and>
     field_matches (nf_installation_id f) (ns_installation_id r) \<and> field_matches (nf_repo_id f) (ns_repo_id r) \<and>
     field_matches (nf_owner f) (ns_owner r) \<and> field_matches (nf_repo_name f) (ns_repo_name r) \<and>
     field_matches (nf_full_name f) (ns_full_name r)"

definition list_namespaces :: "ctx \<Rightarrow> namespace_filter \<Rightarrow> namespace_mem \<Rightarrow> namespace_record list res" where
  "list_namespaces c f m =
     (let tenant_id = (if nf_tenant f = [] then tenant_from_context c else nf_tenant f)
      in Inr (filter (namespace_matches tenant_id f) (mvals m)))"

definition delete_namespace ::
  "ctx \<Rightarrow> string \<Rightarrow> string \<Rightarrow> string \<Rightarrow> namespace_mem \<Rightarrow> go_error option \<times> namespace_mem" where
  "delete_namespace c provider repo_id instance_key m =
     (None, filter (\<lambda>(k, r). \<not> (ns_provider r = provider \<and> ns_repo_id r = repo_id \<and>
                field_matches instance_key (ns_instance_key r) \<and> tenant_visible c (ns_tenant r))) m)"

text \<open>
  Deleting a namespace removes exactly the records of that provider and repository
  that the caller's tenant and the given instance key (when there is one) select, and every listing shows
  the other records as before.
\<close>

theorem delete_namespace_exact:
  "\<exists>xs ys. list_namespaces c f m = Inr xs \<and>
     list_namespaces c f (snd (delete_namespace c provider repo_id key m)) = Inr ys \<and>
     ys = filter (\<lambda>r. \<not> (ns_provider r = provider \<and> ns_repo_id r = repo_id \<and>
                      key \<in> {[], ns_instance_key r} \<and>
                      tenant_from_context c \<in> {[], ns_tenant r})) xs"
proof -
  have vals: "mvals (filter (\<lambda>(k, r). P r) m) = filter P (mvals m)" for P :: "namespace_record \<Rightarrow> bool"
    by (simp add: mvals_def filter_map o_def case_prod_unfold)
  show ?thesis
    by (auto simp: list_namespaces_def delete_namespace_def vals field_matches_def tenant_visible_def
        Let_def intro!: filter_cong)
qed

section \<open>Installations\<close>

type_synonym install_mem = "install_record gmap"

definition install_key :: "string \<Rightarrow> string \<Rightarrow> string \<Rightarrow> string \<Rightarrow> string \<Rightarrow> string" where
  "install_key tenant_id provider account_id installation_id instance_key =
     tenant_id @ ''|'' @ provider @ ''|'' @ account_id @ ''|'' @ installation_id @ ''|'' @ instance_key"

definition upsert_installation ::
  "(string \<Rightarrow> string) \<Rightarrow> ctx \<Rightarrow> gtime \<times> gtime \<Rightarrow> install_record \<Rightarrow> install_mem \<Rightarrow>
     go_error option \<times> install_mem" where
  "upsert_installation sha c clk r m =
     (let r = (if in_tenant r = [] then r\<lparr>in_tenant := tenant_from_context c\<rparr> else r);
          r = (if in_id r = [] then r\<lparr>in_id := install_record_id sha r\<rparr> else r);
          r = (if is_zero (in_created_at r) then r\<lparr>in_created_at := fst clk\<rparr> else r);
          r = r\<lparr>in_updated_at := snd clk\<rparr>
      in (None, mput (install_key (in_tenant r) (in_provider r) (in_account_id r) (in_installation_id r)
                        (in_instance_key r)) r m))"

fun latest_loop :: "(install_record \<Rightarrow> bool) \<Rightarrow> install_record list \<Rightarrow> install_record option \<Rightarrow> install_record option" where
  "latest_loop P [] latest = latest"
| "latest_loop P (r # rs) latest =
     (if \<not> P r then latest_loop P rs latest
      else latest_loop P rs
        (case latest of
           None \<Rightarrow> Some r
         | Some l \<Rightarrow> if in_updated_at l < in_updated_at r then Some r else Some l))"

definition get_installation :: "ctx \<Rightarrow> string \<Rightarrow> string \<Rightarrow> string \<Rightarrow> install_mem \<Rightarrow> install_record option res" where
  "get_installation c provider account_id installation_id m =
     Inr (latest_loop (\<lambda>r. in_provider r = provider \<and> in_account_id r = account_id \<and>
                            in_installation_id r = installation_id \<and> tenant_visible c (in_tenant r)) (mvals m) None)"

definition get_installation_by_id :: "ctx \<Rightarrow> string \<Rightarrow> string \<Rightarrow> install_mem \<Rightarrow> install_record option res" where
  "get_installation_by_id c provider installation_id m =
     Inr (latest_loop (\<lambda>r. in_provider r = provider \<and> in_installation_id r = installation_id \<and>
                            tenant_visible c (in_tenant r)) (mvals m) None)"

definition get_installation_by_id_and_key ::
  "ctx \<Rightarrow> string \<Rightarrow> string \<Rightarrow> string \<Rightarrow> install_mem \<Rightarrow> install_record option res" where
  "get_installation_by_id_and_key c provider installation_id instance_key m =
     Inr (latest_loop (\<lambda>r. in_provider r = provider \<and> in_installation_id r = installation_id \<and>
                            in_instance_key r = instance_key \<and> tenant_visible c (in_tenant r)) (mvals m) None)"

definition list_installations :: "ctx \<Rightarrow> string \<Rightarrow> string \<Rightarrow> install_mem \<Rightarrow> install_record list res" where
  "list_installations c provider account_id m =
     Inr (filter (\<lambda>r. in_provider r = provider \<and> field_matches account_id (in_account_id r) \<and>
                       tenant_visible c (in_tenant r)) (mvals m))"

definition delete_installation ::
  "ctx \<Rightarrow> string \<Rightarrow> string \<Rightarrow> string \<Rightarrow> string \<Rightarrow> install_mem \<Rightarrow> go_error option \<times> install_mem" where
  "delete_installation c provider account_id installation_id instance_key m =
     (None, filter (\<lambda>(k, r). \<not> (in_provider r = provider \<and> in_account_id r = account_id \<and>
                in_installation_id r = installation_id \<and> field_matches instance_key (in_instance_key r) \<and>
                tenant_visible c (in_tenant r))) m)"

lemma latest_loop_spec:
  "case latest_loop P rs l of
     None \<Rightarrow> l = None \<and> (\<forall>r \<in> set rs. \<not> P r)
   | Some x \<Rightarrow> (Some x = l \<or> x \<in> set rs \<and> P x) \<and> (\<forall>r \<in> set rs. P r \<longrightarrow> in_updated_at r \<le> in_updated_at x) \<and>
       (\<forall>y. l = Some y \<longrightarrow> in_updated_at y \<le> in_updated_at x)"
proof (induction P rs l rule: latest_loop.induct)
  case (2 P r rs l)
  show ?case
  proof (cases "P r")
    case False
    with 2(1) show ?thesis by (auto split: option.splits)
  next
    case True
    define l' where "l' = (case l of None \<Rightarrow> Some r | Some l \<Rightarrow> if in_updated_at l < in_updated_at r then Some r else Some l)"
    have l': "\<exists>y. l' = Some y \<and> (y = r \<or> l = Some y) \<and> in_updated_at r \<le> in_updated_at y \<and>
        (\<forall>z. l = Some z \<longrightarrow> in_updated_at z \<le> in_updated_at y)"
      by (auto simp: l'_def split: option.split)
    show ?thesis
      using 2(2) [OF True [THEN not_not [THEN iffD2]]] True l'
      unfolding l'_def [symmetric] latest_loop.simps
      by (auto split: option.splits)
  qed
qed (auto split: option.split)

text \<open>
  \<^verbatim>\<open>GetInstallationByInstallationIDAndInstanceKey\<close> returns a record exactly
  when one is stored for that provider, installation and instance that the caller's tenant may see, and
  then one with the latest update time among them.
\<close>

theorem get_installation_latest:
  "\<exists>found. get_installation_by_id_and_key c provider i key m = Inr found \<and>
     (let cands = filter (\<lambda>r. in_provider r = provider \<and> in_installation_id r = i \<and> in_instance_key r = key \<and>
                    tenant_visible c (in_tenant r)) (mvals m)
      in case found of
           None \<Rightarrow> cands = []
         | Some x \<Rightarrow> x \<in> set cands \<and> in_updated_at x = Max (in_updated_at ` set cands))"
proof -
  let ?P = "\<lambda>r. in_provider r = provider \<and> in_installation_id r = i \<and> in_instance_key r = key \<and>
    tenant_visible c (in_tenant r)"
  define found where "found = latest_loop ?P (mvals m) None"
  have max: "in_updated_at x = Max (in_updated_at ` set (filter ?P (mvals m)))"
    if "x \<in> set (filter ?P (mvals m))" "\<forall>r \<in> set (mvals m). ?P r \<longrightarrow> in_updated_at r \<le> in_updated_at x" for x
    by (rule Max_eqI [symmetric]) (use that in auto)
  have spec: "case found of None \<Rightarrow> \<forall>r \<in> set (mvals m). \<not> ?P r
      | Some x \<Rightarrow> x \<in> set (filter ?P (mvals m)) \<and> (\<forall>r \<in> set (mvals m). ?P r \<longrightarrow> in_updated_at r \<le> in_updated_at x)"
    using latest_loop_spec [where P = ?P and rs = "mvals m" and l = None]
    unfolding found_def by (simp split: option.splits)
  have "get_installation_by_id_and_key c provider i key m = Inr found"
    by (simp add: get_installation_by_id_and_key_def found_def)
  moreover have "case found of None \<Rightarrow> filter ?P (mvals m) = []
      | Some x \<Rightarrow> x \<in> set (filter ?P (mvals m)) \<and> in_updated_at x = Max (in_updated_at ` set (filter ?P (mvals m)))"
  proof (cases found)
    case None
    with spec show ?thesis by (simp add: filter_empty_conv)
  next
    case (Some x)
    with spec max [of x] show ?thesis unfolding Some option.case by blast
  qed
  ultimately show ?thesis unfolding Let_def by blast
qed

end
