(* ===== verification/Event_Logs.thy ===== *)
theory Event_Logs
  imports Mem_Stores
begin

text \<open>
  The event log store of \<^verbatim>\<open>pkg/storage/mocks_eventlogs.go\<close>: creation, listing, lookup, status and
  payload updates, analytics. Its state is the slice \<^verbatim>\<open>values\<close>. The aggregations over time and by key
  are in \<^verbatim>\<open>Event_Stats\<close>.

  Identifiers from \<^verbatim>\<open>github.com/google/uuid\<close> are an argument (\<open>uuid n\<close> is the one made for the
  n-th record of a batch), as are SHA-256 and the clock. Sizes of pages stay below the bounds of an
  int (they come from int32 request fields), so page arithmetic is on unbounded integers.
\<close>

section \<open>Records\<close>

record event_log =
  el_tenant :: string
  el_id :: string
  el_provider :: string
  el_name :: string
  el_request_id :: string
  el_state_id :: string
  el_installation_id :: string
  el_namespace_id :: string
  el_namespace_name :: string
  el_topic :: string
  el_rule_id :: string
  el_rule_when :: string
  el_drivers :: "string list"
  el_headers :: "string list gmap"
  el_body :: string
  el_transformed :: string
  el_body_hash :: string
  el_matched :: bool
  el_created :: gtime
  el_updated :: gtime
  el_status :: string
  el_error :: string
  el_latency :: int

definition zero_event_log :: event_log where
  "zero_event_log = \<lparr>el_tenant = [], el_id = [], el_provider = [], el_name = [], el_request_id = [],
     el_state_id = [], el_installation_id = [], el_namespace_id = [], el_namespace_name = [], el_topic = [],
     el_rule_id = [], el_rule_when = [], el_drivers = [], el_headers = [], el_body = [], el_transformed = [],
     el_body_hash = [], el_matched = False, el_created = 0, el_updated = 0, el_status = [], el_error = [],
     el_latency = 0\<rparr>"

record event_log_filter =
  lf_tenant :: string
  lf_provider :: string
  lf_name :: string
  lf_request_id :: string
  lf_state_id :: string
  lf_installation_id :: string
  lf_namespace_id :: string
  lf_namespace_name :: string
  lf_topic :: string
  lf_rule_id :: string
  lf_rule_when :: string
  lf_matched :: "bool option"
  lf_start :: gtime
  lf_end :: gtime
  lf_limit :: int
  lf_offset :: int
  lf_cursor_created :: gtime
  lf_cursor_id :: string

definition no_filter :: event_log_filter where
  "no_filter = \<lparr>lf_tenant = [], lf_provider = [], lf_name = [], lf_request_id = [], lf_state_id = [],
     lf_installation_id = [], lf_namespace_id = [], lf_namespace_name = [], lf_topic = [], lf_rule_id = [],
     lf_rule_when = [], lf_matched = None, lf_start = 0, lf_end = 0, lf_limit = 0, lf_offset = 0,
     lf_cursor_created = 0, lf_cursor_id = []\<rparr>"

type_synonym log_mem = "event_log list"

section \<open>Creation\<close>

definition mock_body_hash :: "(string \<Rightarrow> string) \<Rightarrow> string \<Rightarrow> string" where
  "mock_body_hash sha body = (if body = [] then [] else sha body)"

definition prepare_log :: "(string \<Rightarrow> string) \<Rightarrow> ctx \<Rightarrow> gtime \<Rightarrow> string \<Rightarrow> event_log \<Rightarrow> event_log" where
  "prepare_log sha c now new_id r =
     (let r = (if el_tenant r = [] then r\<lparr>el_tenant := tenant_from_context c\<rparr> else r);
          r = (if el_id r = [] then r\<lparr>el_id := new_id\<rparr> else r);
          r = (if el_status r = [] then r\<lparr>el_status := ''queued''\<rparr> else r);
          r = (if el_body_hash r = [] then r\<lparr>el_body_hash := mock_body_hash sha (el_body r)\<rparr> else r);
          r = (if is_zero (el_created r) then r\<lparr>el_created := now\<rparr> else r);
          r = (if is_zero (el_updated r) then r\<lparr>el_updated := el_created r\<rparr> else r)
      in if el_latency r < 0 then r\<lparr>el_latency := 0\<rparr> else r)"

fun append_logs :: "(string \<Rightarrow> string) \<Rightarrow> ctx \<Rightarrow> gtime \<Rightarrow> (nat \<Rightarrow> string) \<Rightarrow> nat \<Rightarrow> event_log list \<Rightarrow> log_mem \<Rightarrow> log_mem" where
  "append_logs sha c now uuid i [] m = m"
| "append_logs sha c now uuid i (r # rs) m =
     append_logs sha c now uuid (Suc i) rs (m @ [prepare_log sha c now (uuid i) r])"

definition create_event_logs ::
  "(string \<Rightarrow> string) \<Rightarrow> ctx \<Rightarrow> gtime \<Rightarrow> (nat \<Rightarrow> string) \<Rightarrow> event_log list \<Rightarrow> log_mem \<Rightarrow> go_error option \<times> log_mem" where
  "create_event_logs sha c now uuid rs m =
     (if rs = [] then (None, m) else (None, append_logs sha c now uuid 0 rs m))"

section \<open>Listing\<close>

definition log_matches :: "string \<Rightarrow> event_log_filter \<Rightarrow> event_log \<Rightarrow> bool" where
  "log_matches tenant_id f r \<longleftrightarrow>
     field_matches tenant_id (el_tenant r) \<and> field_matches (lf_provider f) (el_provider r) \<and>
     field_matches (lf_name f) (el_name r) \<and> field_matches (lf_request_id f) (el_request_id r) \<and>
     field_matches (lf_state_id f) (el_state_id r) \<and>
     field_matches (lf_installation_id f) (el_installation_id r) \<and>
     field_matches (lf_namespace_id f) (el_namespace_id r) \<and>
     field_matches (lf_namespace_name f) (el_namespace_name r) \<and>
     field_matches (lf_topic f) (el_topic r) \<and> field_matches (lf_rule_id f) (el_rule_id r) \<and>
     field_matches (lf_rule_when f) (el_rule_when r) \<and>
     (case lf_matched f of None \<Rightarrow> True | Some b \<Rightarrow> el_matched r = b) \<and>
     \<not> (\<not> is_zero (lf_start f) \<and> el_created r < lf_start f) \<and>
     \<not> (\<not> is_zero (lf_end f) \<and> lf_end f < el_created r)"

definition filter_tenant :: "ctx \<Rightarrow> event_log_filter \<Rightarrow> string" where
  "filter_tenant c f = (if lf_tenant f = [] then tenant_from_context c else lf_tenant f)"

definition list_event_logs :: "ctx \<Rightarrow> event_log_filter \<Rightarrow> log_mem \<Rightarrow> event_log list res" where
  "list_event_logs c f m =
     (let filtered = filter (log_matches (filter_tenant c f) f) m;
          sorted = sort_slice (\<lambda>a b. el_created b < el_created a) filtered;
          len = int (length sorted);
          start = (if lf_offset f < 0 \<or> len < lf_offset f then len else lf_offset f);
          stop = (if 0 < lf_limit f \<and> start + lf_limit f < len then start + lf_limit f else len)
      in Inr (take (nat (stop - start)) (drop (nat start) sorted)))"

section \<open>Lookup and updates\<close>

definition get_event_log :: "ctx \<Rightarrow> string \<Rightarrow> log_mem \<Rightarrow> event_log option res" where
  "get_event_log c rid m =
     (let rid = trim_space rid in
      if rid = [] then Inl (Error ''id is required'')
      else Inr (find (\<lambda>r. el_id r = rid \<and> tenant_visible c (el_tenant r)) m))"

definition set_status :: "gtime \<Rightarrow> string \<Rightarrow> string \<Rightarrow> event_log \<Rightarrow> event_log" where
  "set_status now status msg r =
     (let r = r\<lparr>el_status := status, el_error := msg, el_updated := now\<rparr> in
      if status = ''success'' \<or> status = ''failed''
      then r\<lparr>el_latency := milliseconds (time_sub (el_updated r) (el_created r))\<rparr> else r)"

definition update_event_log_status ::
  "ctx \<Rightarrow> gtime \<Rightarrow> string \<Rightarrow> string \<Rightarrow> string \<Rightarrow> log_mem \<Rightarrow> go_error option \<times> log_mem" where
  "update_event_log_status c now rid status msg m =
     (None, map (\<lambda>r. if el_id r = rid \<and> tenant_visible c (el_tenant r) then set_status now status msg r else r) m)"

fun update_transformed :: "ctx \<Rightarrow> gtime \<Rightarrow> string \<Rightarrow> string \<Rightarrow> log_mem \<Rightarrow> go_error option \<times> log_mem" where
  "update_transformed c now rid body [] = (Some (Error ''event log not found''), [])"
| "update_transformed c now rid body (r # rs) =
     (if el_id r = rid \<and> tenant_visible c (el_tenant r)
      then (None, r\<lparr>el_transformed := body, el_updated := now\<rparr> # rs)
      else let (err, rs') = update_transformed c now rid body rs in (err, r # rs'))"

section \<open>Analytics\<close>

record event_log_count =
  ct_key :: string
  ct_count :: int

record event_log_analytics =
  an_total :: int
  an_matched :: int
  an_distinct :: int
  an_provider :: "event_log_count list"
  an_event :: "event_log_count list"
  an_topic :: "event_log_count list"
  an_rule :: "event_log_count list"
  an_install :: "event_log_count list"
  an_namespace :: "event_log_count list"

definition bump :: "string \<Rightarrow> int gmap \<Rightarrow> int gmap" where
  "bump k m = mput k ((case mget m k of None \<Rightarrow> 0 | Some n \<Rightarrow> n) + 1) m"

definition bump_set :: "string \<Rightarrow> int gmap \<Rightarrow> int gmap" where
  "bump_set k m = (if k \<noteq> [] then bump k m else m)"

definition count_less :: "event_log_count \<Rightarrow> event_log_count \<Rightarrow> bool" where
  "count_less a b =
     (if ct_count a = ct_count b then ct_key a < ct_key b else ct_count b < ct_count a)"

definition map_counts :: "int gmap \<Rightarrow> event_log_count list" where
  "map_counts input = sort_slice count_less (map (\<lambda>(k, n). \<lparr>ct_key = k, ct_count = n\<rparr>) input)"

definition rule_key :: "event_log \<Rightarrow> string" where
  "rule_key r = (if el_rule_id r \<noteq> [] then el_rule_id r else el_rule_when r)"

definition namespace_label :: "event_log \<Rightarrow> string" where
  "namespace_label r = (if el_namespace_name r \<noteq> [] then el_namespace_name r else el_namespace_id r)"

text \<open>The counters are folded one map at a time; the loop of the source updates all of them per record.\<close>

definition count_by :: "(event_log \<Rightarrow> string) \<Rightarrow> event_log list \<Rightarrow> event_log_count list" where
  "count_by key rs = map_counts (fold (\<lambda>r. bump_set (key r)) rs [])"

definition get_event_log_analytics :: "ctx \<Rightarrow> event_log_filter \<Rightarrow> log_mem \<Rightarrow> event_log_analytics res" where
  "get_event_log_analytics c f m =
     bind_res (list_event_logs c (no_filter\<lparr>lf_tenant := lf_tenant f, lf_provider := lf_provider f,
         lf_name := lf_name f, lf_request_id := lf_request_id f, lf_state_id := lf_state_id f,
         lf_installation_id := lf_installation_id f, lf_topic := lf_topic f, lf_matched := lf_matched f,
         lf_start := lf_start f, lf_end := lf_end f\<rparr>) m)
       (\<lambda>records. Inr \<lparr>
          an_total = int (length records),
          an_matched = int (length (filter el_matched records)),
          an_distinct = int (length (remdups (filter (\<lambda>i. i \<noteq> []) (map el_request_id records)))),
          an_provider = count_by el_provider records,
          an_event = count_by el_name records,
          an_topic = count_by el_topic records,
          an_rule = count_by rule_key records,
          an_install = count_by el_installation_id records,
          an_namespace = count_by namespace_label records\<rparr>)"

section \<open>Facts\<close>

lemma list_event_logs_slice:
  "list_event_logs c f m =
     (let s = sort_slice (\<lambda>a b. el_created b < el_created a) (filter (log_matches (filter_tenant c f) f) m);
          rest = (if lf_offset f < 0 then [] else drop (nat (lf_offset f)) s)
      in Inr (if 0 < lf_limit f then take (nat (lf_limit f)) rest else rest))"
  unfolding list_event_logs_def Let_def
  by (auto simp: nat_diff_distrib nat_add_distrib)

lemma list_event_logs_all:
  "lf_offset f = 0 \<Longrightarrow> lf_limit f \<le> 0 \<Longrightarrow> list_event_logs c f m =
     Inr (sort_slice (\<lambda>a b. el_created b < el_created a) (filter (log_matches (filter_tenant c f) f) m))"
  by (simp add: list_event_logs_slice Let_def)

text \<open>The copy of a filter without its page, as the aggregations build it.\<close>

definition unpaged :: "event_log_filter \<Rightarrow> event_log_filter" where
  "unpaged f = f\<lparr>lf_limit := 0, lf_offset := 0, lf_cursor_created := 0, lf_cursor_id := []\<rparr>"

lemma unpaged_matches [simp]: "log_matches t (unpaged f) = log_matches t f" "filter_tenant c (unpaged f) = filter_tenant c f"
  by (auto simp: unpaged_def log_matches_def filter_tenant_def fun_eq_iff)

lemma list_event_logs_unpaged:
  "list_event_logs c (unpaged f) m =
     Inr (sort_slice (\<lambda>a b. el_created b < el_created a) (filter (log_matches (filter_tenant c f) f) m))"
proof -
  have "lf_offset (unpaged f) = 0" "lf_limit (unpaged f) \<le> 0" by (simp_all add: unpaged_def)
  from list_event_logs_all [OF this, of c m] show ?thesis by simp
qed

lemma log_matches_page [simp]:
  "log_matches t (f\<lparr>lf_offset := x, lf_limit := y\<rparr>) = log_matches t f"
  "filter_tenant c (f\<lparr>lf_offset := x, lf_limit := y\<rparr>) = filter_tenant c f"
  by (auto simp: log_matches_def filter_tenant_def fun_eq_iff)

text \<open>
  The pages of a listing tile it: for every page size, the pages with consecutive
  offsets are consecutive slices of one list, which holds exactly the stored records that the filter and
  the caller's tenant select, newest first.
\<close>

theorem list_event_logs_pages:
  "\<exists>all. mset all = mset (filter (log_matches (filter_tenant c f) f) m) \<and>
     sorted_wrt (\<lambda>a b. el_created b \<le> el_created a) all \<and>
     list_event_logs c (f\<lparr>lf_offset := int i, lf_limit := int (Suc n)\<rparr>) m = Inr (take (Suc n) (drop i all)) \<and>
     list_event_logs c (f\<lparr>lf_offset := int i, lf_limit := 0\<rparr>) m = Inr (drop i all)"
proof -
  let ?all = "sort_slice (\<lambda>a b. el_created b < el_created a) (filter (log_matches (filter_tenant c f) f) m)"
  have "sorted_wrt (\<lambda>a b. el_created b \<le> el_created a) ?all"
    using sorted_sort_slice [OF strict_weak_key(2) [of el_created], of "filter (log_matches (filter_tenant c f) f) m"]
    by (simp add: not_less)
  then show ?thesis
    by (intro exI [of _ ?all]) (simp add: list_event_logs_slice Let_def nat_add_distrib)
qed

lemma tenant_scoped_listing:
  assumes "list_event_logs c f m = Inr rs" "r \<in> set rs" "filter_tenant c f \<noteq> []"
  shows "el_tenant r = filter_tenant c f"
  using assms
  by (auto simp: list_event_logs_slice Let_def log_matches_def field_matches_def
      dest!: in_set_takeD in_set_dropD split: if_splits)

end
