(* ===== verification/Event_Payload.thy ===== *)
theory Event_Payload
  imports App_Config Event_Logs
begin

text \<open>
  From the body of a webhook to an event: \<^verbatim>\<open>event_normalize.go\<close>, \<^verbatim>\<open>payload_helpers.go\<close> and
  \<^verbatim>\<open>replay_helpers.go\<close> of \<^verbatim>\<open>pkg/webhook\<close>, and the event the provider handlers build.

  \<^verbatim>\<open>json.Unmarshal\<close> into an \<^verbatim>\<open>interface{}\<close> is the parameter \<open>decode\<close>; parsing and formatting of time
  stamps are the fields of \<open>time_lib\<close>. The flattened map and the decoded object are changed in place by
  \<^verbatim>\<open>annotatePayload\<close>: the model returns both.
\<close>

section \<open>Normalised fields\<close>

record normalized_fields =
  nz_provider_type :: string
  nz_event_type :: string
  nz_action :: string
  nz_resource_type :: string
  nz_resource_id :: string
  nz_resource_name :: string
  nz_actor_id :: string
  nz_actor_name :: string
  nz_occurred_at :: string

record time_lib =
  tl_parse :: "string \<Rightarrow> gtime option"
  tl_format :: "gtime \<Rightarrow> string"
  tl_parse_nano :: "string \<Rightarrow> gtime option"
  tl_format_nano :: "gtime \<Rightarrow> string"

definition normalize_resource_type :: "string \<Rightarrow> string" where
  "normalize_resource_type event_name =
     (let e = trim_space (to_lower event_name) in
      if e = [] then [] else replace_byte (replace_byte e (CHR ''.'') ''_'') (CHR '':'') ''_'')"

text \<open>\<open>None\<close> is the nil map.\<close>

fun data_string_from :: "gval gmap \<Rightarrow> string list \<Rightarrow> string" where
  "data_string_from data [] = []"
| "data_string_from data (key # keys) =
     (case mget data key of
        None \<Rightarrow> data_string_from data keys
      | Some VNil \<Rightarrow> data_string_from data keys
      | Some value \<Rightarrow>
          (let trimmed = trim_space (sprint_v value) in
           if trimmed \<noteq> [] \<and> trimmed \<noteq> ''<nil>'' then trimmed else data_string_from data keys))"

definition data_string :: "gval gmap option \<Rightarrow> string list \<Rightarrow> string" where
  "data_string data keys = (case data of None \<Rightarrow> [] | Some m \<Rightarrow> data_string_from m keys)"

definition normalize_timestamp :: "time_lib \<Rightarrow> string \<Rightarrow> string" where
  "normalize_timestamp ti value0 =
     (let value = trim_space value0 in
      if value = [] then []
      else case tl_parse ti value of
             Some t \<Rightarrow> tl_format ti t
           | None \<Rightarrow>
               (case tl_parse_nano ti value of
                  Some t \<Rightarrow> tl_format_nano ti t
                | None \<Rightarrow> value))"

definition derive_normalized :: "time_lib \<Rightarrow> string \<Rightarrow> string \<Rightarrow> gval gmap option \<Rightarrow> normalized_fields" where
  "derive_normalized ti provider0 event_name0 data =
     (let provider = trim_space provider0; event_name = trim_space event_name0 in
      \<lparr>nz_provider_type = provider_type_text (provider_type_for provider),
       nz_event_type = event_name,
       nz_action = data_string data [''action'', ''object_attributes.action'', ''event.action''],
       nz_resource_type = normalize_resource_type event_name,
       nz_resource_id = data_string data [''repository.id'', ''pull_request.id'', ''issue.id'', ''merge_request.id'',
         ''object_attributes.id'', ''project.id'', ''resource.id''],
       nz_resource_name = data_string data [''repository.full_name'', ''repository.name'',
         ''project.path_with_namespace'', ''project.path'', ''resource.name''],
       nz_actor_id = data_string data [''sender.id'', ''user.id'', ''actor.id''],
       nz_actor_name = data_string data [''sender.login'', ''sender.username'', ''user.username'', ''user.name'',
         ''actor.username'', ''actor.display_name''],
       nz_occurred_at = normalize_timestamp ti (data_string data [''head_commit.timestamp'', ''repository.updated_at'',
         ''pull_request.updated_at'', ''issue.updated_at'', ''object_attributes.updated_at'',
         ''object_attributes.created_at'', ''event.timestamp''])\<rparr>)"

section \<open>Payloads\<close>

definition raw_object_and_flatten :: "(string \<Rightarrow> gval res) \<Rightarrow> string \<Rightarrow> gval \<times> gval gmap" where
  "raw_object_and_flatten decode raw =
     (case decode raw of
        Inl err \<Rightarrow> (VNil, [])
      | Inr (VMap m) \<Rightarrow> (VMap m, flatten m)
      | Inr out \<Rightarrow> (out, []))"

definition normalize_git_ref :: "string \<Rightarrow> string option" where
  "normalize_git_ref value0 =
     (let value = trim_space value0 in
      if value = [] then None
      else if starts_with ''refs/'' value then Some value
      else Some (''refs/heads/'' @ trim_prefix value ''refs/heads/''))"

fun git_ref_from :: "gval gmap \<Rightarrow> string list \<Rightarrow> string option" where
  "git_ref_from data [] = None"
| "git_ref_from data (key # keys) =
     (case mget data key of
        None \<Rightarrow> git_ref_from data keys
      | Some VNil \<Rightarrow> git_ref_from data keys
      | Some value \<Rightarrow>
          (case normalize_git_ref (sprint_v value) of
             Some r \<Rightarrow> Some r
           | None \<Rightarrow> git_ref_from data keys))"

definition derive_git_ref :: "gval gmap \<Rightarrow> string option" where
  "derive_git_ref data =
     (let candidates = git_ref_from data [''check_suite.head_branch'', ''check_suite.head_ref'',
            ''workflow_run.head_branch'', ''workflow_run.head_ref'', ''push.ref'']
      in case mget data ''ref'' of
           None \<Rightarrow> candidates
         | Some value \<Rightarrow>
             (case normalize_git_ref (sprint_v value) of
                Some r \<Rightarrow> Some r
              | None \<Rightarrow> candidates))"

definition put_text :: "string \<Rightarrow> string \<Rightarrow> gval gmap \<Rightarrow> gval gmap" where
  "put_text k v m = (if v \<noteq> [] then mput k (VStr v) m else m)"

definition annotate_map :: "string \<Rightarrow> string \<Rightarrow> normalized_fields \<Rightarrow> gval gmap \<Rightarrow> gval gmap" where
  "annotate_map provider event_name nz m =
     (let m = put_text ''provider'' provider m;
          m = (if event_name \<noteq> []
               then mput ''event_type'' (VStr (nz_event_type nz)) (mput ''event'' (VStr event_name) m) else m);
          m = put_text ''provider_type'' (nz_provider_type nz) m;
          m = put_text ''action'' (nz_action nz) m;
          m = put_text ''resource_type'' (nz_resource_type nz) m;
          m = put_text ''resource_id'' (nz_resource_id nz) m;
          m = put_text ''resource_name'' (nz_resource_name nz) m;
          m = put_text ''actor_id'' (nz_actor_id nz) m;
          m = put_text ''actor_name'' (nz_actor_name nz) m
      in put_text ''occurred_at'' (nz_occurred_at nz) m)"

definition put_ref :: "string option \<Rightarrow> gval gmap \<Rightarrow> gval gmap" where
  "put_ref r m = (case r of Some v \<Rightarrow> mput ''ref'' (VStr v) m | None \<Rightarrow> m)"

text \<open>The object, the flattened map (never nil where the source calls it) and the fields.\<close>

definition annotate_payload ::
  "time_lib \<Rightarrow> gval \<Rightarrow> gval gmap \<Rightarrow> string \<Rightarrow> string \<Rightarrow> gval \<times> gval gmap \<times> normalized_fields" where
  "annotate_payload ti raw_object data0 provider0 event_name0 =
     (let provider = trim_space provider0; event_name = trim_space event_name0;
          nz = derive_normalized ti provider event_name (Some data0);
          data = annotate_map provider event_name nz data0;
          ref = derive_git_ref data;
          data = put_ref ref data
      in case raw_object of
           VMap obj \<Rightarrow>
             (let obj = annotate_map provider event_name nz obj;
                  obj = (case ref of
                           Some r \<Rightarrow> mput ''ref'' (VStr r) obj
                         | None \<Rightarrow> put_ref (derive_git_ref data) obj)
              in (VMap obj, data, nz))
         | _ \<Rightarrow> (raw_object, data, nz))"

definition clone_headers :: "string list gmap option \<Rightarrow> string list gmap option" where
  "clone_headers headers = map_option (filter (\<lambda>(k, vs). vs \<noteq> [])) headers"

definition clone_headers_map :: "string list gmap option \<Rightarrow> string list gmap option" where
  "clone_headers_map headers =
     (case headers of
        None \<Rightarrow> None
      | Some [] \<Rightarrow> None
      | Some hs \<Rightarrow> Some (filter (\<lambda>(k, vs). vs \<noteq> []) hs))"

section \<open>Events\<close>

text \<open>
  What a handler knows about the sender of a webhook, and the event it hands to \<^verbatim>\<open>emit\<close>; the five
  handlers build it alike.
\<close>

record webhook_source =
  ws_provider :: string
  ws_event_name :: string
  ws_request_id :: string
  ws_headers :: "string list gmap option"
  ws_state_id :: string
  ws_tenant :: string
  ws_installation_id :: string
  ws_instance_key :: string
  ws_namespace_id :: string
  ws_namespace_name :: string

definition event_of :: "webhook_source \<Rightarrow> gval \<Rightarrow> gval gmap \<Rightarrow> normalized_fields \<Rightarrow> string \<Rightarrow> event" where
  "event_of src raw_object data nz raw =
     \<lparr>ev_provider = ws_provider src, ev_provider_type = nz_provider_type nz, ev_name = ws_event_name src,
      ev_event_type = nz_event_type nz, ev_action = nz_action nz, ev_resource_type = nz_resource_type nz,
      ev_resource_id = nz_resource_id nz, ev_resource_name = nz_resource_name nz, ev_actor_id = nz_actor_id nz,
      ev_actor_name = nz_actor_name nz, ev_occurred_at = nz_occurred_at nz, ev_request_id = ws_request_id src,
      ev_log_id = [], ev_headers = ws_headers src, ev_data = Some data, ev_raw_payload = raw,
      ev_raw_object = raw_object, ev_state_id = ws_state_id src, ev_tenant_id = ws_tenant src,
      ev_installation_id = ws_installation_id src, ev_instance_key = ws_instance_key src,
      ev_namespace_id = ws_namespace_id src, ev_namespace_name = ws_namespace_name src\<rparr>"

definition webhook_event :: "(string \<Rightarrow> gval res) \<Rightarrow> time_lib \<Rightarrow> webhook_source \<Rightarrow> string \<Rightarrow> event" where
  "webhook_event decode ti src raw =
     (case raw_object_and_flatten decode raw of
        (obj, data) \<Rightarrow>
          (case annotate_payload ti obj data (ws_provider src) (ws_event_name src) of
             (obj', data', nz) \<Rightarrow> event_of (src\<lparr>ws_headers := clone_headers (ws_headers src)\<rparr>) obj' data' nz raw))"

definition replay_source :: "event_log \<Rightarrow> webhook_source" where
  "replay_source r =
     \<lparr>ws_provider = el_provider r, ws_event_name = el_name r, ws_request_id = el_request_id r,
      ws_headers = clone_headers_map (Some (el_headers r)), ws_state_id = el_state_id r, ws_tenant = el_tenant r,
      ws_installation_id = el_installation_id r, ws_instance_key = [], ws_namespace_id = el_namespace_id r,
      ws_namespace_name = el_namespace_name r\<rparr>"

definition build_replay_event :: "(string \<Rightarrow> gval res) \<Rightarrow> time_lib \<Rightarrow> event_log \<Rightarrow> event res" where
  "build_replay_event decode ti r =
     (let body = (if el_body r = [] then el_transformed r else el_body r) in
      if body = [] then Inl (Error ''event log payload is empty'')
      else
        case raw_object_and_flatten decode body of
          (obj, data) \<Rightarrow>
            if obj = VNil then Inl (Error ''event log payload is invalid json'')
            else
              (case annotate_payload ti obj data (el_provider r) (el_name r) of
                 (obj', data', nz) \<Rightarrow>
                   Inr ((event_of (replay_source r) obj' data' nz body)\<lparr>ev_log_id := el_id r\<rparr>)))"

end
