(* ===== verification/Driver_Cache.thy ===== *)
theory Driver_Cache
  imports Publisher Mem_Stores
begin

text \<open>
  \<^verbatim>\<open>pkg/drivers\<close>: drivers as stored records (\<^verbatim>\<open>config.go\<close>), the cache of publishers per tenant and the
  publisher that routes by tenant (\<^verbatim>\<open>cache.go\<close>), the cache of publishers built from a rule's own driver
  (\<^verbatim>\<open>dynamic_cache.go\<close>).

  \<^verbatim>\<open>encoding/json\<close> on the four driver sections is a parameter, the fields of \<open>driver_codec\<close>: an encoder and
  a decoder into an existing value, as \<^verbatim>\<open>json.Unmarshal\<close> works. A driver store is its \<^verbatim>\<open>ListDrivers\<close>,
  \<open>None\<close> for a nil store. Each method is one step: two callers that refresh the same tenant at once are
  not modelled.
\<close>

section \<open>Driver records\<close>

record driver_codec =
  dj_amqp_enc :: "amqp_config \<Rightarrow> string res"
  dj_amqp_dec :: "string \<Rightarrow> amqp_config \<Rightarrow> amqp_config res"
  dj_nats_enc :: "nats_config \<Rightarrow> string res"
  dj_nats_dec :: "string \<Rightarrow> nats_config \<Rightarrow> nats_config res"
  dj_kafka_enc :: "kafka_config \<Rightarrow> string res"
  dj_kafka_dec :: "string \<Rightarrow> kafka_config \<Rightarrow> kafka_config res"
  dj_http_enc :: "http_config \<Rightarrow> string res"
  dj_http_dec :: "string \<Rightarrow> http_config \<Rightarrow> http_config res"

definition unmarshal_json :: "(string \<Rightarrow> 'a \<Rightarrow> 'a res) \<Rightarrow> string \<Rightarrow> 'a \<Rightarrow> 'a res" where
  "unmarshal_json dec raw0 target = (let raw = trim_space raw0 in if raw = [] then Inr target else dec raw target)"

definition marshal_driver_config :: "driver_codec \<Rightarrow> string \<Rightarrow> relaybus_config \<Rightarrow> string res" where
  "marshal_driver_config codec name cfg =
     (let d = to_lower name in
      if d = ''amqp'' then dj_amqp_enc codec (rb_amqp cfg)
      else if d = ''nats'' then dj_nats_enc codec (rb_nats cfg)
      else if d = ''kafka'' then dj_kafka_enc codec (rb_kafka cfg)
      else if d = ''http'' then dj_http_enc codec (rb_http cfg)
      else Inl (Error (''unsupported driver: '' @ name)))"

definition apply_driver_config :: "driver_codec \<Rightarrow> string \<Rightarrow> string \<Rightarrow> relaybus_config \<Rightarrow> relaybus_config res" where
  "apply_driver_config codec name raw cfg =
     (let d = to_lower name in
      if d = ''amqp'' then
        bind_res (unmarshal_json (dj_amqp_dec codec) raw (rb_amqp cfg)) (\<lambda>v. Inr (cfg\<lparr>rb_amqp := v\<rparr>))
      else if d = ''nats'' then
        bind_res (unmarshal_json (dj_nats_dec codec) raw (rb_nats cfg)) (\<lambda>v. Inr (cfg\<lparr>rb_nats := v\<rparr>))
      else if d = ''kafka'' then
        bind_res (unmarshal_json (dj_kafka_dec codec) raw (rb_kafka cfg)) (\<lambda>v. Inr (cfg\<lparr>rb_kafka := v\<rparr>))
      else if d = ''http'' then
        bind_res (unmarshal_json (dj_http_dec codec) raw (rb_http cfg)) (\<lambda>v. Inr (cfg\<lparr>rb_http := v\<rparr>))
      else Inl (Error (''unsupported driver: '' @ name)))"

definition config_driver_record :: "string \<Rightarrow> string \<Rightarrow> driver_record" where
  "config_driver_record name config_json =
     \<lparr>dr_tenant = [], dr_id = [], dr_name = to_lower name, dr_config_json = config_json, dr_enabled = True,
      dr_created_at = 0, dr_updated_at = 0\<rparr>"

fun records_loop :: "driver_codec \<Rightarrow> relaybus_config \<Rightarrow> string list \<Rightarrow> driver_record list res" where
  "records_loop codec cfg [] = Inr []"
| "records_loop codec cfg (name0 # names) =
     (let name = trim_space name0 in
      if name = [] then records_loop codec cfg names
      else bind_res (marshal_driver_config codec name cfg) (\<lambda>js.
           bind_res (records_loop codec cfg names) (\<lambda>rs. Inr (config_driver_record name js # rs))))"

definition records_from_config :: "driver_codec \<Rightarrow> relaybus_config \<Rightarrow> driver_record list res" where
  "records_from_config codec cfg = records_loop codec cfg (config_drivers cfg)"

fun config_loop :: "driver_codec \<Rightarrow> driver_record list \<Rightarrow> relaybus_config \<Rightarrow> relaybus_config res" where
  "config_loop codec [] cfg = Inr cfg"
| "config_loop codec (r # rs) cfg =
     (if \<not> dr_enabled r then config_loop codec rs cfg
      else
        let name = to_lower (trim_space (dr_name r)) in
        if name = [] then config_loop codec rs cfg
        else bind_res (apply_driver_config codec name (dr_config_json r) cfg)
               (\<lambda>cfg'. config_loop codec rs (cfg'\<lparr>rb_drivers := rb_drivers cfg' @ [name]\<rparr>)))"

definition config_from_records :: "driver_codec \<Rightarrow> relaybus_config \<Rightarrow> driver_record list \<Rightarrow> relaybus_config res" where
  "config_from_records codec base rs = config_loop codec rs (base\<lparr>rb_drivers := [], rb_driver := []\<rparr>)"

definition config_from_driver :: "driver_codec \<Rightarrow> string \<Rightarrow> string \<Rightarrow> relaybus_config res" where
  "config_from_driver codec driver_name config_json =
     (let name = to_lower (trim_space driver_name) in
      if name = [] then Inl (Error ''driver name is required'')
      else apply_driver_config codec name config_json (zero_relaybus\<lparr>rb_driver := name, rb_drivers := [name]\<rparr>))"

section \<open>The publisher cache\<close>

record 'p driver_cache =
  dc_store :: "(ctx \<Rightarrow> driver_record list res) option"
  dc_base :: relaybus_config
  dc_config :: "relaybus_config tenant_cache"
  dc_pub :: "'p publisher tenant_cache"

definition new_cache :: "(ctx \<Rightarrow> driver_record list res) option \<Rightarrow> relaybus_config \<Rightarrow> 'p driver_cache" where
  "new_cache store base = \<lparr>dc_store = store, dc_base = base, dc_config = new_tenant_cache, dc_pub = new_tenant_cache\<rparr>"

definition global_driver_key :: string where
  "global_driver_key = ''global''"

definition cache_key_from_context :: "ctx \<Rightarrow> string" where
  "cache_key_from_context c = (if tenant_from_context c \<noteq> [] then tenant_from_context c else global_driver_key)"

definition close_existing :: "'p pub_lib \<Rightarrow> 'p publisher tenant_cache \<Rightarrow> string \<Rightarrow> 'p world \<Rightarrow> 'p world" where
  "close_existing lib pubs key w =
     (case tc_get pubs key of Some existing \<Rightarrow> snd (close_publisher lib existing w) | None \<Rightarrow> w)"

definition refresh_tenant ::
  "'p pub_lib \<Rightarrow> 'p factories \<Rightarrow> driver_codec \<Rightarrow> string \<Rightarrow> driver_record list \<Rightarrow> 'p driver_cache \<Rightarrow>
     ('p, go_error option \<times> 'p driver_cache) action" where
  "refresh_tenant lib fs codec key records dc w =
     (case config_from_records codec (dc_base dc) records of
        Inl err \<Rightarrow> ((Some err, dc), w)
      | Inr cfg \<Rightarrow>
          if rb_drivers cfg = [] \<and> rb_driver cfg = [] then
            ((None, dc\<lparr>dc_pub := tc_delete key (dc_pub dc), dc_config := tc_delete key (dc_config dc)\<rparr>),
             close_existing lib (dc_pub dc) key w)
          else
            (case new_publisher lib fs cfg w of
               (Inl err, w') \<Rightarrow> ((Some err, dc), w')
             | (Inr pub, w') \<Rightarrow>
                 ((None, dc\<lparr>dc_config := tc_set key cfg (dc_config dc), dc_pub := tc_set key pub (dc_pub dc)\<rparr>),
                  close_existing lib (dc_pub dc) key w')))"

definition refresh ::
  "'p pub_lib \<Rightarrow> 'p factories \<Rightarrow> driver_codec \<Rightarrow> ctx \<Rightarrow> 'p driver_cache \<Rightarrow>
     ('p, go_error option \<times> 'p driver_cache) action" where
  "refresh lib fs codec c dc w =
     (case dc_store dc of
        None \<Rightarrow> ((None, dc), w)
      | Some list_of \<Rightarrow>
          (case list_of c of
             Inl err \<Rightarrow> ((Some err, dc), w)
           | Inr records \<Rightarrow> refresh_tenant lib fs codec (cache_key_from_context c) records dc w))"

definition publisher_for ::
  "'p pub_lib \<Rightarrow> 'p factories \<Rightarrow> driver_codec \<Rightarrow> ctx \<Rightarrow> 'p driver_cache \<Rightarrow>
     ('p, 'p publisher res \<times> 'p driver_cache) action" where
  "publisher_for lib fs codec c dc w =
     (let key = cache_key_from_context c in
      case tc_get (dc_pub dc) key of
        Some pub \<Rightarrow> ((Inr pub, dc), w)
      | None \<Rightarrow>
          if dc_store dc = None then ((Inl (Error ''driver store not configured''), dc), w)
          else
            (case refresh lib fs codec c dc w of
               ((Some err, dc'), w') \<Rightarrow> ((Inl err, dc'), w')
             | ((None, dc'), w') \<Rightarrow>
                 (case tc_get (dc_pub dc') key of
                    None \<Rightarrow> ((Inl (Error ''no publisher available''), dc'), w')
                  | Some pub \<Rightarrow> ((Inr pub, dc'), w'))))"

definition close_cache :: "'p pub_lib \<Rightarrow> 'p driver_cache \<Rightarrow> 'p world \<Rightarrow> 'p driver_cache \<times> 'p world" where
  "close_cache lib dc w =
     (let (keys, w') = tc_range (\<lambda>key pub (ks, w). (ks @ [key], snd (close_publisher lib pub w))) (dc_pub dc) ([], w)
      in (dc\<lparr>dc_pub := fold tc_delete keys (dc_pub dc), dc_config := fold tc_delete keys (dc_config dc)\<rparr>, w'))"

section \<open>Routing by tenant\<close>

record 'p tenant_publisher =
  tp_cache :: "'p driver_cache option"
  tp_fallback :: "'p publisher option"

definition tenant_publisher_for ::
  "'p pub_lib \<Rightarrow> 'p factories \<Rightarrow> driver_codec \<Rightarrow> ctx \<Rightarrow> 'p tenant_publisher \<Rightarrow>
     ('p, 'p publisher res \<times> 'p tenant_publisher) action" where
  "tenant_publisher_for lib fs codec c tp w =
     (case tp_cache tp of
        None \<Rightarrow>
          (case tp_fallback tp of
             None \<Rightarrow> ((Inl (Error ''no publisher configured''), tp), w)
           | Some fb \<Rightarrow> ((Inr fb, tp), w))
      | Some dc \<Rightarrow>
          (case publisher_for lib fs codec c dc w of
             ((Inr pub, dc'), w') \<Rightarrow> ((Inr pub, tp\<lparr>tp_cache := Some dc'\<rparr>), w')
           | ((Inl err, dc'), w') \<Rightarrow>
               (case tp_fallback tp of
                  Some fb \<Rightarrow>
                    if tenant_from_context c = [] then ((Inr fb, tp\<lparr>tp_cache := Some dc'\<rparr>), w')
                    else ((Inl err, tp\<lparr>tp_cache := Some dc'\<rparr>), w')
                | None \<Rightarrow> ((Inl err, tp\<lparr>tp_cache := Some dc'\<rparr>), w'))))"

definition tenant_publish ::
  "'p pub_lib \<Rightarrow> 'p factories \<Rightarrow> driver_codec \<Rightarrow> ctx \<Rightarrow> string \<Rightarrow> event \<Rightarrow> 'p tenant_publisher \<Rightarrow>
     ('p, go_error option \<times> 'p tenant_publisher) action" where
  "tenant_publish lib fs codec c topic ev tp w =
     (case tenant_publisher_for lib fs codec c tp w of
        ((Inl err, tp'), w') \<Rightarrow> ((Some err, tp'), w')
      | ((Inr pub, tp'), w') \<Rightarrow> (case publish lib pub topic ev w' of (e, w'') \<Rightarrow> ((e, tp'), w'')))"

definition tenant_publish_for_drivers ::
  "'p pub_lib \<Rightarrow> 'p factories \<Rightarrow> driver_codec \<Rightarrow> ctx \<Rightarrow> string \<Rightarrow> event \<Rightarrow> string list \<Rightarrow> 'p tenant_publisher \<Rightarrow>
     ('p, go_error option \<times> 'p tenant_publisher) action" where
  "tenant_publish_for_drivers lib fs codec c topic ev ds tp w =
     (case tenant_publisher_for lib fs codec c tp w of
        ((Inl err, tp'), w') \<Rightarrow> ((Some err, tp'), w')
      | ((Inr pub, tp'), w') \<Rightarrow> (case publish_for_drivers lib pub topic ev ds w' of (e, w'') \<Rightarrow> ((e, tp'), w'')))"

definition close_tenant_publisher ::
  "'p pub_lib \<Rightarrow> 'p tenant_publisher \<Rightarrow> ('p, go_error option \<times> 'p tenant_publisher) action" where
  "close_tenant_publisher lib tp w =
     (let (tp', w') = (case tp_cache tp of
                         None \<Rightarrow> (tp, w)
                       | Some dc \<Rightarrow> (case close_cache lib dc w of (dc', w') \<Rightarrow> (tp\<lparr>tp_cache := Some dc'\<rparr>, w')))
      in case tp_fallback tp of
           None \<Rightarrow> ((None, tp'), w')
         | Some fb \<Rightarrow> (case close_publisher lib fb w' of (e, w'') \<Rightarrow> ((e, tp'), w'')))"

section \<open>Publishers of single drivers\<close>

text \<open>\<^verbatim>\<open>DynamicPublisherCache\<close>: its map; \<open>sha\<close> is SHA-256 in hexadecimal.\<close>

type_synonym 'p dynamic_cache = "'p publisher gmap"

definition dynamic_key :: "(string \<Rightarrow> string) \<Rightarrow> string \<Rightarrow> string \<Rightarrow> string" where
  "dynamic_key sha driver_name config_json =
     sha (to_lower (trim_space driver_name) @ ''|'' @ trim_space config_json)"

definition dynamic_publisher ::
  "'p pub_lib \<Rightarrow> 'p factories \<Rightarrow> driver_codec \<Rightarrow> (string \<Rightarrow> string) \<Rightarrow> string \<Rightarrow> string \<Rightarrow> 'p dynamic_cache \<Rightarrow>
     ('p, 'p publisher res \<times> 'p dynamic_cache) action" where
  "dynamic_publisher lib fs codec sha driver_name config_json pubs w =
     (if driver_name = [] then ((Inl (Error ''driver name is required''), pubs), w)
      else
        let key = dynamic_key sha driver_name config_json in
        case mget pubs key of
          Some pub \<Rightarrow> ((Inr pub, pubs), w)
        | None \<Rightarrow>
            (case config_from_driver codec driver_name config_json of
               Inl err \<Rightarrow> ((Inl err, pubs), w)
             | Inr cfg \<Rightarrow>
                 (case new_publisher (lib\<lparr>pl_ctx_err := \<lambda>_. None\<rparr>) fs cfg w of
                    (Inl err, w') \<Rightarrow> ((Inl err, pubs), w')
                  | (Inr pub, w') \<Rightarrow> ((Inr pub, mput key pub pubs), w'))))"

definition close_dynamic :: "'p pub_lib \<Rightarrow> 'p dynamic_cache \<Rightarrow> ('p, go_error option \<times> 'p dynamic_cache) action" where
  "close_dynamic lib pubs w =
     (case close_loop (map (\<lambda>(k, p). close_publisher lib p) pubs) None w of (err, w') \<Rightarrow> ((err, []), w'))"

section \<open>Guarantees\<close>

text \<open>The SDK publishers inside a publisher, in the order \<^verbatim>\<open>Close\<close> reaches them.\<close>

fun handles :: "'p publisher \<Rightarrow> 'p list" where
  "handles (Relaybus p) = [p]"
| "handles (Retrying None attempts delay) = []"
| "handles (Retrying (Some base) attempts delay) = handles base"
| "handles (Mux pubs defaults dlq) = concat (map (\<lambda>(k, p). handles p) pubs)"

lemma close_loop_closed:
  "(\<And>k p w. (k, p) \<in> set pubs \<Longrightarrow> w_closed (snd (close_publisher lib p w)) = w_closed w @ handles p) \<Longrightarrow>
     w_closed (snd (close_loop (map (\<lambda>(k, p) w'. close_publisher lib p w') pubs) err w)) =
       w_closed w @ concat (map (\<lambda>(k, p). handles p) pubs)"
proof (induction pubs arbitrary: err w)
  case (Cons kp pubs)
  obtain k p where kp: "kp = (k, p)" by fastforce
  obtain e w' where c: "close_publisher lib p w = (e, w')" by fastforce
  have "w_closed w' = w_closed w @ handles p" using Cons.prems [of k p w] c kp by simp
  moreover have "w_closed (snd (close_loop (map (\<lambda>(k, p) w'. close_publisher lib p w') pubs) (join_err err e) w')) =
      w_closed w' @ concat (map (\<lambda>(k, p). handles p) pubs)"
    by (rule Cons.IH) (use Cons.prems in auto)
  ultimately show ?case by (simp add: kp c)
qed simp

lemma close_publisher_closed: "w_closed (snd (close_publisher lib p w)) = w_closed w @ handles p"
proof (induction lib p w rule: close_publisher.induct)
  case (4 lib pubs defaults dlq w)
  then show ?case
    unfolding close_publisher.simps handles.simps by (intro close_loop_closed) auto
qed auto

lemma new_single_publisher_closed: "w_closed (snd (new_single_publisher lib fs cfg d rc w)) = w_closed w"
  by (auto simp: new_single_publisher_def ask_backend_def Let_def split: option.split)

lemma build_loop_closed:
  "(\<And>w. w_closed (snd (b w)) = w_closed w) \<Longrightarrow> w_closed (snd (build_loop ctx b n e w)) = w_closed w"
proof (induction n arbitrary: e w)
  case (Suc n)
  obtain r w' where b: "b w = (r, w')" by fastforce
  have "w_closed w' = w_closed w" using Suc.prems [of w] b by simp
  with b Suc show ?case by (auto split: sum.split option.split)
qed simp

lemma build_drivers_closed: "w_closed (snd (build_drivers lib fs cfg ds pubs built w)) = w_closed w"
proof (induction ds arbitrary: pubs built w)
  case (Cons d ds)
  let ?b = "new_single_publisher lib fs cfg d (driver_retry_config cfg d)"
  obtain r w' where b: "retry_publisher_build lib ?b w = (r, w')" by fastforce
  have "w_closed (snd (retry_publisher_build lib ?b w)) = w_closed w"
    unfolding retry_publisher_build_def by (rule build_loop_closed) (rule new_single_publisher_closed)
  with b Cons show ?case by (auto split: sum.split)
qed simp

lemma new_publisher_closed: "w_closed (snd (new_publisher lib fs cfg w)) = w_closed w"
  using build_drivers_closed [of lib fs cfg "config_drivers cfg" "[]" "[]" w]
  by (auto simp: new_publisher_def split: prod.split)

lemma close_existing_closed:
  "w_closed (close_existing lib pubs key w) =
     w_closed w @ (case tc_get pubs key of None \<Rightarrow> [] | Some p \<Rightarrow> handles p)"
  by (auto simp: close_existing_def close_publisher_closed split: option.split)

lemma tc_get_update:
  "tc_get (tc_set k v c) = (tc_get c)(k \<mapsto> v)" "tc_get (tc_delete k c) = (tc_get c)(k := None)"
  by (auto simp: fun_eq_iff)


lemma close_cache_keys:
  "fst (fold (\<lambda>(key, pub) (ks, w). (ks @ [key], snd (close_publisher lib pub w))) items (ks, w)) = ks @ map fst items"
  by (induction items arbitrary: ks w) auto

lemma close_cache_closed:
  "w_closed (snd (fold (\<lambda>(key, pub) (ks, w). (ks @ [key], snd (close_publisher lib pub w))) items (ks, w))) =
     w_closed w @ concat (map (\<lambda>(k, p). handles p) items)"
  by (induction items arbitrary: ks w) (auto simp: close_publisher_closed)

text \<open>Closing the cache closes what every entry holds and empties it.\<close>

lemma close_cache_effect:
  "tc_get (dc_pub (fst (close_cache lib dc w))) k = None"
  "w_closed (snd (close_cache lib dc w)) = w_closed w @ concat (map handles (mvals (tc_items (dc_pub dc))))"
proof -
  let ?items = "tc_items (dc_pub dc)"
  have r: "tc_range (\<lambda>key pub (ks, w). (ks @ [key], snd (close_publisher lib pub w))) (dc_pub dc) ([], w) =
      (tc_keys (dc_pub dc), snd (fold (\<lambda>(key, pub) (ks, w). (ks @ [key], snd (close_publisher lib pub w))) ?items ([], w)))"
    unfolding tc_range_def using close_cache_keys [of lib ?items "[]" w]
    by (simp add: tc_keys_def mkeys_def prod_eq_iff)
  show "tc_get (dc_pub (fst (close_cache lib dc w))) k = None"
    unfolding close_cache_def r by (simp add: tc.fold_del_keys)
  have "concat (map (\<lambda>(k, p). handles p) ?items) = concat (map handles (mvals ?items))"
    by (simp add: mvals_def o_def case_prod_unfold)
  then show "w_closed (snd (close_cache lib dc w)) = w_closed w @ concat (map handles (mvals ?items))"
    unfolding close_cache_def r using close_cache_closed [of lib ?items "[]" w] by simp
qed

text \<open>
  C37: publishing routes by tenant: while a cache is configured, a caller with a tenant is
  given the publisher that the cache holds for this tenant's key afterwards, or an error, and never the
  fallback; a tenant whose publisher is cached gets it without any call to the outside.
\<close>

theorem tenant_routing:
  assumes "tp_cache tp = Some dc" and "tenant_from_context c \<noteq> []"
  shows "case tenant_publisher_for lib fs codec c tp w of
       ((Inr pub, tp'), w') \<Rightarrow>
         (\<exists>dc'. tp_cache tp' = Some dc' \<and> tc_get (dc_pub dc') (tenant_from_context c) = Some pub) \<and>
         (if tc_get (dc_pub dc) (tenant_from_context c) \<noteq> None then tp' = tp \<and> w' = w else True)
     | ((Inl err, tp'), w') \<Rightarrow> tc_get (dc_pub dc) (tenant_from_context c) = None"
proof -
  have key: "cache_key_from_context c = tenant_from_context c"
    using assms(2) by (simp add: cache_key_from_context_def)
  show ?thesis
  proof (cases "tc_get (dc_pub dc) (tenant_from_context c)")
    case (Some pub)
    then show ?thesis
      using assms(1) by (simp add: tenant_publisher_for_def publisher_for_def key)
  next
    case None
    obtain r dc' w' where p: "publisher_for lib fs codec c dc w = ((r, dc'), w')" by (metis surj_pair)
    have "tc_get (dc_pub dc') (tenant_from_context c) = Some pub" if "r = Inr pub" for pub
      using p that None unfolding publisher_for_def key
      by (auto simp: Let_def split: option.splits if_splits prod.splits)
    with p None assms show ?thesis
      by (cases r) (auto simp: tenant_publisher_for_def split: option.splits)
  qed
qed

definition sample_tenant_publisher :: "string tenant_publisher" where
  "sample_tenant_publisher =
     \<lparr>tp_cache = Some \<lparr>dc_store = None, dc_base = zero_relaybus, dc_config = new_tenant_cache,
        dc_pub = tc_set ''acme'' (Relaybus ''up'') new_tenant_cache\<rparr>,
      tp_fallback = Some (Relaybus ''down'')\<rparr>"

definition trivial_codec :: driver_codec where
  "trivial_codec = \<lparr>dj_amqp_enc = \<lambda>v. Inr ''{}'', dj_amqp_dec = \<lambda>s v. Inr v, dj_nats_enc = \<lambda>v. Inr ''{}'',
     dj_nats_dec = \<lambda>s v. Inr v, dj_kafka_enc = \<lambda>v. Inr ''{}'', dj_kafka_dec = \<lambda>s v. Inr v,
     dj_http_enc = \<lambda>v. Inr ''{}'', dj_http_dec = \<lambda>s v. Inr v\<rparr>"

theorem tenant_routing_witness:
  "case tenant_publisher_for sample_pub_lib [] trivial_codec (with_tenant background ''acme'') sample_tenant_publisher
     empty_world of ((Inr pub, tp'), w') \<Rightarrow> tp' = sample_tenant_publisher \<and> w' = empty_world | _ \<Rightarrow> False"
proof -
  let ?c = "with_tenant background ''acme''"
  let ?dc = "\<lparr>dc_store = None, dc_base = zero_relaybus, dc_config = new_tenant_cache,
        dc_pub = tc_set ''acme'' (Relaybus ''up'') new_tenant_cache\<rparr>"
  have t: "tenant_from_context ?c = ''acme''" by code_simp
  have "tp_cache sample_tenant_publisher = Some ?dc" by (simp add: sample_tenant_publisher_def)
  from tenant_routing [where c = ?c and lib = sample_pub_lib and fs = "[]" and codec = trivial_codec and w = empty_world,
      OF this] show ?thesis
    unfolding t by (auto split: prod.splits sum.splits)
qed

text \<open>
  A tenant named \<^verbatim>\<open>global\<close> shares its key with callers that have no tenant.
\<close>

lemma global_tenant_key:
  "tenant_from_context c = ''global'' \<Longrightarrow> cache_key_from_context c = cache_key_from_context background"
  by (simp add: cache_key_from_context_def global_driver_key_def)

definition known_drivers :: "string list" where
  "known_drivers = [''amqp'', ''nats'', ''kafka'', ''http'']"

definition driver_name_of :: "string \<Rightarrow> string" where
  "driver_name_of d = to_lower (trim_space d)"

definition copy_section :: "string \<Rightarrow> relaybus_config \<Rightarrow> relaybus_config \<Rightarrow> relaybus_config" where
  "copy_section d src c =
     (if d = ''amqp'' then c\<lparr>rb_amqp := rb_amqp src\<rparr>
      else if d = ''nats'' then c\<lparr>rb_nats := rb_nats src\<rparr>
      else if d = ''kafka'' then c\<lparr>rb_kafka := rb_kafka src\<rparr>
      else c\<lparr>rb_http := rb_http src\<rparr>)"

definition exact :: "('a \<Rightarrow> string res) \<Rightarrow> (string \<Rightarrow> 'a \<Rightarrow> 'a res) \<Rightarrow> 'a \<Rightarrow> bool" where
  "exact enc dec v \<longleftrightarrow> (\<exists>j. enc v = Inr j \<and> trim_space j = j \<and> j \<noteq> [] \<and> (\<forall>u. dec j u = Inr v))"

definition exact_codec :: "driver_codec \<Rightarrow> relaybus_config \<Rightarrow> bool" where
  "exact_codec codec cfg \<longleftrightarrow> exact (dj_amqp_enc codec) (dj_amqp_dec codec) (rb_amqp cfg) \<and>
     exact (dj_nats_enc codec) (dj_nats_dec codec) (rb_nats cfg) \<and>
     exact (dj_kafka_enc codec) (dj_kafka_dec codec) (rb_kafka cfg) \<and>
     exact (dj_http_enc codec) (dj_http_dec codec) (rb_http cfg)"

lemma exactD: "exact enc dec v \<Longrightarrow> \<exists>j. enc v = Inr j \<and> (\<forall>u. unmarshal_json dec j u = Inr v)"
proof -
  assume "exact enc dec v"
  then obtain j where "enc v = Inr j" "trim_space j = j" "j \<noteq> []" "\<forall>u. dec j u = Inr v"
    unfolding exact_def by blast
  then show ?thesis by (intro exI [of _ j]) (simp add: unmarshal_json_def)
qed

lemma known_driver_facts:
  "d \<in> set known_drivers \<Longrightarrow> to_lower d = d \<and> trim_space d = d \<and> d \<noteq> []"
proof -
  have "list_all (\<lambda>d. to_lower d = d \<and> trim_space d = d \<and> d \<noteq> []) known_drivers" by code_simp
  then show "d \<in> set known_drivers \<Longrightarrow> ?thesis" by (simp add: list_all_iff)
qed

lemma driver_section_roundtrip:
  assumes "exact_codec codec cfg" and "driver_name_of d \<in> set known_drivers"
  shows "\<exists>js. marshal_driver_config codec (trim_space d) cfg = Inr js \<and>
     (\<forall>c. apply_driver_config codec (driver_name_of d) js c = Inr (copy_section (driver_name_of d) cfg c))"
proof -
  have l: "to_lower ''amqp'' = ''amqp''" "to_lower ''nats'' = ''nats''" "to_lower ''kafka'' = ''kafka''"
    "to_lower ''http'' = ''http''"
    by code_simp+
  have e: "exact (dj_amqp_enc codec) (dj_amqp_dec codec) (rb_amqp cfg)"
    "exact (dj_nats_enc codec) (dj_nats_dec codec) (rb_nats cfg)"
    "exact (dj_kafka_enc codec) (dj_kafka_dec codec) (rb_kafka cfg)"
    "exact (dj_http_enc codec) (dj_http_dec codec) (rb_http cfg)"
    using assms(1) by (auto simp: exact_codec_def)
  consider "driver_name_of d = ''amqp''" | "driver_name_of d = ''nats''" | "driver_name_of d = ''kafka''"
    | "driver_name_of d = ''http''"
    using assms(2) by (auto simp: known_drivers_def)
  then show ?thesis
  proof cases
    case 1
    with exactD [OF e(1)] l show ?thesis
      by (auto simp: marshal_driver_config_def apply_driver_config_def copy_section_def driver_name_of_def Let_def)
  next
    case 2
    with exactD [OF e(2)] l show ?thesis
      by (auto simp: marshal_driver_config_def apply_driver_config_def copy_section_def driver_name_of_def Let_def)
  next
    case 3
    with exactD [OF e(3)] l show ?thesis
      by (auto simp: marshal_driver_config_def apply_driver_config_def copy_section_def driver_name_of_def Let_def)
  next
    case 4
    with exactD [OF e(4)] l show ?thesis
      by (auto simp: marshal_driver_config_def apply_driver_config_def copy_section_def driver_name_of_def Let_def)
  qed
qed

definition sections_from :: "string list \<Rightarrow> relaybus_config \<Rightarrow> relaybus_config \<Rightarrow> relaybus_config \<Rightarrow> bool" where
  "sections_from ds src c out \<longleftrightarrow>
     rb_amqp out = rb_amqp (if ''amqp'' \<in> set ds then src else c) \<and>
     rb_nats out = rb_nats (if ''nats'' \<in> set ds then src else c) \<and>
     rb_kafka out = rb_kafka (if ''kafka'' \<in> set ds then src else c) \<and>
     rb_http out = rb_http (if ''http'' \<in> set ds then src else c)"

lemma sections_from_step:
  "d \<in> set known_drivers \<Longrightarrow> sections_from ds src ((copy_section d src c)\<lparr>rb_drivers := xs\<rparr>) out \<Longrightarrow>
     sections_from (d # ds) src c out"
  by (auto simp: sections_from_def copy_section_def known_drivers_def split: if_splits)

lemma records_roundtrip_loop:
  assumes "exact_codec codec cfg"
  shows "\<forall>d \<in> set names. driver_name_of d \<in> set known_drivers \<Longrightarrow>
    \<exists>rs. records_loop codec cfg names = Inr rs \<and>
      (\<forall>c. \<exists>out. config_loop codec rs c = Inr out \<and> rb_drivers out = rb_drivers c @ map driver_name_of names \<and>
         sections_from (map driver_name_of names) cfg c out)"
proof (induction names)
  case Nil
  show ?case by (simp add: sections_from_def)
next
  case (Cons d names)
  then obtain rs where rs: "records_loop codec cfg names = Inr rs"
    "\<And>c. \<exists>out. config_loop codec rs c = Inr out \<and> rb_drivers out = rb_drivers c @ map driver_name_of names \<and>
       sections_from (map driver_name_of names) cfg c out"
    by auto
  have d: "driver_name_of d \<in> set known_drivers" using Cons.prems by simp
  obtain js where js: "marshal_driver_config codec (trim_space d) cfg = Inr js"
    "\<And>c. apply_driver_config codec (driver_name_of d) js c = Inr (copy_section (driver_name_of d) cfg c)"
    using driver_section_roundtrip [OF assms d] by blast
  note facts = known_driver_facts [OF d]
  have "trim_space d \<noteq> []" using facts by (auto simp: driver_name_of_def to_lower_def)
  then have "records_loop codec cfg (d # names) = Inr (config_driver_record (trim_space d) js # rs)"
    using js(1) rs(1) by (simp add: Let_def)
  moreover have "\<exists>out. config_loop codec (config_driver_record (trim_space d) js # rs) c = Inr out \<and>
      rb_drivers out = rb_drivers c @ map driver_name_of (d # names) \<and>
      sections_from (map driver_name_of (d # names)) cfg c out" for c
  proof -
    let ?c = "(copy_section (driver_name_of d) cfg c)\<lparr>rb_drivers := rb_drivers c @ [driver_name_of d]\<rparr>"
    have n: "dr_name (config_driver_record (trim_space d) js) = driver_name_of d"
      "dr_config_json (config_driver_record (trim_space d) js) = js" "dr_enabled (config_driver_record (trim_space d) js)"
      by (simp_all add: config_driver_record_def driver_name_of_def)
    have "rb_drivers (copy_section (driver_name_of d) cfg c) = rb_drivers c" by (simp add: copy_section_def)
    then have step: "config_loop codec (config_driver_record (trim_space d) js # rs) c = config_loop codec rs ?c"
      using n facts js(2) by (simp add: Let_def)
    obtain out where out: "config_loop codec rs ?c = Inr out"
      "rb_drivers out = rb_drivers ?c @ map driver_name_of names" "sections_from (map driver_name_of names) cfg ?c out"
      using rs(2) by blast
    have "sections_from (map driver_name_of (d # names)) cfg c out"
      using sections_from_step [OF d out(3)] by simp
    with out(1,2) step show ?thesis by simp
  qed
  ultimately show ?case by blast
qed

text \<open>
  Storing the drivers of a configuration and reading them back gives the drivers
  themselves: their normalised names in the same order, and each driver's section, while a section no
  driver names is that of the base configuration. The hypothesis on the codec is what \<^verbatim>\<open>encoding/json\<close>
  does with a section whose fields are all encoded: the document is not blank, and decoding it overwrites
  every field of the value it is decoded into.
\<close>

theorem driver_records_roundtrip:
  assumes "exact_codec codec cfg"
    and "\<forall>d \<in> set (config_drivers cfg). to_lower (trim_space d) \<in> {''amqp'', ''nats'', ''kafka'', ''http''}"
  shows "\<exists>rs out. records_from_config codec cfg = Inr rs \<and> config_from_records codec base rs = Inr out \<and>
     (let ds = map (\<lambda>d. to_lower (trim_space d)) (config_drivers cfg);
          from_cfg = (\<lambda>d. if d \<in> set ds then cfg else base)
      in rb_drivers out = ds \<and>
         rb_amqp out = rb_amqp (from_cfg ''amqp'') \<and> rb_nats out = rb_nats (from_cfg ''nats'') \<and>
         rb_kafka out = rb_kafka (from_cfg ''kafka'') \<and> rb_http out = rb_http (from_cfg ''http''))"
proof -
  have "\<forall>d \<in> set (config_drivers cfg). driver_name_of d \<in> set known_drivers"
    using assms(2) by (simp add: driver_name_of_def known_drivers_def)
  from records_roundtrip_loop [OF assms(1) this] obtain rs out where
    "records_from_config codec cfg = Inr rs"
    "config_loop codec rs (base\<lparr>rb_drivers := [], rb_driver := []\<rparr>) = Inr out"
    "rb_drivers out = map driver_name_of (config_drivers cfg)"
    "sections_from (map driver_name_of (config_drivers cfg)) cfg (base\<lparr>rb_drivers := [], rb_driver := []\<rparr>) out"
    unfolding records_from_config_def by fastforce
  then show ?thesis
    by (intro exI [of _ rs] exI [of _ out])
      (auto simp: config_from_records_def driver_name_of_def [abs_def] sections_from_def Let_def)
qed

definition sample_relaybus :: relaybus_config where
  "sample_relaybus = zero_relaybus\<lparr>rb_drivers := ['' HTTP''],
     rb_http := \<lparr>hc_endpoint = ''http://h'', hc_retry_count = 2, hc_webhook_token = ''t''\<rparr>\<rparr>"

definition sample_codec :: driver_codec where
  "sample_codec = \<lparr>dj_amqp_enc = \<lambda>v. Inr ''{}'', dj_amqp_dec = \<lambda>s v. Inr (rb_amqp sample_relaybus),
     dj_nats_enc = \<lambda>v. Inr ''{}'', dj_nats_dec = \<lambda>s v. Inr (rb_nats sample_relaybus),
     dj_kafka_enc = \<lambda>v. Inr ''{}'', dj_kafka_dec = \<lambda>s v. Inr (rb_kafka sample_relaybus),
     dj_http_enc = \<lambda>v. Inr ''{}'', dj_http_dec = \<lambda>s v. Inr (rb_http sample_relaybus)\<rparr>"

theorem driver_records_roundtrip_witness:
  "\<exists>rs out. records_from_config sample_codec sample_relaybus = Inr rs \<and>
     config_from_records sample_codec zero_relaybus rs = Inr out \<and> rb_drivers out = [''http''] \<and>
     hc_endpoint (rb_http out) = ''http://h''"
proof -
  have t: "trim_space ''{}'' = ''{}''" "to_lower (trim_space '' HTTP'') = ''http''" by code_simp+
  have ds: "config_drivers sample_relaybus = ['' HTTP'']"
    by (simp add: config_drivers_def sample_relaybus_def)
  have "exact_codec sample_codec sample_relaybus"
    using t(1) by (simp add: exact_codec_def exact_def sample_codec_def)
  moreover have "hc_endpoint (rb_http sample_relaybus) = ''http://h''"
    by (simp add: sample_relaybus_def)
  ultimately show ?thesis
    using driver_records_roundtrip [of sample_codec sample_relaybus zero_relaybus]
    by (auto simp: ds t(2) Let_def)
qed

end
