(* ===== verification/Webhook_Pipeline.thy ===== *)
theory Webhook_Pipeline
  imports Rule_Engine Event_Payload Driver_Cache
begin

text \<open>
  What \<^verbatim>\<open>pkg/webhook\<close> does with an event: load and match the tenant's rules (\<^verbatim>\<open>rules_store.go\<close>),
  record the matches (\<^verbatim>\<open>event_logging.go\<close>), transform and publish them (\<^verbatim>\<open>transform.go\<close>, \<^verbatim>\<open>publish.go\<close>),
  and \<^verbatim>\<open>emit\<close>, which the five provider handlers share word for word.

  The JavaScript engine (\<^verbatim>\<open>goja\<close>), identifiers and hashing are parameters. The event log store is the one
  of \<^verbatim>\<open>Event_Logs\<close>; the clock is that of the world. Log lines are not modelled.
\<close>

section \<open>Rules of a tenant\<close>

type_synonym rules_of = "(ctx \<Rightarrow> rule_record list res) option"

definition driver_name_for_id :: "ctx \<Rightarrow> driver_by_id \<Rightarrow> string \<Rightarrow> string res" where
  "driver_name_for_id c store driver_id =
     (if trim_space driver_id = [] then Inl (Error ''driver_id is required'')
      else case store of
             None \<Rightarrow> Inl (Error ''driver store not configured'')
           | Some get_by_id \<Rightarrow>
               bind_res (get_by_id c driver_id) (\<lambda>found.
                 case found of
                   None \<Rightarrow> Inl (Error (''driver not found: '' @ driver_id))
                 | Some r \<Rightarrow>
                     (let name = trim_space (dr_name r) in
                      if name = [] then Inl (Error (''driver '' @ driver_id @ '' has empty name''))
                      else Inr name)))"

definition rule_of_record :: "rule_record \<Rightarrow> string \<Rightarrow> string \<Rightarrow> rule" where
  "rule_of_record r driver_id driver_name =
     \<lparr>r_id = rr_id r, r_when = rr_when r, r_emit = rr_emit r, r_driver_id = driver_id,
      r_transform_js = trim_space (rr_transform_js r), r_driver_name = driver_name,
      r_driver_config_json = trim_space (rr_driver_config_json r), r_driver_enabled = rr_driver_enabled r\<rparr>"

definition load_rule :: "ctx \<Rightarrow> driver_by_id \<Rightarrow> rule_record \<Rightarrow> rule option" where
  "load_rule c drivers r =
     (if trim_space (rr_when r) = [] then None
      else if rr_emit r = [] then None
      else
        let driver_id = trim_space (rr_driver_id r) in
        if driver_id = [] then None
        else
          let driver_name = trim_space (rr_driver_name r) in
          if driver_name \<noteq> [] then Some (rule_of_record r driver_id driver_name)
          else case driver_name_for_id c drivers driver_id of
                 Inl err \<Rightarrow> None
               | Inr name \<Rightarrow> Some (rule_of_record r driver_id name))"

definition load_rules_for_tenant :: "ctx \<Rightarrow> rules_of \<Rightarrow> driver_by_id \<Rightarrow> rule list res" where
  "load_rules_for_tenant c store drivers =
     (case store of
        None \<Rightarrow> Inr []
      | Some list_of \<Rightarrow> bind_res (list_of c) (\<lambda>records. Inr (List.map_filter (load_rule c drivers) records)))"

definition match_rules_from_store ::
  "'e rule_lib \<Rightarrow> ctx \<Rightarrow> event \<Rightarrow> string \<Rightarrow> rules_of \<Rightarrow> driver_by_id \<Rightarrow> bool \<Rightarrow> matched_rule list outcome" where
  "match_rules_from_store lib c ev tenant_id store drivers strict =
     (if store = None then Return []
      else case load_rules_for_tenant (with_tenant c tenant_id) store drivers of
             Inl err \<Rightarrow> Return []
           | Inr rules \<Rightarrow>
               if rules = [] then Return []
               else case new_rule_engine lib \<lparr>rc_rules = rules, rc_strict = strict, rc_tenant_id = []\<rparr> of
                      Inl err \<Rightarrow> Return []
                    | Inr engine \<Rightarrow> evaluate_rules_for_tenant lib ev [] engine)"

section \<open>Event logs\<close>

definition hash_body :: "(string \<Rightarrow> string) \<Rightarrow> string \<Rightarrow> string" where
  "hash_body sha body = (if body = [] then [] else sha body)"

text \<open>The fields every log record of an event has.\<close>

definition base_log :: "(string \<Rightarrow> string) \<Rightarrow> event \<Rightarrow> string \<Rightarrow> event_log" where
  "base_log sha ev new_id =
     zero_event_log\<lparr>el_id := new_id, el_provider := ev_provider ev, el_name := ev_name ev,
       el_request_id := ev_request_id ev, el_state_id := ev_state_id ev,
       el_installation_id := ev_installation_id ev, el_namespace_id := ev_namespace_id ev,
       el_namespace_name := ev_namespace_name ev,
       el_headers := (case clone_headers (ev_headers ev) of None \<Rightarrow> [] | Some hs \<Rightarrow> hs),
       el_body := ev_raw_payload ev, el_body_hash := hash_body sha (ev_raw_payload ev)\<rparr>"

definition matched_log :: "(string \<Rightarrow> string) \<Rightarrow> event \<Rightarrow> matched_rule \<Rightarrow> string \<Rightarrow> string \<Rightarrow> event_log" where
  "matched_log sha ev r topic new_id =
     (let name = trim_space (mr_driver_name r);
          name = (if name = [] then trim_space (mr_driver_id r) else name)
      in (base_log sha ev new_id)\<lparr>el_topic := topic, el_rule_id := mr_id r, el_rule_when := mr_when r,
           el_drivers := (if name \<noteq> [] then [name] else []), el_status := ''queued'', el_matched := True\<rparr>)"

fun matched_logs_from :: "(string \<Rightarrow> string) \<Rightarrow> event \<Rightarrow> (nat \<Rightarrow> string) \<Rightarrow> nat \<Rightarrow> (matched_rule \<times> string) list \<Rightarrow> event_log list" where
  "matched_logs_from sha ev uuid i [] = []"
| "matched_logs_from sha ev uuid i ((r, topic) # rts) =
     matched_log sha ev r topic (uuid i) # matched_logs_from sha ev uuid (Suc i) rts"

definition build_event_log_records ::
  "(string \<Rightarrow> string) \<Rightarrow> (nat \<Rightarrow> string) \<Rightarrow> event \<Rightarrow> matched_rule list \<Rightarrow> event_log list \<times> event_log list" where
  "build_event_log_records sha uuid ev rules =
     (if rules = [] then ([(base_log sha ev (uuid 0))\<lparr>el_status := ''ignored''\<rparr>], [])
      else
        let logs = matched_logs_from sha ev uuid 0 (concat (map (\<lambda>r. map (Pair r) (mr_emit r)) rules))
        in (logs, logs))"

definition log_event_matches ::
  "(string \<Rightarrow> string) \<Rightarrow> (nat \<Rightarrow> string) \<Rightarrow> ctx \<Rightarrow> gtime \<Rightarrow> event \<Rightarrow> matched_rule list \<Rightarrow> log_mem \<Rightarrow> event_log list \<times> log_mem" where
  "log_event_matches sha uuid c now ev rules m =
     (case build_event_log_records sha uuid ev rules of
        (records, matched) \<Rightarrow>
          if records = [] then ([], m)
          else (matched, snd (create_event_logs sha c now uuid records m)))"

definition log_event_failure ::
  "(string \<Rightarrow> string) \<Rightarrow> (nat \<Rightarrow> string) \<Rightarrow> ctx \<Rightarrow> gtime \<Rightarrow> event \<Rightarrow> string \<Rightarrow> log_mem \<Rightarrow> log_mem" where
  "log_event_failure sha uuid c now ev reason m =
     snd (create_event_logs sha c now uuid
       [(base_log sha ev (uuid 0))\<lparr>el_status := ''failed'', el_error := reason, el_matched := False\<rparr>] m)"

definition topics_from_matches :: "rule_match list \<Rightarrow> string list" where
  "topics_from_matches ms = filter (\<lambda>t. t \<noteq> []) (map rm_topic ms)"

definition topics_from_log_records :: "event_log list \<Rightarrow> string list" where
  "topics_from_log_records rs = filter (\<lambda>t. t \<noteq> []) (map el_topic rs)"

definition driver_list_from_match :: "rule_match \<Rightarrow> string list" where
  "driver_list_from_match m =
     (let name = trim_space (rm_driver_name m);
          name = (if name = [] then trim_space (rm_driver_id m) else name)
      in if name = [] then [] else [name])"

section \<open>Transformation\<close>

text \<open>
  \<open>js_call src input ctx\<close> compiles \<open>src\<close> as a function, runs it within its time limit and exports the
  result; its error is the one \<^verbatim>\<open>applyRuleTransform\<close> wraps.
\<close>

record js_lib =
  js_call :: "string \<Rightarrow> gval \<Rightarrow> gval gmap \<Rightarrow> gval res"
  js_decode :: "string \<Rightarrow> gval res"
  js_marshal :: "gval \<Rightarrow> string res"

definition event_payload_json :: "js_lib \<Rightarrow> event \<Rightarrow> string res" where
  "event_payload_json js ev =
     (if ev_raw_payload ev \<noteq> [] then Inr (ev_raw_payload ev)
      else if ev_raw_object ev \<noteq> VNil then js_marshal js (ev_raw_object ev)
      else case ev_data ev of
             Some data \<Rightarrow> js_marshal js (VMap data)
           | None \<Rightarrow> Inr ''{}'')"

definition transform_event_context :: "event \<Rightarrow> gval \<Rightarrow> gval gmap" where
  "transform_event_context ev payload =
     [(''provider'', VStr (ev_provider ev)), (''name'', VStr (ev_name ev)), (''request_id'', VStr (ev_request_id ev)),
      (''state_id'', VStr (ev_state_id ev)), (''tenant_id'', VStr (ev_tenant_id ev)),
      (''installation_id'', VStr (ev_installation_id ev)), (''provider_instance_key'', VStr (ev_instance_key ev)),
      (''namespace_id'', VStr (ev_namespace_id ev)), (''namespace_name'', VStr (ev_namespace_name ev)),
      (''headers'', case ev_headers ev of None \<Rightarrow> VNil | Some hs \<Rightarrow> VMap (map (\<lambda>(k, vs). (k, VStrs vs)) hs)),
      (''data'', case ev_data ev of None \<Rightarrow> VNil | Some d \<Rightarrow> VMap d), (''payload'', payload)]"

definition transform_output_payload :: "gval \<Rightarrow> gval" where
  "transform_output_payload result =
     (case result of
        VMap m \<Rightarrow> (case mget m ''payload'' of Some payload \<Rightarrow> payload | None \<Rightarrow> result)
      | _ \<Rightarrow> result)"

definition apply_rule_transform :: "js_lib \<Rightarrow> event \<Rightarrow> string \<Rightarrow> event res" where
  "apply_rule_transform js ev transform_js =
     (let src = trim_space transform_js in
      if src = [] then Inr ev
      else
        bind_res (event_payload_json js ev) (\<lambda>payload.
        bind_res (js_decode js payload) (\<lambda>input.
        bind_res (js_call js src input (transform_event_context ev input)) (\<lambda>result.
        bind_res (js_marshal js (transform_output_payload result)) (\<lambda>out.
          Inr (ev\<lparr>ev_raw_payload := out, ev_raw_object := VNil\<rparr>))))))"

section \<open>Publishing\<close>

text \<open>
  The state of a publish: the world, the publishers of single drivers (\<open>None\<close> for a nil cache), the
  fallback publisher, the event logs (\<open>None\<close> for a handler without a log store).
\<close>

record 'p pipe =
  pp_world :: "'p world"
  pp_dynamic :: "'p dynamic_cache option"
  pp_fallback :: "'p tenant_publisher"
  pp_logs :: "log_mem option"

record 'p pipe_lib =
  pk_pub :: "'p pub_lib"
  pk_factories :: "'p factories"
  pk_codec :: driver_codec
  pk_js :: js_lib
  pk_sha :: "string \<Rightarrow> string"

definition status_updater :: "'p pipe_lib \<Rightarrow> ctx \<Rightarrow> string \<Rightarrow> string \<Rightarrow> string \<Rightarrow> 'p pipe \<Rightarrow> 'p pipe" where
  "status_updater L c rid status msg st =
     (case pp_logs st of
        None \<Rightarrow> st
      | Some m \<Rightarrow>
          if rid = [] then st
          else st\<lparr>pp_logs := Some (snd (update_event_log_status c (pl_now (pk_pub L) (pp_world st)) rid status msg m))\<rparr>)"

definition payload_updater :: "'p pipe_lib \<Rightarrow> ctx \<Rightarrow> string \<Rightarrow> string \<Rightarrow> 'p pipe \<Rightarrow> 'p pipe" where
  "payload_updater L c rid body st =
     (case pp_logs st of
        None \<Rightarrow> st
      | Some m \<Rightarrow>
          if rid = [] then st
          else st\<lparr>pp_logs := Some (snd (update_transformed c (pl_now (pk_pub L) (pp_world st)) rid body m))\<rparr>)"

definition publish_dynamic_match ::
  "'p pipe_lib \<Rightarrow> event \<Rightarrow> rule_match \<Rightarrow> 'p pipe \<Rightarrow> (bool \<times> go_error option) \<times> 'p pipe" where
  "publish_dynamic_match L ev m st =
     (case pp_dynamic st of
        None \<Rightarrow> ((False, None), st)
      | Some cache \<Rightarrow>
          let name = trim_space (rm_driver_name m) in
          if name = [] \<or> trim_space (rm_driver_config_json m) = [] then ((False, None), st)
          else if \<not> rm_driver_enabled m then ((False, None), st)
          else
            (case dynamic_publisher (pk_pub L) (pk_factories L) (pk_codec L) (pk_sha L) name
                    (rm_driver_config_json m) cache (pp_world st) of
               ((Inl err, cache'), w') \<Rightarrow> ((False, Some err), st\<lparr>pp_dynamic := Some cache', pp_world := w'\<rparr>)
             | ((Inr pub, cache'), w') \<Rightarrow>
                 (case publish (pk_pub L) pub (rm_topic m) ev w' of
                    (Some err, w'') \<Rightarrow> ((False, Some err), st\<lparr>pp_dynamic := Some cache', pp_world := w''\<rparr>)
                  | (None, w'') \<Rightarrow> ((True, None), st\<lparr>pp_dynamic := Some cache', pp_world := w''\<rparr>))))"

definition publish_fallback ::
  "'p pipe_lib \<Rightarrow> ctx \<Rightarrow> event \<Rightarrow> rule_match \<Rightarrow> string list \<Rightarrow> 'p pipe \<Rightarrow> go_error option \<times> 'p pipe" where
  "publish_fallback L c ev m ds st =
     (case tenant_publish_for_drivers (pk_pub L) (pk_factories L) (pk_codec L) c (rm_topic m) ev ds
             (pp_fallback st) (pp_world st) of
        ((err, fb'), w') \<Rightarrow> (err, st\<lparr>pp_fallback := fb', pp_world := w'\<rparr>))"

text \<open>Recording a failure, when the match has a log record.\<close>

definition fail_match :: "'p pipe_lib \<Rightarrow> ctx \<Rightarrow> string option \<Rightarrow> go_error \<Rightarrow> 'p pipe \<Rightarrow> 'p pipe" where
  "fail_match L c log_id err st =
     (case log_id of None \<Rightarrow> st | Some i \<Rightarrow> status_updater L c i ''failed'' (error_text err) st)"

text \<open>
  One pass of the loop of \<^verbatim>\<open>publishMatchesWithFallback\<close>; \<open>log_id\<close> is the identifier of \<^verbatim>\<open>logs[idx]\<close>
  when there is one. The error is also returned, for the statements below; the source drops it.
\<close>

definition publish_match ::
  "'p pipe_lib \<Rightarrow> ctx \<Rightarrow> event \<Rightarrow> rule_match \<Rightarrow> string option \<Rightarrow> 'p pipe \<Rightarrow> go_error option \<times> 'p pipe" where
  "publish_match L c ev m log_id st =
     (let to_publish = ev\<lparr>ev_log_id := (case log_id of Some i \<Rightarrow> i | None \<Rightarrow> [])\<rparr> in
      case apply_rule_transform (pk_js L) to_publish (rm_transform_js m) of
        Inl err \<Rightarrow> (Some err, fail_match L c log_id err st)
      | Inr transformed \<Rightarrow>
          let st = (case log_id of
                      Some i \<Rightarrow> payload_updater L c i (ev_raw_payload transformed) st
                    | None \<Rightarrow> st)
          in case publish_dynamic_match L transformed m st of
               ((ok, Some err), st) \<Rightarrow> (Some err, fail_match L c log_id err st)
             | ((True, None), st) \<Rightarrow> (None, st)
             | ((False, None), st) \<Rightarrow>
                 (let ds = driver_list_from_match m in
                  if ds = [] then (None, st)
                  else case publish_fallback L c transformed m ds st of
                         (Some err, st) \<Rightarrow> (Some err, fail_match L c log_id err st)
                       | (None, st) \<Rightarrow> (None, st)))"

fun publish_matches ::
  "'p pipe_lib \<Rightarrow> ctx \<Rightarrow> event \<Rightarrow> rule_match list \<Rightarrow> string list \<Rightarrow> 'p pipe \<Rightarrow> go_error option list \<times> 'p pipe" where
  "publish_matches L c ev [] log_ids st = ([], st)"
| "publish_matches L c ev (m # ms) log_ids st =
     (let (err, st') = publish_match L c ev m (case log_ids of [] \<Rightarrow> None | i # _ \<Rightarrow> Some i) st;
          (errs, st'') = publish_matches L c ev ms (tl log_ids) st'
      in (err # errs, st''))"

section \<open>Emitting an event\<close>

text \<open>The fields of a handler that \<^verbatim>\<open>emit\<close> reads; \<open>None\<close> is nil.\<close>

record 'e handler =
  hd_rule_store :: rules_of
  hd_driver_store :: driver_by_id
  hd_rules_strict :: bool
  hd_engine :: "'e rule_engine option"

definition handler_match_rules :: "'e rule_lib \<Rightarrow> 'e handler \<Rightarrow> ctx \<Rightarrow> event \<Rightarrow> string \<Rightarrow> matched_rule list outcome" where
  "handler_match_rules lib h c ev tenant_id =
     (if hd_rule_store h \<noteq> None then
        match_rules_from_store lib c ev tenant_id (hd_rule_store h) (hd_driver_store h) (hd_rules_strict h)
      else case hd_engine h of
             None \<Rightarrow> Return []
           | Some engine \<Rightarrow> evaluate_rules_for_tenant lib ev tenant_id engine)"

definition emit ::
  "'e rule_lib \<Rightarrow> 'p pipe_lib \<Rightarrow> 'e handler \<Rightarrow> (nat \<Rightarrow> string) \<Rightarrow> ctx \<Rightarrow> event \<Rightarrow> 'p pipe \<Rightarrow>
     (go_error option list \<times> 'p pipe) outcome" where
  "emit lib L h uuid c ev st =
     (case handler_match_rules lib h c ev (tenant_from_context c) of
        Panics s \<Rightarrow> Panics s
      | Fails e \<Rightarrow> Fails e
      | Return rules \<Rightarrow>
          (case pp_logs st of
             None \<Rightarrow> Return (publish_matches L c ev (rule_matches_from_rules rules) [] st)
           | Some m \<Rightarrow>
               (case log_event_matches (pk_sha L) uuid c (pl_now (pk_pub L) (pp_world st)) ev rules m of
                  (matched, m') \<Rightarrow>
                    Return (publish_matches L c ev (rule_matches_from_rules rules) (map el_id matched)
                      (st\<lparr>pp_logs := Some m'\<rparr>)))))"

end
