(* ===== verification/Webhook_Guarantees.thy ===== *)
theory Webhook_Guarantees
  imports Webhook_Pipeline
begin

text \<open>
  What \<^verbatim>\<open>pkg/webhook\<close> guarantees about the logs of an event: one record per match, a failure recorded
  exactly on the matches that failed, and records from which the event can be rebuilt for a replay.
\<close>

section \<open>Logs and matches\<close>

lemma matched_logs_from_props:
  "map el_id (matched_logs_from sha ev uuid i rts) = map uuid [i..<i + length rts]"
  "map (\<lambda>r. (el_topic r, el_rule_id r, el_rule_when r)) (matched_logs_from sha ev uuid i rts) =
     map (\<lambda>(r, topic). (topic, mr_id r, mr_when r)) rts"
  "map el_drivers (matched_logs_from sha ev uuid i rts) =
     map (\<lambda>(r, topic). el_drivers (matched_log sha ev r topic [])) rts"
  by (induction rts arbitrary: i)
    (auto simp: upt_conv_Cons matched_log_def base_log_def Let_def simp del: upt_Suc)

lemma rule_matches_concat:
  "rule_matches_from_rules rules =
     map (\<lambda>(r, topic). \<lparr>rm_topic = topic, rm_driver_id = mr_driver_id r, rm_transform_js = mr_transform_js r,
        rm_driver_name = mr_driver_name r, rm_rule_id = mr_id r, rm_rule_when = mr_when r,
        rm_driver_config_json = mr_driver_config_json r, rm_driver_enabled = mr_driver_enabled r\<rparr>)
      (concat (map (\<lambda>r. map (Pair r) (mr_emit r)) rules))"
  by (induction rules) (auto simp: map_concat)

text \<open>
  The log records that \<^verbatim>\<open>emit\<close> passes on line up with the matches it publishes: the
  i-th record is the i-th match, with its topic, rule and driver, its own fresh identifier, and status
  queued; an event without matching rules leaves one record, which is not passed on.
\<close>

theorem logs_pair_with_matches:
  "let (records, matched) = build_event_log_records sha uuid ev rules; ms = rule_matches_from_rules rules in
     map (\<lambda>r. (el_topic r, el_rule_id r, el_rule_when r, el_drivers r)) matched =
       map (\<lambda>m. (rm_topic m, rm_rule_id m, rm_rule_when m, driver_list_from_match m)) ms \<and>
     map el_id matched = map uuid [0..<length ms] \<and>
     (if rules = [] then map el_status records = [''ignored''] else records = matched)"
proof -
  let ?rts = "concat (map (\<lambda>r. map (Pair r) (mr_emit r)) rules)"
  let ?logs = "matched_logs_from sha ev uuid 0 ?rts"
  have "map (\<lambda>r. (el_topic r, el_rule_id r, el_rule_when r, el_drivers r)) (matched_logs_from sha ev uuid i rts) =
      map (\<lambda>(r, topic). (topic, mr_id r, mr_when r, el_drivers (matched_log sha ev r topic []))) rts" for i rts
    by (induction rts arbitrary: i) (auto simp: matched_log_def base_log_def Let_def)
  moreover have "length (rule_matches_from_rules rules) = length ?rts"
    by (simp only: rule_matches_concat length_map)
  ultimately show ?thesis
    using matched_logs_from_props(1) [of sha ev uuid 0 ?rts]
    by (auto simp: build_event_log_records_def rule_matches_concat Let_def matched_log_def base_log_def
        driver_list_from_match_def)
qed

section \<open>Recorded failures\<close>

text \<open>A record without the fields that publishing may set besides status and error.\<close>

definition log_core :: "event_log \<Rightarrow> event_log" where
  "log_core r = r\<lparr>el_transformed := [], el_updated := 0, el_latency := 0\<rparr>"

definition fail_log :: "ctx \<Rightarrow> string \<Rightarrow> go_error option \<Rightarrow> event_log \<Rightarrow> event_log" where
  "fail_log c i err r =
     (case err of
        Some e \<Rightarrow> if i \<noteq> [] \<and> el_id r = i \<and> tenant_visible c (el_tenant r)
                  then r\<lparr>el_status := ''failed'', el_error := error_text e\<rparr> else r
      | None \<Rightarrow> r)"

lemma fail_log_keeps [simp]:
  "el_id (fail_log c i err r) = el_id r" "el_tenant (fail_log c i err r) = el_tenant r"
  by (auto simp: fail_log_def split: option.split)

lemma update_transformed_core: "map log_core (snd (update_transformed c now i b m)) = map log_core m"
  by (induction m) (auto simp: log_core_def split: prod.split)

lemma payload_updater_core:
  "pp_logs st = Some m \<Longrightarrow> \<exists>m'. pp_logs (payload_updater L c i b st) = Some m' \<and> map log_core m' = map log_core m"
  by (auto simp: payload_updater_def update_transformed_core)

lemma fail_match_core:
  "pp_logs st = Some m \<Longrightarrow> \<exists>m'. pp_logs (fail_match L c (Some i) e st) = Some m' \<and>
     map log_core m' = map (fail_log c i (Some e)) (map log_core m)"
  by (auto simp: fail_match_def status_updater_def update_event_log_status_def set_status_def fail_log_def
      log_core_def Let_def)

lemma publish_dynamic_logs: "pp_logs (snd (publish_dynamic_match L ev m st)) = pp_logs st"
  by (auto simp: publish_dynamic_match_def Let_def split: option.split prod.split sum.split)

lemma publish_fallback_logs: "pp_logs (snd (publish_fallback L c ev m ds st)) = pp_logs st"
  by (auto simp: publish_fallback_def split: prod.split)

lemma publish_match_core:
  assumes "pp_logs st = Some m" and "publish_match L c ev mt (Some i) st = (err, st')"
  shows "\<exists>m'. pp_logs st' = Some m' \<and> map log_core m' = map (fail_log c i err) (map log_core m)"
proof (cases "apply_rule_transform (pk_js L) (ev\<lparr>ev_log_id := i\<rparr>) (rm_transform_js mt)")
  case (Inl e)
  with assms(2) have "err = Some e" "st' = fail_match L c (Some i) e st"
    by (auto simp: publish_match_def Let_def)
  with fail_match_core [OF assms(1), of L c i e] show ?thesis by simp
next
  case (Inr transformed)
  let ?st = "payload_updater L c i (ev_raw_payload transformed) st"
  have none: "fail_log c i None r = r" for r by (simp add: fail_log_def)
  obtain m1 where m1: "pp_logs ?st = Some m1" "map log_core m1 = map log_core m"
    using payload_updater_core [OF assms(1), of L c i "ev_raw_payload transformed"] by blast
  obtain ok e st1 where d: "publish_dynamic_match L transformed mt ?st = ((ok, e), st1)" by (metis surj_pair)
  have l1: "pp_logs st1 = Some m1" using publish_dynamic_logs [of L transformed mt ?st] d m1(1) by simp
  show ?thesis
  proof (cases e)
    case (Some e')
    with assms(2) Inr d have "err = Some e'" "st' = fail_match L c (Some i) e' st1"
      by (cases ok; simp add: publish_match_def Let_def)+
    with fail_match_core [OF l1, of L c i e'] m1(2) show ?thesis by simp
  next
    case None
    show ?thesis
    proof (cases "ok \<or> driver_list_from_match mt = []")
      case True
      with assms(2) Inr d None have "err = None" "st' = st1"
        by (cases ok; simp add: publish_match_def Let_def)+
      with l1 m1(2) none show ?thesis by simp
    next
      case False
      obtain e2 st2 where f: "publish_fallback L c transformed mt (driver_list_from_match mt) st1 = (e2, st2)" by fastforce
      have l2: "pp_logs st2 = Some m1"
        using publish_fallback_logs [of L c transformed mt "driver_list_from_match mt" st1] f l1 by simp
      from assms(2) Inr d None False f
      have r: "err = e2 \<and> st' = (case e2 of None \<Rightarrow> st2 | Some e' \<Rightarrow> fail_match L c (Some i) e' st2)"
        by (auto simp: publish_match_def Let_def split: option.splits)
      show ?thesis
        using r l2 m1(2) none fail_match_core [OF l2, of L c i] by (cases e2) auto
    qed
  qed
qed

lemma publish_matches_core:
  assumes "length ids = length ms" and "pp_logs st = Some m" and "publish_matches L c ev ms ids st = (errs, st')"
  shows "length errs = length ms \<and> (\<exists>m'. pp_logs st' = Some m' \<and>
     map log_core m' = map (\<lambda>r. fold (\<lambda>(i, err). fail_log c i err) (zip ids errs) r) (map log_core m))"
  using assms
proof (induction ms arbitrary: ids st m errs)
  case (Cons mt ms)
  then obtain i ids' where ids: "ids = i # ids'" by (cases ids) auto
  obtain err st1 where p: "publish_match L c ev mt (Some i) st = (err, st1)" by fastforce
  obtain errs' st2 where q: "publish_matches L c ev ms ids' st1 = (errs', st2)" by fastforce
  have eq: "errs = err # errs'" "st' = st2" using Cons.prems(3) p q ids by auto
  obtain m1 where m1: "pp_logs st1 = Some m1" "map log_core m1 = map (fail_log c i err) (map log_core m)"
    using publish_match_core [OF Cons.prems(2) p] by blast
  have "length errs' = length ms \<and> (\<exists>m'. pp_logs st' = Some m' \<and>
      map log_core m' = map (\<lambda>r. fold (\<lambda>(i, err). fail_log c i err) (zip ids' errs') r) (map log_core m1))"
    using Cons.IH [OF _ m1(1), of ids' errs'] Cons.prems(1) q ids eq(2) by simp
  then show ?case by (simp add: eq(1) ids m1(2) o_def)
qed simp

lemma fold_fail_other: "el_id r \<notin> set ids \<Longrightarrow> fold (\<lambda>(i, err). fail_log c i err) (zip ids errs) r = r"
proof (induction ids arbitrary: errs)
  case (Cons i ids)
  then show ?case
    by (cases errs) (auto simp: fail_log_def split: option.split)
qed simp

lemma fold_fail_own:
  assumes "distinct ids" "length errs = length ids" "k < length ids" "el_id r = ids ! k" "ids ! k \<noteq> []"
    "tenant_visible c (el_tenant r)"
  shows "fold (\<lambda>(i, err). fail_log c i err) (zip ids errs) r =
     (case errs ! k of None \<Rightarrow> r | Some e \<Rightarrow> r\<lparr>el_status := ''failed'', el_error := error_text e\<rparr>)"
  using assms
proof (induction ids arbitrary: errs k r)
  case (Cons i ids)
  then obtain err errs' where errs: "errs = err # errs'" by (cases errs) auto
  show ?case
  proof (cases k)
    case 0
    have "el_id (fail_log c i err r) \<notin> set ids" using Cons.prems 0 by simp
    with 0 Cons.prems show ?thesis
      by (simp add: errs fold_fail_other) (simp add: fail_log_def split: option.split)
  next
    case (Suc k')
    then have "el_id r \<noteq> i" using Cons.prems by auto
    then have "fail_log c i err r = r" by (auto simp: fail_log_def split: option.split)
    with Suc Cons show ?thesis by (simp add: errs)
  qed
qed simp

section \<open>The logs an event leaves\<close>

text \<open>What a reader of a log record learns about the match.\<close>

definition log_view :: "event_log \<Rightarrow> string \<times> string \<times> bool \<times> string \<times> string" where
  "log_view r = (el_topic r, el_rule_id r, el_matched r, el_status r, el_error r)"

definition match_view :: "rule_match \<Rightarrow> go_error option \<Rightarrow> string \<times> string \<times> bool \<times> string \<times> string" where
  "match_view m err =
     (rm_topic m, rm_rule_id m, True,
      case err of None \<Rightarrow> ''queued'' | Some e \<Rightarrow> ''failed'', case err of None \<Rightarrow> [] | Some e \<Rightarrow> error_text e)"

lemma prepare_log_keeps:
  "el_id r \<noteq> [] \<Longrightarrow> el_status r \<noteq> [] \<Longrightarrow> el_id (prepare_log sha c now n r) = el_id r \<and>
     log_view (prepare_log sha c now n r) = log_view r"
  "el_tenant r = [] \<Longrightarrow> el_tenant (prepare_log sha c now n r) = tenant_from_context c"
  by (auto simp: prepare_log_def log_view_def Let_def)

lemma append_logs_map:
  "append_logs sha c now uuid i rs m = m @ map (\<lambda>(j, r). prepare_log sha c now (uuid j) r) (zip [i..<i + length rs] rs)"
  by (induction rs arbitrary: i m) (auto simp: upt_conv_Cons simp del: upt_Suc)

lemma create_event_logs_map:
  "snd (create_event_logs sha c now uuid rs m) =
     m @ map (\<lambda>(j, r). prepare_log sha c now (uuid j) r) (zip [0..<length rs] rs)"
  by (simp add: create_event_logs_def append_logs_map)

lemma log_view_core [simp]: "log_view (log_core r) = log_view r" "el_id (log_core r) = el_id r" "el_tenant (log_core r) = el_tenant r"
  by (simp_all add: log_view_def log_core_def)

lemma matched_logs_from_nth:
  "k < length rts \<Longrightarrow> matched_logs_from sha ev uuid i rts ! k =
     (case rts ! k of (r, topic) \<Rightarrow> matched_log sha ev r topic (uuid (i + k)))"
proof (induction rts arbitrary: i k)
  case (Cons rt rts)
  then show ?case by (cases rt; cases k) auto
qed simp

lemma length_matched_logs_from [simp]: "length (matched_logs_from sha ev uuid i rts) = length rts"
  by (induction rts arbitrary: i) auto

lemma matched_log_fields:
  "el_id (matched_log sha ev r t n) = n" "el_status (matched_log sha ev r t n) = ''queued''"
  "el_tenant (matched_log sha ev r t n) = []" "log_view (matched_log sha ev r t n) = (t, mr_id r, True, ''queued'', [])"
  by (simp_all add: matched_log_def base_log_def zero_event_log_def log_view_def Let_def)

text \<open>The new records after publishing: the view of the k-th is the view of the k-th match and its error.\<close>

lemma published_logs_view:
  assumes u: "inj uuid" "\<And>i. uuid i \<noteq> []" and n: "length errs = length rts"
  shows "map log_view (map (\<lambda>r. fold (\<lambda>(i, err). fail_log c i err) (zip (map uuid [0..<length rts]) errs) r)
       (map log_core (map (\<lambda>(j, r). prepare_log sha c now (uuid j) r)
          (zip [0..<length rts] (matched_logs_from sha ev uuid 0 rts))))) =
     map (\<lambda>((r, topic), err). (topic, mr_id r, True,
        case err of None \<Rightarrow> ''queued'' | Some e \<Rightarrow> ''failed'', case err of None \<Rightarrow> [] | Some e \<Rightarrow> error_text e)) (zip rts errs)"
proof (rule nth_equalityI)
  fix k
  assume "k < length (map log_view (map (\<lambda>r. fold (\<lambda>(i, err). fail_log c i err) (zip (map uuid [0..<length rts]) errs) r)
       (map log_core (map (\<lambda>(j, r). prepare_log sha c now (uuid j) r)
          (zip [0..<length rts] (matched_logs_from sha ev uuid 0 rts))))))"
  then have k: "k < length rts" by simp
  obtain r topic where rt: "rts ! k = (r, topic)" by fastforce
  let ?log = "matched_log sha ev r topic (uuid k)"
  let ?x = "log_core (prepare_log sha c now (uuid k) ?log)"
  have id: "el_id ?x = uuid k" and view: "log_view ?x = (topic, mr_id r, True, ''queued'', [])"
    and tenant: "el_tenant ?x = tenant_from_context c"
    using prepare_log_keeps(1) [of ?log] prepare_log_keeps(2) [of ?log] u(2) [of k] by (simp_all add: matched_log_fields)
  have "distinct (map uuid [0..<length rts])"
    using u(1) by (simp add: distinct_map inj_on_def)
  moreover have "tenant_visible c (el_tenant ?x)" unfolding tenant tenant_visible_def by simp
  ultimately have own: "fold (\<lambda>(i, err). fail_log c i err) (zip (map uuid [0..<length rts]) errs) ?x =
      (case errs ! k of None \<Rightarrow> ?x | Some e \<Rightarrow> ?x\<lparr>el_status := ''failed'', el_error := error_text e\<rparr>)"
    using fold_fail_own [of "map uuid [0..<length rts]" errs k ?x c] k n id u(2) by simp
  have "log_view (case errs ! k of None \<Rightarrow> ?x | Some e \<Rightarrow> ?x\<lparr>el_status := ''failed'', el_error := error_text e\<rparr>) =
      (topic, mr_id r, True, case errs ! k of None \<Rightarrow> ''queued'' | Some e \<Rightarrow> ''failed'',
       case errs ! k of None \<Rightarrow> [] | Some e \<Rightarrow> error_text e)"
    using view unfolding log_view_def by (simp split: option.split)
  with own show "map log_view (map (\<lambda>r. fold (\<lambda>(i, err). fail_log c i err) (zip (map uuid [0..<length rts]) errs) r)
       (map log_core (map (\<lambda>(j, r). prepare_log sha c now (uuid j) r)
          (zip [0..<length rts] (matched_logs_from sha ev uuid 0 rts))))) ! k =
     map (\<lambda>((r, topic), err). (topic, mr_id r, True,
        case err of None \<Rightarrow> ''queued'' | Some e \<Rightarrow> ''failed'', case err of None \<Rightarrow> [] | Some e \<Rightarrow> error_text e)) (zip rts errs) ! k"
    using k n by (simp add: matched_logs_from_nth rt)
qed (use n in simp)

lemma match_views_zip:
  "map (\<lambda>((r, topic), err). (topic, mr_id r, True, case err of None \<Rightarrow> ''queued'' | Some e \<Rightarrow> ''failed'',
      case err of None \<Rightarrow> [] | Some e \<Rightarrow> error_text e)) (zip (concat (map (\<lambda>r. map (Pair r) (mr_emit r)) rules)) errs) =
   map (\<lambda>(m, err). match_view m err) (zip (rule_matches_from_rules rules) errs)"
  unfolding rule_matches_concat by (simp add: zip_map1 match_view_def case_prod_unfold)


text \<open>Sample values: an engine without rules, and a publisher that always delivers.\<close>

definition sample_js :: js_lib where
  "sample_js = \<lparr>js_call = \<lambda>src v m. Inr v, js_decode = \<lambda>s. Inr (VMap []), js_marshal = \<lambda>v. Inr ''{}''\<rparr>"

definition sample_pipe_lib :: "string pipe_lib" where
  "sample_pipe_lib = \<lparr>pk_pub = sample_pub_lib, pk_factories = [], pk_codec = trivial_codec, pk_js = sample_js, pk_sha = \<lambda>s. s\<rparr>"

definition sample_pipe :: "string pipe" where
  "sample_pipe = \<lparr>pp_world = empty_world, pp_dynamic = None,
     pp_fallback = \<lparr>tp_cache = None, tp_fallback = Some (Mux [(''amqp'', Relaybus ''down'')] [''amqp''] [])\<rparr>,
     pp_logs = Some []\<rparr>"

definition sample_handler :: "unit handler" where
  "sample_handler = \<lparr>hd_rule_store = None, hd_driver_store = None, hd_rules_strict = False, hd_engine = Some sample_engine\<rparr>"

definition sample_uuid :: "nat \<Rightarrow> string" where
  "sample_uuid n = replicate (Suc n) (CHR ''u'')"


section \<open>Replay\<close>

text \<open>What a log record keeps of its event.\<close>

definition log_of :: "event \<Rightarrow> event_log \<Rightarrow> bool" where
  "log_of ev r \<longleftrightarrow> el_provider r = ev_provider ev \<and> el_name r = ev_name ev \<and> el_request_id r = ev_request_id ev \<and>
     el_state_id r = ev_state_id ev \<and> el_installation_id r = ev_installation_id ev \<and>
     el_namespace_id r = ev_namespace_id ev \<and> el_namespace_name r = ev_namespace_name ev \<and>
     Some (el_headers r) = Some (case clone_headers (ev_headers ev) of None \<Rightarrow> [] | Some hs \<Rightarrow> hs) \<and>
     el_body r = ev_raw_payload ev"

lemma log_of_build: "r \<in> set (fst (build_event_log_records sha uuid ev rules)) \<Longrightarrow> log_of ev r \<and> el_tenant r = []"
proof -
  have base: "log_of ev (base_log sha ev n)" "el_tenant (base_log sha ev n) = []" for n
    by (auto simp: log_of_def base_log_def zero_event_log_def)
  then have m: "log_of ev (matched_log sha ev rl t n) \<and> el_tenant (matched_log sha ev rl t n) = []" for rl t n
    by (simp add: log_of_def matched_log_def Let_def)
  have "r \<in> set (matched_logs_from sha ev uuid i rts) \<Longrightarrow> log_of ev r \<and> el_tenant r = []" for i rts
    by (induction rts arbitrary: i) (auto simp: m)
  with base show "r \<in> set (fst (build_event_log_records sha uuid ev rules)) \<Longrightarrow> ?thesis"
    by (auto simp: build_event_log_records_def Let_def log_of_def split: if_splits)
qed

lemma log_of_prepare: "log_of ev (prepare_log sha c now n r) = log_of ev r"
  by (auto simp: log_of_def prepare_log_def Let_def)


definition sample_source :: webhook_source where
  "sample_source = \<lparr>ws_provider = ''slack'', ws_event_name = ''event'', ws_request_id = ''q1'',
     ws_headers = Some [(''X-Request-Id'', [''q1''])], ws_state_id = ''T1'', ws_tenant = [], ws_installation_id = ''i1'',
     ws_instance_key = ''k1'', ws_namespace_id = [], ws_namespace_name = []\<rparr>"

definition sample_time :: time_lib where
  "sample_time = \<lparr>tl_parse = \<lambda>s. None, tl_format = \<lambda>t. [], tl_parse_nano = \<lambda>s. None, tl_format_nano = \<lambda>t. []\<rparr>"


end
