(* ===== verification/Event_Stats.thy ===== *)
theory Event_Stats
  imports Event_Logs
begin

text \<open>
  The aggregations of the event log store (\<^verbatim>\<open>pkg/storage/mocks_eventlogs.go\<close>): the time series, the
  breakdown by a key with its page tokens, and the latency percentiles.
\<close>

section \<open>Time series\<close>

record bucket =
  bk_start :: gtime
  bk_end :: gtime
  bk_events :: int
  bk_matched :: int
  bk_distinct :: int
  bk_failed :: int

definition interval_duration :: "string \<Rightarrow> int" where
  "interval_duration interval =
     (if interval = ''hour'' then nanos_hour
      else if interval = ''day'' then nanos_day
      else if interval = ''week'' then nanos_week
      else 0)"

text \<open>\<^verbatim>\<open>Time.Weekday\<close>: 0 is Sunday, and day 0 (1 January of year 1) is a Monday.\<close>

definition weekday :: "gtime \<Rightarrow> int" where
  "weekday t = (t div nanos_day + 1) mod 7"

definition start_of_day :: "gtime \<Rightarrow> gtime" where
  "start_of_day t = t - t mod nanos_day"

definition bucket_start :: "gtime \<Rightarrow> string \<Rightarrow> gtime" where
  "bucket_start t interval =
     (if interval = ''hour'' then t - t mod nanos_hour
      else if interval = ''day'' then start_of_day t
      else if interval = ''week'' then
        (let day = start_of_day t; shift = (weekday day + 6) mod 7 in day - shift * nanos_day)
      else t)"

type_synonym bucket_data = "bucket \<times> string list"

definition empty_bucket :: "gtime \<Rightarrow> int \<Rightarrow> bucket" where
  "empty_bucket t step = \<lparr>bk_start = t, bk_end = t + step, bk_events = 0, bk_matched = 0, bk_distinct = 0, bk_failed = 0\<rparr>"

definition count_into :: "event_log \<Rightarrow> bucket_data \<Rightarrow> bucket_data" where
  "count_into r entry =
     (let (b, reqs) = entry;
          b = b\<lparr>bk_events := bk_events b + 1\<rparr>;
          b = (if el_matched r then b\<lparr>bk_matched := bk_matched b + 1\<rparr> else b);
          reqs = (if el_request_id r \<noteq> [] then List.insert (el_request_id r) reqs else reqs);
          b = (if equal_fold (el_status r) ''failed'' then b\<lparr>bk_failed := bk_failed b + 1\<rparr> else b)
      in (b, reqs))"

fun fill_buckets ::
  "string \<Rightarrow> gtime \<Rightarrow> gtime \<Rightarrow> event_log list \<Rightarrow> (int \<Rightarrow> bucket_data option) \<Rightarrow> (int \<Rightarrow> bucket_data option)" where
  "fill_buckets interval start stop [] buckets = buckets"
| "fill_buckets interval start stop (r # rs) buckets =
     (let ts = el_created r in
      if ts < start \<or> stop < ts then fill_buckets interval start stop rs buckets
      else
        let b = bucket_start ts interval;
            key = unix_seconds b;
            entry = (case buckets key of
                       None \<Rightarrow> (empty_bucket b (interval_duration interval), [])
                     | Some e \<Rightarrow> e)
        in fill_buckets interval start stop rs (buckets(key \<mapsto> count_into r entry)))"

definition bucket_at :: "(int \<Rightarrow> bucket_data option) \<Rightarrow> int \<Rightarrow> gtime \<Rightarrow> bucket" where
  "bucket_at buckets step cursor =
     (case buckets (unix_seconds cursor) of
        Some (b, reqs) \<Rightarrow> b\<lparr>bk_distinct := int (length reqs)\<rparr>
      | None \<Rightarrow> empty_bucket cursor step)"

function emit_buckets :: "(int \<Rightarrow> bucket_data option) \<Rightarrow> int \<Rightarrow> gtime \<Rightarrow> gtime \<Rightarrow> bucket list" where
  "emit_buckets buckets step stop cursor =
     (if cursor \<le> stop \<and> 0 < step
      then bucket_at buckets step cursor # emit_buckets buckets step stop (cursor + step)
      else [])"
  by pat_completeness auto
termination
  by (relation "measure (\<lambda>(buckets, step, stop, cursor). nat (stop - cursor + 1))") auto

declare emit_buckets.simps [simp del]

definition get_event_log_timeseries :: "ctx \<Rightarrow> event_log_filter \<Rightarrow> string \<Rightarrow> log_mem \<Rightarrow> bucket list res" where
  "get_event_log_timeseries c f interval m =
     (if interval = [] then Inl (Error ''interval is required'')
      else if is_zero (lf_start f) \<or> is_zero (lf_end f) then Inl (Error ''start_time and end_time are required'')
      else if lf_end f < lf_start f then Inl (Error ''end_time must be after start_time'')
      else bind_res (list_event_logs c (unpaged f) m)
        (\<lambda>filtered.
           let start = bucket_start (lf_start f) interval;
               stop = lf_end f;
               step = interval_duration interval
           in if step \<le> 0 then Inl (Error ''invalid interval'')
              else Inr (emit_buckets (fill_buckets interval start stop filtered Map.empty) step stop start)))"

subsection \<open>Buckets\<close>

definition valid_interval :: "string \<Rightarrow> bool" where
  "valid_interval interval \<longleftrightarrow> interval \<in> {''hour'', ''day'', ''week''}"

lemmas nanos_defs = nanos_hour_def nanos_day_def nanos_week_def

lemma interval_duration_pos: "0 < interval_duration interval \<longleftrightarrow> valid_interval interval"
  by (auto simp: interval_duration_def valid_interval_def nanos_defs)

lemma interval_duration_nonneg: "0 \<le> interval_duration interval"
  by (simp add: interval_duration_def nanos_defs)

lemma interval_duration_seconds: "1000000000 dvd interval_duration interval"
  by (simp add: interval_duration_def nanos_defs)

lemma week_start:
  "start_of_day t - ((weekday (start_of_day t) + 6) mod 7) * nanos_day = t - t mod nanos_week"
proof -
  define d where "d = t div nanos_day"
  have day: "start_of_day t = d * nanos_day"
    by (simp add: start_of_day_def d_def minus_mod_eq_div_mult)
  have wd: "(weekday (start_of_day t) + 6) mod 7 = d mod 7"
    by (simp add: weekday_def day nanos_day_def) presburger
  have "t div nanos_week = d div 7"
    by (simp add: d_def nanos_day_def nanos_week_def flip: zdiv_zmult2_eq)
  then have "t - t mod nanos_week = d div 7 * nanos_week"
    by (simp add: minus_mod_eq_div_mult)
  also have "\<dots> = (d - d mod 7) * nanos_day"
    by (simp add: minus_mod_eq_div_mult nanos_day_def nanos_week_def)
  finally show ?thesis unfolding wd unfolding day by (simp add: left_diff_distrib)
qed

lemma bucket_start_floor:
  "valid_interval interval \<Longrightarrow> bucket_start t interval = t - t mod interval_duration interval"
  by (auto simp: bucket_start_def interval_duration_def valid_interval_def start_of_day_def Let_def
      week_start [unfolded start_of_day_def])

lemma unix_seconds_inj:
  assumes "1000000000 dvd a" "1000000000 dvd b" "unix_seconds a = unix_seconds b"
  shows "a = b"
proof -
  have "1000000000 dvd unix_epoch" by (simp add: unix_epoch_def)
  with assms(1,2) have "1000000000 dvd a - unix_epoch" "1000000000 dvd b - unix_epoch" by auto
  with assms(3) show ?thesis unfolding unix_seconds_def by (metis dvd_div_eq_iff diff_add_cancel)
qed

lemma emit_buckets_map:
  "0 < step \<Longrightarrow> emit_buckets bs step stop c =
     map (\<lambda>j. bucket_at bs step (c + int j * step)) [0..<nat ((stop - c) div step + 1)]"
proof (induction bs step stop c rule: emit_buckets.induct)
  case (1 bs step stop c)
  show ?case
  proof (cases "c \<le> stop")
    case False
    with 1(2) have "(stop - c) div step < 0" by (simp add: pos_imp_zdiv_neg_iff)
    with False show ?thesis by (simp add: emit_buckets.simps [of bs step stop c])
  next
    case True
    have q: "(stop - (c + step)) div step = (stop - c) div step - 1"
      using 1(2) div_mult_self1 [of step "stop - c - step" 1] by (simp add: diff_diff_eq)
    have "0 \<le> (stop - c) div step" using True 1(2) by (simp add: pos_imp_zdiv_nonneg_iff)
    then have n: "nat ((stop - c) div step + 1) = Suc (nat ((stop - c) div step))" by simp
    have "emit_buckets bs step stop c = bucket_at bs step c # emit_buckets bs step stop (c + step)"
      using True 1(2) by (simp add: emit_buckets.simps [of bs step stop c])
    also have "emit_buckets bs step stop (c + step) =
        map (\<lambda>j. bucket_at bs step (c + step + int j * step)) [0..<nat ((stop - c) div step)]"
      using 1(1) [OF _ 1(2)] True 1(2) by (simp add: q)
    also have "\<dots> = map (\<lambda>j. bucket_at bs step (c + int j * step)) (map Suc [0..<nat ((stop - c) div step)])"
      by (simp add: algebra_simps)
    finally show ?thesis
      unfolding n by (simp add: upt_conv_Cons map_Suc_upt del: upt_Suc)
  qed
qed

text \<open>A counter of the buckets: a field that each counted record raises by one when it satisfies \<open>P\<close>.\<close>

definition counts :: "(bucket \<Rightarrow> int) \<Rightarrow> (event_log \<Rightarrow> bool) \<Rightarrow> bool" where
  "counts g P \<longleftrightarrow> (\<forall>t s. g (empty_bucket t s) = 0) \<and> (\<forall>b n. g (b\<lparr>bk_distinct := n\<rparr>) = g b) \<and>
     (\<forall>r e. g (fst (count_into r e)) = g (fst e) + (if P r then 1 else 0))"

lemma counts_fields:
  "counts bk_events (\<lambda>r. True)" "counts bk_matched el_matched"
  "counts bk_failed (\<lambda>r. equal_fold (el_status r) ''failed'')"
  by (auto simp: counts_def empty_bucket_def count_into_def Let_def split: prod.split)

definition counter :: "(bucket \<Rightarrow> int) \<Rightarrow> (int \<Rightarrow> bucket_data option) \<Rightarrow> int \<Rightarrow> int" where
  "counter g bs k = (case bs k of None \<Rightarrow> 0 | Some e \<Rightarrow> g (fst e))"

lemma counter_bucket_at: "counts g P \<Longrightarrow> g (bucket_at bs step c) = counter g bs (unix_seconds c)"
  by (auto simp: bucket_at_def counter_def counts_def split: option.split)

lemma fill_buckets_counter:
  "counts g P \<Longrightarrow> counter g (fill_buckets iv start stop rs bs) k = counter g bs k +
     int (length (filter (\<lambda>r. (start \<le> el_created r \<and> el_created r \<le> stop) \<and> P r \<and>
                               unix_seconds (bucket_start (el_created r) iv) = k) rs))"
proof (induction rs arbitrary: bs)
  case (Cons r rs)
  then show ?case
    by (auto simp: Let_def counter_def counts_def split: option.split)
qed simp

definition entry_ok :: "int \<Rightarrow> int \<Rightarrow> bucket_data \<Rightarrow> bool" where
  "entry_ok step k e \<longleftrightarrow> unix_seconds (bk_start (fst e)) = k \<and>
     1000000000 dvd bk_start (fst e) \<and> bk_end (fst e) = bk_start (fst e) + step"

definition bucket_ok :: "int \<Rightarrow> (int \<Rightarrow> bucket_data option) \<Rightarrow> bool" where
  "bucket_ok step bs \<longleftrightarrow> (\<forall>k. case bs k of None \<Rightarrow> True | Some e \<Rightarrow> entry_ok step k e)"

lemma entry_ok_count [simp]: "entry_ok step k (count_into r e) = entry_ok step k e"
  by (auto simp: entry_ok_def count_into_def Let_def split: prod.split)

lemma entry_ok_empty: "entry_ok step k (empty_bucket t step, []) \<longleftrightarrow> unix_seconds t = k \<and> 1000000000 dvd t"
  by (auto simp: entry_ok_def empty_bucket_def)

lemma bucket_start_seconds: "valid_interval iv \<Longrightarrow> 1000000000 dvd bucket_start t iv"
  by (simp add: bucket_start_floor minus_mod_eq_mult_div interval_duration_seconds)

lemma fill_buckets_ok:
  "valid_interval iv \<Longrightarrow> bucket_ok (interval_duration iv) bs \<Longrightarrow>
     bucket_ok (interval_duration iv) (fill_buckets iv start stop rs bs)"
proof (induction rs arbitrary: bs)
  case (Cons r rs)
  let ?b = "bucket_start (el_created r) iv"
  let ?e = "case bs (unix_seconds ?b) of None \<Rightarrow> (empty_bucket ?b (interval_duration iv), []) | Some e \<Rightarrow> e"
  have "bucket_ok (interval_duration iv) (bs(unix_seconds ?b \<mapsto> count_into r ?e))"
    using Cons.prems bucket_start_seconds [OF Cons.prems(1), of "el_created r"]
    unfolding bucket_ok_def by (auto simp: entry_ok_empty split: option.split option.split_asm)
  with Cons show ?case by (simp add: Let_def)
qed simp

lemma bucket_at_start:
  assumes "bucket_ok step bs" "1000000000 dvd c"
  shows "bk_start (bucket_at bs step c) = c \<and> bk_end (bucket_at bs step c) = c + step"
proof (cases "bs (unix_seconds c)")
  case (Some e)
  have "case bs (unix_seconds c) of None \<Rightarrow> True | Some e \<Rightarrow> entry_ok step (unix_seconds c) e"
    using assms(1) unfolding bucket_ok_def by blast
  with Some have e: "entry_ok step (unix_seconds c) e" by simp
  then have "bk_start (fst e) = c"
    unfolding entry_ok_def using unix_seconds_inj [of "bk_start (fst e)" c] assms(2) by blast
  with e Some show ?thesis by (cases e) (simp add: bucket_at_def entry_ok_def)
qed (simp add: bucket_at_def empty_bucket_def)

lemma sum_partition:
  fixes n :: nat
  shows "\<forall>r \<in> set rs. P r \<longrightarrow> f r < n \<Longrightarrow>
     (\<Sum>j \<leftarrow> [0..<n]. int (length (filter (\<lambda>r. P r \<and> f r = j) rs))) = int (length (filter P rs))"
proof (induction rs)
  case (Cons r rs)
  have "(\<Sum>j \<leftarrow> [0..<n]. int (length (filter (\<lambda>r. P r \<and> f r = j) (r # rs)))) =
      (\<Sum>j \<leftarrow> [0..<n]. (if P r \<and> f r = j then 1 else 0) + int (length (filter (\<lambda>r. P r \<and> f r = j) rs)))"
    by (rule arg_cong [where f = sum_list], rule map_cong) auto
  also have "\<dots> = (\<Sum>j \<leftarrow> [0..<n]. if P r \<and> f r = j then 1 else 0) + int (length (filter P rs))"
    using Cons by (simp add: sum_list_addf)
  also have "(\<Sum>j \<leftarrow> [0..<n]. if P r \<and> f r = j then 1 else 0) = (if P r then 1 else (0::int))"
    using Cons.prems by (auto simp: interv_sum_list_conv_sum_set_nat)
  finally show ?case by simp
qed simp

lemma sum_buckets:
  assumes c: "counts g P" and iv: "valid_interval iv"
    and rs: "\<forall>r \<in> set rs. s \<le> el_created r \<and> el_created r \<le> stop"
  shows "sum_list (map g (emit_buckets (fill_buckets iv (bucket_start s iv) stop rs Map.empty)
      (interval_duration iv) stop (bucket_start s iv))) = int (length (filter P rs))"
proof -
  let ?d = "interval_duration iv"
  let ?c = "bucket_start s iv"
  let ?n = "nat ((stop - ?c) div ?d + 1)"
  let ?f = "\<lambda>r. nat (el_created r div ?d - s div ?d)"
  have d: "0 < ?d" using iv by (simp add: interval_duration_pos)
  have floor: "bucket_start t iv = t div ?d * ?d" for t
    using iv by (simp add: bucket_start_floor minus_mod_eq_div_mult)
  have start: "?c \<le> s" using d iv by (simp add: bucket_start_floor)
  have idx: "unix_seconds (bucket_start (el_created r) iv) = unix_seconds (?c + int j * ?d) \<longleftrightarrow> ?f r = j"
    if "r \<in> set rs" for r j
  proof -
    have le: "s div ?d \<le> el_created r div ?d" using that rs d by (simp add: zdiv_mono1)
    have "unix_seconds (bucket_start (el_created r) iv) = unix_seconds (?c + int j * ?d) \<longleftrightarrow>
        bucket_start (el_created r) iv = ?c + int j * ?d"
      using unix_seconds_inj bucket_start_seconds [OF iv] interval_duration_seconds [of iv]
      by (metis dvd_add dvd_mult)
    also have "\<dots> \<longleftrightarrow> el_created r div ?d * ?d = (s div ?d + int j) * ?d"
      by (simp add: floor distrib_right)
    also have "\<dots> \<longleftrightarrow> el_created r div ?d = s div ?d + int j"
      using d by simp
    also have "\<dots> \<longleftrightarrow> ?f r = j" using le by auto
    finally show ?thesis .
  qed
  have lt: "?f r < ?n" if "r \<in> set rs" for r
  proof -
    have "stop - ?c = stop + (- (s div ?d)) * ?d" by (simp add: floor)
    then have "(stop - ?c) div ?d = stop div ?d - s div ?d"
      using d div_mult_self1 [of ?d stop "- (s div ?d)"] by simp
    moreover have "el_created r div ?d \<le> stop div ?d" "s div ?d \<le> el_created r div ?d"
      using that rs d by (auto simp: zdiv_mono1)
    ultimately show ?thesis by simp
  qed
  have "sum_list (map g (emit_buckets (fill_buckets iv ?c stop rs Map.empty) ?d stop ?c)) =
      (\<Sum>j \<leftarrow> [0..<?n]. int (length (filter (\<lambda>r. P r \<and> ?f r = j) rs)))"
    unfolding emit_buckets_map [OF d] map_map o_def counter_bucket_at [OF c] fill_buckets_counter [OF c]
  proof (rule arg_cong [where f = sum_list], rule map_cong)
    fix j
    have "filter (\<lambda>r. (?c \<le> el_created r \<and> el_created r \<le> stop) \<and> P r \<and>
            unix_seconds (bucket_start (el_created r) iv) = unix_seconds (?c + int j * ?d)) rs =
        filter (\<lambda>r. P r \<and> ?f r = j) rs"
      by (rule filter_cong) (use idx rs start in force)+
    then show "counter g Map.empty (unix_seconds (?c + int j * ?d)) + int (length (filter (\<lambda>r. (?c \<le> el_created r \<and>
        el_created r \<le> stop) \<and> P r \<and> unix_seconds (bucket_start (el_created r) iv) = unix_seconds (?c + int j * ?d)) rs)) =
        int (length (filter (\<lambda>r. P r \<and> ?f r = j) rs))"
      by (simp add: counter_def)
  qed simp
  also have "\<dots> = int (length (filter P rs))"
    by (rule sum_partition) (use lt in blast)
  finally show ?thesis .
qed

lemma buckets_contiguous:
  assumes "valid_interval iv"
  shows "map bk_start (emit_buckets (fill_buckets iv (bucket_start s iv) stop rs Map.empty)
      (interval_duration iv) stop (bucket_start s iv)) =
      map (\<lambda>j. bucket_start s iv + int j * interval_duration iv)
        [0..<nat ((stop - bucket_start s iv) div interval_duration iv + 1)]"
proof -
  have d: "0 < interval_duration iv" using assms by (simp add: interval_duration_pos)
  have ok: "bucket_ok (interval_duration iv) (fill_buckets iv (bucket_start s iv) stop rs Map.empty)"
    by (rule fill_buckets_ok [OF assms]) (simp add: bucket_ok_def)
  have "1000000000 dvd bucket_start s iv + int j * interval_duration iv" for j
    using bucket_start_seconds [OF assms] interval_duration_seconds [of iv] by (simp add: dvd_add)
  then show ?thesis
    by (simp add: emit_buckets_map [OF d] bucket_at_start [OF ok])
qed


end
