(* ===== verification/Event_Breakdown.thy ===== *)
theory Event_Breakdown
  imports Event_Logs
begin

text \<open>
  The breakdown of the event logs by a key (\<^verbatim>\<open>GetEventLogBreakdown\<close> of
  \<^verbatim>\<open>pkg/storage/mocks_eventlogs.go\<close>) with its page tokens and latency percentiles.

  A percentile is the float64 of an int64 of the input; the model keeps the integer. The index is computed
  in float64: \<open>float_mul\<close> is the product of an integer and a double, rounded to nearest even.
\<close>

section \<open>Percentiles\<close>

fun bit_len :: "nat \<Rightarrow> nat" where
  "bit_len n = (if n = 0 then 0 else Suc (bit_len (n div 2)))"

declare bit_len.simps [simp del]

definition round_53 :: "nat \<Rightarrow> nat" where
  "round_53 n =
     (let e = bit_len n - 53 in
      if e = 0 then n
      else
        let q = n div 2 ^ e; r = n mod 2 ^ e; half = 2 ^ (e - 1);
            q' = (if half < r \<or> r = half \<and> odd q then q + 1 else q)
        in q' * 2 ^ e)"

text \<open>A double between 0 and 1 is \<open>(M, s)\<close> for \<open>M / 2 ^ s\<close>; \<open>float_index k p\<close> is \<^verbatim>\<open>int(float64(k) * p)\<close>.\<close>

type_synonym ratio = "nat \<times> nat"

definition p50 :: ratio where "p50 = (2251799813685248, 52)"
definition p95 :: ratio where "p95 = (4278419646001971, 52)"
definition p99 :: ratio where "p99 = (4458563631096791, 52)"

definition float_index :: "nat \<Rightarrow> ratio \<Rightarrow> nat" where
  "float_index k p = round_53 (k * fst p) div 2 ^ snd p"

definition percentile :: "int list \<Rightarrow> ratio \<Rightarrow> int" where
  "percentile values p =
     (if values = [] then 0
      else if fst p = 0 then values ! 0
      else if 2 ^ snd p \<le> fst p then values ! (length values - 1)
      else
        let i = float_index (length values - 1) p;
            i = (if length values \<le> i then length values - 1 else i)
        in values ! i)"

section \<open>Groups\<close>

record breakdown =
  bd_key :: string
  bd_events :: int
  bd_matched :: int
  bd_failed :: int
  bd_p50 :: int
  bd_p95 :: int
  bd_p99 :: int

definition breakdown_key :: "event_log \<Rightarrow> string \<Rightarrow> string" where
  "breakdown_key r group_by =
     (if group_by = ''provider'' then el_provider r
      else if group_by = ''event'' then el_name r
      else if group_by = ''rule_id'' then el_rule_id r
      else if group_by = ''rule_when'' then el_rule_when r
      else if group_by = ''topic'' then el_topic r
      else if group_by = ''namespace_id'' then el_namespace_id r
      else if group_by = ''namespace_name'' then el_namespace_name r
      else if group_by = ''installation_id'' then el_installation_id r
      else [])"

definition sort_value :: "breakdown \<Rightarrow> string \<Rightarrow> int" where
  "sort_value e sort_by =
     (if sort_by = ''matched'' then bd_matched e
      else if sort_by = ''failed'' then bd_failed e
      else bd_events e)"

type_synonym groups = "breakdown gmap \<times> int list gmap"

definition new_group :: "string \<Rightarrow> breakdown" where
  "new_group key = \<lparr>bd_key = key, bd_events = 0, bd_matched = 0, bd_failed = 0, bd_p50 = 0, bd_p95 = 0, bd_p99 = 0\<rparr>"

definition group_entry :: "breakdown gmap \<Rightarrow> string \<Rightarrow> breakdown" where
  "group_entry grouped key = (case mget grouped key of None \<Rightarrow> new_group key | Some e \<Rightarrow> e)"

definition count_group :: "event_log \<Rightarrow> breakdown \<Rightarrow> breakdown" where
  "count_group r e =
     (let e = e\<lparr>bd_events := bd_events e + 1\<rparr>;
          e = (if el_matched r then e\<lparr>bd_matched := bd_matched e + 1\<rparr> else e)
      in if equal_fold (el_status r) ''failed'' then e\<lparr>bd_failed := bd_failed e + 1\<rparr> else e)"

definition group_step :: "string \<Rightarrow> bool \<Rightarrow> event_log \<Rightarrow> groups \<Rightarrow> groups" where
  "group_step group_by include_latency r gl =
     (let (grouped, latencies) = gl; key = breakdown_key r group_by in
      if trim_space key = [] then gl
      else
        (mput key (count_group r (group_entry grouped key)) grouped,
         if include_latency \<and> 0 < el_latency r
         then mput key ((case mget latencies key of None \<Rightarrow> [] | Some ls \<Rightarrow> ls) @ [el_latency r]) latencies
         else latencies))"

definition finish_group :: "bool \<Rightarrow> int list gmap \<Rightarrow> breakdown \<Rightarrow> breakdown" where
  "finish_group include_latency latencies e =
     (case mget latencies (bd_key e) of
        Some (v # vs) \<Rightarrow>
          if include_latency then
            let values = sort_slice (<) (v # vs) in
            e\<lparr>bd_p50 := percentile values p50, bd_p95 := percentile values p95, bd_p99 := percentile values p99\<rparr>
          else e
      | _ \<Rightarrow> e)"

definition breakdown_less :: "string \<Rightarrow> bool \<Rightarrow> breakdown \<Rightarrow> breakdown \<Rightarrow> bool" where
  "breakdown_less sort_by sort_desc a b =
     (let ai = sort_value a sort_by; aj = sort_value b sort_by in
      if ai = aj then (if sort_desc then bd_key a < bd_key b else bd_key b < bd_key a)
      else if sort_desc then aj < ai
      else ai < aj)"

section \<open>Page tokens\<close>

definition parse_page_token :: "string \<Rightarrow> int res" where
  "parse_page_token token =
     (let token = trim_space token in
      if token = [] then Inr 0
      else case atoi token of
             None \<Rightarrow> Inl (Error ''invalid page_token'')
           | Some offset \<Rightarrow> if offset < 0 then Inl (Error ''invalid page_token'') else Inr offset)"

definition format_page_token :: "int \<Rightarrow> string" where
  "format_page_token offset = (if offset \<le> 0 then [] else itoa offset)"

definition breakdown_all ::
  "ctx \<Rightarrow> event_log_filter \<Rightarrow> string \<Rightarrow> string \<Rightarrow> bool \<Rightarrow> bool \<Rightarrow> log_mem \<Rightarrow> breakdown list res" where
  "breakdown_all c f group_by sort_by sort_desc include_latency m =
     bind_res (list_event_logs c (unpaged f) m)
       (\<lambda>filtered.
          let (grouped, latencies) = fold (group_step group_by include_latency) filtered ([], []);
              out = map (finish_group include_latency latencies) (mvals grouped)
          in Inr (sort_slice (breakdown_less sort_by sort_desc) out))"

definition get_event_log_breakdown ::
  "ctx \<Rightarrow> event_log_filter \<Rightarrow> string \<Rightarrow> string \<Rightarrow> bool \<Rightarrow> int \<Rightarrow> string \<Rightarrow> bool \<Rightarrow> log_mem \<Rightarrow>
     (breakdown list \<times> string) res" where
  "get_event_log_breakdown c f group_by sort_by sort_desc page_size page_token include_latency m =
     bind_res (breakdown_all c f group_by sort_by sort_desc include_latency m) (\<lambda>out.
     bind_res (parse_page_token page_token) (\<lambda>offset.
       let page_size = (if page_size \<le> 0 then 50 else page_size);
           len = int (length out);
           offset = (if len < offset then len else offset);
           stop = (if len < offset + page_size then len else offset + page_size);
           next_token = (if stop < len then format_page_token stop else [])
       in Inr (take (nat (stop - offset)) (drop (nat offset) out), next_token)))"

subsection \<open>Rounding\<close>

lemma bit_len_0 [simp]: "bit_len 0 = 0"
  by (simp add: bit_len.simps [of 0])

lemma bit_len_bounds: "0 < n \<Longrightarrow> 2 ^ (bit_len n - 1) \<le> n \<and> n < 2 ^ bit_len n \<and> 0 < bit_len n"
proof (induction n rule: bit_len.induct)
  case (1 n)
  show ?case
  proof (cases "n div 2 = 0")
    case True
    with 1(2) have "n = 1" by simp
    moreover have "bit_len 1 = 1" by code_simp
    ultimately show ?thesis by simp
  next
    case False
    with 1 have ih: "2 ^ (bit_len (n div 2) - 1) \<le> n div 2" "n div 2 < 2 ^ bit_len (n div 2)" "0 < bit_len (n div 2)"
      by auto
    obtain b where b: "bit_len (n div 2) = Suc b" using ih(3) by (cases "bit_len (n div 2)") auto
    have "bit_len n = Suc (Suc b)" using 1(2) b by (simp add: bit_len.simps [of n])
    with ih b show ?thesis by auto
  qed
qed

lemma bit_len_mono: "m \<le> n \<Longrightarrow> bit_len m \<le> bit_len n"
proof (cases "m = 0")
  case False
  assume "m \<le> n"
  with False bit_len_bounds [of m] bit_len_bounds [of n]
  have "(2::nat) ^ (bit_len m - 1) < 2 ^ bit_len n" by linarith
  then have "bit_len m - 1 < bit_len n" by (simp add: power_less_imp_less_exp)
  then show ?thesis by simp
qed simp

definition rounded :: "nat \<Rightarrow> nat \<Rightarrow> nat" where
  "rounded e n = (let q = n div 2 ^ e; r = n mod 2 ^ e in if 2 ^ (e - 1) < r \<or> r = 2 ^ (e - 1) \<and> odd q then q + 1 else q)"

lemma round_53_rounded: "round_53 n = (if bit_len n - 53 = 0 then n else rounded (bit_len n - 53) n * 2 ^ (bit_len n - 53))"
  by (simp add: round_53_def rounded_def Let_def)

lemma rounded_bounds: "n div 2 ^ e \<le> rounded e n" "rounded e n \<le> n div 2 ^ e + 1"
  by (auto simp: rounded_def Let_def)

lemma rounded_mono: "m \<le> n \<Longrightarrow> rounded e m \<le> rounded e n"
proof (cases "m div 2 ^ e = n div 2 ^ e")
  case True
  assume "m \<le> n"
  have "m = m div 2 ^ e * 2 ^ e + m mod 2 ^ e" "n = m div 2 ^ e * 2 ^ e + n mod 2 ^ e"
    using True by (metis div_mult_mod_eq)+
  with \<open>m \<le> n\<close> have "m mod 2 ^ e \<le> n mod 2 ^ e" by linarith
  with True show ?thesis unfolding rounded_def Let_def by auto
next
  case False
  assume "m \<le> n"
  with False have "m div 2 ^ e + 1 \<le> n div 2 ^ e" by (metis Suc_eq_plus1 Suc_leI div_le_mono le_neq_implies_less)
  with rounded_bounds(2) [of e m] rounded_bounds(1) [of n e] show ?thesis by linarith
qed

lemma round_53_mono:
  assumes "m \<le> n"
  shows "round_53 m \<le> round_53 n"
proof -
  let ?e = "bit_len m - 53" and ?d = "bit_len n - 53"
  have le: "?e \<le> ?d" using bit_len_mono [OF assms] by simp
  have upper: "round_53 m \<le> 2 ^ (?e + 53)" if "0 < m"
  proof -
    have lt: "m < 2 ^ (?e + 53)"
      using bit_len_bounds [OF that] by (meson le_diff_conv less_le_trans one_le_numeral order_refl power_increasing)
    then have "m div 2 ^ ?e < 2 ^ 53" by (simp add: less_mult_imp_div_less power_add mult.commute)
    then have "rounded ?e m \<le> 2 ^ 53" using rounded_bounds(2) [of ?e m] by linarith
    then have "rounded ?e m * 2 ^ ?e \<le> 2 ^ 53 * 2 ^ ?e" by (rule mult_le_mono1)
    then have "?e \<noteq> 0 \<Longrightarrow> ?thesis" by (simp only: round_53_rounded if_False power_add mult.commute)
    moreover have "?e = 0 \<Longrightarrow> ?thesis" using lt by (simp add: round_53_rounded)
    ultimately show ?thesis by blast
  qed
  consider "?e = ?d" | "?e < ?d" using le by linarith
  then show ?thesis
  proof cases
    case 1
    with assms rounded_mono [OF assms, of ?e] show ?thesis by (simp add: round_53_rounded)
  next
    case 2
    then have d: "?d = bit_len n - 53" "53 < bit_len n" by auto
    then have n: "0 < n" by (cases n) simp_all
    have "2 ^ (?d + 52) \<le> n" using bit_len_bounds [OF n] d by simp
    then have "2 ^ 52 \<le> n div 2 ^ ?d"
      by (simp add: less_eq_div_iff_mult_less_eq power_add mult.commute)
    then have "2 ^ 52 \<le> rounded ?d n" using rounded_bounds(1) [of n ?d] by linarith
    then have lower: "2 ^ 52 * 2 ^ ?d \<le> round_53 n" using d(2) by (simp add: round_53_rounded)
    show ?thesis
    proof (cases "m = 0")
      case False
      have "round_53 m \<le> 2 ^ (?e + 53)" using upper False by simp
      also have "\<dots> \<le> 2 ^ (?d + 52)" by (rule power_increasing) (use 2 in auto)
      also have "\<dots> \<le> round_53 n" using lower by (simp add: power_add mult.commute)
      finally show ?thesis .
    qed (simp add: round_53_def)
  qed
qed

lemma percentile_member: "values \<noteq> [] \<Longrightarrow> percentile values p \<in> set values"
  by (auto simp: percentile_def Let_def)

lemma percentile_mono:
  assumes "sorted values" "values \<noteq> []" "0 < fst p" "fst p \<le> fst q" "fst q < 2 ^ snd q" "snd p = snd q"
  shows "percentile values p \<le> percentile values q"
proof -
  let ?k = "length values - 1"
  have "float_index ?k p \<le> float_index ?k q"
    unfolding float_index_def assms(6) by (intro div_le_mono round_53_mono mult_le_mono2 assms(4))
  with assms show ?thesis
    by (auto simp: percentile_def Let_def not_le intro!: sorted_nth_mono)
qed

text \<open>
  The latency percentiles of a group are latencies of that group, and the median is at
  most the 95th percentile, which is at most the 99th, in spite of the rounding of the float64 index.
\<close>

theorem percentiles_ordered:
  assumes "ls \<noteq> []"
  shows "let values = sort_slice (<) ls in
     percentile values p50 \<in> set ls \<and> percentile values p95 \<in> set ls \<and> percentile values p99 \<in> set ls \<and>
     percentile values p50 \<le> percentile values p95 \<and> percentile values p95 \<le> percentile values p99"
proof -
  let ?v = "sort_slice (<) ls"
  have "sorted_wrt (\<le>) ?v"
    using sorted_sort_slice [OF strict_weak_key(1) [of "\<lambda>x. x"], of ls] by (simp add: not_less)
  moreover have "?v \<noteq> []" using assms by (metis length_0_conv length_sort_slice)
  moreover from this have "percentile ?v p \<in> set ls" for p
    using percentile_member [of ?v p] by simp
  ultimately show ?thesis
    unfolding Let_def by (auto intro!: percentile_mono simp: p50_def p95_def p99_def)
qed

theorem percentiles_ordered_witness:
  "let values = sort_slice (<) [120, 30, 45 :: int] in
     percentile values p50 \<in> set [120, 30, 45] \<and> percentile values p50 \<le> percentile values p95"
  using percentiles_ordered [of "[120, 30, 45]"] by (simp add: Let_def)

subsection \<open>Grouping\<close>

definition usable :: "string \<Rightarrow> event_log \<Rightarrow> bool" where
  "usable group_by r \<longleftrightarrow> trim_space (breakdown_key r group_by) \<noteq> []"

definition group_counter :: "(breakdown \<Rightarrow> int) \<Rightarrow> (event_log \<Rightarrow> bool) \<Rightarrow> bool" where
  "group_counter g P \<longleftrightarrow> (\<forall>k. g (new_group k) = 0) \<and> (\<forall>r e. g (count_group r e) = g e + (if P r then 1 else 0)) \<and>
     (\<forall>i l e. g (finish_group i l e) = g e)"

lemma group_counters:
  "group_counter bd_events (\<lambda>r. True)" "group_counter bd_matched el_matched"
  "group_counter bd_failed (\<lambda>r. equal_fold (el_status r) ''failed'')"
  by (auto simp: group_counter_def new_group_def count_group_def finish_group_def Let_def
      split: option.splits list.splits)

lemma group_keys [simp]:
  "bd_key (new_group k) = k" "bd_key (count_group r e) = bd_key e" "bd_key (finish_group i l e) = bd_key e"
  by (auto simp: new_group_def count_group_def finish_group_def Let_def split: option.splits list.splits)

definition groups_ok :: "breakdown gmap \<Rightarrow> bool" where
  "groups_ok g \<longleftrightarrow> wf_map g \<and> (\<forall>k. bd_key (group_entry g k) = k)"

lemma fst_group_step:
  "fst (group_step gb i r gl) =
     (if usable gb r
      then mput (breakdown_key r gb) (count_group r (group_entry (fst gl) (breakdown_key r gb))) (fst gl)
      else fst gl)"
  by (auto simp: group_step_def usable_def Let_def split: prod.split)

lemma group_entry_mput [simp]: "group_entry (mput k e g) k' = (if k' = k then e else group_entry g k')"
  by (simp add: group_entry_def)

lemma group_fold:
  "groups_ok (fst gl) \<Longrightarrow> groups_ok (fst (fold (group_step gb i) rs gl)) \<and>
     set (mkeys (fst (fold (group_step gb i) rs gl))) =
       set (mkeys (fst gl)) \<union> {breakdown_key r gb |r. r \<in> set rs \<and> usable gb r}"
proof (induction rs arbitrary: gl)
  case (Cons r rs)
  have "groups_ok (fst (group_step gb i r gl))"
    using Cons.prems by (simp add: fst_group_step groups_ok_def)
  from Cons.IH [OF this] show ?case
    by (auto simp: fst_group_step)
qed simp

lemma group_fold_counter:
  "group_counter g P \<Longrightarrow> g (group_entry (fst (fold (group_step gb i) rs gl)) k) = g (group_entry (fst gl) k) +
     int (length (filter (\<lambda>r. usable gb r \<and> P r \<and> breakdown_key r gb = k) rs))"
proof (induction rs arbitrary: gl)
  case (Cons r rs)
  have "g (group_entry (fst (group_step gb i r gl)) k) =
      g (group_entry (fst gl) k) + (if usable gb r \<and> P r \<and> breakdown_key r gb = k then 1 else 0)"
    using Cons.prems by (simp add: fst_group_step group_counter_def)
  with Cons show ?case by simp
qed simp

lemma mvals_group_entry:
  "groups_ok g \<Longrightarrow> e \<in> set (mvals g) \<Longrightarrow> e = group_entry g (bd_key e)"
proof -
  assume ok: "groups_ok g" and "e \<in> set (mvals g)"
  then obtain k where "(k, e) \<in> set g" by (auto simp: in_mvals)
  with ok have "group_entry g k = e" by (simp add: groups_ok_def group_entry_def flip: mget_iff)
  with ok show ?thesis by (metis groups_ok_def)
qed

lemma mvals_bd_keys: "groups_ok g \<Longrightarrow> map bd_key (mvals g) = mkeys g"
proof -
  assume ok: "groups_ok g"
  have "bd_key e = k" if "(k, e) \<in> set g" for k e
  proof -
    have "group_entry g k = e" using that ok by (simp add: groups_ok_def group_entry_def flip: mget_iff)
    with ok show ?thesis by (metis groups_ok_def)
  qed
  then show ?thesis by (auto simp: mvals_def mkeys_def)
qed

lemma breakdown_less_strict_weak: "strict_weak (breakdown_less sort_by desc)"
  unfolding strict_weak_def breakdown_less_def Let_def
  by (intro conjI allI impI; cases desc) (auto split: if_splits)

lemma breakdown_less_total:
  "\<not> breakdown_less s d b a \<Longrightarrow> bd_key a \<noteq> bd_key b \<Longrightarrow> breakdown_less s d a b"
  by (auto simp: breakdown_less_def Let_def split: if_splits)

lemma sorted_breakdown:
  assumes "distinct (map bd_key xs)"
  shows "sorted_wrt (breakdown_less s d) (sort_slice (breakdown_less s d) xs)"
proof -
  let ?s = "sort_slice (breakdown_less s d) xs"
  have "mset (map bd_key ?s) = mset (map bd_key xs)" by simp
  then have "distinct (map bd_key ?s)" using assms by (rule mset_eq_imp_distinct_iff [THEN iffD2])
  moreover have "sorted_wrt (\<lambda>a b. \<not> breakdown_less s d b a) ?s"
    by (rule sorted_sort_slice [OF breakdown_less_strict_weak])
  moreover have "distinct (map bd_key ys) \<Longrightarrow> sorted_wrt (\<lambda>a b. \<not> breakdown_less s d b a) ys \<Longrightarrow>
      sorted_wrt (breakdown_less s d) ys" for ys
    by (induction ys) (auto intro: breakdown_less_total)
  ultimately show ?thesis by blast
qed

lemma breakdown_all_props:
  assumes "breakdown_all c f gb sb d i m = Inr out"
  defines "rs \<equiv> filter (\<lambda>r. log_matches (filter_tenant c f) f r \<and> usable gb r) m"
  shows "distinct (map bd_key out)" and "set (map bd_key out) = (\<lambda>r. breakdown_key r gb) ` set rs"
    and "sorted_wrt (breakdown_less sb d) out"
    and "group_counter g P \<Longrightarrow> e \<in> set out \<Longrightarrow>
           g e = int (length (filter (\<lambda>r. P r \<and> breakdown_key r gb = bd_key e) rs))"
proof -
  let ?fs = "filter (log_matches (filter_tenant c f) f) m"
  let ?s = "sort_slice (\<lambda>a b. el_created b < el_created a) ?fs"
  let ?gl = "fold (group_step gb i) ?s ([], [])"
  have out: "out = sort_slice (breakdown_less sb d) (map (finish_group i (snd ?gl)) (mvals (fst ?gl)))"
    using assms(1) by (simp add: breakdown_all_def list_event_logs_unpaged Let_def case_prod_beta)
  have ok: "groups_ok (fst ?gl)" and keys: "set (mkeys (fst ?gl)) = (\<lambda>r. breakdown_key r gb) ` set rs"
    using group_fold [of "([], [])" gb i ?s]
    by (auto simp: groups_ok_def group_entry_def mkeys_def rs_def)
  have ks: "map bd_key (map (finish_group i (snd ?gl)) (mvals (fst ?gl))) = mkeys (fst ?gl)"
    using mvals_bd_keys [OF ok] by (simp add: o_def)
  have "distinct (mkeys (fst ?gl))" using ok by (simp add: groups_ok_def wf_map_def mkeys_def)
  then have dist: "distinct (map bd_key (map (finish_group i (snd ?gl)) (mvals (fst ?gl))))"
    unfolding ks .
  show "distinct (map bd_key out)"
    unfolding out by (rule mset_eq_imp_distinct_iff [THEN iffD2, OF _ dist]) (simp only: mset_map mset_sort_slice)
  show "set (map bd_key out) = (\<lambda>r. breakdown_key r gb) ` set rs"
    unfolding keys [symmetric] ks [symmetric] out by (simp only: set_map set_sort_slice)
  show "sorted_wrt (breakdown_less sb d) out"
    unfolding out by (rule sorted_breakdown [OF dist])
  assume gc: "group_counter g P" and "e \<in> set out"
  then obtain x where x: "x \<in> set (mvals (fst ?gl))" "e = finish_group i (snd ?gl) x"
    by (auto simp: out)
  have "g e = g (group_entry (fst ?gl) (bd_key x))"
    using gc x mvals_group_entry [OF ok x(1)] by (simp add: group_counter_def)
  also have "\<dots> = int (length (filter (\<lambda>r. usable gb r \<and> P r \<and> breakdown_key r gb = bd_key e) ?s))"
    using group_fold_counter [OF gc, of gb i ?s "([], [])" "bd_key x"] gc x(2)
    by (simp add: group_entry_def group_counter_def)
  also have "length (filter (\<lambda>r. usable gb r \<and> P r \<and> breakdown_key r gb = bd_key e) ?s) =
      length (filter (\<lambda>r. usable gb r \<and> P r \<and> breakdown_key r gb = bd_key e) ?fs)"
    by (rule length_filter_sort_slice)
  also have "filter (\<lambda>r. usable gb r \<and> P r \<and> breakdown_key r gb = bd_key e) ?fs =
      filter (\<lambda>r. P r \<and> breakdown_key r gb = bd_key e) rs"
    unfolding rs_def filter_filter by (rule filter_cong) auto
  finally show "g e = int (length (filter (\<lambda>r. P r \<and> breakdown_key r gb = bd_key e) rs))" .
qed

text \<open>
  A breakdown has one entry for each non-blank key among the selected records, in the
  strict order asked for, and the event, match and failure counts of an entry are those of the records
  with its key.
\<close>

theorem breakdown_correct:
  "\<exists>out. breakdown_all c f gb sort_by desc lat m = Inr out \<and>
     (let rs = filter (\<lambda>r. log_matches (filter_tenant c f) f r \<and> trim_space (breakdown_key r gb) \<noteq> []) m;
          of_key = (\<lambda>e. filter (\<lambda>r. breakdown_key r gb = bd_key e) rs)
      in distinct (map bd_key out) \<and> set (map bd_key out) = (\<lambda>r. breakdown_key r gb) ` set rs \<and>
         sorted_wrt (breakdown_less sort_by desc) out \<and>
         map bd_events out = map (\<lambda>e. int (length (of_key e))) out \<and>
         map bd_matched out = map (\<lambda>e. int (length (filter el_matched (of_key e)))) out \<and>
         map bd_failed out = map (\<lambda>e. int (length (filter (\<lambda>r. equal_fold (el_status r) ''failed'') (of_key e)))) out)"
proof -
  obtain out where out: "breakdown_all c f gb sort_by desc lat m = Inr out"
    by (simp add: breakdown_all_def list_event_logs_unpaged Let_def case_prod_beta)
  note props = breakdown_all_props [OF out, unfolded usable_def]
  show ?thesis
    unfolding Let_def
    using props(1-3) props(4) [OF group_counters(1)] props(4) [OF group_counters(2)] props(4) [OF group_counters(3)]
    by (intro exI [of _ out] conjI out) (simp_all add: conj_ac)
qed

lemma parse_format_page_token:
  assumes "0 < i" "i < 2 ^ 63"
  shows "parse_page_token (format_page_token i) = Inr i"
proof -
  have "trim_space (itoa i) = itoa i"
    using assms by (simp add: itoa_def trim_space_digits nat_digits_is_digit)
  with assms show ?thesis
    using atoi_itoa [of i] by (auto simp: parse_page_token_def format_page_token_def itoa_def Let_def)
qed

text \<open>
  Page tokens resume where a page stopped: for the list of all entries, a page holds the
  next entries at the offset of its token, and when entries are left the token it returns is read as the
  offset after the page, otherwise it is empty.
\<close>

theorem breakdown_pages:
  fixes psize :: int
  assumes "breakdown_all c f gb sort_by desc lat m = Inr out" and "int (length out) < 2 ^ 63"
    and "parse_page_token token = Inr (int off)" and "off \<le> length out"
  defines "n \<equiv> (if psize \<le> 0 then 50 else nat psize)"
  shows "\<exists>next. get_event_log_breakdown c f gb sort_by desc psize token lat m = Inr (take n (drop off out), next) \<and>
     (if off + n < length out then parse_page_token next = Inr (int (off + n)) else next = [])"
proof -
  have n: "int n = (if psize \<le> 0 then 50 else psize)" "0 < n" by (auto simp: n_def)
  show ?thesis
  proof (cases "off + n < length out")
    case True
    then have "get_event_log_breakdown c f gb sort_by desc psize token lat m =
        Inr (take n (drop off out), format_page_token (int (off + n)))"
      using assms(1,3,4) unfolding get_event_log_breakdown_def Let_def n(1) [symmetric]
      by (simp add: nat_diff_distrib nat_add_distrib)
    moreover have "parse_page_token (format_page_token (int (off + n))) = Inr (int (off + n))"
      by (rule parse_format_page_token) (use True n(2) assms(2) in auto)
    ultimately show ?thesis using True by auto
  next
    case False
    then have "get_event_log_breakdown c f gb sort_by desc psize token lat m = Inr (take n (drop off out), [])"
      using assms(1,3,4) unfolding get_event_log_breakdown_def Let_def n(1) [symmetric]
      by (auto simp: nat_diff_distrib)
    with False show ?thesis by auto
  qed
qed

definition sample_logs :: log_mem where
  "sample_logs = map (\<lambda>p. zero_event_log\<lparr>el_provider := p\<rparr>) [''github'', ''gitlab'', ''github'', ''slack'']"

theorem breakdown_pages_witness:
  "\<exists>out next. breakdown_all background no_filter ''provider'' ''count'' True False sample_logs = Inr out \<and> length out = 3 \<and>
     get_event_log_breakdown background no_filter ''provider'' ''count'' True 2 [] False sample_logs = Inr (take 2 out, next) \<and>
     parse_page_token next = Inr 2"
proof -
  have "case breakdown_all background no_filter ''provider'' ''count'' True False sample_logs of
      Inl e \<Rightarrow> False | Inr out \<Rightarrow> length out = 3"
    by code_simp
  then obtain out where out:
    "breakdown_all background no_filter ''provider'' ''count'' True False sample_logs = Inr out" "length out = 3"
    by (auto split: sum.splits)
  have "parse_page_token [] = Inr (int 0)" by (simp add: parse_page_token_def)
  from breakdown_pages [OF out(1) _ this, of 2] out show ?thesis by auto
qed

end
