(* ===== verification/Api_Common.thy ===== *)
theory Api_Common
  imports Rule_Engine Event_Breakdown
begin

text \<open>
  What the services of \<^verbatim>\<open>pkg/api\<close> share: the outcome of a call and the conversion of records to
  messages (\<^verbatim>\<open>connect_conversions.go\<close>).

  A message is the record of the fields the conversion sets (the message types are generated from
  \<^verbatim>\<open>idl/cloud/v1/githooks.proto\<close>); a \<^verbatim>\<open>timestamppb.Timestamp\<close> is the instant it denotes, \<open>None\<close>
  the nil pointer.
\<close>

section \<open>Outcomes\<close>

text \<open>The codes of \<^verbatim>\<open>connect.NewError\<close> that the services use.\<close>

datatype rpc_code =
  CodeInvalidArgument | CodeNotFound | CodeAlreadyExists | CodePermissionDenied | CodeResourceExhausted
| CodeFailedPrecondition | CodeInternal | CodeUnauthenticated

type_synonym 'a rpc = "(rpc_code \<times> go_error) + 'a"

definition rpc_fail :: "rpc_code \<Rightarrow> string \<Rightarrow> 'a rpc" where
  "rpc_fail code msg = Inl (code, Error msg)"

section \<open>Time stamps\<close>

definition to_proto_timestamp :: "gtime \<Rightarrow> gtime option" where
  "to_proto_timestamp v = (if is_zero v then None else Some v)"

definition to_proto_timestamp_ptr :: "gtime option \<Rightarrow> gtime option" where
  "to_proto_timestamp_ptr v = (case v of None \<Rightarrow> None | Some t \<Rightarrow> if is_zero t then None else Some t)"

definition from_proto_timestamp :: "gtime option \<Rightarrow> gtime" where
  "from_proto_timestamp v = (case v of None \<Rightarrow> 0 | Some t \<Rightarrow> if is_zero t then 0 else t)"

definition from_proto_timestamp_ptr :: "gtime option \<Rightarrow> gtime option" where
  "from_proto_timestamp_ptr v = (case v of None \<Rightarrow> None | Some t \<Rightarrow> if is_zero t then None else Some t)"

lemma proto_timestamp_roundtrip [simp]: "from_proto_timestamp (to_proto_timestamp t) = t"
  by (simp add: from_proto_timestamp_def to_proto_timestamp_def is_zero_def)

section \<open>Messages\<close>

record match_msg =
  mm_when :: string
  mm_emit :: "string list"
  mm_driver_id :: string
  mm_transform_js :: string

definition to_proto_rule_matches :: "matched_rule list \<Rightarrow> match_msg list" where
  "to_proto_rule_matches ms =
     map (\<lambda>m. \<lparr>mm_when = mr_when m, mm_emit = mr_emit m, mm_driver_id = mr_driver_id m,
        mm_transform_js = mr_transform_js m\<rparr>) ms"

record rule_msg =
  rg_id :: string
  rg_when :: string
  rg_emit :: "string list"
  rg_driver_id :: string
  rg_transform_js :: string
  rg_created_at :: "gtime option"
  rg_updated_at :: "gtime option"

definition to_proto_rule_record :: "rule_record \<Rightarrow> rule_msg" where
  "to_proto_rule_record r =
     \<lparr>rg_id = rr_id r, rg_when = rr_when r, rg_emit = rr_emit r, rg_driver_id = rr_driver_id r,
      rg_transform_js = rr_transform_js r, rg_created_at = to_proto_timestamp (rr_created_at r),
      rg_updated_at = to_proto_timestamp (rr_updated_at r)\<rparr>"

definition to_proto_rule_records :: "rule_record list \<Rightarrow> rule_msg list" where
  "to_proto_rule_records rs = map to_proto_rule_record rs"

record driver_msg =
  dg_id :: string
  dg_name :: string
  dg_config_json :: string
  dg_enabled :: bool
  dg_created_at :: "gtime option"
  dg_updated_at :: "gtime option"

definition to_proto_driver_record :: "driver_record \<Rightarrow> driver_msg" where
  "to_proto_driver_record r =
     \<lparr>dg_id = dr_id r, dg_name = dr_name r, dg_config_json = dr_config_json r, dg_enabled = dr_enabled r,
      dg_created_at = to_proto_timestamp (dr_created_at r), dg_updated_at = to_proto_timestamp (dr_updated_at r)\<rparr>"

definition to_proto_driver_records :: "driver_record list \<Rightarrow> driver_msg list" where
  "to_proto_driver_records rs = map to_proto_driver_record rs"

record install_msg =
  ig_provider :: string
  ig_account_id :: string
  ig_account_name :: string
  ig_installation_id :: string
  ig_access_token :: string
  ig_refresh_token :: string
  ig_expires_at :: "gtime option"
  ig_metadata_json :: string
  ig_created_at :: "gtime option"
  ig_updated_at :: "gtime option"
  ig_instance_key :: string
  ig_enterprise_id :: string
  ig_enterprise_slug :: string
  ig_enterprise_name :: string

definition to_proto_installation :: "install_record \<Rightarrow> install_msg" where
  "to_proto_installation r =
     \<lparr>ig_provider = in_provider r, ig_account_id = in_account_id r, ig_account_name = in_account_name r,
      ig_installation_id = in_installation_id r, ig_access_token = in_access_token r,
      ig_refresh_token = in_refresh_token r, ig_expires_at = to_proto_timestamp_ptr (in_expires_at r),
      ig_metadata_json = in_metadata_json r, ig_created_at = to_proto_timestamp (in_created_at r),
      ig_updated_at = to_proto_timestamp (in_updated_at r), ig_instance_key = in_instance_key r,
      ig_enterprise_id = in_enterprise_id r, ig_enterprise_slug = in_enterprise_slug r,
      ig_enterprise_name = in_enterprise_name r\<rparr>"

definition to_proto_installations :: "install_record list \<Rightarrow> install_msg list" where
  "to_proto_installations rs = map to_proto_installation rs"

record namespace_msg =
  ng_provider :: string
  ng_repo_id :: string
  ng_account_id :: string
  ng_installation_id :: string
  ng_owner :: string
  ng_repo_name :: string
  ng_full_name :: string
  ng_visibility :: string
  ng_default_branch :: string
  ng_http_url :: string
  ng_ssh_url :: string
  ng_webhooks_enabled :: bool
  ng_created_at :: "gtime option"
  ng_updated_at :: "gtime option"

definition to_proto_namespace :: "namespace_record \<Rightarrow> namespace_msg" where
  "to_proto_namespace r =
     \<lparr>ng_provider = ns_provider r, ng_repo_id = ns_repo_id r, ng_account_id = ns_account_id r,
      ng_installation_id = ns_installation_id r, ng_owner = ns_owner r, ng_repo_name = ns_repo_name r,
      ng_full_name = ns_full_name r, ng_visibility = ns_visibility r, ng_default_branch = ns_default_branch r,
      ng_http_url = ns_http_url r, ng_ssh_url = ns_ssh_url r, ng_webhooks_enabled = ns_webhooks_enabled r,
      ng_created_at = to_proto_timestamp (ns_created_at r), ng_updated_at = to_proto_timestamp (ns_updated_at r)\<rparr>"

definition to_proto_namespaces :: "namespace_record list \<Rightarrow> namespace_msg list" where
  "to_proto_namespaces rs = map to_proto_namespace rs"

text \<open>Unlike the others, this conversion gives a time stamp even for a zero time.\<close>

record provider_msg =
  pg_provider :: string
  pg_hash :: string
  pg_config_json :: string
  pg_enabled :: bool
  pg_redirect_base_url :: string
  pg_created_at :: "gtime option"
  pg_updated_at :: "gtime option"

definition to_proto_provider_record :: "instance_record \<Rightarrow> provider_msg" where
  "to_proto_provider_record r =
     \<lparr>pg_provider = pi_provider r, pg_hash = pi_key r, pg_config_json = pi_config_json r, pg_enabled = pi_enabled r,
      pg_redirect_base_url = pi_redirect_base_url r, pg_created_at = Some (pi_created_at r),
      pg_updated_at = Some (pi_updated_at r)\<rparr>"

definition to_proto_provider_records :: "instance_record list \<Rightarrow> provider_msg list" where
  "to_proto_provider_records rs = map to_proto_provider_record rs"

end
