(* ===== verification/Worker_Subscriber.thy ===== *)
theory Worker_Subscriber
  imports Driver_Cache
begin

text \<open>
  Subscribers of the Go worker SDK: \<^verbatim>\<open>sdk/go/worker/config.go\<close>, \<^verbatim>\<open>driver_config.go\<close>,
  \<^verbatim>\<open>subscriber.go\<close>. The API checks the driver of a new rule by building one.

  The Relaybus adapters and \<^verbatim>\<open>encoding/json\<close> on the three sections are parameters. Starting a
  subscriber is modelled up to the call of its adapter: the adapter's configuration and topic, or the
  error before it.
\<close>

section \<open>Configuration\<close>

record sub_kafka =
  sk_brokers :: "string list"
  sk_broker :: string
  sk_group_id :: string
  sk_topic_prefix :: string
  sk_max_messages :: int

record sub_nats =
  sn_url :: string
  sn_subject_prefix :: string
  sn_max_messages :: int

record sub_amqp =
  sa_url :: string
  sa_exchange :: string
  sa_routing_key :: string
  sa_queue :: string
  sa_auto_ack :: bool
  sa_max_messages :: int

record subscriber_config =
  sc_driver :: string
  sc_drivers :: "string list"
  sc_kafka :: sub_kafka
  sc_nats :: sub_nats
  sc_amqp :: sub_amqp

definition zero_subscriber :: subscriber_config where
  "zero_subscriber =
     \<lparr>sc_driver = [], sc_drivers = [],
      sc_kafka = \<lparr>sk_brokers = [], sk_broker = [], sk_group_id = [], sk_topic_prefix = [], sk_max_messages = 0\<rparr>,
      sc_nats = \<lparr>sn_url = [], sn_subject_prefix = [], sn_max_messages = 0\<rparr>,
      sc_amqp = \<lparr>sa_url = [], sa_exchange = [], sa_routing_key = [], sa_queue = [], sa_auto_ack = False,
                 sa_max_messages = 0\<rparr>\<rparr>"

record sub_codec =
  sj_amqp :: "string \<Rightarrow> sub_amqp \<Rightarrow> sub_amqp res"
  sj_nats :: "string \<Rightarrow> sub_nats \<Rightarrow> sub_nats res"
  sj_kafka :: "string \<Rightarrow> sub_kafka \<Rightarrow> sub_kafka res"

definition sub_unmarshal :: "(string \<Rightarrow> 'a \<Rightarrow> 'a res) \<Rightarrow> string \<Rightarrow> 'a \<Rightarrow> 'a res" where
  "sub_unmarshal dec raw0 target = (let raw = trim_space raw0 in if raw = [] then Inr target else dec raw target)"

definition sub_apply_config :: "sub_codec \<Rightarrow> string \<Rightarrow> string \<Rightarrow> subscriber_config \<Rightarrow> subscriber_config res" where
  "sub_apply_config codec name raw cfg =
     (let d = to_lower (trim_space name) in
      if d = ''amqp'' then bind_res (sub_unmarshal (sj_amqp codec) raw (sc_amqp cfg)) (\<lambda>v. Inr (cfg\<lparr>sc_amqp := v\<rparr>))
      else if d = ''nats'' then bind_res (sub_unmarshal (sj_nats codec) raw (sc_nats cfg)) (\<lambda>v. Inr (cfg\<lparr>sc_nats := v\<rparr>))
      else if d = ''kafka'' then bind_res (sub_unmarshal (sj_kafka codec) raw (sc_kafka cfg)) (\<lambda>v. Inr (cfg\<lparr>sc_kafka := v\<rparr>))
      else Inl (Error (''unsupported driver: '' @ name)))"

definition subscriber_config_from_driver :: "sub_codec \<Rightarrow> string \<Rightarrow> string \<Rightarrow> subscriber_config res" where
  "subscriber_config_from_driver codec driver0 raw =
     (let driver = to_lower (trim_space driver0) in
      if driver = [] then Inl (Error ''driver is required'')
      else sub_apply_config codec driver raw (zero_subscriber\<lparr>sc_driver := driver\<rparr>))"

section \<open>Building\<close>

text \<open>The set \<^verbatim>\<open>seen\<close> of the loop holds the elements of \<open>out\<close>.\<close>

fun unique_strings_loop :: "string list \<Rightarrow> string list \<Rightarrow> string list" where
  "unique_strings_loop [] out = out"
| "unique_strings_loop (v0 # vs) out =
     (let v = to_lower (trim_space v0) in
      if v = [] \<or> v \<in> set out then unique_strings_loop vs out else unique_strings_loop vs (out @ [v]))"

definition unique_strings :: "string list \<Rightarrow> string list" where
  "unique_strings vs = unique_strings_loop vs []"

definition is_subscriber_driver_supported :: "string \<Rightarrow> bool" where
  "is_subscriber_driver_supported driver \<longleftrightarrow> to_lower driver \<in> {''amqp'', ''nats'', ''kafka''}"

datatype subscriber = RelaybusSub string subscriber_config | MultiSub "(string \<times> subscriber) list"

definition new_single_subscriber :: "subscriber_config \<Rightarrow> string \<Rightarrow> subscriber res" where
  "new_single_subscriber cfg driver0 =
     (let driver = to_lower (trim_space driver0) in
      if \<not> is_subscriber_driver_supported driver then Inl (Error (''unsupported subscriber driver: '' @ driver))
      else Inr (RelaybusSub driver cfg))"

fun build_subs :: "subscriber_config \<Rightarrow> string list \<Rightarrow> (string \<times> subscriber) list res" where
  "build_subs cfg [] = Inr []"
| "build_subs cfg (d # ds) =
     bind_res (new_single_subscriber cfg d) (\<lambda>s. bind_res (build_subs cfg ds) (\<lambda>ss. Inr ((d, s) # ss)))"

definition subscriber_drivers :: "subscriber_config \<Rightarrow> string list" where
  "subscriber_drivers cfg =
     (let drivers = unique_strings (sc_drivers cfg) in
      if sc_driver cfg \<noteq> [] then unique_strings (drivers @ [sc_driver cfg]) else drivers)"

definition build_subscriber :: "subscriber_config \<Rightarrow> subscriber res" where
  "build_subscriber cfg =
     (case subscriber_drivers cfg of
        [] \<Rightarrow> Inl (Error ''at least one driver is required'')
      | [d] \<Rightarrow> new_single_subscriber cfg d
      | ds \<Rightarrow> bind_res (build_subs cfg ds) (\<lambda>subs. Inr (MultiSub subs)))"

text \<open>Closing a Relaybus subscriber does nothing; closing several closes each and gives the first error.\<close>

fun close_subscriber :: "subscriber \<Rightarrow> go_error option" where
  "close_subscriber (RelaybusSub d cfg) = None"
| "close_subscriber (MultiSub subs) =
     foldl (\<lambda>first (d, s). case close_subscriber s of
                             Some err \<Rightarrow> if first = None then Some err else first
                           | None \<Rightarrow> first) None subs"

definition validate_subscriber :: "sub_codec \<Rightarrow> string \<Rightarrow> string \<Rightarrow> go_error option" where
  "validate_subscriber codec driver raw =
     (case subscriber_config_from_driver codec driver raw of
        Inl err \<Rightarrow> Some err
      | Inr cfg \<Rightarrow>
          (case build_subscriber cfg of
             Inl err \<Rightarrow> Some err
           | Inr sub \<Rightarrow> close_subscriber sub))"

section \<open>Starting\<close>

text \<open>The adapter a Relaybus subscriber asks for, and the topic it subscribes to.\<close>

datatype sub_backend = SubAmqp sub_amqp | SubNats sub_nats | SubKafka sub_kafka

definition relaybus_start :: "string \<Rightarrow> subscriber_config \<Rightarrow> string \<Rightarrow> (sub_backend \<times> string) res" where
  "relaybus_start driver cfg topic =
     (if driver = ''amqp'' then
        (if sa_url (sc_amqp cfg) = [] then Inl (Error ''amqp url is required'') else Inr (SubAmqp (sc_amqp cfg), topic))
      else if driver = ''nats'' then
        (if sn_url (sc_nats cfg) = [] then Inl (Error ''nats url is required'') else Inr (SubNats (sc_nats cfg), topic))
      else if driver = ''kafka'' then
        Inr (SubKafka (sc_kafka cfg),
             if sk_topic_prefix (sc_kafka cfg) \<noteq> [] then sk_topic_prefix (sc_kafka cfg) @ topic else topic)
      else Inl (Error (''unsupported subscriber driver: '' @ driver)))"

text \<open>What a subscriber of several drivers puts into the metadata of a message before it hands it on.\<close>

definition tag_driver :: "string \<Rightarrow> string gmap option \<Rightarrow> string gmap" where
  "tag_driver driver meta0 =
     (let meta = (case meta0 of None \<Rightarrow> [] | Some m \<Rightarrow> m) in
      if driver \<noteq> [] then mput ''driver'' driver meta else meta)"

text \<open>The error of a run, from the errors of its subscribers in the order in which they end.\<close>

definition multi_start_error :: "go_error option list \<Rightarrow> go_error option" where
  "multi_start_error results = foldl (\<lambda>err sub_err. if sub_err \<noteq> None then join_err err sub_err else err) None results"

section \<open>Facts\<close>

lemma unique_strings_loop_props:
  "distinct out \<Longrightarrow> distinct (unique_strings_loop vs out) \<and>
     set (unique_strings_loop vs out) = set out \<union> ((\<lambda>v. to_lower (trim_space v)) ` set vs - {[]})"
  by (induction vs out rule: unique_strings_loop.induct) (auto simp: Let_def)

lemma unique_strings_props:
  "distinct (unique_strings vs)" "set (unique_strings vs) = (\<lambda>v. to_lower (trim_space v)) ` set vs - {[]}"
  using unique_strings_loop_props [of "[]" vs] by (simp_all add: unique_strings_def)

lemma sub_apply_config_driver:
  "sub_apply_config codec name raw cfg = Inr cfg' \<Longrightarrow>
     sc_driver cfg' = sc_driver cfg \<and> sc_drivers cfg' = sc_drivers cfg \<and>
     to_lower (trim_space name) \<in> {''amqp'', ''nats'', ''kafka''}"
  by (auto simp: sub_apply_config_def Let_def bind_res_Inr_iff split: if_splits)

lemma build_subs_ok:
  "list_all (\<lambda>d. is_subscriber_driver_supported (to_lower (trim_space d))) ds \<longleftrightarrow> (\<exists>subs. build_subs cfg ds = Inr subs)"
  by (induction ds) (auto simp: new_single_subscriber_def Let_def bind_res_Inr_iff)

end
