(* ===== verification/Rules_Service.thy ===== *)
theory Rules_Service
  imports Api_Common Worker_Subscriber Mem_Stores
begin

text \<open>
  The rule service of the API: \<^verbatim>\<open>pkg/api/rules_service.go\<close> and \<^verbatim>\<open>pkg/api/rule_subscriber.go\<close>.

  The rule store is a value of \<open>rule_ops\<close>, the operations of the interface over some state; the
  driver store is only read. The state of the service is that of the rule store and the rule engine.
  \<open>order\<close> is the order in which Go ranges over the map of rules grouped by tenant. Log lines are not
  modelled.
\<close>

section \<open>The service\<close>

record 's rule_ops =
  ro_list :: "ctx \<Rightarrow> 's \<Rightarrow> rule_record list res"
  ro_get :: "ctx \<Rightarrow> string \<Rightarrow> 's \<Rightarrow> rule_record option res"
  ro_create :: "ctx \<Rightarrow> string \<times> gtime \<times> gtime \<Rightarrow> rule_record \<Rightarrow> 's \<Rightarrow> rule_record res \<times> 's"
  ro_update :: "ctx \<Rightarrow> gtime \<times> gtime \<Rightarrow> rule_record \<Rightarrow> 's \<Rightarrow> rule_record res \<times> 's"
  ro_delete :: "ctx \<Rightarrow> string \<Rightarrow> 's \<Rightarrow> go_error option \<times> 's"

text \<open>\<open>None\<close> is a nil store or engine.\<close>

record ('e, 's) rules_service =
  rv_lib :: "'e rule_lib"
  rv_store :: "'s rule_ops option"
  rv_drivers :: driver_by_id
  rv_subscribers :: sub_codec
  rv_strict :: bool

record ('e, 's) rules_state =
  rt_store :: 's
  rt_engine :: "'e rule_engine option"

record rule_input =
  ru_when :: string
  ru_emit :: "string list"
  ru_driver_id :: string
  ru_transform_js :: string

section \<open>Validation\<close>

definition parse_rule_input :: "rule_input option \<Rightarrow> (string \<times> string list \<times> string \<times> string) res" where
  "parse_rule_input rule =
     (case rule of
        None \<Rightarrow> Inl (Error ''missing rule'')
      | Some r \<Rightarrow>
          (let driver_id = trim_space (ru_driver_id r) in
           if driver_id = [] then Inl (Error ''driver_id is required'')
           else case ru_emit r of
                  [raw] \<Rightarrow>
                    (let topic = trim_space raw in
                     if topic = [] then Inl (Error ''emit topic is required'')
                     else Inr (trim_space (ru_when r), [topic], driver_id, trim_space (ru_transform_js r)))
                | _ \<Rightarrow> Inl (Error ''emit must contain exactly one topic'')))"

definition core_rule :: "string \<Rightarrow> string \<Rightarrow> string list \<Rightarrow> string \<Rightarrow> string \<Rightarrow> string \<Rightarrow> rule" where
  "core_rule rid whn emit driver_id js driver_name =
     \<lparr>r_id = rid, r_when = whn, r_emit = emit, r_driver_id = driver_id, r_transform_js = js,
      r_driver_name = driver_name, r_driver_config_json = [], r_driver_enabled = False\<rparr>"

definition normalize_core_rule :: "string \<Rightarrow> string list \<Rightarrow> string \<Rightarrow> string \<Rightarrow> rule res" where
  "normalize_core_rule whn emit driver_name driver_id =
     bind_res (normalize_rules [core_rule [] (trim_space whn) emit driver_id [] driver_name]) (\<lambda>normalized.
       case normalized of
         [] \<Rightarrow> Inl (Error ''rule is empty'')
       | r # _ \<Rightarrow> Inr r)"

definition resolve_driver_name :: "ctx \<Rightarrow> driver_by_id \<Rightarrow> string \<Rightarrow> string res" where
  "resolve_driver_name c store driver_id =
     (if driver_id = [] then Inl (Error ''driver_id is required'')
      else case store of
             None \<Rightarrow> Inl (Error ''driver store not configured'')
           | Some get_by_id \<Rightarrow>
               (let trimmed = trim_space driver_id in
                if trimmed = [] then Inl (Error ''driver_id is required'')
                else bind_res (get_by_id c trimmed) (\<lambda>found.
                  case found of
                    None \<Rightarrow> Inl (Error (''driver not found: '' @ trimmed))
                  | Some r \<Rightarrow>
                      (let name = trim_space (dr_name r) in
                       if name = [] then Inl (Error (''driver '' @ trimmed @ '' has empty name''))
                       else Inr name))))"

text \<open>\<open>None\<close> is a nil error.\<close>

definition validate_rule_subscriber :: "sub_codec \<Rightarrow> ctx \<Rightarrow> driver_by_id \<Rightarrow> string \<Rightarrow> go_error option" where
  "validate_rule_subscriber codec c store driver_id =
     (case store of
        None \<Rightarrow> Some (Error ''driver store not configured'')
      | Some get_by_id \<Rightarrow>
          (let trimmed = trim_space driver_id in
           if trimmed = [] then Some (Error ''driver_id is required'')
           else case get_by_id c trimmed of
                  Inl err \<Rightarrow> Some err
                | Inr None \<Rightarrow> Some (Error (''driver not found: '' @ trimmed))
                | Inr (Some r) \<Rightarrow>
                    if \<not> dr_enabled r then Some (Error (''driver '' @ trimmed @ '' is disabled''))
                    else validate_subscriber codec (dr_name r) (dr_config_json r)))"

section \<open>Keeping the engine in step\<close>

definition load_engine_rule :: "ctx \<Rightarrow> driver_by_id \<Rightarrow> rule_record \<Rightarrow> rule option" where
  "load_engine_rule c drivers r =
     (case resolve_driver_name c drivers (rr_driver_id r) of
        Inl err \<Rightarrow> None
      | Inr name \<Rightarrow>
          Some (core_rule (rr_id r) (rr_when r) (rr_emit r) (rr_driver_id r) (trim_space (rr_transform_js r)) name))"

fun group_rules :: "ctx \<Rightarrow> driver_by_id \<Rightarrow> rule_record list \<Rightarrow> rule list gmap \<Rightarrow> rule list gmap" where
  "group_rules c drivers [] grouped = grouped"
| "group_rules c drivers (r # rs) grouped =
     (case load_engine_rule (with_tenant c (rr_tenant r)) drivers r of
        None \<Rightarrow> group_rules c drivers rs grouped
      | Some rule \<Rightarrow>
          group_rules c drivers rs
            (mput (rr_tenant r) ((case mget grouped (rr_tenant r) of None \<Rightarrow> [] | Some xs \<Rightarrow> xs) @ [rule]) grouped))"

fun update_tenants :: "'e rule_lib \<Rightarrow> bool \<Rightarrow> rule list gmap \<Rightarrow> 'e rule_engine \<Rightarrow> go_error option \<times> 'e rule_engine" where
  "update_tenants lib strict [] eng = (None, eng)"
| "update_tenants lib strict ((tenant_id, rules) # groups) eng =
     (case normalize_rules rules of
        Inl err \<Rightarrow> (Some err, eng)
      | Inr normalized \<Rightarrow>
          (case engine_update lib \<lparr>rc_rules = normalized, rc_strict = strict, rc_tenant_id = tenant_id\<rparr> eng of
             (Some err, eng') \<Rightarrow> (Some err, eng')
           | (None, eng') \<Rightarrow> update_tenants lib strict groups eng'))"

definition refresh_engine ::
  "('e, 's) rules_service \<Rightarrow> (rule list gmap \<Rightarrow> rule list gmap) \<Rightarrow> ctx \<Rightarrow> ('e, 's) rules_state \<Rightarrow>
     go_error option \<times> ('e, 's) rules_state" where
  "refresh_engine S order c st =
     (case (rv_store S, rt_engine st) of
        (Some ops, Some eng) \<Rightarrow>
          (case ro_list ops c (rt_store st) of
             Inl err \<Rightarrow> (Some err, st)
           | Inr records \<Rightarrow>
               (let tenant_id = tenant_from_context c in
                if tenant_id \<noteq> [] then
                  (case normalize_rules (List.map_filter (load_engine_rule c (rv_drivers S)) records) of
                     Inl err \<Rightarrow> (Some err, st)
                   | Inr normalized \<Rightarrow>
                       (case engine_update (rv_lib S)
                               \<lparr>rc_rules = normalized, rc_strict = rv_strict S, rc_tenant_id = tenant_id\<rparr> eng of
                          (err, eng') \<Rightarrow> (err, st\<lparr>rt_engine := Some eng'\<rparr>)))
                else
                  (case update_tenants (rv_lib S) (rv_strict S) (order (group_rules c (rv_drivers S) records [])) eng of
                     (err, eng') \<Rightarrow> (err, st\<lparr>rt_engine := Some eng'\<rparr>))))
      | _ \<Rightarrow> (None, st))"

section \<open>Calls\<close>

record match_request =
  mq_provider :: string
  mq_name :: string
  mq_payload :: string
  mq_rules :: "rule_input option list"
  mq_strict :: bool

definition inline_rules :: "rule_input option list \<Rightarrow> rule list" where
  "inline_rules rules =
     List.map_filter (map_option (\<lambda>r. core_rule [] (ru_when r) (ru_emit r) (trim_space (ru_driver_id r))
        (trim_space (ru_transform_js r)) [])) rules"

definition match_rules_rpc :: "'e rule_lib \<Rightarrow> match_request \<Rightarrow> match_msg list rpc outcome" where
  "match_rules_rpc lib req =
     (case new_rule_engine lib \<lparr>rc_rules = inline_rules (mq_rules req), rc_strict = mq_strict req, rc_tenant_id = []\<rparr> of
        Inl err \<Rightarrow> Return (Inl (CodeInvalidArgument, err))
      | Inr engine \<Rightarrow>
          map_outcome (\<lambda>ms. Inr (to_proto_rule_matches ms))
            (evaluate_rules_for_tenant lib
               (zero_event\<lparr>ev_provider := mq_provider req, ev_name := mq_name req, ev_raw_payload := mq_payload req\<rparr>)
               [] engine))"

definition list_rules_rpc :: "('e, 's) rules_service \<Rightarrow> ctx \<Rightarrow> ('e, 's) rules_state \<Rightarrow> rule_msg list rpc" where
  "list_rules_rpc S c st =
     (case rv_store S of
        None \<Rightarrow> rpc_fail CodeFailedPrecondition ''storage not configured''
      | Some ops \<Rightarrow>
          (case ro_list ops c (rt_store st) of
             Inl err \<Rightarrow> rpc_fail CodeInternal ''list rules failed''
           | Inr records \<Rightarrow> Inr (to_proto_rule_records records)))"

definition get_rule_rpc :: "('e, 's) rules_service \<Rightarrow> ctx \<Rightarrow> string \<Rightarrow> ('e, 's) rules_state \<Rightarrow> rule_msg rpc" where
  "get_rule_rpc S c rid st =
     (case rv_store S of
        None \<Rightarrow> rpc_fail CodeFailedPrecondition ''storage not configured''
      | Some ops \<Rightarrow>
          (case ro_get ops c (trim_space rid) (rt_store st) of
             Inl err \<Rightarrow> rpc_fail CodeInternal ''get rule failed''
           | Inr None \<Rightarrow> rpc_fail CodeNotFound ''rule not found''
           | Inr (Some r) \<Rightarrow> Inr (to_proto_rule_record r)))"

definition zero_rule_record :: rule_record where
  "zero_rule_record = \<lparr>rr_tenant = [], rr_id = [], rr_when = [], rr_emit = [], rr_driver_id = [],
     rr_transform_js = [], rr_driver_name = [], rr_driver_config_json = [], rr_driver_enabled = False,
     rr_created_at = 0, rr_updated_at = 0\<rparr>"

text \<open>The checks that \<^verbatim>\<open>CreateRule\<close> and \<^verbatim>\<open>UpdateRule\<close> share: the record they hand to the store.\<close>

definition checked_rule :: "('e, 's) rules_service \<Rightarrow> ctx \<Rightarrow> rule_input option \<Rightarrow> rule_record res" where
  "checked_rule S c incoming =
     bind_res (parse_rule_input incoming) (\<lambda>(whn, emit, driver_id, js).
     bind_res (resolve_driver_name c (rv_drivers S) driver_id) (\<lambda>driver_name.
     bind_res (normalize_core_rule whn emit driver_name driver_id) (\<lambda>normalized.
       Inr (zero_rule_record\<lparr>rr_when := r_when normalized, rr_emit := emit_values (r_emit normalized),
              rr_driver_id := driver_id, rr_transform_js := js\<rparr>))))"

definition create_rule_rpc ::
  "('e, 's) rules_service \<Rightarrow> (rule list gmap \<Rightarrow> rule list gmap) \<Rightarrow> string \<times> gtime \<times> gtime \<Rightarrow> ctx \<Rightarrow>
     rule_input option \<Rightarrow> ('e, 's) rules_state \<Rightarrow> rule_msg rpc \<times> ('e, 's) rules_state" where
  "create_rule_rpc S order clk c incoming st =
     (case rv_store S of
        None \<Rightarrow> (rpc_fail CodeFailedPrecondition ''storage not configured'', st)
      | Some ops \<Rightarrow>
          (case checked_rule S c incoming of
             Inl err \<Rightarrow> (Inl (CodeInvalidArgument, err), st)
           | Inr rec \<Rightarrow>
               (case ro_create ops c clk rec (rt_store st) of
                  (Inl err, s') \<Rightarrow> (rpc_fail CodeInternal ''create rule failed'', st\<lparr>rt_store := s'\<rparr>)
                | (Inr r, s') \<Rightarrow>
                    (let st = st\<lparr>rt_store := s'\<rparr> in
                     case validate_rule_subscriber (rv_subscribers S) c (rv_drivers S) (rr_driver_id rec) of
                       Some err \<Rightarrow> (rpc_fail CodeInternal ''rule subscriber validation failed'', st)
                     | None \<Rightarrow> (Inr (to_proto_rule_record r), snd (refresh_engine S order c st))))))"

definition update_rule_rpc ::
  "('e, 's) rules_service \<Rightarrow> (rule list gmap \<Rightarrow> rule list gmap) \<Rightarrow> gtime \<times> gtime \<Rightarrow> ctx \<Rightarrow> string \<Rightarrow>
     rule_input option \<Rightarrow> ('e, 's) rules_state \<Rightarrow> rule_msg rpc \<times> ('e, 's) rules_state" where
  "update_rule_rpc S order clk c rid incoming st =
     (case rv_store S of
        None \<Rightarrow> (rpc_fail CodeFailedPrecondition ''storage not configured'', st)
      | Some ops \<Rightarrow>
          (case ro_get ops c (trim_space rid) (rt_store st) of
             Inl err \<Rightarrow> (rpc_fail CodeInternal ''get rule failed'', st)
           | Inr None \<Rightarrow> (rpc_fail CodeNotFound ''rule not found'', st)
           | Inr (Some existing) \<Rightarrow>
               (case checked_rule S c incoming of
                  Inl err \<Rightarrow> (Inl (CodeInvalidArgument, err), st)
                | Inr rec \<Rightarrow>
                    (case ro_update ops c clk
                            (rec\<lparr>rr_id := trim_space rid, rr_created_at := rr_created_at existing\<rparr>) (rt_store st) of
                       (Inl err, s') \<Rightarrow> (rpc_fail CodeInternal ''update rule failed'', st\<lparr>rt_store := s'\<rparr>)
                     | (Inr r, s') \<Rightarrow>
                         (Inr (to_proto_rule_record r), snd (refresh_engine S order c (st\<lparr>rt_store := s'\<rparr>)))))))"

definition delete_rule_rpc ::
  "('e, 's) rules_service \<Rightarrow> (rule list gmap \<Rightarrow> rule list gmap) \<Rightarrow> ctx \<Rightarrow> string \<Rightarrow>
     ('e, 's) rules_state \<Rightarrow> unit rpc \<times> ('e, 's) rules_state" where
  "delete_rule_rpc S order c rid st =
     (case rv_store S of
        None \<Rightarrow> (rpc_fail CodeFailedPrecondition ''storage not configured'', st)
      | Some ops \<Rightarrow>
          (case ro_delete ops c (trim_space rid) (rt_store st) of
             (Some err, s') \<Rightarrow> (rpc_fail CodeInternal ''delete rule failed'', st\<lparr>rt_store := s'\<rparr>)
           | (None, s') \<Rightarrow> (Inr (), snd (refresh_engine S order c (st\<lparr>rt_store := s'\<rparr>)))))"

end
