(* ===== verification/Rules_Guarantees.thy ===== *)
theory Rules_Guarantees
  imports Rules_Service
begin

text \<open>
  What the rule service guarantees. The lemmas about a stored rule are proved for every rule store
  that keeps the contract \<open>rule_store\<close>; the properties are about the in-memory store, which the
  interpretation \<open>rmem\<close> shows to keep it.
\<close>

section \<open>Parts of the calls\<close>

lemma refresh_keeps_store [simp]: "rt_store (snd (refresh_engine S order c st)) = rt_store st"
  by (auto simp: refresh_engine_def Let_def split: option.split sum.split prod.split)

lemma refresh_no_engine: "rt_engine st = None \<Longrightarrow> snd (refresh_engine S order c st) = st"
  by (simp add: refresh_engine_def split: option.split)

text \<open>A stored rule that came through the checks of the service.\<close>

definition api_rule :: "rule_record \<Rightarrow> bool" where
  "api_rule r \<longleftrightarrow> trim_space (rr_when r) \<noteq> [] \<and> emit_values (rr_emit r) \<noteq> [] \<and> trim_space (rr_driver_id r) \<noteq> []"

lemma parse_rule_input_ok:
  "parse_rule_input inp = Inr (w, e, d, js) \<Longrightarrow> trimmed w \<and> trimmed d \<and> d \<noteq> [] \<and> (\<exists>t. e = [t] \<and> trimmed t \<and> t \<noteq> [])"
  by (auto simp: parse_rule_input_def Let_def split: option.splits list.splits if_splits)

lemma normalize_core_rule_ok:
  "normalize_core_rule w e name d = Inr r \<Longrightarrow> r = normalize_rule (core_rule [] (trim_space w) e d [] name) \<and> complete_rule r"
  by (auto simp: normalize_core_rule_def normalize_rules_def bind_res_Inr_iff complete_rule_def normalize_rule_def
      Let_def split: if_splits)

lemma checked_rule_ok:
  assumes "checked_rule S c inp = Inr rec"
  shows "rr_tenant rec = []" "rr_id rec = []" "api_rule rec" "trimmed (rr_driver_id rec)"
    "\<exists>name. resolve_driver_name c (rv_drivers S) (rr_driver_id rec) = Inr name"
proof -
  obtain w e d js name r where p: "parse_rule_input inp = Inr (w, e, d, js)"
    and d: "resolve_driver_name c (rv_drivers S) d = Inr name"
    and n: "normalize_core_rule w e name d = Inr r"
    and rec: "rec = zero_rule_record\<lparr>rr_when := r_when r, rr_emit := emit_values (r_emit r), rr_driver_id := d,
               rr_transform_js := js\<rparr>"
    using assms by (auto simp: checked_rule_def bind_res_Inr_iff)
  from parse_rule_input_ok [OF p] normalize_core_rule_ok [OF n] d
  show "rr_tenant rec = []" "rr_id rec = []" "api_rule rec" "trimmed (rr_driver_id rec)"
    "\<exists>name. resolve_driver_name c (rv_drivers S) (rr_driver_id rec) = Inr name"
    by (auto simp: rec zero_rule_record_def api_rule_def complete_rule_def normalize_rule_def core_rule_def trimmed_def)
qed

lemma load_engine_rule_complete: "load_engine_rule c drivers r = Some rule \<Longrightarrow> api_rule r \<Longrightarrow> complete_rule rule"
  by (auto simp: load_engine_rule_def api_rule_def complete_rule_def core_rule_def split: sum.splits)

lemma list_all_map_filter: "(\<And>x y. x \<in> set xs \<Longrightarrow> f x = Some y \<Longrightarrow> P y) \<Longrightarrow> list_all P (List.map_filter f xs)"
  by (auto simp: List.map_filter_def list_all_iff)

text \<open>A refresh for a tenant: either one rule does not compile, or the engine serves what the store lists.\<close>

lemma refresh_engine_tenant:
  assumes "rv_store S = Some ops" and "ro_list ops c (rt_store st) = Inr rs" and "rt_engine st = Some eng"
    and t: "tenant_from_context c \<noteq> []" and api: "\<forall>r \<in> set rs. api_rule r"
  shows "\<exists>eng'. rt_engine (snd (refresh_engine S order c st)) = Some eng' \<and>
    (case compile_rules (rv_lib S) (map normalize_rule (List.map_filter (load_engine_rule c (rv_drivers S)) rs)) of
       Inl err \<Rightarrow> eng' = eng
     | Inr cs \<Rightarrow> \<forall>t. engine_rules eng' t =
         (if trim_space t = tenant_from_context c then (if cs = [] then None else Some (cs, rv_strict S))
          else engine_rules eng t))"
proof -
  let ?rules = "List.map_filter (load_engine_rule c (rv_drivers S)) rs"
  have "list_all complete_rule ?rules"
    by (rule list_all_map_filter) (use api load_engine_rule_complete in blast)
  then have n: "normalize_rules ?rules = Inr (map normalize_rule ?rules)"
    using normalize_rules_from_cases [of 0 ?rules] by (simp add: normalize_rules_def)
  let ?cfg = "\<lparr>rc_rules = map normalize_rule ?rules, rc_strict = rv_strict S, rc_tenant_id = tenant_from_context c\<rparr>"
  obtain err eng' where u: "engine_update (rv_lib S) ?cfg eng = (err, eng')" by fastforce
  then have r: "rt_engine (snd (refresh_engine S order c st)) = Some eng'"
    using assms n by (simp add: refresh_engine_def Let_def)
  show ?thesis
  proof (cases "compile_rules (rv_lib S) (map normalize_rule ?rules)")
    case (Inl e)
    with u r show ?thesis by (simp add: engine_update_def)
  next
    case (Inr cs)
    then have "err = None" using u by (auto simp: engine_update_def Let_def t split: if_splits)
    with u engine_rules_update [of "rv_lib S" ?cfg eng eng' cs] Inr r show ?thesis by simp
  qed
qed

section \<open>Stored rules, for any rule store\<close>

context rule_store begin

lemma create_rpc_stored:
  assumes "rv_store S = Some \<lparr>ro_list = list_rules, ro_get = get_rule, ro_create = create_rule,
             ro_update = update_rule, ro_delete = delete_rule\<rparr>"
    and "inv (rt_store st)" and "create_rule_rpc S order clk c inp st = (Inr msg, st')"
  shows "inv (rt_store st') \<and> (\<exists>r. msg = to_proto_rule_record r \<and> get_rule c (rr_id r) (rt_store st') = Inr (Some r))"
proof -
  obtain rec r s' where rec: "checked_rule S c inp = Inr rec" "create_rule c clk rec (rt_store st) = (Inr r, s')"
    and m: "msg = to_proto_rule_record r" "rt_store st' = s'"
    using assms(1,3) by (auto simp: create_rule_rpc_def Let_def rpc_fail_def split: sum.splits prod.splits option.splits)
  have "rr_tenant rec \<in> {[], tenant_from_context c}" using checked_rule_ok(1) [OF rec(1)] by simp
  from create_ok [OF assms(2) rec(2) this] m show ?thesis by blast
qed

lemma update_rpc_stored:
  assumes "rv_store S = Some \<lparr>ro_list = list_rules, ro_get = get_rule, ro_create = create_rule,
             ro_update = update_rule, ro_delete = delete_rule\<rparr>"
    and "inv (rt_store st)" and "update_rule_rpc S order clk2 c rid inp st = (Inr msg, st')"
  shows "inv (rt_store st') \<and>
    (\<exists>r. msg = to_proto_rule_record r \<and> rr_id r = trim_space rid \<and> get_rule c (trim_space rid) (rt_store st') = Inr (Some r)) \<and>
    (\<forall>i. i \<noteq> trim_space rid \<longrightarrow> get_rule c i (rt_store st') = get_rule c i (rt_store st))"
proof -
  obtain ex where ex: "get_rule c (trim_space rid) (rt_store st) = Inr (Some ex)"
    using assms(1,3) by (auto simp: update_rule_rpc_def rpc_fail_def split: sum.splits option.splits)
  obtain rec where rec: "checked_rule S c inp = Inr rec"
    using assms(1,3) ex by (auto simp: update_rule_rpc_def split: sum.splits)
  define rec' where "rec' = rec\<lparr>rr_id := trim_space rid, rr_created_at := rr_created_at ex\<rparr>"
  obtain r s' where u: "update_rule c clk2 rec' (rt_store st) = (Inr r, s')"
    and m: "msg = to_proto_rule_record r" "rt_store st' = s'"
    using assms(1,3) ex rec
    by (auto simp: update_rule_rpc_def rpc_fail_def rec'_def [symmetric] split: sum.splits prod.splits)
  have "rr_tenant rec' \<in> {[], tenant_from_context c}" "rr_id rec' = trim_space rid"
    using checked_rule_ok(1) [OF rec] by (simp_all add: rec'_def)
  with update_ok [OF assms(2) u] m show ?thesis by auto
qed

lemma delete_rpc_gone:
  assumes "rv_store S = Some \<lparr>ro_list = list_rules, ro_get = get_rule, ro_create = create_rule,
             ro_update = update_rule, ro_delete = delete_rule\<rparr>"
    and "inv (rt_store st)" and "delete_rule_rpc S order c rid st = (Inr u, st')"
  shows "inv (rt_store st') \<and> get_rule c (trim_space rid) (rt_store st') = Inr None \<and>
    (\<forall>i. i \<noteq> trim_space rid \<longrightarrow> get_rule c i (rt_store st') = get_rule c i (rt_store st))"
proof -
  obtain s' where d: "delete_rule c (trim_space rid) (rt_store st) = (None, s')" and m: "rt_store st' = s'"
    using assms(1,3) by (auto simp: delete_rule_rpc_def Let_def rpc_fail_def split: prod.splits option.splits)
  from delete_ok [OF assms(2) d] m show ?thesis by blast
qed

end

section \<open>The service over the in-memory store\<close>

definition mem_rule_ops :: "rule_mem rule_ops" where
  "mem_rule_ops = \<lparr>ro_list = list_rules, ro_get = get_rule, ro_create = create_rule, ro_update = update_rule,
     ro_delete = delete_rule\<rparr>"

datatype rules_call =
  CreateCall "string \<times> gtime \<times> gtime" "rule_input option"
| UpdateCall "gtime \<times> gtime" string "rule_input option"
| DeleteCall string

fun rpc_error :: "'a rpc \<Rightarrow> (rpc_code \<times> go_error) option" where
  "rpc_error (Inl err) = Some err"
| "rpc_error (Inr x) = None"

fun do_rules_call ::
  "('e, 's) rules_service \<Rightarrow> (rule list gmap \<Rightarrow> rule list gmap) \<Rightarrow> ctx \<Rightarrow> rules_call \<Rightarrow> ('e, 's) rules_state \<Rightarrow>
     (rpc_code \<times> go_error) option \<times> ('e, 's) rules_state" where
  "do_rules_call S order c (CreateCall clk inp) st = (case create_rule_rpc S order clk c inp st of (r, st') \<Rightarrow> (rpc_error r, st'))"
| "do_rules_call S order c (UpdateCall clk rid inp) st = (case update_rule_rpc S order clk c rid inp st of (r, st') \<Rightarrow> (rpc_error r, st'))"
| "do_rules_call S order c (DeleteCall rid) st = (case delete_rule_rpc S order c rid st of (r, st') \<Rightarrow> (rpc_error r, st'))"

text \<open>A sequence of calls, each with its own context.\<close>

fun rules_calls ::
  "('e, 's) rules_service \<Rightarrow> (rule list gmap \<Rightarrow> rule list gmap) \<Rightarrow> (ctx \<times> rules_call) list \<Rightarrow> ('e, 's) rules_state \<Rightarrow>
     ('e, 's) rules_state" where
  "rules_calls S order [] st = st"
| "rules_calls S order ((c, call) # calls) st = rules_calls S order calls (snd (do_rules_call S order c call st))"

definition api_inv :: "rule_mem \<Rightarrow> bool" where
  "api_inv m \<longleftrightarrow> rule_inv m \<and> (\<forall>r \<in> set (mvals m). api_rule r)"

lemma api_inv_put:
  assumes "api_inv m" "api_rule (rule_prepared c rec)" "put_rule c clk (rule_prepared c rec\<lparr>rr_id := i\<rparr>) m = (Inr r, m')"
  shows "api_inv m'"
proof -
  have r: "api_rule r" "m' = mput (rr_id r) r m"
    using assms(2,3) by (auto simp: put_rule_def Let_def api_rule_def split: if_splits)
  have "rule_inv m'" using assms(1) unfolding r(2) api_inv_def by (intro rule_inv_put) simp
  moreover have "set (mvals m') \<subseteq> insert r (set (mvals m))"
    using assms(1) by (auto simp: r(2) api_inv_def rule_inv_def in_mvals set_mput)
  ultimately show ?thesis using assms(1) r(1) by (auto simp: api_inv_def)
qed

lemma api_rule_prepared: "api_rule rec \<Longrightarrow> api_rule (rule_prepared c rec)"
  by (auto simp: api_rule_def rule_prepared_def Let_def)

lemma api_inv_ops:
  assumes "api_inv m"
  shows "api_rule rec \<Longrightarrow> api_inv (snd (create_rule c clk rec m))"
    and "api_rule rec \<Longrightarrow> api_inv (snd (update_rule c clk2 rec m))"
    and "api_inv (snd (delete_rule c rid m))"
proof -
  assume "api_rule rec"
  note p = api_rule_prepared [OF this, of c]
  let ?p = "rule_prepared c rec"
  have i: "(if rr_id ?p = [] then ?p\<lparr>rr_id := fst clk\<rparr> else ?p) = ?p\<lparr>rr_id := if rr_id ?p = [] then fst clk else rr_id ?p\<rparr>"
    "?p = ?p\<lparr>rr_id := rr_id ?p\<rparr>" by simp_all
  obtain r m1 where "put_rule c (snd clk) (?p\<lparr>rr_id := if rr_id ?p = [] then fst clk else rr_id ?p\<rparr>) m = (Inr r, m1)"
    by (auto simp: put_rule_def Let_def)
  from api_inv_put [OF assms p this] this show "api_inv (snd (create_rule c clk rec m))"
    unfolding create_rule_def Let_def i(1) by simp
  obtain r2 m2 where u: "put_rule c clk2 ?p m = (Inr r2, m2)" by (auto simp: put_rule_def Let_def)
  then have "put_rule c clk2 (?p\<lparr>rr_id := rr_id ?p\<rparr>) m = (Inr r2, m2)" by simp
  from api_inv_put [OF assms p this] u show "api_inv (snd (update_rule c clk2 rec m))"
    by (simp add: update_rule_def)
next
  show "api_inv (snd (delete_rule c rid m))"
    using assms by (auto simp: api_inv_def delete_rule_def rule_inv_del in_mvals set_mdel rule_inv_def)
qed

lemma api_rule_id [simp]: "api_rule (r\<lparr>rr_id := i, rr_created_at := t\<rparr>) = api_rule r"
  by (simp add: api_rule_def)

lemma api_inv_call:
  assumes "rv_store S = Some mem_rule_ops" "api_inv (rt_store st)"
  shows "api_inv (rt_store (snd (do_rules_call S order c call st)))"
proof (cases call)
  case (CreateCall clk inp)
  show ?thesis
  proof (cases "checked_rule S c inp")
    case (Inr rec)
    with api_inv_ops(1) [OF assms(2) checked_rule_ok(3) [OF Inr], of c clk] CreateCall assms show ?thesis
      by (auto simp: create_rule_rpc_def mem_rule_ops_def Let_def split: prod.splits sum.splits option.splits)
  qed (use CreateCall assms in \<open>simp add: create_rule_rpc_def\<close>)
next
  case (UpdateCall clk rid inp)
  show ?thesis
  proof (cases "checked_rule S c inp")
    case (Inr rec)
    have "api_inv (snd (update_rule c clk (rec\<lparr>rr_id := trim_space rid, rr_created_at := t\<rparr>) (rt_store st)))" for t
      by (rule api_inv_ops(2) [OF assms(2)]) (simp add: checked_rule_ok(3) [OF Inr])
    with Inr UpdateCall assms show ?thesis
      by (simp add: update_rule_rpc_def mem_rule_ops_def split: prod.splits sum.splits option.splits) (metis snd_conv)
  qed (use UpdateCall assms in \<open>auto simp: update_rule_rpc_def split: sum.splits option.splits\<close>)
next
  case (DeleteCall rid)
  with api_inv_ops(3) [OF assms(2), of c "trim_space rid"] assms show ?thesis
    by (auto simp: delete_rule_rpc_def mem_rule_ops_def delete_rule_def)
qed

lemma api_inv_calls:
  "rv_store S = Some mem_rule_ops \<Longrightarrow> api_inv (rt_store st) \<Longrightarrow> api_inv (rt_store (rules_calls S order calls st))"
  by (induction S order calls st rule: rules_calls.induct) (simp_all add: api_inv_call)

lemma api_inv_Nil [simp]: "api_inv []"
  by (simp add: api_inv_def rule_inv_def mvals_def)

lemma refresh_keeps_engine: "rt_engine st \<noteq> None \<Longrightarrow> rt_engine (snd (refresh_engine S order c st)) \<noteq> None"
  by (auto simp: refresh_engine_def Let_def split: option.split sum.split prod.split)

lemma call_state:
  "rt_engine (snd (do_rules_call S order c call st)) = rt_engine st \<or>
   (\<exists>s'. snd (do_rules_call S order c call st) = snd (refresh_engine S order c (st\<lparr>rt_store := s'\<rparr>)))"
  by (cases call)
     (auto simp: create_rule_rpc_def update_rule_rpc_def delete_rule_rpc_def Let_def
        split: option.split sum.split prod.split)

lemma call_keeps_engine:
  assumes "rt_engine st \<noteq> None"
  shows "rt_engine (snd (do_rules_call S order c call st)) \<noteq> None"
  using call_state [of S order c call st]
proof
  assume "\<exists>s'. snd (do_rules_call S order c call st) = snd (refresh_engine S order c (st\<lparr>rt_store := s'\<rparr>))"
  then obtain s' where s': "snd (do_rules_call S order c call st) = snd (refresh_engine S order c (st\<lparr>rt_store := s'\<rparr>))" ..
  show ?thesis unfolding s' by (rule refresh_keeps_engine) (simp add: assms del: not_None_eq)
qed (simp add: assms del: not_None_eq)

lemma calls_keep_engine: "rt_engine st \<noteq> None \<Longrightarrow> rt_engine (rules_calls S order calls st) \<noteq> None"
  by (induction S order calls st rule: rules_calls.induct) (simp_all add: call_keeps_engine del: not_None_eq)

lemma successful_call:
  assumes "do_rules_call S order c call st = (None, st')"
  shows "\<exists>s'. st' = snd (refresh_engine S order c (st\<lparr>rt_store := s'\<rparr>))"
  using assms
  by (cases call)
     (auto simp: create_rule_rpc_def update_rule_rpc_def delete_rule_rpc_def rpc_fail_def Let_def
        split: option.splits sum.splits prod.splits)


definition sample_driver :: driver_record where
  "sample_driver = \<lparr>dr_tenant = ''acme'', dr_id = ''d1'', dr_name = ''amqp'', dr_config_json = [], dr_enabled = True,
     dr_created_at = 1, dr_updated_at = 1\<rparr>"

definition sample_service :: "(unit, rule_mem) rules_service" where
  "sample_service = \<lparr>rv_lib = trivial_lib, rv_store = Some mem_rule_ops,
     rv_drivers = Some (\<lambda>c i. Inr (if i = ''d1'' then Some sample_driver else None)),
     rv_subscribers = \<lparr>sj_amqp = \<lambda>s v. Inr v, sj_nats = \<lambda>s v. Inr v, sj_kafka = \<lambda>s v. Inr v\<rparr>, rv_strict = True\<rparr>"

definition sample_input :: rule_input where
  "sample_input = \<lparr>ru_when = ''action == 1'', ru_emit = [''pr.opened''], ru_driver_id = ''d1'', ru_transform_js = []\<rparr>"

definition sample_start :: "(unit, rule_mem) rules_state" where
  "sample_start = \<lparr>rt_store = [], rt_engine = Some \<lparr>re_rules = [], re_strict = True, re_tenant = None\<rparr>\<rparr>"


section \<open>Failures that leave traces\<close>

lemma compile_rules_Inl: "r \<in> set rs \<Longrightarrow> compile_rule lib r = Inl e \<Longrightarrow> \<exists>e'. compile_rules lib rs = Inl e'"
proof (induction rs)
  case (Cons x rs)
  then show ?case by (cases "compile_rule lib x") auto
qed simp

lemma set_map_filter: "y \<in> set (List.map_filter f xs) \<longleftrightarrow> (\<exists>x \<in> set xs. f x = Some y)"
  by (force simp: List.map_filter_def)

text \<open>
  The service accepts a rule without compiling its condition, and one rule that does not
  compile freezes its tenant: as long as the store lists it and its driver resolves, no successful
  call of the tenant changes what the engine evaluates.
\<close>

theorem broken_rule_freezes_tenant:
  assumes "rv_store S = Some mem_rule_ops" and "tenant_from_context c \<noteq> []"
    and "do_rules_call S order c call (rules_calls S order calls \<lparr>rt_store = [], rt_engine = Some start_eng\<rparr>) = (None, st')"
    and "list_rules c (rt_store st') = Inr rs" and "r \<in> set rs"
    and "load_engine_rule c (rv_drivers S) r = Some rule" and "compile_rule (rv_lib S) (normalize_rule rule) = Inl e"
  shows "rt_engine st' = rt_engine (rules_calls S order calls \<lparr>rt_store = [], rt_engine = Some start_eng\<rparr>)"
proof -
  define st where "st = rules_calls S order calls \<lparr>rt_store = [], rt_engine = Some start_eng\<rparr>"
  have call: "do_rules_call S order c call st = (None, st')" using assms(3) by (simp add: st_def)
  have "api_inv (rt_store st)" unfolding st_def by (rule api_inv_calls [OF assms(1)]) simp
  from api_inv_call [OF assms(1) this, of order c call] call have inv: "api_inv (rt_store st')" by simp
  have "rt_engine st \<noteq> None" unfolding st_def by (rule calls_keep_engine) simp
  then obtain eng where eng: "rt_engine st = Some eng" by blast
  from successful_call [OF call] obtain s' where s': "st' = snd (refresh_engine S order c (st\<lparr>rt_store := s'\<rparr>))"
    by blast
  then have "rt_store (st\<lparr>rt_store := s'\<rparr>) = rt_store st'" by simp
  then have l: "ro_list mem_rule_ops c (rt_store (st\<lparr>rt_store := s'\<rparr>)) = Inr rs"
    using assms(4) by (simp add: mem_rule_ops_def)
  have a: "\<forall>r \<in> set rs. api_rule r" using inv assms(4) by (auto simp: api_inv_def list_rules_def)
  have "normalize_rule rule \<in> set (map normalize_rule (List.map_filter (load_engine_rule c (rv_drivers S)) rs))"
    unfolding set_map by (rule imageI) (use assms(5,6) in \<open>auto simp: set_map_filter\<close>)
  from compile_rules_Inl [OF this assms(7)] obtain e'
    where "compile_rules (rv_lib S) (map normalize_rule (List.map_filter (load_engine_rule c (rv_drivers S)) rs)) = Inl e'" ..
  with refresh_engine_tenant [OF assms(1) l _ assms(2) a, of eng order] eng s' show ?thesis
    unfolding st_def [symmetric] by simp
qed

definition picky_service :: "(unit, rule_mem) rules_service" where
  "picky_service = sample_service\<lparr>rv_lib := trivial_lib\<lparr>gv_compile := \<lambda>s fns. if s = ''1 +'' then Inl (Error ''bad'') else Inr ()\<rparr>\<rparr>"

theorem broken_rule_freezes_tenant_witness:
  "\<exists>st'. do_rules_call picky_service id ''acme'' (CreateCall (''r2'', 7, 8) (Some sample_input))
      (rules_calls picky_service id [(''acme'', CreateCall (''r1'', 5, 6) (Some (sample_input\<lparr>ru_when := ''1 +''\<rparr>)))] sample_start)
      = (None, st') \<and> rt_engine st' = rt_engine sample_start"
proof -
  let ?bad = "[(''acme'', CreateCall (''r1'', 5, 6) (Some (sample_input\<lparr>ru_when := ''1 +''\<rparr>)))]"
  let ?good = "CreateCall (''r2'', 7, 8) (Some sample_input)"
  let ?st = "rules_calls picky_service id ?bad sample_start"
  let ?st' = "snd (do_rules_call picky_service id ''acme'' ?good ?st)"
  let ?r = "\<lparr>rr_tenant = ''acme'', rr_id = ''r1'', rr_when = ''1 +'', rr_emit = [''pr.opened''], rr_driver_id = ''d1'',
     rr_transform_js = [], rr_driver_name = [], rr_driver_config_json = [], rr_driver_enabled = False,
     rr_created_at = 5, rr_updated_at = 6\<rparr>"
  have ok: "fst (do_rules_call picky_service id ''acme'' ?good ?st) = None" by code_simp
  then have c: "do_rules_call picky_service id ''acme'' ?good ?st = (None, ?st')" by (metis prod.collapse)
  have m: "mvals (rt_store ?st') = [?r, ?r\<lparr>rr_id := ''r2'', rr_when := ''action == 1'', rr_created_at := 7, rr_updated_at := 8\<rparr>]"
    by code_simp
  have t: "tenant_from_context ''acme'' = ''acme''" by code_simp
  have l: "list_rules ''acme'' (rt_store ?st') = Inr (mvals (rt_store ?st'))"
    unfolding list_rules_def m by (simp add: tenant_visible_def t)
  have lr: "load_engine_rule ''acme'' (rv_drivers picky_service) ?r
      = Some (core_rule ''r1'' ''1 +'' [''pr.opened''] ''d1'' [] ''amqp'')" by code_simp
  have cr: "compile_rule (rv_lib picky_service) (normalize_rule (core_rule ''r1'' ''1 +'' [''pr.opened''] ''d1'' [] ''amqp'')) = Inl (Error ''bad'')"
    by code_simp
  have rv: "rv_store picky_service = Some mem_rule_ops" by (simp add: picky_service_def sample_service_def)
  have t': "tenant_from_context ''acme'' \<noteq> []" by (simp add: t)
  have "?r \<in> set (mvals (rt_store ?st'))" unfolding m by simp
  from broken_rule_freezes_tenant [OF rv t' c [unfolded sample_start_def] l [unfolded sample_start_def]
      this [unfolded sample_start_def] lr cr]
  have "rt_engine ?st' = rt_engine ?st" unfolding sample_start_def .
  moreover have "rt_engine ?st = rt_engine sample_start" by code_simp
  ultimately have "rt_engine ?st' = rt_engine sample_start" by (rule trans)
  with c show ?thesis by blast
qed

text \<open>
  A create call that fails because the driver of the rule has no usable subscriber has
  stored the rule all the same: the store lists it for the caller, and its driver resolves, so the
  next refresh serves it.
\<close>

theorem failed_create_persists:
  assumes "rv_store S = Some mem_rule_ops" and "rule_inv (rt_store st)"
    and "create_rule_rpc S order clk c (Some inp) st = (Inl (CodeInternal, e), st')"
  shows "\<exists>rs r. list_rules c (rt_store st') = Inr rs \<and> r \<in> set rs \<and> rr_driver_id r = trim_space (ru_driver_id inp) \<and>
    load_engine_rule c (rv_drivers S) r \<noteq> None \<and>
    validate_rule_subscriber (rv_subscribers S) c (rv_drivers S) (rr_driver_id r) \<noteq> None"
proof -
  obtain rec where rec: "checked_rule S c (Some inp) = Inr rec"
    using assms(1,3) by (cases "checked_rule S c (Some inp)") (simp_all add: create_rule_rpc_def)
  obtain r m' where cr: "create_rule c clk rec (rt_store st) = (Inr r, m')"
    by (auto simp: create_rule_def put_rule_def Let_def)
  then have v: "validate_rule_subscriber (rv_subscribers S) c (rv_drivers S) (rr_driver_id rec) \<noteq> None"
    and m': "rt_store st' = m'"
    using assms(1,3) rec by (auto simp: create_rule_rpc_def mem_rule_ops_def Let_def split: option.splits)
  have d: "rr_driver_id rec = trim_space (ru_driver_id inp)"
    using rec by (auto simp: checked_rule_def bind_res_Inr_iff parse_rule_input_def zero_rule_record_def Let_def
        split: list.splits if_splits)
  have "rr_driver_id r = trim_space (rr_driver_id rec)"
    using cr by (auto simp: create_rule_def put_rule_def rule_prepared_def Let_def split: if_splits)
  then have rd: "rr_driver_id r = rr_driver_id rec" by (simp add: d)
  have "rr_tenant rec \<in> {[], tenant_from_context c}" using checked_rule_ok(1) [OF rec] by simp
  from rmem.created_rule_listed [OF assms(2) cr this] obtain rs where "list_rules c m' = Inr rs" "r \<in> set rs" by blast
  moreover have "load_engine_rule c (rv_drivers S) r \<noteq> None"
    using checked_rule_ok(5) [OF rec] by (auto simp: load_engine_rule_def rd)
  ultimately show ?thesis using v d m' rd by auto
qed

definition http_service :: "(unit, rule_mem) rules_service" where
  "http_service = sample_service\<lparr>rv_drivers := Some (\<lambda>c i. Inr (Some (sample_driver\<lparr>dr_name := ''http''\<rparr>)))\<rparr>"

theorem failed_create_persists_witness:
  "\<exists>e st' rs r. create_rule_rpc http_service id (''r1'', 5, 6) ''acme'' (Some sample_input) sample_start = (Inl (CodeInternal, e), st') \<and>
     list_rules ''acme'' (rt_store st') = Inr rs \<and> r \<in> set rs \<and> rr_driver_id r = ''d1''"
proof -
  have "case create_rule_rpc http_service id (''r1'', 5, 6) ''acme'' (Some sample_input) sample_start of
      (Inl (code, e), st') \<Rightarrow> code = CodeInternal | _ \<Rightarrow> False"
    by code_simp
  then obtain e st' where c: "create_rule_rpc http_service id (''r1'', 5, 6) ''acme'' (Some sample_input) sample_start = (Inl (CodeInternal, e), st')"
    by (auto split: prod.splits sum.splits)
  have d: "trim_space (ru_driver_id sample_input) = ''d1''" by code_simp
  show ?thesis
    using failed_create_persists [OF _ _ c] c
    by (simp add: http_service_def sample_service_def sample_start_def rule_inv_def d) blast
qed

end
