(* ===== verification/Base64.thy ===== *)
theory Base64
  imports Go_Prelude
begin

text \<open>
  \<^verbatim>\<open>encoding/base64\<close> of the Go library, as the API uses it for page tokens (\<^verbatim>\<open>StdEncoding\<close>) and the
  OAuth flow for its state (\<^verbatim>\<open>RawURLEncoding\<close>). The decoder skips line breaks and does not look at the
  bits of the last digit that are not used.
\<close>

section \<open>Alphabets\<close>

text \<open>The alphabet with \<open>c62\<close> and \<open>c63\<close> as its last digits.\<close>

definition b64_char :: "char \<Rightarrow> char \<Rightarrow> nat \<Rightarrow> char" where
  "b64_char c62 c63 n =
     (if n < 26 then char_of (65 + n) else if n < 52 then char_of (71 + n) else if n < 62 then char_of (n - 4)
      else if n = 62 then c62 else c63)"

definition b64_val :: "char \<Rightarrow> char \<Rightarrow> char \<Rightarrow> nat option" where
  "b64_val c62 c63 c =
     (let n = (of_char c :: nat) in
      if 65 \<le> n \<and> n \<le> 90 then Some (n - 65) else if 97 \<le> n \<and> n \<le> 122 then Some (n - 71)
      else if 48 \<le> n \<and> n \<le> 57 then Some (n + 4) else if c = c62 then Some 62 else if c = c63 then Some 63 else None)"

record b64 =
  b64_62 :: char
  b64_63 :: char
  b64_padded :: bool

definition std_encoding :: b64 where
  "std_encoding = \<lparr>b64_62 = CHR ''+'', b64_63 = CHR ''/'', b64_padded = True\<rparr>"

definition raw_url_encoding :: b64 where
  "raw_url_encoding = \<lparr>b64_62 = CHR ''-'', b64_63 = CHR ''_'', b64_padded = False\<rparr>"

section \<open>Encoding and decoding\<close>

fun b64_encode :: "b64 \<Rightarrow> string \<Rightarrow> string" where
  "b64_encode e [] = []"
| "b64_encode e [x] =
     (let a = (of_char x :: nat); ch = b64_char (b64_62 e) (b64_63 e) in
      [ch (a div 4), ch (a mod 4 * 16)] @ (if b64_padded e then ''=='' else []))"
| "b64_encode e [x, y] =
     (let a = (of_char x :: nat); b = (of_char y :: nat); ch = b64_char (b64_62 e) (b64_63 e) in
      [ch (a div 4), ch (a mod 4 * 16 + b div 16), ch (b mod 16 * 4)] @ (if b64_padded e then ''='' else []))"
| "b64_encode e (x # y # z # s) =
     (let a = (of_char x :: nat); b = (of_char y :: nat); c = (of_char z :: nat); ch = b64_char (b64_62 e) (b64_63 e) in
      [ch (a div 4), ch (a mod 4 * 16 + b div 16), ch (b mod 16 * 4 + c div 64), ch (c mod 64)] @ b64_encode e s)"

definition b64_bytes :: "nat list \<Rightarrow> string option" where
  "b64_bytes ds =
     (case ds of
        [a, b] \<Rightarrow> Some [char_of (a * 4 + b div 16)]
      | [a, b, c] \<Rightarrow> Some [char_of (a * 4 + b div 16), char_of (b mod 16 * 16 + c div 4)]
      | [a, b, c, d] \<Rightarrow>
          Some [char_of (a * 4 + b div 16), char_of (b mod 16 * 16 + c div 4), char_of (c mod 4 * 64 + d)]
      | _ \<Rightarrow> None)"

fun b64_digits :: "b64 \<Rightarrow> string \<Rightarrow> nat list option" where
  "b64_digits e [] = Some []"
| "b64_digits e (c # s) =
     (case b64_val (b64_62 e) (b64_63 e) c of
        None \<Rightarrow> None
      | Some v \<Rightarrow> map_option (Cons v) (b64_digits e s))"

definition b64_quantum :: "b64 \<Rightarrow> string \<Rightarrow> string option" where
  "b64_quantum e s = (case b64_digits e s of None \<Rightarrow> None | Some ds \<Rightarrow> b64_bytes ds)"

fun b64_decode_clean :: "b64 \<Rightarrow> string \<Rightarrow> string option" where
  "b64_decode_clean e [] = Some []"
| "b64_decode_clean e [w] = None"
| "b64_decode_clean e [w, x] = (if b64_padded e then None else b64_quantum e [w, x])"
| "b64_decode_clean e [w, x, y] = (if b64_padded e then None else b64_quantum e [w, x, y])"
| "b64_decode_clean e (w # x # y # z # s) =
     (if b64_padded e \<and> y = CHR ''='' then (if z = CHR ''='' \<and> s = [] then b64_quantum e [w, x] else None)
      else if b64_padded e \<and> z = CHR ''='' then (if s = [] then b64_quantum e [w, x, y] else None)
      else case b64_quantum e [w, x, y, z] of
             None \<Rightarrow> None
           | Some q \<Rightarrow> map_option ((@) q) (b64_decode_clean e s))"

definition b64_decode :: "b64 \<Rightarrow> string \<Rightarrow> string option" where
  "b64_decode e s = b64_decode_clean e (filter (\<lambda>c. c \<noteq> CHR 0x0A \<and> c \<noteq> CHR 0x0D) s)"

section \<open>Round trip\<close>

text \<open>The last two digits are neither letters, figures, the padding nor a line break.\<close>

definition b64_wf :: "b64 \<Rightarrow> bool" where
  "b64_wf e \<longleftrightarrow> b64_62 e \<noteq> b64_63 e \<and>
     list_all (\<lambda>c. (of_char c :: nat) \<in> {33..126} - {48..57} - {61} - {65..90} - {97..122}) [b64_62 e, b64_63 e]"

lemma b64_wf_std [simp]: "b64_wf std_encoding" "b64_wf raw_url_encoding"
  by (simp_all add: b64_wf_def std_encoding_def raw_url_encoding_def)

lemma b64_wfD:
  assumes "b64_wf e"
  shows "b64_62 e \<noteq> b64_63 e" "(of_char (b64_62 e) :: nat) \<in> {33..126} - {48..57} - {61} - {65..90} - {97..122}"
    "(of_char (b64_63 e) :: nat) \<in> {33..126} - {48..57} - {61} - {65..90} - {97..122}"
  using assms by (simp_all add: b64_wf_def)

lemma b64_val_last:
  assumes "b64_wf e"
  shows "b64_val (b64_62 e) (b64_63 e) (b64_62 e) = Some 62" "b64_val (b64_62 e) (b64_63 e) (b64_63 e) = Some 63"
  using b64_wfD [OF assms] unfolding b64_val_def Let_def by auto

lemma b64_digit_cases:
  assumes "n < 64"
  obtains "n < 26" "b64_char u v n = char_of (65 + n)"
    | "26 \<le> n" "n < 52" "b64_char u v n = char_of (71 + n)"
    | "52 \<le> n" "n < 62" "b64_char u v n = char_of (n - 4)"
    | "n = 62" "b64_char u v n = u" | "n = 63" "b64_char u v n = v"
proof -
  consider "n < 26" | "26 \<le> n" "n < 52" | "52 \<le> n" "n < 62" | "n = 62" | "n = 63" using assms by linarith
  then show thesis using that by cases (simp_all add: b64_char_def)
qed

lemma b64_val_char:
  assumes "b64_wf e" "n < 64"
  shows "b64_val (b64_62 e) (b64_63 e) (b64_char (b64_62 e) (b64_63 e) n) = Some n"
  using assms(2)
  by (rule b64_digit_cases [where u = "b64_62 e" and v = "b64_63 e"])
     (simp_all add: b64_val_last [OF assms(1)], simp_all add: b64_val_def Let_def, arith)

lemma b64_char_range:
  assumes "b64_wf e" "n < 64"
  shows "(of_char (b64_char (b64_62 e) (b64_63 e) n) :: nat) \<in> {33..126} - {61}"
  using assms(2)
  by (rule b64_digit_cases [where u = "b64_62 e" and v = "b64_63 e"]) ((use b64_wfD [OF assms(1)] in simp_all), arith)

lemma b64_char_not_special:
  assumes "b64_wf e" "n < 64"
  shows "b64_char (b64_62 e) (b64_63 e) n \<noteq> CHR ''=''" "b64_char (b64_62 e) (b64_63 e) n \<noteq> CHR 0x0A"
    "b64_char (b64_62 e) (b64_63 e) n \<noteq> CHR 0x0D"
  using b64_char_range [OF assms] by auto

lemma digit_parts:
  fixes a b c :: nat
  assumes "a < 256" "b < 256" "c < 256"
  shows "a div 4 < 64" "b div 16 < 16" "c div 64 < 4"
    "(a mod 4 * 16 + b div 16) div 16 = a mod 4" "(a mod 4 * 16 + b div 16) mod 16 = b div 16"
    "(b mod 16 * 4 + c div 64) div 4 = b mod 16" "(b mod 16 * 4 + c div 64) mod 4 = c div 64"
proof -
  show d: "a div 4 < 64" "b div 16 < 16" "c div 64 < 4" using assms by (simp_all add: div_less_iff_less_mult)
  from d show "(a mod 4 * 16 + b div 16) div 16 = a mod 4" "(a mod 4 * 16 + b div 16) mod 16 = b div 16"
    "(b mod 16 * 4 + c div 64) div 4 = b mod 16" "(b mod 16 * 4 + c div 64) mod 4 = c div 64"
    by simp_all
qed

lemma digits_small:
  fixes a b c :: nat
  assumes "a < 256" "b < 256" "c < 256"
  shows "a div 4 < 64" "a mod 4 * 16 < 64" "b mod 16 * 4 < 64" "a mod 4 * 16 + b div 16 < 64"
    "b mod 16 * 4 + c div 64 < 64" "c mod 64 < 64"
proof -
  have "a mod 4 < 4" "b mod 16 < 16" "c mod 64 < 64" by simp_all
  with digit_parts(1-3) [OF assms] show "a div 4 < 64" "a mod 4 * 16 < 64" "b mod 16 * 4 < 64"
    "a mod 4 * 16 + b div 16 < 64" "b mod 16 * 4 + c div 64 < 64" "c mod 64 < 64"
    by linarith+
qed

lemma digits_back:
  fixes a b c :: nat
  assumes "a < 256" "b < 256" "c < 256"
  shows "a div 4 * 4 + a mod 4 * 16 div 16 = a" "a div 4 * 4 + (a mod 4 * 16 + b div 16) div 16 = a"
    "(a mod 4 * 16 + b div 16) mod 16 * 16 + b mod 16 * 4 div 4 = b"
    "(a mod 4 * 16 + b div 16) mod 16 * 16 + (b mod 16 * 4 + c div 64) div 4 = b"
    "(b mod 16 * 4 + c div 64) mod 4 * 64 + c mod 64 = c"
  by (simp_all only: digit_parts [OF assms]) simp_all

lemmas byte_digits = digits_small [OF nat_of_char_less_256 nat_of_char_less_256 nat_of_char_less_256]
  digits_back [OF nat_of_char_less_256 nat_of_char_less_256 nat_of_char_less_256]

lemma b64_bytes_back:
  fixes x y z :: char
  defines "a \<equiv> of_char x :: nat" and "b \<equiv> of_char y :: nat" and "c \<equiv> of_char z :: nat"
  shows "b64_bytes [a div 4, a mod 4 * 16] = Some [x]"
    "b64_bytes [a div 4, a mod 4 * 16 + b div 16, b mod 16 * 4] = Some [x, y]"
    "b64_bytes [a div 4, a mod 4 * 16 + b div 16, b mod 16 * 4 + c div 64, c mod 64] = Some [x, y, z]"
  unfolding b64_bytes_def list.case a_def b_def c_def by (simp_all only: byte_digits char_of_char)

lemma b64_quantum_back:
  assumes "b64_wf e" "list_all (\<lambda>d. d < 64) ds"
  shows "b64_quantum e (map (b64_char (b64_62 e) (b64_63 e)) ds) = b64_bytes ds"
proof -
  have "b64_digits e (map (b64_char (b64_62 e) (b64_63 e)) ds) = Some ds"
    using assms(2) by (induction ds) (simp_all add: b64_val_char [OF assms(1)])
  then show ?thesis by (simp add: b64_quantum_def)
qed

lemma b64_clean_roundtrip: "b64_wf e \<Longrightarrow> b64_decode_clean e (b64_encode e s) = Some s"
proof (induction e s rule: b64_encode.induct)
  case (2 e x)
  note q = b64_quantum_back [OF 2, of "[of_char x div 4, of_char x mod 4 * 16]"]
  from 2 q show ?case by (simp add: Let_def byte_digits b64_bytes_back b64_char_not_special)
next
  case (3 e x y)
  note q = b64_quantum_back [OF 3, of "[of_char x div 4, of_char x mod 4 * 16 + of_char y div 16, of_char y mod 16 * 4]"]
  from 3 q show ?case by (simp add: Let_def byte_digits b64_bytes_back b64_char_not_special)
next
  case (4 e x y z s)
  note q = b64_quantum_back [OF 4(2), of "[of_char x div 4, of_char x mod 4 * 16 + of_char y div 16,
      of_char y mod 16 * 4 + of_char z div 64, of_char z mod 64]"]
  from 4 q show ?case by (simp add: Let_def byte_digits b64_bytes_back b64_char_not_special)
qed simp

definition token_char :: "char \<Rightarrow> bool" where
  "token_char c \<longleftrightarrow> (of_char c :: nat) \<in> {33..126}"

lemma b64_encode_chars: "b64_wf e \<Longrightarrow> list_all token_char (b64_encode e s)"
proof (induction e s rule: b64_encode.induct)
qed (use b64_char_range in \<open>auto simp: Let_def token_char_def byte_digits\<close>)

lemma b64_roundtrip [simp]: "b64_wf e \<Longrightarrow> b64_decode e (b64_encode e s) = Some s"
proof -
  assume e: "b64_wf e"
  have "filter (\<lambda>c. c \<noteq> CHR 0x0A \<and> c \<noteq> CHR 0x0D) (b64_encode e s) = b64_encode e s"
    by (rule filter_True) (use b64_encode_chars [OF e, of s] in \<open>auto simp: list_all_iff token_char_def\<close>)
  with e show ?thesis by (simp add: b64_decode_def b64_clean_roundtrip)
qed

text \<open>Text of printable ASCII characters without blanks is not changed by trimming.\<close>

lemma trim_space_token:
  assumes "list_all token_char s"
  shows "trim_space s = s"
proof -
  have d: "lead_len es (c # t) = 0" if "token_char c" "es = space_encs \<or> es = map rev space_encs" for es c t
    by (rule lead_len_hd) (use that in \<open>auto simp: space_encs_def token_char_def\<close>)
  have "lead_len space_encs s = 0" using assms d by (cases s) auto
  then have l: "trim_left s = s" by (simp add: trim_left_def strip_lead_id)
  have "list_all token_char (rev s)" using assms by (simp add: list_all_iff)
  then have "lead_len (map rev space_encs) (rev s) = 0" using d by (cases "rev s") auto
  then show ?thesis by (simp add: trim_space_def l trim_right_def strip_lead_id)
qed

lemma trim_space_b64 [simp]: "b64_wf e \<Longrightarrow> trim_space (b64_encode e s) = b64_encode e s"
  by (rule trim_space_token) (rule b64_encode_chars)

lemma b64_encode_Nil [simp]: "b64_encode e s = [] \<longleftrightarrow> s = []"
  by (cases "(e, s)" rule: b64_encode.cases) (simp_all add: Let_def)

end
