(* ===== verification/Event_Sql.thy ===== *)
theory Event_Sql
  imports Event_Logs
begin

text \<open>
  Reading event logs from the database: \<^verbatim>\<open>pkg/storage/eventlogs/store_filter.go\<close>, \<^verbatim>\<open>store_list.go\<close>,
  \<^verbatim>\<open>store_rows.go\<close>, the preparation of new rows in \<^verbatim>\<open>store_write.go\<close>, and \<^verbatim>\<open>pkg/storage/query.go\<close>.

  A query is the value the calls of the query builder (gorm) describe; running it is the parameter
  \<open>find\<close> of the operations. \<open>select_rows\<close> is what SQL documents for such a query, the hypothesis on
  \<open>find\<close> under which the properties are proved; text columns compare bytewise. JSON columns go through
  the parameters in \<open>row_codec\<close>.
\<close>

section \<open>Queries\<close>

datatype log_cond =
  FieldIs string string
| FieldIsNot string string
| MatchedIs bool
| CreatedFrom gtime
| CreatedTo gtime
| PastCursor gtime string

datatype log_order = CreatedDesc | IdDesc

record log_query =
  lq_conds :: "log_cond list"
  lq_order :: "log_order list"
  lq_limit :: "int option"
  lq_offset :: "int option"

definition tenant_scope :: "ctx \<Rightarrow> string \<Rightarrow> string \<Rightarrow> log_cond list" where
  "tenant_scope c explicit column =
     (let tenant_id = resolve_tenant c explicit in
      if tenant_id = [] then []
      else [FieldIs (let col = trim_space column in if col = [] then ''tenant_id'' else col) tenant_id])"

definition where_set :: "string \<Rightarrow> string \<Rightarrow> log_cond list" where
  "where_set column v = (if v \<noteq> [] then [FieldIs column v] else [])"

definition apply_filter :: "event_log_filter \<Rightarrow> ctx \<Rightarrow> log_cond list" where
  "apply_filter f c =
     tenant_scope c (lf_tenant f) ''tenant_id'' @ where_set ''provider'' (lf_provider f) @ where_set ''name'' (lf_name f) @
     where_set ''request_id'' (lf_request_id f) @ where_set ''state_id'' (lf_state_id f) @
     where_set ''installation_id'' (lf_installation_id f) @ where_set ''namespace_id'' (lf_namespace_id f) @
     where_set ''namespace_name'' (lf_namespace_name f) @ where_set ''topic'' (lf_topic f) @
     where_set ''rule_id'' (lf_rule_id f) @ where_set ''rule_when'' (lf_rule_when f) @
     (case lf_matched f of None \<Rightarrow> [] | Some b \<Rightarrow> [MatchedIs b]) @
     (if \<not> is_zero (lf_start f) then [CreatedFrom (lf_start f)] else []) @
     (if \<not> is_zero (lf_end f) then [CreatedTo (lf_end f)] else [])"

definition list_query :: "ctx \<Rightarrow> event_log_filter \<Rightarrow> log_query" where
  "list_query c f =
     \<lparr>lq_conds = apply_filter f c @
        (if \<not> is_zero (lf_cursor_created f) \<and> trim_space (lf_cursor_id f) \<noteq> []
         then [PastCursor (lf_cursor_created f) (trim_space (lf_cursor_id f))] else []),
      lq_order = [CreatedDesc, IdDesc],
      lq_limit = (if 0 < lf_limit f then Some (lf_limit f) else None),
      lq_offset = (if 0 < lf_offset f then Some (lf_offset f) else None)\<rparr>"

section \<open>Rows\<close>

record log_row =
  lw_id :: string
  lw_tenant :: string
  lw_provider :: string
  lw_name :: string
  lw_request_id :: string
  lw_state_id :: string
  lw_installation_id :: string
  lw_namespace_id :: string
  lw_namespace_name :: string
  lw_topic :: string
  lw_rule_id :: string
  lw_rule_when :: string
  lw_drivers_json :: string
  lw_headers_json :: string
  lw_body :: string
  lw_transformed :: string
  lw_body_hash :: string
  lw_matched :: bool
  lw_status :: string
  lw_error :: string
  lw_latency :: int
  lw_created :: gtime
  lw_updated :: gtime

text \<open>The decoders give the value that \<^verbatim>\<open>json.Unmarshal\<close> leaves in its target; its error is dropped.\<close>

record row_codec =
  jr_drivers :: "string list \<Rightarrow> string res"
  jr_drivers_dec :: "string \<Rightarrow> string list"
  jr_headers :: "string list gmap \<Rightarrow> string res"
  jr_headers_dec :: "string \<Rightarrow> string list gmap"

definition sql_hash_body :: "(string \<Rightarrow> string) \<Rightarrow> string \<Rightarrow> string" where
  "sql_hash_body sha body = (if body = [] then [] else sha body)"

definition to_row :: "row_codec \<Rightarrow> (string \<Rightarrow> string) \<Rightarrow> event_log \<Rightarrow> log_row res" where
  "to_row codec sha r =
     bind_res (jr_drivers codec (el_drivers r)) (\<lambda>drivers_json.
     bind_res (if el_headers r \<noteq> [] then jr_headers codec (el_headers r) else Inr []) (\<lambda>headers_json.
       Inr \<lparr>lw_id = el_id r, lw_tenant = el_tenant r, lw_provider = el_provider r, lw_name = el_name r,
         lw_request_id = el_request_id r, lw_state_id = el_state_id r, lw_installation_id = el_installation_id r,
         lw_namespace_id = el_namespace_id r, lw_namespace_name = el_namespace_name r, lw_topic = el_topic r,
         lw_rule_id = el_rule_id r, lw_rule_when = el_rule_when r, lw_drivers_json = drivers_json,
         lw_headers_json = headers_json, lw_body = el_body r, lw_transformed = el_transformed r,
         lw_body_hash = (if el_body_hash r = [] then sql_hash_body sha (el_body r) else el_body_hash r),
         lw_matched = el_matched r, lw_status = el_status r, lw_error = el_error r, lw_latency = el_latency r,
         lw_created = el_created r, lw_updated = el_updated r\<rparr>))"

definition from_row :: "row_codec \<Rightarrow> log_row \<Rightarrow> event_log" where
  "from_row codec d =
     \<lparr>el_tenant = lw_tenant d, el_id = lw_id d, el_provider = lw_provider d, el_name = lw_name d,
      el_request_id = lw_request_id d, el_state_id = lw_state_id d, el_installation_id = lw_installation_id d,
      el_namespace_id = lw_namespace_id d, el_namespace_name = lw_namespace_name d, el_topic = lw_topic d,
      el_rule_id = lw_rule_id d, el_rule_when = lw_rule_when d,
      el_drivers = (if lw_drivers_json d \<noteq> [] then jr_drivers_dec codec (lw_drivers_json d) else []),
      el_headers = (if lw_headers_json d \<noteq> [] then jr_headers_dec codec (lw_headers_json d) else []),
      el_body = lw_body d, el_transformed = lw_transformed d, el_body_hash = lw_body_hash d,
      el_matched = lw_matched d, el_created = lw_created d, el_updated = lw_updated d, el_status = lw_status d,
      el_error = lw_error d, el_latency = lw_latency d\<rparr>"

definition prepare_row ::
  "row_codec \<Rightarrow> (string \<Rightarrow> string) \<Rightarrow> ctx \<Rightarrow> gtime \<Rightarrow> string \<Rightarrow> event_log \<Rightarrow> log_row res" where
  "prepare_row codec sha c now new_id r =
     (let r = (if el_tenant r = [] then r\<lparr>el_tenant := tenant_from_context c\<rparr> else r);
          r = (if el_id r = [] then r\<lparr>el_id := new_id\<rparr> else r);
          r = (if el_status r = [] then r\<lparr>el_status := ''queued''\<rparr> else r);
          r = (if is_zero (el_created r) then r\<lparr>el_created := now\<rparr> else r);
          r = (if is_zero (el_updated r) then r\<lparr>el_updated := el_created r\<rparr> else r);
          r = (if el_latency r < 0 then r\<lparr>el_latency := 0\<rparr> else r)
      in to_row codec sha r)"

fun prepare_rows ::
  "row_codec \<Rightarrow> (string \<Rightarrow> string) \<Rightarrow> ctx \<Rightarrow> gtime \<Rightarrow> (nat \<Rightarrow> string) \<Rightarrow> nat \<Rightarrow> event_log list \<Rightarrow> log_row list res" where
  "prepare_rows codec sha c now uuid i [] = Inr []"
| "prepare_rows codec sha c now uuid i (r # rs) =
     bind_res (prepare_row codec sha c now (uuid i) r) (\<lambda>d.
     bind_res (prepare_rows codec sha c now uuid (Suc i) rs) (\<lambda>ds. Inr (d # ds)))"

section \<open>Reading\<close>

definition sql_list_event_logs ::
  "row_codec \<Rightarrow> (log_query \<Rightarrow> log_row list res) \<Rightarrow> ctx \<Rightarrow> event_log_filter \<Rightarrow> event_log list res" where
  "sql_list_event_logs codec find_rows c f =
     bind_res (find_rows (list_query c f)) (\<lambda>data. Inr (map (from_row codec) data))"

text \<open>\<open>first_row\<close> runs a query for one row, \<open>None\<close> being \<^verbatim>\<open>gorm.ErrRecordNotFound\<close>.\<close>

definition sql_get_event_log ::
  "row_codec \<Rightarrow> (log_cond list \<Rightarrow> log_row option res) \<Rightarrow> ctx \<Rightarrow> string \<Rightarrow> event_log option res" where
  "sql_get_event_log codec first_row c rid0 =
     (let rid = trim_space rid0 in
      if rid = [] then Inl (Error ''id is required'')
      else bind_res (first_row (FieldIs ''id'' rid #
               (if tenant_from_context c \<noteq> [] then [FieldIs ''tenant_id'' (tenant_from_context c)] else [])))
             (\<lambda>found. Inr (map_option (from_row codec) found)))"

section \<open>What SQL documents\<close>

definition row_column :: "string \<Rightarrow> log_row \<Rightarrow> string" where
  "row_column column d =
     (if column = ''id'' then lw_id d else if column = ''tenant_id'' then lw_tenant d
      else if column = ''provider'' then lw_provider d else if column = ''name'' then lw_name d
      else if column = ''request_id'' then lw_request_id d else if column = ''state_id'' then lw_state_id d
      else if column = ''installation_id'' then lw_installation_id d
      else if column = ''namespace_id'' then lw_namespace_id d
      else if column = ''namespace_name'' then lw_namespace_name d else if column = ''topic'' then lw_topic d
      else if column = ''rule_id'' then lw_rule_id d else if column = ''rule_when'' then lw_rule_when d
      else if column = ''status'' then lw_status d else [])"

fun cond_holds :: "log_cond \<Rightarrow> log_row \<Rightarrow> bool" where
  "cond_holds (FieldIs column v) d = (row_column column d = v)"
| "cond_holds (FieldIsNot column v) d = (row_column column d \<noteq> v)"
| "cond_holds (MatchedIs b) d = (lw_matched d = b)"
| "cond_holds (CreatedFrom t) d = (t \<le> lw_created d)"
| "cond_holds (CreatedTo t) d = (lw_created d \<le> t)"
| "cond_holds (PastCursor t i) d = (lw_created d < t \<or> lw_created d = t \<and> lw_id d < i)"

fun order_less :: "log_order list \<Rightarrow> log_row \<Rightarrow> log_row \<Rightarrow> bool" where
  "order_less [] a b = False"
| "order_less (CreatedDesc # os) a b =
     (lw_created b < lw_created a \<or> lw_created a = lw_created b \<and> order_less os a b)"
| "order_less (IdDesc # os) a b = (lw_id b < lw_id a \<or> lw_id a = lw_id b \<and> order_less os a b)"

definition select_rows :: "log_query \<Rightarrow> log_row list \<Rightarrow> log_row list" where
  "select_rows q rows =
     (let sel = sort_slice (order_less (lq_order q)) (filter (\<lambda>d. list_all (\<lambda>k. cond_holds k d) (lq_conds q)) rows);
          rest = (case lq_offset q of None \<Rightarrow> sel | Some n \<Rightarrow> drop (nat n) sel)
      in case lq_limit q of None \<Rightarrow> rest | Some n \<Rightarrow> take (nat n) rest)"

section \<open>Facts\<close>

abbreviation newest_first :: "log_row \<Rightarrow> log_row \<Rightarrow> bool" where
  "newest_first \<equiv> order_less [CreatedDesc, IdDesc]"

lemma newest_first_asym: "newest_first a b \<Longrightarrow> \<not> newest_first b a"
  by auto

lemma newest_first_total: "lw_id a \<noteq> lw_id b \<Longrightarrow> newest_first a b \<or> newest_first b a"
  by auto

lemma newest_first_weak: "strict_weak newest_first"
  unfolding strict_weak_def by auto

lemma sorted_unique:
  "sorted_wrt lt xs \<Longrightarrow> sorted_wrt lt ys \<Longrightarrow> set xs = set ys \<Longrightarrow> (\<And>a b. lt a b \<Longrightarrow> \<not> lt b a) \<Longrightarrow> xs = ys"
proof (induction xs arbitrary: ys)
  case (Cons x xs)
  then obtain y ys' where ys: "ys = y # ys'" by (cases ys) auto
  have irr: "\<not> lt a a" for a using Cons.prems(4) [of a a] by blast
  have "x = y"
  proof (rule ccontr)
    assume "x \<noteq> y"
    then have "lt x y" "lt y x" using Cons.prems(1-3) ys by (metis list.set_intros(1) set_ConsD sorted_wrt.simps(2))+
    then show False using Cons.prems(4) by blast
  qed
  moreover have "x \<notin> set xs" "y \<notin> set ys'" using Cons.prems(1,2) ys irr by auto
  ultimately have "set xs = set ys'" using Cons.prems(3) ys by auto
  with Cons ys \<open>x = y\<close> show ?case by simp
qed simp

lemma newest_first_sorted:
  assumes "distinct (map lw_id rows)"
  shows "sorted_wrt newest_first (sort_slice newest_first rows)"
proof -
  let ?s = "sort_slice newest_first rows"
  have "mset (map lw_id ?s) = mset (map lw_id rows)" by simp
  with assms have d: "distinct (map lw_id ?s)" by (metis mset_eq_imp_distinct_iff)
  show ?thesis
    unfolding sorted_wrt_iff_nth_less
  proof (intro allI impI)
    fix i j
    assume ij: "i < j" "j < length ?s"
    then have "\<not> newest_first (?s ! j) (?s ! i)"
      using sorted_sort_slice [OF newest_first_weak, of rows] unfolding sorted_wrt_iff_nth_less by blast
    moreover have "lw_id (?s ! i) \<noteq> lw_id (?s ! j)"
      using d ij by (auto simp: distinct_conv_nth)
    ultimately show "newest_first (?s ! i) (?s ! j)" using newest_first_total by blast
  qed
qed

lemma sorted_wrt_filter_any: "sorted_wrt lt xs \<Longrightarrow> sorted_wrt lt (filter P xs)"
  by (induction xs) auto

lemma sort_slice_filter:
  assumes "distinct (map lw_id rows)"
  shows "sort_slice newest_first (filter P rows) = filter P (sort_slice newest_first rows)"
proof (rule sorted_unique [where lt = newest_first])
  show "sorted_wrt newest_first (sort_slice newest_first (filter P rows))"
    by (rule newest_first_sorted) (simp add: assms distinct_map_filter)
  show "sorted_wrt newest_first (filter P (sort_slice newest_first rows))"
    by (rule sorted_wrt_filter_any) (rule newest_first_sorted [OF assms])
qed (auto dest: newest_first_asym)

lemma filter_past:
  assumes "sorted_wrt lt xs" "k < length xs" "\<And>a b. lt a b \<Longrightarrow> \<not> lt b a"
  shows "filter (lt (xs ! k)) xs = drop (Suc k) xs"
proof -
  have irr: "\<not> lt a a" for a using assms(3) [of a a] by blast
  have xs: "xs = take k xs @ xs ! k # drop (Suc k) xs" using assms(2) by (simp add: id_take_nth_drop)
  have s: "sorted_wrt lt (take k xs @ xs ! k # drop (Suc k) xs)" using assms(1) xs by metis
  have "filter (lt (xs ! k)) (take k xs) = []"
    using s assms(3) by (auto simp: filter_empty_conv sorted_wrt_append)
  moreover have "filter (lt (xs ! k)) (drop (Suc k) xs) = drop (Suc k) xs"
    using s by (auto simp: filter_id_conv sorted_wrt_append)
  ultimately have "filter (lt (xs ! k)) (take k xs @ xs ! k # drop (Suc k) xs) = drop (Suc k) xs"
    by (simp add: irr)
  then show ?thesis using xs by metis
qed

end
