(* ===== verification/Event_Log_Service.thy ===== *)
theory Event_Log_Service
  imports Api_Common Base64 Event_Sql Event_Stats
begin

text \<open>
  The event log service of the API, \<^verbatim>\<open>pkg/api/eventlogs_service.go\<close>: listing with cursor tokens,
  analytics, time series, breakdown, status updates. Replay is in \<^verbatim>\<open>Event_Replay\<close>.

  The store is a value of \<open>log_ops\<close>, the operations of the interface over some state. Page sizes come
  from an int32 field, so arithmetic on them does not overflow. Log lines are not modelled.
\<close>

section \<open>The store\<close>

record 's log_ops =
  lo_list :: "ctx \<Rightarrow> event_log_filter \<Rightarrow> 's \<Rightarrow> event_log list res"
  lo_get :: "ctx \<Rightarrow> string \<Rightarrow> 's \<Rightarrow> event_log option res"
  lo_create :: "ctx \<Rightarrow> gtime \<Rightarrow> (nat \<Rightarrow> string) \<Rightarrow> event_log list \<Rightarrow> 's \<Rightarrow> go_error option \<times> 's"
  lo_status :: "ctx \<Rightarrow> gtime \<Rightarrow> string \<Rightarrow> string \<Rightarrow> string \<Rightarrow> 's \<Rightarrow> go_error option \<times> 's"
  lo_transformed :: "ctx \<Rightarrow> gtime \<Rightarrow> string \<Rightarrow> string \<Rightarrow> 's \<Rightarrow> go_error option \<times> 's"
  lo_analytics :: "ctx \<Rightarrow> event_log_filter \<Rightarrow> 's \<Rightarrow> event_log_analytics res"
  lo_timeseries :: "ctx \<Rightarrow> event_log_filter \<Rightarrow> string \<Rightarrow> 's \<Rightarrow> bucket list res"
  lo_breakdown :: "ctx \<Rightarrow> event_log_filter \<Rightarrow> string \<Rightarrow> string \<Rightarrow> bool \<Rightarrow> int \<Rightarrow> string \<Rightarrow> bool \<Rightarrow> 's \<Rightarrow>
     (breakdown list \<times> string) res"

section \<open>Messages\<close>

record log_msg =
  lg_id :: string
  lg_provider :: string
  lg_name :: string
  lg_request_id :: string
  lg_state_id :: string
  lg_installation_id :: string
  lg_namespace_id :: string
  lg_namespace_name :: string
  lg_topic :: string
  lg_rule_id :: string
  lg_rule_when :: string
  lg_drivers :: "string list"
  lg_matched :: bool
  lg_status :: string
  lg_error :: string
  lg_created :: "gtime option"
  lg_updated :: "gtime option"
  lg_headers :: "string list gmap option"
  lg_body :: string
  lg_body_hash :: string
  lg_transformed :: string

definition to_proto_event_log_headers :: "string list gmap \<Rightarrow> string list gmap option" where
  "to_proto_event_log_headers hs = (if hs = [] then None else Some hs)"

definition to_proto_event_log_record :: "event_log \<Rightarrow> log_msg" where
  "to_proto_event_log_record r =
     \<lparr>lg_id = el_id r, lg_provider = el_provider r, lg_name = el_name r, lg_request_id = el_request_id r,
      lg_state_id = el_state_id r, lg_installation_id = el_installation_id r, lg_namespace_id = el_namespace_id r,
      lg_namespace_name = el_namespace_name r, lg_topic = el_topic r, lg_rule_id = el_rule_id r,
      lg_rule_when = el_rule_when r, lg_drivers = el_drivers r, lg_matched = el_matched r, lg_status = el_status r,
      lg_error = el_error r, lg_created = to_proto_timestamp (el_created r),
      lg_updated = to_proto_timestamp (el_updated r), lg_headers = to_proto_event_log_headers (el_headers r),
      lg_body = el_body r, lg_body_hash = el_body_hash r, lg_transformed = el_transformed r\<rparr>"

definition to_proto_event_log_records :: "event_log list \<Rightarrow> log_msg list" where
  "to_proto_event_log_records rs = map to_proto_event_log_record rs"

record bucket_msg =
  bm_start :: "gtime option"
  bm_end :: "gtime option"
  bm_events :: int
  bm_matched :: int
  bm_distinct :: int
  bm_failed :: int

definition to_proto_event_log_timeseries :: "bucket list \<Rightarrow> bucket_msg list" where
  "to_proto_event_log_timeseries bs =
     map (\<lambda>b. \<lparr>bm_start = to_proto_timestamp (bk_start b), bm_end = to_proto_timestamp (bk_end b),
        bm_events = bk_events b, bm_matched = bk_matched b, bm_distinct = bk_distinct b, bm_failed = bk_failed b\<rparr>) bs"

section \<open>Requests\<close>

text \<open>The fields that the requests for event logs share.\<close>

record log_request =
  qr_provider :: string
  qr_name :: string
  qr_topic :: string
  qr_request_id :: string
  qr_state_id :: string
  qr_installation_id :: string
  qr_namespace_id :: string
  qr_namespace_name :: string
  qr_rule_id :: string
  qr_rule_when :: string
  qr_matched_only :: bool
  qr_start :: "gtime option"
  qr_end :: "gtime option"
  qr_page_size :: int
  qr_page_token :: string

definition request_filter :: "log_request \<Rightarrow> event_log_filter" where
  "request_filter q =
     \<lparr>lf_tenant = [], lf_provider = trim_space (qr_provider q), lf_name = trim_space (qr_name q),
      lf_request_id = trim_space (qr_request_id q), lf_state_id = trim_space (qr_state_id q),
      lf_installation_id = trim_space (qr_installation_id q), lf_namespace_id = trim_space (qr_namespace_id q),
      lf_namespace_name = trim_space (qr_namespace_name q), lf_topic = trim_space (qr_topic q),
      lf_rule_id = trim_space (qr_rule_id q), lf_rule_when = trim_space (qr_rule_when q),
      lf_matched = (if qr_matched_only q then Some True else None),
      lf_start = from_proto_timestamp (qr_start q), lf_end = from_proto_timestamp (qr_end q),
      lf_limit = 0, lf_offset = 0, lf_cursor_created = 0, lf_cursor_id = []\<rparr>"

definition default_event_log_page_size :: int where "default_event_log_page_size = 50"
definition max_event_log_page_size :: int where "max_event_log_page_size = 200"

definition clamp_page_size :: "int \<Rightarrow> int" where
  "clamp_page_size n =
     (let n = (if n \<le> 0 then default_event_log_page_size else n)
      in if max_event_log_page_size < n then max_event_log_page_size else n)"

section \<open>Page tokens\<close>

definition event_log_cursor_prefix :: string where "event_log_cursor_prefix = ''c:''"

definition invalid_token :: "'a res" where
  "invalid_token = Inl (Error ''invalid page token'')"

definition decode_page_token :: "string \<Rightarrow> int res" where
  "decode_page_token token0 =
     (let token = trim_space token0 in
      if token = [] then Inr 0
      else case b64_decode std_encoding token of
             None \<Rightarrow> invalid_token
           | Some raw \<Rightarrow>
               if starts_with event_log_cursor_prefix raw then Inr 0
               else case atoi raw of
                      None \<Rightarrow> invalid_token
                    | Some offset \<Rightarrow> if offset < 0 then invalid_token else Inr offset)"

text \<open>\<open>None\<close> is the answer without a cursor.\<close>

definition decode_event_log_cursor_token :: "string \<Rightarrow> (gtime \<times> string) option res" where
  "decode_event_log_cursor_token token0 =
     (let token = trim_space token0 in
      if token = [] then Inr None
      else case b64_decode std_encoding token of
             None \<Rightarrow> Inr None
           | Some payload \<Rightarrow>
               if \<not> starts_with event_log_cursor_prefix payload then Inr None
               else case split2 (trim_prefix payload event_log_cursor_prefix) (CHR '':'') of
                      [a, b] \<Rightarrow>
                        (case atoi a of
                           None \<Rightarrow> invalid_token
                         | Some unix_nano \<Rightarrow>
                             (let rid = trim_space b in
                              if rid = [] then invalid_token else Inr (Some (unix_epoch + unix_nano, rid))))
                    | _ \<Rightarrow> invalid_token)"

text \<open>\<^verbatim>\<open>Time.UnixNano\<close>: nanoseconds since the epoch in an int64.\<close>

definition unix_nano :: "gtime \<Rightarrow> int" where
  "unix_nano t = (t - unix_epoch + 2 ^ 63) mod 2 ^ 64 - 2 ^ 63"

definition encode_event_log_cursor_token :: "gtime \<Rightarrow> string \<Rightarrow> string" where
  "encode_event_log_cursor_token created rid0 =
     (let rid = trim_space rid0 in
      if is_zero created \<or> rid = [] then []
      else b64_encode std_encoding (event_log_cursor_prefix @ itoa (unix_nano created) @ '':'' @ rid))"

definition encode_page_token :: "int \<Rightarrow> string" where
  "encode_page_token offset = (if offset \<le> 0 then [] else b64_encode std_encoding (itoa offset))"

definition encode_page_token_from_raw :: "string \<Rightarrow> string" where
  "encode_page_token_from_raw token0 =
     (let token = trim_space token0 in
      if token = [] then []
      else case atoi token of
             None \<Rightarrow> []
           | Some offset \<Rightarrow> if offset \<le> 0 then [] else encode_page_token offset)"

section \<open>Enumerations of the requests\<close>

datatype interval_enum = INTERVAL_UNSPECIFIED | INTERVAL_HOUR | INTERVAL_DAY | INTERVAL_WEEK

fun event_log_interval_from_proto :: "interval_enum \<Rightarrow> string res" where
  "event_log_interval_from_proto INTERVAL_HOUR = Inr ''hour''"
| "event_log_interval_from_proto INTERVAL_DAY = Inr ''day''"
| "event_log_interval_from_proto INTERVAL_WEEK = Inr ''week''"
| "event_log_interval_from_proto INTERVAL_UNSPECIFIED = Inl (Error ''invalid interval'')"

datatype group_enum =
  GROUP_UNSPECIFIED | GROUP_PROVIDER | GROUP_EVENT | GROUP_RULE_ID | GROUP_RULE_WHEN | GROUP_TOPIC
| GROUP_NAMESPACE_ID | GROUP_NAMESPACE_NAME | GROUP_INSTALLATION_ID

fun event_log_breakdown_group_from_proto :: "group_enum \<Rightarrow> string res" where
  "event_log_breakdown_group_from_proto GROUP_PROVIDER = Inr ''provider''"
| "event_log_breakdown_group_from_proto GROUP_EVENT = Inr ''event''"
| "event_log_breakdown_group_from_proto GROUP_RULE_ID = Inr ''rule_id''"
| "event_log_breakdown_group_from_proto GROUP_RULE_WHEN = Inr ''rule_when''"
| "event_log_breakdown_group_from_proto GROUP_TOPIC = Inr ''topic''"
| "event_log_breakdown_group_from_proto GROUP_NAMESPACE_ID = Inr ''namespace_id''"
| "event_log_breakdown_group_from_proto GROUP_NAMESPACE_NAME = Inr ''namespace_name''"
| "event_log_breakdown_group_from_proto GROUP_INSTALLATION_ID = Inr ''installation_id''"
| "event_log_breakdown_group_from_proto GROUP_UNSPECIFIED = Inl (Error ''invalid group_by'')"

datatype sort_enum = SORT_UNSPECIFIED | SORT_COUNT | SORT_MATCHED | SORT_FAILED

fun event_log_breakdown_sort_from_proto :: "sort_enum \<Rightarrow> string" where
  "event_log_breakdown_sort_from_proto SORT_MATCHED = ''matched''"
| "event_log_breakdown_sort_from_proto SORT_FAILED = ''failed''"
| "event_log_breakdown_sort_from_proto SORT_COUNT = ''count''"
| "event_log_breakdown_sort_from_proto SORT_UNSPECIFIED = ''count''"

section \<open>Calls\<close>

definition storage_missing :: "'a rpc" where
  "storage_missing = rpc_fail CodeFailedPrecondition ''storage not configured''"

definition page_filter :: "log_request \<Rightarrow> int \<Rightarrow> (gtime \<times> string) option \<Rightarrow> event_log_filter" where
  "page_filter q offset cursor =
     (request_filter q)\<lparr>lf_limit := clamp_page_size (qr_page_size q) + 1,
        lf_offset := (if cursor \<noteq> None then 0 else offset),
        lf_cursor_created := (case cursor of None \<Rightarrow> 0 | Some (t, i) \<Rightarrow> t),
        lf_cursor_id := (case cursor of None \<Rightarrow> [] | Some (t, i) \<Rightarrow> i)\<rparr>"

definition list_event_logs_rpc ::
  "'s log_ops option \<Rightarrow> ctx \<Rightarrow> log_request \<Rightarrow> 's \<Rightarrow> (log_msg list \<times> string) rpc" where
  "list_event_logs_rpc store c q st =
     (case store of
        None \<Rightarrow> storage_missing
      | Some ops \<Rightarrow>
          (case decode_page_token (qr_page_token q) of
             Inl err \<Rightarrow> Inl (CodeInvalidArgument, err)
           | Inr offset \<Rightarrow>
               (case decode_event_log_cursor_token (qr_page_token q) of
                  Inl err \<Rightarrow> Inl (CodeInvalidArgument, err)
                | Inr cursor \<Rightarrow>
                    (case lo_list ops c (page_filter q offset cursor) st of
                       Inl err \<Rightarrow> rpc_fail CodeInternal ''list event logs failed''
                     | Inr records \<Rightarrow>
                         (let page_size = nat (clamp_page_size (qr_page_size q)) in
                          if page_size < length records then
                            (let page = take page_size records; lst = List.last page
                             in Inr (to_proto_event_log_records page,
                                     encode_event_log_cursor_token (el_created lst) (el_id lst)))
                          else Inr (to_proto_event_log_records records, []))))))"

definition get_event_log_analytics_rpc ::
  "'s log_ops option \<Rightarrow> ctx \<Rightarrow> log_request \<Rightarrow> 's \<Rightarrow> event_log_analytics rpc" where
  "get_event_log_analytics_rpc store c q st =
     (case store of
        None \<Rightarrow> storage_missing
      | Some ops \<Rightarrow>
          (case lo_analytics ops c (request_filter q) st of
             Inl err \<Rightarrow> rpc_fail CodeInternal ''event log analytics failed''
           | Inr a \<Rightarrow> Inr a))"

definition get_event_log_timeseries_rpc ::
  "'s log_ops option \<Rightarrow> ctx \<Rightarrow> log_request \<Rightarrow> interval_enum \<Rightarrow> 's \<Rightarrow> bucket_msg list rpc" where
  "get_event_log_timeseries_rpc store c q interval st =
     (case store of
        None \<Rightarrow> storage_missing
      | Some ops \<Rightarrow>
          (case event_log_interval_from_proto interval of
             Inl err \<Rightarrow> Inl (CodeInvalidArgument, err)
           | Inr i \<Rightarrow>
               (case lo_timeseries ops c (request_filter q) i st of
                  Inl err \<Rightarrow> rpc_fail CodeInternal ''event log timeseries failed''
                | Inr bs \<Rightarrow> Inr (to_proto_event_log_timeseries bs))))"

definition get_event_log_breakdown_rpc ::
  "'s log_ops option \<Rightarrow> ctx \<Rightarrow> log_request \<Rightarrow> group_enum \<Rightarrow> sort_enum \<Rightarrow> bool \<Rightarrow> bool \<Rightarrow> 's \<Rightarrow> (breakdown list \<times> string) rpc" where
  "get_event_log_breakdown_rpc store c q grp sort_by sort_desc include_latency st =
     (case store of
        None \<Rightarrow> storage_missing
      | Some ops \<Rightarrow>
          (case event_log_breakdown_group_from_proto grp of
             Inl err \<Rightarrow> Inl (CodeInvalidArgument, err)
           | Inr group_by \<Rightarrow>
               (case decode_page_token (qr_page_token q) of
                  Inl err \<Rightarrow> Inl (CodeInvalidArgument, err)
                | Inr offset \<Rightarrow>
                    (case lo_breakdown ops c (request_filter q) group_by (event_log_breakdown_sort_from_proto sort_by)
                            sort_desc (clamp_page_size (qr_page_size q)) (itoa offset) include_latency st of
                       Inl err \<Rightarrow> rpc_fail CodeInternal ''event log breakdown failed''
                     | Inr (bs, next_token) \<Rightarrow> Inr (bs, encode_page_token_from_raw next_token)))))"

definition update_event_log_status_rpc ::
  "'s log_ops option \<Rightarrow> ctx \<Rightarrow> gtime \<Rightarrow> (string \<times> string \<times> string) option \<Rightarrow> 's \<Rightarrow> unit rpc \<times> 's" where
  "update_event_log_status_rpc store c now msg st =
     (case store of
        None \<Rightarrow> (storage_missing, st)
      | Some ops \<Rightarrow>
          (case msg of
             None \<Rightarrow> (rpc_fail CodeInvalidArgument ''request is required'', st)
           | Some (log_id, status, err_msg) \<Rightarrow>
               (case lo_status ops c now (trim_space log_id) (trim_space status) (trim_space err_msg) st of
                  (Some err, st') \<Rightarrow> (rpc_fail CodeInternal ''event log update failed'', st')
                | (None, st') \<Rightarrow> (Inr (), st'))))"

end
