(* ===== verification/Event_Log_Pages.thy ===== *)
theory Event_Log_Pages
  imports Event_Log_Service
begin

text \<open>
  What a client that follows the page tokens of the event log service sees, and how the database store
  and the in-memory store relate.
\<close>

section \<open>Tokens\<close>

lemma unix_nano_id: "\<bar>t - unix_epoch\<bar> < 2 ^ 63 \<Longrightarrow> unix_epoch + unix_nano t = t \<and> - (2 ^ 63) \<le> unix_nano t \<and> unix_nano t < 2 ^ 63"
  unfolding unix_nano_def by (simp add: mod_pos_pos_trivial) arith

text \<open>A record the cursor can denote.\<close>

definition cursor_ok :: "gtime \<Rightarrow> string \<Rightarrow> bool" where
  "cursor_ok t i \<longleftrightarrow> t \<noteq> 0 \<and> \<bar>t - unix_epoch\<bar> < 2 ^ 63 \<and> trimmed i \<and> i \<noteq> []"

lemma cursor_token:
  assumes "cursor_ok t i"
  shows "encode_event_log_cursor_token t i = b64_encode std_encoding (''c:'' @ itoa (unix_nano t) @ '':'' @ i)"
  using assms by (simp add: encode_event_log_cursor_token_def event_log_cursor_prefix_def cursor_ok_def is_zero_def
      trimmed_def Let_def)

lemma starts_with_append [simp]: "starts_with p (p @ s)"
  by (simp add: starts_with_prefix)

lemma token_roundtrip:
  assumes "cursor_ok t i" and "0 < n" "n < 2 ^ 63"
  shows "decode_event_log_cursor_token (encode_event_log_cursor_token t i) = Inr (Some (t, i)) \<and>
    decode_page_token (encode_event_log_cursor_token t i) = Inr 0 \<and>
    decode_page_token (encode_page_token n) = Inr n \<and>
    decode_event_log_cursor_token (encode_page_token n) = Inr None"
proof (intro conjI)
  have u: "unix_epoch + unix_nano t = t" "atoi (itoa (unix_nano t)) = Some (unix_nano t)"
    using assms(1) unix_nano_id [of t] atoi_itoa by (auto simp: cursor_ok_def)
  have i: "trim_space i = i" "i \<noteq> []" using assms(1) by (auto simp: cursor_ok_def trimmed_def)
  have s: "split2 (itoa (unix_nano t) @ CHR '':'' # i) CHR '':'' = [itoa (unix_nano t), i]"
    by (rule split2_append) (rule itoa_no_colon)
  show "decode_event_log_cursor_token (encode_event_log_cursor_token t i) = Inr (Some (t, i))"
    by (simp add: cursor_token [OF assms(1)] decode_event_log_cursor_token_def event_log_cursor_prefix_def trim_prefix_def
        Let_def s u i)
  show "decode_page_token (encode_event_log_cursor_token t i) = Inr 0"
    by (simp add: cursor_token [OF assms(1)] decode_page_token_def event_log_cursor_prefix_def Let_def)
  have n: "atoi (itoa n) = Some n" using assms(2,3) by (intro atoi_itoa) auto
  have "is_digit (hd (itoa n))" "itoa n \<noteq> []"
    using assms(2) hd_nat_digits by (simp_all add: itoa_def)
  then have p: "\<not> starts_with ''c:'' (itoa n)" by (cases "itoa n") (auto simp: is_digit_def)
  have ne: "itoa n \<noteq> []" by fact
  show "decode_page_token (encode_page_token n) = Inr n"
    using assms(2) by (simp add: decode_page_token_def encode_page_token_def event_log_cursor_prefix_def Let_def n p ne)
  show "decode_event_log_cursor_token (encode_page_token n) = Inr None"
    using assms(2) by (simp add: decode_event_log_cursor_token_def encode_page_token_def event_log_cursor_prefix_def Let_def p ne)
qed

text \<open>
  A cursor token is read back as the creation time and identifier it was made from, and as
  offset 0; a token for an offset is read back as the offset and as no cursor. So the two kinds of
  token, which share one field of the request, are never taken for each other.
\<close>

theorem page_tokens_roundtrip:
  assumes "cursor_ok t i" and "0 < n" "n < 2 ^ 63"
  shows "decode_event_log_cursor_token (encode_event_log_cursor_token t i) = Inr (Some (t, i)) \<and>
    decode_page_token (encode_event_log_cursor_token t i) = Inr 0 \<and>
    decode_page_token (encode_page_token n) = Inr n \<and>
    decode_event_log_cursor_token (encode_page_token n) = Inr None"
  by (rule token_roundtrip [OF assms])

definition sample_time :: gtime where "sample_time = unix_epoch + 1700000000123456789"

theorem page_tokens_roundtrip_witness:
  "decode_event_log_cursor_token (encode_event_log_cursor_token sample_time ''a:b'') = Inr (Some (sample_time, ''a:b'')) \<and>
   decode_page_token (encode_page_token 50) = Inr 50"
proof -
  have t: "trim_space ''a:b'' = ''a:b''" by code_simp
  have "cursor_ok sample_time ''a:b''" by (simp add: cursor_ok_def sample_time_def unix_epoch_def trimmed_def t)
  from page_tokens_roundtrip [OF this, of 50] show ?thesis by simp
qed

section \<open>Following the tokens\<close>

text \<open>Calls of a client until the next token is empty; \<open>n\<close> bounds their number.\<close>

fun read_pages :: "nat \<Rightarrow> (string \<Rightarrow> ('m list \<times> string) rpc) \<Rightarrow> string \<Rightarrow> 'm list option" where
  "read_pages 0 call token = None"
| "read_pages (Suc n) call token =
     (case call token of
        Inl err \<Rightarrow> None
      | Inr (ms, next_token) \<Rightarrow>
          if next_token = [] then Some ms else map_option ((@) ms) (read_pages n call next_token))"

definition matching_rows :: "ctx \<Rightarrow> log_request \<Rightarrow> log_row list \<Rightarrow> log_row list" where
  "matching_rows c q table =
     sort_slice newest_first (filter (\<lambda>d. list_all (\<lambda>k. cond_holds k d) (apply_filter (request_filter q) c)) table)"

definition page_token_at :: "log_row list \<Rightarrow> nat \<Rightarrow> string" where
  "page_token_at rows k =
     (if k = 0 then [] else encode_event_log_cursor_token (lw_created (rows ! (k - 1))) (lw_id (rows ! (k - 1))))"

lemma apply_page_filter [simp]: "apply_filter (page_filter q n cur) c = apply_filter (request_filter q) c"
  by (simp add: apply_filter_def page_filter_def)

lemma clamp_pos: "0 < clamp_page_size n"
  by (auto simp: clamp_page_size_def Let_def default_event_log_page_size_def max_event_log_page_size_def)

lemma first_page_rows:
  "select_rows (list_query c (page_filter q 0 None)) table = take (Suc (nat (clamp_page_size (qr_page_size q)))) (matching_rows c q table)"
proof -
  have "nat (clamp_page_size (qr_page_size q) + 1) = Suc (nat (clamp_page_size (qr_page_size q)))"
    using clamp_pos [of "qr_page_size q"] by simp
  then show ?thesis
    using clamp_pos [of "qr_page_size q"]
    by (simp add: select_rows_def list_query_def matching_rows_def Let_def is_zero_def del: order_less.simps)
       (simp add: page_filter_def)
qed

lemma past_cursor_newest: "cond_holds (PastCursor (lw_created x) (lw_id x)) = newest_first x"
  by (auto simp: fun_eq_iff)

lemma next_page_rows:
  assumes d: "distinct (map lw_id table)" and k: "k < length (matching_rows c q table)"
    and ok: "cursor_ok (lw_created (matching_rows c q table ! k)) (lw_id (matching_rows c q table ! k))"
  shows "select_rows (list_query c (page_filter q 0 (Some (lw_created (matching_rows c q table ! k), lw_id (matching_rows c q table ! k))))) table
     = take (Suc (nat (clamp_page_size (qr_page_size q)))) (drop (Suc k) (matching_rows c q table))"
proof -
  let ?all = "matching_rows c q table" and ?P = "\<lambda>d. list_all (\<lambda>k. cond_holds k d) (apply_filter (request_filter q) c)"
  let ?x = "?all ! k"
  let ?f = "page_filter q 0 (Some (lw_created ?x, lw_id ?x))"
  have f: "\<not> is_zero (lf_cursor_created ?f)" "trim_space (lf_cursor_id ?f) = lw_id ?x" "lw_id ?x \<noteq> []"
    "lf_cursor_created ?f = lw_created ?x" "0 < lf_limit ?f" "lf_offset ?f = 0"
    "nat (lf_limit ?f) = Suc (nat (clamp_page_size (qr_page_size q)))"
    using ok clamp_pos [of "qr_page_size q"] by (simp_all add: page_filter_def cursor_ok_def trimmed_def is_zero_def)
  have conds: "lq_conds (list_query c ?f) = apply_filter (request_filter q) c @ [PastCursor (lw_created ?x) (lw_id ?x)]"
    unfolding list_query_def using f by simp
  have "filter (\<lambda>d. list_all (\<lambda>k. cond_holds k d) (lq_conds (list_query c ?f))) table = filter (newest_first ?x) (filter ?P table)"
    unfolding conds list_all_append filter_filter by (simp add: past_cursor_newest [symmetric] conj_commute del: cond_holds.simps)
  moreover have "lq_order (list_query c ?f) = [CreatedDesc, IdDesc]" "lq_limit (list_query c ?f) = Some (lf_limit ?f)"
    "lq_offset (list_query c ?f) = None"
    using f by (simp_all add: list_query_def)
  ultimately have "select_rows (list_query c ?f) table =
      take (Suc (nat (clamp_page_size (qr_page_size q)))) (sort_slice newest_first (filter (newest_first ?x) (filter ?P table)))"
    by (simp add: select_rows_def f(7) del: order_less.simps)
  also have "sort_slice newest_first (filter (newest_first ?x) (filter ?P table)) = filter (newest_first ?x) ?all"
    unfolding matching_rows_def by (rule sort_slice_filter) (simp add: d distinct_map_filter)
  also have "\<dots> = drop (Suc k) ?all"
  proof (rule filter_past [OF _ k newest_first_asym])
    show "sorted_wrt newest_first ?all"
      unfolding matching_rows_def by (rule newest_first_sorted) (simp add: d distinct_map_filter)
  qed
  finally show ?thesis .
qed

lemma set_matching: "set (matching_rows c q table) \<subseteq> set table"
  by (auto simp: matching_rows_def)

lemma page_call:
  assumes list: "lo_list ops = (\<lambda>c f st. sql_list_event_logs codec find_rows c f)"
    and find_rows: "\<forall>q'. find_rows q' = Inr (select_rows q' table)"
    and d: "distinct (map lw_id table)" and ok: "\<forall>x \<in> set table. cursor_ok (lw_created x) (lw_id x)"
    and n: "n = nat (clamp_page_size (qr_page_size q))" and k: "k \<le> length (matching_rows c q table)"
  shows "list_event_logs_rpc (Some ops) c (q\<lparr>qr_page_token := page_token_at (matching_rows c q table) k\<rparr>) st =
    Inr (map (to_proto_event_log_record \<circ> from_row codec) (take n (drop k (matching_rows c q table))),
         if k + n < length (matching_rows c q table) then page_token_at (matching_rows c q table) (k + n) else [])"
proof -
  let ?all = "matching_rows c q table"
  let ?q = "q\<lparr>qr_page_token := page_token_at ?all k\<rparr>"
  have okn: "cursor_ok (lw_created (?all ! j)) (lw_id (?all ! j))" if "j < length ?all" for j
    using ok set_matching that by (meson nth_mem subsetD)
  have pf: "page_filter (q\<lparr>qr_page_token := tok\<rparr>) m cur = page_filter q m cur" for tok m cur
    by (simp add: page_filter_def request_filter_def)
  have n0: "0 < n" using clamp_pos [of "qr_page_size q"] n by simp
  let ?rows = "take (Suc n) (drop k ?all)"
  have call: "list_event_logs_rpc (Some ops) c ?q st =
    (if n < length ?rows then
       (let lst = List.last (take n (map (from_row codec) ?rows)) in
        Inr (to_proto_event_log_records (take n (map (from_row codec) ?rows)),
             encode_event_log_cursor_token (el_created lst) (el_id lst)))
     else Inr (to_proto_event_log_records (map (from_row codec) ?rows), []))"
  proof (cases k)
    case 0
    then show ?thesis
      using find_rows
      by (simp add: list_event_logs_rpc_def page_token_at_def decode_page_token_def decode_event_log_cursor_token_def
          list sql_list_event_logs_def pf first_page_rows n [symmetric] Let_def)
  next
    case (Suc j)
    then have j: "j < length ?all" using k by simp
    note t = token_roundtrip [OF okn [OF j], of 1, simplified]
    have "lo_list ops c (page_filter ?q 0 (Some (lw_created (?all ! j), lw_id (?all ! j)))) st = Inr (map (from_row codec) ?rows)"
      using find_rows next_page_rows [OF d j okn [OF j]] Suc by (simp add: list sql_list_event_logs_def pf n)
    with t Suc show ?thesis
      by (simp add: list_event_logs_rpc_def page_token_at_def n [symmetric] Let_def)
  qed
  have rest: "n < length ?rows \<longleftrightarrow> k + n < length ?all" by auto
  show ?thesis
  proof (cases "k + n < length ?all")
    case True
    have "List.last (take n (map (from_row codec) ?rows)) = from_row codec (?all ! (k + n - 1))"
      using True n0 by (simp add: last_conv_nth take_map)
    with True rest call n0 show ?thesis
      by (simp add: Let_def to_proto_event_log_records_def take_map page_token_at_def from_row_def [of codec "?all ! _"])
  next
    case False
    then have "take (Suc n) (drop k ?all) = take n (drop k ?all)" by simp
    with False rest call show ?thesis by (simp add: to_proto_event_log_records_def)
  qed
qed

text \<open>
  C20: following the page tokens of the event log service over the database visits every
  matching record exactly once, newest first, whatever the page size, and comes to an end: the pages
  put together are the messages of all rows that the filter of the request and the tenant of the
  caller select. It needs that no two rows share their identifier, that the database answers queries
  as SQL documents, and that creation times fit into an int64 of nanoseconds around 1970.
\<close>

theorem event_log_pages_complete:
  assumes "lo_list ops = (\<lambda>c f st. sql_list_event_logs codec find_rows c f)"
    and "\<forall>q'. find_rows q' = Inr (select_rows q' table)"
    and "distinct (map lw_id table)" and "\<forall>x \<in> set table. cursor_ok (lw_created x) (lw_id x)"
  shows "\<exists>rows. read_pages (Suc (length table)) (\<lambda>token. list_event_logs_rpc (Some ops) c (q\<lparr>qr_page_token := token\<rparr>) st) []
      = Some (map (to_proto_event_log_record \<circ> from_row codec) rows) \<and>
    sorted_wrt newest_first rows \<and>
    mset rows = mset (filter (\<lambda>d. list_all (\<lambda>k. cond_holds k d) (apply_filter (request_filter q) c)) table)"
proof -
  let ?all = "matching_rows c q table"
  let ?call = "\<lambda>token. list_event_logs_rpc (Some ops) c (q\<lparr>qr_page_token := token\<rparr>) st"
  define n where "n = nat (clamp_page_size (qr_page_size q))"
  have n0: "0 < n" using clamp_pos [of "qr_page_size q"] by (simp add: n_def)
  have tok: "page_token_at ?all k \<noteq> []" if "0 < k" "k \<le> length ?all" for k
  proof -
    have "cursor_ok (lw_created (?all ! (k - 1))) (lw_id (?all ! (k - 1)))"
      using assms(4) set_matching that nth_mem [of "k - 1" ?all] by fastforce
    from cursor_token [OF this] that show ?thesis by (simp add: page_token_at_def)
  qed
  have pages: "k \<le> length ?all \<Longrightarrow> length ?all - k < fuel \<Longrightarrow>
      read_pages fuel ?call (page_token_at ?all k) = Some (map (to_proto_event_log_record \<circ> from_row codec) (drop k ?all))"
    for k fuel
  proof (induction fuel arbitrary: k)
    case (Suc fuel)
    note call = page_call [OF assms n_def Suc.prems(1), of st]
    show ?case
    proof (cases "k + n < length ?all")
      case True
      then have "read_pages fuel ?call (page_token_at ?all (k + n)) = Some (map (to_proto_event_log_record \<circ> from_row codec) (drop (k + n) ?all))"
        using Suc.prems n0 by (intro Suc.IH) auto
      moreover have "take n (drop k ?all) @ drop (k + n) ?all = drop k ?all"
        by (metis append_take_drop_id drop_drop add.commute)
      ultimately show ?thesis
        using call True tok [of "k + n"] n0 by (simp flip: map_append)
    qed (use call in simp)
  qed simp
  have "length ?all \<le> length table"
    unfolding matching_rows_def by simp
  then have "read_pages (Suc (length table)) ?call [] = Some (map (to_proto_event_log_record \<circ> from_row codec) ?all)"
    using pages [of 0 "Suc (length table)"] by (simp add: page_token_at_def)
  moreover have "sorted_wrt newest_first ?all"
    unfolding matching_rows_def by (rule newest_first_sorted) (simp add: assms(3) distinct_map_filter)
  ultimately show ?thesis
    by (intro exI [of _ ?all]) (simp add: matching_rows_def del: order_less.simps)
qed

definition sample_row :: log_row where
  "sample_row = \<lparr>lw_id = ''a'', lw_tenant = ''acme'', lw_provider = ''github'', lw_name = ''push'', lw_request_id = [],
     lw_state_id = [], lw_installation_id = [], lw_namespace_id = [], lw_namespace_name = [], lw_topic = [], lw_rule_id = [],
     lw_rule_when = [], lw_drivers_json = [], lw_headers_json = [], lw_body = [], lw_transformed = [], lw_body_hash = [],
     lw_matched = False, lw_status = ''queued'', lw_error = [], lw_latency = 0, lw_created = sample_time, lw_updated = sample_time\<rparr>"

definition sample_table :: "log_row list" where
  "sample_table = [sample_row, sample_row\<lparr>lw_id := ''b'', lw_provider := ''gitlab''\<rparr>,
     sample_row\<lparr>lw_id := ''c'', lw_created := sample_time + 1\<rparr>]"

definition sample_row_codec :: row_codec where
  "sample_row_codec = \<lparr>jr_drivers = \<lambda>ds. Inr (join_str '','' ds), jr_drivers_dec = \<lambda>s. [s], jr_headers = \<lambda>hs. Inr [],
     jr_headers_dec = \<lambda>s. []\<rparr>"

definition sample_log_ops :: "unit log_ops" where
  "sample_log_ops =
     \<lparr>lo_list = \<lambda>c f st. sql_list_event_logs sample_row_codec (\<lambda>q. Inr (select_rows q sample_table)) c f,
      lo_get = \<lambda>c i st. Inr None, lo_create = \<lambda>c now uuid rs st. (None, st), lo_status = \<lambda>c now i s e st. (None, st),
      lo_transformed = \<lambda>c now i b st. (None, st), lo_analytics = \<lambda>c f st. Inl (Error []),
      lo_timeseries = \<lambda>c f i st. Inr [], lo_breakdown = \<lambda>c f g s d n t l st. Inr ([], [])\<rparr>"

definition sample_log_request :: log_request where
  "sample_log_request = \<lparr>qr_provider = ''github'', qr_name = [], qr_topic = [], qr_request_id = [], qr_state_id = [],
     qr_installation_id = [], qr_namespace_id = [], qr_namespace_name = [], qr_rule_id = [], qr_rule_when = [],
     qr_matched_only = False, qr_start = None, qr_end = None, qr_page_size = 1, qr_page_token = []\<rparr>"

theorem event_log_pages_complete_witness:
  "\<exists>rows. read_pages 4 (\<lambda>token. list_event_logs_rpc (Some sample_log_ops) ''acme'' (sample_log_request\<lparr>qr_page_token := token\<rparr>) ()) []
      = Some (map (to_proto_event_log_record \<circ> from_row sample_row_codec) rows) \<and> length rows = 2"
proof -
  have t: "trim_space ''a'' = ''a''" "trim_space ''b'' = ''b''" "trim_space ''c'' = ''c''" by code_simp+
  have ok: "\<forall>x \<in> set sample_table. cursor_ok (lw_created x) (lw_id x)"
    by (simp add: sample_table_def sample_row_def cursor_ok_def sample_time_def unix_epoch_def trimmed_def t)
  have d: "distinct (map lw_id sample_table)" by (simp add: sample_table_def sample_row_def)
  have m: "length (filter (\<lambda>d. list_all (\<lambda>k. cond_holds k d) (apply_filter (request_filter sample_log_request) ''acme'')) sample_table) = 2"
    by code_simp
  have l: "lo_list sample_log_ops =
      (\<lambda>c f st. sql_list_event_logs sample_row_codec (\<lambda>q. Inr (select_rows q sample_table)) c f)"
    by (simp add: sample_log_ops_def)
  have "Suc (length sample_table) = 4" by (simp add: sample_table_def)
  with event_log_pages_complete [OF l _ d ok, of "''acme''" sample_log_request "()"] obtain rows
    where r: "read_pages 4 (\<lambda>token. list_event_logs_rpc (Some sample_log_ops) ''acme'' (sample_log_request\<lparr>qr_page_token := token\<rparr>) ()) []
        = Some (map (to_proto_event_log_record \<circ> from_row sample_row_codec) rows)"
      "mset rows = mset (filter (\<lambda>d. list_all (\<lambda>k. cond_holds k d) (apply_filter (request_filter sample_log_request) ''acme'')) sample_table)"
    by auto
  from r(2) m have "length rows = 2" by (metis size_mset)
  with r(1) show ?thesis by blast
qed

section \<open>The two stores\<close>

lemma where_set_holds [simp]:
  "list_all (\<lambda>k. cond_holds k d) (where_set column v) \<longleftrightarrow> field_matches v (row_column column d)"
  by (auto simp: where_set_def field_matches_def)

lemma tenant_scope_holds:
  "list_all (\<lambda>k. cond_holds k d) (tenant_scope c [] ''tenant_id'') \<longleftrightarrow> field_matches (tenant_from_context c) (lw_tenant d)"
proof -
  have "trim_space ''tenant_id'' = ''tenant_id''" by code_simp
  then show ?thesis by (auto simp: tenant_scope_def resolve_tenant_def field_matches_def row_column_def Let_def)
qed

lemma filter_holds:
  assumes "lf_tenant f = []"
  shows "list_all (\<lambda>k. cond_holds k d) (apply_filter f c) \<longleftrightarrow> log_matches (filter_tenant c f) f (from_row codec d)"
  unfolding apply_filter_def list_all_append
  by (simp add: assms tenant_scope_holds log_matches_def filter_tenant_def from_row_def row_column_def not_less
      split: option.split)

lemma descending_unique:
  fixes xs ys :: "'a :: linorder list"
  assumes "sorted_wrt (\<ge>) xs" "sorted_wrt (\<ge>) ys" "mset xs = mset ys"
  shows "xs = ys"
proof -
  have "sorted (rev xs)" "sorted (rev ys)" using assms(1,2) by (simp_all add: sorted_wrt_rev)
  moreover have "mset (rev xs) = mset (rev ys)" using assms(3) by simp
  ultimately have "rev xs = rev ys" by (metis properties_for_sort)
  then show ?thesis by simp
qed


end
