(* ===== verification/Log_Updates.thy ===== *)
theory Log_Updates
  imports Event_Logs
begin

text \<open>
  What the publishing code relies on when it reports an outcome to an event log store: the locale
  \<open>log_updates\<close>. The in-memory store keeps it (interpretation \<open>lmem\<close>), and so does the database store.
\<close>

section \<open>The contract\<close>

text \<open>
  A record up to what a report may change besides status and error; the database store trims the error
  text and the in-memory store does not.
\<close>

definition settled_core :: "event_log \<Rightarrow> event_log" where
  "settled_core r = r\<lparr>el_transformed := [], el_updated := 0, el_latency := 0, el_error := trim_space (el_error r)\<rparr>"

definition mark_log :: "ctx \<Rightarrow> string \<Rightarrow> string \<Rightarrow> string \<Rightarrow> event_log \<Rightarrow> event_log" where
  "mark_log c i status msg r =
     (if el_id r = i \<and> tenant_visible c (el_tenant r) then r\<lparr>el_status := status, el_error := trim_space msg\<rparr> else r)"

definition log_id_ok :: "string \<Rightarrow> bool" where
  "log_id_ok i \<longleftrightarrow> trimmed i \<and> i \<noteq> []"

locale log_updates =
  fixes content :: "'s \<Rightarrow> event_log list"
    and set_status_of :: "ctx \<Rightarrow> gtime \<Rightarrow> string \<Rightarrow> string \<Rightarrow> string \<Rightarrow> 's \<Rightarrow> go_error option \<times> 's"
    and set_payload_of :: "ctx \<Rightarrow> gtime \<Rightarrow> string \<Rightarrow> string \<Rightarrow> 's \<Rightarrow> go_error option \<times> 's"
  assumes status_effect:
      "log_id_ok i \<Longrightarrow> status \<in> {''success'', ''failed''} \<Longrightarrow>
         map settled_core (content (snd (set_status_of c now i status msg s))) =
           map (mark_log c i status msg) (map settled_core (content s))"
    and payload_effect:
      "log_id_ok i \<Longrightarrow>
         map settled_core (content (snd (set_payload_of c now i body s))) = map settled_core (content s)"

text \<open>A report for one record leaves every other record alone, and a later report wins.\<close>

lemma mark_log_keeps [simp]:
  "el_id (mark_log c i s e r) = el_id r" "el_tenant (mark_log c i s e r) = el_tenant r"
  by (auto simp: mark_log_def)

lemma mark_log_other: "el_id r \<noteq> i \<Longrightarrow> mark_log c i s e r = r"
  by (simp add: mark_log_def)

lemma settled_core_keeps [simp]:
  "el_id (settled_core r) = el_id r" "el_tenant (settled_core r) = el_tenant r" "el_status (settled_core r) = el_status r"
  "el_error (settled_core r) = trim_space (el_error r)"
  by (simp_all add: settled_core_def)

section \<open>The in-memory store\<close>

lemma update_transformed_settled:
  "map settled_core (snd (update_transformed c now i b m)) = map settled_core m"
  by (induction m) (auto simp: settled_core_def split: prod.split)

interpretation lmem: log_updates "\<lambda>m. m" update_event_log_status update_transformed
proof
  fix i status c now msg m
  show "map settled_core (snd (update_event_log_status c now i status msg m)) =
      map (mark_log c i status msg) (map settled_core m)"
    by (auto simp: update_event_log_status_def set_status_def settled_core_def mark_log_def Let_def)
qed (rule update_transformed_settled)

end
