(* ===== verification/Event_Sql_Writes.thy ===== *)
theory Event_Sql_Writes
  imports Event_Sql Log_Updates
begin

text \<open>
  Writing event logs to the database: \<^verbatim>\<open>pkg/storage/eventlogs/store_write.go\<close>.

  The database is the parameter \<open>log_db\<close>, one operation per call of gorm. \<open>sql_table\<close> is what SQL
  documents for them on a table with the primary key \<open>id\<close>; the store over it keeps the contract
  \<open>log_updates\<close>. The clock gives one time within a call. Log lines, and the query that only feeds one,
  are left out.
\<close>

section \<open>The database\<close>

datatype log_change = SetText string string | SetUpdated gtime | SetLatency int

text \<open>\<open>db_update\<close> gives the number of rows it changed.\<close>

record 't log_db =
  db_first :: "log_cond list \<Rightarrow> 't \<Rightarrow> log_row option res"
  db_insert :: "log_row list \<Rightarrow> 't \<Rightarrow> go_error option \<times> 't"
  db_update :: "log_cond list \<Rightarrow> log_change list \<Rightarrow> 't \<Rightarrow> nat res \<times> 't"

section \<open>Writes\<close>

definition sql_create_event_logs ::
  "'t log_db \<Rightarrow> row_codec \<Rightarrow> (string \<Rightarrow> string) \<Rightarrow> ctx \<Rightarrow> gtime \<Rightarrow> (nat \<Rightarrow> string) \<Rightarrow> event_log list \<Rightarrow> 't \<Rightarrow>
     go_error option \<times> 't" where
  "sql_create_event_logs db codec sha c now uuid rs t =
     (if rs = [] then (None, t)
      else case prepare_rows codec sha c now uuid 0 rs of
             Inl err \<Rightarrow> (Some err, t)
           | Inr rows \<Rightarrow> db_insert db rows t)"

definition log_by_id :: "ctx \<Rightarrow> string \<Rightarrow> log_cond list" where
  "log_by_id c i =
     FieldIs ''id'' i # (if tenant_from_context c \<noteq> [] then [FieldIs ''tenant_id'' (tenant_from_context c)] else [])"

definition sql_update_event_log_status ::
  "'t log_db \<Rightarrow> ctx \<Rightarrow> gtime \<Rightarrow> string \<Rightarrow> string \<Rightarrow> string \<Rightarrow> 't \<Rightarrow> go_error option \<times> 't" where
  "sql_update_event_log_status db c now i0 status0 msg t =
     (let i = trim_space i0; status = trim_space status0 in
      if i = [] then (Some (Error ''id is required''), t)
      else if status = [] then (Some (Error ''status is required''), t)
      else
        let updates = [SetText ''status'' status, SetText ''error_message'' (trim_space msg), SetUpdated now] @
              (if status = ''success'' \<or> status = ''failed'' then
                 (case db_first db (log_by_id c i) t of
                    Inr (Some r) \<Rightarrow>
                      if \<not> is_zero (lw_created r) then [SetLatency (milliseconds (time_sub now (lw_created r)))] else []
                  | _ \<Rightarrow> [])
               else []);
            conds = log_by_id c i @
              (if status = ''queued'' then [FieldIsNot ''status'' ''success'', FieldIsNot ''status'' ''failed''] else [])
        in case db_update db conds updates t of
             (Inl err, t') \<Rightarrow> (Some err, t')
           | (Inr n, t') \<Rightarrow>
               if n = 0 \<and> status \<noteq> ''queued'' then (Some (Error ''event log not found''), t') else (None, t'))"

definition sql_update_transformed ::
  "'t log_db \<Rightarrow> ctx \<Rightarrow> gtime \<Rightarrow> string \<Rightarrow> string \<Rightarrow> 't \<Rightarrow> go_error option \<times> 't" where
  "sql_update_transformed db c now i0 body t =
     (let i = trim_space i0 in
      if i = [] then (Some (Error ''id is required''), t)
      else case db_update db (log_by_id c i) [SetText ''transformed_body'' body, SetUpdated now] t of
             (Inl err, t') \<Rightarrow> (Some err, t')
           | (Inr n, t') \<Rightarrow> if n = 0 then (Some (Error ''event log not found''), t') else (None, t'))"

section \<open>What SQL documents\<close>

definition set_column :: "string \<Rightarrow> string \<Rightarrow> log_row \<Rightarrow> log_row" where
  "set_column column v d =
     (if column = ''status'' then d\<lparr>lw_status := v\<rparr> else if column = ''error_message'' then d\<lparr>lw_error := v\<rparr>
      else if column = ''transformed_body'' then d\<lparr>lw_transformed := v\<rparr> else d)"

fun apply_change :: "log_change \<Rightarrow> log_row \<Rightarrow> log_row" where
  "apply_change (SetText column v) d = set_column column v d"
| "apply_change (SetUpdated t) d = d\<lparr>lw_updated := t\<rparr>"
| "apply_change (SetLatency n) d = d\<lparr>lw_latency := n\<rparr>"

definition all_hold :: "log_cond list \<Rightarrow> log_row \<Rightarrow> bool" where
  "all_hold ks d \<longleftrightarrow> list_all (\<lambda>k. cond_holds k d) ks"

definition sql_table :: "log_row list log_db" where
  "sql_table =
     \<lparr>db_first = (\<lambda>ks t. Inr (case sort_slice (\<lambda>a b. lw_id a < lw_id b) (filter (all_hold ks) t) of [] \<Rightarrow> None | d # _ \<Rightarrow> Some d)),
      db_insert = (\<lambda>ds t. if distinct (map lw_id (t @ ds)) then (None, t @ ds) else (Some (Error ''duplicate key''), t)),
      db_update = (\<lambda>ks us t. (Inr (length (filter (all_hold ks) t)),
         map (\<lambda>d. if all_hold ks d then fold apply_change us d else d) t))\<rparr>"

section \<open>The contract of updates\<close>

lemma log_by_id_holds: "all_hold (log_by_id c i) d \<longleftrightarrow> lw_id d = i \<and> tenant_visible c (lw_tenant d)"
  by (auto simp: all_hold_def log_by_id_def row_column_def tenant_visible_def)

lemma sql_status_table:
  assumes "log_id_ok i" "status \<in> {''success'', ''failed''}"
  shows "\<exists>l. (l = [] \<or> (\<exists>n. l = [SetLatency n])) \<and>
     snd (sql_update_event_log_status sql_table c now i status msg t) =
       map (\<lambda>d. if all_hold (log_by_id c i) d
                then fold apply_change ([SetText ''status'' status, SetText ''error_message'' (trim_space msg), SetUpdated now] @ l) d
                else d) t"
proof -
  have i: "trim_space i = i" "i \<noteq> []" using assms(1) by (auto simp: log_id_ok_def trim_space_trimmed)
  have "trim_space ''success'' = ''success''" "trim_space ''failed'' = ''failed''" by code_simp+
  with assms(2) have s: "trim_space status = status" "status \<noteq> []" "status \<noteq> ''queued''" by auto
  let ?l = "case db_first sql_table (log_by_id c i) t of
      Inr (Some r) \<Rightarrow> if \<not> is_zero (lw_created r) then [SetLatency (milliseconds (time_sub now (lw_created r)))] else []
    | _ \<Rightarrow> []"
  have "?l = [] \<or> (\<exists>n. ?l = [SetLatency n])" by (auto split: sum.split option.split)
  moreover have "snd (sql_update_event_log_status sql_table c now i status msg t) =
       map (\<lambda>d. if all_hold (log_by_id c i) d
                then fold apply_change ([SetText ''status'' status, SetText ''error_message'' (trim_space msg), SetUpdated now] @ ?l) d
                else d) t"
    using assms(2) by (auto simp: sql_update_event_log_status_def Let_def i s sql_table_def)
  ultimately show ?thesis by blast
qed

lemma settled_core_row:
  "l = [] \<or> (\<exists>n. l = [SetLatency n]) \<Longrightarrow>
     settled_core (from_row codec (fold apply_change ([SetText ''status'' s, SetText ''error_message'' e, SetUpdated now] @ l) d)) =
       (settled_core (from_row codec d))\<lparr>el_status := s, el_error := trim_space e\<rparr>"
  by (auto simp: settled_core_def from_row_def set_column_def)

lemma settled_core_payload:
  "settled_core (from_row codec (fold apply_change [SetText ''transformed_body'' b, SetUpdated now] d)) =
     settled_core (from_row codec d)"
  by (simp add: settled_core_def from_row_def set_column_def)

lemma from_row_keeps [simp]: "el_id (from_row codec d) = lw_id d" "el_tenant (from_row codec d) = lw_tenant d"
  by (simp_all add: from_row_def)

interpretation lsql: log_updates "map (from_row codec)" "sql_update_event_log_status sql_table"
    "sql_update_transformed sql_table" for codec
proof
  fix i status c now msg t
  assume "log_id_ok i" "status \<in> {''success'', ''failed''}"
  from sql_status_table [OF this, of c now msg t]
  obtain l where l: "l = [] \<or> (\<exists>n. l = [SetLatency n])"
      "snd (sql_update_event_log_status sql_table c now i status msg t) =
       map (\<lambda>d. if all_hold (log_by_id c i) d
                then fold apply_change ([SetText ''status'' status, SetText ''error_message'' (trim_space msg), SetUpdated now] @ l) d
                else d) t"
    by blast
  show "map settled_core (map (from_row codec) (snd (sql_update_event_log_status sql_table c now i status msg t))) =
      map (mark_log c i status msg) (map settled_core (map (from_row codec) t))"
    unfolding l(2) using settled_core_row [OF l(1)]
    by (simp add: log_by_id_holds mark_log_def del: fold.simps fold_append)
next
  fix i c now body t
  assume "log_id_ok i"
  then have i: "trim_space i = i" "i \<noteq> []" by (auto simp: log_id_ok_def trim_space_trimmed)
  show "map settled_core (map (from_row codec) (snd (sql_update_transformed sql_table c now i body t))) =
      map settled_core (map (from_row codec) t)"
    using settled_core_payload by (simp add: sql_update_transformed_def i Let_def sql_table_def del: fold.simps)
qed

end
