(* ===== verification/Event_Replay.thy ===== *)
theory Event_Replay
  imports Event_Log_Service Event_Sql_Writes Webhook_Pipeline
begin

text \<open>
  Replaying an event log: \<^verbatim>\<open>ReplayEventLog\<close> and the functions it uses in \<^verbatim>\<open>pkg/api/eventlogs_service.go\<close>.

  A call that is accepted starts a goroutine, a \<open>job\<close> here, which makes one pass per match. The job keeps
  the publishers it opened; the service keeps the channel that limits the number of jobs. Jobs and calls
  interleave at the granularity of one pass or one call; \<open>run_replay\<close> is a job that runs to its end
  undisturbed. The context of a job is detached from the call, with the tenant of the caller.
\<close>

section \<open>State\<close>

text \<open>\<open>ry_drivers\<close> holds \<^verbatim>\<open>GetDriver\<close> and \<^verbatim>\<open>GetDriverByID\<close>; \<open>None\<close> is a nil store.\<close>

record ('p, 'e, 's) replay_service =
  ry_lib :: "'e rule_lib"
  ry_pipe :: "'p pipe_lib"
  ry_time :: time_lib
  ry_store :: "'s log_ops option"
  ry_rules :: rules_of
  ry_drivers :: "((ctx \<Rightarrow> string \<Rightarrow> driver_record option res) \<times> (ctx \<Rightarrow> string \<Rightarrow> driver_record option res)) option"
  ry_strict :: bool
  ry_concurrency :: int

record 'p replay_job =
  jb_ctx :: ctx
  jb_event :: event
  jb_todo :: "(rule_match \<times> string) list"
  jb_pubs :: "'p publisher gmap"

text \<open>\<open>rp_shared\<close> is the field \<^verbatim>\<open>Publisher\<close>; \<open>rp_limiter\<close> is the channel, its capacity and what it holds.\<close>

record ('p, 's) replay_state =
  rp_world :: "'p world"
  rp_logs :: 's
  rp_shared :: "'p tenant_publisher option"
  rp_limiter :: "(int \<times> int) option"
  rp_jobs :: "'p replay_job list"

section \<open>One match\<close>

definition checked_driver :: "driver_record option res \<Rightarrow> driver_record res" where
  "checked_driver found =
     bind_res found (\<lambda>d.
       case d of
         None \<Rightarrow> Inl (Error ''driver not found'')
       | Some r \<Rightarrow> if \<not> dr_enabled r then Inl (Error ''driver is disabled'') else Inr r)"

definition replay_resolve_driver ::
  "(ctx \<Rightarrow> string \<Rightarrow> driver_record option res) \<times> (ctx \<Rightarrow> string \<Rightarrow> driver_record option res) \<Rightarrow> ctx \<Rightarrow> rule_match \<Rightarrow>
     driver_record res" where
  "replay_resolve_driver drivers c m =
     (let name = trim_space (rm_driver_name m) in
      if name \<noteq> [] then checked_driver (fst drivers c name)
      else
        let driver_id = trim_space (rm_driver_id m) in
        if driver_id = [] then Inl (Error ''driver_id is required'')
        else checked_driver (snd drivers c driver_id))"

definition replay_status ::
  "'p pipe_lib \<Rightarrow> 's log_ops \<Rightarrow> ctx \<Rightarrow> string \<Rightarrow> string \<Rightarrow> string \<Rightarrow> ('p, 's) replay_state \<Rightarrow> ('p, 's) replay_state" where
  "replay_status L ops c i status msg st =
     st\<lparr>rp_logs := snd (lo_status ops c (pl_now (pk_pub L) (rp_world st)) i status msg (rp_logs st))\<rparr>"

definition replay_payload ::
  "'p pipe_lib \<Rightarrow> 's log_ops \<Rightarrow> ctx \<Rightarrow> string \<Rightarrow> string \<Rightarrow> ('p, 's) replay_state \<Rightarrow> ('p, 's) replay_state" where
  "replay_payload L ops c i body st =
     st\<lparr>rp_logs := snd (lo_transformed ops c (pl_now (pk_pub L) (rp_world st)) i body (rp_logs st))\<rparr>"

text \<open>Publishing through the shared publisher, or one of the job's own, opened on first use.\<close>

definition replay_send ::
  "'p pipe_lib \<Rightarrow> ctx \<Rightarrow> driver_record \<Rightarrow> string \<Rightarrow> event \<Rightarrow> 'p publisher gmap \<Rightarrow> ('p, 's) replay_state \<Rightarrow>
     go_error option \<times> 'p publisher gmap \<times> ('p, 's) replay_state" where
  "replay_send L c d topic ev pubs st =
     (case rp_shared st of
        Some tp \<Rightarrow>
          (case tenant_publish_for_drivers (pk_pub L) (pk_factories L) (pk_codec L) c topic ev [dr_name d] tp (rp_world st) of
             ((err, tp'), w) \<Rightarrow> (err, pubs, st\<lparr>rp_shared := Some tp', rp_world := w\<rparr>))
      | None \<Rightarrow>
          let name = trim_space (dr_name d);
              send = (\<lambda>pub pubs w. case publish_for_drivers (pk_pub L) pub topic ev [dr_name d] w of
                                     (err, w') \<Rightarrow> (err, pubs, st\<lparr>rp_world := w'\<rparr>))
          in case mget pubs name of
               Some pub \<Rightarrow> send pub pubs (rp_world st)
             | None \<Rightarrow>
                 (case config_from_driver (pk_codec L) (dr_name d) (dr_config_json d) of
                    Inl err \<Rightarrow> (Some err, pubs, st)
                  | Inr cfg \<Rightarrow>
                      (case new_publisher (pk_pub L) (pk_factories L) cfg (rp_world st) of
                         (Inl err, w) \<Rightarrow> (Some err, pubs, st\<lparr>rp_world := w\<rparr>)
                       | (Inr pub, w) \<Rightarrow> send pub (mput name pub pubs) w)))"

text \<open>One pass of the loop of \<^verbatim>\<open>runReplayAsync\<close>. The error is also returned, for the statements below.\<close>

definition replay_pass ::
  "('p, 'e, 's) replay_service \<Rightarrow> 's log_ops \<Rightarrow>
     (ctx \<Rightarrow> string \<Rightarrow> driver_record option res) \<times> (ctx \<Rightarrow> string \<Rightarrow> driver_record option res) \<Rightarrow>
     ctx \<Rightarrow> event \<Rightarrow> rule_match \<Rightarrow> string \<Rightarrow> 'p publisher gmap \<Rightarrow> ('p, 's) replay_state \<Rightarrow>
     go_error option \<times> 'p publisher gmap \<times> ('p, 's) replay_state" where
  "replay_pass S ops drivers c ev m i pubs st =
     (let L = ry_pipe S;
          failed = (\<lambda>err pubs st. (Some err, pubs, replay_status L ops c i ''failed'' (error_text err) st))
      in case replay_resolve_driver drivers c m of
           Inl err \<Rightarrow> failed err pubs st
         | Inr d \<Rightarrow>
             (case apply_rule_transform (pk_js L) ev (rm_transform_js m) of
                Inl err \<Rightarrow> failed err pubs st
              | Inr transformed \<Rightarrow>
                  (case replay_send L c d (rm_topic m) transformed pubs
                          (replay_payload L ops c i (ev_raw_payload transformed) st) of
                     (Some err, pubs', st') \<Rightarrow> failed err pubs' st'
                   | (None, pubs', st') \<Rightarrow> (None, pubs', replay_status L ops c i ''success'' [] st'))))"

section \<open>A whole run\<close>

text \<open>\<open>zip\<close> stops at the shorter list: matches without a record are skipped.\<close>

fun replay_passes ::
  "('p, 'e, 's) replay_service \<Rightarrow> 's log_ops \<Rightarrow>
     (ctx \<Rightarrow> string \<Rightarrow> driver_record option res) \<times> (ctx \<Rightarrow> string \<Rightarrow> driver_record option res) \<Rightarrow>
     ctx \<Rightarrow> event \<Rightarrow> (rule_match \<times> string) list \<Rightarrow> 'p publisher gmap \<Rightarrow> ('p, 's) replay_state \<Rightarrow>
     go_error option list \<times> 'p publisher gmap \<times> ('p, 's) replay_state" where
  "replay_passes S ops drivers c ev [] pubs st = ([], pubs, st)"
| "replay_passes S ops drivers c ev ((m, i) # todo) pubs st =
     (case replay_pass S ops drivers c ev m i pubs st of
        (err, pubs', st') \<Rightarrow>
          (case replay_passes S ops drivers c ev todo pubs' st' of
             (errs, pubs'', st'') \<Rightarrow> (err # errs, pubs'', st'')))"

text \<open>The deferred close; \<open>order\<close> is the order in which Go ranges over the map.\<close>

definition close_replay ::
  "('p, 'e, 's) replay_service \<Rightarrow> ('p publisher gmap \<Rightarrow> 'p publisher gmap) \<Rightarrow> 'p publisher gmap \<Rightarrow>
     ('p, 's) replay_state \<Rightarrow> ('p, 's) replay_state" where
  "close_replay S order pubs st =
     (if rp_shared st \<noteq> None then st
      else st\<lparr>rp_world := fold (\<lambda>pub w. snd (close_publisher (pk_pub (ry_pipe S)) pub w)) (mvals (order pubs)) (rp_world st)\<rparr>)"

definition run_replay ::
  "('p, 'e, 's) replay_service \<Rightarrow> 's log_ops \<Rightarrow>
     (ctx \<Rightarrow> string \<Rightarrow> driver_record option res) \<times> (ctx \<Rightarrow> string \<Rightarrow> driver_record option res) \<Rightarrow>
     ('p publisher gmap \<Rightarrow> 'p publisher gmap) \<Rightarrow> ctx \<Rightarrow> event \<Rightarrow> rule_match list \<Rightarrow> event_log list \<Rightarrow>
     ('p, 's) replay_state \<Rightarrow> go_error option list \<times> ('p, 's) replay_state" where
  "run_replay S ops drivers order c ev ms records st =
     (case replay_passes S ops drivers c ev (zip ms (map el_id records)) [] st of
        (errs, pubs, st') \<Rightarrow> (errs, close_replay S order pubs st'))"

section \<open>The call\<close>

definition replay_driver_name :: "rule_match \<Rightarrow> string" where
  "replay_driver_name m =
     (let name = trim_space (rm_driver_name m) in if name = [] then trim_space (rm_driver_id m) else name)"

definition clone_replay_headers :: "string list gmap option \<Rightarrow> string list gmap option" where
  "clone_replay_headers hs = (let m = (case hs of None \<Rightarrow> [] | Some m \<Rightarrow> m) in
     if m = [] then None else Some (filter (\<lambda>(k, vs). vs \<noteq> []) m))"

definition webhook_hash_body :: "(string \<Rightarrow> string) \<Rightarrow> string \<Rightarrow> string" where
  "webhook_hash_body sha body = (if body = [] then [] else sha body)"

definition replay_log :: "(string \<Rightarrow> string) \<Rightarrow> event \<Rightarrow> rule_match \<Rightarrow> string \<Rightarrow> event_log" where
  "replay_log sha ev m new_id =
     zero_event_log\<lparr>el_id := new_id, el_provider := ev_provider ev, el_name := ev_name ev,
       el_request_id := ev_request_id ev, el_state_id := ev_state_id ev,
       el_installation_id := ev_installation_id ev, el_namespace_id := ev_namespace_id ev,
       el_namespace_name := ev_namespace_name ev, el_topic := rm_topic m, el_rule_id := rm_rule_id m,
       el_rule_when := rm_rule_when m, el_drivers := [replay_driver_name m],
       el_headers := (case clone_replay_headers (ev_headers ev) of None \<Rightarrow> [] | Some hs \<Rightarrow> hs),
       el_body := ev_raw_payload ev,
       el_body_hash := webhook_hash_body sha (ev_raw_payload ev),
       el_status := ''queued'', el_matched := True\<rparr>"

fun replay_logs_from :: "(string \<Rightarrow> string) \<Rightarrow> (nat \<Rightarrow> string) \<Rightarrow> nat \<Rightarrow> event \<Rightarrow> rule_match list \<Rightarrow> event_log list" where
  "replay_logs_from sha uuid k ev [] = []"
| "replay_logs_from sha uuid k ev (m # ms) = replay_log sha ev m (uuid k) # replay_logs_from sha uuid (Suc k) ev ms"

definition build_replay_event_log_records :: "(string \<Rightarrow> string) \<Rightarrow> (nat \<Rightarrow> string) \<Rightarrow> event \<Rightarrow> rule_match list \<Rightarrow> event_log list" where
  "build_replay_event_log_records sha uuid ev ms = replay_logs_from sha uuid 0 ev ms"

record replay_result =
  rs_rule_id :: string
  rs_topic :: string
  rs_driver_name :: string
  rs_status :: string

definition replay_limiter :: "int \<Rightarrow> (int \<times> int) option \<Rightarrow> int \<times> int" where
  "replay_limiter concurrency limiter =
     (let limit = (if concurrency \<le> 0 then 8 else concurrency) in
      case limiter of
        None \<Rightarrow> (limit, 0)
      | Some (cap, n) \<Rightarrow> if cap \<noteq> limit then (limit, 0) else (cap, n))"

text \<open>The checks before the first write: the record, the event and its matches.\<close>

definition replay_matches ::
  "('p, 'e, 's) replay_service \<Rightarrow> 's log_ops \<Rightarrow>
     (ctx \<Rightarrow> string \<Rightarrow> driver_record option res) \<times> (ctx \<Rightarrow> string \<Rightarrow> driver_record option res) \<Rightarrow>
     ctx \<Rightarrow> string \<Rightarrow> 's \<Rightarrow> (string \<times> event \<times> rule_match list) rpc outcome" where
  "replay_matches S ops drivers c log_id logs =
     (if log_id = [] then Return (rpc_fail CodeInvalidArgument ''log_id is required'')
      else case lo_get ops c log_id logs of
             Inl err \<Rightarrow> Return (rpc_fail CodeInternal ''get event log failed'')
           | Inr None \<Rightarrow> Return (rpc_fail CodeNotFound ''event log not found'')
           | Inr (Some r) \<Rightarrow>
               (case build_replay_event (js_decode (pk_js (ry_pipe S))) (ry_time S) r of
                  Inl err \<Rightarrow> Return (Inl (CodeInvalidArgument, err))
                | Inr ev \<Rightarrow>
                    (let ev = (if trim_space (ev_tenant_id ev) = [] then ev\<lparr>ev_tenant_id := tenant_from_context c\<rparr> else ev) in
                     map_outcome (\<lambda>rules.
                         if rules = [] then rpc_fail CodeFailedPrecondition ''no matching rules for event log''
                         else
                           let ms = rule_matches_from_rules rules in
                           if ms = [] then rpc_fail CodeFailedPrecondition ''no matched topics for event log''
                           else Inr (el_id r, ev, ms))
                       (match_rules_from_store (ry_lib S) c ev (tenant_from_context c) (ry_rules S)
                          (Some (snd drivers)) (ry_strict S)))))"

text \<open>\<open>log_id\<close> is \<open>None\<close> for a request without a message; \<open>uuid\<close> gives the identifiers of the new records.\<close>

definition replay_event_log_rpc ::
  "('p, 'e, 's) replay_service \<Rightarrow> (nat \<Rightarrow> string) \<Rightarrow> ctx \<Rightarrow> string option \<Rightarrow> ('p, 's) replay_state \<Rightarrow>
     (string \<times> replay_result list) rpc outcome \<times> ('p, 's) replay_state" where
  "replay_event_log_rpc S uuid c log_id st =
     (case (ry_store S, ry_drivers S) of
        (None, _) \<Rightarrow> (Return storage_missing, st)
      | (Some ops, None) \<Rightarrow> (Return (rpc_fail CodeFailedPrecondition ''driver storage not configured''), st)
      | (Some ops, Some drivers) \<Rightarrow>
          if ry_rules S = None then (Return (rpc_fail CodeFailedPrecondition ''rule storage not configured''), st)
          else case log_id of
            None \<Rightarrow> (Return (rpc_fail CodeInvalidArgument ''request is required''), st)
          | Some i \<Rightarrow>
             (case replay_matches S ops drivers c (trim_space i) (rp_logs st) of
                Panics s \<Rightarrow> (Panics s, st)
              | Fails e \<Rightarrow> (Fails e, st)
              | Return (Inl err) \<Rightarrow> (Return (Inl err), st)
              | Return (Inr (rid, ev, ms)) \<Rightarrow>
                 (let L = ry_pipe S; records = build_replay_event_log_records (pk_sha L) uuid ev ms in
                  case lo_create ops c (pl_now (pk_pub L) (rp_world st)) uuid records (rp_logs st) of
                    (Some err, logs) \<Rightarrow>
                      (Return (rpc_fail CodeInternal ''replay event log write failed''), st\<lparr>rp_logs := logs\<rparr>)
                  | (None, logs) \<Rightarrow>
                     (let results = map (\<lambda>m. \<lparr>rs_rule_id = rm_rule_id m, rs_topic = rm_topic m,
                                              rs_driver_name = replay_driver_name m, rs_status = ''queued''\<rparr>) ms;
                          job = \<lparr>jb_ctx = with_tenant background (tenant_from_context c), jb_event = ev,
                                 jb_todo = zip ms (map el_id records), jb_pubs = []\<rparr>
                      in case replay_limiter (ry_concurrency S) (rp_limiter st) of
                           (cap, n) \<Rightarrow>
                             if n < cap then
                               (Return (Inr (rid, results)),
                                st\<lparr>rp_logs := logs, rp_limiter := Some (cap, n + 1), rp_jobs := rp_jobs st @ [job]\<rparr>)
                             else
                               (Return (rpc_fail CodeResourceExhausted ''replay queue is full''),
                                st\<lparr>rp_logs := logs, rp_limiter := Some (cap, n)\<rparr>)))))"

section \<open>Jobs and calls\<close>

text \<open>What a running job does next; at its end it closes its publishers and leaves the channel.\<close>

definition job_step ::
  "('p, 'e, 's) replay_service \<Rightarrow> 's log_ops \<Rightarrow>
     (ctx \<Rightarrow> string \<Rightarrow> driver_record option res) \<times> (ctx \<Rightarrow> string \<Rightarrow> driver_record option res) \<Rightarrow>
     ('p publisher gmap \<Rightarrow> 'p publisher gmap) \<Rightarrow> 'p replay_job \<Rightarrow> ('p, 's) replay_state \<Rightarrow>
     'p replay_job option \<times> ('p, 's) replay_state" where
  "job_step S ops drivers order job st =
     (case jb_todo job of
        [] \<Rightarrow> (None, (close_replay S order (jb_pubs job) st)
                  \<lparr>rp_limiter := map_option (\<lambda>(cap, n). (cap, n - 1)) (rp_limiter st)\<rparr>)
      | (m, i) # todo \<Rightarrow>
          (case replay_pass S ops drivers (jb_ctx job) (jb_event job) m i (jb_pubs job) st of
             (err, pubs, st') \<Rightarrow> (Some (job\<lparr>jb_todo := todo, jb_pubs := pubs\<rparr>), st')))"

text \<open>
  The other parts of the program change the world, the logs and the shared publisher at any time.
\<close>

inductive replay_step :: "('p, 'e, 's) replay_service \<Rightarrow> ('p, 's) replay_state \<Rightarrow> ('p, 's) replay_state \<Rightarrow> bool"
  for S where
  Call: "replay_event_log_rpc S uuid c log_id st = (r, st') \<Longrightarrow> replay_step S st st'"
| Pass: "rp_jobs st = before @ job # after \<Longrightarrow> ry_store S = Some ops \<Longrightarrow> ry_drivers S = Some drivers \<Longrightarrow>
    job_step S ops drivers order job st = (Some job', st') \<Longrightarrow> replay_step S st (st'\<lparr>rp_jobs := before @ job' # after\<rparr>)"
| Done: "rp_jobs st = before @ job # after \<Longrightarrow> ry_store S = Some ops \<Longrightarrow> ry_drivers S = Some drivers \<Longrightarrow>
    job_step S ops drivers order job st = (None, st') \<Longrightarrow> replay_step S st (st'\<lparr>rp_jobs := before @ after\<rparr>)"
| Other: "replay_step S st (st\<lparr>rp_world := w, rp_logs := logs, rp_shared := shared\<rparr>)"

inductive replay_reaches :: "('p, 'e, 's) replay_service \<Rightarrow> ('p, 's) replay_state \<Rightarrow> ('p, 's) replay_state \<Rightarrow> bool"
  for S where
  Start: "replay_reaches S st st"
| Step: "replay_reaches S st st1 \<Longrightarrow> replay_step S st1 st2 \<Longrightarrow> replay_reaches S st st2"

end
