(* ===== verification/Publisher_Sends.thy ===== *)
theory Publisher_Sends
  imports Driver_Cache
begin

text \<open>
  Which messages the publishers send: every message names the log record of its event, whatever is
  retried, multiplexed or dead-lettered on the way; building and closing publishers sends nothing.
\<close>

section \<open>Sending only certain messages\<close>

definition sends_only :: "('p \<times> string \<times> message \<Rightarrow> bool) \<Rightarrow> 'p world \<Rightarrow> 'p world \<Rightarrow> bool" where
  "sends_only P w w' \<longleftrightarrow> (\<exists>xs. w_sent w' = w_sent w @ xs \<and> list_all P xs)"

lemma sends_only_refl [simp, intro]: "sends_only P w w"
  by (simp add: sends_only_def)

lemma sends_only_trans [trans]: "sends_only P u v \<Longrightarrow> sends_only P v w \<Longrightarrow> sends_only P u w"
  by (force simp: sends_only_def)

lemma sends_only_same: "w_sent w' = w_sent w \<Longrightarrow> sends_only P w w'"
  by (simp add: sends_only_def)

lemma sends_only_retry:
  assumes "\<And>w. sends_only P w (snd (step w))"
  shows "sends_only P w (snd (retry_loop ctx delay step n last_err w))"
proof (induction n arbitrary: last_err w)
  case (Suc n)
  obtain e w1 where s: "step w = (e, w1)" by (cases "step w")
  have w1: "sends_only P w w1" using assms [of w] s by simp
  have rest: "sends_only P w (snd (retry_loop ctx delay step n le w1))" for le
    by (rule sends_only_trans [OF w1 Suc])
  show ?case
    using w1 rest by (auto simp: s split: option.split)
qed simp

lemma sends_only_mux:
  assumes "\<And>d pub w. look d = Some pub \<Longrightarrow> sends_only P w (snd (pub w))"
  shows "sends_only P w (snd (mux_loop look dlq targets err w))"
proof (induction targets arbitrary: err w)
  case (Cons d targets)
  show ?case
  proof (cases "look (to_lower d)")
    case None
    with Cons show ?thesis by simp
  next
    case (Some pub)
    obtain e w1 where p: "pub w = (e, w1)" by (cases "pub w")
    have w1: "sends_only P w w1" using assms [OF Some, of w] p by simp
    show ?thesis
    proof (cases e)
      case None
      with Some p sends_only_trans [OF w1 Cons] show ?thesis by simp
    next
      case e: (Some publish_err)
      define w2 where "w2 = (if dlq \<noteq> [] \<and> dlq \<noteq> to_lower d then (case look dlq of Some q \<Rightarrow> snd (q w1) | None \<Rightarrow> w1) else w1)"
      have "sends_only P w1 w2" unfolding w2_def using assms by (auto split: option.split)
      with w1 have w2: "sends_only P w w2" by (rule sends_only_trans)
      have "mux_loop look dlq (d # targets) err w = mux_loop look dlq targets (join_err err (Some publish_err)) w2"
        by (simp only: mux_loop.simps Let_def Some p e option.case prod.case w2_def)
      with sends_only_trans [OF w2 Cons] show ?thesis by simp
    qed
  qed
qed simp

section \<open>The log a message names\<close>

definition names_log :: "string \<Rightarrow> 'p \<times> string \<times> message \<Rightarrow> bool" where
  "names_log i = (\<lambda>(p, topic, msg). msg_id msg = i \<and> mget (msg_metadata msg) ''log_id'' = Some i)"

lemma event_metadata_log_id: "ev_log_id ev \<noteq> [] \<Longrightarrow> mget (event_metadata ev) ''log_id'' = Some (ev_log_id ev)"
  by (simp add: event_metadata_def Let_def)

lemma sends_relaybus:
  assumes "trim_space (ev_log_id ev) \<noteq> []"
  shows "sends_only (names_log (ev_log_id ev)) w (snd (relaybus_publish lib p topic ev w))"
proof -
  have "ev_log_id ev \<noteq> []" using assms by auto
  with assms event_metadata_log_id [of ev] show ?thesis
    by (auto simp: relaybus_publish_def sends_only_def names_log_def Let_def split: sum.split)
qed

lemma sends_publish:
  "trim_space (ev_log_id ev) \<noteq> [] \<Longrightarrow> sends_only (names_log (ev_log_id ev)) w (snd (publish lib pub topic ev w))"
proof (induction lib pub topic ev w rule: publish.induct)
  case (3 lib base attempts delay topic ev w)
  then show ?case by (simp add: sends_only_retry)
next
  case (4 lib pubs defaults dlq topic ev w)
  show ?case
    unfolding publish.simps by (rule sends_only_mux) (use 4 in auto)
qed (simp_all add: sends_relaybus)

lemma sends_publish_for_drivers:
  assumes "trim_space (ev_log_id ev) \<noteq> []"
  shows "sends_only (names_log (ev_log_id ev)) w (snd (publish_for_drivers lib pub topic ev ds w))"
proof (cases pub)
  case (Mux pubs defaults dlq)
  show ?thesis
    unfolding Mux publish_for_drivers.simps
    by (rule sends_only_mux) (auto simp: sends_publish [OF assms])
qed (simp_all only: publish_for_drivers.simps sends_publish [OF assms])

section \<open>Building and closing\<close>

lemma sent_single: "w_sent (snd (new_single_publisher lib [] cfg d rc w)) = w_sent w"
  by (simp add: new_single_publisher_def ask_backend_def Let_def mget_def)

lemma sent_build_loop:
  "(\<And>w. w_sent (snd (build w)) = w_sent w) \<Longrightarrow> w_sent (snd (build_loop ctx build n err w)) = w_sent w"
proof (induction n arbitrary: err w)
  case (Suc n)
  obtain r w1 where b: "build w = (r, w1)" by (cases "build w")
  have "w_sent w1 = w_sent w" using Suc.prems [of w] b by simp
  with b Suc show ?case by (auto split: sum.split option.split)
qed simp

lemma sent_build_drivers: "w_sent (snd (build_drivers lib [] cfg ds pubs built w)) = w_sent w"
proof (induction ds arbitrary: pubs built w)
  case (Cons d ds)
  let ?b = "retry_publisher_build lib (new_single_publisher lib [] cfg d (driver_retry_config cfg d)) w"
  obtain r w1 where b: "?b = (r, w1)" by (cases ?b)
  have "w_sent (snd ?b) = w_sent w"
    unfolding retry_publisher_build_def by (rule sent_build_loop) (rule sent_single)
  with b Cons show ?case by (auto split: sum.split)
qed simp

lemma sent_new_publisher: "w_sent (snd (new_publisher lib [] cfg w)) = w_sent w"
  using sent_build_drivers [of lib cfg "config_drivers cfg" "[]" "[]" w]
  by (auto simp: new_publisher_def split: prod.split)

lemma sent_close_loop:
  "(\<And>c w. c \<in> set cs \<Longrightarrow> w_sent (snd (c w)) = w_sent w) \<Longrightarrow> w_sent (snd (close_loop cs err w)) = w_sent w"
proof (induction cs arbitrary: err w)
  case (Cons c cs)
  obtain e w1 where c: "c w = (e, w1)" by (cases "c w")
  then have "w_sent w1 = w_sent w" using Cons.prems [of c w] by simp
  with Cons c show ?case by simp
qed simp

lemma sent_close: "w_sent (snd (close_publisher lib pub w)) = w_sent w"
proof (induction lib pub w rule: close_publisher.induct)
  case (4 lib pubs defaults dlq w)
  show ?case unfolding close_publisher.simps by (rule sent_close_loop) (use 4 in auto)
qed simp_all

lemma sent_close_existing: "w_sent (close_existing lib pubs key w) = w_sent w"
  by (simp add: close_existing_def sent_close split: option.split)

lemma sent_refresh: "w_sent (snd (refresh lib [] codec c dc w)) = w_sent w"
proof -
  have "w_sent (snd (refresh_tenant lib [] codec key records dc w)) = w_sent w" for key records
  proof -
    have n: "new_publisher lib [] cfg w = (r, w') \<Longrightarrow> w_sent w' = w_sent w" for cfg r w'
      using sent_new_publisher [of lib cfg w] by simp
    show ?thesis
      by (auto simp: refresh_tenant_def sent_close_existing dest: n split: sum.split prod.split)
  qed
  then show ?thesis by (simp add: refresh_def split: option.split sum.split)
qed

lemma sent_publisher_for: "w_sent (snd (publisher_for lib [] codec c dc w)) = w_sent w"
proof -
  obtain e dc' w1 where r: "refresh lib [] codec c dc w = ((e, dc'), w1)" by (metis surj_pair)
  with sent_refresh [of lib codec c dc w] have "w_sent w1 = w_sent w" by simp
  with r show ?thesis by (simp add: publisher_for_def Let_def split: option.split)
qed

lemma sent_tenant_publisher_for: "w_sent (snd (tenant_publisher_for lib [] codec c tp w)) = w_sent w"
proof (cases "tp_cache tp")
  case (Some dc)
  obtain r dc' w1 where p: "publisher_for lib [] codec c dc w = ((r, dc'), w1)" by (metis surj_pair)
  with sent_publisher_for [of lib codec c dc w] have "w_sent w1 = w_sent w" by simp
  with p Some show ?thesis by (auto simp: tenant_publisher_for_def split: sum.split option.split)
qed (simp add: tenant_publisher_for_def split: option.split)

lemma sends_tenant_publish_for_drivers:
  assumes "trim_space (ev_log_id ev) \<noteq> []"
  shows "sends_only (names_log (ev_log_id ev)) w (snd (tenant_publish_for_drivers lib [] codec c topic ev ds tp w))"
proof -
  obtain r tp' w1 where p: "tenant_publisher_for lib [] codec c tp w = ((r, tp'), w1)" by (metis surj_pair)
  with sent_tenant_publisher_for [of lib codec c tp w] have w1: "w_sent w1 = w_sent w" by simp
  show ?thesis
  proof (cases r)
    case (Inl err)
    with p w1 show ?thesis by (simp add: tenant_publish_for_drivers_def sends_only_same)
  next
    case (Inr pub)
    have "sends_only (names_log (ev_log_id ev)) w1 (snd (publish_for_drivers lib pub topic ev ds w1))"
      by (rule sends_publish_for_drivers [OF assms])
    with sends_only_trans [OF sends_only_same [OF w1] this] p Inr show ?thesis
      by (auto simp: tenant_publish_for_drivers_def split: prod.split)
  qed
qed

end
