(* ===== verification/Replay_Guarantees.thy ===== *)
theory Replay_Guarantees
  imports Event_Replay Publisher_Sends Webhook_Guarantees
begin

text \<open>
  What a replay guarantees: every record it creates is settled with the outcome of its match, over every
  log store that keeps \<open>log_updates\<close>; the number of jobs is bounded; and which log its messages name.
\<close>

section \<open>Settling\<close>

definition settle :: "ctx \<Rightarrow> string \<Rightarrow> go_error option \<Rightarrow> event_log \<Rightarrow> event_log" where
  "settle c i err =
     (case err of None \<Rightarrow> mark_log c i ''success'' [] | Some e \<Rightarrow> mark_log c i ''failed'' (error_text e))"

lemma settle_keeps [simp]: "el_id (settle c i err r) = el_id r" "el_tenant (settle c i err r) = el_tenant r"
  by (simp_all add: settle_def split: option.split)

lemma settle_other: "el_id r \<noteq> i \<Longrightarrow> settle c i err r = r"
  by (simp add: settle_def mark_log_other split: option.split)

lemma replay_send_logs: "rp_logs (snd (snd (replay_send L c d topic ev pubs st))) = rp_logs st"
  by (auto simp: replay_send_def Let_def split: option.split sum.split prod.split)

lemma close_replay_logs [simp]: "rp_logs (close_replay S order pubs st) = rp_logs st"
  by (simp add: close_replay_def)

context log_updates
begin

lemma status_settles:
  assumes "lo_status ops = set_status_of" "log_id_ok i"
  shows "map settled_core (content (rp_logs (replay_status L ops c i (if err = None then ''success'' else ''failed'')
            (case err of None \<Rightarrow> [] | Some e \<Rightarrow> error_text e) st))) =
          map (settle c i err) (map settled_core (content (rp_logs st)))"
  using status_effect [OF assms(2)] by (auto simp: replay_status_def assms(1) settle_def split: option.split)

lemma pass_settles:
  assumes "lo_status ops = set_status_of" "lo_transformed ops = set_payload_of" "log_id_ok i"
    and "replay_pass S ops drivers c ev m i pubs st = (err, pubs', st')"
  shows "map settled_core (content (rp_logs st')) = map (settle c i err) (map settled_core (content (rp_logs st)))"
proof -
  let ?L = "ry_pipe S"
  note outcome = status_settles [OF assms(1,3), of ?L c]
  have failed: "st' = replay_status ?L ops c i ''failed'' (error_text e) st0 \<Longrightarrow> err = Some e \<Longrightarrow>
      map settled_core (content (rp_logs st0)) = map settled_core (content (rp_logs st)) \<Longrightarrow> ?thesis" for e st0
    using outcome [of "Some e" st0] by simp
  show ?thesis
  proof (cases "replay_resolve_driver drivers c m")
    case (Inl e)
    with assms(4) show ?thesis by (intro failed [of e st]) (auto simp: replay_pass_def Let_def)
  next
    case d: (Inr d)
    show ?thesis
    proof (cases "apply_rule_transform (pk_js ?L) ev (rm_transform_js m)")
      case (Inl e)
      with assms(4) d show ?thesis by (intro failed [of e st]) (auto simp: replay_pass_def Let_def)
    next
      case t: (Inr t)
      let ?st = "replay_payload ?L ops c i (ev_raw_payload t) st"
      obtain e pubs1 st1 where s: "replay_send ?L c d (rm_topic m) t pubs ?st = (e, pubs1, st1)" by (metis prod_cases3)
      have "map settled_core (content (rp_logs st1)) = map settled_core (content (rp_logs ?st))"
        using replay_send_logs [of ?L c d "rm_topic m" t pubs ?st] s by simp
      also have "\<dots> = map settled_core (content (rp_logs st))"
        using payload_effect [OF assms(3)] by (simp add: replay_payload_def assms(2))
      finally have same: "map settled_core (content (rp_logs st1)) = map settled_core (content (rp_logs st))" .
      show ?thesis
      proof (cases e)
        case None
        with assms(4) d t s have "st' = replay_status ?L ops c i ''success'' [] st1" "err = None"
          by (auto simp: replay_pass_def Let_def)
        with outcome [of None st1] same show ?thesis by simp
      next
        case (Some e')
        with assms(4) d t s same show ?thesis by (intro failed [of e' st1]) (auto simp: replay_pass_def Let_def)
      qed
    qed
  qed
qed

lemma passes_settle:
  assumes "lo_status ops = set_status_of" "lo_transformed ops = set_payload_of" "\<forall>(m, i) \<in> set todo. log_id_ok i"
    and "replay_passes S ops drivers c ev todo pubs st = (errs, pubs', st')"
  shows "length errs = length todo \<and> map settled_core (content (rp_logs st')) =
     map (\<lambda>r. fold (\<lambda>(i, err). settle c i err) (zip (map snd todo) errs) r) (map settled_core (content (rp_logs st)))"
  using assms(3,4)
proof (induction todo arbitrary: pubs st errs)
  case (Cons t todo)
  obtain m i where t: "t = (m, i)" by (cases t)
  obtain err pubs1 st1 where p: "replay_pass S ops drivers c ev m i pubs st = (err, pubs1, st1)" by (metis prod_cases3)
  obtain errs1 pubs2 st2 where q: "replay_passes S ops drivers c ev todo pubs1 st1 = (errs1, pubs2, st2)" by (metis prod_cases3)
  have e: "errs = err # errs1" "st' = st2" "pubs' = pubs2" using Cons.prems(2) t p q by auto
  have i: "log_id_ok i" using Cons.prems(1) t by simp
  have "length errs1 = length todo \<and> map settled_core (content (rp_logs st2)) =
     map (\<lambda>r. fold (\<lambda>(i, err). settle c i err) (zip (map snd todo) errs1) r) (map settled_core (content (rp_logs st1)))"
    using Cons.IH [of pubs1 st1 errs1] Cons.prems(1) q e by simp
  then show ?case
    unfolding e t using pass_settles [OF assms(1,2) i p] by (simp add: o_def)
qed simp

lemma run_settles:
  assumes "lo_status ops = set_status_of" "lo_transformed ops = set_payload_of" "\<forall>r \<in> set records. log_id_ok (el_id r)"
    and "length records = length ms" "run_replay S ops drivers order c ev ms records st = (errs, st')"
  shows "length errs = length ms \<and> map settled_core (content (rp_logs st')) =
     map (\<lambda>r. fold (\<lambda>(i, err). settle c i err) (zip (map el_id records) errs) r) (map settled_core (content (rp_logs st)))"
proof -
  let ?todo = "zip ms (map el_id records)"
  obtain pubs st1 where p: "replay_passes S ops drivers c ev ?todo [] st = (errs, pubs, st1)" "st' = close_replay S order pubs st1"
    using assms(5) by (auto simp: run_replay_def split: prod.splits)
  have "\<forall>(m, i) \<in> set ?todo. log_id_ok i" using assms(3) by (fastforce dest: set_zip_rightD)
  from passes_settle [OF assms(1,2) this p(1)] show ?thesis using assms(4) by (simp add: p(2))
qed

end

lemma fold_settle_keeps:
  "el_id (fold (\<lambda>(i, err). settle c i err) (zip ids errs) r) = el_id r \<and>
   el_tenant (fold (\<lambda>(i, err). settle c i err) (zip ids errs) r) = el_tenant r"
  by (induction ids errs arbitrary: r rule: list_induct2') auto

lemma fold_settle_other:
  "el_id r \<notin> set ids \<Longrightarrow> fold (\<lambda>(i, err). settle c i err) (zip ids errs) r = r"
  by (induction ids errs rule: list_induct2') (simp_all add: settle_other)

lemma fold_settle_own:
  "distinct ids \<Longrightarrow> length errs = length ids \<Longrightarrow> k < length ids \<Longrightarrow> el_id r = ids ! k \<Longrightarrow>
     fold (\<lambda>(i, err). settle c i err) (zip ids errs) r = settle c (ids ! k) (errs ! k) r"
proof (induction ids arbitrary: errs r k)
  case (Cons i ids)
  then obtain e errs' where errs: "errs = e # errs'" by (cases errs) auto
  show ?case
  proof (cases k)
    case 0
    with Cons.prems errs show ?thesis by (simp add: fold_settle_other)
  next
    case (Suc l)
    with Cons.prems errs have "el_id r \<noteq> i" by (auto simp: in_set_conv_nth)
    with Cons.IH [of errs' l r] Cons.prems errs Suc show ?thesis by (simp add: settle_other)
  qed
qed simp


section \<open>The number of jobs\<close>

definition replay_limit :: "int \<Rightarrow> int" where
  "replay_limit concurrency = (if concurrency \<le> 0 then 8 else concurrency)"

definition limiter_inv :: "int \<Rightarrow> ('p, 's) replay_state \<Rightarrow> bool" where
  "limiter_inv concurrency st \<longleftrightarrow>
     (case rp_limiter st of
        None \<Rightarrow> rp_jobs st = []
      | Some (cap, n) \<Rightarrow> cap = replay_limit concurrency \<and> n = int (length (rp_jobs st)) \<and> n \<le> cap)"

lemma pass_keeps_limiter:
  "replay_pass S ops drivers c ev m i pubs st = (err, pubs', st') \<Longrightarrow>
     rp_limiter st' = rp_limiter st \<and> rp_jobs st' = rp_jobs st"
proof -
  have send: "replay_send L c d t ev p st1 = (e, p', st2) \<Longrightarrow> rp_limiter st2 = rp_limiter st1 \<and> rp_jobs st2 = rp_jobs st1"
    for L c d t ev p e p' and st1 st2 :: "('p, 's) replay_state"
    by (auto simp: replay_send_def Let_def split: option.splits sum.splits prod.splits)
  have [simp]: "rp_limiter (replay_status L ops c i s e st1) = rp_limiter st1" "rp_jobs (replay_status L ops c i s e st1) = rp_jobs st1"
      "rp_limiter (replay_payload L ops c i s st1) = rp_limiter st1" "rp_jobs (replay_payload L ops c i s st1) = rp_jobs st1"
    for L and ops :: "'s log_ops" and c i s e and st1 :: "('p, 's) replay_state"
    by (simp_all add: replay_status_def replay_payload_def)
  assume "replay_pass S ops drivers c ev m i pubs st = (err, pubs', st')"
  then show ?thesis
    by (auto simp: replay_pass_def Let_def dest: send split: sum.splits prod.splits option.splits)
qed

lemma replay_call_limiter:
  assumes "replay_event_log_rpc S uuid c log_id st = (r, st')"
  obtains (Same) "rp_limiter st' = rp_limiter st" "rp_jobs st' = rp_jobs st"
  | (Accepted) cap n job where "replay_limiter (ry_concurrency S) (rp_limiter st) = (cap, n)" "n < cap"
      "rp_limiter st' = Some (cap, n + 1)" "rp_jobs st' = rp_jobs st @ [job]"
  | (Full) cap n where "replay_limiter (ry_concurrency S) (rp_limiter st) = (cap, n)" "\<not> n < cap"
      "rp_limiter st' = Some (cap, n)" "rp_jobs st' = rp_jobs st"
proof (cases "replay_limiter (ry_concurrency S) (rp_limiter st)")
  case (Pair cap n)
  show thesis
    using assms Accepted [OF Pair] Full [OF Pair] Same unfolding replay_event_log_rpc_def Pair
    by (auto simp: Let_def split: option.splits if_splits outcome.splits sum.splits prod.splits)
qed

lemma step_keeps_limit:
  assumes "replay_step S st st'" "limiter_inv (ry_concurrency S) st"
  shows "limiter_inv (ry_concurrency S) st'"
  using assms(1)
proof cases
  case (Call uuid c log_id r)
  have lim: "replay_limiter (ry_concurrency S) (rp_limiter st) = (replay_limit (ry_concurrency S), int (length (rp_jobs st)))"
      "int (length (rp_jobs st)) \<le> replay_limit (ry_concurrency S)"
    using assms(2) by (auto simp: limiter_inv_def replay_limiter_def replay_limit_def Let_def split: option.splits if_splits)
  from Call show ?thesis
    by (rule replay_call_limiter) (use assms(2) lim in \<open>auto simp: limiter_inv_def split: option.splits\<close>)
next
  case (Pass before job after ops drivers order job' st1)
  then have "rp_limiter st1 = rp_limiter st"
    by (auto simp: job_step_def split: list.splits prod.splits dest: pass_keeps_limiter)
  with Pass assms(2) show ?thesis by (auto simp: limiter_inv_def split: option.splits)
next
  case (Done before job after ops drivers order st1)
  have "rp_limiter (close_replay S order (jb_pubs job) st) = rp_limiter st" by (simp add: close_replay_def)
  with Done have "rp_limiter st1 = map_option (\<lambda>(cap, n). (cap, n - 1)) (rp_limiter st)"
    by (auto simp: job_step_def split: list.splits prod.splits)
  with Done assms(2) show ?thesis by (auto simp: limiter_inv_def split: option.splits)
next
  case (Other w logs shared)
  with assms(2) show ?thesis by (auto simp: limiter_inv_def split: option.splits)
qed

text \<open>
  C38: at most \<^verbatim>\<open>ReplayConcurrency\<close> replays run at once (eight if it is not set), however calls,
  passes, ends of jobs and the rest of the program interleave; and the channel that counts them is never
  out of step with the jobs.
\<close>

theorem replays_bounded:
  assumes "replay_reaches S start st" "rp_limiter start = None" "rp_jobs start = []"
  shows "int (length (rp_jobs st)) \<le> (if ry_concurrency S \<le> 0 then 8 else ry_concurrency S) \<and>
    (\<forall>cap n. rp_limiter st = Some (cap, n) \<longrightarrow> n = int (length (rp_jobs st)))"
proof -
  have "limiter_inv (ry_concurrency S) st"
    using assms
  proof induction
    case Start
    then show ?case by (simp add: limiter_inv_def)
  next
    case (Step st st1 st2)
    then show ?case by (blast intro: step_keeps_limit)
  qed
  then show ?thesis by (auto simp: limiter_inv_def replay_limit_def split: option.splits)
qed

section \<open>The log a replay names\<close>

lemma map_outcome_Return: "map_outcome f r = Return y \<longleftrightarrow> (\<exists>x. r = Return x \<and> y = f x)"
  by (cases r) auto

lemma replay_event_log_id:
  "build_replay_event decode ti r = Inr ev \<Longrightarrow> ev_log_id ev = el_id r"
  by (auto simp: build_replay_event_def Let_def split: prod.splits if_splits)

lemma transform_keeps_log_id: "apply_rule_transform js ev src = Inr t \<Longrightarrow> ev_log_id t = ev_log_id ev"
  by (auto simp: apply_rule_transform_def Let_def bind_res_Inr_iff split: if_splits)

lemma sends_replay_send:
  assumes "pk_factories L = []" "trim_space (ev_log_id ev) \<noteq> []"
  shows "sends_only (names_log (ev_log_id ev)) (rp_world st) (rp_world (snd (snd (replay_send L c d topic ev pubs st))))"
proof (cases "rp_shared st")
  case (Some tp)
  then show ?thesis
    using sends_tenant_publish_for_drivers [OF assms(2), of "rp_world st" "pk_pub L" "pk_codec L" c topic "[dr_name d]" tp]
    by (auto simp: replay_send_def assms(1) split: prod.split)
next
  case None
  have p: "sends_only (names_log (ev_log_id ev)) w (snd (publish_for_drivers (pk_pub L) pub topic ev [dr_name d] w))" for pub w
    by (rule sends_publish_for_drivers [OF assms(2)])
  have q: "publish_for_drivers (pk_pub L) pub topic ev [dr_name d] w = (e, w') \<Longrightarrow> sends_only (names_log (ev_log_id ev)) w w'"
    for pub w e w' using p [of w pub] by simp
  have n: "new_publisher (pk_pub L) [] cfg (rp_world st) = (r, w) \<Longrightarrow> sends_only (names_log (ev_log_id ev)) (rp_world st) w" for cfg r w
    using sent_new_publisher [of "pk_pub L" cfg "rp_world st"] by (intro sends_only_same) simp
  show ?thesis
    unfolding replay_send_def None assms(1) Let_def
    by (auto split: option.split sum.split prod.split dest: q n intro: sends_only_trans [OF n q])
qed

lemma sends_replay_pass:
  assumes "pk_factories (ry_pipe S) = []" "trim_space (ev_log_id ev) \<noteq> []"
    and "replay_pass S ops drivers c ev m i pubs st = (err, pubs', st')"
  shows "sends_only (names_log (ev_log_id ev)) (rp_world st) (rp_world st')"
proof -
  have [simp]: "rp_world (replay_status L ops c i s e st1) = rp_world st1" "rp_world (replay_payload L ops c i s st1) = rp_world st1"
    for L and ops :: "'c log_ops" and c i s e and st1 :: "('a, 'c) replay_state"
    by (simp_all add: replay_status_def replay_payload_def)
  have send: "replay_send (ry_pipe S) c d topic t pubs st1 = (e, p', st2) \<Longrightarrow> apply_rule_transform js ev src = Inr t \<Longrightarrow>
      sends_only (names_log (ev_log_id ev)) (rp_world st1) (rp_world st2)" for d topic t st1 e p' st2 js src
    using sends_replay_send [OF assms(1), of t st1 c d topic pubs] transform_keeps_log_id [of js ev src t] assms(2) by simp
  show ?thesis
  proof (cases "replay_resolve_driver drivers c m")
    case (Inl e)
    with assms(3) show ?thesis by (auto simp: replay_pass_def Let_def)
  next
    case d: (Inr d)
    show ?thesis
    proof (cases "apply_rule_transform (pk_js (ry_pipe S)) ev (rm_transform_js m)")
      case (Inl e)
      with assms(3) d show ?thesis by (auto simp: replay_pass_def Let_def)
    next
      case t: (Inr t)
      let ?st = "replay_payload (ry_pipe S) ops c i (ev_raw_payload t) st"
      obtain e pubs1 st1 where s: "replay_send (ry_pipe S) c d (rm_topic m) t pubs ?st = (e, pubs1, st1)" by (metis prod_cases3)
      have "rp_world st' = rp_world st1" using assms(3) d t s by (cases e) (auto simp: replay_pass_def Let_def)
      with send [OF s t] show ?thesis by simp
    qed
  qed
qed

lemma sends_run_replay:
  assumes "pk_factories (ry_pipe S) = []" "trim_space (ev_log_id ev) \<noteq> []"
    and "run_replay S ops drivers order c ev ms records st = (errs, st')"
  shows "sends_only (names_log (ev_log_id ev)) (rp_world st) (rp_world st')"
proof -
  have passes: "replay_passes S ops drivers c ev todo pubs st1 = (errs, pubs', st2) \<Longrightarrow>
      sends_only (names_log (ev_log_id ev)) (rp_world st1) (rp_world st2)" for todo pubs errs pubs' st1 st2
  proof (induction todo arbitrary: pubs errs st1)
    case (Cons t todo)
    obtain m i where t: "t = (m, i)" by (cases t)
    obtain e pubs1 st3 where p: "replay_pass S ops drivers c ev m i pubs st1 = (e, pubs1, st3)" by (metis prod_cases3)
    obtain es pubs2 st4 where q: "replay_passes S ops drivers c ev todo pubs1 st3 = (es, pubs2, st4)" by (metis prod_cases3)
    have "st2 = st4" "pubs' = pubs2" using Cons.prems p q t by simp_all
    with sends_only_trans [OF sends_replay_pass [OF assms(1,2) p] Cons.IH] q show ?case by simp
  qed simp
  have close: "w_sent (fold (\<lambda>pub w. snd (close_publisher lib pub w)) pubs w) = w_sent w" for lib pubs w
    by (induction pubs arbitrary: w) (simp_all add: sent_close)
  obtain pubs st1 where p: "replay_passes S ops drivers c ev (zip ms (map el_id records)) [] st = (errs, pubs, st1)"
      "st' = close_replay S order pubs st1"
    using assms(3) by (auto simp: run_replay_def split: prod.splits)
  have "w_sent (rp_world st') = w_sent (rp_world st1)" by (simp add: p(2) close_replay_def close)
  with passes [OF p(1)] show ?thesis by (simp add: sends_only_def)
qed

text \<open>
  The messages of a replay name the record that was replayed, not the records the replay created.
  Each one has the identifier of the old record as its own and as \<^verbatim>\<open>log_id\<close> in its metadata, so what a
  worker reports about it changes the old record, and two matches of one replay share an identifier.
\<close>

theorem replay_reports_to_original:
  assumes "replay_matches S ops drivers c i logs = Return (Inr (rid, ev, ms))" "trim_space rid \<noteq> []"
    and "pk_factories (ry_pipe S) = []" "run_replay S ops drivers order c' ev ms records st = (errs, st')"
  shows "\<exists>new. w_sent (rp_world st') = w_sent (rp_world st) @ new \<and>
     (\<forall>(p, topic, msg) \<in> set new. msg_id msg = rid \<and> mget (msg_metadata msg) ''log_id'' = Some rid)"
proof -
  have "ev_log_id ev = rid"
  proof -
    obtain r ev0 where "build_replay_event (js_decode (pk_js (ry_pipe S))) (ry_time S) r = Inr ev0" "rid = el_id r"
        "ev = ev0 \<or> ev = ev0\<lparr>ev_tenant_id := tenant_from_context c\<rparr>"
      using assms(1) by (auto simp: replay_matches_def Let_def rpc_fail_def map_outcome_Return split: if_splits sum.splits option.splits)
    then show ?thesis using replay_event_log_id by auto
  qed
  with sends_run_replay [OF assms(3) _ assms(4)] assms(2) show ?thesis
    by (auto simp: sends_only_def names_log_def list_all_iff)
qed

section \<open>A replay that is turned away\<close>

lemma replay_matches_code: "replay_matches S ops drivers c i logs = Return (Inl (code, e)) \<Longrightarrow> code \<noteq> CodeResourceExhausted"
  by (auto simp: replay_matches_def Let_def rpc_fail_def map_outcome_Return split: if_splits sum.splits option.splits)

lemma replay_matches_nonempty: "replay_matches S ops drivers c i logs = Return (Inr (rid, ev, ms)) \<Longrightarrow> ms \<noteq> []"
  by (auto simp: replay_matches_def Let_def rpc_fail_def map_outcome_Return split: if_splits sum.splits option.splits)

lemma replay_logs_queued:
  "r \<in> set (replay_logs_from sha uuid k ev ms) \<Longrightarrow> el_status r = ''queued'' \<and> el_matched r"
  "length (replay_logs_from sha uuid k ev ms) = length ms"
  by (induction ms arbitrary: k) (auto simp: replay_log_def)

lemma prepare_log_status: "el_status r \<noteq> [] \<Longrightarrow> el_status (prepare_log sha c now i r) = el_status r \<and> el_matched (prepare_log sha c now i r) = el_matched r"
  by (simp add: prepare_log_def Let_def)

text \<open>
  A replay that is turned away because too many are running has already written its records.
  They stay in the store as queued, and no job will ever settle them.
\<close>

theorem full_replay_leaves_records:
  assumes "ry_store S = Some ops" "lo_create ops = create_event_logs sha"
    and "replay_event_log_rpc S uuid c log_id st = (Return (Inl (CodeResourceExhausted, e)), st')"
  shows "\<exists>new. rp_logs st' = rp_logs st @ new \<and> new \<noteq> [] \<and> (\<forall>r \<in> set new. el_status r = ''queued'' \<and> el_matched r) \<and>
     rp_jobs st' = rp_jobs st"
proof -
  let ?now = "pl_now (pk_pub (ry_pipe S)) (rp_world st)"
  let ?records = "\<lambda>ev ms. build_replay_event_log_records (pk_sha (ry_pipe S)) uuid ev ms"
  obtain drivers where d: "ry_drivers S = Some drivers" "ry_rules S \<noteq> None"
    using assms(1,3) by (auto simp: replay_event_log_rpc_def rpc_fail_def split: option.splits if_splits)
  obtain i0 where i0: "log_id = Some i0"
    using assms(1,3) d by (auto simp: replay_event_log_rpc_def rpc_fail_def split: option.splits)
  let ?m = "replay_matches S ops drivers c (trim_space i0) (rp_logs st)"
  note call = assms(3) [unfolded replay_event_log_rpc_def assms(1) d(1) i0 option.case prod.case]
  obtain rid ev ms where m: "?m = Return (Inr (rid, ev, ms))"
  proof (cases ?m)
    case (Return r)
    show thesis
    proof (cases r)
      case (Inl err)
      with Return replay_matches_code [of S ops drivers c "trim_space i0" "rp_logs st"] call d(2) show thesis
        by (cases err) auto
    next
      case (Inr x)
      with Return that show thesis by (cases x) auto
    qed
  qed (use call d(2) in auto)
  have st': "rp_logs st' = snd (create_event_logs sha c ?now uuid (?records ev ms) (rp_logs st))" "rp_jobs st' = rp_jobs st"
    using call d(2) unfolding m assms(2)
    by (auto simp: Let_def rpc_fail_def create_event_logs_def split: prod.splits if_splits)
  have len: "length (?records ev ms) = length ms" "ms \<noteq> []"
    using replay_matches_nonempty [OF m] by (simp_all add: build_replay_event_log_records_def replay_logs_queued(2))
  let ?new = "map (\<lambda>(j, r). prepare_log sha c ?now (uuid j) r) (zip [0..<length (?records ev ms)] (?records ev ms))"
  have "rp_logs st' = rp_logs st @ ?new" unfolding st'(1) create_event_logs_map ..
  moreover have "?new \<noteq> []" using len by (cases "?records ev ms") auto
  moreover have "el_status r = ''queued'' \<and> el_matched r" if "r \<in> set ?new" for r
  proof -
    from that obtain j r0 where r: "r = prepare_log sha c ?now (uuid j) r0" "r0 \<in> set (?records ev ms)"
      by (auto dest: set_zip_rightD)
    then have "el_status r0 = ''queued'' \<and> el_matched r0"
      using replay_logs_queued(1) [of r0] by (simp add: build_replay_event_log_records_def)
    then show ?thesis unfolding r(1) using prepare_log_status [of r0] by simp
  qed
  ultimately show ?thesis using st'(2) by blast
qed

section \<open>Samples\<close>

definition mem_log_ops :: "(string \<Rightarrow> string) \<Rightarrow> log_mem log_ops" where
  "mem_log_ops sha =
     \<lparr>lo_list = list_event_logs, lo_get = get_event_log, lo_create = create_event_logs sha,
      lo_status = update_event_log_status, lo_transformed = update_transformed, lo_analytics = get_event_log_analytics,
      lo_timeseries = get_event_log_timeseries, lo_breakdown = get_event_log_breakdown\<rparr>"

definition sample_stored_rule :: rule_record where
  "sample_stored_rule = \<lparr>rr_tenant = ''acme'', rr_id = ''r1'', rr_when = ''action == 1'', rr_emit = [''pr.opened''],
     rr_driver_id = ''d1'', rr_transform_js = [], rr_driver_name = ''amqp'', rr_driver_config_json = [],
     rr_driver_enabled = True, rr_created_at = 1, rr_updated_at = 1\<rparr>"

text \<open>A condition language in which every condition is true.\<close>

definition true_lib :: "unit rule_lib" where
  "true_lib = trivial_lib\<lparr>gv_vars := \<lambda>e. [], gv_evaluate := \<lambda>e ps. Return (VBool True)\<rparr>"

definition sample_amqp :: driver_record where
  "sample_amqp = \<lparr>dr_tenant = ''acme'', dr_id = ''d1'', dr_name = ''amqp'', dr_config_json = [], dr_enabled = True,
     dr_created_at = 1, dr_updated_at = 1\<rparr>"

definition sample_replay_service :: "(string, unit, log_mem) replay_service" where
  "sample_replay_service = \<lparr>ry_lib = true_lib, ry_pipe = sample_pipe_lib,
     ry_time = sample_time, ry_store = Some (mem_log_ops (\<lambda>s. s)), ry_rules = Some (\<lambda>c. Inr [sample_stored_rule]),
     ry_drivers = Some (\<lambda>c n. Inr (Some sample_amqp), \<lambda>c n. Inr None), ry_strict = False, ry_concurrency = 1\<rparr>"

definition sample_old_log :: event_log where
  "sample_old_log = zero_event_log\<lparr>el_id := ''old'', el_tenant := ''acme'', el_body := ''{}'', el_status := ''failed''\<rparr>"

definition sample_replay_state :: "(string, log_mem) replay_state" where
  "sample_replay_state = \<lparr>rp_world = empty_world, rp_logs = [sample_old_log],
     rp_shared = Some (pp_fallback sample_pipe), rp_limiter = None, rp_jobs = []\<rparr>"

definition sample_matched :: matched_rule where
  "sample_matched = \<lparr>mr_id = ''r1'', mr_when = ''action == 1'', mr_emit = [''pr.opened''], mr_driver_id = ''d1'',
     mr_transform_js = [], mr_driver_name = ''amqp'', mr_driver_config_json = [], mr_driver_enabled = True\<rparr>"

lemma sample_match_rules:
  "match_rules_from_store true_lib ''acme'' ev ''acme'' (Some (\<lambda>c. Inr [sample_stored_rule])) d False =
     Return [sample_matched]"
proof -
  have fires: "rule_fires true_lib ev False rule = Return True" for rule
    by (simp add: rule_fires_def true_lib_def split: prod.split)
  have l: "load_rule ''acme'' d sample_stored_rule = Some (rule_of_record sample_stored_rule ''d1'' ''amqp'')"
  proof -
    have t: "trim_space ''action == 1'' = ''action == 1''" "trim_space ''d1'' = ''d1''" "trim_space ''amqp'' = ''amqp''" by code_simp+
    show ?thesis by (simp add: load_rule_def sample_stored_rule_def t Let_def)
  qed
  have c: "with_tenant ''acme'' ''acme'' = ''acme''" by code_simp
  have e: "new_rule_engine true_lib \<lparr>rc_rules = [rule_of_record sample_stored_rule ''d1'' ''amqp''], rc_strict = False, rc_tenant_id = []\<rparr> =
      Inr \<lparr>re_rules = [\<lparr>cr_id = ''r1'', cr_when = ''action == 1'', cr_emit = [''pr.opened''], cr_driver_id = ''d1'',
         cr_transform_js = [], cr_driver_name = ''amqp'', cr_driver_config_json = [], cr_driver_enabled = True, cr_vars = [],
         cr_var_map = [(''v___action'', ''$.action'')], cr_expr = ()\<rparr>], re_strict = False, re_tenant = None\<rparr>"
    by code_simp
  show ?thesis
    by (simp add: match_rules_from_store_def load_rules_for_tenant_def c l e List.map_filter_simps evaluate_rules_for_tenant_def engine_rules_def
        fires matched_rule_of_def sample_matched_def)
qed

abbreviation sample_drivers :: "(ctx \<Rightarrow> string \<Rightarrow> driver_record option res) \<times> (ctx \<Rightarrow> string \<Rightarrow> driver_record option res)" where
  "sample_drivers \<equiv> (\<lambda>c n. Inr (Some sample_amqp), \<lambda>c n. Inr None)"

lemma sample_replay_matches:
  "\<exists>ev. ev_log_id ev = ''old'' \<and> ev_raw_payload ev = ''{}'' \<and>
     replay_matches sample_replay_service (mem_log_ops (\<lambda>s. s)) sample_drivers ''acme'' ''old'' [sample_old_log] =
       Return (Inr (''old'', ev, rule_matches_from_rules [sample_matched]))"
proof -
  have t: "trim_space ''acme'' = ''acme''" "trim_space ''old'' = ''old''" by code_simp+
  have g: "get_event_log ''acme'' ''old'' [sample_old_log] = Inr (Some sample_old_log)" by code_simp
  have "\<exists>ev. build_replay_event (js_decode sample_js) sample_time sample_old_log = Inr ev \<and>
      ev_log_id ev = ''old'' \<and> ev_tenant_id ev = ''acme'' \<and> ev_raw_payload ev = ''{}''"
    by (simp add: build_replay_event_def sample_old_log_def zero_event_log_def raw_object_and_flatten_def sample_js_def
        event_of_def replay_source_def split: prod.split)
  then obtain ev where ev: "build_replay_event (js_decode sample_js) sample_time sample_old_log = Inr ev"
      "ev_log_id ev = ''old''" "ev_tenant_id ev = ''acme''" "ev_raw_payload ev = ''{}''"
    by blast
  have "rule_matches_from_rules [sample_matched] \<noteq> []" by (simp add: sample_matched_def)
  then have "replay_matches sample_replay_service (mem_log_ops (\<lambda>s. s)) sample_drivers ''acme'' ''old'' [sample_old_log] =
       Return (Inr (''old'', ev, rule_matches_from_rules [sample_matched]))"
    using ev g sample_match_rules
    by (simp add: replay_matches_def sample_replay_service_def sample_pipe_lib_def mem_log_ops_def t tenant_from_context_def
        Let_def sample_old_log_def)
  with ev(2,4) show ?thesis by blast
qed

lemma sample_replay_call:
  "replay_event_log_rpc sample_replay_service sample_uuid ''acme'' (Some ''old'') (sample_replay_state\<lparr>rp_limiter := l\<rparr>) = (r, st') \<Longrightarrow>
     (if l = Some (1, 1) then r = Return (Inl (CodeResourceExhausted, Error ''replay queue is full''))
      else l = None \<longrightarrow> rp_jobs st' \<noteq> [])"
proof -
  have t: "trim_space ''old'' = ''old''" by code_simp
  obtain ev where m: "replay_matches sample_replay_service (mem_log_ops (\<lambda>s. s)) sample_drivers ''acme'' ''old'' [sample_old_log] =
       Return (Inr (''old'', ev, rule_matches_from_rules [sample_matched]))"
    using sample_replay_matches by blast
  assume "replay_event_log_rpc sample_replay_service sample_uuid ''acme'' (Some ''old'') (sample_replay_state\<lparr>rp_limiter := l\<rparr>) = (r, st')"
  with m show ?thesis
    by (auto simp: replay_event_log_rpc_def sample_replay_service_def sample_replay_state_def t mem_log_ops_def
        create_event_logs_def Let_def replay_limiter_def rpc_fail_def split: if_splits)
qed

theorem replays_bounded_witness:
  "\<exists>st. replay_reaches sample_replay_service sample_replay_state st \<and> length (rp_jobs st) = 1"
proof -
  obtain r st where c: "replay_event_log_rpc sample_replay_service sample_uuid ''acme'' (Some ''old'') sample_replay_state = (r, st)"
    by (metis surj_pair)
  have l: "sample_replay_state\<lparr>rp_limiter := None\<rparr> = sample_replay_state" by (simp add: sample_replay_state_def)
  have "rp_jobs st \<noteq> []" using sample_replay_call [of None r st] c by (simp add: l)
  moreover have reach: "replay_reaches sample_replay_service sample_replay_state st"
    using replay_reaches.Step [OF replay_reaches.Start replay_step.Call [OF c]] .
  have "int (length (rp_jobs st)) \<le> 1"
    using replays_bounded [OF reach] by (simp add: sample_replay_state_def sample_replay_service_def)
  ultimately have "length (rp_jobs st) = 1" by (cases "rp_jobs st") auto
  with reach show ?thesis by blast
qed

theorem full_replay_leaves_records_witness:
  "\<exists>st' new. replay_event_log_rpc sample_replay_service sample_uuid ''acme'' (Some ''old'')
       (sample_replay_state\<lparr>rp_limiter := Some (1, 1)\<rparr>) = (Return (Inl (CodeResourceExhausted, Error ''replay queue is full'')), st') \<and>
     rp_logs st' = sample_old_log # new \<and> new \<noteq> []"
proof -
  let ?st = "sample_replay_state\<lparr>rp_limiter := Some (1, 1)\<rparr>"
  obtain r st' where c: "replay_event_log_rpc sample_replay_service sample_uuid ''acme'' (Some ''old'') ?st = (r, st')"
    by (metis surj_pair)
  have r: "r = Return (Inl (CodeResourceExhausted, Error ''replay queue is full''))"
    using sample_replay_call [OF c] by simp
  have "ry_store sample_replay_service = Some (mem_log_ops (\<lambda>s. s))" "lo_create (mem_log_ops (\<lambda>s. s)) = create_event_logs (\<lambda>s. s)"
    by (simp_all add: sample_replay_service_def mem_log_ops_def)
  from full_replay_leaves_records [OF this c [unfolded r]] c r show ?thesis
    by (auto simp: sample_replay_state_def)
qed

lemma sample_replay_sends:
  assumes "ev_raw_payload ev = ''{}''"
    and "run_replay sample_replay_service (mem_log_ops (\<lambda>s. s)) sample_drivers id ''acme'' ev
      (rule_matches_from_rules [sample_matched]) [zero_event_log\<lparr>el_id := ''new''\<rparr>] sample_replay_state = (errs, st')"
  shows "w_sent (rp_world st') \<noteq> []"
proof -
  have t: "trim_space ''amqp'' = ''amqp''" "trim_space [] = []" "to_lower ''amqp'' = ''amqp''" by code_simp+
  from assms show ?thesis
    by (auto simp: run_replay_def replay_pass_def replay_resolve_driver_def checked_driver_def sample_amqp_def t Let_def
        sample_matched_def apply_rule_transform_def replay_send_def sample_replay_state_def sample_pipe_def
        tenant_publish_for_drivers_def tenant_publisher_for_def sample_replay_service_def sample_pipe_lib_def
        relaybus_publish_def publish_payload_def sample_pub_lib_def close_replay_def replay_status_def replay_payload_def
        split: prod.splits option.splits)
qed

theorem replay_reports_to_original_witness:
  "\<exists>ev ms errs st' new. run_replay sample_replay_service (mem_log_ops (\<lambda>s. s)) sample_drivers id
       ''acme'' ev ms [zero_event_log\<lparr>el_id := ''new''\<rparr>] sample_replay_state = (errs, st') \<and>
     w_sent (rp_world st') = new \<and> new \<noteq> [] \<and> (\<forall>(p, topic, msg) \<in> set new. msg_id msg = ''old'')"
proof -
  obtain ev where m: "replay_matches sample_replay_service (mem_log_ops (\<lambda>s. s)) sample_drivers ''acme'' ''old'' [sample_old_log] =
       Return (Inr (''old'', ev, rule_matches_from_rules [sample_matched]))" "ev_raw_payload ev = ''{}''"
    using sample_replay_matches by blast
  obtain errs st' where run: "run_replay sample_replay_service (mem_log_ops (\<lambda>s. s)) sample_drivers id ''acme'' ev
      (rule_matches_from_rules [sample_matched]) [zero_event_log\<lparr>el_id := ''new''\<rparr>] sample_replay_state = (errs, st')"
    by (metis surj_pair)
  have "trim_space ''old'' \<noteq> []" by code_simp
  moreover have "pk_factories (ry_pipe sample_replay_service) = []" by (simp add: sample_replay_service_def sample_pipe_lib_def)
  ultimately show ?thesis
    using replay_reports_to_original [OF m(1) _ _ run] sample_replay_sends [OF m(2) run] run
    by (force simp: sample_replay_state_def empty_world_def)
qed

definition sample_sql_ops :: "log_row list log_ops" where
  "sample_sql_ops =
     \<lparr>lo_list = \<lambda>c f st. Inr [], lo_get = \<lambda>c i st. Inr None, lo_create = \<lambda>c now uuid rs st. (None, st),
      lo_status = sql_update_event_log_status sql_table, lo_transformed = sql_update_transformed sql_table,
      lo_analytics = \<lambda>c f st. Inl (Error []), lo_timeseries = \<lambda>c f i st. Inr [],
      lo_breakdown = \<lambda>c f g s d n t l st. Inr ([], [])\<rparr>"

definition sample_new_row :: log_row where
  "sample_new_row = \<lparr>lw_id = ''new'', lw_tenant = ''acme'', lw_provider = [], lw_name = [], lw_request_id = [],
     lw_state_id = [], lw_installation_id = [], lw_namespace_id = [], lw_namespace_name = [], lw_topic = [], lw_rule_id = [],
     lw_rule_when = [], lw_drivers_json = [], lw_headers_json = [], lw_body = [], lw_transformed = [], lw_body_hash = [],
     lw_matched = True, lw_status = ''queued'', lw_error = [], lw_latency = 0, lw_created = 5, lw_updated = 5\<rparr>"


end
