(* ===== verification/Worker_Messages.thy ===== *)
theory Worker_Messages
  imports Publisher Worker_Subscriber
begin

text \<open>
  The worker of the Go SDK: what it subscribes to and what it does with a message. Sources:
  \<^verbatim>\<open>sdk/go/worker/worker.go\<close>, \<^verbatim>\<open>codec.go\<close>, \<^verbatim>\<open>retry.go\<close>, \<^verbatim>\<open>event_log_updates.go\<close>, \<^verbatim>\<open>handler.go\<close>, \<^verbatim>\<open>listener.go\<close>,
  \<^verbatim>\<open>client.go\<close>.

  Handlers, listeners and clients act on a world \<open>'w\<close>. The state of the worker adds two counters to it for
  the statements: the status updates it asked for and the runs of handlers. A handler gets a pointer to
  the event, so it gives back the event as it left it; listeners leave it alone. A handler that panics takes the process down, which is not modelled; log lines are left
  out.
\<close>

section \<open>Events\<close>

record 'c wevent =
  wv_provider :: string
  wv_type :: string
  wv_topic :: string
  wv_metadata :: "string gmap"
  wv_payload :: string
  wv_normalized :: "gval gmap option"
  wv_client :: "'c option"

text \<open>
  The context of the worker: the tenant stored by \<^verbatim>\<open>storage.WithTenant\<close> and, under a key of its own, the
  tenant stored by the worker's \<^verbatim>\<open>WithTenantID\<close>.
\<close>

record wctx =
  wx_storage :: ctx
  wx_worker :: string

definition with_tenant_id :: "wctx \<Rightarrow> string \<Rightarrow> wctx" where
  "with_tenant_id c t0 = (let t = trim_space t0 in if t = [] then c else c\<lparr>wx_worker := t\<rparr>)"

definition tenant_id_from_context :: "wctx \<Rightarrow> string" where
  "tenant_id_from_context c = trim_space (wx_worker c)"

section \<open>Decoding\<close>

text \<open>\<open>cx_proto\<close> is \<^verbatim>\<open>proto.Unmarshal\<close> of an \<^verbatim>\<open>EventPayload\<close>: provider, name, payload; \<open>cx_json\<close> is \<^verbatim>\<open>json.Unmarshal\<close>.\<close>

record codec_lib =
  cx_proto :: "string \<Rightarrow> (string \<times> string \<times> string) res"
  cx_json :: "string \<Rightarrow> gval res"

definition metadata_value :: "string gmap \<Rightarrow> string \<Rightarrow> string" where
  "metadata_value m key = (case mget m key of None \<Rightarrow> [] | Some v \<Rightarrow> v)"

definition resolve_topic :: "string \<Rightarrow> message \<Rightarrow> string" where
  "resolve_topic topic msg = (if trim_space topic \<noteq> [] then topic else msg_topic msg)"

definition string_member :: "gval gmap \<Rightarrow> string \<Rightarrow> string" where
  "string_member m key = (case mget m key of Some (VStr s) \<Rightarrow> s | _ \<Rightarrow> [])"

text \<open>Unmarshalling into a map: nothing on an error or on null.\<close>

definition json_object :: "codec_lib \<Rightarrow> string \<Rightarrow> gval gmap option" where
  "json_object lib raw = (if raw = [] then None else case cx_json lib raw of Inr (VMap m) \<Rightarrow> Some m | _ \<Rightarrow> None)"

text \<open>Provider, name, raw payload and normalized payload, from protobuf or from the older JSON format.\<close>

definition decode_payload :: "codec_lib \<Rightarrow> string \<Rightarrow> (string \<times> string \<times> string \<times> gval gmap option) res" where
  "decode_payload lib payload =
     (case cx_proto lib payload of
        Inr (provider, name, raw) \<Rightarrow> Inr (provider, name, raw, json_object lib raw)
      | Inl proto_err \<Rightarrow>
          (let from = (\<lambda>m. Inr (string_member m ''provider'', string_member m ''name'', payload,
                         case mget m ''data'' of Some (VMap data) \<Rightarrow> Some data | _ \<Rightarrow> None))
           in case cx_json lib payload of
                Inr (VMap m) \<Rightarrow> from m
              | Inr VNil \<Rightarrow> from []
              | _ \<Rightarrow> Inl proto_err))"

definition default_decode :: "codec_lib \<Rightarrow> string \<Rightarrow> message option \<Rightarrow> 'c wevent res" where
  "default_decode lib topic msg =
     (case msg of
        None \<Rightarrow> Inl (Error ''message is nil'')
      | Some m \<Rightarrow>
          bind_res (decode_payload lib (msg_payload m)) (\<lambda>(provider, name, raw, normalized).
            Inr \<lparr>wv_provider = (if provider = [] then metadata_value (msg_metadata m) ''provider'' else provider),
                 wv_type = (if name = [] then metadata_value (msg_metadata m) ''event'' else name),
                 wv_topic = resolve_topic topic m, wv_metadata = msg_metadata m, wv_payload = raw,
                 wv_normalized = (case normalized of Some n \<Rightarrow> Some n | None \<Rightarrow> json_object lib raw),
                 wv_client = None\<rparr>))"

section \<open>The worker\<close>

type_synonym ('c, 'w) whandler = "wctx \<Rightarrow> 'c wevent \<Rightarrow> 'w \<Rightarrow> go_error option \<times> 'c wevent \<times> 'w"

record ('c, 'w) listener =
  ls_start :: "(wctx \<Rightarrow> 'w \<Rightarrow> 'w) option"
  ls_exit :: "(wctx \<Rightarrow> 'w \<Rightarrow> 'w) option"
  ls_message_start :: "(wctx \<Rightarrow> 'c wevent \<Rightarrow> 'w \<Rightarrow> 'w) option"
  ls_message_finish :: "(wctx \<Rightarrow> 'c wevent \<Rightarrow> go_error option \<Rightarrow> 'w \<Rightarrow> 'w) option"
  ls_error :: "(wctx \<Rightarrow> 'c wevent option \<Rightarrow> go_error \<Rightarrow> 'w \<Rightarrow> 'w) option"

text \<open>\<open>wk_on_error\<close> gives \<^verbatim>\<open>Retry\<close> and \<^verbatim>\<open>Nack\<close>; \<open>wk_update\<close> is \<^verbatim>\<open>EventLogsClient.UpdateStatus\<close>.\<close>

record ('c, 'w) worker =
  wk_decode :: "string \<Rightarrow> message option \<Rightarrow> 'c wevent res"
  wk_on_error :: "wctx \<Rightarrow> 'c wevent option \<Rightarrow> go_error \<Rightarrow> bool \<times> bool"
  wk_retry_count :: int
  wk_topic_handlers :: "('c, 'w) whandler gmap"
  wk_type_handlers :: "('c, 'w) whandler gmap"
  wk_middleware :: "(('c, 'w) whandler \<Rightarrow> ('c, 'w) whandler) list"
  wk_client :: "(wctx \<Rightarrow> 'c wevent \<Rightarrow> 'w \<Rightarrow> 'c option res \<times> 'w) option"
  wk_listeners :: "('c, 'w) listener list"
  wk_update :: "wctx \<Rightarrow> string \<Rightarrow> string \<Rightarrow> string \<Rightarrow> 'w \<Rightarrow> go_error option \<times> 'w"

definition no_retry :: "wctx \<Rightarrow> 'c wevent option \<Rightarrow> go_error \<Rightarrow> bool \<times> bool" where
  "no_retry c ev err = (False, True)"

record 'w work =
  wo_world :: 'w
  wo_updates :: "(wctx \<times> string \<times> string \<times> string) list"
  wo_runs :: nat

section \<open>Handling a message\<close>

definition notify_message_start :: "('c, 'w) listener list \<Rightarrow> wctx \<Rightarrow> 'c wevent \<Rightarrow> 'w work \<Rightarrow> 'w work" where
  "notify_message_start ls c ev st =
     st\<lparr>wo_world := fold (\<lambda>l w. case ls_message_start l of None \<Rightarrow> w | Some f \<Rightarrow> f c ev w) ls (wo_world st)\<rparr>"

definition notify_message_finish :: "('c, 'w) listener list \<Rightarrow> wctx \<Rightarrow> 'c wevent \<Rightarrow> go_error option \<Rightarrow> 'w work \<Rightarrow> 'w work" where
  "notify_message_finish ls c ev err st =
     st\<lparr>wo_world := fold (\<lambda>l w. case ls_message_finish l of None \<Rightarrow> w | Some f \<Rightarrow> f c ev err w) ls (wo_world st)\<rparr>"

definition notify_error :: "('c, 'w) listener list \<Rightarrow> wctx \<Rightarrow> 'c wevent option \<Rightarrow> go_error \<Rightarrow> 'w work \<Rightarrow> 'w work" where
  "notify_error ls c ev err st =
     st\<lparr>wo_world := fold (\<lambda>l w. case ls_error l of None \<Rightarrow> w | Some f \<Rightarrow> f c ev err w) ls (wo_world st)\<rparr>"

definition worker_update ::
  "('c, 'w) worker \<Rightarrow> wctx \<Rightarrow> string \<Rightarrow> string \<Rightarrow> go_error option \<Rightarrow> 'w work \<Rightarrow> 'w work" where
  "worker_update W c log_id status err st =
     (if log_id = [] then st
      else
        let msg = (case err of None \<Rightarrow> [] | Some e \<Rightarrow> error_text e) in
        st\<lparr>wo_world := snd (wk_update W c log_id status msg (wo_world st)),
           wo_updates := wo_updates st @ [(c, log_id, status, msg)]\<rparr>)"

definition wrap :: "('c, 'w) worker \<Rightarrow> ('c, 'w) whandler \<Rightarrow> ('c, 'w) whandler" where
  "wrap W h = foldr (\<lambda>mw wrapped. mw wrapped) (wk_middleware W) h"

text \<open>The loop over the attempts: \<open>n\<close> are left, \<open>err\<close> is the error of the last one.\<close>

fun run_attempts ::
  "('c, 'w) whandler \<Rightarrow> wctx \<Rightarrow> nat \<Rightarrow> go_error option \<Rightarrow> 'c wevent \<Rightarrow> 'w work \<Rightarrow> go_error option \<times> 'c wevent \<times> 'w work" where
  "run_attempts h c 0 err ev st = (err, ev, st)"
| "run_attempts h c (Suc n) err ev st =
     (case h c ev (wo_world st) of
        (err', ev', w) \<Rightarrow>
          (let st' = st\<lparr>wo_world := w, wo_runs := wo_runs st + 1\<rparr> in
           if err' = None then (None, ev', st') else run_attempts h c n err' ev' st'))"

text \<open>Everything that follows a failure; the last report decides whether to ask for a redelivery.\<close>

definition fail_message ::
  "('c, 'w) worker \<Rightarrow> wctx \<Rightarrow> string \<Rightarrow> 'c wevent option \<Rightarrow> go_error \<Rightarrow> 'w work \<Rightarrow> bool \<times> 'w work" where
  "fail_message W c log_id ev err st =
     (let st = notify_error (wk_listeners W) c ev err (worker_update W c log_id ''failed'' (Some err) st);
          (retry, nack) = wk_on_error W c ev err
      in (retry \<or> nack, st))"

definition handle_message :: "('c, 'w) worker \<Rightarrow> wctx \<Rightarrow> string \<Rightarrow> message option \<Rightarrow> 'w work \<Rightarrow> bool \<times> 'w work" where
  "handle_message W c0 topic msg st =
     (let log_id = (case msg of None \<Rightarrow> [] | Some m \<Rightarrow> metadata_value (msg_metadata m) ''log_id'');
          c = (case msg of None \<Rightarrow> c0 | Some m \<Rightarrow> with_tenant_id c0 (metadata_value (msg_metadata m) ''tenant_id''));
          ls = wk_listeners W
      in case wk_decode W topic msg of
           Inl err \<Rightarrow> fail_message W c log_id None err st
         | Inr ev \<Rightarrow>
             (case (case wk_client W of
                      None \<Rightarrow> (Inr ev, st)
                    | Some client_of \<Rightarrow>
                        (case client_of c ev (wo_world st) of
                           (Inl err, w) \<Rightarrow> (Inl err, st\<lparr>wo_world := w\<rparr>)
                         | (Inr client, w) \<Rightarrow> (Inr (ev\<lparr>wv_client := client\<rparr>), st\<lparr>wo_world := w\<rparr>))) of
                (Inl err, st) \<Rightarrow> fail_message W c log_id (Some ev) err st
              | (Inr ev, st) \<Rightarrow>
                  (let st = notify_message_start ls c ev st;
                       handler = (case mget (wk_topic_handlers W) topic of
                                    Some h \<Rightarrow> Some h
                                  | None \<Rightarrow> mget (wk_type_handlers W) (wv_type ev))
                   in case handler of
                        None \<Rightarrow> (False, worker_update W c log_id ''success'' None (notify_message_finish ls c ev None st))
                      | Some h \<Rightarrow>
                          (case run_attempts (wrap W h) c (nat (wk_retry_count W + 1)) None ev st of
                             (Some err, ev, st) \<Rightarrow>
                               (let st = notify_message_finish ls c ev (Some err) st;
                                    st = notify_error ls c (Some ev) err st;
                                    st = worker_update W c log_id ''failed'' (Some err) st;
                                    (retry, nack) = wk_on_error W c (Some ev) err
                                in (retry \<or> nack, st))
                           | (None, ev, st) \<Rightarrow>
                               (False, worker_update W c log_id ''success'' None (notify_message_finish ls c ev None st))))))"

definition should_requeue :: "message option \<Rightarrow> bool" where
  "should_requeue msg =
     (case msg of None \<Rightarrow> False | Some m \<Rightarrow> to_lower (metadata_value (msg_metadata m) ''driver'') = ''amqp'')"

text \<open>What the worker tells the subscriber about a message: an error asks for a redelivery.\<close>

definition deliver :: "('c, 'w) worker \<Rightarrow> wctx \<Rightarrow> string \<Rightarrow> message option \<Rightarrow> 'w work \<Rightarrow> go_error option \<times> 'w work" where
  "deliver W c topic msg st =
     (case handle_message W c topic msg st of
        (nack, st') \<Rightarrow> (if nack \<and> should_requeue msg then Some (Error ''message nack requested'') else None, st'))"

section \<open>Subscriptions\<close>

record rule_topic =
  rt_emit :: "string list"
  rt_driver_id :: string

record 'h subscriptions =
  sb_topics :: "string list"
  sb_handlers :: "'h gmap"
  sb_drivers :: "string gmap"

text \<open>\<open>handlers\<close> is the map of rule handlers in the order in which Go ranges over it.\<close>

fun prepare_rules ::
  "(string \<Rightarrow> rule_topic res) \<Rightarrow> (string \<times> 'h) list \<Rightarrow> 'h subscriptions \<Rightarrow> 'h subscriptions res" where
  "prepare_rules rule_of [] s = Inr s"
| "prepare_rules rule_of ((rule_id, h) # handlers) s =
     bind_res (rule_of rule_id) (\<lambda>r.
       case rt_emit r of
         [] \<Rightarrow> Inl (Error (''rule '' @ rule_id @ '' has no emit topic''))
       | t # _ \<Rightarrow>
           (let topic = trim_space t; driver_id = trim_space (rt_driver_id r) in
            if topic = [] then Inl (Error (''rule '' @ rule_id @ '' emit topic empty''))
            else if driver_id = [] then Inl (Error (''rule '' @ rule_id @ '' driver_id is required''))
            else prepare_rules rule_of handlers
                   \<lparr>sb_topics = sb_topics s @ [topic], sb_handlers = mput topic h (sb_handlers s),
                    sb_drivers = mput topic driver_id (sb_drivers s)\<rparr>))"

fun group_topics :: "(string \<times> string) list \<Rightarrow> string list gmap \<Rightarrow> string list gmap res" where
  "group_topics [] out = Inr out"
| "group_topics ((topic, driver_id) # ds) out =
     (let trimmed = trim_space driver_id in
      if trimmed = [] then Inl (Error (''driver id is required for topic: '' @ topic))
      else group_topics ds (mput trimmed ((case mget out trimmed of None \<Rightarrow> [] | Some ts \<Rightarrow> ts) @ [topic]) out))"

definition topics_by_driver :: "(string gmap \<Rightarrow> string gmap) \<Rightarrow> string gmap \<Rightarrow> string list gmap res" where
  "topics_by_driver order drivers =
     (if drivers = [] then Inl (Error ''driver id is required for topics'') else group_topics (order drivers) [])"

record driver_info =
  di_name :: string
  di_config_json :: string
  di_enabled :: bool
  di_id :: string

fun build_driver_subscribers ::
  "sub_codec \<Rightarrow> (string \<Rightarrow> driver_info option res) \<Rightarrow> string list \<Rightarrow> subscriber gmap \<Rightarrow> subscriber gmap res" where
  "build_driver_subscribers codec driver_of [] subs = Inr subs"
| "build_driver_subscribers codec driver_of (driver_id # ids) subs =
     (if mget subs driver_id \<noteq> None then build_driver_subscribers codec driver_of ids subs
      else
        bind_res (driver_of driver_id) (\<lambda>found.
          case found of
            None \<Rightarrow> Inl (Error (''driver not found: '' @ driver_id))
          | Some r \<Rightarrow>
              if \<not> di_enabled r then Inl (Error (''driver is disabled: '' @ driver_id))
              else
                bind_res (subscriber_config_from_driver codec (di_name r) (di_config_json r)) (\<lambda>cfg.
                bind_res (build_subscriber cfg) (\<lambda>sub.
                  build_driver_subscribers codec driver_of ids (mput driver_id sub subs)))))"

fun unique_loop :: "string list \<Rightarrow> string list \<Rightarrow> string list" where
  "unique_loop [] out = out"
| "unique_loop (v # vs) out = (if v \<in> set out then unique_loop vs out else unique_loop vs (out @ [v]))"

definition unique_values :: "string list \<Rightarrow> string list" where
  "unique_values vs = unique_loop vs []"

fun start_plan :: "string list gmap \<Rightarrow> subscriber gmap \<Rightarrow> (subscriber \<times> string) list res" where
  "start_plan [] subs = Inr []"
| "start_plan ((driver_id, topics) # ds) subs =
     (case mget subs driver_id of
        None \<Rightarrow> Inl (Error (''subscriber not initialized for driver: '' @ driver_id))
      | Some sub \<Rightarrow> bind_res (start_plan ds subs) (\<lambda>rest. Inr (map (Pair sub) (unique_values topics) @ rest)))"

text \<open>
  What \<^verbatim>\<open>Run\<close> starts, subscriber and topic of each goroutine: an error before the first one, or the whole
  list. \<open>order\<close> and \<open>order'\<close> are the orders in which Go ranges over the maps.
\<close>

definition run_plan ::
  "sub_codec \<Rightarrow> (string \<Rightarrow> rule_topic res) \<Rightarrow> (string \<Rightarrow> driver_info option res) \<Rightarrow> (string gmap \<Rightarrow> string gmap) \<Rightarrow>
     (string list gmap \<Rightarrow> string list gmap) \<Rightarrow> subscriber option \<Rightarrow> (string \<times> 'h) list \<Rightarrow> subscriber gmap \<Rightarrow>
     'h subscriptions \<Rightarrow> ((subscriber \<times> string) list \<times> 'h subscriptions) res" where
  "run_plan codec rule_of driver_of order order' sub rule_handlers subs s =
     bind_res (prepare_rules rule_of rule_handlers s) (\<lambda>s.
       if sb_topics s = [] then Inl (Error ''at least one topic is required'')
       else case sub of
              Some sub \<Rightarrow> Inr (map (Pair sub) (unique_values (sb_topics s)), s)
            | None \<Rightarrow>
                bind_res (topics_by_driver order (sb_drivers s)) (\<lambda>groups.
                bind_res (build_driver_subscribers codec driver_of (mkeys (order' groups)) subs) (\<lambda>subs.
                bind_res (start_plan (order' groups) subs) (\<lambda>plan. Inr (plan, s)))))"

end
