(* ===== verification/Worker_Clients.thy ===== *)
theory Worker_Clients
  imports Worker_Messages Api_Common App_Config
begin

text \<open>
  The API clients of the Go worker SDK: \<^verbatim>\<open>sdk/go/worker/api_clients.go\<close>, \<^verbatim>\<open>rules_client.go\<close>,
  \<^verbatim>\<open>drivers_client.go\<close>, \<^verbatim>\<open>installations_client.go\<close>, \<^verbatim>\<open>event_logs_client.go\<close>, \<^verbatim>\<open>scm_client_service.go\<close>,
  \<^verbatim>\<open>scm_client_provider.go\<close>, \<^verbatim>\<open>scm_clients.go\<close>, \<^verbatim>\<open>token_resolver.go\<close>.

  A call is what reaches the transport: base URL, headers, message. The transport (Connect over HTTP,
  request validation included), the environment and the OAuth2 token are parameters. Header names are
  those \<^verbatim>\<open>http.Header\<close> stores.
\<close>

section \<open>Settings\<close>

record worker_env =
  we_getenv :: "string \<Rightarrow> string"
  we_token :: "oauth2_config option \<Rightarrow> string res"

record api_settings =
  as_base_url :: string
  as_api_key :: string
  as_oauth2 :: "oauth2_config option"

definition default_api_endpoint :: string where "default_api_endpoint = ''http://localhost:8080''"
definition default_tenant_id :: string where "default_tenant_id = ''default''"

definition trim_slashes :: "string \<Rightarrow> string" where
  "trim_slashes s = trim_right_byte (trim_space s) (CHR ''/'')"

definition env_endpoint :: "worker_env \<Rightarrow> string \<Rightarrow> string" where
  "env_endpoint E key =
     (if trim_space (we_getenv E key) \<noteq> [] then trim_slashes (we_getenv E key) else [])"

definition resolve_endpoint :: "worker_env \<Rightarrow> string \<Rightarrow> string" where
  "resolve_endpoint E explicit =
     (if trim_space explicit \<noteq> [] then trim_slashes explicit
      else if env_endpoint E ''RELAYMESH_ENDPOINT'' \<noteq> [] then env_endpoint E ''RELAYMESH_ENDPOINT''
      else if env_endpoint E ''RELAYMESH_API_BASE_URL'' \<noteq> [] then env_endpoint E ''RELAYMESH_API_BASE_URL''
      else default_api_endpoint)"

definition api_key_from_env :: "worker_env \<Rightarrow> string" where
  "api_key_from_env E = trim_space (we_getenv E ''RELAYMESH_API_KEY'')"

definition env_tenant_id :: "worker_env \<Rightarrow> string" where
  "env_tenant_id E = trim_space (we_getenv E ''RELAYMESH_TENANT_ID'')"

definition api_key_value :: "worker_env \<Rightarrow> string \<Rightarrow> string" where
  "api_key_value E key = (if trim_space key \<noteq> [] then trim_space key else api_key_from_env E)"

definition tenant_id_value :: "worker_env \<Rightarrow> string \<Rightarrow> string" where
  "tenant_id_value E tenant =
     (if trim_space tenant \<noteq> [] then trim_space tenant
      else if env_tenant_id E \<noteq> [] then env_tenant_id E else default_tenant_id)"

text \<open>The settings the worker gives to each of its clients.\<close>

definition worker_settings :: "worker_env \<Rightarrow> string \<Rightarrow> string \<Rightarrow> oauth2_config option \<Rightarrow> api_settings" where
  "worker_settings E endpoint key oauth2 =
     \<lparr>as_base_url = resolve_endpoint E endpoint, as_api_key = api_key_value E key, as_oauth2 = oauth2\<rparr>"

definition set_auth_headers :: "worker_env \<Rightarrow> string \<Rightarrow> oauth2_config option \<Rightarrow> string gmap \<Rightarrow> string gmap" where
  "set_auth_headers E api_key oauth2 header =
     (let key = (if trim_space api_key = [] then api_key_from_env E else trim_space api_key) in
      if key \<noteq> [] then mput ''X-Api-Key'' key header
      else case we_token E oauth2 of
             Inr token \<Rightarrow> if token \<noteq> [] then mput ''Authorization'' (''Bearer '' @ token) header else header
           | Inl err \<Rightarrow> header)"

section \<open>Calls\<close>

type_synonym ('q, 'a) transport = "string \<Rightarrow> string gmap \<Rightarrow> 'q \<Rightarrow> 'a res"

text \<open>What every client does: resolve the base URL, set the headers, call, wrap the error.\<close>

definition call_headers :: "worker_env \<Rightarrow> api_settings \<Rightarrow> string \<Rightarrow> string gmap" where
  "call_headers E s tenant_id =
     (let header = set_auth_headers E (as_api_key s) (as_oauth2 s) [] in
      if tenant_id \<noteq> [] then mput ''X-Tenant-Id'' tenant_id header else header)"

definition api_call ::
  "worker_env \<Rightarrow> ('q, 'a) transport \<Rightarrow> api_settings \<Rightarrow> string \<Rightarrow> string \<Rightarrow> 'q \<Rightarrow> 'a res" where
  "api_call E transport s tenant_id failure q =
     (let base = trim_slashes (as_base_url s) in
      if base = [] then Inl (Error ''base url is required'')
      else case transport base (call_headers E s tenant_id) q of
             Inl err \<Rightarrow> Inl (Error (failure @ '': '' @ error_text err))
           | Inr a \<Rightarrow> Inr a)"

subsection \<open>Rules\<close>

record worker_rule =
  wr_id :: string
  wr_when :: string
  wr_emit :: "string list"
  wr_driver_id :: string
  wr_transform_js :: string

definition worker_rule_of :: "rule_msg \<Rightarrow> worker_rule" where
  "worker_rule_of m =
     \<lparr>wr_id = rg_id m, wr_when = rg_when m, wr_emit = rg_emit m, wr_driver_id = rg_driver_id m,
      wr_transform_js = rg_transform_js m\<rparr>"

definition client_list_rules ::
  "worker_env \<Rightarrow> (unit, rule_msg option list) transport \<Rightarrow> api_settings \<Rightarrow> wctx \<Rightarrow> worker_rule list res" where
  "client_list_rules E transport s c =
     bind_res (api_call E transport s (tenant_id_from_context c) ''rules api failed'' ()) (\<lambda>rules.
       Inr (List.map_filter (map_option worker_rule_of) rules))"

text \<open>\<open>order\<close> is the order in which Go ranges over the set of topics.\<close>

definition client_list_rule_topics ::
  "worker_env \<Rightarrow> (unit, rule_msg option list) transport \<Rightarrow> api_settings \<Rightarrow> (string list \<Rightarrow> string list) \<Rightarrow> wctx \<Rightarrow>
     string list res" where
  "client_list_rule_topics E transport s order c =
     bind_res (client_list_rules E transport s c) (\<lambda>rules.
       Inr (order (unique_values (filter (\<lambda>t. t \<noteq> []) (map trim_space (concat (map wr_emit rules)))))))"

definition client_get_rule ::
  "worker_env \<Rightarrow> (string, rule_msg option) transport \<Rightarrow> api_settings \<Rightarrow> wctx \<Rightarrow> string \<Rightarrow> worker_rule res" where
  "client_get_rule E transport s c rid =
     (if trim_space rid = [] then Inl (Error ''rule id is required'')
      else
        bind_res (api_call E transport s (tenant_id_from_context c) ''rules api failed'' (trim_space rid)) (\<lambda>found.
          case found of
            None \<Rightarrow> Inl (Error (''rule not found: '' @ rid))
          | Some m \<Rightarrow> Inr (worker_rule_of m)))"

subsection \<open>Drivers\<close>

definition driver_info_of :: "driver_msg \<Rightarrow> driver_info" where
  "driver_info_of m =
     \<lparr>di_name = dg_name m, di_config_json = dg_config_json m, di_enabled = dg_enabled m, di_id = dg_id m\<rparr>"

definition client_list_drivers ::
  "worker_env \<Rightarrow> (unit, driver_msg option list) transport \<Rightarrow> api_settings \<Rightarrow> wctx \<Rightarrow> driver_info list res" where
  "client_list_drivers E transport s c =
     bind_res (api_call E transport s (tenant_from_context (wx_storage c)) ''drivers api failed'' ()) (\<lambda>ds.
       Inr (List.map_filter (map_option driver_info_of) ds))"

definition client_get_driver ::
  "worker_env \<Rightarrow> (string, driver_msg option) transport \<Rightarrow> api_settings \<Rightarrow> wctx \<Rightarrow> string \<Rightarrow> driver_info option res" where
  "client_get_driver E transport s c name0 =
     (let name = to_lower (trim_space name0) in
      if name = [] then Inl (Error ''driver name is required'')
      else bind_res (api_call E transport s (tenant_from_context (wx_storage c)) ''drivers api failed'' name)
             (\<lambda>found. Inr (map_option driver_info_of found)))"

definition client_get_driver_by_id ::
  "worker_env \<Rightarrow> (unit, driver_msg option list) transport \<Rightarrow> api_settings \<Rightarrow> wctx \<Rightarrow> string \<Rightarrow> driver_info option res" where
  "client_get_driver_by_id E transport s c id0 =
     (let i = trim_space id0 in
      if i = [] then Inl (Error ''driver id is required'')
      else bind_res (client_list_drivers E transport s c) (\<lambda>ds. Inr (find (\<lambda>d. trim_space (di_id d) = i) ds)))"

subsection \<open>Installations\<close>

record worker_install =
  wi_provider :: string
  wi_account_id :: string
  wi_account_name :: string
  wi_installation_id :: string
  wi_instance_key :: string
  wi_enterprise_id :: string
  wi_enterprise_slug :: string
  wi_enterprise_name :: string
  wi_access_token :: string
  wi_refresh_token :: string
  wi_expires_at :: "gtime option"

definition from_proto_installation :: "install_msg \<Rightarrow> worker_install" where
  "from_proto_installation m =
     \<lparr>wi_provider = ig_provider m, wi_account_id = ig_account_id m, wi_account_name = ig_account_name m,
      wi_installation_id = ig_installation_id m, wi_instance_key = ig_instance_key m,
      wi_enterprise_id = ig_enterprise_id m, wi_enterprise_slug = ig_enterprise_slug m,
      wi_enterprise_name = ig_enterprise_name m, wi_access_token = ig_access_token m,
      wi_refresh_token = ig_refresh_token m, wi_expires_at = ig_expires_at m\<rparr>"

definition is_enterprise :: "worker_install \<Rightarrow> bool" where
  "is_enterprise r \<longleftrightarrow> wi_enterprise_id r \<noteq> [] \<or> wi_enterprise_slug r \<noteq> [] \<or> wi_enterprise_name r \<noteq> []"

definition client_get_by_installation_id ::
  "worker_env \<Rightarrow> (string \<times> string, install_msg option) transport \<Rightarrow> api_settings \<Rightarrow> wctx \<Rightarrow> string \<Rightarrow> string \<Rightarrow>
     worker_install option res" where
  "client_get_by_installation_id E transport s c provider installation_id =
     (if installation_id = [] then Inl (Error ''installation_id is required'')
      else if provider = [] then Inl (Error ''provider is required'')
      else bind_res (api_call E transport s (tenant_id_from_context c) ''installations api failed'' (provider, installation_id))
             (\<lambda>found. Inr (map_option from_proto_installation found)))"

definition resolve_installation ::
  "worker_env \<Rightarrow> (string \<times> string, install_msg option) transport \<Rightarrow> api_settings option \<Rightarrow> wctx \<Rightarrow> 'c wevent option \<Rightarrow>
     worker_install option res" where
  "resolve_installation E transport client c ev =
     (case ev of
        None \<Rightarrow> Inl (Error ''event is required'')
      | Some ev \<Rightarrow>
          (case client of
             None \<Rightarrow> Inl (Error ''installations client is required'')
           | Some s \<Rightarrow>
               (let i = metadata_value (wv_metadata ev) ''installation_id'' in
                if i = [] then Inl (Error ''installation_id missing from metadata'')
                else client_get_by_installation_id E transport s c (wv_provider ev) i)))"

subsection \<open>Event logs\<close>

text \<open>This call changes the server; \<open>send\<close> is the transport on a world.\<close>

definition client_update_status ::
  "worker_env \<Rightarrow> (string \<Rightarrow> string gmap \<Rightarrow> string \<times> string \<times> string \<Rightarrow> 'w \<Rightarrow> unit res \<times> 'w) \<Rightarrow> api_settings \<Rightarrow>
     wctx \<Rightarrow> string \<Rightarrow> string \<Rightarrow> string \<Rightarrow> 'w \<Rightarrow> go_error option \<times> 'w" where
  "client_update_status E send s c log_id0 status0 msg w =
     (let log_id = trim_space log_id0; status = trim_space status0; base = trim_slashes (as_base_url s) in
      if log_id = [] then (Some (Error ''log id is required''), w)
      else if status = [] then (Some (Error ''status is required''), w)
      else if base = [] then (Some (Error ''base url is required''), w)
      else case send base (call_headers E s (tenant_id_from_context c)) (log_id, status, trim_space msg) w of
             (Inl err, w') \<Rightarrow> (Some (Error (''event logs api failed: '' @ error_text err)), w')
           | (Inr _, w') \<Rightarrow> (None, w'))"

subsection \<open>Clients of the providers\<close>

record scm_client_msg =
  sm_provider :: string
  sm_api_base_url :: string
  sm_access_token :: string
  sm_expires_at :: "gtime option"
  sm_instance_key :: string

record scm_client_record =
  sr_provider :: string
  sr_api_base_url :: string
  sr_access_token :: string
  sr_expires_at :: gtime
  sr_instance_key :: string

definition client_get_scm_client ::
  "worker_env \<Rightarrow> (string \<times> string \<times> string, scm_client_msg option) transport \<Rightarrow> api_settings \<Rightarrow> wctx \<Rightarrow>
     string \<Rightarrow> string \<Rightarrow> string \<Rightarrow> scm_client_record res" where
  "client_get_scm_client E transport s c provider0 installation_id0 instance_key =
     (let provider = trim_space provider0; installation_id = trim_space installation_id0 in
      if provider = [] \<or> installation_id = [] then Inl (Error ''provider and installation_id are required'')
      else
        bind_res (api_call E transport s (tenant_from_context (wx_storage c)) ''scm api failed''
                    (provider, installation_id, trim_space instance_key)) (\<lambda>found.
          case found of
            None \<Rightarrow> Inl (Error ''scm client missing in response'')
          | Some m \<Rightarrow>
              Inr \<lparr>sr_provider = sm_provider m, sr_api_base_url = trim_space (sm_api_base_url m),
                   sr_access_token = sm_access_token m,
                   sr_expires_at = (case sm_expires_at m of None \<Rightarrow> 0 | Some t \<Rightarrow> t),
                   sr_instance_key = trim_space (sm_instance_key m)\<rparr>))"

text \<open>
  The clients that are built, with token and base URL: GitHub (an upload URL if it is not
  \<^verbatim>\<open>api.github.com\<close>), GitLab, Bitbucket, Slack, Jira. \<open>mk_client\<close> is the constructor of the client library.
\<close>

datatype scm_spec =
    GitHubSpec string "(string \<times> string) option"
  | GitLabSpec string string
  | BitbucketSpec string string
  | SlackSpec string string
  | JiraSpec string string

definition enterprise_upload_url :: "string \<Rightarrow> string" where
  "enterprise_upload_url api_base =
     (let base = trim_right_byte api_base (CHR ''/'') in
      if ends_with ''/api/v3'' base then trim_suffix base ''/api/v3'' @ ''/api/uploads''
      else if ends_with ''/api'' base then trim_suffix base ''/api'' @ ''/api/uploads''
      else base)"

definition base_or :: "string \<Rightarrow> string \<Rightarrow> string" where
  "base_or dflt url = (if trim_slashes url = [] then dflt else trim_slashes url)"

definition new_provider_client :: "(scm_spec \<Rightarrow> 'c option res) \<Rightarrow> string \<Rightarrow> string \<Rightarrow> string \<Rightarrow> 'c option res" where
  "new_provider_client mk_client provider0 token url0 =
     (let provider = to_lower (trim_space provider0);
          missing = (\<lambda>name. Inl (Error (name @ '' token is required'')));
          no_token = (trim_space token = [])
      in if provider = ''github'' then
           (if no_token then missing ''github''
            else mk_client (GitHubSpec token
                   (if trim_slashes url0 = [] \<or> trim_slashes url0 = ''https://api.github.com'' then None
                    else Some (trim_slashes url0, enterprise_upload_url (trim_slashes url0)))))
         else if provider = ''gitlab'' then
           (if no_token then missing ''gitlab'' else mk_client (GitLabSpec token (base_or ''https://gitlab.com/api/v4'' url0)))
         else if provider = ''bitbucket'' then
           (if no_token then missing ''bitbucket''
            else mk_client (BitbucketSpec token (base_or ''https://api.bitbucket.org/2.0'' url0)))
         else if provider = ''slack'' then
           (if no_token then missing ''slack'' else mk_client (SlackSpec token (base_or ''https://slack.com/api'' url0)))
         else if provider = ''jira'' \<or> provider = ''atlassian'' then
           (if no_token then missing ''jira'' else mk_client (JiraSpec token (base_or ''https://api.atlassian.com'' url0)))
         else Inl (Error ''unsupported provider''))"

definition resolve_provider_url :: "string \<Rightarrow> string \<Rightarrow> string" where
  "resolve_provider_url url0 path =
     (if starts_with ''http://'' path \<or> starts_with ''https://'' path then path
      else if trim_space path = [] then trim_slashes url0
      else trim_slashes url0 @ (if starts_with ''/'' path then path else ''/'' @ path))"

end
