(* ===== verification/Scm_Cache.thy ===== *)
theory Scm_Cache
  imports Worker_Clients
begin

text \<open>
  The cache of provider clients in the worker: \<^verbatim>\<open>RemoteSCMClientProvider\<close> and \<^verbatim>\<open>scmClientCache\<close> in
  \<^verbatim>\<open>sdk/go/worker/scm_client_provider.go\<close>.

  The cache is a \<^verbatim>\<open>container/list\<close> and a map from keys to elements of it. An element is a number here, its
  identity; the list holds the elements with their entries, front first. Each method holds the mutex,
  so it is one step. The cache is shown to be an LRU cache of the given size.
\<close>

section \<open>State\<close>

record 'c scm_entry =
  se_key :: string
  se_client :: 'c
  se_expires :: gtime

record 'c scm_cache =
  sc_size :: int
  sc_order :: "(nat \<times> 'c scm_entry) list"
  sc_items :: "nat gmap"
  sc_next :: nat

definition new_scm_cache :: "int \<Rightarrow> 'c scm_cache" where
  "new_scm_cache n = \<lparr>sc_size = (if n < 1 then 1 else n), sc_order = [], sc_items = [], sc_next = 0\<rparr>"

section \<open>Operations\<close>

definition expired :: "gtime \<Rightarrow> gtime \<Rightarrow> int \<Rightarrow> bool" where
  "expired now expires_at skew \<longleftrightarrow> \<not> is_zero expires_at \<and> expires_at - skew < now"

definition list_remove :: "nat \<Rightarrow> (nat \<times> 'e) list \<Rightarrow> (nat \<times> 'e) list" where
  "list_remove elem xs = filter (\<lambda>(e, x). e \<noteq> elem) xs"

definition move_to_front :: "nat \<Rightarrow> (nat \<times> 'e) list \<Rightarrow> (nat \<times> 'e) list" where
  "move_to_front elem xs = filter (\<lambda>(e, x). e = elem) xs @ list_remove elem xs"

definition scm_get :: "gtime \<Rightarrow> int \<Rightarrow> string \<Rightarrow> 'c scm_cache \<Rightarrow> 'c option \<times> 'c scm_cache" where
  "scm_get now skew key sc =
     (case mget (sc_items sc) key of
        None \<Rightarrow> (None, sc)
      | Some elem \<Rightarrow>
          (case map_of (sc_order sc) elem of
             None \<Rightarrow> (None, sc)
           | Some entry \<Rightarrow>
               if expired now (se_expires entry) skew then
                 (None, sc\<lparr>sc_order := list_remove elem (sc_order sc), sc_items := mdel key (sc_items sc)\<rparr>)
               else (Some (se_client entry), sc\<lparr>sc_order := move_to_front elem (sc_order sc)\<rparr>)))"

lemma length_list_remove: "(e, x) \<in> set xs \<Longrightarrow> length (list_remove e xs) < length xs"
  by (auto simp: list_remove_def intro!: length_filter_less)

lemma length_remove_last: "(e, x) = last xs \<Longrightarrow> xs \<noteq> [] \<Longrightarrow> length (list_remove e xs) < length xs"
  by (metis last_in_set length_list_remove)

text \<open>The eviction loop: while the list is too long, the element at its back goes.\<close>

function evict :: "'c scm_cache \<Rightarrow> 'c scm_cache" where
  "evict sc =
     (if sc_size sc < int (length (sc_order sc)) \<and> sc_order sc \<noteq> [] then
        (case last (sc_order sc) of
           (elem, entry) \<Rightarrow>
             evict (sc\<lparr>sc_items := mdel (se_key entry) (sc_items sc), sc_order := list_remove elem (sc_order sc)\<rparr>))
      else sc)"
  by pat_completeness auto
termination
  by (relation "measure (\<lambda>sc. length (sc_order sc))") (auto simp: length_remove_last)

declare evict.simps [simp del]

definition scm_add :: "string \<Rightarrow> 'c \<Rightarrow> gtime \<Rightarrow> 'c scm_cache \<Rightarrow> 'c scm_cache" where
  "scm_add key client expires_at sc =
     (case mget (sc_items sc) key of
        Some elem \<Rightarrow>
          sc\<lparr>sc_order := move_to_front elem
               (map (\<lambda>(e, x). (e, if e = elem then x\<lparr>se_client := client, se_expires := expires_at\<rparr> else x)) (sc_order sc))\<rparr>
      | None \<Rightarrow>
          evict (sc\<lparr>sc_order := (sc_next sc, \<lparr>se_key = key, se_client = client, se_expires = expires_at\<rparr>) # sc_order sc,
                    sc_items := mput key (sc_next sc) (sc_items sc), sc_next := sc_next sc + 1\<rparr>))"

section \<open>The provider of clients\<close>

record scm_provider =
  sp_endpoint :: string
  sp_api_key :: string
  sp_oauth2 :: "oauth2_config option"
  sp_skew :: int

definition bind_api_client :: "api_settings \<Rightarrow> scm_provider \<Rightarrow> scm_provider" where
  "bind_api_client s p =
     p\<lparr>sp_endpoint := (if as_base_url s \<noteq> [] then as_base_url s else sp_endpoint p),
       sp_api_key := (if as_api_key s \<noteq> [] then as_api_key s else sp_api_key p),
       sp_oauth2 := (if as_oauth2 s \<noteq> None then as_oauth2 s else sp_oauth2 p)\<rparr>"

definition fetch_client ::
  "worker_env \<Rightarrow> (string \<times> string \<times> string, scm_client_msg option) transport \<Rightarrow> (scm_spec \<Rightarrow> 'c option res) \<Rightarrow>
     scm_provider \<Rightarrow> wctx \<Rightarrow> string \<Rightarrow> string \<Rightarrow> string \<Rightarrow> ('c option \<times> gtime) res" where
  "fetch_client E transport mk_client p c provider installation_id instance_key =
     bind_res (client_get_scm_client E transport
                \<lparr>as_base_url = resolve_endpoint E (sp_endpoint p), as_api_key = sp_api_key p, as_oauth2 = sp_oauth2 p\<rparr>
                c provider installation_id instance_key) (\<lambda>r.
       if sr_access_token r = [] then Inl (Error ''scm access token missing'')
       else bind_res (new_provider_client mk_client (sr_provider r) (sr_access_token r) (sr_api_base_url r))
              (\<lambda>client. Inr (client, sr_expires_at r)))"

definition scm_cache_key :: "string \<Rightarrow> string \<Rightarrow> string \<Rightarrow> string" where
  "scm_cache_key provider installation_id instance_key = join_str ''|'' [provider, installation_id, instance_key]"

definition scm_client ::
  "worker_env \<Rightarrow> (string \<times> string \<times> string, scm_client_msg option) transport \<Rightarrow> (scm_spec \<Rightarrow> 'c option res) \<Rightarrow>
     scm_provider \<Rightarrow> gtime \<Rightarrow> wctx \<Rightarrow> 'c wevent option \<Rightarrow> 'c scm_cache \<Rightarrow> 'c option res \<times> 'c scm_cache" where
  "scm_client E transport mk_client p now c ev sc =
     (case ev of
        None \<Rightarrow> (Inl (Error ''event is required''), sc)
      | Some ev \<Rightarrow>
          (let provider = trim_space (wv_provider ev);
               installation_id = trim_space (metadata_value (wv_metadata ev) ''installation_id'');
               instance_key = trim_space (metadata_value (wv_metadata ev) ''provider_instance_key'')
           in if provider = [] then (Inl (Error ''provider is required''), sc)
              else if installation_id = [] then (Inl (Error ''installation_id missing from metadata''), sc)
              else
                let key = scm_cache_key provider installation_id instance_key in
                case scm_get now (sp_skew p) key sc of
                  (Some client, sc) \<Rightarrow> (Inr (Some client), sc)
                | (None, sc) \<Rightarrow>
                    (case fetch_client E transport mk_client p c provider installation_id instance_key of
                       Inl err \<Rightarrow> (Inl err, sc)
                     | Inr (None, t) \<Rightarrow> (Inr None, sc)
                     | Inr (Some client, t) \<Rightarrow> (Inr (Some client), scm_add key client t sc))))"

section \<open>An LRU cache\<close>

text \<open>What the cache is for its user: entries, the most recently used first.\<close>

type_synonym 'c lru = "(string \<times> 'c \<times> gtime) list"

definition without :: "string \<Rightarrow> 'c lru \<Rightarrow> 'c lru" where
  "without key xs = filter (\<lambda>(k, v). k \<noteq> key) xs"

definition lru_get :: "gtime \<Rightarrow> int \<Rightarrow> string \<Rightarrow> 'c lru \<Rightarrow> 'c option \<times> 'c lru" where
  "lru_get now skew key xs =
     (case map_of xs key of
        None \<Rightarrow> (None, xs)
      | Some (client, t) \<Rightarrow>
          if expired now t skew then (None, without key xs) else (Some client, (key, client, t) # without key xs))"

definition lru_add :: "nat \<Rightarrow> string \<Rightarrow> 'c \<Rightarrow> gtime \<Rightarrow> 'c lru \<Rightarrow> 'c lru" where
  "lru_add n key client t xs = take n ((key, client, t) # without key xs)"

datatype 'c cache_call = GetCall gtime int string | AddCall string 'c gtime

fun scm_calls :: "'c cache_call list \<Rightarrow> 'c scm_cache \<Rightarrow> 'c option list \<times> 'c scm_cache" where
  "scm_calls [] sc = ([], sc)"
| "scm_calls (GetCall now skew key # calls) sc =
     (case scm_get now skew key sc of (r, sc') \<Rightarrow> (case scm_calls calls sc' of (rs, sc'') \<Rightarrow> (r # rs, sc'')))"
| "scm_calls (AddCall key client t # calls) sc = scm_calls calls (scm_add key client t sc)"

fun lru_calls :: "nat \<Rightarrow> 'c cache_call list \<Rightarrow> 'c lru \<Rightarrow> 'c option list \<times> 'c lru" where
  "lru_calls n [] xs = ([], xs)"
| "lru_calls n (GetCall now skew key # calls) xs =
     (case lru_get now skew key xs of (r, xs') \<Rightarrow> (case lru_calls n calls xs' of (rs, xs'') \<Rightarrow> (r # rs, xs'')))"
| "lru_calls n (AddCall key client t # calls) xs = lru_calls n calls (lru_add n key client t xs)"

definition lru_view :: "'c scm_cache \<Rightarrow> 'c lru" where
  "lru_view sc = map (\<lambda>(e, x). (se_key x, se_client x, se_expires x)) (sc_order sc)"

text \<open>List and map describe each other, element by element.\<close>

definition linked :: "(nat \<times> 'c scm_entry) list \<Rightarrow> nat gmap \<Rightarrow> nat \<Rightarrow> bool" where
  "linked xs items next_id \<longleftrightarrow>
     distinct (map fst xs) \<and> distinct (map (se_key \<circ> snd) xs) \<and> (\<forall>e \<in> fst ` set xs. e < next_id) \<and>
     wf_map items \<and> (\<forall>k e. mget items k = Some e \<longleftrightarrow> (\<exists>x. (e, x) \<in> set xs \<and> se_key x = k))"

definition cache_inv :: "'c scm_cache \<Rightarrow> bool" where
  "cache_inv sc \<longleftrightarrow> linked (sc_order sc) (sc_items sc) (sc_next sc) \<and> 1 \<le> sc_size sc \<and> int (length (sc_order sc)) \<le> sc_size sc"

lemma linked_key:
  assumes "linked xs items n" "(e, x) \<in> set xs" "(e', y) \<in> set xs"
  shows "se_key y = se_key x \<longleftrightarrow> e' = e"
proof
  assume "e' = e"
  then show "se_key y = se_key x" using assms by (metis eq_key_imp_eq_value linked_def)
next
  assume k: "se_key y = se_key x"
  have "mget items (se_key y) = Some e'" "mget items (se_key x) = Some e" using assms unfolding linked_def by blast+
  with k show "e' = e" by simp
qed

lemma linked_remove:
  assumes "linked xs items n" "(e, x) \<in> set xs"
  shows "linked (list_remove e xs) (mdel (se_key x) items) n"
proof -
  have d: "distinct (map fst (list_remove e xs))" "distinct (map (se_key \<circ> snd) (list_remove e xs))"
    using assms(1) by (simp_all add: linked_def list_remove_def distinct_map_filter)
  have s: "(e', y) \<in> set (list_remove e xs) \<longleftrightarrow> (e', y) \<in> set xs \<and> se_key y \<noteq> se_key x" for e' y
    using linked_key [OF assms, of e' y] by (auto simp: list_remove_def)
  have m: "mget (mdel (se_key x) items) k = Some e' \<longleftrightarrow> (\<exists>y. (e', y) \<in> set (list_remove e xs) \<and> se_key y = k)" for k e'
  proof (cases "k = se_key x")
    case True
    then show ?thesis by (simp add: s)
  next
    case False
    then have "mget (mdel (se_key x) items) k = Some e' \<longleftrightarrow> (\<exists>y. (e', y) \<in> set xs \<and> se_key y = k)"
      using assms(1) unfolding linked_def by simp
    with False show ?thesis by (auto simp: s)
  qed
  have b: "\<forall>e' \<in> fst ` set (list_remove e xs). e' < n" using assms(1) by (auto simp: linked_def list_remove_def)
  have "wf_map (mdel (se_key x) items)" using assms(1) by (simp add: linked_def)
  then show ?thesis unfolding linked_def using d m b by (intro conjI allI)
qed

lemma view_remove:
  assumes "linked xs items n" "(e, x) \<in> set xs"
  shows "map (\<lambda>(e, x). (se_key x, se_client x, se_expires x)) (list_remove e xs) =
     without (se_key x) (map (\<lambda>(e, x). (se_key x, se_client x, se_expires x)) xs)"
proof -
  have "list_remove e xs = filter (\<lambda>(e', y). se_key y \<noteq> se_key x) xs"
    unfolding list_remove_def using linked_key [OF assms] by (intro filter_cong) auto
  then show ?thesis by (simp add: without_def filter_map o_def case_prod_unfold)
qed

lemma mset_move: "mset (move_to_front e xs) = mset xs"
  by (simp add: move_to_front_def list_remove_def)

lemma linked_mset:
  assumes "linked xs items n" "mset ys = mset xs"
  shows "linked ys items n"
proof -
  have "set ys = set xs" using assms(2) by (metis set_mset_mset)
  moreover have "mset (map f ys) = mset (map f xs)" for f :: "nat \<times> 'a scm_entry \<Rightarrow> 'b" using assms(2) by simp
  then have "distinct (map f ys) = distinct (map f xs)" for f :: "nat \<times> 'a scm_entry \<Rightarrow> 'b"
    by (metis mset_eq_imp_distinct_iff)
  moreover have "mset (map fst ys) = mset (map fst xs)" using assms(2) by simp
  then have "distinct (map fst ys) = distinct (map fst xs)" by (metis mset_eq_imp_distinct_iff)
  moreover have "mset (map (se_key \<circ> snd) ys) = mset (map (se_key \<circ> snd) xs)" using assms(2) by simp
  then have "distinct (map (se_key \<circ> snd) ys) = distinct (map (se_key \<circ> snd) xs)" by (metis mset_eq_imp_distinct_iff)
  ultimately show ?thesis using assms(1) unfolding linked_def by simp
qed

lemma linked_update:
  assumes "linked xs items n" "\<And>x. se_key (f x) = se_key x"
  shows "linked (map (\<lambda>(e, x). (e, if e = i then f x else x)) xs) items n"
proof -
  let ?ys = "map (\<lambda>(e, x). (e, if e = i then f x else x)) xs"
  have k: "map fst ?ys = map fst xs" "map (se_key \<circ> snd) ?ys = map (se_key \<circ> snd) xs"
    using assms(2) by auto
  have m: "(\<exists>x. (e, x) \<in> set ?ys \<and> se_key x = k) \<longleftrightarrow> (\<exists>x. (e, x) \<in> set xs \<and> se_key x = k)" for e k
    using assms(2) by (force split: if_splits)
  have "fst ` set ?ys = fst ` set xs" using arg_cong [OF k(1), of set] by (simp only: set_map)
  with assms(1) show ?thesis unfolding linked_def k m by simp
qed

lemma linked_insert:
  assumes "linked xs items n" "mget items (se_key x) = None"
  shows "linked ((n, x) # xs) (mput (se_key x) n items) (n + 1)"
proof -
  have fresh: "(n, y) \<notin> set xs" for y using assms(1) unfolding linked_def by force
  have new: "se_key y \<noteq> se_key x" if "(e, y) \<in> set xs" for e y
    using assms that unfolding linked_def by (metis option.distinct(1))
  have m: "mget (mput (se_key x) n items) k = Some e \<longleftrightarrow> (\<exists>y. (e, y) \<in> set ((n, x) # xs) \<and> se_key y = k)" for k e
    using assms(1) new [of e] unfolding linked_def by (cases "k = se_key x") auto
  have "distinct (map fst ((n, x) # xs))" "distinct (map (se_key \<circ> snd) ((n, x) # xs))"
    using assms(1) fresh new unfolding linked_def by force+
  moreover have "\<forall>e \<in> fst ` set ((n, x) # xs). e < n + 1" using assms(1) unfolding linked_def by force
  ultimately show ?thesis using assms(1) m unfolding linked_def by simp
qed

lemma map_of_view:
  assumes "linked xs items n"
  shows "map_of (map (\<lambda>(e, x). (se_key x, se_client x, se_expires x)) xs) k =
     (case mget items k of
        None \<Rightarrow> None
      | Some e \<Rightarrow> map_option (\<lambda>x. (se_client x, se_expires x)) (map_of xs e))"
proof -
  let ?view = "map (\<lambda>(e, x). (se_key x, se_client x, se_expires x)) xs"
  have d: "distinct (map fst xs)" "distinct (map fst ?view)"
    using assms by (simp_all add: linked_def o_def case_prod_unfold)
  show ?thesis
  proof (cases "mget items k")
    case None
    have "k \<notin> fst ` set ?view"
    proof
      assume "k \<in> fst ` set ?view"
      then obtain e x where "(e, x) \<in> set xs" "se_key x = k" by force
      then have "mget items k = Some e" using assms unfolding linked_def by blast
      with None show False by simp
    qed
    then have "map_of ?view k = None" by (simp only: map_of_eq_None_iff) simp
    with None show ?thesis by simp
  next
    case (Some e)
    then obtain x where x: "(e, x) \<in> set xs" "se_key x = k" using assms unfolding linked_def by blast
    then have "(k, se_client x, se_expires x) \<in> set ?view" by force
    then have "map_of ?view k = Some (se_client x, se_expires x)" using d(2) by (rule map_of_is_SomeI [rotated])
    moreover have "map_of xs e = Some x" using d(1) x(1) by (rule map_of_is_SomeI)
    ultimately show ?thesis using Some by simp
  qed
qed

lemma front_of: "distinct (map fst xs) \<Longrightarrow> (e, x) \<in> set xs \<Longrightarrow> move_to_front e xs = (e, x) # list_remove e xs"
proof -
  assume d: "distinct (map fst xs)" "(e, x) \<in> set xs"
  then have "filter (\<lambda>(e', y). e' = e) xs = [(e, x)]"
  proof (induction xs)
    case (Cons z xs)
    obtain e' y where z: "z = (e', y)" by (cases z)
    show ?case
    proof (cases "e' = e")
      case True
      then have "filter (\<lambda>(e', y). e' = e) xs = []" using Cons.prems(1) z by (force simp: filter_empty_conv)
      moreover have "y = x" using Cons.prems True z by force
      ultimately show ?thesis using True z by simp
    next
      case False
      with Cons z show ?thesis by simp
    qed
  qed simp
  then show ?thesis by (simp add: move_to_front_def)
qed

lemma scm_get_refines:
  assumes "cache_inv sc" "scm_get now skew key sc = (r, sc')"
  shows "cache_inv sc' \<and> sc_size sc' = sc_size sc \<and> lru_get now skew key (lru_view sc) = (r, lru_view sc')"
proof -
  have l: "linked (sc_order sc) (sc_items sc) (sc_next sc)" using assms(1) by (simp add: cache_inv_def)
  note look = map_of_view [OF l, of key, folded lru_view_def]
  show ?thesis
  proof (cases "mget (sc_items sc) key")
    case None
    with assms look show ?thesis by (simp add: scm_get_def lru_get_def)
  next
    case (Some e)
    then obtain x where x: "(e, x) \<in> set (sc_order sc)" "se_key x = key" using l unfolding linked_def by blast
    have d: "distinct (map fst (sc_order sc))" using l by (simp add: linked_def)
    then have e: "map_of (sc_order sc) e = Some x" using x(1) by (rule map_of_is_SomeI)
    have len: "length (list_remove e (sc_order sc)) < length (sc_order sc)" by (rule length_list_remove [OF x(1)])
    show ?thesis
    proof (cases "expired now (se_expires x) skew")
      case True
      with assms(2) Some e have r: "r = None" "sc' = sc\<lparr>sc_order := list_remove e (sc_order sc), sc_items := mdel key (sc_items sc)\<rparr>"
        by (simp_all add: scm_get_def)
      have "cache_inv sc'" using linked_remove [OF l x(1)] assms(1) len by (simp add: r(2) x(2) cache_inv_def)
      moreover have "lru_view sc' = without key (lru_view sc)"
        using view_remove [OF l x(1)] by (simp add: r(2) x(2) lru_view_def)
      ultimately show ?thesis using look Some e True r by (simp add: lru_get_def)
    next
      case False
      with assms(2) Some e have r: "r = Some (se_client x)" "sc' = sc\<lparr>sc_order := move_to_front e (sc_order sc)\<rparr>"
        by (simp_all add: scm_get_def)
      have "length (move_to_front e (sc_order sc)) = length (sc_order sc)" using mset_move by (rule mset_eq_length)
      then have "cache_inv sc'" using linked_mset [OF l mset_move] assms(1) by (simp add: r(2) cache_inv_def)
      moreover have "lru_view sc' = (key, se_client x, se_expires x) # without key (lru_view sc)"
        using view_remove [OF l x(1)] by (simp add: r(2) x(2) lru_view_def front_of [OF d x(1)])
      ultimately show ?thesis using look Some e False r by (simp add: lru_get_def)
    qed
  qed
qed

lemma evict_one:
  assumes "linked (sc_order sc) (sc_items sc) (sc_next sc)" "1 \<le> sc_size sc" "int (length (sc_order sc)) \<le> sc_size sc + 1"
  shows "cache_inv (evict sc) \<and> sc_size (evict sc) = sc_size sc \<and> lru_view (evict sc) = take (nat (sc_size sc)) (lru_view sc)"
proof (cases "sc_size sc < int (length (sc_order sc))")
  case False
  then have "evict sc = sc" by (subst evict.simps) simp
  with False assms show ?thesis by (simp add: cache_inv_def lru_view_def)
next
  case True
  then have len: "length (sc_order sc) = Suc (nat (sc_size sc))" using assms(2,3) by arith
  then have ne: "sc_order sc \<noteq> []" by auto
  obtain e x where last: "last (sc_order sc) = (e, x)" by (cases "last (sc_order sc)")
  then have x: "(e, x) \<in> set (sc_order sc)" using ne by (metis last_in_set)
  have split: "sc_order sc = butlast (sc_order sc) @ [(e, x)]" using last ne by (metis append_butlast_last_id)
  have "distinct (map fst (butlast (sc_order sc) @ [(e, x)]))" using assms(1) split by (metis linked_def)
  then have "list_remove e (butlast (sc_order sc) @ [(e, x)]) = butlast (sc_order sc)"
    by (force simp: list_remove_def filter_id_conv)
  then have rem: "list_remove e (sc_order sc) = butlast (sc_order sc)" using split by metis
  define sc1 where "sc1 = sc\<lparr>sc_items := mdel (se_key x) (sc_items sc), sc_order := list_remove e (sc_order sc)\<rparr>"
  have "length (sc_order sc1) = nat (sc_size sc)" using len by (simp add: sc1_def rem)
  then have "\<not> sc_size sc1 < int (length (sc_order sc1))" using assms(2) by (simp add: sc1_def)
  then have "evict sc1 = sc1" by (subst evict.simps) simp
  moreover have "evict sc = evict sc1" using True ne by (subst evict.simps) (simp add: last sc1_def)
  ultimately have ev: "evict sc = sc1" by simp
  have "cache_inv sc1"
    using linked_remove [OF assms(1) x] assms(2) len by (simp add: cache_inv_def sc1_def rem)
  moreover have "lru_view sc1 = take (nat (sc_size sc)) (lru_view sc)"
    using len by (simp add: sc1_def rem lru_view_def butlast_conv_take take_map)
  ultimately show ?thesis by (simp add: ev) (simp add: sc1_def)
qed

lemma scm_add_refines:
  assumes "cache_inv sc"
  shows "cache_inv (scm_add key client t sc) \<and> sc_size (scm_add key client t sc) = sc_size sc \<and>
     lru_view (scm_add key client t sc) = lru_add (nat (sc_size sc)) key client t (lru_view sc)"
proof -
  have l: "linked (sc_order sc) (sc_items sc) (sc_next sc)" using assms by (simp add: cache_inv_def)
  show ?thesis
  proof (cases "mget (sc_items sc) key")
    case None
    let ?sc = "sc\<lparr>sc_order := (sc_next sc, \<lparr>se_key = key, se_client = client, se_expires = t\<rparr>) # sc_order sc,
        sc_items := mput key (sc_next sc) (sc_items sc), sc_next := sc_next sc + 1\<rparr>"
    have "se_key x \<noteq> key" if "(e, x) \<in> set (sc_order sc)" for e x
    proof
      assume "se_key x = key"
      with that l have "mget (sc_items sc) key = Some e" unfolding linked_def by blast
      with None show False by simp
    qed
    then have w: "without key (lru_view sc) = lru_view sc" by (auto simp: without_def lru_view_def filter_id_conv)
    have "linked (sc_order ?sc) (sc_items ?sc) (sc_next ?sc)"
      using linked_insert [OF l, of "\<lparr>se_key = key, se_client = client, se_expires = t\<rparr>"] None by simp
    from evict_one [OF this] assms None w show ?thesis
      by (simp add: scm_add_def cache_inv_def lru_add_def) (simp add: lru_view_def)
  next
    case (Some e)
    then obtain x where x: "(e, x) \<in> set (sc_order sc)" "se_key x = key" using l unfolding linked_def by blast
    let ?f = "\<lambda>x. x\<lparr>se_client := client, se_expires := t\<rparr>"
    let ?up = "map (\<lambda>(e', y). (e', if e' = e then ?f y else y)) (sc_order sc)"
    have lu: "linked ?up (sc_items sc) (sc_next sc)" by (rule linked_update [OF l]) simp
    have xu: "(e, ?f x) \<in> set ?up" using x(1) by force
    have du: "distinct (map fst ?up)" using lu by (simp add: linked_def)
    have sc: "scm_add key client t sc = sc\<lparr>sc_order := move_to_front e ?up\<rparr>" by (simp add: scm_add_def Some)
    have len: "length (move_to_front e ?up) = length (sc_order sc)" using mset_eq_length [OF mset_move, of e ?up] by simp
    have inv: "cache_inv (scm_add key client t sc)"
      using linked_mset [OF lu mset_move, of e] assms len unfolding sc by (simp add: cache_inv_def)
    have rem: "list_remove e ?up = list_remove e (sc_order sc)"
      unfolding list_remove_def by (induction "sc_order sc") (auto simp: filter_map o_def case_prod_unfold intro!: map_idI)
    have "lru_view (scm_add key client t sc) = (key, client, t) # without key (lru_view sc)"
      using view_remove [OF l x(1)] unfolding sc by (simp add: lru_view_def front_of [OF du xu] rem x(2))
    moreover have "length (lru_view (scm_add key client t sc)) \<le> nat (sc_size sc)"
      using len assms unfolding sc by (simp add: lru_view_def cache_inv_def) arith
    ultimately show ?thesis using inv by (simp add: lru_add_def sc)
  qed
qed

text \<open>
  C24: the cache of provider clients is a least-recently-used cache of its size. Whatever calls are
  made on a new cache, it gives the answers that a plain list of entries gives which keeps the most
  recently used \<open>n\<close>; the linked list and the map never come apart and never hold more than \<open>n\<close> entries.
\<close>

theorem scm_cache_is_lru:
  "let (rs, sc) = scm_calls calls (new_scm_cache n) in
     (rs, lru_view sc) = lru_calls (nat (max 1 n)) calls [] \<and> cache_inv sc \<and> int (length (sc_order sc)) \<le> max 1 n"
proof -
  have run: "cache_inv sc \<Longrightarrow> sc_size sc = max 1 n \<Longrightarrow> scm_calls calls sc = (rs, sc') \<Longrightarrow>
      (rs, lru_view sc') = lru_calls (nat (max 1 n)) calls (lru_view sc) \<and> cache_inv sc' \<and> sc_size sc' = max 1 n"
    for sc rs and sc' :: "'a scm_cache"
  proof (induction calls arbitrary: sc rs)
    case (Cons call calls)
    show ?case
    proof (cases call)
      case (GetCall now skew key)
      obtain r sc1 where g: "scm_get now skew key sc = (r, sc1)" by fastforce
      obtain rs1 sc2 where c: "scm_calls calls sc1 = (rs1, sc2)" by fastforce
      have e: "sc2 = sc'" "rs = r # rs1" using Cons.prems(3) g c by (simp_all add: GetCall)
      have g': "cache_inv sc1" "sc_size sc1 = max 1 n" "lru_get now skew key (lru_view sc) = (r, lru_view sc1)"
        using scm_get_refines [OF Cons.prems(1) g] Cons.prems(2) by simp_all
      from Cons.IH [OF g'(1,2), of rs1] c g'(3) show ?thesis
        by (auto simp: GetCall e split: prod.splits)
    next
      case (AddCall key client t)
      from scm_add_refines [OF Cons.prems(1), of key client t] Cons.prems Cons.IH [of "scm_add key client t sc" rs] show ?thesis
        by (simp add: AddCall)
    qed
  qed simp
  have "cache_inv (new_scm_cache n)" "sc_size (new_scm_cache n) = max 1 n" "lru_view (new_scm_cache n) = []"
    by (auto simp: cache_inv_def new_scm_cache_def linked_def lru_view_def)
  note new = this
  obtain rs sc where c: "scm_calls calls (new_scm_cache n) = (rs, sc)" by fastforce
  from run [OF new(1,2) c] show ?thesis by (simp add: c new(3)) (simp add: cache_inv_def)
qed

end
