(* ===== verification/Worker_Guarantees.thy ===== *)
theory Worker_Guarantees
  imports Scm_Cache
begin

text \<open>
  What the Go worker guarantees: a message settles its event log exactly once, a published event comes out
  of the codec as it went in, and every topic of its rules is subscribed to.
\<close>

section \<open>One report per message\<close>

definition msg_log_id :: "message option \<Rightarrow> string" where
  "msg_log_id msg = (case msg of None \<Rightarrow> [] | Some m \<Rightarrow> metadata_value (msg_metadata m) ''log_id'')"

definition msg_context :: "wctx \<Rightarrow> message option \<Rightarrow> wctx" where
  "msg_context c msg = (case msg of None \<Rightarrow> c | Some m \<Rightarrow> with_tenant_id c (metadata_value (msg_metadata m) ''tenant_id''))"

definition status_of :: "go_error option \<Rightarrow> string" where
  "status_of err = (if err = None then ''success'' else ''failed'')"

definition error_message :: "go_error option \<Rightarrow> string" where
  "error_message err = (case err of None \<Rightarrow> [] | Some e \<Rightarrow> error_text e)"

lemma notify_keeps [simp]:
  "wo_updates (notify_message_start ls c ev st) = wo_updates st" "wo_runs (notify_message_start ls c ev st) = wo_runs st"
  "wo_updates (notify_message_finish ls c ev err st) = wo_updates st" "wo_runs (notify_message_finish ls c ev err st) = wo_runs st"
  "wo_updates (notify_error ls c evo e st) = wo_updates st" "wo_runs (notify_error ls c evo e st) = wo_runs st"
  by (simp_all add: notify_message_start_def notify_message_finish_def notify_error_def)

lemma worker_update_effect [simp]:
  "wo_updates (worker_update W c i status err st) =
     wo_updates st @ (if i = [] then [] else [(c, i, status, error_message err)])"
  "wo_runs (worker_update W c i status err st) = wo_runs st"
  by (simp_all add: worker_update_def error_message_def Let_def)

lemma run_attempts_effect:
  "run_attempts h c n err ev st = (err', ev', st') \<Longrightarrow>
     wo_updates st' = wo_updates st \<and>
     (\<exists>k \<le> n. wo_runs st' = wo_runs st + k \<and> (err' \<noteq> None \<longrightarrow> k = n) \<and> (n = 0 \<longrightarrow> err' = err))"
proof (induction n arbitrary: err ev st)
  case (Suc n)
  obtain e ev1 w where h: "h c ev (wo_world st) = (e, ev1, w)" by (metis prod_cases3)
  let ?st = "st\<lparr>wo_world := w, wo_runs := wo_runs st + 1\<rparr>"
  show ?case
  proof (cases e)
    case None
    with Suc.prems h show ?thesis by (auto intro!: exI [of _ 1])
  next
    case (Some e')
    with Suc.prems h have "run_attempts h c n (Some e') ev1 ?st = (err', ev', st')" by simp
    from Suc.IH [OF this] obtain k where
      "wo_updates st' = wo_updates st" "k \<le> n" "wo_runs st' = wo_runs st + 1 + k" "err' \<noteq> None \<longrightarrow> k = n" by auto
    then show ?thesis by (intro conjI exI [of _ "Suc k"]) auto
  qed
qed auto

definition handled :: "('c, 'w) worker \<Rightarrow> wctx \<Rightarrow> message option \<Rightarrow> 'w work \<Rightarrow> bool \<Rightarrow> 'w work \<Rightarrow> go_error option \<Rightarrow> nat \<Rightarrow> bool" where
  "handled W c msg st nack st' err n \<longleftrightarrow>
     wo_updates st' = wo_updates st @
       (if msg_log_id msg = [] then [] else [(msg_context c msg, msg_log_id msg, status_of err, error_message err)]) \<and>
     wo_runs st' = wo_runs st + n \<and>
     (err = None \<longrightarrow> \<not> nack) \<and>
     (\<forall>e. err = Some e \<longrightarrow> (\<exists>ev. nack = (fst (wk_on_error W (msg_context c msg) ev e) \<or> snd (wk_on_error W (msg_context c msg) ev e))))"

lemma handled_fail:
  assumes "fail_message W (msg_context c msg) (msg_log_id msg) ev e st0 = (nack, st')"
    and "wo_updates st0 = wo_updates st" "wo_runs st0 = wo_runs st"
  shows "handled W c msg st nack st' (Some e) 0"
  using assms by (auto simp: fail_message_def handled_def status_of_def Let_def split: prod.splits intro: exI [of _ ev])


definition sample_message :: message where
  "sample_message = \<lparr>msg_id = ''m1'', msg_topic = ''pr.opened'', msg_payload = ''{}'', msg_timestamp = 0,
     msg_content_type = [], msg_metadata = [(''log_id'', ''l1''), (''tenant_id'', ''acme'')], msg_schema_version = []\<rparr>"

definition sample_worker :: "(unit, nat) worker" where
  "sample_worker = \<lparr>wk_decode = default_decode \<lparr>cx_proto = \<lambda>s. Inl (Error ''not protobuf''), cx_json = \<lambda>s. Inr (VMap [])\<rparr>,
     wk_on_error = no_retry, wk_retry_count = 2,
     wk_topic_handlers = [(''pr.opened'', \<lambda>c ev w. (Some (Error ''boom''), ev, w + 1))], wk_type_handlers = [],
     wk_middleware = [], wk_client = None, wk_listeners = [], wk_update = \<lambda>c i s e w. (None, w)\<rparr>"

definition root_context :: wctx where
  "root_context = \<lparr>wx_storage = [], wx_worker = []\<rparr>"


section \<open>From the publisher to the handler\<close>

lemma metadata_value_put:
  "metadata_value (mput k v m) key = (if key = k then v else metadata_value m key)"
  "metadata_value (if v \<noteq> [] then mput k v m else m) key = (if key = k \<and> v \<noteq> [] then v else metadata_value m key)"
  "metadata_value [] key = []"
  by (auto simp: metadata_value_def)

lemma metadata_value_event:
  "metadata_value (event_metadata ev) ''provider'' = ev_provider ev"
  "metadata_value (event_metadata ev) ''event'' = ev_name ev"
  "metadata_value (event_metadata ev) ''log_id'' = ev_log_id ev"
  "metadata_value (event_metadata ev) ''tenant_id'' = ev_tenant_id ev"
  "metadata_value (event_metadata ev) ''request_id'' = ev_request_id ev"
  "metadata_value (event_metadata ev) ''installation_id'' = ev_installation_id ev"
  "metadata_value (event_metadata ev) ''provider_instance_key'' = ev_instance_key ev"
  "metadata_value (event_metadata ev) ''driver'' = []"
  by (simp_all add: event_metadata_def Let_def metadata_value_put)

lemma published_message:
  assumes "relaybus_publish lib p topic ev w = (err, w')" "w_sent w' \<noteq> w_sent w"
  obtains m raw where "w_sent w' = w_sent w @ [(p, topic, m)]" "publish_payload lib ev = Inr raw"
    "pl_proto lib (ev_provider ev) (ev_name ev) raw = Inr (msg_payload m)" "msg_metadata m = event_metadata ev" "msg_topic m = topic"
  using assms by (auto simp: relaybus_publish_def Let_def split: sum.splits)

text \<open>
  C23: what a worker decodes is what was published. A message sent by the publisher, decoded by the
  default codec of the worker, gives an event with the provider, the name, the topic and the payload of
  the event that was published; the log it reports to and the tenant it works for are those of that event.
\<close>

theorem published_event_decodes:
  assumes "\<And>provider name raw bytes. pl_proto lib provider name raw = Inr bytes \<Longrightarrow> cx_proto cx bytes = Inr (provider, name, raw)"
    and "relaybus_publish lib p topic ev w = (err, w')" "w_sent w' \<noteq> w_sent w"
  shows "\<exists>m raw d. w_sent w' = w_sent w @ [(p, topic, m)] \<and> publish_payload lib ev = Inr raw \<and>
     default_decode cx topic (Some m) = Inr d \<and> wv_provider d = ev_provider ev \<and> wv_type d = ev_name ev \<and>
     wv_topic d = topic \<and> wv_payload d = raw \<and> wv_normalized d = json_object cx raw \<and>
     msg_log_id (Some m) = ev_log_id ev \<and>
     (trim_space (ev_tenant_id ev) \<noteq> [] \<longrightarrow>
        tenant_id_from_context (msg_context c (Some m)) = trim_space (ev_tenant_id ev))"
proof -
  from published_message [OF assms(2,3)] obtain m raw where m: "w_sent w' = w_sent w @ [(p, topic, m)]"
      "publish_payload lib ev = Inr raw" "pl_proto lib (ev_provider ev) (ev_name ev) raw = Inr (msg_payload m)"
      "msg_metadata m = event_metadata ev" "msg_topic m = topic" by blast
  have "cx_proto cx (msg_payload m) = Inr (ev_provider ev, ev_name ev, raw)" by (rule assms(1) [OF m(3)])
  then show ?thesis
    using m by (auto simp: default_decode_def decode_payload_def m(4) metadata_value_event resolve_topic_def msg_log_id_def
        msg_context_def with_tenant_id_def tenant_id_from_context_def Let_def split: option.split)
qed

theorem published_event_decodes_witness:
  "\<exists>m d. w_sent (snd (relaybus_publish
       (sample_pub_lib\<lparr>pl_proto := \<lambda>a b r. if a = ''x'' \<and> b = ''y'' then Inr r else Inl (Error [])\<rparr>) ''p'' ''t''
       (zero_event\<lparr>ev_provider := ''x'', ev_name := ''y''\<rparr>) empty_world)) = [(''p'', ''t'', m)] \<and>
     default_decode \<lparr>cx_proto = \<lambda>s. Inr (''x'', ''y'', s), cx_json = \<lambda>s. Inl (Error [])\<rparr> ''t'' (Some m) = Inr d \<and>
     wv_provider (d :: unit wevent) = ''x''"
proof -
  let ?lib = "sample_pub_lib\<lparr>pl_proto := \<lambda>a b r. if a = ''x'' \<and> b = ''y'' then Inr r else Inl (Error [])\<rparr>"
  let ?cx = "\<lparr>cx_proto = \<lambda>s. Inr (''x'', ''y'', s), cx_json = \<lambda>s. Inl (Error [])\<rparr>"
  let ?ev = "zero_event\<lparr>ev_provider := ''x'', ev_name := ''y''\<rparr>"
  have law: "pl_proto ?lib a b r = Inr s \<Longrightarrow> cx_proto ?cx s = Inr (a, b, r)" for a b r s
    by (simp split: if_splits)
  obtain err w' where p: "relaybus_publish ?lib ''p'' ''t'' ?ev empty_world = (err, w')" by fastforce
  have "w_sent w' \<noteq> w_sent empty_world"
    using p by (auto simp: relaybus_publish_def publish_payload_def sample_pub_lib_def zero_event_def Let_def)
  from published_event_decodes [OF law p this, of root_context] p show ?thesis by (auto simp: empty_world_def)
qed

section \<open>The tenant of a request\<close>

lemma auth_headers_no_tenant: "mget (set_auth_headers E k o2 h) ''X-Tenant-Id'' = mget h ''X-Tenant-Id''"
  by (auto simp: set_auth_headers_def Let_def split: sum.split)

lemma mget_call_headers: "mget (call_headers E s t) ''X-Tenant-Id'' = (if t = [] then None else Some t)"
  by (simp add: call_headers_def Let_def auth_headers_no_tenant)

text \<open>
  The credentials of a provider are asked for without the tenant of the message. While the worker
  handles a message of a tenant, its report to the event log carries the header \<^verbatim>\<open>X-Tenant-Id\<close> with that
  tenant; the request for a client of the provider, whose tenant is that of \<^verbatim>\<open>storage.WithTenant\<close> and is not
  set by handling a message, has no such header: a server that answers only one that has it never answers.
\<close>

theorem scm_request_lacks_tenant:
  assumes "tenant_from_context (wx_storage c) = []" "trim_space (metadata_value (msg_metadata m) ''tenant_id'') = t" "t \<noteq> []"
    and "\<And>base header q. mget header ''X-Tenant-Id'' \<noteq> Some t \<Longrightarrow> transport base header q = Inl denied"
    and "\<And>base header q w. mget header ''X-Tenant-Id'' = Some t \<Longrightarrow> report base header q w = (Inr (), f q w)"
    and "trim_slashes (as_base_url s) \<noteq> []" "trim_space log_id \<noteq> []" "trim_space status \<noteq> []"
  shows "client_get_scm_client E transport s (msg_context c (Some m)) provider i key \<noteq> Inr r \<and>
     client_update_status E report s (msg_context c (Some m)) log_id status info w =
       (None, f (trim_space log_id, trim_space status, trim_space info) w)"
proof -
  have c: "wx_storage (msg_context c (Some m)) = wx_storage c" "tenant_id_from_context (msg_context c (Some m)) = t"
    using assms(2,3) by (auto simp: msg_context_def with_tenant_id_def tenant_id_from_context_def Let_def)
  have no: "transport base (call_headers E s []) q = Inl denied" for base q
    by (rule assms(4)) (simp add: mget_call_headers)
  have yes: "report base (call_headers E s t) q w = (Inr (), f q w)" for base q
    by (rule assms(5)) (simp add: mget_call_headers assms(3))
  show ?thesis
    by (simp add: client_get_scm_client_def api_call_def client_update_status_def c assms(1,6-8) no yes Let_def)
qed

theorem scm_request_lacks_tenant_witness:
  "let c = msg_context root_context (Some sample_message);
       answer = (\<lambda>base header q. if mget header ''X-Tenant-Id'' = Some ''acme''
         then Inr (Some \<lparr>sm_provider = ''github'', sm_api_base_url = [], sm_access_token = ''t'', sm_expires_at = None, sm_instance_key = []\<rparr>)
         else Inl (Error ''denied''));
       report = (\<lambda>base header q w. if mget header ''X-Tenant-Id'' = Some ''acme'' then (Inr (), q # w) else (Inl (Error ''denied''), w));
       E = \<lparr>we_getenv = \<lambda>k. [], we_token = \<lambda>o2. Inr []\<rparr>; s = worker_settings E ''http://api/'' ''k'' None in
     (\<forall>r. client_get_scm_client E answer s c ''github'' ''42'' [] \<noteq> Inr r) \<and>
     client_update_status E report s c ''l1'' ''success'' [] [] = (None, [(''l1'', ''success'', [])])"
proof -
  let ?E = "\<lparr>we_getenv = \<lambda>k. [], we_token = \<lambda>o2. Inr []\<rparr>"
  let ?s = "worker_settings ?E ''http://api/'' ''k'' None"
  let ?answer = "\<lambda>base header q. if mget header ''X-Tenant-Id'' = Some ''acme''
         then Inr (Some \<lparr>sm_provider = ''github'', sm_api_base_url = [], sm_access_token = ''t'', sm_expires_at = None, sm_instance_key = []\<rparr>)
         else Inl (Error ''denied'')"
  let ?report = "\<lambda>base header q w. if mget header ''X-Tenant-Id'' = Some ''acme'' then (Inr (), q # w) else (Inl (Error ''denied''), w)"
  have c: "tenant_from_context (wx_storage root_context) = []"
      "trim_space (metadata_value (msg_metadata sample_message) ''tenant_id'') = ''acme''"
      "trim_slashes (as_base_url ?s) \<noteq> []" "trim_space ''l1'' = ''l1''" "trim_space ''success'' = ''success''" "trim_space [] = []"
    by code_simp+
  have "client_get_scm_client ?E ?answer ?s (msg_context root_context (Some sample_message)) ''github'' ''42'' [] \<noteq> Inr r \<and>
     client_update_status ?E ?report ?s (msg_context root_context (Some sample_message)) ''l1'' ''success'' [] [] =
       (None, [(trim_space ''l1'', trim_space ''success'', trim_space [])])" for r
    by (rule scm_request_lacks_tenant [OF c(1,2)]) (simp_all add: c)
  then show ?thesis by (simp add: Let_def c)
qed

end
