(* ===== verification/Sql_Tables.thy ===== *)
theory Sql_Tables
  imports Go_Prelude
begin

text \<open>
  Tables of the database as the stores under \<^verbatim>\<open>pkg/storage\<close> use them through gorm. The database is the
  parameter \<open>sql_db\<close>, one operation for each kind of call the stores make. \<open>table_db\<close> is what gorm and SQL
  document for these calls, on a table that is a list of rows; it is the instance for which properties are
  proved. The stores compare columns of text only.
\<close>

section \<open>Calls\<close>

type_synonym sql_cond = "string \<times> string"

text \<open>Conditions, order (column and whether it descends), limit.\<close>

record sql_query =
  sq_where :: "sql_cond list"
  sq_order :: "(string \<times> bool) list"
  sq_limit :: "int option"

definition where_is :: "sql_cond list \<Rightarrow> sql_query" where
  "where_is ks = \<lparr>sq_where = ks, sq_order = [], sq_limit = None\<rparr>"

definition opt_cond :: "string \<Rightarrow> string \<Rightarrow> sql_cond list" where
  "opt_cond column v = (if v \<noteq> [] then [(column, v)] else [])"

text \<open>
  \<open>sd_create\<close> takes the columns of \<^verbatim>\<open>ON CONFLICT\<close> and those it then assigns, and gives the row as gorm leaves
  it in its argument. \<open>sd_save\<close> is \<^verbatim>\<open>Updates\<close> of a struct, \<open>sd_update\<close> \<^verbatim>\<open>Updates\<close> of a map: columns of text and the
  time of the update.
\<close>

record ('r, 't) sql_db =
  sd_find :: "sql_query \<Rightarrow> 't \<Rightarrow> 'r list res"
  sd_take :: "sql_query \<Rightarrow> 't \<Rightarrow> 'r option res"
  sd_create :: "(string list \<times> string list) option \<Rightarrow> 'r \<Rightarrow> 't \<Rightarrow> 'r res \<times> 't"
  sd_save :: "sql_cond list \<Rightarrow> 'r \<Rightarrow> 't \<Rightarrow> 'r res \<times> 't"
  sd_update :: "sql_cond list \<Rightarrow> (string \<times> string) list \<Rightarrow> gtime \<Rightarrow> 't \<Rightarrow> int res \<times> 't"
  sd_delete :: "sql_cond list \<Rightarrow> 't \<Rightarrow> go_error option \<times> 't"

section \<open>What gorm and SQL document\<close>

text \<open>
  A schema: reading, copying and setting columns, the order of rows by a column, the unique indexes, the
  defaults that gorm puts in place of zero values, and the columns of a row that are not zero.
\<close>

record 'r schema =
  sh_text :: "string \<Rightarrow> 'r \<Rightarrow> string"
  sh_copy :: "string \<Rightarrow> 'r \<Rightarrow> 'r \<Rightarrow> 'r"
  sh_set :: "string \<Rightarrow> string \<Rightarrow> 'r \<Rightarrow> 'r"
  sh_touch :: "gtime \<Rightarrow> 'r \<Rightarrow> 'r"
  sh_less :: "string \<Rightarrow> 'r \<Rightarrow> 'r \<Rightarrow> bool"
  sh_unique :: "string list list"
  sh_defaults :: "'r \<Rightarrow> 'r"
  sh_nonzero :: "'r \<Rightarrow> string list"

definition row_holds :: "'r schema \<Rightarrow> sql_cond list \<Rightarrow> 'r \<Rightarrow> bool" where
  "row_holds S ks r \<longleftrightarrow> list_all (\<lambda>(column, v). sh_text S column r = v) ks"

definition same_columns :: "'r schema \<Rightarrow> string list \<Rightarrow> 'r \<Rightarrow> 'r \<Rightarrow> bool" where
  "same_columns S cols r q \<longleftrightarrow> list_all (\<lambda>column. sh_text S column r = sh_text S column q) cols"

definition sorted_rows :: "'r schema \<Rightarrow> (string \<times> bool) list \<Rightarrow> 'r list \<Rightarrow> 'r list" where
  "sorted_rows S ord rs =
     fold (\<lambda>(column, desc). sort_slice (\<lambda>a b. if desc then sh_less S column b a else sh_less S column a b)) (rev ord) rs"

definition find_rows :: "'r schema \<Rightarrow> sql_query \<Rightarrow> 'r list \<Rightarrow> 'r list" where
  "find_rows S q t =
     (let rs = sorted_rows S (sq_order q) (filter (row_holds S (sq_where q)) t)
      in case sq_limit q of None \<Rightarrow> rs | Some n \<Rightarrow> take (nat n) rs)"

definition duplicate_of :: "'r schema \<Rightarrow> 'r \<Rightarrow> 'r list \<Rightarrow> bool" where
  "duplicate_of S r t \<longleftrightarrow> list_ex (\<lambda>u. list_ex (same_columns S u r) t) (sh_unique S)"

definition copy_columns :: "'r schema \<Rightarrow> string list \<Rightarrow> 'r \<Rightarrow> 'r \<Rightarrow> 'r" where
  "copy_columns S cols r q = fold (\<lambda>column. sh_copy S column r) cols q"

definition create_row :: "'r schema \<Rightarrow> (string list \<times> string list) option \<Rightarrow> 'r \<Rightarrow> 'r list \<Rightarrow> 'r res \<times> 'r list" where
  "create_row S conflict r0 t =
     (let r = sh_defaults S r0;
          hit = (case conflict of None \<Rightarrow> False | Some (cols, ups) \<Rightarrow> list_ex (same_columns S cols r) t)
      in if hit then
           (Inr r, map (\<lambda>q. case conflict of
                              Some (cols, ups) \<Rightarrow> if same_columns S cols r q then copy_columns S ups r q else q
                            | None \<Rightarrow> q) t)
         else if duplicate_of S r t then (Inl (Error ''duplicate key''), t)
         else (Inr r, t @ [r]))"

definition table_db :: "'r schema \<Rightarrow> ('r, 'r list) sql_db" where
  "table_db S =
     \<lparr>sd_find = (\<lambda>q t. Inr (find_rows S q t)),
      sd_take = (\<lambda>q t. Inr (case find_rows S q t of [] \<Rightarrow> None | r # _ \<Rightarrow> Some r)),
      sd_create = create_row S,
      sd_save = (\<lambda>ks r t. (Inr r, map (\<lambda>q. if row_holds S ks q then copy_columns S (sh_nonzero S r) r q else q) t)),
      sd_update = (\<lambda>ks us now t.
         (Inr (int (length (filter (row_holds S ks) t))),
          map (\<lambda>q. if row_holds S ks q then sh_touch S now (fold (\<lambda>(column, v). sh_set S column v) us q) else q) t)),
      sd_delete = (\<lambda>ks t. (None, filter (\<lambda>q. \<not> row_holds S ks q) t))\<rparr>"

lemma row_holds_simps [simp]:
  "row_holds S [] r"
  "row_holds S ((column, v) # ks) r \<longleftrightarrow> sh_text S column r = v \<and> row_holds S ks r"
  "row_holds S (ks @ ls) r \<longleftrightarrow> row_holds S ks r \<and> row_holds S ls r"
  by (auto simp: row_holds_def)

lemma row_holds_opt [simp]: "row_holds S (opt_cond column v) r \<longleftrightarrow> (v \<noteq> [] \<longrightarrow> sh_text S column r = v)"
  by (auto simp: opt_cond_def)

lemma copy_columns_simps [simp]:
  "copy_columns S [] r q = q"
  "copy_columns S (column # cols) r q = copy_columns S cols r (sh_copy S column r q)"
  by (simp_all add: copy_columns_def)

lemma same_columns_simps [simp]:
  "same_columns S [] r q"
  "same_columns S (column # cols) r q \<longleftrightarrow> sh_text S column r = sh_text S column q \<and> same_columns S cols r q"
  by (simp_all add: same_columns_def)

lemma mset_sorted_rows [simp]: "mset (sorted_rows S ord rs) = mset rs"
proof -
  have "mset (fold (\<lambda>(column, desc). sort_slice (\<lambda>a b. if desc then sh_less S column b a else sh_less S column a b)) os rs) = mset rs"
    for os by (induction os arbitrary: rs) auto
  then show ?thesis by (simp add: sorted_rows_def)
qed

lemma set_sorted_rows [simp]: "set (sorted_rows S ord rs) = set rs"
  by (metis mset_sorted_rows set_mset_mset)

lemma find_where [simp]: "find_rows S (where_is ks) t = filter (row_holds S ks) t"
  by (simp add: find_rows_def where_is_def sorted_rows_def)

lemma take_where: "sd_take (table_db S) (where_is ks) t = Inr (find (row_holds S ks) t)"
proof -
  have "(case filter P t of [] \<Rightarrow> None | r # rs \<Rightarrow> Some r) = find P t" for P :: "'a \<Rightarrow> bool"
    by (induction t) auto
  then show ?thesis by (simp add: table_db_def)
qed

lemma take_latest:
  assumes "find_rows S \<lparr>sq_where = ks, sq_order = [(column, True)], sq_limit = None\<rparr> t = x # xs"
    and "strict_weak (\<lambda>a b. sh_less S column b a)"
  shows "x \<in> set t" "row_holds S ks x" "\<And>r. r \<in> set t \<Longrightarrow> row_holds S ks r \<Longrightarrow> \<not> sh_less S column x r"
proof -
  let ?s = "sort_slice (\<lambda>a b. sh_less S column b a) (filter (row_holds S ks) t)"
  have s: "?s = x # xs" using assms(1) by (simp add: find_rows_def sorted_rows_def)
  have set: "set ?s = {r \<in> set t. row_holds S ks r}" by auto
  then show "x \<in> set t" "row_holds S ks x" by (auto simp: s)
  have "sorted_wrt (\<lambda>a b. \<not> sh_less S column a b) (x # xs)"
    using sorted_sort_slice [OF assms(2), of "filter (row_holds S ks) t"] by (simp add: s)
  moreover have "\<not> sh_less S column x x" using assms(2) unfolding strict_weak_def by blast
  ultimately show "\<not> sh_less S column x r" if "r \<in> set t" "row_holds S ks r" for r
    using that set by (auto simp: s)
qed

lemma find_ordered_Nil: "find_rows S \<lparr>sq_where = ks, sq_order = ord, sq_limit = None\<rparr> t = [] \<longleftrightarrow> (\<forall>r \<in> set t. \<not> row_holds S ks r)"
proof -
  have "find_rows S \<lparr>sq_where = ks, sq_order = ord, sq_limit = None\<rparr> t = [] \<longleftrightarrow> mset (filter (row_holds S ks) t) = {#}"
    by (simp add: find_rows_def flip: mset_zero_iff)
  then show ?thesis by (auto simp: filter_empty_conv)
qed

text \<open>Creating a row over a unique index that stands for its identity replaces what the row with that identity says.\<close>

lemma create_row_keyed:
  assumes "create_row S (Some (cols, ups)) r0 t = (Inr y, t')" and x: "sh_defaults S r0 = x"
    and same: "\<And>r q. same_columns S cols r q \<longleftrightarrow> ident r = ident q"
    and copied: "\<And>q. ident x = ident q \<Longrightarrow> content (copy_columns S ups x q) = content x \<and> ident (copy_columns S ups x q) = ident q"
  shows "y = x" "distinct (map ident t) \<Longrightarrow> distinct (map ident t')" "\<exists>q \<in> set t'. content q = content x"
    "\<And>q. q \<in> set t' \<Longrightarrow> ident q = ident x \<Longrightarrow> content q = content x"
    "\<And>q. ident q \<noteq> ident x \<Longrightarrow> q \<in> set t' \<longleftrightarrow> q \<in> set t"
proof -
  let ?up = "\<lambda>q. if ident x = ident q then copy_columns S ups x q else q"
  have t': "t' = (if \<exists>q \<in> set t. ident x = ident q then map ?up t else t @ [x])"
    using assms(1) by (auto simp: create_row_def x Let_def list_ex_iff same split: if_splits)
  show "y = x" using assms(1) by (auto simp: create_row_def x Let_def split: if_splits)
  have ids: "map (ident \<circ> ?up) t = map ident t" using copied by auto
  show "distinct (map ident t')" if "distinct (map ident t)"
  proof (cases "\<exists>q \<in> set t. ident x = ident q")
    case True
    then have "map ident t' = map ident t" by (simp only: t' if_True map_map ids)
    with that show ?thesis by simp
  next
    case False
    with that show ?thesis by (auto simp: t')
  qed
  show "\<exists>q \<in> set t'. content q = content x" using copied by (auto simp: t')
  show "content q = content x" if "q \<in> set t'" "ident q = ident x" for q
    using that copied by (auto simp: t' split: if_splits)
  show "q \<in> set t' \<longleftrightarrow> q \<in> set t" if "ident q \<noteq> ident x" for q
    using that copied by (auto simp: t' image_iff split: if_splits)
qed

end
