(* ===== verification/Install_Stores.thy ===== *)
theory Install_Stores
  imports Mem_Stores Sql_Tables
begin

text \<open>
  The store of installations as an interface (\<^verbatim>\<open>storage.Store\<close> of \<^verbatim>\<open>pkg/storage/store.go\<close>), its
  implementation in the database (\<^verbatim>\<open>pkg/storage/installations/store.go\<close>), and the contract that both this
  one and the in-memory one keep: the locale \<open>install_store\<close>.

  A row has the fields of the record it is made from (\<^verbatim>\<open>toRow\<close> and \<^verbatim>\<open>fromRow\<close> copy them), so it is that
  record. A call makes at most two clock readings.
\<close>

section \<open>The interface\<close>

record 's install_ops =
  io_upsert :: "ctx \<Rightarrow> gtime \<times> gtime \<Rightarrow> install_record \<Rightarrow> 's \<Rightarrow> go_error option \<times> 's"
  io_get :: "ctx \<Rightarrow> string \<Rightarrow> string \<Rightarrow> string \<Rightarrow> 's \<Rightarrow> install_record option res"
  io_by_id :: "ctx \<Rightarrow> string \<Rightarrow> string \<Rightarrow> 's \<Rightarrow> install_record option res"
  io_by_key :: "ctx \<Rightarrow> string \<Rightarrow> string \<Rightarrow> string \<Rightarrow> 's \<Rightarrow> install_record option res"
  io_list :: "ctx \<Rightarrow> string \<Rightarrow> string \<Rightarrow> 's \<Rightarrow> install_record list res"
  io_delete :: "ctx \<Rightarrow> string \<Rightarrow> string \<Rightarrow> string \<Rightarrow> string \<Rightarrow> 's \<Rightarrow> go_error option \<times> 's"

definition mem_installs :: "(string \<Rightarrow> string) \<Rightarrow> install_mem install_ops" where
  "mem_installs sha =
     \<lparr>io_upsert = upsert_installation sha, io_get = get_installation, io_by_id = get_installation_by_id,
      io_by_key = get_installation_by_id_and_key, io_list = list_installations, io_delete = delete_installation\<rparr>"

section \<open>Installations in the database\<close>

type_synonym 't install_db = "(install_record, 't) sql_db"

definition tenant_cond :: "ctx \<Rightarrow> sql_cond list" where
  "tenant_cond c = opt_cond ''tenant_id'' (tenant_from_context c)"

definition install_unique :: "string list" where
  "install_unique = [''tenant_id'', ''provider'', ''account_id'', ''installation_id'', ''provider_instance_key'']"

definition install_updates :: "string list" where
  "install_updates = [''account_name'', ''provider_instance_key'', ''enterprise_id'', ''enterprise_slug'', ''enterprise_name'',
     ''access_token'', ''refresh_token'', ''expires_at'', ''metadata_json'', ''updated_at'']"

definition sql_upsert_installation ::
  "'t install_db \<Rightarrow> (string \<Rightarrow> string) \<Rightarrow> ctx \<Rightarrow> gtime \<times> gtime \<Rightarrow> install_record \<Rightarrow> 't \<Rightarrow> go_error option \<times> 't" where
  "sql_upsert_installation db sha c clk r t =
     (if in_provider r = [] then (Some (Error ''provider is required''), t)
      else
        let r = (if in_tenant r = [] then r\<lparr>in_tenant := tenant_from_context c\<rparr> else r);
            r = (if is_zero (in_created_at r) then r\<lparr>in_created_at := fst clk\<rparr> else r);
            r = r\<lparr>in_updated_at := fst clk\<rparr>;
            r = (if in_id r = [] then r\<lparr>in_id := install_record_id sha r\<rparr> else r)
        in case sd_create db (Some (install_unique, install_updates)) r t of
             (Inl err, t') \<Rightarrow> (Some err, t')
           | (Inr stored, t') \<Rightarrow> (None, t'))"

definition sql_get_installation ::
  "'t install_db \<Rightarrow> ctx \<Rightarrow> string \<Rightarrow> string \<Rightarrow> string \<Rightarrow> 't \<Rightarrow> install_record option res" where
  "sql_get_installation db c provider account_id installation_id t =
     sd_take db (where_is ([(''provider'', provider), (''account_id'', account_id), (''installation_id'', installation_id)] @
       tenant_cond c)) t"

definition sql_get_by_installation_id ::
  "'t install_db \<Rightarrow> ctx \<Rightarrow> string \<Rightarrow> string \<Rightarrow> 't \<Rightarrow> install_record option res" where
  "sql_get_by_installation_id db c provider installation_id t =
     sd_take db \<lparr>sq_where = [(''provider'', provider), (''installation_id'', installation_id)] @ tenant_cond c,
       sq_order = [(''updated_at'', True)], sq_limit = None\<rparr> t"

definition sql_get_by_installation_id_and_key ::
  "'t install_db \<Rightarrow> ctx \<Rightarrow> string \<Rightarrow> string \<Rightarrow> string \<Rightarrow> 't \<Rightarrow> install_record option res" where
  "sql_get_by_installation_id_and_key db c provider0 installation_id0 instance_key0 t =
     (let provider = trim_space provider0; installation_id = trim_space installation_id0; key = trim_space instance_key0 in
      if provider = [] \<or> installation_id = [] \<or> key = [] then
        Inl (Error ''provider, installation_id, and provider_instance_key are required'')
      else
        sd_take db \<lparr>sq_where = [(''provider'', provider), (''installation_id'', installation_id), (''provider_instance_key'', key)] @
          tenant_cond c, sq_order = [(''updated_at'', True)], sq_limit = None\<rparr> t)"

definition sql_list_installations ::
  "'t install_db \<Rightarrow> ctx \<Rightarrow> string \<Rightarrow> string \<Rightarrow> 't \<Rightarrow> install_record list res" where
  "sql_list_installations db c provider account_id t =
     sd_find db (where_is ([(''provider'', provider)] @ opt_cond ''account_id'' account_id @ tenant_cond c)) t"

definition sql_delete_installation ::
  "'t install_db \<Rightarrow> ctx \<Rightarrow> string \<Rightarrow> string \<Rightarrow> string \<Rightarrow> string \<Rightarrow> 't \<Rightarrow> go_error option \<times> 't" where
  "sql_delete_installation db c provider0 account_id0 installation_id0 instance_key0 t =
     (let provider = trim_space provider0; account_id = trim_space account_id0;
          installation_id = trim_space installation_id0; key = trim_space instance_key0
      in if provider = [] \<or> account_id = [] \<or> installation_id = [] then
           (Some (Error ''provider, account_id, and installation_id are required''), t)
         else sd_delete db ([(''provider'', provider), (''account_id'', account_id), (''installation_id'', installation_id)] @
                opt_cond ''provider_instance_key'' key @ tenant_cond c) t)"

definition sql_update_install_key ::
  "'t install_db \<Rightarrow> gtime \<Rightarrow> string \<Rightarrow> string \<Rightarrow> string \<Rightarrow> string \<Rightarrow> 't \<Rightarrow> int res \<times> 't" where
  "sql_update_install_key db now provider0 old0 new0 tenant0 t =
     (let provider = trim_space provider0; old_key = trim_space old0; new_key = trim_space new0 in
      if provider = [] \<or> old_key = [] \<or> new_key = [] then (Inl (Error ''provider and keys are required''), t)
      else sd_update db [(''provider'', provider), (''provider_instance_key'', old_key), (''tenant_id'', trim_space tenant0)]
             [(''provider_instance_key'', new_key)] now t)"

definition sql_installs :: "'t install_db \<Rightarrow> (string \<Rightarrow> string) \<Rightarrow> 't install_ops" where
  "sql_installs db sha =
     \<lparr>io_upsert = sql_upsert_installation db sha, io_get = sql_get_installation db, io_by_id = sql_get_by_installation_id db,
      io_by_key = sql_get_by_installation_id_and_key db, io_list = sql_list_installations db,
      io_delete = sql_delete_installation db\<rparr>"

text \<open>The table \<^verbatim>\<open>githook_installations\<close>: its columns, its primary key and its unique index.\<close>

definition install_text :: "string \<Rightarrow> install_record \<Rightarrow> string" where
  "install_text column r =
     (if column = ''id'' then in_id r else if column = ''tenant_id'' then in_tenant r
      else if column = ''provider'' then in_provider r else if column = ''account_id'' then in_account_id r
      else if column = ''installation_id'' then in_installation_id r
      else if column = ''provider_instance_key'' then in_instance_key r else [])"

definition install_copy :: "string \<Rightarrow> install_record \<Rightarrow> install_record \<Rightarrow> install_record" where
  "install_copy column r q =
     (if column = ''account_name'' then q\<lparr>in_account_name := in_account_name r\<rparr>
      else if column = ''provider_instance_key'' then q\<lparr>in_instance_key := in_instance_key r\<rparr>
      else if column = ''enterprise_id'' then q\<lparr>in_enterprise_id := in_enterprise_id r\<rparr>
      else if column = ''enterprise_slug'' then q\<lparr>in_enterprise_slug := in_enterprise_slug r\<rparr>
      else if column = ''enterprise_name'' then q\<lparr>in_enterprise_name := in_enterprise_name r\<rparr>
      else if column = ''access_token'' then q\<lparr>in_access_token := in_access_token r\<rparr>
      else if column = ''refresh_token'' then q\<lparr>in_refresh_token := in_refresh_token r\<rparr>
      else if column = ''expires_at'' then q\<lparr>in_expires_at := in_expires_at r\<rparr>
      else if column = ''metadata_json'' then q\<lparr>in_metadata_json := in_metadata_json r\<rparr>
      else if column = ''updated_at'' then q\<lparr>in_updated_at := in_updated_at r\<rparr> else q)"

definition install_schema :: "install_record schema" where
  "install_schema =
     \<lparr>sh_text = install_text, sh_copy = install_copy,
      sh_set = (\<lambda>column v r. if column = ''provider_instance_key'' then r\<lparr>in_instance_key := v\<rparr> else r),
      sh_touch = (\<lambda>now r. r\<lparr>in_updated_at := now\<rparr>),
      sh_less = (\<lambda>column a b. column = ''updated_at'' \<and> in_updated_at a < in_updated_at b),
      sh_unique = [[''id''], install_unique], sh_defaults = (\<lambda>r. r), sh_nonzero = (\<lambda>r. [])\<rparr>"

abbreviation install_table :: "(install_record, install_record list) sql_db" where
  "install_table \<equiv> table_db install_schema"

section \<open>The contract\<close>

text \<open>What identifies an installation, and what it says.\<close>

definition install_identity :: "install_record \<Rightarrow> string \<times> string \<times> string \<times> string \<times> string" where
  "install_identity r = (in_tenant r, in_provider r, in_account_id r, in_installation_id r, in_instance_key r)"

definition install_content :: "install_record \<Rightarrow> install_record" where
  "install_content r = r\<lparr>in_id := [], in_created_at := 0, in_updated_at := 0\<rparr>"

definition in_context :: "ctx \<Rightarrow> install_record \<Rightarrow> install_record" where
  "in_context c r = (if in_tenant r = [] then r\<lparr>in_tenant := tenant_from_context c\<rparr> else r)"

text \<open>Texts as keys of a map are joined by bars; a plain one has none.\<close>

definition plain :: "string \<Rightarrow> bool" where
  "plain s \<longleftrightarrow> CHR ''|'' \<notin> set s"

definition plain_install :: "install_record \<Rightarrow> bool" where
  "plain_install r \<longleftrightarrow>
     plain (in_tenant r) \<and> plain (in_provider r) \<and> plain (in_account_id r) \<and> plain (in_installation_id r) \<and> plain (in_instance_key r)"

definition selects :: "ctx \<Rightarrow> string \<Rightarrow> string \<Rightarrow> string \<Rightarrow> string \<Rightarrow> install_record \<Rightarrow> bool" where
  "selects c provider account_id installation_id key r \<longleftrightarrow>
     in_provider r = provider \<and> in_account_id r = account_id \<and> in_installation_id r = installation_id \<and>
     field_matches key (in_instance_key r) \<and> tenant_visible c (in_tenant r)"

lemma install_content_sel:
  "in_tenant (install_content r) = in_tenant r" "in_provider (install_content r) = in_provider r"
  "in_account_id (install_content r) = in_account_id r" "in_installation_id (install_content r) = in_installation_id r"
  "in_instance_key (install_content r) = in_instance_key r"
  by (simp_all add: install_content_def)

lemma install_content_fields:
  assumes "install_content x = install_content y"
  shows "in_tenant x = in_tenant y" "in_provider x = in_provider y" "in_account_id x = in_account_id y"
    "in_installation_id x = in_installation_id y" "in_instance_key x = in_instance_key y"
  by (metis assms install_content_sel)+

lemma install_content_identity: "install_content x = install_content y \<Longrightarrow> install_identity x = install_identity y"
  unfolding install_identity_def by (metis install_content_sel)

locale install_store =
  fixes ops :: "'s install_ops"
    and view :: "'s \<Rightarrow> install_record list"
    and inv :: "'s \<Rightarrow> bool"
  assumes list_law: "inv s \<Longrightarrow> \<exists>rs. io_list ops c p a s = Inr rs \<and>
        set rs = {r \<in> set (view s). in_provider r = p \<and> field_matches a (in_account_id r) \<and> tenant_visible c (in_tenant r)}"
    and by_id_law: "inv s \<Longrightarrow> \<exists>found. io_by_id ops c p i s = Inr found \<and>
        (case found of
           None \<Rightarrow> \<forall>r \<in> set (view s). \<not> (in_provider r = p \<and> in_installation_id r = i \<and> tenant_visible c (in_tenant r))
         | Some x \<Rightarrow> x \<in> set (view s) \<and> in_provider x = p \<and> in_installation_id x = i \<and> tenant_visible c (in_tenant x) \<and>
             (\<forall>r \<in> set (view s). in_provider r = p \<and> in_installation_id r = i \<and> tenant_visible c (in_tenant r) \<longrightarrow>
                in_updated_at r \<le> in_updated_at x))"
    and upsert_law: "inv s \<Longrightarrow> plain_install (in_context c r) \<Longrightarrow> io_upsert ops c clk r s = (None, s') \<Longrightarrow>
        inv s' \<and> (\<exists>x \<in> set (view s'). install_content x = install_content (in_context c r)) \<and>
        (\<forall>q \<in> set (view s'). install_identity q = install_identity (in_context c r) \<longrightarrow>
           install_content q = install_content (in_context c r)) \<and>
        (\<forall>q. install_identity q \<noteq> install_identity (in_context c r) \<longrightarrow> q \<in> set (view s') \<longleftrightarrow> q \<in> set (view s))"
    and delete_law: "inv s \<Longrightarrow> trim_space p = p \<Longrightarrow> trim_space a = a \<Longrightarrow> trim_space i = i \<Longrightarrow> trim_space k = k \<Longrightarrow>
        p \<noteq> [] \<Longrightarrow> a \<noteq> [] \<Longrightarrow> i \<noteq> [] \<Longrightarrow>
        \<exists>s'. io_delete ops c p a i k s = (None, s') \<and> inv s' \<and>
          set (view s') = {r \<in> set (view s). \<not> selects c p a i k r}"
begin

text \<open>A deleted installation cannot be found, and those of other tenants are as they were.\<close>

lemma deleted_is_gone:
  assumes "inv s" "trim_space p = p" "trim_space a = a" "trim_space i = i" "trim_space k = k" "p \<noteq> []" "a \<noteq> []" "i \<noteq> []"
    and "io_delete ops c p a i k s = (err, s')" "io_list ops c p a s' = Inr rs" "r \<in> set rs" "in_installation_id r = i"
  shows "k \<noteq> [] \<and> in_instance_key r \<noteq> k"
proof -
  from delete_law [OF assms(1-8), of c] assms(9)
  have s': "inv s'" "set (view s') = {r \<in> set (view s). \<not> selects c p a i k r}" by auto
  from list_law [OF s'(1), of c p a] assms(10) s'(2)
  have "set rs = {r \<in> set (view s). \<not> selects c p a i k r \<and> in_provider r = p \<and> field_matches a (in_account_id r) \<and>
      tenant_visible c (in_tenant r)}" by auto
  with assms(7,11,12) show ?thesis by (auto simp: selects_def field_matches_def)
qed

lemma upserted_is_listed:
  assumes "inv s" "plain_install (in_context c r)" "io_upsert ops c clk r s = (None, s')"
    and "tenant_visible c (in_tenant (in_context c r))"
  shows "\<exists>rs x. io_list ops c (in_provider r) (in_account_id r) s' = Inr rs \<and> x \<in> set rs \<and>
     install_content x = install_content (in_context c r)"
proof -
  from upsert_law [OF assms(1-3)] obtain x where x: "inv s'" "x \<in> set (view s')"
      "install_content x = install_content (in_context c r)" by blast
  then have f: "in_provider x = in_provider r" "in_account_id x = in_account_id r" "in_tenant x = in_tenant (in_context c r)"
    by (auto dest: install_content_fields simp: in_context_def)
  from list_law [OF x(1), of c "in_provider r" "in_account_id r"] obtain rs where rs:
      "io_list ops c (in_provider r) (in_account_id r) s' = Inr rs"
      "set rs = {q \<in> set (view s'). in_provider q = in_provider r \<and> field_matches (in_account_id r) (in_account_id q) \<and>
         tenant_visible c (in_tenant q)}" by blast
  have "x \<in> set rs" unfolding rs(2) using x(2) f assms(4) by (simp add: field_matches_def)
  with rs(1) x(3) show ?thesis by blast
qed

end


section \<open>Both stores keep it\<close>

definition install_mem_inv :: "install_mem \<Rightarrow> bool" where
  "install_mem_inv m \<longleftrightarrow> wf_map m \<and>
     (\<forall>(k, r) \<in> set m. plain_install r \<and>
        k = install_key (in_tenant r) (in_provider r) (in_account_id r) (in_installation_id r) (in_instance_key r))"

lemma install_key_inj:
  assumes "install_key a b d e f = install_key a' b' d' e' f'"
    and "plain a" "plain b" "plain d" "plain e" "plain a'" "plain b'" "plain d'" "plain e'"
  shows "a = a' \<and> b = b' \<and> d = d' \<and> e = e' \<and> f = f'"
proof -
  note eq = assms(1) [unfolded install_key_def, simplified]
  have 1: "a = a' \<and> b @ CHR ''|'' # d @ CHR ''|'' # e @ CHR ''|'' # f = b' @ CHR ''|'' # d' @ CHR ''|'' # e' @ CHR ''|'' # f'"
    by (rule append_sep_inj [OF eq]) (use assms in \<open>auto simp: plain_def\<close>)
  then have 2: "b = b' \<and> d @ CHR ''|'' # e @ CHR ''|'' # f = d' @ CHR ''|'' # e' @ CHR ''|'' # f'"
    by (intro append_sep_inj [of b]) (use assms in \<open>auto simp: plain_def\<close>)
  then have 3: "d = d' \<and> e @ CHR ''|'' # f = e' @ CHR ''|'' # f'"
    by (intro append_sep_inj [of d]) (use assms in \<open>auto simp: plain_def\<close>)
  then have "e = e' \<and> f = f'"
    by (intro append_sep_inj [of e]) (use assms in \<open>auto simp: plain_def\<close>)
  with 1 2 3 show ?thesis by blast
qed

lemma latest_loop_none: "(latest_loop P rs None = None) = (\<forall>r \<in> set rs. \<not> P r)"
  using latest_loop_spec [where P = P and rs = rs and l = None] by (auto split: option.splits)

lemma install_mem_invD:
  assumes "install_mem_inv m" "mget m k = Some r"
  shows "plain_install r" "k = install_key (in_tenant r) (in_provider r) (in_account_id r) (in_installation_id r) (in_instance_key r)"
  using assms by (auto simp: install_mem_inv_def mget_iff)

lemma install_mem_inv_iff:
  "install_mem_inv m \<longleftrightarrow> wf_map m \<and> (\<forall>k r. mget m k = Some r \<longrightarrow> plain_install r \<and>
     k = install_key (in_tenant r) (in_provider r) (in_account_id r) (in_installation_id r) (in_instance_key r))"
  by (auto simp: install_mem_inv_def mget_iff)

interpretation imem: install_store "mem_installs sha" mvals install_mem_inv for sha
proof
  fix s c p a
  assume "install_mem_inv s"
  show "\<exists>rs. io_list (mem_installs sha) c p a s = Inr rs \<and>
      set rs = {r \<in> set (mvals s). in_provider r = p \<and> field_matches a (in_account_id r) \<and> tenant_visible c (in_tenant r)}"
    by (auto simp: mem_installs_def list_installations_def)
next
  fix s c p i
  let ?P = "\<lambda>r. in_provider r = p \<and> in_installation_id r = i \<and> tenant_visible c (in_tenant r)"
  show "\<exists>found. io_by_id (mem_installs sha) c p i s = Inr found \<and>
        (case found of
           None \<Rightarrow> \<forall>r \<in> set (mvals s). \<not> (in_provider r = p \<and> in_installation_id r = i \<and> tenant_visible c (in_tenant r))
         | Some x \<Rightarrow> x \<in> set (mvals s) \<and> in_provider x = p \<and> in_installation_id x = i \<and> tenant_visible c (in_tenant x) \<and>
             (\<forall>r \<in> set (mvals s). in_provider r = p \<and> in_installation_id r = i \<and> tenant_visible c (in_tenant r) \<longrightarrow>
                in_updated_at r \<le> in_updated_at x))"
    using latest_loop_spec [where P = ?P and rs = "mvals s" and l = None]
    by (simp add: mem_installs_def get_installation_by_id_def split: option.splits)
next
  fix s c r clk s'
  assume s: "install_mem_inv s" and r: "plain_install (in_context c r)" and u: "io_upsert (mem_installs sha) c clk r s = (None, s')"
  define x where "x = (let r = in_context c r; r = (if in_id r = [] then r\<lparr>in_id := install_record_id sha r\<rparr> else r);
     r = (if is_zero (in_created_at r) then r\<lparr>in_created_at := fst clk\<rparr> else r) in r\<lparr>in_updated_at := snd clk\<rparr>)"
  have cx: "install_content x = install_content (in_context c r)"
    by (simp add: x_def install_content_def Let_def)
  note fx = install_content_fields [OF cx]
  define k where "k = install_key (in_tenant x) (in_provider x) (in_account_id x) (in_installation_id x) (in_instance_key x)"
  have s': "s' = mput k x s"
    using u by (simp add: mem_installs_def upsert_installation_def in_context_def [symmetric] k_def x_def Let_def)
  have px: "plain_install x" using r by (simp add: plain_install_def fx)
  have wf: "wf_map s" "wf_map s'" using s by (simp_all add: install_mem_inv_def s')
  have keyed: "k' = k \<longleftrightarrow> install_identity q = install_identity x" if "mget s k' = Some q" for k' q
    using install_mem_invD [OF s that] px install_key_inj [of "in_tenant q" "in_provider q" "in_account_id q" "in_installation_id q"
        "in_instance_key q" "in_tenant x" "in_provider x" "in_account_id x" "in_installation_id x" "in_instance_key x"]
    by (auto simp: k_def install_identity_def plain_install_def)
  have vals: "set (mvals s') = insert x {q \<in> set (mvals s). install_identity q \<noteq> install_identity x}"
    unfolding s' using wf(1) keyed by (rule set_mvals_mput)
  have "install_mem_inv s'"
    using s px by (auto simp: install_mem_inv_iff s' k_def)
  with vals cx install_content_identity [OF cx] show "install_mem_inv s' \<and> (\<exists>x \<in> set (mvals s'). install_content x = install_content (in_context c r)) \<and>
        (\<forall>q \<in> set (mvals s'). install_identity q = install_identity (in_context c r) \<longrightarrow>
           install_content q = install_content (in_context c r)) \<and>
        (\<forall>q. install_identity q \<noteq> install_identity (in_context c r) \<longrightarrow> q \<in> set (mvals s') \<longleftrightarrow> q \<in> set (mvals s))"
    by auto
next
  fix s c p a i k
  assume "install_mem_inv s"
  then show "\<exists>s'. io_delete (mem_installs sha) c p a i k s = (None, s') \<and> install_mem_inv s' \<and>
          set (mvals s') = {r \<in> set (mvals s). \<not> selects c p a i k r}"
    using set_mvals_filter [of "\<lambda>r. \<not> selects c p a i k r" s]
    by (auto simp: mem_installs_def delete_installation_def install_mem_inv_def selects_def [symmetric])
qed

lemma same_install [simp]: "same_columns install_schema install_unique r q \<longleftrightarrow> install_identity r = install_identity q"
  by (auto simp: install_unique_def install_schema_def install_text_def install_identity_def)

lemma install_row_holds [simp]:
  "row_holds install_schema (tenant_cond c) r \<longleftrightarrow> tenant_visible c (in_tenant r)"
  "sh_defaults install_schema r = r"
  "sh_text install_schema ''provider'' r = in_provider r"
  "sh_text install_schema ''account_id'' r = in_account_id r"
  "sh_text install_schema ''installation_id'' r = in_installation_id r"
  "sh_text install_schema ''provider_instance_key'' r = in_instance_key r"
  by (auto simp: tenant_cond_def install_schema_def install_text_def tenant_visible_def)

lemma install_copied:
  assumes "install_identity r = install_identity q"
  shows "install_content (copy_columns install_schema install_updates r q) = install_content r"
    "install_identity (copy_columns install_schema install_updates r q) = install_identity q"
  using assms by (cases q; cases r; simp add: install_updates_def install_schema_def install_copy_def install_content_def install_identity_def)+

definition install_rows_ok :: "install_record list \<Rightarrow> bool" where
  "install_rows_ok t \<longleftrightarrow> distinct (map install_identity t)"

lemma install_latest: "strict_weak (\<lambda>a b. sh_less install_schema ''updated_at'' b a)"
  by (auto simp: strict_weak_def install_schema_def)

lemma sql_installation_upserted:
  assumes s: "install_rows_ok s" and u: "io_upsert (sql_installs install_table sha) c clk r s = (None, s')"
  shows "install_rows_ok s' \<and> (\<exists>x \<in> set s'. install_content x = install_content (in_context c r)) \<and>
        (\<forall>q \<in> set s'. install_identity q = install_identity (in_context c r) \<longrightarrow>
           install_content q = install_content (in_context c r)) \<and>
        (\<forall>q. install_identity q \<noteq> install_identity (in_context c r) \<longrightarrow> q \<in> set s' \<longleftrightarrow> q \<in> set s)"
proof -
  define x where "x = (let r = in_context c r; r = (if is_zero (in_created_at r) then r\<lparr>in_created_at := fst clk\<rparr> else r);
     r = r\<lparr>in_updated_at := fst clk\<rparr> in if in_id r = [] then r\<lparr>in_id := install_record_id sha r\<rparr> else r)"
  have cx: "install_content x = install_content (in_context c r)"
    by (simp add: x_def install_content_def Let_def)
  have ix: "install_identity x = install_identity (in_context c r)" by (rule install_content_identity [OF cx])
  have "\<exists>y. create_row install_schema (Some (install_unique, install_updates)) x s = (Inr y, s')"
    using u by (auto simp: sql_installs_def sql_upsert_installation_def in_context_def [symmetric] x_def Let_def table_db_def
        split: if_splits sum.splits prod.splits)
  then obtain y where y: "create_row install_schema (Some (install_unique, install_updates)) x s = (Inr y, s')" by blast
  note created = create_row_keyed [OF y, where ident = install_identity and content = install_content, simplified install_row_holds,
      OF refl same_install conjI [OF install_copied]]
  show ?thesis
    using created s unfolding install_rows_ok_def ix [symmetric] cx [symmetric] by blast
qed

interpretation isql: install_store "sql_installs install_table sha" "\<lambda>t. t" install_rows_ok for sha
proof
  fix s c p a
  show "\<exists>rs. io_list (sql_installs install_table sha) c p a s = Inr rs \<and>
      set rs = {r \<in> set s. in_provider r = p \<and> field_matches a (in_account_id r) \<and> tenant_visible c (in_tenant r)}"
    by (auto simp: sql_installs_def sql_list_installations_def table_db_def field_matches_def)
next
  fix s c p i
  let ?ks = "[(''provider'', p), (''installation_id'', i)] @ tenant_cond c"
  let ?found = "find_rows install_schema \<lparr>sq_where = ?ks, sq_order = [(''updated_at'', True)], sq_limit = None\<rparr> s"
  have less: "\<not> sh_less install_schema ''updated_at'' x r \<longleftrightarrow> in_updated_at r \<le> in_updated_at x" for x r
    by (auto simp: install_schema_def)
  show "\<exists>found. io_by_id (sql_installs install_table sha) c p i s = Inr found \<and>
        (case found of
           None \<Rightarrow> \<forall>r \<in> set s. \<not> (in_provider r = p \<and> in_installation_id r = i \<and> tenant_visible c (in_tenant r))
         | Some x \<Rightarrow> x \<in> set s \<and> in_provider x = p \<and> in_installation_id x = i \<and> tenant_visible c (in_tenant x) \<and>
             (\<forall>r \<in> set s. in_provider r = p \<and> in_installation_id r = i \<and> tenant_visible c (in_tenant r) \<longrightarrow>
                in_updated_at r \<le> in_updated_at x))"
  proof (cases ?found)
    case Nil
    then have "\<forall>r \<in> set s. \<not> row_holds install_schema ?ks r" by (simp only: find_ordered_Nil)
    with Nil show ?thesis by (simp add: sql_installs_def sql_get_by_installation_id_def table_db_def)
  next
    case (Cons x xs)
    from take_latest [OF Cons install_latest] Cons less show ?thesis
      by (simp add: sql_installs_def sql_get_by_installation_id_def table_db_def)
  qed
next
  fix s c r clk s'
  assume "install_rows_ok s" "io_upsert (sql_installs install_table sha) c clk r s = (None, s')"
  then show "install_rows_ok s' \<and> (\<exists>x \<in> set s'. install_content x = install_content (in_context c r)) \<and>
        (\<forall>q \<in> set s'. install_identity q = install_identity (in_context c r) \<longrightarrow>
           install_content q = install_content (in_context c r)) \<and>
        (\<forall>q. install_identity q \<noteq> install_identity (in_context c r) \<longrightarrow> q \<in> set s' \<longleftrightarrow> q \<in> set s)"
    by (rule sql_installation_upserted)
next
  fix s c p a i k
  assume "install_rows_ok s" "trim_space p = p" "trim_space a = a" "trim_space i = i" "trim_space k = k" "p \<noteq> []" "a \<noteq> []" "i \<noteq> []"
  then show "\<exists>s'. io_delete (sql_installs install_table sha) c p a i k s = (None, s') \<and> install_rows_ok s' \<and>
          set s' = {r \<in> set s. \<not> selects c p a i k r}"
    by (auto simp: sql_installs_def sql_delete_installation_def table_db_def install_rows_ok_def distinct_map_filter
        selects_def field_matches_def)
qed

section \<open>One instance per installation\<close>

text \<open>
  The database keeps an installation under one instance key only. The identifier of a record is a hash
  of tenant, provider, account and installation, without the instance key, and it is the primary key of the
  table: where the installation is stored under one key, storing it under another one is an error, although
  the unique index of the table and the in-memory store tell the two apart.
\<close>

theorem sql_second_instance_rejected:
  assumes "q \<in> set t" "in_id q = install_record_id sha q" "in_id r = []" "in_provider r \<noteq> []"
    and "in_tenant q = in_tenant (in_context c r)" "in_provider q = in_provider r" "in_account_id q = in_account_id r"
    "in_installation_id q = in_installation_id r"
    and "\<forall>x \<in> set t. install_identity x \<noteq> install_identity (in_context c r)"
  shows "sql_upsert_installation install_table sha c clk r t = (Some (Error ''duplicate key''), t)"
proof -
  define x where "x = (let r = in_context c r; r = (if is_zero (in_created_at r) then r\<lparr>in_created_at := fst clk\<rparr> else r);
     r = r\<lparr>in_updated_at := fst clk\<rparr> in if in_id r = [] then r\<lparr>in_id := install_record_id sha r\<rparr> else r)"
  have x: "install_identity x = install_identity (in_context c r)" "in_id x = install_record_id sha q"
    using assms(3,5-8) by (simp_all add: x_def Let_def install_identity_def in_context_def install_record_id_def)
  then have "same_columns install_schema [''id''] x q" using assms(2) by (simp add: install_schema_def install_text_def)
  then have "duplicate_of install_schema x t"
    using assms(1) by (auto simp: duplicate_of_def install_schema_def list_ex_iff)
  moreover have "\<not> list_ex (same_columns install_schema install_unique x) t"
    using assms(9) x(1) by (auto simp: list_ex_iff)
  ultimately have "create_row install_schema (Some (install_unique, install_updates)) x t = (Inl (Error ''duplicate key''), t)"
    by (simp add: create_row_def)
  then show ?thesis
    using assms(4) by (simp add: sql_upsert_installation_def in_context_def [symmetric] x_def Let_def table_db_def)
qed

definition sample_install :: install_record where
  "sample_install = \<lparr>in_id = [], in_tenant = ''acme'', in_provider = ''github'', in_account_id = ''a'', in_account_name = [],
     in_installation_id = ''42'', in_instance_key = ''k1'', in_enterprise_id = [], in_enterprise_slug = [],
     in_enterprise_name = [], in_access_token = [], in_refresh_token = [], in_expires_at = None, in_metadata_json = [],
     in_created_at = 0, in_updated_at = 0\<rparr>"

theorem sql_second_instance_rejected_witness:
  "let t = snd (sql_upsert_installation install_table (\<lambda>s. s) background (7, 7) sample_install []) in
     length t = 1 \<and>
     sql_upsert_installation install_table (\<lambda>s. s) background (8, 8) (sample_install\<lparr>in_instance_key := ''k2''\<rparr>) t =
       (Some (Error ''duplicate key''), t)"
proof -
  let ?r = "sample_install\<lparr>in_instance_key := ''k2''\<rparr>"
  let ?q = "sample_install\<lparr>in_created_at := 7, in_updated_at := 7, in_id := install_record_id (\<lambda>s. s) sample_install\<rparr>"
  have t: "snd (sql_upsert_installation install_table (\<lambda>s. s) background (7, 7) sample_install []) = [?q]"
    by (simp add: sql_upsert_installation_def sample_install_def table_db_def create_row_def duplicate_of_def install_schema_def
        is_zero_def Let_def install_record_id_def install_unique_def)
  have "sql_upsert_installation install_table (\<lambda>s. s) background (8, 8) ?r [?q] = (Some (Error ''duplicate key''), [?q])"
    by (rule sql_second_instance_rejected [of ?q])
      (auto simp: sample_install_def in_context_def install_identity_def install_record_id_def)
  with t show ?thesis by simp
qed

end
