(* ===== verification/Namespace_Stores.thy ===== *)
theory Namespace_Stores
  imports Install_Stores
begin

text \<open>
  The store of namespaces (repositories) as an interface (\<^verbatim>\<open>storage.NamespaceStore\<close>), its implementation in
  the database (\<^verbatim>\<open>pkg/storage/namespaces/store.go\<close>), and the contract that it and the in-memory one keep:
  the locale \<open>namespace_store\<close>. A row is the record it is made from.
\<close>

section \<open>The interface\<close>

record 's namespace_ops =
  no_upsert :: "ctx \<Rightarrow> gtime \<times> gtime \<Rightarrow> namespace_record \<Rightarrow> 's \<Rightarrow> go_error option \<times> 's"
  no_get :: "ctx \<Rightarrow> string \<Rightarrow> string \<Rightarrow> string \<Rightarrow> 's \<Rightarrow> namespace_record option res"
  no_list :: "ctx \<Rightarrow> namespace_filter \<Rightarrow> 's \<Rightarrow> namespace_record list res"
  no_delete :: "ctx \<Rightarrow> string \<Rightarrow> string \<Rightarrow> string \<Rightarrow> 's \<Rightarrow> go_error option \<times> 's"

definition mem_namespaces :: "(string \<Rightarrow> string) \<Rightarrow> namespace_mem namespace_ops" where
  "mem_namespaces sha =
     \<lparr>no_upsert = upsert_namespace sha, no_get = get_namespace, no_list = list_namespaces, no_delete = delete_namespace\<rparr>"

section \<open>Namespaces in the database\<close>

type_synonym 't namespace_db = "(namespace_record, 't) sql_db"

definition namespace_unique :: "string list" where
  "namespace_unique = [''tenant_id'', ''provider'', ''provider_instance_key'', ''repo_id'']"

definition namespace_updates :: "string list" where
  "namespace_updates = [''account_id'', ''installation_id'', ''provider_instance_key'', ''owner'', ''repo_name'', ''full_name'',
     ''visibility'', ''default_branch'', ''http_url'', ''ssh_url'', ''webhooks_enabled'', ''updated_at'']"

definition sql_upsert_namespace ::
  "'t namespace_db \<Rightarrow> (string \<Rightarrow> string) \<Rightarrow> ctx \<Rightarrow> gtime \<times> gtime \<Rightarrow> namespace_record \<Rightarrow> 't \<Rightarrow> go_error option \<times> 't" where
  "sql_upsert_namespace db sha c clk r t =
     (if ns_provider r = [] \<or> ns_repo_id r = [] then (Some (Error ''provider and repo_id are required''), t)
      else
        let r = (if ns_tenant r = [] then r\<lparr>ns_tenant := tenant_from_context c\<rparr> else r);
            r = (if ns_id r = [] then r\<lparr>ns_id := namespace_record_id sha r\<rparr> else r);
            r = (if is_zero (ns_created_at r) then r\<lparr>ns_created_at := fst clk\<rparr> else r);
            r = r\<lparr>ns_updated_at := fst clk\<rparr>
        in case sd_create db (Some (namespace_unique, namespace_updates)) r t of
             (Inl err, t') \<Rightarrow> (Some err, t')
           | (Inr stored, t') \<Rightarrow> (None, t'))"

definition sql_get_namespace ::
  "'t namespace_db \<Rightarrow> ctx \<Rightarrow> string \<Rightarrow> string \<Rightarrow> string \<Rightarrow> 't \<Rightarrow> namespace_record option res" where
  "sql_get_namespace db c provider repo_id key t =
     sd_take db (where_is ([(''provider'', provider), (''repo_id'', repo_id)] @ opt_cond ''provider_instance_key'' key @
       tenant_cond c)) t"

definition sql_list_namespaces ::
  "'t namespace_db \<Rightarrow> ctx \<Rightarrow> namespace_filter \<Rightarrow> 't \<Rightarrow> namespace_record list res" where
  "sql_list_namespaces db c f t =
     sd_find db
       \<lparr>sq_where = opt_cond ''tenant_id'' (resolve_tenant c (nf_tenant f)) @ opt_cond ''provider'' (nf_provider f) @
          opt_cond ''provider_instance_key'' (nf_instance_key f) @ opt_cond ''account_id'' (nf_account_id f) @
          opt_cond ''installation_id'' (nf_installation_id f) @ opt_cond ''repo_id'' (nf_repo_id f) @
          opt_cond ''owner'' (nf_owner f) @ opt_cond ''repo_name'' (nf_repo_name f) @
          opt_cond ''full_name'' (nf_full_name f),
        sq_order = [], sq_limit = (if 0 < nf_limit f then Some (nf_limit f) else None)\<rparr> t"

definition sql_delete_namespace ::
  "'t namespace_db \<Rightarrow> ctx \<Rightarrow> string \<Rightarrow> string \<Rightarrow> string \<Rightarrow> 't \<Rightarrow> go_error option \<times> 't" where
  "sql_delete_namespace db c provider0 repo_id0 key0 t =
     (let provider = trim_space provider0; repo_id = trim_space repo_id0; key = trim_space key0 in
      if provider = [] \<or> repo_id = [] then (Some (Error ''provider and repo_id are required''), t)
      else sd_delete db ([(''provider'', provider), (''repo_id'', repo_id)] @ opt_cond ''provider_instance_key'' key @
             tenant_cond c) t)"

definition sql_update_namespace_key ::
  "'t namespace_db \<Rightarrow> gtime \<Rightarrow> string \<Rightarrow> string \<Rightarrow> string \<Rightarrow> string \<Rightarrow> 't \<Rightarrow> int res \<times> 't" where
  "sql_update_namespace_key db now provider0 old0 new0 tenant0 t =
     (let provider = trim_space provider0; old_key = trim_space old0; new_key = trim_space new0 in
      if provider = [] \<or> old_key = [] \<or> new_key = [] then (Inl (Error ''provider and keys are required''), t)
      else sd_update db [(''provider'', provider), (''provider_instance_key'', old_key), (''tenant_id'', trim_space tenant0)]
             [(''provider_instance_key'', new_key)] now t)"

definition sql_namespaces :: "'t namespace_db \<Rightarrow> (string \<Rightarrow> string) \<Rightarrow> 't namespace_ops" where
  "sql_namespaces db sha =
     \<lparr>no_upsert = sql_upsert_namespace db sha, no_get = sql_get_namespace db, no_list = sql_list_namespaces db,
      no_delete = sql_delete_namespace db\<rparr>"

text \<open>The table \<^verbatim>\<open>githook_namespaces\<close>.\<close>

definition namespace_text :: "string \<Rightarrow> namespace_record \<Rightarrow> string" where
  "namespace_text column r =
     (if column = ''id'' then ns_id r else if column = ''tenant_id'' then ns_tenant r
      else if column = ''provider'' then ns_provider r else if column = ''account_id'' then ns_account_id r
      else if column = ''installation_id'' then ns_installation_id r
      else if column = ''provider_instance_key'' then ns_instance_key r
      else if column = ''repo_id'' then ns_repo_id r else if column = ''owner'' then ns_owner r
      else if column = ''repo_name'' then ns_repo_name r else if column = ''full_name'' then ns_full_name r else [])"

definition namespace_copy :: "string \<Rightarrow> namespace_record \<Rightarrow> namespace_record \<Rightarrow> namespace_record" where
  "namespace_copy column r q =
     (if column = ''account_id'' then q\<lparr>ns_account_id := ns_account_id r\<rparr>
      else if column = ''installation_id'' then q\<lparr>ns_installation_id := ns_installation_id r\<rparr>
      else if column = ''provider_instance_key'' then q\<lparr>ns_instance_key := ns_instance_key r\<rparr>
      else if column = ''owner'' then q\<lparr>ns_owner := ns_owner r\<rparr>
      else if column = ''repo_name'' then q\<lparr>ns_repo_name := ns_repo_name r\<rparr>
      else if column = ''full_name'' then q\<lparr>ns_full_name := ns_full_name r\<rparr>
      else if column = ''visibility'' then q\<lparr>ns_visibility := ns_visibility r\<rparr>
      else if column = ''default_branch'' then q\<lparr>ns_default_branch := ns_default_branch r\<rparr>
      else if column = ''http_url'' then q\<lparr>ns_http_url := ns_http_url r\<rparr>
      else if column = ''ssh_url'' then q\<lparr>ns_ssh_url := ns_ssh_url r\<rparr>
      else if column = ''webhooks_enabled'' then q\<lparr>ns_webhooks_enabled := ns_webhooks_enabled r\<rparr>
      else if column = ''updated_at'' then q\<lparr>ns_updated_at := ns_updated_at r\<rparr> else q)"

definition namespace_schema :: "namespace_record schema" where
  "namespace_schema =
     \<lparr>sh_text = namespace_text, sh_copy = namespace_copy,
      sh_set = (\<lambda>column v r. if column = ''provider_instance_key'' then r\<lparr>ns_instance_key := v\<rparr> else r),
      sh_touch = (\<lambda>now r. r\<lparr>ns_updated_at := now\<rparr>), sh_less = (\<lambda>column a b. False),
      sh_unique = [[''id''], namespace_unique], sh_defaults = (\<lambda>r. r), sh_nonzero = (\<lambda>r. [])\<rparr>"

abbreviation namespace_table :: "(namespace_record, namespace_record list) sql_db" where
  "namespace_table \<equiv> table_db namespace_schema"

section \<open>The contract\<close>

definition namespace_identity :: "namespace_record \<Rightarrow> string \<times> string \<times> string \<times> string" where
  "namespace_identity r = (ns_tenant r, ns_provider r, ns_instance_key r, ns_repo_id r)"

definition namespace_content :: "namespace_record \<Rightarrow> namespace_record" where
  "namespace_content r = r\<lparr>ns_id := [], ns_created_at := 0, ns_updated_at := 0\<rparr>"

definition namespace_in :: "ctx \<Rightarrow> namespace_record \<Rightarrow> namespace_record" where
  "namespace_in c r = (if ns_tenant r = [] then r\<lparr>ns_tenant := tenant_from_context c\<rparr> else r)"

definition plain_namespace :: "namespace_record \<Rightarrow> bool" where
  "plain_namespace r \<longleftrightarrow>
     plain (ns_tenant r) \<and> plain (ns_provider r) \<and> plain (ns_instance_key r) \<and> plain (ns_repo_id r)"

definition names :: "ctx \<Rightarrow> string \<Rightarrow> string \<Rightarrow> string \<Rightarrow> namespace_record \<Rightarrow> bool" where
  "names c provider repo_id key r \<longleftrightarrow>
     ns_provider r = provider \<and> ns_repo_id r = repo_id \<and> field_matches key (ns_instance_key r) \<and> tenant_visible c (ns_tenant r)"

lemma namespace_content_sel:
  "ns_tenant (namespace_content r) = ns_tenant r" "ns_provider (namespace_content r) = ns_provider r"
  "ns_instance_key (namespace_content r) = ns_instance_key r" "ns_repo_id (namespace_content r) = ns_repo_id r"
  by (simp_all add: namespace_content_def)

lemma namespace_content_fields:
  assumes "namespace_content x = namespace_content y"
  shows "ns_tenant x = ns_tenant y" "ns_provider x = ns_provider y" "ns_instance_key x = ns_instance_key y"
    "ns_repo_id x = ns_repo_id y" "namespace_identity x = namespace_identity y"
  unfolding namespace_identity_def by (metis assms namespace_content_sel)+

locale namespace_store =
  fixes ops :: "'s namespace_ops"
    and view :: "'s \<Rightarrow> namespace_record list"
    and inv :: "'s \<Rightarrow> bool"
  assumes get_law: "inv s \<Longrightarrow> no_get ops c p i k s = Inr (Some x) \<Longrightarrow> x \<in> set (view s) \<and> names c p i k x"
    and list_law: "inv s \<Longrightarrow> trim_space (nf_tenant f) = nf_tenant f \<Longrightarrow> nf_limit f \<le> 0 \<Longrightarrow>
        \<exists>rs. no_list ops c f s = Inr rs \<and>
          set rs = {r \<in> set (view s). namespace_matches (if nf_tenant f = [] then tenant_from_context c else nf_tenant f) f r}"
    and upsert_law: "inv s \<Longrightarrow> plain_namespace (namespace_in c r) \<Longrightarrow> no_upsert ops c clk r s = (None, s') \<Longrightarrow>
        inv s' \<and> (\<exists>x \<in> set (view s'). namespace_content x = namespace_content (namespace_in c r)) \<and>
        (\<forall>q. namespace_identity q \<noteq> namespace_identity (namespace_in c r) \<longrightarrow> q \<in> set (view s') \<longleftrightarrow> q \<in> set (view s))"
    and delete_law: "inv s \<Longrightarrow> trim_space p = p \<Longrightarrow> trim_space i = i \<Longrightarrow> trim_space k = k \<Longrightarrow> p \<noteq> [] \<Longrightarrow> i \<noteq> [] \<Longrightarrow>
        \<exists>s'. no_delete ops c p i k s = (None, s') \<and> inv s' \<and> set (view s') = {r \<in> set (view s). \<not> names c p i k r}"
begin

text \<open>Deleting several repositories of one instance, as a webhook does.\<close>

fun delete_all :: "ctx \<Rightarrow> string \<Rightarrow> string \<Rightarrow> string list \<Rightarrow> 's \<Rightarrow> go_error option \<times> 's" where
  "delete_all c p k [] s = (None, s)"
| "delete_all c p k (i # ids) s =
     (case no_delete ops c p i k s of (Some err, s') \<Rightarrow> (Some err, s') | (None, s') \<Rightarrow> delete_all c p k ids s')"

lemma delete_all_law:
  assumes "inv s" "trim_space p = p" "trim_space k = k" "p \<noteq> []" "\<forall>i \<in> set ids. trim_space i = i \<and> i \<noteq> []"
  shows "\<exists>s'. delete_all c p k ids s = (None, s') \<and> inv s' \<and>
     set (view s') = {r \<in> set (view s). \<not> (\<exists>i \<in> set ids. names c p i k r)}"
  using assms(1,5)
proof (induction ids arbitrary: s)
  case (Cons i ids)
  then have i: "trim_space i = i" "i \<noteq> []" and ids: "\<forall>i \<in> set ids. trim_space i = i \<and> i \<noteq> []" by simp_all
  obtain s1 where s1: "no_delete ops c p i k s = (None, s1)" "inv s1" "set (view s1) = {r \<in> set (view s). \<not> names c p i k r}"
    using delete_law [OF Cons.prems(1) assms(2) i(1) assms(3,4) i(2)] by blast
  from Cons.IH [OF s1(2) ids] s1 show ?case by auto
qed simp

end

section \<open>Both stores keep it\<close>

definition namespace_mem_inv :: "namespace_mem \<Rightarrow> bool" where
  "namespace_mem_inv m \<longleftrightarrow> wf_map m \<and>
     (\<forall>(k, r) \<in> set m. plain_namespace r \<and>
        k = namespace_key (ns_tenant r) (ns_provider r) (ns_instance_key r) (ns_repo_id r))"

lemma namespace_mem_inv_iff:
  "namespace_mem_inv m \<longleftrightarrow> wf_map m \<and> (\<forall>k r. mget m k = Some r \<longrightarrow> plain_namespace r \<and>
     k = namespace_key (ns_tenant r) (ns_provider r) (ns_instance_key r) (ns_repo_id r))"
  by (auto simp: namespace_mem_inv_def mget_iff)

lemma namespace_mem_invD:
  assumes "namespace_mem_inv m" "mget m k = Some r"
  shows "plain_namespace r" "k = namespace_key (ns_tenant r) (ns_provider r) (ns_instance_key r) (ns_repo_id r)"
  using assms by (auto simp: namespace_mem_inv_iff)

lemma namespace_key_inj:
  assumes "namespace_key a b d e = namespace_key a' b' d' e'"
    and "plain a" "plain b" "plain d" "plain a'" "plain b'" "plain d'"
  shows "a = a' \<and> b = b' \<and> d = d' \<and> e = e'"
proof -
  note eq = assms(1) [unfolded namespace_key_def, simplified]
  have 1: "a = a' \<and> b @ CHR ''|'' # d @ CHR ''|'' # e = b' @ CHR ''|'' # d' @ CHR ''|'' # e'"
    by (rule append_sep_inj [OF eq]) (use assms in \<open>auto simp: plain_def\<close>)
  then have 2: "b = b' \<and> d @ CHR ''|'' # e = d' @ CHR ''|'' # e'"
    by (intro append_sep_inj [of b]) (use assms in \<open>auto simp: plain_def\<close>)
  then have "d = d' \<and> e = e'"
    by (intro append_sep_inj [of d]) (use assms in \<open>auto simp: plain_def\<close>)
  with 1 2 show ?thesis by blast
qed

lemma plain_key:
  assumes "namespace_key a b d e = namespace_key a' b' d' e'" "plain a'" "plain b'" "plain d'" "plain e'"
  shows "plain a" "plain b" "plain d"
proof -
  have bars: "count_list (namespace_key a b d e) (CHR ''|'') =
      3 + count_list a (CHR ''|'') + count_list b (CHR ''|'') + count_list d (CHR ''|'') + count_list e (CHR ''|'')" for a b d e
    by (simp add: namespace_key_def)
  have "count_list a (CHR ''|'') + count_list b (CHR ''|'') + count_list d (CHR ''|'') + count_list e (CHR ''|'') = 0"
    using arg_cong [OF assms(1), of "\<lambda>s. count_list s (CHR ''|'')"] assms(2-5)
    by (simp add: bars plain_def count_list_0_iff)
  then show "plain a" "plain b" "plain d" by (simp_all add: plain_def count_list_0_iff)
qed

interpretation nmem: namespace_store "mem_namespaces sha" mvals
    "\<lambda>m. namespace_mem_inv m" for sha
proof
  fix s c p i k x
  assume s: "namespace_mem_inv s" "no_get (mem_namespaces sha) c p i k s = Inr (Some x)"
  then have g: "mget s (namespace_key (tenant_from_context c) p k i) = Some x"
    by (simp add: mem_namespaces_def get_namespace_def)
  with s(1) have x: "plain_namespace x"
      "namespace_key (tenant_from_context c) p k i = namespace_key (ns_tenant x) (ns_provider x) (ns_instance_key x) (ns_repo_id x)"
    by (auto simp: namespace_mem_inv_iff)
  have "tenant_from_context c = ns_tenant x \<and> p = ns_provider x \<and> k = ns_instance_key x \<and> i = ns_repo_id x"
    using x(1) plain_key [OF x(2)] by (intro namespace_key_inj [OF x(2)]) (auto simp: plain_namespace_def)
  then show "x \<in> set (mvals s) \<and> names c p i k x"
    using mget_in_vals [OF g] by (auto simp: names_def field_matches_def tenant_visible_def)
next
  fix s c and f :: namespace_filter
  assume "trim_space (nf_tenant f) = nf_tenant f"
  show "\<exists>rs. no_list (mem_namespaces sha) c f s = Inr rs \<and>
          set rs = {r \<in> set (mvals s). namespace_matches (if nf_tenant f = [] then tenant_from_context c else nf_tenant f) f r}"
    by (auto simp: mem_namespaces_def list_namespaces_def)
next
  fix s c r clk s'
  assume s: "namespace_mem_inv s" and r: "plain_namespace (namespace_in c r)"
    and u: "no_upsert (mem_namespaces sha) c clk r s = (None, s')"
  define x where "x = (let r = namespace_in c r; r = (if ns_id r = [] then r\<lparr>ns_id := namespace_record_id sha r\<rparr> else r);
     r = (if is_zero (ns_created_at r) then r\<lparr>ns_created_at := fst clk\<rparr> else r) in r\<lparr>ns_updated_at := snd clk\<rparr>)"
  have cx: "namespace_content x = namespace_content (namespace_in c r)"
    by (simp add: x_def namespace_content_def Let_def)
  note fx = namespace_content_fields [OF cx]
  define k where "k = namespace_key (ns_tenant x) (ns_provider x) (ns_instance_key x) (ns_repo_id x)"
  have s': "s' = mput k x s"
    using u by (simp add: mem_namespaces_def upsert_namespace_def namespace_in_def [symmetric] k_def x_def Let_def)
  have px: "plain_namespace x" using r by (simp add: plain_namespace_def fx)
  have keyed: "k' = k \<longleftrightarrow> namespace_identity q = namespace_identity x" if "mget s k' = Some q" for k' q
    using namespace_mem_invD [OF s that] px namespace_key_inj [of "ns_tenant q" "ns_provider q" "ns_instance_key q" "ns_repo_id q"
        "ns_tenant x" "ns_provider x" "ns_instance_key x" "ns_repo_id x"]
    by (auto simp: k_def namespace_identity_def plain_namespace_def)
  have "set (mvals s') = insert x {q \<in> set (mvals s). namespace_identity q \<noteq> namespace_identity x}"
    unfolding s' using s keyed by (intro set_mvals_mput) (auto simp: namespace_mem_inv_iff)
  moreover have "namespace_mem_inv s'" using s px by (auto simp: namespace_mem_inv_iff s' k_def)
  ultimately show "namespace_mem_inv s' \<and> (\<exists>x \<in> set (mvals s'). namespace_content x = namespace_content (namespace_in c r)) \<and>
        (\<forall>q. namespace_identity q \<noteq> namespace_identity (namespace_in c r) \<longrightarrow> q \<in> set (mvals s') \<longleftrightarrow> q \<in> set (mvals s))"
    using cx fx(5) by auto
next
  fix s c p i k
  assume "namespace_mem_inv s"
  then show "\<exists>s'. no_delete (mem_namespaces sha) c p i k s = (None, s') \<and> namespace_mem_inv s' \<and>
      set (mvals s') = {r \<in> set (mvals s). \<not> names c p i k r}"
    using set_mvals_filter [of "\<lambda>r. \<not> names c p i k r" s]
    by (auto simp: mem_namespaces_def delete_namespace_def namespace_mem_inv_def names_def [symmetric])
qed

lemma same_namespace [simp]:
  "same_columns namespace_schema namespace_unique r q \<longleftrightarrow> namespace_identity r = namespace_identity q"
  by (auto simp: namespace_unique_def namespace_schema_def namespace_text_def namespace_identity_def)

lemma namespace_columns [simp]:
  "row_holds namespace_schema (tenant_cond c) r \<longleftrightarrow> tenant_visible c (ns_tenant r)"
  "sh_defaults namespace_schema r = r"
  "sh_text namespace_schema ''tenant_id'' r = ns_tenant r" "sh_text namespace_schema ''provider'' r = ns_provider r"
  "sh_text namespace_schema ''account_id'' r = ns_account_id r"
  "sh_text namespace_schema ''installation_id'' r = ns_installation_id r"
  "sh_text namespace_schema ''provider_instance_key'' r = ns_instance_key r" "sh_text namespace_schema ''repo_id'' r = ns_repo_id r"
  "sh_text namespace_schema ''owner'' r = ns_owner r" "sh_text namespace_schema ''repo_name'' r = ns_repo_name r"
  "sh_text namespace_schema ''full_name'' r = ns_full_name r"
  by (auto simp: tenant_cond_def namespace_schema_def namespace_text_def tenant_visible_def)

lemma namespace_copied:
  assumes "namespace_identity r = namespace_identity q"
  shows "namespace_content (copy_columns namespace_schema namespace_updates r q) = namespace_content r"
    "namespace_identity (copy_columns namespace_schema namespace_updates r q) = namespace_identity q"
  using assms
  by (cases q; cases r; simp add: namespace_updates_def namespace_schema_def namespace_copy_def namespace_content_def namespace_identity_def)+

definition namespace_rows_ok :: "namespace_record list \<Rightarrow> bool" where
  "namespace_rows_ok t \<longleftrightarrow> distinct (map namespace_identity t)"

interpretation nsql: namespace_store "sql_namespaces namespace_table sha" "\<lambda>t. t" namespace_rows_ok for sha
proof
  fix s c p i k x
  assume "no_get (sql_namespaces namespace_table sha) c p i k s = Inr (Some x)"
  then obtain xs where "filter (row_holds namespace_schema ([(''provider'', p), (''repo_id'', i)] @
      opt_cond ''provider_instance_key'' k @ tenant_cond c)) s = x # xs"
    by (auto simp: sql_namespaces_def sql_get_namespace_def table_db_def split: list.splits)
  then have "x \<in> set (filter (row_holds namespace_schema ([(''provider'', p), (''repo_id'', i)] @
      opt_cond ''provider_instance_key'' k @ tenant_cond c)) s)"
    by (metis list.set_intros(1))
  then show "x \<in> set s \<and> names c p i k x" by (auto simp: names_def field_matches_def)
next
  fix s c and f :: namespace_filter
  assume f: "trim_space (nf_tenant f) = nf_tenant f" "nf_limit f \<le> 0"
  then have "resolve_tenant c (nf_tenant f) = (if nf_tenant f = [] then tenant_from_context c else nf_tenant f)"
    by (simp add: resolve_tenant_def)
  with f(2) show "\<exists>rs. no_list (sql_namespaces namespace_table sha) c f s = Inr rs \<and>
          set rs = {r \<in> set s. namespace_matches (if nf_tenant f = [] then tenant_from_context c else nf_tenant f) f r}"
    by (auto simp: sql_namespaces_def sql_list_namespaces_def table_db_def find_rows_def sorted_rows_def
        namespace_matches_def field_matches_def)
next
  fix s c r clk s'
  assume s: "namespace_rows_ok s" and u: "no_upsert (sql_namespaces namespace_table sha) c clk r s = (None, s')"
  define x where "x = (let r = namespace_in c r; r = (if ns_id r = [] then r\<lparr>ns_id := namespace_record_id sha r\<rparr> else r);
     r = (if is_zero (ns_created_at r) then r\<lparr>ns_created_at := fst clk\<rparr> else r) in r\<lparr>ns_updated_at := fst clk\<rparr>)"
  have cx: "namespace_content x = namespace_content (namespace_in c r)"
    by (simp add: x_def namespace_content_def Let_def)
  have "\<exists>y. create_row namespace_schema (Some (namespace_unique, namespace_updates)) x s = (Inr y, s')"
    using u by (auto simp: sql_namespaces_def sql_upsert_namespace_def namespace_in_def [symmetric] x_def Let_def table_db_def
        split: if_splits sum.splits prod.splits)
  then obtain y where y: "create_row namespace_schema (Some (namespace_unique, namespace_updates)) x s = (Inr y, s')" by blast
  note created = create_row_keyed [OF y, where ident = namespace_identity and content = namespace_content, simplified namespace_columns,
      OF refl same_namespace conjI [OF namespace_copied]]
  show "namespace_rows_ok s' \<and> (\<exists>x \<in> set s'. namespace_content x = namespace_content (namespace_in c r)) \<and>
        (\<forall>q. namespace_identity q \<noteq> namespace_identity (namespace_in c r) \<longrightarrow> q \<in> set s' \<longleftrightarrow> q \<in> set s)"
    using created s unfolding namespace_rows_ok_def namespace_content_fields(5) [OF cx, symmetric] cx [symmetric] by blast
next
  fix s c p i k
  assume "namespace_rows_ok s" "trim_space p = p" "trim_space i = i" "trim_space k = k" "p \<noteq> []" "i \<noteq> []"
  then show "\<exists>s'. no_delete (sql_namespaces namespace_table sha) c p i k s = (None, s') \<and> namespace_rows_ok s' \<and>
      set s' = {r \<in> set s. \<not> names c p i k r}"
    by (auto simp: sql_namespaces_def sql_delete_namespace_def table_db_def namespace_rows_ok_def distinct_map_filter
        names_def field_matches_def)
qed

end
