(* ===== verification/Go_Json.thy ===== *)
theory Go_Json
  imports Go_Prelude "HOL-Library.Monad_Syntax"
begin

text \<open>
  What \<^verbatim>\<open>json.Unmarshal\<close> does when its target is a struct: members are matched to fields without regard
  to case, a later member overwrites an earlier one, null leaves a field as it is, and a value of the
  wrong kind makes the call return an error. The parser of JSON text is a parameter of its users; a number
  is its literal.

  The source gives up on any error, so a struct is read field by field: \<open>jreach\<close> gives the values that reach
  a field, in order, and \<open>None\<close> stands for the error.
\<close>

datatype jval =
    JNull
  | JBool bool
  | JNum string
  | JStr string
  | JArr "jval list"
  | JObj "(string \<times> jval) list"

type_synonym json_parser = "string \<Rightarrow> jval res"

primrec jreach :: "string list \<Rightarrow> jval \<Rightarrow> jval list option" where
  "jreach [] v = Some [v]"
| "jreach (k # p) v =
     (case v of
        JNull \<Rightarrow> Some []
      | JObj ms \<Rightarrow> map_option concat (those (map (\<lambda>(key, w). jreach p w) (filter (\<lambda>(key, w). equal_fold key k) ms)))
      | _ \<Rightarrow> None)"

fun jfold :: "(jval \<Rightarrow> 'a option) \<Rightarrow> 'a \<Rightarrow> jval list \<Rightarrow> 'a option" where
  "jfold f z [] = Some z"
| "jfold f z (JNull # vs) = jfold f z vs"
| "jfold f z (v # vs) = (case f v of None \<Rightarrow> None | Some x \<Rightarrow> jfold f x vs)"

fun as_int :: "jval \<Rightarrow> int option" where
  "as_int (JNum s) = atoi s"
| "as_int _ = None"

fun as_str :: "jval \<Rightarrow> string option" where
  "as_str (JStr s) = Some s"
| "as_str _ = None"

fun as_bool :: "jval \<Rightarrow> bool option" where
  "as_bool (JBool b) = Some b"
| "as_bool _ = None"

text \<open>Fields of type \<^verbatim>\<open>int64\<close>, \<^verbatim>\<open>string\<close> and \<^verbatim>\<open>bool\<close> at the end of a path of members.\<close>

definition jint :: "string list \<Rightarrow> jval \<Rightarrow> int option" where
  "jint p v = Option.bind (jreach p v) (jfold as_int 0)"

definition jstr :: "string list \<Rightarrow> jval \<Rightarrow> string option" where
  "jstr p v = Option.bind (jreach p v) (jfold as_str [])"

definition jbool :: "string list \<Rightarrow> jval \<Rightarrow> bool option" where
  "jbool p v = Option.bind (jreach p v) (jfold as_bool False)"

text \<open>A field that is a slice: null makes it nil, an array replaces it.\<close>

fun as_slice :: "jval list \<Rightarrow> jval list \<Rightarrow> jval list option" where
  "as_slice z [] = Some z"
| "as_slice z (JNull # vs) = as_slice [] vs"
| "as_slice z (JArr xs # vs) = as_slice xs vs"
| "as_slice z (v # vs) = None"

definition jslice :: "string list \<Rightarrow> (jval \<Rightarrow> 'a option) \<Rightarrow> jval \<Rightarrow> 'a list option" where
  "jslice p f v = do { vs \<leftarrow> jreach p v; xs \<leftarrow> as_slice [] vs; those (map f xs) }"

definition unmarshal :: "json_parser \<Rightarrow> (jval \<Rightarrow> 'a option) \<Rightarrow> string \<Rightarrow> 'a option" where
  "unmarshal parse f raw = (case parse raw of Inl err \<Rightarrow> None | Inr v \<Rightarrow> f v)"

end
