(* ===== verification/Webhook_Requests.thy ===== *)
theory Webhook_Requests
  imports Webhook_Pipeline Namespace_Stores Go_Json
begin

text \<open>
  What the five webhook handlers share: a request and its preparation (\<^verbatim>\<open>payload_helpers.go\<close>), the response,
  the signatures of GitHub, Slack and Jira (\<^verbatim>\<open>github_verify.go\<close>, \<^verbatim>\<open>slack.go\<close>, \<^verbatim>\<open>jira.go\<close>), the names and
  namespaces of events, the choice of an installation, and the registry of providers (\<^verbatim>\<open>registry.go\<close>,
  \<^verbatim>\<open>providers.go\<close>).

  Header names are canonical, as \<^verbatim>\<open>http.Header\<close> stores them. HMAC, the JSON parser and the host part of a
  URL are parameters.
\<close>

section \<open>Requests and responses\<close>

text \<open>
  \<open>rq_body\<close> is what reading the body gives; \<open>rq_at\<close> the time of arrival; \<open>rq_new_id\<close>, \<open>rq_uuid\<close> the
  identifiers made while serving it; \<open>rq_clock\<close> the clock readings of its calls to the stores.
\<close>

record request =
  rq_ctx :: ctx
  rq_headers :: "string list gmap"
  rq_body :: "string res"
  rq_at :: gtime
  rq_new_id :: string
  rq_uuid :: "nat \<Rightarrow> string"
  rq_clock :: "nat \<Rightarrow> gtime \<times> gtime"

record response =
  rs_status :: nat
  rs_headers :: "string gmap"
  rs_text :: string

definition header_get :: "string list gmap \<Rightarrow> string \<Rightarrow> string" where
  "header_get headers key = (case mget headers key of Some (v # _) \<Rightarrow> v | _ \<Rightarrow> [])"

definition request_id :: "request \<Rightarrow> string" where
  "request_id r =
     (if header_get (rq_headers r) ''X-Request-Id'' \<noteq> [] then header_get (rq_headers r) ''X-Request-Id''
      else if header_get (rq_headers r) ''X-Correlation-Id'' \<noteq> [] then header_get (rq_headers r) ''X-Correlation-Id''
      else rq_new_id r)"

text \<open>The body, unless it cannot be read or is longer than allowed.\<close>

definition prepare_webhook_request :: "int \<Rightarrow> request \<Rightarrow> string option" where
  "prepare_webhook_request max_body r =
     (case rq_body r of
        Inl err \<Rightarrow> None
      | Inr body \<Rightarrow> if 0 < max_body \<and> max_body < int (length body) then None else Some body)"

definition respond :: "request \<Rightarrow> nat \<Rightarrow> response" where
  "respond r status = \<lparr>rs_status = status, rs_headers = [(''X-Request-Id'', request_id r)], rs_text = []\<rparr>"

section \<open>Signatures\<close>

text \<open>\<^verbatim>\<open>hex(hmac(hash, secret, body))\<close>.\<close>

record hmac_lib =
  hm_sha256 :: "string \<Rightarrow> string \<Rightarrow> string"
  hm_sha1 :: "string \<Rightarrow> string \<Rightarrow> string"

definition verify_github_signature :: "hmac_lib \<Rightarrow> string \<Rightarrow> string \<Rightarrow> string \<Rightarrow> bool" where
  "verify_github_signature hm secret body signature =
     (if secret = [] \<or> body = [] \<or> signature = [] then False
      else
        let value = trim_space signature in
        if starts_with ''sha256='' value then trim_prefix value ''sha256='' = hm_sha256 hm secret body
        else if starts_with ''sha1='' value then trim_prefix value ''sha1='' = hm_sha1 hm secret body
        else False)"

definition slack_max_age :: int where "slack_max_age = 5 * 60 * 1000000000"

text \<open>The time with the given number of seconds since 1970.\<close>

definition time_unix :: "int \<Rightarrow> gtime" where "time_unix s = unix_epoch + s * 1000000000"

definition slack_signature :: "hmac_lib \<Rightarrow> string \<Rightarrow> string \<Rightarrow> string \<Rightarrow> string" where
  "slack_signature hm secret timestamp body = ''v0='' @ hm_sha256 hm secret (''v0:'' @ timestamp @ '':'' @ body)"

definition verify_slack_signature :: "hmac_lib \<Rightarrow> string \<Rightarrow> gtime \<Rightarrow> string list gmap \<Rightarrow> string \<Rightarrow> go_error option" where
  "verify_slack_signature hm secret now headers body =
     (if secret = [] then None
      else
        let timestamp = trim_space (header_get headers ''X-Slack-Request-Timestamp'');
            signature = trim_space (header_get headers ''X-Slack-Signature'')
        in if timestamp = [] then Some (Error ''missing X-Slack-Request-Timestamp'')
           else if signature = [] then Some (Error ''missing X-Slack-Signature'')
           else case atoi timestamp of
                  None \<Rightarrow> Some (Error ''invalid X-Slack-Request-Timestamp'')
                | Some ts \<Rightarrow>
                    (let age = time_sub now (time_unix ts) in
                     if slack_max_age < age \<or> age < - slack_max_age then Some (Error ''stale slack request timestamp'')
                     else if slack_signature hm secret timestamp body \<noteq> signature then Some (Error ''signature mismatch'')
                     else None))"

definition verify_jira_signature :: "hmac_lib \<Rightarrow> string \<Rightarrow> string list gmap \<Rightarrow> string \<Rightarrow> go_error option" where
  "verify_jira_signature hm secret headers body =
     (if secret = [] then None
      else
        let raw_sig = trim_space (header_get headers ''X-Hub-Signature'');
            raw_sig = (if raw_sig = [] then trim_space (header_get headers ''X-Hub-Signature-256'') else raw_sig)
        in if raw_sig = [] then Some (Error ''missing webhook signature header'')
           else if hm_sha256 hm secret body \<noteq> trim_space (trim_prefix raw_sig ''sha256='') then Some (Error ''signature mismatch'')
           else None)"

section \<open>Names and namespaces\<close>

definition slack_event_name :: "string list gmap \<Rightarrow> gval gmap \<Rightarrow> string" where
  "slack_event_name headers data =
     (let value = trim_space (header_get headers ''X-Slack-Event-Type'');
          typ = data_string (Some data) [''type''];
          inner = data_string (Some data) [''event.type'']
      in if value \<noteq> [] then value
         else if equal_fold typ ''event_callback'' \<and> inner \<noteq> [] then ''event_callback.'' @ inner
         else if typ \<noteq> [] then typ else ''event'')"

definition jira_event_name :: "string list gmap \<Rightarrow> gval gmap \<Rightarrow> string" where
  "jira_event_name headers data =
     (let value = trim_space (header_get headers ''X-Atlassian-Webhook-Event'');
          name = data_string (Some data) [''webhookEvent'', ''eventType'', ''event_type'']
      in if value \<noteq> [] then value else if name = [] then ''event'' else name)"

definition slack_namespace_info :: "gval gmap \<Rightarrow> string \<times> string" where
  "slack_namespace_info data =
     (let cid = data_string (Some data) [''event.channel'', ''channel_id'', ''channel.id''];
          name = data_string (Some data) [''event.channel_name'', ''channel_name'', ''channel.name'']
      in (cid, if name = [] then cid else name))"

definition jira_namespace_info :: "gval gmap \<Rightarrow> string \<times> string" where
  "jira_namespace_info data =
     (let space_id = data_string (Some data) [''space.id''];
          space_key = data_string (Some data) [''space.key'', ''space.name''];
          project_id = data_string (Some data) [''issue.fields.project.id'', ''project.id''];
          project_key = data_string (Some data) [''issue.fields.project.key'', ''project.key'']
      in if space_id \<noteq> [] \<or> space_key \<noteq> [] then (space_id, if space_key = [] then space_id else space_key)
         else (project_id, if project_key = [] then project_id else project_key))"

definition github_namespace_info :: "json_parser \<Rightarrow> string \<Rightarrow> string \<times> string" where
  "github_namespace_info parse raw =
     (case unmarshal parse (\<lambda>v. do {
          rid \<leftarrow> jint [''repository'', ''id''] v;
          full_name \<leftarrow> jstr [''repository'', ''full_name''] v;
          name \<leftarrow> jstr [''repository'', ''name''] v;
          login \<leftarrow> jstr [''repository'', ''owner'', ''login''] v;
          Some (rid, full_name, name, login) }) raw of
        None \<Rightarrow> ([], [])
      | Some (rid, full_name, name, login) \<Rightarrow>
          (if 0 < rid then itoa rid else [],
           if trim_space full_name = [] \<and> login \<noteq> [] \<and> name \<noteq> [] then login @ ''/'' @ name else trim_space full_name))"

definition gitlab_namespace_info :: "json_parser \<Rightarrow> string \<Rightarrow> string \<times> string" where
  "gitlab_namespace_info parse raw =
     (case unmarshal parse (\<lambda>v. do {
          rid \<leftarrow> jint [''project'', ''id''] v;
          full_path \<leftarrow> jstr [''project'', ''path_with_namespace''] v;
          path \<leftarrow> jstr [''project'', ''path''] v;
          namespace \<leftarrow> jstr [''project'', ''namespace''] v;
          project_id \<leftarrow> jint [''project_id''] v;
          Some (rid, full_path, path, namespace, project_id) }) raw of
        None \<Rightarrow> ([], [])
      | Some (rid, full_path, path, namespace, project_id) \<Rightarrow>
          (let repo_id = (if rid = 0 then project_id else rid) in
           (if 0 < repo_id then itoa repo_id else [],
            if trim_space full_path = [] \<and> namespace \<noteq> [] \<and> path \<noteq> [] then namespace @ ''/'' @ path
            else trim_space full_path)))"

definition bitbucket_namespace_info :: "json_parser \<Rightarrow> string \<Rightarrow> string \<times> string" where
  "bitbucket_namespace_info parse raw =
     (case unmarshal parse (\<lambda>v. do {
          uuid \<leftarrow> jstr [''repository'', ''uuid''] v;
          full_name \<leftarrow> jstr [''repository'', ''full_name''] v;
          name \<leftarrow> jstr [''repository'', ''name''] v;
          username \<leftarrow> jstr [''repository'', ''owner'', ''username''] v;
          nickname \<leftarrow> jstr [''repository'', ''owner'', ''nickname''] v;
          slug \<leftarrow> jstr [''repository'', ''workspace'', ''slug''] v;
          Some (uuid, full_name, name, username, nickname, slug) }) raw of
        None \<Rightarrow> ([], [])
      | Some (uuid, full_name, name, username, nickname, slug) \<Rightarrow>
          (trim_space uuid,
           if trim_space full_name \<noteq> [] then trim_space full_name
           else if slug \<noteq> [] \<and> name \<noteq> [] then slug @ ''/'' @ name
           else if username \<noteq> [] \<and> name \<noteq> [] then username @ ''/'' @ name
           else if nickname \<noteq> [] \<and> name \<noteq> [] then nickname @ ''/'' @ name
           else []))"

section \<open>The installation of an event\<close>

text \<open>What a handler knows of the sender: tenant, state (account), installation, instance key.\<close>

type_synonym sender = "string \<times> string \<times> string \<times> string"

definition slack_installation_app_id :: "(string \<Rightarrow> gval res) \<Rightarrow> install_record \<Rightarrow> string" where
  "slack_installation_app_id decode r =
     (if trim_space (in_metadata_json r) = [] then []
      else case decode (in_metadata_json r) of
             Inr (VMap m) \<Rightarrow>
               (case mget m ''app_id'' of
                  None \<Rightarrow> []
                | Some VNil \<Rightarrow> []
                | Some v \<Rightarrow> trim_space (sprint_v v))
           | _ \<Rightarrow> [])"

text \<open>The records with the property, unless there is none.\<close>

definition preferring :: "('a \<Rightarrow> bool) \<Rightarrow> 'a list \<Rightarrow> 'a list" where
  "preferring P xs = (if filter P xs \<noteq> [] then filter P xs else xs)"

fun latest_of :: "install_record \<Rightarrow> install_record list \<Rightarrow> install_record" where
  "latest_of l [] = l"
| "latest_of l (r # rs) = latest_of (if in_updated_at l < in_updated_at r then r else l) rs"

definition prefer_tenant :: "string \<Rightarrow> install_record list \<Rightarrow> install_record list" where
  "prefer_tenant t rs =
     (if t \<noteq> [] then preferring (\<lambda>r. trim_space (in_tenant r) = t) rs
      else preferring (\<lambda>r. trim_space (in_tenant r) \<noteq> []) rs)"

text \<open>The two choices are made of a list that is not empty; indexing an empty one would panic.\<close>

definition pick_best_slack_installation ::
  "(string \<Rightarrow> gval res) \<Rightarrow> install_record list \<Rightarrow> string \<Rightarrow> string \<Rightarrow> install_record outcome" where
  "pick_best_slack_installation decode records tenant app0 =
     (let app = trim_space app0;
          cands = (if app \<noteq> [] then preferring (\<lambda>r. slack_installation_app_id decode r = app) records else records)
      in case prefer_tenant (trim_space tenant) cands of
           [] \<Rightarrow> Panics ''index out of range''
         | r # rs \<Rightarrow> Return (latest_of r rs))"

definition pick_best_jira_installation :: "install_record list \<Rightarrow> string \<Rightarrow> install_record outcome" where
  "pick_best_jira_installation records tenant =
     (case prefer_tenant (trim_space tenant) records of
        [] \<Rightarrow> Panics ''index out of range''
      | r # rs \<Rightarrow> Return (latest_of r rs))"

text \<open>The installations of an account: those the context sees, otherwise all.\<close>

definition account_installations :: "'s install_ops \<Rightarrow> ctx \<Rightarrow> string \<Rightarrow> string \<Rightarrow> 's \<Rightarrow> install_record list" where
  "account_installations ops c provider account s =
     (case io_list ops c provider account s of
        Inr (r # rs) \<Rightarrow> r # rs
      | _ \<Rightarrow> (case io_list ops background provider account s of Inr rs \<Rightarrow> rs | Inl err \<Rightarrow> []))"

definition slack_resolve_state_id ::
  "(string \<Rightarrow> gval res) \<Rightarrow> ctx \<Rightarrow> gval gmap \<Rightarrow> 's install_ops option \<Rightarrow> 's \<Rightarrow> sender outcome" where
  "slack_resolve_state_id decode c data store s =
     (let team = data_string (Some data) [''team_id'', ''team.id'', ''authorizations.0.team_id''] in
      if team = [] then Return ([], team, [], [])
      else case store of
             None \<Rightarrow> Return ([], team, [], [])
           | Some ops \<Rightarrow>
               (let rs = account_installations ops c ''slack'' team s in
                if rs = [] then Return ([], team, [], [])
                else map_outcome (\<lambda>r. (in_tenant r, team, in_installation_id r, in_instance_key r))
                       (pick_best_slack_installation decode rs (tenant_from_context c)
                          (data_string (Some data) [''api_app_id'']))))"

text \<open>\<open>url_host\<close> is \<^verbatim>\<open>url.Parse\<close> and the host of its result.\<close>

definition host_from_url :: "(string \<Rightarrow> string option) \<Rightarrow> string \<Rightarrow> string" where
  "host_from_url url_host raw0 =
     (let raw = trim_space raw0 in
      if raw = [] then [] else case url_host raw of None \<Rightarrow> [] | Some host \<Rightarrow> trim_space host)"

definition jira_account_id :: "(string \<Rightarrow> string option) \<Rightarrow> gval gmap \<Rightarrow> string" where
  "jira_account_id url_host data =
     (case filter (\<lambda>s. s \<noteq> []) (map trim_space
             [data_string (Some data) [''cloudId'', ''cloud_id''],
              host_from_url url_host (data_string (Some data) [''issue.self'', ''project.self'', ''user.self'']),
              host_from_url url_host (data_string (Some data) [''serverUrl'', ''baseUrl'', ''base_url''])]) of
        [] \<Rightarrow> []
      | s # _ \<Rightarrow> s)"

definition jira_resolve_state_id ::
  "(string \<Rightarrow> string option) \<Rightarrow> ctx \<Rightarrow> gval gmap \<Rightarrow> 's install_ops option \<Rightarrow> 's \<Rightarrow> sender outcome" where
  "jira_resolve_state_id url_host c data store s =
     (let account = jira_account_id url_host data in
      if account = [] then Return ([], account, [], [])
      else case store of
             None \<Rightarrow> Return ([], account, [], [])
           | Some ops \<Rightarrow>
               (let rs = account_installations ops c ''atlassian'' account s in
                if rs = [] then Return ([], account, [], [])
                else map_outcome (\<lambda>r. (in_tenant r, account, in_installation_id r, in_instance_key r))
                       (pick_best_jira_installation rs (tenant_from_context c))))"

text \<open>GitLab and Bitbucket find the installation through the namespace of the repository.\<close>

definition namespace_sender :: "'n namespace_ops \<Rightarrow> ctx \<Rightarrow> string \<Rightarrow> string \<Rightarrow> 'n \<Rightarrow> sender" where
  "namespace_sender ops c provider repo_id n =
     (case no_get ops c provider repo_id [] n of
        Inr (Some r) \<Rightarrow> (ns_tenant r, ns_account_id r, ns_installation_id r, ns_instance_key r)
      | _ \<Rightarrow> ([], [], [], []))"

definition gitlab_resolve_state_id :: "json_parser \<Rightarrow> ctx \<Rightarrow> string \<Rightarrow> 'n namespace_ops option \<Rightarrow> 'n \<Rightarrow> sender" where
  "gitlab_resolve_state_id parse c raw store n =
     (case (store, unmarshal parse (\<lambda>v. do {
              rid \<leftarrow> jint [''project'', ''id''] v; project_id \<leftarrow> jint [''project_id''] v; Some (rid, project_id) }) raw) of
        (Some ops, Some (rid, project_id)) \<Rightarrow>
          (let repo_id = (if rid = 0 then project_id else rid) in
           if repo_id = 0 then ([], [], [], []) else namespace_sender ops c ''gitlab'' (itoa repo_id) n)
      | _ \<Rightarrow> ([], [], [], []))"

definition bitbucket_resolve_state_id :: "json_parser \<Rightarrow> ctx \<Rightarrow> string \<Rightarrow> 'n namespace_ops option \<Rightarrow> 'n \<Rightarrow> sender" where
  "bitbucket_resolve_state_id parse c raw store n =
     (case (store, unmarshal parse (jstr [''repository'', ''uuid'']) raw) of
        (Some ops, Some uuid) \<Rightarrow>
          (let repo_id = trim_space uuid in
           if repo_id = [] then ([], [], [], []) else namespace_sender ops c ''bitbucket'' repo_id n)
      | _ \<Rightarrow> ([], [], [], []))"

definition installation_id_from_payload :: "json_parser \<Rightarrow> string \<Rightarrow> int option" where
  "installation_id_from_payload parse raw =
     (case unmarshal parse (jint [''installation'', ''id'']) raw of
        None \<Rightarrow> None
      | Some i \<Rightarrow> if i = 0 then None else Some i)"

definition github_resolve_state_id :: "json_parser \<Rightarrow> ctx \<Rightarrow> string \<Rightarrow> 's install_ops option \<Rightarrow> 's \<Rightarrow> sender" where
  "github_resolve_state_id parse c raw store s =
     (case installation_id_from_payload parse raw of
        None \<Rightarrow> ([], [], [], [])
      | Some i \<Rightarrow>
          (case store of
             None \<Rightarrow> ([], [], itoa i, [])
           | Some ops \<Rightarrow>
               (case io_by_id ops c ''github'' (itoa i) s of
                  Inr (Some r) \<Rightarrow> (in_tenant r, in_account_id r, itoa i, in_instance_key r)
                | _ \<Rightarrow> ([], [], itoa i, []))))"

end
