(* ===== verification/Github_Install.thy ===== *)
theory Github_Install
  imports Webhook_Requests
begin

text \<open>
  What a webhook about an installation of the GitHub app does to the stores: \<^verbatim>\<open>applyInstallSystemRules\<close> and
  its helpers in \<^verbatim>\<open>pkg/webhook/github_install.go\<close>.

  The client of the GitHub API is a parameter: \<open>ga_client\<close> makes one for an installation (\<^verbatim>\<open>NewAppClient\<close>),
  \<open>ga_repo\<close> is \<^verbatim>\<open>Repositories.GetByID\<close>. The text of a JSON error is not modelled; the error is only logged.
\<close>

section \<open>Repositories\<close>

record github_repo =
  gr_id :: string
  gr_owner :: string
  gr_name :: string
  gr_full_name :: string
  gr_visibility :: string
  gr_default_branch :: string
  gr_html_url :: string
  gr_ssh_url :: string

text \<open>A repository as the API gives it; the owner may be missing.\<close>

record full_repo =
  fr_owner :: "string option"
  fr_name :: string
  fr_full_name :: string
  fr_private :: bool
  fr_default_branch :: string
  fr_html_url :: string
  fr_ssh_url :: string

record 'g github_api =
  ga_client :: "int \<Rightarrow> 'g res"
  ga_repo :: "'g \<Rightarrow> int \<Rightarrow> full_repo option res"

definition json_error :: go_error where "json_error = Error ''invalid json''"

definition repo_payload :: "jval \<Rightarrow> github_repo option" where
  "repo_payload v = do {
     rid \<leftarrow> jint [''id''] v;
     name \<leftarrow> jstr [''name''] v;
     full_name \<leftarrow> jstr [''full_name''] v;
     private \<leftarrow> jbool [''private''] v;
     branch \<leftarrow> jstr [''default_branch''] v;
     html_url \<leftarrow> jstr [''html_url''] v;
     ssh_url \<leftarrow> jstr [''ssh_url''] v;
     login \<leftarrow> jstr [''owner'', ''login''] v;
     Some \<lparr>gr_id = itoa rid, gr_owner = login, gr_name = name, gr_full_name = full_name,
       gr_visibility = (if private then ''private'' else ''public''), gr_default_branch = branch,
       gr_html_url = html_url, gr_ssh_url = ssh_url\<rparr> }"

definition repositories_event :: "string \<Rightarrow> bool" where
  "repositories_event event_name \<longleftrightarrow>
     event_name = ''installation_repositories'' \<or> event_name = ''integration_installation_repositories''"

definition extract_github_repos :: "json_parser \<Rightarrow> string \<Rightarrow> string \<Rightarrow> github_repo list" where
  "extract_github_repos parse raw event_name =
     (case unmarshal parse (\<lambda>v. do {
          repos \<leftarrow> jslice [''repositories''] repo_payload v;
          added \<leftarrow> jslice [''repositories_added''] repo_payload v;
          removed \<leftarrow> jslice [''repositories_removed''] repo_payload v;
          Some (repos, added) }) raw of
        None \<Rightarrow> []
      | Some (repos, added) \<Rightarrow> if repositories_event event_name then added else repos)"

definition extract_github_removed_repo_ids :: "json_parser \<Rightarrow> string \<Rightarrow> string \<Rightarrow> string list" where
  "extract_github_removed_repo_ids parse raw event_name =
     (if \<not> repositories_event event_name then []
      else case unmarshal parse (jslice [''repositories_removed''] (jint [''id''])) raw of
             None \<Rightarrow> []
           | Some ids \<Rightarrow> map itoa (filter (\<lambda>i. i \<noteq> 0) ids))"

definition merge_github_repo :: "github_repo \<Rightarrow> full_repo \<Rightarrow> github_repo" where
  "merge_github_repo b f =
     b\<lparr>gr_owner := (if gr_owner b = [] then (case fr_owner f of Some login \<Rightarrow> login | None \<Rightarrow> []) else gr_owner b),
       gr_name := (if gr_name b = [] then fr_name f else gr_name b),
       gr_full_name := (if gr_full_name b = [] then fr_full_name f else gr_full_name b),
       gr_visibility := (if gr_visibility b = [] then (if fr_private f then ''private'' else ''public'') else gr_visibility b),
       gr_default_branch := (if gr_default_branch b = [] then fr_default_branch f else gr_default_branch b),
       gr_html_url := (if gr_html_url b = [] then fr_html_url f else gr_html_url b),
       gr_ssh_url := (if gr_ssh_url b = [] then fr_ssh_url f else gr_ssh_url b)\<rparr>"

definition ensure_github_repo_owner :: "github_repo \<Rightarrow> github_repo" where
  "ensure_github_repo_owner repo =
     (if gr_owner repo \<noteq> [] \<or> gr_full_name repo = [] then repo
      else case split2 (gr_full_name repo) (CHR ''/'') of
             [owner, name] \<Rightarrow> if owner \<noteq> [] then repo\<lparr>gr_owner := owner\<rparr> else repo
           | _ \<Rightarrow> repo)"

definition apply_github_repo_defaults :: "github_repo \<Rightarrow> string \<Rightarrow> github_repo" where
  "apply_github_repo_defaults repo web_url =
     (let base = trim_right_byte web_url (CHR ''/'');
          base = (if base = [] then ''https://github.com'' else base);
          repo = (if gr_html_url repo = [] \<and> gr_full_name repo \<noteq> []
                  then repo\<lparr>gr_html_url := base @ ''/'' @ gr_full_name repo\<rparr> else repo);
          host = trim_suffix (trim_prefix (trim_prefix base ''https://'') ''http://'') ''/'';
          host = (if host = [] then ''github.com'' else host)
      in if gr_ssh_url repo = [] \<and> gr_full_name repo \<noteq> []
         then repo\<lparr>gr_ssh_url := ''git@'' @ host @ '':'' @ gr_full_name repo @ ''.git''\<rparr> else repo)"

definition needs_github_repo_enrichment :: "github_repo \<Rightarrow> bool" where
  "needs_github_repo_enrichment repo \<longleftrightarrow>
     gr_owner repo = [] \<or> gr_default_branch repo = [] \<or> gr_html_url repo = [] \<or> gr_ssh_url repo = []"

definition github_web_base_url :: "provider_config \<Rightarrow> string" where
  "github_web_base_url cfg =
     (let base = trim_right_byte (web_base_url (pc_api cfg)) (CHR ''/''); api = trim_space (base_url (pc_api cfg)) in
      if base \<noteq> [] then base
      else if api = [] \<or> api = ''https://api.github.com'' then ''https://github.com''
      else
        let trimmed = trim_right_byte (trim_suffix (trim_suffix api ''/api/v3'') ''/api'') (CHR ''/'') in
        if trimmed = [] then ''https://github.com'' else trimmed)"

definition new_github_installation_client :: "'g github_api \<Rightarrow> provider_config \<Rightarrow> string \<Rightarrow> 'g res" where
  "new_github_installation_client api cfg installation_id =
     (if app_id (pc_app cfg) = 0 \<or>
         (trim_space (private_key_path (pc_app cfg)) = [] \<and> trim_space (private_key_pem (pc_app cfg)) = [])
      then Inl (Error ''github app config missing'')
      else case atoi installation_id of
             None \<Rightarrow> Inl (Error ''invalid syntax'')
           | Some i \<Rightarrow> ga_client api i)"

definition enrich_repo :: "'g github_api \<Rightarrow> 'g \<Rightarrow> github_repo \<Rightarrow> github_repo res" where
  "enrich_repo api client repo =
     (case atoi (gr_id repo) of
        None \<Rightarrow> Inl (Error ''invalid syntax'')
      | Some i \<Rightarrow>
          (case ga_repo api client i of
             Inl err \<Rightarrow> Inl err
           | Inr None \<Rightarrow> Inr repo
           | Inr (Some full) \<Rightarrow> Inr (merge_github_repo repo full)))"

section \<open>The record of an installation\<close>

definition record_account_id :: "install_record option \<Rightarrow> int \<Rightarrow> string" where
  "record_account_id record0 provider_id =
     (case record0 of
        Some r \<Rightarrow> if in_account_id r \<noteq> [] then in_account_id r else if provider_id = 0 then [] else itoa provider_id
      | None \<Rightarrow> if provider_id = 0 then [] else itoa provider_id)"

definition record_account_name :: "install_record option \<Rightarrow> string \<Rightarrow> string" where
  "record_account_name record0 provider_name =
     (case record0 of Some r \<Rightarrow> if in_account_name r \<noteq> [] then in_account_name r else provider_name | None \<Rightarrow> provider_name)"

definition record_enterprise :: "install_record \<Rightarrow> string \<times> string \<times> string" where
  "record_enterprise r = (trim_space (in_enterprise_id r), trim_space (in_enterprise_slug r), trim_space (in_enterprise_name r))"

definition extract_github_enterprise :: "json_parser \<Rightarrow> string \<Rightarrow> (string \<times> string \<times> string) option" where
  "extract_github_enterprise parse raw =
     (case unmarshal parse (\<lambda>v. do {
          i \<leftarrow> jint [''enterprise'', ''id''] v;
          slug \<leftarrow> jstr [''enterprise'', ''slug''] v;
          name \<leftarrow> jstr [''enterprise'', ''name''] v;
          Some (i, slug, name) }) raw of
        None \<Rightarrow> None
      | Some (i, slug, name) \<Rightarrow>
          if i = 0 \<and> trim_space slug = [] \<and> trim_space name = [] then None
          else Some (itoa i, trim_space slug, trim_space name))"

text \<open>What the webhook says of the installation: action, identifier, identifier and login of the account.\<close>

definition install_payload :: "jval \<Rightarrow> (string \<times> int \<times> int \<times> string) option" where
  "install_payload v = do {
     action \<leftarrow> jstr [''action''] v;
     i \<leftarrow> jint [''installation'', ''id''] v;
     account \<leftarrow> jint [''installation'', ''account'', ''id''] v;
     login \<leftarrow> jstr [''installation'', ''account'', ''login''] v;
     Some (action, i, account, login) }"

definition install_event :: "string \<Rightarrow> bool" where
  "install_event event_name \<longleftrightarrow>
     event_name \<in> {''installation'', ''installation_repositories'', ''integration_installation'', ''integration_installation_repositories''}"

definition updated_install :: "json_parser \<Rightarrow> string \<Rightarrow> string \<Rightarrow> int \<Rightarrow> string \<Rightarrow> install_record \<Rightarrow> install_record" where
  "updated_install parse raw installation_id account login r =
     (let (eid, slug, ename) = (case extract_github_enterprise parse raw of Some e \<Rightarrow> e | None \<Rightarrow> record_enterprise r) in
      \<lparr>in_id = [], in_tenant = in_tenant r, in_provider = ''github'', in_account_id = record_account_id (Some r) account,
       in_account_name = record_account_name (Some r) login, in_installation_id = installation_id,
       in_instance_key = in_instance_key r, in_enterprise_id = eid, in_enterprise_slug = slug, in_enterprise_name = ename,
       in_access_token = in_access_token r, in_refresh_token = in_refresh_token r, in_expires_at = in_expires_at r,
       in_metadata_json = in_metadata_json r, in_created_at = 0, in_updated_at = 0\<rparr>)"

definition installed_namespace :: "install_record \<Rightarrow> int \<Rightarrow> string \<Rightarrow> github_repo \<Rightarrow> namespace_record" where
  "installed_namespace r account installation_id repo =
     \<lparr>ns_id = [], ns_tenant = in_tenant r, ns_provider = ''github'', ns_account_id = record_account_id (Some r) account,
      ns_installation_id = installation_id, ns_instance_key = in_instance_key r, ns_repo_id = gr_id repo,
      ns_owner = gr_owner repo, ns_repo_name = gr_name repo, ns_full_name = gr_full_name repo,
      ns_visibility = gr_visibility repo, ns_default_branch = gr_default_branch repo, ns_http_url = gr_html_url repo,
      ns_ssh_url = gr_ssh_url repo, ns_webhooks_enabled = True, ns_created_at = 0, ns_updated_at = 0\<rparr>"

section \<open>The stores\<close>

text \<open>
  \<open>None\<close> for a store the handler has not got. The state is that of both stores; the \<open>n\<close>-th call to them that
  reads the clock gets \<open>clock n\<close>.
\<close>

record ('s, 'n, 'g) install_sync =
  ix_parse :: json_parser
  ix_installs :: "'s install_ops option"
  ix_namespaces :: "'n namespace_ops option"
  ix_api :: "'g github_api"
  ix_config :: provider_config

fun delete_namespaces ::
  "'n namespace_ops \<Rightarrow> ctx \<Rightarrow> string \<Rightarrow> string list \<Rightarrow> 'n \<Rightarrow> go_error option \<times> 'n" where
  "delete_namespaces ops c key [] n = (None, n)"
| "delete_namespaces ops c key (i # ids) n =
     (case no_delete ops c ''github'' i key n of
        (Some err, n') \<Rightarrow> (Some err, n')
      | (None, n') \<Rightarrow> delete_namespaces ops c key ids n')"

text \<open>One repository as it is stored; \<open>client\<close> is the client, made when it is first needed, or its error.\<close>

definition prepare_repo ::
  "('s, 'n, 'g) install_sync \<Rightarrow> string \<Rightarrow> 'g res option \<Rightarrow> github_repo \<Rightarrow> github_repo \<times> 'g res option" where
  "prepare_repo X installation_id client repo0 =
     (let repo = ensure_github_repo_owner repo0; web_url = github_web_base_url (ix_config X) in
      if \<not> needs_github_repo_enrichment repo then (apply_github_repo_defaults repo web_url, client)
      else
        let made = (case client of
                      Some made \<Rightarrow> made
                    | None \<Rightarrow> new_github_installation_client (ix_api X) (ix_config X) installation_id);
            repo = (case made of
                      Inl err \<Rightarrow> repo
                    | Inr g \<Rightarrow> (case enrich_repo (ix_api X) g repo of Inr enriched \<Rightarrow> enriched | Inl err \<Rightarrow> repo))
        in (apply_github_repo_defaults repo web_url, Some made))"

fun store_repos ::
  "('s, 'n, 'g) install_sync \<Rightarrow> 'n namespace_ops \<Rightarrow> ctx \<Rightarrow> (nat \<Rightarrow> gtime \<times> gtime) \<Rightarrow> nat \<Rightarrow> install_record \<Rightarrow> int \<Rightarrow> string \<Rightarrow>
     'g res option \<Rightarrow> github_repo list \<Rightarrow> 'n \<Rightarrow> go_error option \<times> 'n" where
  "store_repos X ops c clock i r account installation_id client [] n = (None, n)"
| "store_repos X ops c clock i r account installation_id client (repo # repos) n =
     (case prepare_repo X installation_id client repo of
        (repo', client') \<Rightarrow>
          (case no_upsert ops c (clock i) (installed_namespace r account installation_id repo') n of
             (Some err, n') \<Rightarrow> (Some err, n')
           | (None, n') \<Rightarrow> store_repos X ops c clock (Suc i) r account installation_id client' repos n'))"

definition sync_namespaces ::
  "('s, 'n, 'g) install_sync \<Rightarrow> 'n namespace_ops \<Rightarrow> ctx \<Rightarrow> (nat \<Rightarrow> gtime \<times> gtime) \<Rightarrow> string \<Rightarrow> string \<Rightarrow> string \<Rightarrow> int \<Rightarrow> string \<Rightarrow>
     install_record \<Rightarrow> 'n \<Rightarrow> go_error option \<times> 'n" where
  "sync_namespaces X ops c clock event_name raw action account installation_id r n =
     (if action = ''deleted'' then
        (case no_list ops c
                \<lparr>nf_tenant = [], nf_provider = ''github'', nf_account_id = [], nf_installation_id = installation_id,
                 nf_instance_key = in_instance_key r, nf_repo_id = [], nf_owner = [], nf_repo_name = [], nf_full_name = [],
                 nf_limit = 0\<rparr> n of
           Inl err \<Rightarrow> (Some err, n)
         | Inr ns \<Rightarrow> delete_namespaces ops c (in_instance_key r) (map ns_repo_id ns) n)
      else
        let removed = (if action = ''removed'' \<or> action = ''repositories_removed''
                       then extract_github_removed_repo_ids (ix_parse X) raw event_name else [])
        in case delete_namespaces ops c (in_instance_key r) removed n of
             (Some err, n') \<Rightarrow> (Some err, n')
           | (None, n') \<Rightarrow>
               store_repos X ops c clock 1 r account installation_id None (extract_github_repos (ix_parse X) raw event_name) n')"

definition sync_installation ::
  "('s, 'n, 'g) install_sync \<Rightarrow> 's install_ops \<Rightarrow> ctx \<Rightarrow> (nat \<Rightarrow> gtime \<times> gtime) \<Rightarrow> string \<Rightarrow> string \<Rightarrow> int \<Rightarrow> string \<Rightarrow> string \<Rightarrow>
     install_record \<Rightarrow> 's \<Rightarrow> go_error option \<times> 's" where
  "sync_installation X ops c clock raw action account login installation_id r s =
     (if action = ''deleted'' then
        io_delete ops c ''github'' (record_account_id (Some r) account) installation_id (in_instance_key r) s
      else io_upsert ops c (clock 0) (updated_install (ix_parse X) raw installation_id account login r) s)"

definition apply_install_system_rules ::
  "('s, 'n, 'g) install_sync \<Rightarrow> ctx \<Rightarrow> (nat \<Rightarrow> gtime \<times> gtime) \<Rightarrow> string \<Rightarrow> string \<Rightarrow> 's \<times> 'n \<Rightarrow> go_error option \<times> 's \<times> 'n" where
  "apply_install_system_rules X c clock event_name raw st =
     (if (ix_installs X = None \<and> ix_namespaces X = None) \<or> \<not> install_event event_name then (None, st)
      else case unmarshal (ix_parse X) install_payload raw of
             None \<Rightarrow> (Some json_error, st)
           | Some (action0, i, account, login) \<Rightarrow>
               if i = 0 then (Some (Error ''installation id missing in webhook''), st)
               else
                 let action = trim_space action0; installation_id = itoa i in
                 case ix_installs X of
                   None \<Rightarrow> (None, st)
                 | Some ops \<Rightarrow>
                     (case io_by_id ops c ''github'' installation_id (fst st) of
                        Inl err \<Rightarrow> (Some err, st)
                      | Inr None \<Rightarrow> (None, st)
                      | Inr (Some r) \<Rightarrow>
                          (let c' = (if in_tenant r \<noteq> [] then with_tenant c (in_tenant r) else c) in
                           case sync_installation X ops c' clock raw action account login installation_id r (fst st) of
                             (Some err, s') \<Rightarrow> (Some err, (s', snd st))
                           | (None, s') \<Rightarrow>
                               (case ix_namespaces X of
                                  None \<Rightarrow> (None, (s', snd st))
                                | Some nops \<Rightarrow>
                                    (case sync_namespaces X nops c' clock event_name raw action account installation_id r (snd st) of
                                       (err, n') \<Rightarrow> (err, (s', n')))))))"

end
