(* ===== verification/Webhook_Handlers.thy ===== *)
theory Webhook_Handlers
  imports Github_Install
begin

text \<open>
  The five webhook handlers: \<^verbatim>\<open>ServeHTTP\<close> of \<^verbatim>\<open>github_handler.go\<close>, \<^verbatim>\<open>gitlab.go\<close>, \<^verbatim>\<open>bitbucket.go\<close>,
  \<^verbatim>\<open>slack.go\<close> and \<^verbatim>\<open>jira.go\<close> in \<^verbatim>\<open>pkg/webhook\<close>, each as one step on the state of the server, and the
  registry of providers (\<^verbatim>\<open>registry.go\<close>, \<^verbatim>\<open>providers.go\<close>).

  GitHub, GitLab and Bitbucket hand the request to a hook of \<^verbatim>\<open>go-playground/webhooks\<close>, which is a
  parameter; \<open>hook_result\<close> is what the handlers distinguish of its answers.
\<close>

section \<open>The server\<close>

datatype hook_result = HookPing | HookPayload | HookUnknownEvent | HookMissingHeader | HookInvalid

text \<open>Arguments: the secret, empty for none, the headers, the body.\<close>

type_synonym hook = "string \<Rightarrow> string list gmap \<Rightarrow> string \<Rightarrow> hook_result"

text \<open>What the handlers are made of (\<^verbatim>\<open>HandlerOptions\<close>, and the settings of the provider).\<close>

record ('e, 'p, 's, 'n, 'g) server =
  sv_lib :: "'e rule_lib"
  sv_pipe :: "'p pipe_lib"
  sv_handler :: "'e handler"
  sv_time :: time_lib
  sv_hmac :: hmac_lib
  sv_sync :: "('s, 'n, 'g) install_sync"
  sv_url_host :: "string \<Rightarrow> string option"
  sv_max_body :: int
  sv_github :: hook
  sv_gitlab :: hook
  sv_bitbucket :: hook

record ('p, 's, 'n) hub =
  hb_pipe :: "'p pipe"
  hb_installs :: 's
  hb_namespaces :: 'n

definition server_decode :: "('e, 'p, 's, 'n, 'g) server \<Rightarrow> string \<Rightarrow> gval res" where
  "server_decode S = js_decode (pk_js (sv_pipe S))"

definition tenant_context :: "ctx \<Rightarrow> string \<Rightarrow> ctx" where
  "tenant_context c tenant = (if tenant \<noteq> [] then with_tenant c tenant else c)"

definition source_of :: "request \<Rightarrow> string \<Rightarrow> string \<Rightarrow> sender \<Rightarrow> string \<times> string \<Rightarrow> string \<Rightarrow> webhook_source" where
  "source_of r provider event_name from ns tenant =
     (case from of
        (_, state_id, installation_id, key) \<Rightarrow>
          \<lparr>ws_provider = provider, ws_event_name = event_name, ws_request_id = request_id r, ws_headers = Some (rq_headers r),
           ws_state_id = state_id, ws_tenant = tenant, ws_installation_id = installation_id, ws_instance_key = key,
           ws_namespace_id = fst ns, ws_namespace_name = snd ns\<rparr>)"

text \<open>Emitting the event and answering 200.\<close>

definition emit_event ::
  "('e, 'p, 's, 'n, 'g) server \<Rightarrow> request \<Rightarrow> ctx \<Rightarrow> event \<Rightarrow> ('p, 's, 'n) hub \<Rightarrow> (response \<times> ('p, 's, 'n) hub) outcome" where
  "emit_event S r c ev st =
     map_outcome (\<lambda>(errs, pipe). (respond r 200, st\<lparr>hb_pipe := pipe\<rparr>))
       (emit (sv_lib S) (sv_pipe S) (sv_handler S) (rq_uuid r) c ev (hb_pipe st))"

section \<open>GitHub, GitLab, Bitbucket\<close>

definition github_event ::
  "('e, 'p, 's, 'n, 'g) server \<Rightarrow> request \<Rightarrow> string \<Rightarrow> ('p, 's, 'n) hub \<Rightarrow> (response \<times> ('p, 's, 'n) hub) outcome" where
  "github_event S r raw st =
     (let event_name = header_get (rq_headers r) ''X-GitHub-Event''; parse = ix_parse (sv_sync S);
          from = github_resolve_state_id parse (rq_ctx r) raw (ix_installs (sv_sync S)) (hb_installs st)
      in case from of
           (tenant, state_id, installation_id, key) \<Rightarrow>
             if installation_id = [] then Return (respond r 200, st)
             else
               let c = tenant_context (rq_ctx r) tenant in
               case apply_install_system_rules (sv_sync S) c (rq_clock r) event_name raw (hb_installs st, hb_namespaces st) of
                 (err, s', n') \<Rightarrow>
                   emit_event S r c
                     (webhook_event (server_decode S) (sv_time S)
                       (source_of r ''github'' event_name from (github_namespace_info parse raw) (tenant_from_context c)) raw)
                     (st\<lparr>hb_installs := s', hb_namespaces := n'\<rparr>))"

definition github_serve ::
  "('e, 'p, 's, 'n, 'g) server \<Rightarrow> string \<Rightarrow> request \<Rightarrow> ('p, 's, 'n) hub \<Rightarrow> (response \<times> ('p, 's, 'n) hub) outcome" where
  "github_serve S secret r st =
     (case prepare_webhook_request (sv_max_body S) r of
        None \<Rightarrow> Return (respond r 400, st)
      | Some raw \<Rightarrow>
          (let headers = rq_headers r; verify = verify_github_signature (sv_hmac S) secret raw;
               sig256 = header_get headers ''X-Hub-Signature-256''; sig1 = header_get headers ''X-Hub-Signature''
           in case sv_github S secret headers raw of
                HookPing \<Rightarrow> Return (respond r 200, st)
              | HookPayload \<Rightarrow> github_event S r raw st
              | HookUnknownEvent \<Rightarrow>
                  if secret \<noteq> [] \<and> \<not> verify sig256 \<and> \<not> verify sig1 then Return (respond r 401, st)
                  else github_event S r raw st
              | HookMissingHeader \<Rightarrow>
                  if secret \<noteq> [] \<and> sig1 \<noteq> [] \<and> verify sig1 then
                    (case sv_github S [] headers raw of
                       HookPing \<Rightarrow> Return (respond r 200, st)
                     | HookPayload \<Rightarrow> github_event S r raw st
                     | _ \<Rightarrow> Return (respond r 400, st))
                  else Return (respond r 400, st)
              | HookInvalid \<Rightarrow> Return (respond r 400, st)))"

text \<open>GitLab and Bitbucket: an event whose repository belongs to no installation is ignored.\<close>

definition namespace_event ::
  "('e, 'p, 's, 'n, 'g) server \<Rightarrow> request \<Rightarrow> string \<Rightarrow> string \<Rightarrow> sender \<Rightarrow> string \<times> string \<Rightarrow> string \<Rightarrow> ('p, 's, 'n) hub \<Rightarrow>
     (response \<times> ('p, 's, 'n) hub) outcome" where
  "namespace_event S r provider event_name from ns raw st =
     (case from of
        (tenant, state_id, installation_id, key) \<Rightarrow>
          if installation_id = [] then Return (respond r 200, st)
          else
            let c = tenant_context (rq_ctx r) tenant in
            emit_event S r c
              (webhook_event (server_decode S) (sv_time S) (source_of r provider event_name from ns (tenant_from_context c)) raw) st)"

definition gitlab_serve ::
  "('e, 'p, 's, 'n, 'g) server \<Rightarrow> string \<Rightarrow> request \<Rightarrow> ('p, 's, 'n) hub \<Rightarrow> (response \<times> ('p, 's, 'n) hub) outcome" where
  "gitlab_serve S secret r st =
     (case prepare_webhook_request (sv_max_body S) r of
        None \<Rightarrow> Return (respond r 400, st)
      | Some raw \<Rightarrow>
          (let headers = rq_headers r; parse = ix_parse (sv_sync S) in
           if sv_gitlab S secret headers raw \<in> {HookMissingHeader, HookInvalid} then Return (respond r 400, st)
           else namespace_event S r ''gitlab'' (header_get headers ''X-Gitlab-Event'')
                  (gitlab_resolve_state_id parse (rq_ctx r) raw (ix_namespaces (sv_sync S)) (hb_namespaces st))
                  (gitlab_namespace_info parse raw) raw st))"

definition bitbucket_serve ::
  "('e, 'p, 's, 'n, 'g) server \<Rightarrow> string \<Rightarrow> request \<Rightarrow> ('p, 's, 'n) hub \<Rightarrow> (response \<times> ('p, 's, 'n) hub) outcome" where
  "bitbucket_serve S secret r st =
     (case prepare_webhook_request (sv_max_body S) r of
        None \<Rightarrow> Return (respond r 400, st)
      | Some raw \<Rightarrow>
          (let headers = rq_headers r; parse = ix_parse (sv_sync S);
               accept = namespace_event S r ''bitbucket'' (header_get headers ''X-Event-Key'')
                  (bitbucket_resolve_state_id parse (rq_ctx r) raw (ix_namespaces (sv_sync S)) (hb_namespaces st))
                  (bitbucket_namespace_info parse raw) raw st
           in case sv_bitbucket S secret headers raw of
                HookInvalid \<Rightarrow> Return (respond r 400, st)
              | HookMissingHeader \<Rightarrow>
                  if sv_bitbucket S [] headers raw \<in> {HookPing, HookPayload} then accept else Return (respond r 400, st)
              | _ \<Rightarrow> accept))"

section \<open>Slack, Jira\<close>

definition slack_serve ::
  "('e, 'p, 's, 'n, 'g) server \<Rightarrow> string \<Rightarrow> request \<Rightarrow> ('p, 's, 'n) hub \<Rightarrow> (response \<times> ('p, 's, 'n) hub) outcome" where
  "slack_serve S secret r st =
     (case prepare_webhook_request (sv_max_body S) r of
        None \<Rightarrow> Return (respond r 400, st)
      | Some raw \<Rightarrow>
          if verify_slack_signature (sv_hmac S) secret (rq_at r) (rq_headers r) raw \<noteq> None then Return (respond r 401, st)
          else
            (case raw_object_and_flatten (server_decode S) raw of
               (obj, data) \<Rightarrow>
                 if obj = VNil then Return (respond r 400, st)
                 else if equal_fold (data_string (Some data) [''type'']) ''url_verification'' then
                   (let challenge = data_string (Some data) [''challenge''] in
                    if challenge = [] then Return (respond r 400, st)
                    else Return (\<lparr>rs_status = 200,
                           rs_headers = mput ''Content-Type'' ''text/plain; charset=utf-8'' (rs_headers (respond r 200)),
                           rs_text = challenge\<rparr>, st))
                 else
                   (let event_name = slack_event_name (rq_headers r) data in
                    case annotate_payload (sv_time S) obj data ''slack'' event_name of
                      (obj', data', nz) \<Rightarrow>
                        (case slack_resolve_state_id (server_decode S) (rq_ctx r) data' (ix_installs (sv_sync S)) (hb_installs st) of
                           Return from \<Rightarrow>
                             emit_event S r (tenant_context (rq_ctx r) (fst from))
                               (event_of ((source_of r ''slack'' event_name from (slack_namespace_info data') (fst from))
                                   \<lparr>ws_headers := clone_headers (Some (rq_headers r))\<rparr>) obj' data' nz raw) st
                         | Fails err \<Rightarrow> Fails err
                         | Panics s \<Rightarrow> Panics s))))"

definition jira_serve ::
  "('e, 'p, 's, 'n, 'g) server \<Rightarrow> string \<Rightarrow> request \<Rightarrow> ('p, 's, 'n) hub \<Rightarrow> (response \<times> ('p, 's, 'n) hub) outcome" where
  "jira_serve S secret r st =
     (case prepare_webhook_request (sv_max_body S) r of
        None \<Rightarrow> Return (respond r 400, st)
      | Some raw \<Rightarrow>
          if verify_jira_signature (sv_hmac S) secret (rq_headers r) raw \<noteq> None then Return (respond r 401, st)
          else
            (case raw_object_and_flatten (server_decode S) raw of
               (obj, data) \<Rightarrow>
                 if obj = VNil then Return (respond r 400, st)
                 else
                   (let event_name = jira_event_name (rq_headers r) data in
                    case annotate_payload (sv_time S) obj data ''atlassian'' event_name of
                      (obj', data', nz) \<Rightarrow>
                        (case jira_resolve_state_id (sv_url_host S) (rq_ctx r) data' (ix_installs (sv_sync S)) (hb_installs st) of
                           Return from \<Rightarrow>
                             emit_event S r (tenant_context (rq_ctx r) (fst from))
                               (event_of ((source_of r ''atlassian'' event_name from (jira_namespace_info data') (fst from))
                                   \<lparr>ws_headers := clone_headers (Some (rq_headers r))\<rparr>) obj' data' nz raw) st
                         | Fails err \<Rightarrow> Fails err
                         | Panics s \<Rightarrow> Panics s))))"

section \<open>Providers\<close>

text \<open>The handler a provider makes of its settings; Slack and Jira trim the secret.\<close>

datatype webhook_provider = GitHubProvider | GitLabProvider | BitbucketProvider | SlackProvider | AtlassianProvider

fun provider_name :: "webhook_provider \<Rightarrow> string" where
  "provider_name GitHubProvider = ''github''"
| "provider_name GitLabProvider = ''gitlab''"
| "provider_name BitbucketProvider = ''bitbucket''"
| "provider_name SlackProvider = ''slack''"
| "provider_name AtlassianProvider = ''atlassian''"

fun new_handler ::
  "webhook_provider \<Rightarrow> provider_config \<Rightarrow> ('e, 'p, 's, 'n, 'g) server \<Rightarrow> request \<Rightarrow> ('p, 's, 'n) hub \<Rightarrow>
     (response \<times> ('p, 's, 'n) hub) outcome" where
  "new_handler GitHubProvider cfg S = github_serve (S\<lparr>sv_sync := (sv_sync S)\<lparr>ix_config := cfg\<rparr>\<rparr>) (wh_secret (pc_webhook cfg))"
| "new_handler GitLabProvider cfg S = gitlab_serve S (wh_secret (pc_webhook cfg))"
| "new_handler BitbucketProvider cfg S = bitbucket_serve S (wh_secret (pc_webhook cfg))"
| "new_handler SlackProvider cfg S = slack_serve S (trim_space (wh_secret (pc_webhook cfg)))"
| "new_handler AtlassianProvider cfg S = jira_serve S (trim_space (wh_secret (pc_webhook cfg)))"

definition webhook_path :: "provider_config \<Rightarrow> string" where
  "webhook_path cfg = wh_path (pc_webhook cfg)"

fun webhook_log_fields :: "webhook_provider \<Rightarrow> provider_config \<Rightarrow> string" where
  "webhook_log_fields GitHubProvider cfg = ''app_id='' @ itoa (app_id (pc_app cfg))"
| "webhook_log_fields _ cfg = []"

text \<open>A registry of plug-ins by name; \<open>name_of\<close> is the \<^verbatim>\<open>Name\<close> method of a plug-in.\<close>

definition registry_register :: "('x \<Rightarrow> string) \<Rightarrow> 'x \<Rightarrow> 'x gmap \<Rightarrow> go_error option \<times> 'x gmap" where
  "registry_register name_of p reg =
     (let name = to_lower (trim_space (name_of p)) in
      if name = [] then (Some (Error ''provider name is required''), reg)
      else if mget reg name \<noteq> None then (Some (Error ''provider already registered''), reg)
      else (None, mput name p reg))"

definition registry_provider :: "string \<Rightarrow> 'x gmap \<Rightarrow> 'x option" where
  "registry_provider name reg = mget reg (to_lower (trim_space name))"

definition registry_providers :: "('x \<Rightarrow> string) \<Rightarrow> 'x gmap \<Rightarrow> 'x list" where
  "registry_providers name_of reg = sort_slice (\<lambda>a b. name_of a < name_of b) (mvals reg)"

definition default_registry :: "webhook_provider gmap" where
  "default_registry =
     fold (\<lambda>p reg. snd (registry_register provider_name p reg))
       [GitHubProvider, GitLabProvider, BitbucketProvider, SlackProvider, AtlassianProvider] []"

lemma registry_registered:
  "registry_register name_of p reg = (None, reg') \<Longrightarrow>
     registry_provider (name_of p) reg' = Some p \<and>
     (\<forall>q. registry_provider q reg \<noteq> None \<longrightarrow> registry_provider q reg' = registry_provider q reg)"
  by (auto simp: registry_register_def registry_provider_def Let_def split: if_splits)

lemma registry_providers_sorted: "sorted (map name_of (registry_providers name_of reg))"
proof -
  have "sorted_wrt (\<lambda>a b. \<not> name_of b < name_of a) (registry_providers name_of reg)"
    unfolding registry_providers_def by (rule sorted_sort_slice [OF strict_weak_key(1)])
  then show ?thesis by (simp add: sorted_wrt_map not_less)
qed

end
