(* ===== verification/Webhook_Auth.thy ===== *)
theory Webhook_Auth
  imports Webhook_Handlers
begin

text \<open>
  Which webhooks have an effect. A handler that turns a request away answers and leaves the server as it
  was; a request that is not signed with the secret of the provider is turned away. So a server that also
  receives forged requests is, at any moment, where it would be without them (the locale
  \<open>signed_handler\<close>, interpreted on Slack and Jira; GitHub and GitLab rest on what their hooks document).
\<close>

section \<open>Sequences of requests\<close>

fun serve_all :: "('r \<Rightarrow> 'st \<Rightarrow> ('a \<times> 'st) outcome) \<Rightarrow> 'r list \<Rightarrow> 'st \<Rightarrow> 'st outcome" where
  "serve_all serve [] st = Return st"
| "serve_all serve (r # rs) st =
     (case serve r st of
        Return (resp, st') \<Rightarrow> serve_all serve rs st'
      | Fails e \<Rightarrow> Fails e
      | Panics s \<Rightarrow> Panics s)"

locale signed_handler =
  fixes serve :: "'r \<Rightarrow> 'st \<Rightarrow> ('a \<times> 'st) outcome"
    and signed :: "'r \<Rightarrow> bool"
  assumes rejects: "\<not> signed r \<Longrightarrow> \<exists>resp. serve r st = Return (resp, st)"
begin

lemma forged_have_no_effect: "serve_all serve rs st = serve_all serve (filter signed rs) st"
proof (induction rs arbitrary: st)
  case (Cons r rs)
  show ?case
  proof (cases "signed r")
    case True
    then show ?thesis by (auto simp: Cons.IH split: outcome.splits)
  next
    case False
    from rejects [OF False, of st] obtain resp where "serve r st = Return (resp, st)" ..
    with False show ?thesis by (simp add: Cons.IH)
  qed
qed simp

end

section \<open>What signed means\<close>

definition readable :: "int \<Rightarrow> request \<Rightarrow> string \<Rightarrow> bool" where
  "readable max_body r raw \<longleftrightarrow> rq_body r = Inr raw \<and> (0 < max_body \<longrightarrow> int (length raw) \<le> max_body)"

text \<open>Slack: the digest of the version, the time stamp and the body; the time stamp is at most five minutes off.\<close>

definition slack_signed :: "hmac_lib \<Rightarrow> string \<Rightarrow> int \<Rightarrow> request \<Rightarrow> bool" where
  "slack_signed hm secret max_body r \<longleftrightarrow>
     (\<exists>raw. readable max_body r raw \<and>
        (secret \<noteq> [] \<longrightarrow>
           (\<exists>stamp seconds. stamp = trim_space (header_get (rq_headers r) ''X-Slack-Request-Timestamp'') \<and> atoi stamp = Some seconds \<and>
              \<bar>time_sub (rq_at r) (time_unix seconds)\<bar> \<le> 5 * 60 * 1000000000 \<and>
              trim_space (header_get (rq_headers r) ''X-Slack-Signature'') =
                ''v0='' @ hm_sha256 hm secret (''v0:'' @ stamp @ '':'' @ raw))))"

definition jira_signed :: "hmac_lib \<Rightarrow> string \<Rightarrow> int \<Rightarrow> request \<Rightarrow> bool" where
  "jira_signed hm secret max_body r \<longleftrightarrow>
     (\<exists>raw. readable max_body r raw \<and>
        (secret \<noteq> [] \<longrightarrow>
           (\<exists>name \<in> {''X-Hub-Signature'', ''X-Hub-Signature-256''}.
              hm_sha256 hm secret raw = trim_space (trim_prefix (trim_space (header_get (rq_headers r) name)) ''sha256=''))))"

definition carries :: "string \<Rightarrow> string \<Rightarrow> bool" where
  "carries digest header \<longleftrightarrow> suffix digest header \<or> suffix digest (trim_space header)"

definition github_signed :: "hmac_lib \<Rightarrow> string \<Rightarrow> int \<Rightarrow> request \<Rightarrow> bool" where
  "github_signed hm secret max_body r \<longleftrightarrow>
     (\<exists>raw. readable max_body r raw \<and>
        (secret \<noteq> [] \<longrightarrow>
           (\<exists>name \<in> {''X-Hub-Signature-256'', ''X-Hub-Signature''}. \<exists>digest \<in> {hm_sha256 hm secret raw, hm_sha1 hm secret raw}.
              carries digest (header_get (rq_headers r) name))))"

definition gitlab_signed :: "string \<Rightarrow> int \<Rightarrow> request \<Rightarrow> bool" where
  "gitlab_signed secret max_body r \<longleftrightarrow>
     (\<exists>raw. readable max_body r raw \<and> (secret \<noteq> [] \<longrightarrow> header_get (rq_headers r) ''X-Gitlab-Token'' = secret))"

lemma prepared: "prepare_webhook_request max_body r = Some raw \<longleftrightarrow> readable max_body r raw"
  by (auto simp: prepare_webhook_request_def readable_def split: sum.splits)

lemma prepared_not: "prepare_webhook_request max_body r = None \<longleftrightarrow> (\<forall>raw. \<not> readable max_body r raw)"
  using prepared [of max_body r] by (cases "prepare_webhook_request max_body r") auto

lemma slack_verified:
  assumes "verify_slack_signature hm secret now headers raw = None" "secret \<noteq> []"
  shows "\<exists>stamp seconds. stamp = trim_space (header_get headers ''X-Slack-Request-Timestamp'') \<and> atoi stamp = Some seconds \<and>
     \<bar>time_sub now (time_unix seconds)\<bar> \<le> 5 * 60 * 1000000000 \<and>
     trim_space (header_get headers ''X-Slack-Signature'') = ''v0='' @ hm_sha256 hm secret (''v0:'' @ stamp @ '':'' @ raw)"
  using assms
  by (auto simp: verify_slack_signature_def slack_signature_def slack_max_age_def Let_def split: if_splits option.splits)

lemma jira_verified:
  assumes "verify_jira_signature hm secret headers raw = None" "secret \<noteq> []"
  shows "\<exists>name \<in> {''X-Hub-Signature'', ''X-Hub-Signature-256''}.
     hm_sha256 hm secret raw = trim_space (trim_prefix (trim_space (header_get headers name)) ''sha256='')"
  using assms by (auto simp: verify_jira_signature_def Let_def split: if_splits)

lemma github_verified:
  assumes "verify_github_signature hm secret raw header"
  shows "\<exists>digest \<in> {hm_sha256 hm secret raw, hm_sha1 hm secret raw}. carries digest header"
proof -
  have "\<exists>p. trim_prefix (trim_space header) p \<in> {hm_sha256 hm secret raw, hm_sha1 hm secret raw}"
    using assms by (auto simp: verify_github_signature_def Let_def split: if_splits)
  moreover have "suffix (trim_prefix (trim_space header) p) (trim_space header)" for p
    by (simp add: trim_prefix_def suffix_drop)
  ultimately show ?thesis unfolding carries_def by metis
qed

interpretation slack: signed_handler "slack_serve S secret" "slack_signed (sv_hmac S) secret (sv_max_body S)" for S secret
proof
  fix r st
  assume "\<not> slack_signed (sv_hmac S) secret (sv_max_body S) r"
  then have un: "\<not> slack_signed (sv_hmac S) secret (sv_max_body S) r" .
  show "\<exists>resp. slack_serve S secret r st = Return (resp, st)"
  proof (cases "prepare_webhook_request (sv_max_body S) r")
    case None
    then show ?thesis by (simp add: slack_serve_def)
  next
    case (Some raw)
    with un have "verify_slack_signature (sv_hmac S) secret (rq_at r) (rq_headers r) raw \<noteq> None"
      using slack_verified [of "sv_hmac S" secret "rq_at r" "rq_headers r" raw] by (auto simp: slack_signed_def prepared)
    with Some show ?thesis by (simp add: slack_serve_def)
  qed
qed

interpretation jira: signed_handler "jira_serve S secret" "jira_signed (sv_hmac S) secret (sv_max_body S)" for S secret
proof
  fix r st
  assume "\<not> jira_signed (sv_hmac S) secret (sv_max_body S) r"
  then have un: "\<not> jira_signed (sv_hmac S) secret (sv_max_body S) r" .
  show "\<exists>resp. jira_serve S secret r st = Return (resp, st)"
  proof (cases "prepare_webhook_request (sv_max_body S) r")
    case None
    then show ?thesis by (simp add: jira_serve_def)
  next
    case (Some raw)
    with un have "verify_jira_signature (sv_hmac S) secret (rq_headers r) raw \<noteq> None"
      using jira_verified [of "sv_hmac S" secret "rq_headers r" raw] by (auto simp: jira_signed_def prepared)
    with Some show ?thesis by (simp add: jira_serve_def)
  qed
qed

text \<open>
  What the hooks document: with a secret, GitHub's accepts a body only if \<^verbatim>\<open>X-Hub-Signature-256\<close> is its
  digest after a prefix of seven bytes, GitLab's only if \<^verbatim>\<open>X-Gitlab-Token\<close> is the secret.
\<close>

definition github_hook_verifies :: "hmac_lib \<Rightarrow> hook \<Rightarrow> bool" where
  "github_hook_verifies hm h \<longleftrightarrow>
     (\<forall>secret headers raw. secret \<noteq> [] \<and> h secret headers raw \<in> {HookPing, HookPayload} \<longrightarrow>
        drop 7 (header_get headers ''X-Hub-Signature-256'') = hm_sha256 hm secret raw)"

definition gitlab_hook_verifies :: "hook \<Rightarrow> bool" where
  "gitlab_hook_verifies h \<longleftrightarrow>
     (\<forall>secret headers raw. secret \<noteq> [] \<and> h secret headers raw \<in> {HookPing, HookPayload, HookUnknownEvent} \<longrightarrow>
        header_get headers ''X-Gitlab-Token'' = secret)"

lemma github_signed_hook:
  assumes "github_hook_verifies hm h" "h secret headers raw \<in> {HookPing, HookPayload}" "secret \<noteq> []"
  shows "carries (hm_sha256 hm secret raw) (header_get headers ''X-Hub-Signature-256'')"
proof -
  have "drop 7 (header_get headers ''X-Hub-Signature-256'') = hm_sha256 hm secret raw"
    using assms unfolding github_hook_verifies_def by blast
  then show ?thesis unfolding carries_def by (metis suffix_drop)
qed

lemma github_rejects:
  assumes "github_hook_verifies (sv_hmac S) (sv_github S)" "\<not> github_signed (sv_hmac S) secret (sv_max_body S) r"
  shows "\<exists>resp. github_serve S secret r st = Return (resp, st)"
proof (cases "prepare_webhook_request (sv_max_body S) r")
  case None
  then show ?thesis by (simp add: github_serve_def)
next
  case (Some raw)
  then have r: "readable (sv_max_body S) r raw" by (simp add: prepared)
  with assms(2) have secret: "secret \<noteq> []" by (auto simp: github_signed_def)
  let ?v = "\<lambda>name. verify_github_signature (sv_hmac S) secret raw (header_get (rq_headers r) name)"
  have no: "\<not> ?v ''X-Hub-Signature-256''" "\<not> ?v ''X-Hub-Signature''"
    using assms(2) r github_verified [of "sv_hmac S" secret raw] unfolding github_signed_def by blast+
  have "sv_github S secret (rq_headers r) raw \<notin> {HookPing, HookPayload}"
    using assms(2) r github_signed_hook [OF assms(1) _ secret] unfolding github_signed_def by blast
  then show ?thesis
    using secret no by (cases "sv_github S secret (rq_headers r) raw") (simp_all add: github_serve_def Some)
qed

lemma gitlab_rejects:
  assumes "gitlab_hook_verifies (sv_gitlab S)" "\<not> gitlab_signed secret (sv_max_body S) r"
  shows "\<exists>resp. gitlab_serve S secret r st = Return (resp, st)"
proof (cases "prepare_webhook_request (sv_max_body S) r")
  case None
  then show ?thesis by (simp add: gitlab_serve_def)
next
  case (Some raw)
  then have r: "readable (sv_max_body S) r raw" by (simp add: prepared)
  with assms(2) have "secret \<noteq> []" "header_get (rq_headers r) ''X-Gitlab-Token'' \<noteq> secret" by (auto simp: gitlab_signed_def)
  then have "sv_gitlab S secret (rq_headers r) raw \<notin> {HookPing, HookPayload, HookUnknownEvent}"
    using assms(1) unfolding gitlab_hook_verifies_def by blast
  then have "sv_gitlab S secret (rq_headers r) raw \<in> {HookMissingHeader, HookInvalid}"
    by (cases "sv_gitlab S secret (rq_headers r) raw") auto
  then show ?thesis by (simp add: gitlab_serve_def Some)
qed

text \<open>
  C8: a forged webhook has no effect. Serving a sequence of requests leaves the stores, the event logs and
  everything published as serving only the requests that are signed with the provider's secret would: for
  Slack, in time too, for Jira, for GitHub (in either of its signature headers) and for GitLab (the token).
\<close>

theorem forged_webhooks_have_no_effect:
  assumes "github_hook_verifies (sv_hmac S) (sv_github S)" "gitlab_hook_verifies (sv_gitlab S)"
  shows "serve_all (slack_serve S secret) rs st =
       serve_all (slack_serve S secret) (filter (slack_signed (sv_hmac S) secret (sv_max_body S)) rs) st \<and>
     serve_all (jira_serve S secret) rs st =
       serve_all (jira_serve S secret) (filter (jira_signed (sv_hmac S) secret (sv_max_body S)) rs) st \<and>
     serve_all (github_serve S secret) rs st =
       serve_all (github_serve S secret) (filter (github_signed (sv_hmac S) secret (sv_max_body S)) rs) st \<and>
     serve_all (gitlab_serve S secret) rs st =
       serve_all (gitlab_serve S secret) (filter (gitlab_signed secret (sv_max_body S)) rs) st"
proof -
  have github: "signed_handler (github_serve S secret) (github_signed (sv_hmac S) secret (sv_max_body S))"
    using github_rejects [OF assms(1)] by unfold_locales
  have gitlab: "signed_handler (gitlab_serve S secret) (gitlab_signed secret (sv_max_body S))"
    using gitlab_rejects [OF assms(2)] by unfold_locales
  show ?thesis
    by (intro conjI slack.forged_have_no_effect jira.forged_have_no_effect
        signed_handler.forged_have_no_effect [OF github] signed_handler.forged_have_no_effect [OF gitlab])
qed

text \<open>
  A secret does not protect the Bitbucket handler. The handler is given the secret as the UUID of the
  webhook; a request that leaves out the header \<^verbatim>\<open>X-Hook-UUID\<close> is served as if no secret were set.
\<close>

theorem bitbucket_secret_is_optional:
  assumes "\<And>headers raw. header_get headers ''X-Hook-UUID'' = [] \<Longrightarrow> sv_bitbucket S secret headers raw = HookMissingHeader"
    and "header_get (rq_headers r) ''X-Hook-UUID'' = []"
    and "\<And>raw. sv_bitbucket S [] (rq_headers r) raw \<in> {HookPing, HookPayload}"
  shows "bitbucket_serve S secret r st = bitbucket_serve S [] r st"
proof (cases "prepare_webhook_request (sv_max_body S) r")
  case (Some raw)
  from assms(3) [of raw] show ?thesis
    by (auto simp: bitbucket_serve_def Some assms(1) [OF assms(2)])
qed (simp add: bitbucket_serve_def)

text \<open>A request without headers, a digest that is the text itself, and hooks that check it.\<close>

definition bare_request :: request where
  "bare_request = \<lparr>rq_ctx = background, rq_headers = [], rq_body = Inr ''{}'', rq_at = 0, rq_new_id = ''id'', rq_uuid = \<lambda>n. ''u'',
     rq_clock = \<lambda>n. (0, 0)\<rparr>"

definition plain_hmac :: hmac_lib where
  "plain_hmac = \<lparr>hm_sha256 = \<lambda>k b. k @ b, hm_sha1 = \<lambda>k b. k @ b\<rparr>"

definition checked_github :: hook where
  "checked_github secret headers raw =
     (if secret = [] \<or> drop 7 (header_get headers ''X-Hub-Signature-256'') = secret @ raw then HookPayload else HookInvalid)"

definition checked_gitlab :: hook where
  "checked_gitlab secret headers raw =
     (if secret = [] \<or> header_get headers ''X-Gitlab-Token'' = secret then HookPayload else HookInvalid)"

definition with_hooks :: "(unit, unit, unit, unit, unit) server \<Rightarrow> (unit, unit, unit, unit, unit) server" where
  "with_hooks S = S\<lparr>sv_hmac := plain_hmac, sv_github := checked_github, sv_gitlab := checked_gitlab\<rparr>"

theorem forged_webhooks_have_no_effect_witness:
  "\<forall>S st. serve_all (slack_serve (with_hooks S) ''k'') [bare_request] st = Return st \<and>
     serve_all (github_serve (with_hooks S) ''k'') [bare_request] st = Return st"
proof (intro allI conjI)
  fix S :: "(unit, unit, unit, unit, unit) server" and st :: "(unit, unit, unit) hub"
  have hooks: "github_hook_verifies (sv_hmac (with_hooks S)) (sv_github (with_hooks S))"
      "gitlab_hook_verifies (sv_gitlab (with_hooks S))"
    by (auto simp: github_hook_verifies_def gitlab_hook_verifies_def with_hooks_def checked_github_def checked_gitlab_def
        plain_hmac_def)
  have e: "atoi [] = None" "trim_space [] = []" by code_simp+
  have "\<not> slack_signed (sv_hmac (with_hooks S)) ''k'' m bare_request" "\<not> github_signed (sv_hmac (with_hooks S)) ''k'' m bare_request" for m
    by (auto simp: slack_signed_def github_signed_def bare_request_def header_get_def e carries_def readable_def with_hooks_def plain_hmac_def)
  with forged_webhooks_have_no_effect [OF hooks, of "''k''" "[bare_request]" st]
  show "serve_all (slack_serve (with_hooks S) ''k'') [bare_request] st = Return st"
    "serve_all (github_serve (with_hooks S) ''k'') [bare_request] st = Return st" by simp_all
qed

theorem bitbucket_secret_is_optional_witness:
  "\<forall>S :: (unit, unit, unit, unit, unit) server. \<forall>st.
     let S' = S\<lparr>sv_bitbucket := \<lambda>secret headers raw.
           if secret = [] \<or> header_get headers ''X-Hook-UUID'' = secret then HookPayload
           else if header_get headers ''X-Hook-UUID'' = [] then HookMissingHeader else HookInvalid\<rparr>
     in bitbucket_serve S' ''uuid'' bare_request st = bitbucket_serve S' [] bare_request st"
proof (intro allI)
  fix S :: "(unit, unit, unit, unit, unit) server" and st :: "(unit, unit, unit) hub"
  let ?S = "S\<lparr>sv_bitbucket := \<lambda>secret headers raw.
           if secret = [] \<or> header_get headers ''X-Hook-UUID'' = secret then HookPayload
           else if header_get headers ''X-Hook-UUID'' = [] then HookMissingHeader else HookInvalid\<rparr>"
  have "bitbucket_serve ?S ''uuid'' bare_request st = bitbucket_serve ?S [] bare_request st"
    by (rule bitbucket_secret_is_optional) (auto simp: bare_request_def header_get_def)
  then show "let S' = ?S in bitbucket_serve S' ''uuid'' bare_request st = bitbucket_serve S' [] bare_request st"
    by (simp only: Let_def)
qed

end
