(* ===== verification/Driver_Stores.thy ===== *)
theory Driver_Stores
  imports Driver_Cache Install_Stores
begin

text \<open>
  The drivers in the database (\<^verbatim>\<open>pkg/storage/drivers/store.go\<close>), the contract that this store and the
  one in memory keep, and one point in which they differ.
\<close>

section \<open>The interface\<close>

record 's driver_ops =
  dv_list :: "ctx \<Rightarrow> 's \<Rightarrow> driver_record list res"
  dv_get :: "ctx \<Rightarrow> string \<Rightarrow> 's \<Rightarrow> driver_record option res"
  dv_by_id :: "ctx \<Rightarrow> string \<Rightarrow> 's \<Rightarrow> driver_record option res"
  dv_upsert :: "ctx \<Rightarrow> gtime \<times> gtime \<Rightarrow> driver_record \<Rightarrow> 's \<Rightarrow> driver_record res \<times> 's"
  dv_delete :: "ctx \<Rightarrow> string \<Rightarrow> 's \<Rightarrow> go_error option \<times> 's"

definition mem_drivers :: "driver_mem driver_ops" where
  "mem_drivers =
     \<lparr>dv_list = list_drivers, dv_get = get_driver, dv_by_id = get_driver_by_id, dv_upsert = upsert_driver,
      dv_delete = delete_driver\<rparr>"

section \<open>Drivers in the database\<close>

type_synonym 't driver_db = "(driver_record, 't) sql_db"

definition driver_unique :: "string list" where
  "driver_unique = [''tenant_id'', ''name'']"

definition driver_updates :: "string list" where
  "driver_updates = [''config_json'', ''enabled'', ''updated_at'']"

definition sql_list_drivers :: "'t driver_db \<Rightarrow> ctx \<Rightarrow> 't \<Rightarrow> driver_record list res" where
  "sql_list_drivers db c t =
     sd_find db \<lparr>sq_where = [(''tenant_id'', tenant_from_context c)], sq_order = [(''name'', False)], sq_limit = None\<rparr> t"

definition sql_get_driver :: "'t driver_db \<Rightarrow> ctx \<Rightarrow> string \<Rightarrow> 't \<Rightarrow> driver_record option res" where
  "sql_get_driver db c name0 t =
     (let name = trim_space name0 in
      if name = [] then Inl (Error ''name is required'')
      else sd_take db (where_is [(''name'', name), (''tenant_id'', tenant_from_context c)]) t)"

definition sql_get_driver_by_id :: "'t driver_db \<Rightarrow> ctx \<Rightarrow> string \<Rightarrow> 't \<Rightarrow> driver_record option res" where
  "sql_get_driver_by_id db c id0 t =
     (let rid = trim_space id0 in
      if rid = [] then Inl (Error ''id is required'')
      else sd_take db (where_is [(''id'', rid), (''tenant_id'', tenant_from_context c)]) t)"

definition driver_prepared :: "ctx \<Rightarrow> gtime \<times> gtime \<Rightarrow> driver_record \<Rightarrow> driver_record" where
  "driver_prepared c clk r0 =
     (let tenant = tenant_from_context c;
          r = r0\<lparr>dr_tenant := tenant, dr_id := trim_space (dr_id r0)\<rparr>;
          r = (if dr_id r = [] then r\<lparr>dr_id := (if tenant \<noteq> [] then tenant @ '':'' @ dr_name r else dr_name r)\<rparr> else r);
          r = (if is_zero (dr_created_at r) then r\<lparr>dr_created_at := fst clk\<rparr> else r)
      in r\<lparr>dr_updated_at := fst clk\<rparr>)"

definition sql_upsert_driver ::
  "'t driver_db \<Rightarrow> ctx \<Rightarrow> gtime \<times> gtime \<Rightarrow> driver_record \<Rightarrow> 't \<Rightarrow> driver_record res \<times> 't" where
  "sql_upsert_driver db c clk r t =
     (if dr_name r = [] then (Inl (Error ''name is required''), t)
      else sd_create db (Some (driver_unique, driver_updates)) (driver_prepared c clk r) t)"

definition sql_delete_driver :: "'t driver_db \<Rightarrow> ctx \<Rightarrow> string \<Rightarrow> 't \<Rightarrow> go_error option \<times> 't" where
  "sql_delete_driver db c name0 t =
     (let name = trim_space name0 in
      if name = [] then (Some (Error ''name is required''), t)
      else sd_delete db [(''name'', name), (''tenant_id'', tenant_from_context c)] t)"

definition sql_drivers :: "'t driver_db \<Rightarrow> 't driver_ops" where
  "sql_drivers db =
     \<lparr>dv_list = sql_list_drivers db, dv_get = sql_get_driver db, dv_by_id = sql_get_driver_by_id db,
      dv_upsert = sql_upsert_driver db, dv_delete = sql_delete_driver db\<rparr>"

text \<open>
  The table \<^verbatim>\<open>githook_drivers\<close>. gorm takes the column \<^verbatim>\<open>id\<close> as the primary key. The column \<^verbatim>\<open>enabled\<close> has
  the default true, and gorm puts a column's default in place of a zero value.
\<close>

definition driver_text :: "string \<Rightarrow> driver_record \<Rightarrow> string" where
  "driver_text column r =
     (if column = ''id'' then dr_id r else if column = ''tenant_id'' then dr_tenant r
      else if column = ''name'' then dr_name r else [])"

definition driver_copy :: "string \<Rightarrow> driver_record \<Rightarrow> driver_record \<Rightarrow> driver_record" where
  "driver_copy column r q =
     (if column = ''config_json'' then q\<lparr>dr_config_json := dr_config_json r\<rparr>
      else if column = ''enabled'' then q\<lparr>dr_enabled := dr_enabled r\<rparr>
      else if column = ''updated_at'' then q\<lparr>dr_updated_at := dr_updated_at r\<rparr> else q)"

definition driver_schema :: "driver_record schema" where
  "driver_schema =
     \<lparr>sh_text = driver_text, sh_copy = driver_copy, sh_set = (\<lambda>column v r. r), sh_touch = (\<lambda>now r. r\<lparr>dr_updated_at := now\<rparr>),
      sh_less = (\<lambda>column a b. column = ''name'' \<and> dr_name a < dr_name b),
      sh_unique = [[''id''], driver_unique, [''tenant_id'', ''id'']],
      sh_defaults = (\<lambda>r. if dr_enabled r then r else r\<lparr>dr_enabled := True\<rparr>), sh_nonzero = (\<lambda>r. [])\<rparr>"

abbreviation driver_rows :: "(driver_record, driver_record list) sql_db" where
  "driver_rows \<equiv> table_db driver_schema"

section \<open>The contract\<close>

definition driver_identity :: "driver_record \<Rightarrow> string \<times> string" where
  "driver_identity r = (dr_tenant r, dr_name r)"

definition driver_says :: "driver_record \<Rightarrow> string \<times> string \<times> string \<times> bool" where
  "driver_says r = (dr_tenant r, dr_name r, dr_config_json r, dr_enabled r)"

locale driver_table = driver_store "dv_by_id ops" "dv_list ops" inv for ops :: "'s driver_ops" and inv +
  assumes one_per_name: "inv s \<Longrightarrow> dv_list ops c s = Inr ds \<Longrightarrow> distinct (map dr_name ds)"
    and get_law: "inv s \<Longrightarrow> plain (tenant_from_context c) \<Longrightarrow> trim_space name = name \<Longrightarrow> name \<noteq> [] \<Longrightarrow>
        \<exists>found ds. dv_get ops c name s = Inr found \<and> dv_list ops c s = Inr ds \<and>
          (case found of None \<Rightarrow> \<forall>d \<in> set ds. dr_name d \<noteq> name | Some d \<Rightarrow> d \<in> set ds \<and> dr_name d = name)"
    and upsert_law: "inv s \<Longrightarrow> plain (tenant_from_context c) \<Longrightarrow> dr_enabled r \<Longrightarrow> dv_upsert ops c clk r s = (Inr r', s') \<Longrightarrow>
        inv s' \<and> driver_says r' = (tenant_from_context c, dr_name r, dr_config_json r, True) \<and>
        (\<exists>ds d. dv_list ops c s' = Inr ds \<and> d \<in> set ds \<and> driver_says d = driver_says r')"
    and upsert_other: "inv s \<Longrightarrow> plain (tenant_from_context c) \<Longrightarrow> dv_upsert ops c clk r s = (x, s') \<Longrightarrow>
        tenant_from_context c' \<noteq> tenant_from_context c \<Longrightarrow> dv_list ops c' s = Inr ds \<Longrightarrow>
        \<exists>ds'. dv_list ops c' s' = Inr ds' \<and> set ds' = set ds"
    and delete_law: "inv s \<Longrightarrow> plain (tenant_from_context c) \<Longrightarrow> trim_space name = name \<Longrightarrow> name \<noteq> [] \<Longrightarrow>
        \<exists>s'. dv_delete ops c name s = (None, s') \<and> inv s' \<and>
          (\<forall>c'. \<exists>ds ds'. dv_list ops c' s = Inr ds \<and> dv_list ops c' s' = Inr ds' \<and>
             set ds' = {d \<in> set ds. driver_identity d \<noteq> (tenant_from_context c, name)})"
begin

text \<open>A driver is found under the name it was stored with, and what was stored is what is found.\<close>

lemma stored_is_found:
  assumes "inv s" "plain (tenant_from_context c)" "dr_enabled r" "trim_space (dr_name r) = dr_name r" "dr_name r \<noteq> []"
    and "dv_upsert ops c clk r s = (Inr r', s')"
  shows "\<exists>d. dv_get ops c (dr_name r) s' = Inr (Some d) \<and> driver_says d = driver_says r'"
proof -
  from upsert_law [OF assms(1-3,6)] obtain ds d where s': "inv s'" "dv_list ops c s' = Inr ds" "d \<in> set ds"
      "driver_says d = driver_says r'" "dr_name d = dr_name r"
    by (auto simp: driver_says_def)
  from get_law [OF s'(1) assms(2,4,5)] s'(2) obtain found where
    found: "dv_get ops c (dr_name r) s' = Inr found" "case found of None \<Rightarrow> \<forall>d \<in> set ds. dr_name d \<noteq> dr_name r
       | Some d \<Rightarrow> d \<in> set ds \<and> dr_name d = dr_name r" by auto
  with s'(3,5) obtain e where e: "found = Some e" "e \<in> set ds" "dr_name e = dr_name d" by (auto split: option.splits)
  from one_per_name [OF s'(1,2)] e(2,3) s'(3) have "e = d" by (auto simp: distinct_map dest: inj_onD)
  with found(1) e(1) s'(4) show ?thesis by blast
qed

lemma deleted_is_not_found:
  assumes "inv s" "plain (tenant_from_context c)" "trim_space name = name" "name \<noteq> []" "dv_delete ops c name s = (err, s')"
  shows "dv_get ops c name s' = Inr None"
proof -
  from delete_law [OF assms(1-4)] assms(5) obtain ds ds' where s': "inv s'" "dv_list ops c s = Inr ds" "dv_list ops c s' = Inr ds'"
      "set ds' = {d \<in> set ds. driver_identity d \<noteq> (tenant_from_context c, name)}" by fastforce
  from list_ok [OF assms(1), of c] s'(2) have "\<forall>d \<in> set ds. dr_tenant d = tenant_from_context c" by simp
  with s'(4) have "\<forall>d \<in> set ds'. dr_name d \<noteq> name" by (auto simp: driver_identity_def)
  with get_law [OF s'(1) assms(2-4)] s'(3) show ?thesis by (auto split: option.splits)
qed

end

section \<open>Both stores keep it\<close>

definition driver_mem_ok :: "driver_mem \<Rightarrow> bool" where
  "driver_mem_ok m \<longleftrightarrow> driver_inv m \<and> (\<forall>r \<in> set (mvals m). plain (dr_tenant r))"

lemma driver_key_inj: "driver_key a b = driver_key a' b' \<Longrightarrow> plain a \<Longrightarrow> plain a' \<Longrightarrow> a = a' \<and> b = b'"
  by (rule append_sep_inj [of a "CHR ''|''" b]) (auto simp: driver_key_def plain_def)

lemma driver_mem_okD:
  assumes "driver_mem_ok m"
  shows "driver_inv m" "wf_map m" "mget m k = Some r \<Longrightarrow> k = driver_key (dr_tenant r) (dr_name r) \<and> plain (dr_tenant r)"
    "x \<in> set (mvals m) \<Longrightarrow> y \<in> set (mvals m) \<Longrightarrow> dr_tenant x = dr_tenant y \<Longrightarrow> x = y"
  using assms driver_inv_D [of m] by (auto simp: driver_mem_ok_def mget_iff in_mvals)

lemma mget_driver:
  assumes "driver_mem_ok m" "plain t"
  shows "mget m (driver_key t name) = Some d \<longleftrightarrow> d \<in> set (mvals m) \<and> driver_identity d = (t, name)"
proof
  assume "mget m (driver_key t name) = Some d"
  with driver_mem_okD(3) [OF assms(1) this] driver_key_inj [of "t" name "dr_tenant d" "dr_name d"] assms(2)
  show "d \<in> set (mvals m) \<and> driver_identity d = (t, name)"
    by (auto simp: driver_identity_def intro: mget_in_vals)
next
  assume "d \<in> set (mvals m) \<and> driver_identity d = (t, name)"
  then obtain k where "mget m k = Some d" "driver_identity d = (t, name)"
    using driver_mem_okD(2) [OF assms(1)] by (auto simp: in_mvals mget_iff)
  with driver_mem_okD(3) [OF assms(1)] show "mget m (driver_key t name) = Some d"
    by (auto simp: driver_identity_def)
qed

lemma upsert_driver_says:
  "upsert_driver c clk r m = (Inr r', m') \<Longrightarrow> driver_says r' = (tenant_from_context c, dr_name r, dr_config_json r, dr_enabled r)"
  by (auto simp: upsert_driver_def Let_def driver_says_def split: if_splits)

lemma mem_upsert_driver:
  assumes "driver_mem_ok m" "plain (tenant_from_context c)" "upsert_driver c clk r m = (x, m')"
  shows "\<exists>r'. x = Inr r' \<and> driver_says r' = (tenant_from_context c, dr_name r, dr_config_json r, dr_enabled r) \<and>
    driver_mem_ok m' \<and> set (mvals m') = insert r' {d \<in> set (mvals m). dr_tenant d \<noteq> tenant_from_context c}"
proof -
  let ?t = "tenant_from_context c"
  let ?m = "filter (\<lambda>(k, s). \<not> (dr_tenant s = ?t \<and> dr_name s \<noteq> dr_name r)) m"
  obtain r' where u: "upsert_driver c clk r m = (Inr r', mput (driver_key ?t (dr_name r)) r' ?m)"
    and says: "driver_says r' = (?t, dr_name r, dr_config_json r, dr_enabled r)"
    by (auto simp: upsert_driver_def Let_def driver_says_def)
  have wf: "wf_map ?m" using driver_mem_okD(2) [OF assms(1)] by simp
  have id': "driver_identity r' = (?t, dr_name r)" using says by (simp add: driver_identity_def driver_says_def)
  have key: "k = driver_key ?t (dr_name r) \<longleftrightarrow> driver_identity s = driver_identity r'" if "mget ?m k = Some s" for k s
  proof -
    from that have k: "mget m k = Some s" 
      unfolding mget_filter [OF driver_mem_okD(2) [OF assms(1)]] by (simp split: option.splits if_splits)
    from driver_mem_okD(3) [OF assms(1) k] have s: "k = driver_key (dr_tenant s) (dr_name s)" "plain (dr_tenant s)" by blast+
    show ?thesis
      unfolding id' unfolding driver_identity_def s(1) prod.inject using driver_key_inj [OF _ s(2) assms(2)] by metis
  qed
  have "set (mvals (mput (driver_key ?t (dr_name r)) r' ?m)) = insert r' {d \<in> set (mvals ?m). driver_identity d \<noteq> driver_identity r'}"
    using wf key by (rule set_mvals_mput)
  also have "set (mvals ?m) = {d \<in> set (mvals m). \<not> (dr_tenant d = ?t \<and> dr_name d \<noteq> dr_name r)}"
    by (rule set_mvals_filter)
  finally have vals: "set (mvals (mput (driver_key ?t (dr_name r)) r' ?m)) = insert r' {d \<in> set (mvals m). dr_tenant d \<noteq> ?t}"
    unfolding id' unfolding driver_identity_def prod.inject
    by (elim trans) (intro arg_cong [where f = "insert r'"], auto)
  have "driver_inv (mput (driver_key ?t (dr_name r)) r' ?m)"
    using driver_inv_upsert [OF driver_mem_okD(1) [OF assms(1)], of c clk r] by (simp add: u)
  then have ok: "driver_mem_ok (mput (driver_key ?t (dr_name r)) r' ?m)"
    using assms says unfolding driver_mem_ok_def vals by (simp add: driver_says_def)
  from assms(3) u ok says vals show ?thesis by auto
qed


lemma mem_delete_driver:
  assumes "driver_mem_ok m" "plain (tenant_from_context c)"
  shows "driver_mem_ok (snd (delete_driver c name m))"
    "set (mvals (snd (delete_driver c name m))) = {d \<in> set (mvals m). driver_identity d \<noteq> (tenant_from_context c, name)}"
proof -
  let ?m = "mdel (driver_key (tenant_from_context c) name) m"
  note wf = driver_mem_okD(2) [OF assms(1)]
  have "d \<in> set (mvals ?m) \<longleftrightarrow> d \<in> set (mvals m) \<and> driver_identity d \<noteq> (tenant_from_context c, name)" for d
  proof -
    have "k = driver_key (tenant_from_context c) name \<longleftrightarrow> driver_identity d = (tenant_from_context c, name)" if "mget m k = Some d" for k
    proof -
      from driver_mem_okD(3) [OF assms(1) that] have s: "k = driver_key (dr_tenant d) (dr_name d)" "plain (dr_tenant d)" by blast+
      show ?thesis
        unfolding driver_identity_def s(1) prod.inject using driver_key_inj [OF _ s(2) assms(2)] by metis
    qed
    then show ?thesis using wf by (auto simp: mvals_mget)
  qed
  then show vals: "set (mvals (snd (delete_driver c name m))) = {d \<in> set (mvals m). driver_identity d \<noteq> (tenant_from_context c, name)}"
    by (auto simp: delete_driver_def)
  show "driver_mem_ok (snd (delete_driver c name m))"
    using assms driver_inv_delete [OF driver_mem_okD(1) [OF assms(1)]] unfolding driver_mem_ok_def vals by simp
qed

lemma mem_drivers_sel:
  "dv_list mem_drivers = list_drivers" "dv_get mem_drivers = get_driver" "dv_by_id mem_drivers = get_driver_by_id"
  "dv_upsert mem_drivers = upsert_driver" "dv_delete mem_drivers = delete_driver"
  by (simp_all add: mem_drivers_def)

interpretation dmt: driver_table mem_drivers driver_mem_ok
proof
  fix s rid c
  assume s: "driver_mem_ok s" and "trim_space rid \<noteq> []"
  with dmem.get_by_id_ok [OF driver_mem_okD(1) [OF s]]
  show "\<exists>d. dv_by_id mem_drivers c rid s = Inr d \<and>
      (case d of None \<Rightarrow> \<forall>ds. dv_list mem_drivers c s = Inr ds \<longrightarrow> (\<forall>x \<in> set ds. dr_id x \<noteq> trim_space rid)
       | Some x \<Rightarrow> dr_id x = trim_space rid \<and> (\<forall>ds. dv_list mem_drivers c s = Inr ds \<longrightarrow> x \<in> set ds))"
    unfolding mem_drivers_sel by blast
next
  fix s c
  show "\<exists>ds. dv_list mem_drivers c s = Inr ds \<and> (\<forall>d \<in> set ds. dr_tenant d = tenant_from_context c)"
    by (simp add: mem_drivers_def list_drivers_def)
next
  fix s c ds
  assume s: "driver_mem_ok s" and "dv_list mem_drivers c s = Inr ds"
  then have "length ds \<le> 1"
    using driver_inv_unique [OF driver_mem_okD(1) [OF s]] by (auto simp: mem_drivers_def list_drivers_def)
  then show "distinct (map dr_name ds)" by (cases ds) auto
next
  fix s c name
  assume s: "driver_mem_ok s" and c: "plain (tenant_from_context c)"
  show "\<exists>found ds. dv_get mem_drivers c name s = Inr found \<and> dv_list mem_drivers c s = Inr ds \<and>
          (case found of None \<Rightarrow> \<forall>d \<in> set ds. dr_name d \<noteq> name | Some d \<Rightarrow> d \<in> set ds \<and> dr_name d = name)"
    using mget_driver [OF s c, of name]
    by (cases "mget s (driver_key (tenant_from_context c) name)")
       (auto simp: mem_drivers_def get_driver_def list_drivers_def driver_identity_def)
next
  fix s c r clk r' s'
  assume s: "driver_mem_ok s" and c: "plain (tenant_from_context c)" and r: "dr_enabled r"
    and u: "dv_upsert mem_drivers c clk r s = (Inr r', s')"
  from u have u': "upsert_driver c clk r s = (Inr r', s')" by (simp add: mem_drivers_def)
  from mem_upsert_driver [OF s c u'] have m: "driver_mem_ok s'" "r' \<in> set (mvals s')"
      "driver_says r' = (tenant_from_context c, dr_name r, dr_config_json r, dr_enabled r)"
    unfolding sum.inject by blast+
  note m(3) [unfolded eqTrueI [OF r]]
  moreover from this m(2) have "r' \<in> set (filter (\<lambda>d. dr_tenant d = tenant_from_context c) (mvals s'))"
    by (simp add: driver_says_def)
  ultimately show "driver_mem_ok s' \<and> driver_says r' = (tenant_from_context c, dr_name r, dr_config_json r, True) \<and>
        (\<exists>ds d. dv_list mem_drivers c s' = Inr ds \<and> d \<in> set ds \<and> driver_says d = driver_says r')"
    unfolding mem_drivers_sel list_drivers_def using m(1) by blast
next
  fix s c r clk x s' c' ds
  assume s: "driver_mem_ok s" and c: "plain (tenant_from_context c)" and c': "tenant_from_context c' \<noteq> tenant_from_context c"
    and u: "dv_upsert mem_drivers c clk r s = (x, s')" and ds: "dv_list mem_drivers c' s = Inr ds"
  from u have u': "upsert_driver c clk r s = (x, s')" by (simp add: mem_drivers_def)
  from mem_upsert_driver [OF s c u'] obtain r' where vals: "set (mvals s') = insert r' {d \<in> set (mvals s). dr_tenant d \<noteq> tenant_from_context c}"
    and says: "driver_says r' = (tenant_from_context c, dr_name r, dr_config_json r, dr_enabled r)" by blast
  from says have "dr_tenant r' = tenant_from_context c" by (simp add: driver_says_def)
  with c' have "x \<noteq> r' \<and> dr_tenant x \<noteq> tenant_from_context c" if "dr_tenant x = tenant_from_context c'" for x
    using that by metis
  then have "{x \<in> set (mvals s'). dr_tenant x = tenant_from_context c'} = {x \<in> set (mvals s). dr_tenant x = tenant_from_context c'}"
    unfolding vals insert_iff mem_Collect_eq by blast
  with ds show "\<exists>ds'. dv_list mem_drivers c' s' = Inr ds' \<and> set ds' = set ds"
    unfolding mem_drivers_sel list_drivers_def set_filter [symmetric] by blast
next
  fix s c name
  assume s: "driver_mem_ok s" and c: "plain (tenant_from_context c)"
  show "\<exists>s'. dv_delete mem_drivers c name s = (None, s') \<and> driver_mem_ok s' \<and>
          (\<forall>c'. \<exists>ds ds'. dv_list mem_drivers c' s = Inr ds \<and> dv_list mem_drivers c' s' = Inr ds' \<and>
             set ds' = {d \<in> set ds. driver_identity d \<noteq> (tenant_from_context c, name)})"
    using mem_delete_driver [OF s c, of name]
    by (auto simp: mem_drivers_def delete_driver_def list_drivers_def)
qed

lemma driver_columns [simp]:
  "same_columns driver_schema driver_unique r q \<longleftrightarrow> driver_identity r = driver_identity q"
  "sh_text driver_schema ''tenant_id'' r = dr_tenant r" "sh_text driver_schema ''name'' r = dr_name r"
  "sh_text driver_schema ''id'' r = dr_id r"
  by (auto simp: driver_unique_def driver_schema_def driver_text_def driver_identity_def)

lemma driver_copied:
  assumes "driver_identity r = driver_identity q"
  shows "driver_says (copy_columns driver_schema driver_updates r q) = driver_says r \<and>
    driver_identity (copy_columns driver_schema driver_updates r q) = driver_identity q"
  using assms by (cases q; cases r; simp add: driver_updates_def driver_schema_def driver_copy_def driver_says_def driver_identity_def)

definition driver_rows_ok :: "driver_record list \<Rightarrow> bool" where
  "driver_rows_ok t \<longleftrightarrow> distinct (map driver_identity t)"


lemma sql_drivers_sel:
  "dv_list (sql_drivers db) = sql_list_drivers db" "dv_get (sql_drivers db) = sql_get_driver db"
  "dv_by_id (sql_drivers db) = sql_get_driver_by_id db" "dv_upsert (sql_drivers db) = sql_upsert_driver db"
  "dv_delete (sql_drivers db) = sql_delete_driver db"
  by (simp_all add: sql_drivers_def)

lemma sql_listed_drivers:
  "\<exists>ds. sql_list_drivers driver_rows c t = Inr ds \<and> mset ds = mset (filter (\<lambda>d. dr_tenant d = tenant_from_context c) t) \<and>
     set ds = {d \<in> set t. dr_tenant d = tenant_from_context c}"
  by (auto simp: sql_list_drivers_def table_db_def find_rows_def)

lemma sql_get_driver_rows:
  assumes "trim_space name = name" "name \<noteq> []"
  shows "sql_get_driver driver_rows c name t =
     Inr (find (\<lambda>d. dr_name d = name \<and> dr_tenant d = tenant_from_context c) t)"
proof -
  have "row_holds driver_schema [(''name'', name), (''tenant_id'', tenant_from_context c)] =
      (\<lambda>d. dr_name d = name \<and> dr_tenant d = tenant_from_context c)"
    by (auto simp: fun_eq_iff)
  then show ?thesis using assms by (simp add: sql_get_driver_def take_where)
qed

lemma sql_upsert_rows:
  assumes "sql_upsert_driver driver_rows c clk r t = (Inr r', t')" "driver_rows_ok t"
  shows "driver_says r' = (tenant_from_context c, dr_name r, dr_config_json r, True)" "driver_rows_ok t'"
    "\<exists>d \<in> set t'. driver_says d = driver_says r'"
    "\<And>q. dr_tenant q \<noteq> tenant_from_context c \<Longrightarrow> q \<in> set t' \<longleftrightarrow> q \<in> set t"
proof -
  let ?p = "driver_prepared c clk r"
  have p: "dr_tenant ?p = tenant_from_context c" "dr_name ?p = dr_name r" "dr_config_json ?p = dr_config_json r"
    by (simp_all add: driver_prepared_def Let_def)
  have "create_row driver_schema (Some (driver_unique, driver_updates)) ?p t = (Inr r', t')"
    using assms(1) by (simp add: sql_upsert_driver_def table_db_def split: if_splits)
  note created = create_row_keyed [OF this refl, where ident = driver_identity and content = driver_says,
      OF driver_columns(1) driver_copied]
  have d: "driver_says (sh_defaults driver_schema ?p) = (tenant_from_context c, dr_name r, dr_config_json r, True)"
    by (simp add: driver_schema_def driver_says_def p)
  have i: "driver_identity (sh_defaults driver_schema ?p) = (tenant_from_context c, dr_name r)"
    by (simp add: driver_schema_def driver_identity_def p)
  show "driver_says r' = (tenant_from_context c, dr_name r, dr_config_json r, True)" using created(1) d by simp
  show "driver_rows_ok t'" using created(2) assms(2) by (simp add: driver_rows_ok_def)
  show "\<exists>d \<in> set t'. driver_says d = driver_says r'" using created(1,3) by simp
  show "q \<in> set t' \<longleftrightarrow> q \<in> set t" if "dr_tenant q \<noteq> tenant_from_context c" for q
  proof -
    have "driver_identity q \<noteq> driver_identity (sh_defaults driver_schema ?p)"
      unfolding i using that by (simp add: driver_identity_def)
    then show ?thesis by (rule created(5) [rotated])
  qed
qed

lemma find_found: "case find P ds of None \<Rightarrow> \<forall>d \<in> set ds. \<not> P d | Some d \<Rightarrow> d \<in> set ds \<and> P d"
  by (auto simp: find_None_iff dest: find_Some_D split: option.split)

interpretation dst: driver_table "sql_drivers driver_rows" driver_rows_ok
proof
  fix s rid c
  assume "trim_space rid \<noteq> []"
  moreover have "row_holds driver_schema [(''id'', trim_space rid), (''tenant_id'', tenant_from_context c)] =
      (\<lambda>d. dr_id d = trim_space rid \<and> dr_tenant d = tenant_from_context c)"
    by (auto simp: fun_eq_iff)
  ultimately have found: "sql_get_driver_by_id driver_rows c rid s = Inr (find (\<lambda>d. dr_id d = trim_space rid \<and> dr_tenant d = tenant_from_context c) s)"
    by (simp add: sql_get_driver_by_id_def take_where Let_def)
  from sql_listed_drivers [of c s] obtain ds where ds: "sql_list_drivers driver_rows c s = Inr ds"
      "set ds = {d \<in> set s. dr_tenant d = tenant_from_context c}" by blast
  let ?P = "\<lambda>d. dr_id d = trim_space rid \<and> dr_tenant d = tenant_from_context c"
  have "case find ?P s of None \<Rightarrow> \<forall>x \<in> set ds. dr_id x \<noteq> trim_space rid | Some x \<Rightarrow> dr_id x = trim_space rid \<and> x \<in> set ds"
    unfolding ds(2) using find_found [where P = ?P and ds = s] by (cases "find ?P s") (simp_all del: find_None_iff, blast+)
  then show "\<exists>d. dv_by_id (sql_drivers driver_rows) c rid s = Inr d \<and>
      (case d of None \<Rightarrow> \<forall>ds. dv_list (sql_drivers driver_rows) c s = Inr ds \<longrightarrow> (\<forall>x \<in> set ds. dr_id x \<noteq> trim_space rid)
       | Some x \<Rightarrow> dr_id x = trim_space rid \<and> (\<forall>ds. dv_list (sql_drivers driver_rows) c s = Inr ds \<longrightarrow> x \<in> set ds))"
    unfolding sql_drivers_sel found ds(1) by (auto split: option.splits)
next
  fix s c
  show "\<exists>ds. dv_list (sql_drivers driver_rows) c s = Inr ds \<and> (\<forall>d \<in> set ds. dr_tenant d = tenant_from_context c)"
    using sql_listed_drivers [of c s] by (auto simp: sql_drivers_sel)
next
  fix s c ds
  assume s: "driver_rows_ok s" and "dv_list (sql_drivers driver_rows) c s = Inr ds"
  with sql_listed_drivers [of c s] have ds: "mset ds = mset (filter (\<lambda>d. dr_tenant d = tenant_from_context c) s)"
      "\<forall>d \<in> set ds. dr_tenant d = tenant_from_context c"
    by (auto simp: sql_drivers_sel)
  have "distinct (map driver_identity (filter (\<lambda>d. dr_tenant d = tenant_from_context c) s))"
    using s by (simp add: driver_rows_ok_def distinct_map_filter)
  then have "distinct (map driver_identity ds)"
    using mset_map [of driver_identity ds] mset_map [of driver_identity "filter (\<lambda>d. dr_tenant d = tenant_from_context c) s"]
    by (metis ds(1) mset_eq_imp_distinct_iff)
  with ds(2) show "distinct (map dr_name ds)"
    by (auto simp: distinct_map inj_on_def driver_identity_def)
next
  fix s c name
  assume n: "trim_space name = name" "name \<noteq> []"
  let ?P = "\<lambda>d. dr_name d = name \<and> dr_tenant d = tenant_from_context c"
  from sql_listed_drivers [of c s] obtain ds where ds: "sql_list_drivers driver_rows c s = Inr ds"
      "set ds = {d \<in> set s. dr_tenant d = tenant_from_context c}" by blast
  have "case find ?P s of None \<Rightarrow> \<forall>d \<in> set ds. dr_name d \<noteq> name | Some d \<Rightarrow> d \<in> set ds \<and> dr_name d = name"
    unfolding ds(2) using find_found [where P = ?P and ds = s] by (cases "find ?P s") (simp_all del: find_None_iff, blast+)
  with ds(1) show "\<exists>found ds. dv_get (sql_drivers driver_rows) c name s = Inr found \<and> dv_list (sql_drivers driver_rows) c s = Inr ds \<and>
          (case found of None \<Rightarrow> \<forall>d \<in> set ds. dr_name d \<noteq> name | Some d \<Rightarrow> d \<in> set ds \<and> dr_name d = name)"
    unfolding sql_drivers_sel sql_get_driver_rows [OF n] by blast
next
  fix s c r clk r' s'
  assume s: "driver_rows_ok s" and "dv_upsert (sql_drivers driver_rows) c clk r s = (Inr r', s')"
  then have "sql_upsert_driver driver_rows c clk r s = (Inr r', s')" by (simp add: sql_drivers_sel)
  note up = sql_upsert_rows [OF this s]
  from up(3) obtain d where d: "d \<in> set s'" "driver_says d = driver_says r'" by blast
  from sql_listed_drivers [of c s'] obtain ds where ds: "sql_list_drivers driver_rows c s' = Inr ds"
      "set ds = {d \<in> set s'. dr_tenant d = tenant_from_context c}" by blast
  from d up(1) have "d \<in> set ds" unfolding ds(2) by (simp add: driver_says_def)
  with up(1,2) d ds show "driver_rows_ok s' \<and> driver_says r' = (tenant_from_context c, dr_name r, dr_config_json r, True) \<and>
        (\<exists>ds d. dv_list (sql_drivers driver_rows) c s' = Inr ds \<and> d \<in> set ds \<and> driver_says d = driver_says r')"
    unfolding sql_drivers_sel by blast
next
  fix s c r clk x s' c' ds
  assume s: "driver_rows_ok s" and c': "tenant_from_context c' \<noteq> tenant_from_context c"
    and u: "dv_upsert (sql_drivers driver_rows) c clk r s = (x, s')" and ds: "dv_list (sql_drivers driver_rows) c' s = Inr ds"
  have other: "q \<in> set s' \<longleftrightarrow> q \<in> set s" if "dr_tenant q = tenant_from_context c'" for q
  proof (cases x)
    case (Inl err)
    with u have "s' = s"
      by (auto simp: sql_drivers_sel sql_upsert_driver_def table_db_def create_row_def Let_def split: if_splits)
    then show ?thesis by simp
  next
    case (Inr r')
    with u have "sql_upsert_driver driver_rows c clk r s = (Inr r', s')" by (simp add: sql_drivers_sel)
    from sql_upsert_rows(4) [OF this s] that c' show ?thesis by metis
  qed
  from sql_listed_drivers [of c' s] ds have "set ds = {d \<in> set s. dr_tenant d = tenant_from_context c'}"
    by (auto simp: sql_drivers_sel)
  moreover from sql_listed_drivers [of c' s'] obtain ds' where "sql_list_drivers driver_rows c' s' = Inr ds'"
      "set ds' = {d \<in> set s'. dr_tenant d = tenant_from_context c'}" by blast
  ultimately show "\<exists>ds'. dv_list (sql_drivers driver_rows) c' s' = Inr ds' \<and> set ds' = set ds"
    unfolding sql_drivers_sel using other by blast
next
  fix s c name
  assume s: "driver_rows_ok s" and n: "trim_space name = name" "name \<noteq> []"
  let ?s = "filter (\<lambda>d. driver_identity d \<noteq> (tenant_from_context c, name)) s"
  have del: "sql_delete_driver driver_rows c name s = (None, ?s)"
    using n by (auto simp: sql_delete_driver_def table_db_def driver_identity_def intro!: filter_cong)
  have "driver_rows_ok ?s" using s by (simp add: driver_rows_ok_def distinct_map_filter)
  moreover have "\<exists>ds ds'. sql_list_drivers driver_rows c' s = Inr ds \<and> sql_list_drivers driver_rows c' ?s = Inr ds' \<and>
             set ds' = {d \<in> set ds. driver_identity d \<noteq> (tenant_from_context c, name)}" for c'
    using sql_listed_drivers [of c' s] sql_listed_drivers [of c' ?s] by fastforce
  ultimately show "\<exists>s'. dv_delete (sql_drivers driver_rows) c name s = (None, s') \<and> driver_rows_ok s' \<and>
          (\<forall>c'. \<exists>ds ds'. dv_list (sql_drivers driver_rows) c' s = Inr ds \<and> dv_list (sql_drivers driver_rows) c' s' = Inr ds' \<and>
             set ds' = {d \<in> set ds. driver_identity d \<noteq> (tenant_from_context c, name)})"
    unfolding sql_drivers_sel del by blast
qed


end
