(* ===== verification/Driver_Service.thy ===== *)
theory Driver_Service
  imports Driver_Stores Api_Common
begin

text \<open>
  The driver service of the API (\<^verbatim>\<open>pkg/api/drivers_service.go\<close>): the calls over an interface of driver
  stores, and the cache of publishers that is refreshed after a change. The cache reads the store of the
  service, as \<^verbatim>\<open>pkg/server\<close> wires it. The time limit of a refresh is what \<^verbatim>\<open>pl_ctx_err\<close> of the library
  answers. Log lines are left out.
\<close>

section \<open>The service\<close>

record ('p, 's) drivers_service =
  ds_store :: "'s driver_ops option"
  ds_lib :: "'p pub_lib"
  ds_factories :: "'p factories"
  ds_codec :: driver_codec

record ('p, 's) drivers_state =
  dt_store :: 's
  dt_cache :: "'p driver_cache option"
  dt_world :: "'p world"

definition refresh_drivers ::
  "('p, 's) drivers_service \<Rightarrow> ctx \<Rightarrow> ('p, 's) drivers_state \<Rightarrow> go_error option \<times> ('p, 's) drivers_state" where
  "refresh_drivers S c st =
     (case dt_cache st of
        None \<Rightarrow> (None, st)
      | Some dc \<Rightarrow>
          (case refresh (ds_lib S) (ds_factories S) (ds_codec S) c
                  (dc\<lparr>dc_store := map_option (\<lambda>ops c'. dv_list ops c' (dt_store st)) (ds_store S)\<rparr>) (dt_world st) of
             ((err, dc'), w') \<Rightarrow> (err, st\<lparr>dt_cache := Some dc', dt_world := w'\<rparr>)))"

definition list_drivers_rpc :: "('p, 's) drivers_service \<Rightarrow> ctx \<Rightarrow> ('p, 's) drivers_state \<Rightarrow> driver_msg list rpc" where
  "list_drivers_rpc S c st =
     (case ds_store S of
        None \<Rightarrow> rpc_fail CodeFailedPrecondition ''storage not configured''
      | Some ops \<Rightarrow>
          (case dv_list ops c (dt_store st) of
             Inl err \<Rightarrow> rpc_fail CodeInternal ''list drivers failed''
           | Inr rs \<Rightarrow> Inr (to_proto_driver_records rs)))"

definition get_driver_rpc :: "('p, 's) drivers_service \<Rightarrow> ctx \<Rightarrow> string \<Rightarrow> ('p, 's) drivers_state \<Rightarrow> driver_msg rpc" where
  "get_driver_rpc S c name st =
     (case ds_store S of
        None \<Rightarrow> rpc_fail CodeFailedPrecondition ''storage not configured''
      | Some ops \<Rightarrow>
          (case dv_get ops c (trim_space name) (dt_store st) of
             Inl err \<Rightarrow> rpc_fail CodeInternal ''get driver failed''
           | Inr None \<Rightarrow> rpc_fail CodeNotFound ''driver not found''
           | Inr (Some r) \<Rightarrow> Inr (to_proto_driver_record r)))"

definition validate_driver_config :: "'p factories \<Rightarrow> driver_codec \<Rightarrow> string \<Rightarrow> string \<Rightarrow> go_error option" where
  "validate_driver_config fs codec name config_json =
     (if name = [] then Some (Error ''driver name is required'')
      else case config_from_driver codec name config_json of
             Inl err \<Rightarrow> Some err
           | Inr cfg \<Rightarrow> validate_publisher_config fs cfg)"

definition driver_of_msg :: "driver_msg \<Rightarrow> driver_record" where
  "driver_of_msg m =
     \<lparr>dr_tenant = [], dr_id = trim_space (dg_id m), dr_name = trim_space (dg_name m),
      dr_config_json = trim_space (dg_config_json m), dr_enabled = dg_enabled m, dr_created_at = 0, dr_updated_at = 0\<rparr>"

definition upsert_driver_rpc ::
  "('p, 's) drivers_service \<Rightarrow> gtime \<times> gtime \<Rightarrow> ctx \<Rightarrow> driver_msg \<Rightarrow> ('p, 's) drivers_state \<Rightarrow>
     driver_msg rpc \<times> ('p, 's) drivers_state" where
  "upsert_driver_rpc S clk c m st =
     (case ds_store S of
        None \<Rightarrow> (rpc_fail CodeFailedPrecondition ''storage not configured'', st)
      | Some ops \<Rightarrow>
          (case validate_driver_config (ds_factories S) (ds_codec S) (trim_space (dg_name m)) (trim_space (dg_config_json m)) of
             Some err \<Rightarrow> (Inl (CodeInvalidArgument, err), st)
           | None \<Rightarrow>
               (case dv_upsert ops c clk (driver_of_msg m) (dt_store st) of
                  (Inl err, s') \<Rightarrow> (rpc_fail CodeInternal ''upsert driver failed'', st\<lparr>dt_store := s'\<rparr>)
                | (Inr r, s') \<Rightarrow> (Inr (to_proto_driver_record r), snd (refresh_drivers S c (st\<lparr>dt_store := s'\<rparr>))))))"

definition delete_driver_rpc ::
  "('p, 's) drivers_service \<Rightarrow> ctx \<Rightarrow> string \<Rightarrow> ('p, 's) drivers_state \<Rightarrow> unit rpc \<times> ('p, 's) drivers_state" where
  "delete_driver_rpc S c name st =
     (case ds_store S of
        None \<Rightarrow> (rpc_fail CodeFailedPrecondition ''storage not configured'', st)
      | Some ops \<Rightarrow>
          (case dv_delete ops c (trim_space name) (dt_store st) of
             (Some err, s') \<Rightarrow> (rpc_fail CodeInternal ''delete driver failed'', st\<lparr>dt_store := s'\<rparr>)
           | (None, s') \<Rightarrow> (Inr (), snd (refresh_drivers S c (st\<lparr>dt_store := s'\<rparr>)))))"

section \<open>A change reaches the cache\<close>

lemma refresh_drivers_store: "dt_store (snd (refresh_drivers S c st)) = dt_store st"
  by (simp add: refresh_drivers_def split: option.split prod.split)

text \<open>The drivers of a configuration are those of the enabled records.\<close>

lemma config_loop_drivers:
  "config_loop codec rs cfg = Inr cfg' \<Longrightarrow>
     rb_drivers cfg' = rb_drivers cfg @ map (\<lambda>r. to_lower (trim_space (dr_name r)))
       (filter (\<lambda>r. dr_enabled r \<and> to_lower (trim_space (dr_name r)) \<noteq> []) rs)"
proof (induction rs arbitrary: cfg)
  case (Cons r rs)
  have keep: "apply_driver_config codec name raw cfg = Inr cfg1 \<Longrightarrow> rb_drivers cfg1 = rb_drivers cfg" for name raw cfg1
    by (auto simp: apply_driver_config_def Let_def bind_res_Inr_iff split: if_splits)
  show ?case
    using Cons.prems by (auto simp: Let_def bind_res_Inr_iff keep Cons.IH split: if_splits)
qed simp

lemma config_from_records_drivers:
  "config_from_records codec base rs = Inr cfg \<Longrightarrow>
     set (rb_drivers cfg) = {to_lower (trim_space (dr_name r)) |r. r \<in> set rs \<and> dr_enabled r \<and> to_lower (trim_space (dr_name r)) \<noteq> []}"
  by (auto simp: config_from_records_def dest!: config_loop_drivers)

lemma refresh_tenant_result:
  "refresh_tenant lib fs codec key rs dc w = ((Some err, dc'), w') \<Longrightarrow> dc' = dc"
  "refresh_tenant lib fs codec key rs dc w = ((None, dc'), w') \<Longrightarrow>
     \<exists>cfg. config_from_records codec (dc_base dc) rs = Inr cfg \<and>
       (rb_drivers cfg \<noteq> [] \<longrightarrow> tc_get (dc_config dc') = (tc_get (dc_config dc))(key \<mapsto> cfg) \<and>
          (\<exists>p. tc_get (dc_pub dc') = (tc_get (dc_pub dc))(key \<mapsto> p) \<and> fst (new_publisher lib fs cfg w) = Inr p))"
  by (auto simp: refresh_tenant_def tc_get_update split: sum.splits prod.splits if_splits)

lemma refresh_drivers_result:
  assumes "ds_store S = Some ops" "dt_cache st = Some dc" "dv_list ops c (dt_store st) = Inr ds"
    and "refresh_drivers S c st = (err, st')"
  shows "\<exists>dc'. dt_cache st' = Some dc' \<and> (err \<noteq> None \<longrightarrow> dc_config dc' = dc_config dc \<and> dc_pub dc' = dc_pub dc) \<and>
    (err = None \<longrightarrow> (\<exists>cfg. config_from_records (ds_codec S) (dc_base dc) ds = Inr cfg \<and>
       (rb_drivers cfg \<noteq> [] \<longrightarrow> tc_get (dc_config dc') = (tc_get (dc_config dc))(cache_key_from_context c \<mapsto> cfg) \<and>
          (\<exists>p. tc_get (dc_pub dc') = (tc_get (dc_pub dc))(cache_key_from_context c \<mapsto> p) \<and>
             fst (new_publisher (ds_lib S) (ds_factories S) cfg (dt_world st)) = Inr p))))"
proof -
  let ?dc = "dc\<lparr>dc_store := Some (\<lambda>c'. dv_list ops c' (dt_store st))\<rparr>"
  obtain dc' w' where r: "refresh_tenant (ds_lib S) (ds_factories S) (ds_codec S) (cache_key_from_context c) ds ?dc (dt_world st) = ((err, dc'), w')"
      "st' = st\<lparr>dt_cache := Some dc', dt_world := w'\<rparr>"
    using assms by (auto simp: refresh_drivers_def refresh_def split: prod.splits)
  show ?thesis
  proof (intro exI [of _ dc'] conjI impI)
    show "dt_cache st' = Some dc'" by (simp add: r(2))
    assume "err \<noteq> None"
    then show "dc_config dc' = dc_config dc" "dc_pub dc' = dc_pub dc"
      using r(1) refresh_tenant_result(1) by fastforce+
  qed (use r(1) refresh_tenant_result(2) [of "ds_lib S" "ds_factories S" "ds_codec S" "cache_key_from_context c" ds ?dc] in auto)
qed

context driver_table begin

text \<open>A driver that was accepted is stored, and either the refresh failed or the cache has it.\<close>

lemma accepted_driver_cached:
  assumes "ds_store S = Some ops" "inv (dt_store st)" "plain (tenant_from_context c)" "dt_cache st = Some dc" "dg_enabled m"
    and "upsert_driver_rpc S clk c m st = (Inr msg, st')"
  shows "\<exists>ds d dc'. dv_list ops c (dt_store st') = Inr ds \<and> d \<in> set ds \<and>
     driver_says d = (tenant_from_context c, trim_space (dg_name m), trim_space (dg_config_json m), True) \<and> dt_cache st' = Some dc' \<and>
     (if fst (refresh_drivers S c (st\<lparr>dt_store := dt_store st'\<rparr>)) = None
      then \<exists>cfg p. config_from_records (ds_codec S) (dc_base dc) ds = Inr cfg \<and>
        to_lower (trim_space (dg_name m)) \<in> set (rb_drivers cfg) \<and>
        tc_get (dc_config dc') = (tc_get (dc_config dc))(cache_key_from_context c \<mapsto> cfg) \<and>
        tc_get (dc_pub dc') = (tc_get (dc_pub dc))(cache_key_from_context c \<mapsto> p) \<and>
        fst (new_publisher (ds_lib S) (ds_factories S) cfg (dt_world st)) = Inr p
      else dc_config dc' = dc_config dc \<and> dc_pub dc' = dc_pub dc)"
proof -
  from assms(1,6) obtain r' s' where v: "validate_driver_config (ds_factories S) (ds_codec S) (trim_space (dg_name m)) (trim_space (dg_config_json m)) = None"
    and u: "dv_upsert ops c clk (driver_of_msg m) (dt_store st) = (Inr r', s')"
    and st': "st' = snd (refresh_drivers S c (st\<lparr>dt_store := s'\<rparr>))"
    by (auto simp: upsert_driver_rpc_def rpc_fail_def split: option.splits sum.splits prod.splits)
  have s': "dt_store st' = s'" by (simp add: st' refresh_drivers_store)
  have "dr_enabled (driver_of_msg m)" using assms(5) by (simp add: driver_of_msg_def)
  from upsert_law [OF assms(2,3) this u] obtain ds d where ds: "dv_list ops c s' = Inr ds" "d \<in> set ds"
      and d: "driver_says d = (tenant_from_context c, trim_space (dg_name m), trim_space (dg_config_json m), True)"
    by (auto simp: driver_of_msg_def)
  define st1 where "st1 = st\<lparr>dt_store := s'\<rparr>"
  have st1: "dt_cache st1 = Some dc" "dt_store st1 = s'" "dt_world st1 = dt_world st" by (simp_all add: st1_def assms(4))
  obtain err where err: "refresh_drivers S c st1 = (err, st')" unfolding st' st1_def by (metis prod.collapse)
  from refresh_drivers_result [OF assms(1) st1(1) _ err, unfolded st1, OF ds(1)] obtain dc' where
    dc': "dt_cache st' = Some dc'" "err \<noteq> None \<longrightarrow> dc_config dc' = dc_config dc \<and> dc_pub dc' = dc_pub dc"
    "err = None \<longrightarrow> (\<exists>cfg. config_from_records (ds_codec S) (dc_base dc) ds = Inr cfg \<and>
       (rb_drivers cfg \<noteq> [] \<longrightarrow> tc_get (dc_config dc') = (tc_get (dc_config dc))(cache_key_from_context c \<mapsto> cfg) \<and>
          (\<exists>p. tc_get (dc_pub dc') = (tc_get (dc_pub dc))(cache_key_from_context c \<mapsto> p) \<and>
             fst (new_publisher (ds_lib S) (ds_factories S) cfg (dt_world st)) = Inr p)))" by blast
  have name: "trim_space (dg_name m) \<noteq> []" using v by (auto simp: validate_driver_config_def split: if_splits)
  have "to_lower (trim_space (dg_name m)) \<in> set (rb_drivers cfg) \<and> rb_drivers cfg \<noteq> []"
    if "config_from_records (ds_codec S) (dc_base dc) ds = Inr cfg" for cfg
  proof -
    have "dr_name d = trim_space (dg_name m)" "dr_enabled d" using d by (simp_all add: driver_says_def)
    with config_from_records_drivers [OF that] ds(2) name
    have "to_lower (trim_space (dg_name m)) \<in> set (rb_drivers cfg)"
      by (auto simp: intro!: exI [of _ d])
    then show ?thesis by auto
  qed
  note names = this
  have fst_err: "fst (refresh_drivers S c (st\<lparr>dt_store := dt_store st'\<rparr>)) = err"
    unfolding s' st1_def [symmetric] err by simp
  show ?thesis
  proof (cases err)
    case None
    with dc'(3) names obtain cfg p where "config_from_records (ds_codec S) (dc_base dc) ds = Inr cfg"
        "to_lower (trim_space (dg_name m)) \<in> set (rb_drivers cfg)"
        "tc_get (dc_config dc') = (tc_get (dc_config dc))(cache_key_from_context c \<mapsto> cfg)"
        "tc_get (dc_pub dc') = (tc_get (dc_pub dc))(cache_key_from_context c \<mapsto> p)"
        "fst (new_publisher (ds_lib S) (ds_factories S) cfg (dt_world st)) = Inr p" by blast
    with None dc'(1) ds d show ?thesis unfolding fst_err unfolding s' by auto
  next
    case (Some e)
    with dc' ds d show ?thesis unfolding fst_err unfolding s' by auto
  qed
qed

end


section \<open>Properties\<close>


text \<open>
  A driver kept in the database cannot be disabled. Whatever the request asks for, the answer of
  \<^verbatim>\<open>UpsertDriver\<close> says that the driver is enabled and so does every stored driver of that name, because
  gorm writes the default of the column in place of \<^verbatim>\<open>false\<close>. The store in memory does what is asked.
\<close>

theorem sql_driver_stays_enabled:
  assumes "ds_store S = Some (sql_drivers driver_rows)" "driver_rows_ok (dt_store st)"
    and "upsert_driver_rpc S clk c m st = (Inr msg, st')"
    and "ds_store M = Some mem_drivers" "upsert_driver_rpc M clk c m mt = (Inr mem_msg, mt')"
  shows "dg_enabled msg \<and>
     (\<forall>d \<in> set (dt_store st'). driver_identity d = (tenant_from_context c, trim_space (dg_name m)) \<longrightarrow> dr_enabled d) \<and>
     dg_enabled mem_msg = dg_enabled m"
proof -
  from assms(1,3) obtain r' s' where u: "sql_upsert_driver driver_rows c clk (driver_of_msg m) (dt_store st) = (Inr r', s')"
    and st': "st' = snd (refresh_drivers S c (st\<lparr>dt_store := s'\<rparr>))" and msg: "msg = to_proto_driver_record r'"
    by (auto simp: upsert_driver_rpc_def rpc_fail_def sql_drivers_sel split: option.splits sum.splits prod.splits)
  have s': "dt_store st' = s'" by (simp add: st' refresh_drivers_store)
  note rows = sql_upsert_rows [OF u assms(2)]
  from rows(3) obtain d where d: "d \<in> set s'" "driver_says d = driver_says r'" by blast
  have "dr_enabled e" if "e \<in> set s'" "driver_identity e = (tenant_from_context c, trim_space (dg_name m))" for e
  proof -
    from that(2) d(2) rows(1) have "driver_identity e = driver_identity d"
      by (simp add: driver_identity_def driver_says_def driver_of_msg_def)
    with rows(2) that(1) d(1) have "e = d" by (auto simp: driver_rows_ok_def distinct_map dest: inj_onD)
    with d(2) rows(1) show ?thesis by (simp add: driver_says_def)
  qed
  moreover have "dg_enabled msg" using rows(1) by (simp add: msg to_proto_driver_record_def driver_says_def)
  moreover have "dg_enabled mem_msg = dg_enabled m"
    using assms(4,5) upsert_driver_says [of c clk "driver_of_msg m" "dt_store mt"]
    by (auto simp: upsert_driver_rpc_def rpc_fail_def mem_drivers_sel to_proto_driver_record_def driver_says_def driver_of_msg_def
        split: option.splits sum.splits prod.splits)
  ultimately show ?thesis unfolding s' by blast
qed


text \<open>A service on an empty table, and a request for a driver of HTTP.\<close>

definition http_message :: "bool \<Rightarrow> driver_msg" where
  "http_message enabled =
     \<lparr>dg_id = [], dg_name = ''http'', dg_config_json = ''{}'', dg_enabled = enabled, dg_created_at = None, dg_updated_at = None\<rparr>"

lemma http_accepted:
  assumes "ds_codec S = sample_codec"
  shows "validate_driver_config (ds_factories S) (ds_codec S) (trim_space (dg_name (http_message e)))
     (trim_space (dg_config_json (http_message e))) = None"
proof -
  have t: "trim_space ''{}'' = ''{}''" "trim_space ''http'' = ''http''" "to_lower ''http'' = ''http''" by code_simp+
  have "trim_space (hc_endpoint (rb_http sample_relaybus)) \<noteq> []" by code_simp
  then show ?thesis
    by (simp add: validate_driver_config_def http_message_def assms t config_from_driver_def apply_driver_config_def
        unmarshal_json_def sample_codec_def zero_relaybus_def validate_publisher_config_def config_drivers_def
        validate_publisher_driver_def Let_def)
qed

lemma http_stored:
  assumes "ds_store S = Some (sql_drivers driver_rows)" "ds_codec S = sample_codec" "dt_store st = []"
  obtains msg st' where "upsert_driver_rpc S (0, 0) c (http_message e) st = (Inr msg, st')"
proof -
  have "trim_space ''http'' \<noteq> []" by code_simp
  then have "\<exists>r s'. sql_upsert_driver driver_rows c (0, 0) (driver_of_msg (http_message e)) [] = (Inr r, s')"
    by (simp add: sql_upsert_driver_def driver_of_msg_def http_message_def table_db_def create_row_def duplicate_of_def driver_schema_def Let_def)
  then show ?thesis
    using that http_accepted [OF assms(2), of e] assms(1,3)
    by (auto simp: upsert_driver_rpc_def sql_drivers_sel)
qed



theorem sql_driver_stays_enabled_witness:
  "\<forall>(S :: (string, driver_record list) drivers_service) (M :: (string, driver_mem) drivers_service) st mt.
     \<exists>msg mem_msg.
       fst (upsert_driver_rpc (S\<lparr>ds_store := Some (sql_drivers driver_rows), ds_codec := sample_codec\<rparr>) (0, 0) ''acme''
         (http_message False) (st\<lparr>dt_store := []\<rparr>)) = Inr msg \<and> dg_enabled msg \<and>
       fst (upsert_driver_rpc (M\<lparr>ds_store := Some mem_drivers, ds_codec := sample_codec\<rparr>) (0, 0) ''acme''
         (http_message False) (mt\<lparr>dt_store := []\<rparr>)) = Inr mem_msg \<and> \<not> dg_enabled mem_msg"
proof (intro allI)
  fix S :: "(string, driver_record list) drivers_service" and M :: "(string, driver_mem) drivers_service"
    and st :: "(string, driver_record list) drivers_state" and mt :: "(string, driver_mem) drivers_state"
  let ?S = "S\<lparr>ds_store := Some (sql_drivers driver_rows), ds_codec := sample_codec\<rparr>"
  let ?M = "M\<lparr>ds_store := Some mem_drivers, ds_codec := sample_codec\<rparr>"
  obtain msg st' where u: "upsert_driver_rpc ?S (0, 0) ''acme'' (http_message False) (st\<lparr>dt_store := []\<rparr>) = (Inr msg, st')"
    by (rule http_stored [of ?S "st\<lparr>dt_store := []\<rparr>"]) simp_all
  obtain r s' where "upsert_driver ''acme'' (0, 0) (driver_of_msg (http_message False)) [] = (Inr r, s')"
    by (auto simp: upsert_driver_def Let_def)
  then obtain mem_msg mt' where v: "upsert_driver_rpc ?M (0, 0) ''acme'' (http_message False) (mt\<lparr>dt_store := []\<rparr>) = (Inr mem_msg, mt')"
    using http_accepted [of ?M False] by (simp add: upsert_driver_rpc_def mem_drivers_sel)
  from sql_driver_stays_enabled [OF _ _ u _ v] have "dg_enabled msg" "\<not> dg_enabled mem_msg"
    by (simp_all add: driver_rows_ok_def http_message_def)
  with u v show "\<exists>msg mem_msg.
       fst (upsert_driver_rpc ?S (0, 0) ''acme'' (http_message False) (st\<lparr>dt_store := []\<rparr>)) = Inr msg \<and> dg_enabled msg \<and>
       fst (upsert_driver_rpc ?M (0, 0) ''acme'' (http_message False) (mt\<lparr>dt_store := []\<rparr>)) = Inr mem_msg \<and> \<not> dg_enabled mem_msg"
    by simp
qed


end
