(* ===== verification/Rule_Sql.thy ===== *)
theory Rule_Sql
  imports Install_Stores Rules_Service
begin

text \<open>
  The rules in the database (\<^verbatim>\<open>pkg/storage/rules/store.go\<close>). The topics of a rule are a JSON array in a
  column; reading a rule joins the table of drivers. \<open>rule_json\<close> is \<^verbatim>\<open>encoding/json\<close> on lists of texts.
\<close>

section \<open>Rows\<close>

record rule_row =
  rw_id :: string
  rw_tenant :: string
  rw_when :: string
  rw_emit_json :: string
  rw_emit :: string
  rw_driver_id :: string
  rw_transform_js :: string
  rw_created_at :: gtime
  rw_updated_at :: gtime

record rule_with_driver =
  rj_row :: rule_row
  rj_driver_name :: string
  rj_driver_config :: string
  rj_driver_enabled :: bool

record rule_json =
  js_marshal :: "string list \<Rightarrow> string res"
  js_unmarshal :: "string \<Rightarrow> string list res"

definition rule_to_row :: "rule_json \<Rightarrow> rule_record \<Rightarrow> rule_row res" where
  "rule_to_row J r =
     bind_res (js_marshal J (rr_emit r)) (\<lambda>emit_json.
       Inr \<lparr>rw_id = rr_id r, rw_tenant = rr_tenant r, rw_when = rr_when r, rw_emit_json = emit_json, rw_emit = [],
            rw_driver_id = trim_space (rr_driver_id r), rw_transform_js = trim_space (rr_transform_js r),
            rw_created_at = rr_created_at r, rw_updated_at = rr_updated_at r\<rparr>)"

definition parse_emit :: "rule_json \<Rightarrow> string \<Rightarrow> string \<Rightarrow> string list" where
  "parse_emit J json_source legacy =
     (if json_source \<noteq> [] then
        (case js_unmarshal J json_source of
           Inr emit \<Rightarrow> emit
         | Inl err \<Rightarrow> if trim_space json_source \<noteq> [] then [trim_space json_source] else [])
      else if legacy \<noteq> [] \<and> trim_space legacy \<noteq> [] then [trim_space legacy]
      else [])"

definition rule_from_row :: "rule_json \<Rightarrow> rule_row \<Rightarrow> rule_record" where
  "rule_from_row J w =
     \<lparr>rr_tenant = rw_tenant w, rr_id = rw_id w, rr_when = rw_when w, rr_emit = parse_emit J (rw_emit_json w) (rw_emit w),
      rr_driver_id = trim_space (rw_driver_id w), rr_transform_js = trim_space (rw_transform_js w), rr_driver_name = [],
      rr_driver_config_json = [], rr_driver_enabled = False, rr_created_at = rw_created_at w, rr_updated_at = rw_updated_at w\<rparr>"

definition rule_from_joined :: "rule_json \<Rightarrow> rule_with_driver \<Rightarrow> rule_record" where
  "rule_from_joined J w =
     (rule_from_row J (rj_row w))
       \<lparr>rr_driver_name := trim_space (rj_driver_name w), rr_driver_config_json := trim_space (rj_driver_config w),
        rr_driver_enabled := rj_driver_enabled w\<rparr>"

section \<open>Operations\<close>

text \<open>The table of rules, and the two queries on its join with the table of drivers.\<close>

record 't rule_db =
  qd_rules :: "(rule_row, 't) sql_db"
  qd_find :: "sql_query \<Rightarrow> 't \<Rightarrow> rule_with_driver list res"
  qd_take :: "sql_query \<Rightarrow> 't \<Rightarrow> rule_with_driver option res"

definition rules_tenant_cond :: "ctx \<Rightarrow> sql_cond list" where
  "rules_tenant_cond c = opt_cond ''githook_rules.tenant_id'' (tenant_from_context c)"

definition sql_list_rules :: "'t rule_db \<Rightarrow> rule_json \<Rightarrow> ctx \<Rightarrow> 't \<Rightarrow> rule_record list res" where
  "sql_list_rules db J c t =
     bind_res (qd_find db \<lparr>sq_where = rules_tenant_cond c, sq_order = [(''githook_rules.created_at'', False)], sq_limit = None\<rparr> t)
       (\<lambda>ws. Inr (map (rule_from_joined J) ws))"

definition sql_get_rule :: "'t rule_db \<Rightarrow> rule_json \<Rightarrow> ctx \<Rightarrow> string \<Rightarrow> 't \<Rightarrow> rule_record option res" where
  "sql_get_rule db J c rid t =
     bind_res (qd_take db (where_is ((''githook_rules.id'', rid) # rules_tenant_cond c)) t)
       (\<lambda>found. Inr (map_option (rule_from_joined J) found))"

definition sql_create_rule ::
  "'t rule_db \<Rightarrow> rule_json \<Rightarrow> ctx \<Rightarrow> string \<times> gtime \<times> gtime \<Rightarrow> rule_record \<Rightarrow> 't \<Rightarrow> rule_record res \<times> 't" where
  "sql_create_rule db J c clk r t =
     (if rr_when r = [] then (Inl (Error ''when is required''), t)
      else
        let r = (if rr_tenant r = [] then r\<lparr>rr_tenant := tenant_from_context c\<rparr> else r);
            r = (if rr_id r = [] then r\<lparr>rr_id := fst clk\<rparr> else r);
            r = (if is_zero (rr_created_at r) then r\<lparr>rr_created_at := fst (snd clk)\<rparr> else r);
            r = r\<lparr>rr_updated_at := fst (snd clk)\<rparr>
        in case rule_to_row J r of
             Inl err \<Rightarrow> (Inl err, t)
           | Inr w \<Rightarrow>
               (case sd_create (qd_rules db) None w t of
                  (Inl err, t') \<Rightarrow> (Inl err, t')
                | (Inr w', t') \<Rightarrow> (Inr (rule_from_row J w'), t')))"

definition rule_to_save :: "ctx \<Rightarrow> gtime \<times> gtime \<Rightarrow> rule_record \<Rightarrow> rule_record" where
  "rule_to_save c clk r =
     (if rr_tenant r = [] then r\<lparr>rr_tenant := tenant_from_context c\<rparr> else r)\<lparr>rr_updated_at := fst clk\<rparr>"

definition sql_update_rule ::
  "'t rule_db \<Rightarrow> rule_json \<Rightarrow> ctx \<Rightarrow> gtime \<times> gtime \<Rightarrow> rule_record \<Rightarrow> 't \<Rightarrow> rule_record res \<times> 't" where
  "sql_update_rule db J c clk r t =
     (if rr_id r = [] then (Inl (Error ''id is required''), t)
      else if rr_when r = [] then (Inl (Error ''when is required''), t)
      else case rule_to_row J (rule_to_save c clk r) of
             Inl err \<Rightarrow> (Inl err, t)
           | Inr w \<Rightarrow>
               (case sd_save (qd_rules db) ((''id'', rr_id r) # tenant_cond c) w t of
                  (Inl err, t') \<Rightarrow> (Inl err, t')
                | (Inr w', t') \<Rightarrow> (Inr (rule_from_row J w'), t')))"

definition sql_delete_rule :: "'t rule_db \<Rightarrow> ctx \<Rightarrow> string \<Rightarrow> 't \<Rightarrow> go_error option \<times> 't" where
  "sql_delete_rule db c rid t = sd_delete (qd_rules db) ((''id'', rid) # tenant_cond c) t"

definition sql_rules :: "'t rule_db \<Rightarrow> rule_json \<Rightarrow> 't rule_ops" where
  "sql_rules db J =
     \<lparr>ro_list = sql_list_rules db J, ro_get = sql_get_rule db J, ro_create = sql_create_rule db J,
      ro_update = sql_update_rule db J, ro_delete = sql_delete_rule db\<rparr>"

section \<open>The two tables\<close>

definition rule_text :: "string \<Rightarrow> rule_row \<Rightarrow> string" where
  "rule_text column w = (if column = ''id'' then rw_id w else if column = ''tenant_id'' then rw_tenant w else [])"

definition rule_copy :: "string \<Rightarrow> rule_row \<Rightarrow> rule_row \<Rightarrow> rule_row" where
  "rule_copy column w q =
     (if column = ''id'' then q\<lparr>rw_id := rw_id w\<rparr> else if column = ''tenant_id'' then q\<lparr>rw_tenant := rw_tenant w\<rparr>
      else if column = ''when'' then q\<lparr>rw_when := rw_when w\<rparr>
      else if column = ''emit_json'' then q\<lparr>rw_emit_json := rw_emit_json w\<rparr>
      else if column = ''emit'' then q\<lparr>rw_emit := rw_emit w\<rparr>
      else if column = ''driver_id'' then q\<lparr>rw_driver_id := rw_driver_id w\<rparr>
      else if column = ''transform_js'' then q\<lparr>rw_transform_js := rw_transform_js w\<rparr>
      else if column = ''created_at'' then q\<lparr>rw_created_at := rw_created_at w\<rparr>
      else if column = ''updated_at'' then q\<lparr>rw_updated_at := rw_updated_at w\<rparr> else q)"

text \<open>\<^verbatim>\<open>Updates\<close> of a struct writes the fields that are not zero.\<close>

definition rule_nonzero :: "rule_row \<Rightarrow> string list" where
  "rule_nonzero w =
     (if rw_id w = [] then [] else [''id'']) @ (if rw_tenant w = [] then [] else [''tenant_id'']) @
     (if rw_when w = [] then [] else [''when'']) @ (if rw_emit_json w = [] then [] else [''emit_json'']) @
     (if rw_emit w = [] then [] else [''emit'']) @ (if rw_driver_id w = [] then [] else [''driver_id'']) @
     (if rw_transform_js w = [] then [] else [''transform_js'']) @
     (if is_zero (rw_created_at w) then [] else [''created_at'']) @ (if is_zero (rw_updated_at w) then [] else [''updated_at''])"

definition rule_schema :: "rule_row schema" where
  "rule_schema =
     \<lparr>sh_text = rule_text, sh_copy = rule_copy, sh_set = (\<lambda>column v w. w), sh_touch = (\<lambda>now w. w\<lparr>rw_updated_at := now\<rparr>),
      sh_less = (\<lambda>column a b. False), sh_unique = [[''id'']], sh_defaults = (\<lambda>w. w), sh_nonzero = rule_nonzero\<rparr>"

text \<open>The left join: a rule with each driver of its tenant that has its driver's identifier, or with none.\<close>

definition join_rule :: "driver_record list \<Rightarrow> rule_row \<Rightarrow> rule_with_driver list" where
  "join_rule ds w =
     (let found = filter (\<lambda>d. dr_id d = rw_driver_id w \<and> dr_tenant d = rw_tenant w) ds in
      if found = [] then [\<lparr>rj_row = w, rj_driver_name = [], rj_driver_config = [], rj_driver_enabled = False\<rparr>]
      else map (\<lambda>d. \<lparr>rj_row = w, rj_driver_name = dr_name d, rj_driver_config = dr_config_json d, rj_driver_enabled = dr_enabled d\<rparr>) found)"

definition joined_schema :: "rule_with_driver schema" where
  "joined_schema =
     \<lparr>sh_text = (\<lambda>column w. if column = ''githook_rules.id'' then rw_id (rj_row w)
        else if column = ''githook_rules.tenant_id'' then rw_tenant (rj_row w) else []),
      sh_copy = (\<lambda>column w q. q), sh_set = (\<lambda>column v w. w), sh_touch = (\<lambda>now w. w),
      sh_less = (\<lambda>column a b. column = ''githook_rules.created_at'' \<and> rw_created_at (rj_row a) < rw_created_at (rj_row b)),
      sh_unique = [], sh_defaults = (\<lambda>w. w), sh_nonzero = (\<lambda>w. [])\<rparr>"

definition on_rules :: "(rule_row list \<Rightarrow> 'a \<times> rule_row list) \<Rightarrow> rule_row list \<times> driver_record list \<Rightarrow> 'a \<times> rule_row list \<times> driver_record list" where
  "on_rules f t = (case f (fst t) of (x, ws) \<Rightarrow> (x, ws, snd t))"

definition rule_tables :: "(rule_row list \<times> driver_record list) rule_db" where
  "rule_tables =
     (let db = table_db rule_schema; joined = (\<lambda>t. concat (map (join_rule (snd t)) (fst t))) in
      \<lparr>qd_rules =
         \<lparr>sd_find = (\<lambda>q t. sd_find db q (fst t)), sd_take = (\<lambda>q t. sd_take db q (fst t)),
          sd_create = (\<lambda>conflict w. on_rules (sd_create db conflict w)), sd_save = (\<lambda>ks w. on_rules (sd_save db ks w)),
          sd_update = (\<lambda>ks us now. on_rules (sd_update db ks us now)), sd_delete = (\<lambda>ks. on_rules (sd_delete db ks))\<rparr>,
       qd_find = (\<lambda>q t. sd_find (table_db joined_schema) q (joined t)),
       qd_take = (\<lambda>q t. sd_take (table_db joined_schema) q (joined t))\<rparr>)"

section \<open>Reading and writing a rule\<close>

lemma joined_rows: "j \<in> set (join_rule ds w) \<Longrightarrow> rj_row j = w" "join_rule ds w \<noteq> []"
  by (auto simp: join_rule_def Let_def filter_empty_conv split: if_splits)

lemma sql_get_found:
  assumes "distinct (map rw_id ws)" "w \<in> set ws" "tenant_visible c (rw_tenant w)"
  shows "\<exists>j. sql_get_rule rule_tables J c (rw_id w) (ws, ds) = Inr (Some (rule_from_joined J j)) \<and> rj_row j = w"
proof -
  let ?P = "row_holds joined_schema ((''githook_rules.id'', rw_id w) # rules_tenant_cond c)"
  have holds: "?P j \<longleftrightarrow> rw_id (rj_row j) = rw_id w \<and> tenant_visible c (rw_tenant (rj_row j))" for j
    by (auto simp: rules_tenant_cond_def joined_schema_def tenant_visible_def)
  let ?js = "concat (map (join_rule ds) ws)"
  obtain i js where i: "join_rule ds w = i # js" using joined_rows(2) by (cases "join_rule ds w") auto
  then have "i \<in> set ?js" "rj_row i = w" using assms(2) joined_rows(1) [of i ds w] by (auto intro!: bexI [of _ w])
  then have "\<exists>j \<in> set ?js. ?P j" using assms(3) unfolding holds by blast
  then obtain j where j: "find ?P ?js = Some j" by (cases "find ?P ?js") (auto simp: find_None_iff)
  then have "j \<in> set ?js" "rw_id (rj_row j) = rw_id w" using find_Some_D [OF j] unfolding holds by auto
  then have "rj_row j \<in> set ws" using joined_rows(1) by (auto; fastforce)
  with assms(1,2) \<open>rw_id (rj_row j) = rw_id w\<close> have "rj_row j = w" by (auto simp: distinct_map dest: inj_onD)
  with j show ?thesis by (auto simp: sql_get_rule_def rule_tables_def Let_def take_where)
qed

lemma rule_columns [simp]:
  "sh_text rule_schema ''id'' w = rw_id w"
  "row_holds rule_schema (tenant_cond c) w \<longleftrightarrow> tenant_visible c (rw_tenant w)"
  by (auto simp: tenant_cond_def rule_schema_def rule_text_def tenant_visible_def)

lemma rule_saved:
  "copy_columns rule_schema (sh_nonzero rule_schema w) w q =
     \<lparr>rw_id = (if rw_id w = [] then rw_id q else rw_id w), rw_tenant = (if rw_tenant w = [] then rw_tenant q else rw_tenant w),
      rw_when = (if rw_when w = [] then rw_when q else rw_when w),
      rw_emit_json = (if rw_emit_json w = [] then rw_emit_json q else rw_emit_json w),
      rw_emit = (if rw_emit w = [] then rw_emit q else rw_emit w),
      rw_driver_id = (if rw_driver_id w = [] then rw_driver_id q else rw_driver_id w),
      rw_transform_js = (if rw_transform_js w = [] then rw_transform_js q else rw_transform_js w),
      rw_created_at = (if is_zero (rw_created_at w) then rw_created_at q else rw_created_at w),
      rw_updated_at = (if is_zero (rw_updated_at w) then rw_updated_at q else rw_updated_at w)\<rparr>"
  by (simp add: rule_nonzero_def rule_schema_def rule_copy_def copy_columns_def)

lemma rule_to_save_sel:
  "rr_id (rule_to_save c clk r) = rr_id r" "rr_when (rule_to_save c clk r) = rr_when r" "rr_emit (rule_to_save c clk r) = rr_emit r"
  "rr_driver_id (rule_to_save c clk r) = rr_driver_id r" "rr_transform_js (rule_to_save c clk r) = rr_transform_js r"
  "rr_tenant (rule_to_save c clk r) = (if rr_tenant r = [] then tenant_from_context c else rr_tenant r)"
  by (simp_all add: rule_to_save_def)

lemma sql_update_saves:
  assumes "distinct (map rw_id ws)" "w \<in> set ws" "rw_id w = rr_id r" "rr_id r \<noteq> []" "rr_when r \<noteq> []"
    and "tenant_visible c (rw_tenant w)" "rr_tenant r \<in> {[], tenant_from_context c}"
    and "rule_to_row J (rule_to_save c clk r) = Inr x"
  shows "\<exists>ws'. sql_update_rule rule_tables J c clk r (ws, ds) = (Inr (rule_from_row J x), ws', ds) \<and> distinct (map rw_id ws') \<and>
     copy_columns rule_schema (sh_nonzero rule_schema x) x w \<in> set ws' \<and>
     rw_id (copy_columns rule_schema (sh_nonzero rule_schema x) x w) = rr_id r \<and>
     tenant_visible c (rw_tenant (copy_columns rule_schema (sh_nonzero rule_schema x) x w))"
proof -
  let ?save = "\<lambda>q. copy_columns rule_schema (sh_nonzero rule_schema x) x q"
  let ?P = "row_holds rule_schema ((''id'', rr_id r) # tenant_cond c)"
  let ?ws = "map (\<lambda>q. if ?P q then ?save q else q) ws"
  have x: "rw_id x = rr_id r" "rw_tenant x = tenant_from_context c"
    using assms(7,8) by (auto simp: rule_to_row_def bind_res_Inr_iff rule_to_save_sel)
  have "sql_update_rule rule_tables J c clk r (ws, ds) = (Inr (rule_from_row J x), ?ws, ds)"
    using assms(4,5,8) by (simp add: sql_update_rule_def rule_tables_def on_rules_def table_db_def Let_def)
  moreover have "map rw_id ?ws = map rw_id ws" using x(1) assms(4) by (auto simp: rule_saved)
  moreover have "?save w \<in> set ?ws" using assms(2,3,6) by (auto simp: image_iff intro!: bexI [of _ w])
  moreover have "rw_id (?save w) = rr_id r" "tenant_visible c (rw_tenant (?save w))"
    using x assms(4,6) by (simp_all add: rule_saved tenant_visible_def)
  ultimately show ?thesis using assms(1) by (intro exI [of _ ?ws]) metis
qed

text \<open>
  A rule in the database cannot lose its transformation. An update without one is answered with the rule
  as it was asked for, and the condition, the topics and the driver are stored; reading the rule then gives
  the transformation it had before, because gorm skips the empty fields of a struct.
\<close>

theorem sql_update_keeps_transform:
  assumes "distinct (map rw_id ws)" "w \<in> set ws" "rw_id w = rr_id r" "rr_id r \<noteq> []" "rr_when r \<noteq> []"
    and "tenant_visible c (rw_tenant w)" "rr_tenant r \<in> {[], tenant_from_context c}"
    and "js_marshal J (rr_emit r) = Inr e" "e \<noteq> []" "js_unmarshal J e = Inr (rr_emit r)"
    and "trim_space (rr_transform_js r) = []" "trim_space (rr_driver_id r) \<noteq> []"
  shows "\<exists>r' ws' g. sql_update_rule rule_tables J c clk r (ws, ds) = (Inr r', ws', ds) \<and> rr_transform_js r' = [] \<and>
     sql_get_rule rule_tables J c (rr_id r) (ws', ds) = Inr (Some g) \<and> rr_when g = rr_when r \<and> rr_emit g = rr_emit r \<and>
     rr_driver_id g = trim_space (rr_driver_id r) \<and> rr_transform_js g = trim_space (rw_transform_js w)"
proof -
  obtain x where row: "rule_to_row J (rule_to_save c clk r) = Inr x" and x: "rw_when x = rr_when r" "rw_emit_json x = e"
      "rw_driver_id x = trim_space (rr_driver_id r)" "rw_transform_js x = []"
    using assms(8,11) by (simp add: rule_to_row_def rule_to_save_sel)
  let ?w = "copy_columns rule_schema (sh_nonzero rule_schema x) x w"
  from sql_update_saves [OF assms(1-7) row, of ds] obtain ws' where
    ws': "sql_update_rule rule_tables J c clk r (ws, ds) = (Inr (rule_from_row J x), ws', ds)" "distinct (map rw_id ws')"
      "?w \<in> set ws'" "rw_id ?w = rr_id r" "tenant_visible c (rw_tenant ?w)" by blast
  from sql_get_found [OF ws'(2,3,5), of J ds] ws'(4) obtain j where
    j: "sql_get_rule rule_tables J c (rr_id r) (ws', ds) = Inr (Some (rule_from_joined J j))" "rj_row j = ?w" by auto
  have "rw_when ?w = rr_when r" "rw_emit_json ?w = e" "rw_driver_id ?w = trim_space (rr_driver_id r)"
      "rw_transform_js ?w = rw_transform_js w"
    using x assms(5,9,12) by (simp_all add: rule_saved)
  with ws'(1) j show ?thesis
    using assms(9,10) x(4) by (auto simp: rule_from_joined_def rule_from_row_def parse_emit_def)
qed

definition one_topic :: rule_json where
  "one_topic = \<lparr>js_marshal = \<lambda>ts. Inr (concat ts), js_unmarshal = \<lambda>s. Inr [s]\<rparr>"

definition sample_row :: rule_row where
  "sample_row = \<lparr>rw_id = ''r1'', rw_tenant = ''acme'', rw_when = ''a == 1'', rw_emit_json = ''t'', rw_emit = [], rw_driver_id = ''d'',
     rw_transform_js = ''js'', rw_created_at = 0, rw_updated_at = 0\<rparr>"

theorem sql_update_keeps_transform_witness:
  "\<exists>r' ws' g. sql_update_rule rule_tables one_topic ''acme'' (1, 1)
       (zero_rule_record\<lparr>rr_id := ''r1'', rr_when := ''b == 2'', rr_emit := [''t''], rr_driver_id := ''d''\<rparr>) ([sample_row], []) = (Inr r', ws', []) \<and>
     rr_transform_js r' = [] \<and> sql_get_rule rule_tables one_topic ''acme'' ''r1'' (ws', []) = Inr (Some g) \<and>
     rr_when g = ''b == 2'' \<and> rr_transform_js g = ''js''"
proof -
  let ?r = "zero_rule_record\<lparr>rr_id := ''r1'', rr_when := ''b == 2'', rr_emit := [''t''], rr_driver_id := ''d''\<rparr>"
  have t: "trim_space ''d'' \<noteq> []" "trim_space ''js'' = ''js''" "tenant_from_context ''acme'' = ''acme''" by code_simp+
  have "\<exists>r' ws' g. sql_update_rule rule_tables one_topic ''acme'' (1, 1) ?r ([sample_row], []) = (Inr r', ws', []) \<and> rr_transform_js r' = [] \<and>
     sql_get_rule rule_tables one_topic ''acme'' (rr_id ?r) (ws', []) = Inr (Some g) \<and> rr_when g = rr_when ?r \<and> rr_emit g = rr_emit ?r \<and>
     rr_driver_id g = trim_space (rr_driver_id ?r) \<and> rr_transform_js g = trim_space (rw_transform_js sample_row)"
    by (rule sql_update_keeps_transform [where e = "''t''"])
       (use t in \<open>simp_all add: sample_row_def zero_rule_record_def one_topic_def tenant_visible_def\<close>)
  then show ?thesis by (auto simp: sample_row_def t)
qed


end
