(* ===== verification/Provider_Config.thy ===== *)
theory Provider_Config
  imports Go_Json App_Config Mem_Stores
begin

text \<open>
  The settings of a provider instance as JSON (\<^verbatim>\<open>pkg/providerinstance/config.go\<close>): what is written for the
  instances of the configuration file, and what is read back, in either spelling of the members. The parser
  and the printer of JSON text are parameters.
\<close>

section \<open>Instances of a configuration\<close>

definition has_provider_config :: "provider_config \<Rightarrow> bool" where
  "has_provider_config cfg \<longleftrightarrow>
     pc_enabled cfg \<or>
     (trim_space (wh_path (pc_webhook cfg)) \<noteq> [] \<or> trim_space (wh_secret (pc_webhook cfg)) \<noteq> []) \<or>
     (app_id (pc_app cfg) \<noteq> 0 \<or> trim_space (private_key_path (pc_app cfg)) \<noteq> [] \<or>
        trim_space (private_key_pem (pc_app cfg)) \<noteq> [] \<or> trim_space (app_slug (pc_app cfg)) \<noteq> []) \<or>
     (trim_space (client_id (pc_oauth cfg)) \<noteq> [] \<or> trim_space (client_secret (pc_oauth cfg)) \<noteq> [] \<or>
        scopes (pc_oauth cfg) \<noteq> []) \<or>
     (trim_space (base_url (pc_api cfg)) \<noteq> [] \<or> trim_space (web_base_url (pc_api cfg)) \<noteq> [])"

text \<open>
  \<^verbatim>\<open>json.Marshal\<close> of a \<^verbatim>\<open>ProviderConfig\<close>: the members have the names of the fields, a private key is left out
  when empty. No scopes is written as the nil slice is (an empty slice that is not nil would be \<^verbatim>\<open>[]\<close>, which
  is read as the same).
\<close>

definition marshal_provider_config :: "provider_config \<Rightarrow> jval" where
  "marshal_provider_config cfg =
     JObj [(''Enabled'', JBool (pc_enabled cfg)), (''Key'', JStr (pc_key cfg)),
       (''Webhook'', JObj [(''Path'', JStr (wh_path (pc_webhook cfg))), (''Secret'', JStr (wh_secret (pc_webhook cfg)))]),
       (''App'', JObj ([(''AppID'', JNum (itoa (app_id (pc_app cfg)))), (''PrivateKeyPath'', JStr (private_key_path (pc_app cfg)))] @
          (if private_key_pem (pc_app cfg) \<noteq> [] then [(''PrivateKeyPEM'', JStr (private_key_pem (pc_app cfg)))] else []) @
          [(''AppSlug'', JStr (app_slug (pc_app cfg)))])),
       (''OAuth'', JObj [(''ClientID'', JStr (client_id (pc_oauth cfg))), (''ClientSecret'', JStr (client_secret (pc_oauth cfg))),
          (''Scopes'', if scopes (pc_oauth cfg) = [] then JNull else JArr (map JStr (scopes (pc_oauth cfg))))]),
       (''API'', JObj [(''BaseURL'', JStr (base_url (pc_api cfg))), (''WebBaseURL'', JStr (web_base_url (pc_api cfg)))])]"

definition instance_record_of :: "(jval \<Rightarrow> string) \<Rightarrow> string \<Rightarrow> provider_config \<Rightarrow> instance_record" where
  "instance_record_of print provider cfg =
     \<lparr>pi_id = [], pi_tenant = [], pi_provider = provider, pi_key = [],
      pi_config_json = print (marshal_provider_config (cfg\<lparr>pc_key := []\<rparr>)), pi_redirect_base_url = [], pi_enabled = True,
      pi_created_at = 0, pi_updated_at = 0\<rparr>"

definition instance_record_from_config :: "(jval \<Rightarrow> string) \<Rightarrow> string \<Rightarrow> provider_config \<Rightarrow> instance_record option" where
  "instance_record_from_config print provider cfg =
     (if has_provider_config cfg then Some (instance_record_of print provider cfg) else None)"

definition instance_records_from_config :: "(jval \<Rightarrow> string) \<Rightarrow> auth_providers \<Rightarrow> instance_record list" where
  "instance_records_from_config print cfg =
     List.map_filter (\<lambda>x. x)
       [instance_record_from_config print ''github'' (ap_github cfg),
        instance_record_from_config print ''gitlab'' (ap_gitlab cfg),
        instance_record_from_config print ''bitbucket'' (ap_bitbucket cfg),
        instance_record_from_config print ''slack'' (ap_slack cfg),
        (case instance_record_from_config print ''atlassian'' (ap_atlassian cfg) of
           Some r \<Rightarrow> Some r
         | None \<Rightarrow> map_option (\<lambda>r. r\<lparr>pi_provider := ''atlassian''\<rparr>) (instance_record_from_config print ''jira'' (ap_jira cfg)))]"

section \<open>Reading members\<close>

text \<open>
  A member goes to the field of that exact name, else to the first field whose name matches without regard
  to case. A field that is a pointer is nil after null; one that is raw JSON keeps null as it is.
\<close>

definition member_field :: "string list \<Rightarrow> string \<Rightarrow> string option" where
  "member_field names key = (if key \<in> set names then Some key else find (\<lambda>n. equal_fold key n) names)"

fun wire_values :: "string list \<Rightarrow> string \<Rightarrow> jval \<Rightarrow> jval list option" where
  "wire_values names field JNull = Some []"
| "wire_values names field (JObj ms) = Some (map snd (filter (\<lambda>(key, v). member_field names key = Some field) ms))"
| "wire_values names field v = None"

fun pointer_of :: "(jval \<Rightarrow> 'a option) \<Rightarrow> 'a option \<Rightarrow> jval list \<Rightarrow> 'a option option" where
  "pointer_of f z [] = Some z"
| "pointer_of f z (JNull # vs) = pointer_of f None vs"
| "pointer_of f z (v # vs) = (case f v of None \<Rightarrow> None | Some x \<Rightarrow> pointer_of f (Some x) vs)"

definition pointer_field :: "string list \<Rightarrow> string \<Rightarrow> (jval \<Rightarrow> 'a option) \<Rightarrow> jval \<Rightarrow> 'a option option" where
  "pointer_field names field f v = Option.bind (wire_values names field v) (pointer_of f None)"

definition raw_field :: "string list \<Rightarrow> string \<Rightarrow> jval \<Rightarrow> jval option option" where
  "raw_field names field v = map_option (\<lambda>vs. if vs = [] then None else Some (last vs)) (wire_values names field v)"

definition first_of :: "'a option \<Rightarrow> 'a option \<Rightarrow> 'a option" where
  "first_of a b = (case a of Some x \<Rightarrow> Some x | None \<Rightarrow> b)"

definition set_or :: "'a option \<Rightarrow> 'a option \<Rightarrow> 'a \<Rightarrow> 'a" where
  "set_or a b z = (case first_of a b of Some x \<Rightarrow> x | None \<Rightarrow> z)"

fun parse_string_like :: "jval option \<Rightarrow> string option" where
  "parse_string_like (Some (JStr s)) = Some s"
| "parse_string_like (Some (JNum s)) = Some s"
| "parse_string_like (Some (JBool b)) = Some (if b then ''true'' else ''false'')"
| "parse_string_like v = None"

definition scope_sep :: "char \<Rightarrow> bool" where
  "scope_sep ch \<longleftrightarrow> ch \<in> {CHR '','', CHR '' '', CHR 0x0A, CHR 0x09}"

fun fields_by :: "(char \<Rightarrow> bool) \<Rightarrow> string \<Rightarrow> string \<Rightarrow> string list" where
  "fields_by sep acc [] = (if acc = [] then [] else [rev acc])"
| "fields_by sep acc (ch # s) =
     (if \<not> sep ch then fields_by sep (ch # acc) s
      else if acc = [] then fields_by sep [] s
      else rev acc # fields_by sep [] s)"

definition split_scopes :: "string \<Rightarrow> string list" where
  "split_scopes value0 =
     (let v = trim_space value0 in
      if v = [] then [] else filter (\<lambda>p. p \<noteq> []) (map trim_space (fields_by scope_sep [] v)))"

fun as_scope :: "jval \<Rightarrow> string option" where
  "as_scope (JStr s) = Some s"
| "as_scope JNull = Some []"
| "as_scope _ = None"

text \<open>The scopes: an array of texts or one text; anything else leaves them as they are.\<close>

fun read_scopes :: "jval option \<Rightarrow> string list \<Rightarrow> string list" where
  "read_scopes (Some (JArr vs)) z = (case those (map as_scope vs) of Some xs \<Rightarrow> xs | None \<Rightarrow> z)"
| "read_scopes (Some JNull) z = []"
| "read_scopes (Some (JStr s)) z = split_scopes s"
| "read_scopes _ z = z"

section \<open>Reading a configuration\<close>

definition config_wire :: "string list" where
  "config_wire = [''enabled'', ''Enabled'', ''key'', ''Key'', ''webhook'', ''Webhook'', ''app'', ''App'', ''oauth'', ''OAuth'', ''api'', ''API'']"

definition webhook_wire :: "string list" where
  "webhook_wire = [''path'', ''Path'', ''secret'', ''Secret'']"

definition app_wire :: "string list" where
  "app_wire = [''app_id'', ''AppID'', ''private_key_path'', ''private_key_pem'', ''PrivateKeyPath'', ''PrivateKeyPEM'', ''app_slug'', ''AppSlug'']"

definition oauth_wire :: "string list" where
  "oauth_wire = [''client_id'', ''ClientID'', ''client_secret'', ''ClientSecret'', ''scopes'', ''Scopes'']"

definition api_wire :: "string list" where
  "api_wire = [''base_url'', ''BaseURL'', ''web_base_url'', ''WebBaseURL'']"

definition read_webhook :: "jval \<Rightarrow> webhook_config \<Rightarrow> webhook_config option" where
  "read_webhook v z = do {
     path \<leftarrow> pointer_field webhook_wire ''path'' as_str v; path' \<leftarrow> pointer_field webhook_wire ''Path'' as_str v;
     secret \<leftarrow> pointer_field webhook_wire ''secret'' as_str v; secret' \<leftarrow> pointer_field webhook_wire ''Secret'' as_str v;
     Some \<lparr>wh_path = set_or path path' (wh_path z), wh_secret = set_or secret secret' (wh_secret z)\<rparr> }"

definition read_app :: "jval \<Rightarrow> github_app_config \<Rightarrow> github_app_config option" where
  "read_app v z = do {
     i \<leftarrow> pointer_field app_wire ''app_id'' as_int v; i' \<leftarrow> pointer_field app_wire ''AppID'' as_int v;
     path \<leftarrow> pointer_field app_wire ''private_key_path'' as_str v; path' \<leftarrow> pointer_field app_wire ''PrivateKeyPath'' as_str v;
     pem \<leftarrow> pointer_field app_wire ''private_key_pem'' as_str v; pem' \<leftarrow> pointer_field app_wire ''PrivateKeyPEM'' as_str v;
     slug \<leftarrow> pointer_field app_wire ''app_slug'' as_str v; slug' \<leftarrow> pointer_field app_wire ''AppSlug'' as_str v;
     Some \<lparr>app_id = set_or i i' (app_id z), private_key_path = set_or path path' (private_key_path z),
       private_key_pem = set_or pem pem' (private_key_pem z), app_slug = set_or slug slug' (app_slug z)\<rparr> }"

definition read_oauth :: "jval \<Rightarrow> oauth_config \<Rightarrow> oauth_config option" where
  "read_oauth v z = do {
     cid \<leftarrow> raw_field oauth_wire ''client_id'' v; cid' \<leftarrow> raw_field oauth_wire ''ClientID'' v;
     secret \<leftarrow> raw_field oauth_wire ''client_secret'' v; secret' \<leftarrow> raw_field oauth_wire ''ClientSecret'' v;
     sc \<leftarrow> raw_field oauth_wire ''scopes'' v; sc' \<leftarrow> raw_field oauth_wire ''Scopes'' v;
     Some \<lparr>client_id = set_or (parse_string_like cid) (parse_string_like cid') (client_id z),
       client_secret = set_or (parse_string_like secret) (parse_string_like secret') (client_secret z),
       scopes = read_scopes (first_of sc sc') (scopes z)\<rparr> }"

definition read_api :: "jval \<Rightarrow> api_config \<Rightarrow> api_config option" where
  "read_api v z = do {
     base \<leftarrow> pointer_field api_wire ''base_url'' as_str v; base' \<leftarrow> pointer_field api_wire ''BaseURL'' as_str v;
     web \<leftarrow> pointer_field api_wire ''web_base_url'' as_str v; web' \<leftarrow> pointer_field api_wire ''WebBaseURL'' as_str v;
     Some \<lparr>base_url = set_or base base' (base_url z), web_base_url = set_or web web' (web_base_url z)\<rparr> }"

definition read_part :: "jval option \<Rightarrow> (jval \<Rightarrow> 'a \<Rightarrow> 'a option) \<Rightarrow> 'a \<Rightarrow> 'a option" where
  "read_part raw f z = (case raw of None \<Rightarrow> Some z | Some v \<Rightarrow> f v z)"

definition unmarshal_provider_config :: "jval \<Rightarrow> provider_config \<Rightarrow> provider_config option" where
  "unmarshal_provider_config v z = do {
     en \<leftarrow> pointer_field config_wire ''enabled'' as_bool v; en' \<leftarrow> pointer_field config_wire ''Enabled'' as_bool v;
     key \<leftarrow> pointer_field config_wire ''key'' as_str v; key' \<leftarrow> pointer_field config_wire ''Key'' as_str v;
     wh \<leftarrow> raw_field config_wire ''webhook'' v; wh' \<leftarrow> raw_field config_wire ''Webhook'' v;
     app \<leftarrow> raw_field config_wire ''app'' v; app' \<leftarrow> raw_field config_wire ''App'' v;
     oauth \<leftarrow> raw_field config_wire ''oauth'' v; oauth' \<leftarrow> raw_field config_wire ''OAuth'' v;
     api \<leftarrow> raw_field config_wire ''api'' v; api' \<leftarrow> raw_field config_wire ''API'' v;
     webhook \<leftarrow> read_part (first_of wh wh') read_webhook (pc_webhook z);
     appc \<leftarrow> read_part (first_of app app') read_app (pc_app z);
     oauthc \<leftarrow> read_part (first_of oauth oauth') read_oauth (pc_oauth z);
     apic \<leftarrow> read_part (first_of api api') read_api (pc_api z);
     Some \<lparr>pc_enabled = set_or en en' (pc_enabled z), pc_key = set_or key key' (pc_key z), pc_webhook = webhook,
       pc_app = appc, pc_oauth = oauthc, pc_api = apic\<rparr> }"

text \<open>A member of the wrong kind is an error of the package; its text reaches a log line only.\<close>

definition unmarshal_config :: "json_parser \<Rightarrow> string \<Rightarrow> provider_config res" where
  "unmarshal_config parse raw0 =
     (let raw = trim_space raw0 in
      if raw = [] then Inr zero_provider_config
      else case parse raw of
             Inl err \<Rightarrow> Inl err
           | Inr v \<Rightarrow>
               (case unmarshal_provider_config v zero_provider_config of
                  None \<Rightarrow> Inl (Error ''json: cannot unmarshal'')
                | Some cfg \<Rightarrow> Inr cfg))"

definition provider_config_from_record :: "json_parser \<Rightarrow> instance_record \<Rightarrow> provider_config res" where
  "provider_config_from_record parse r =
     bind_res (unmarshal_config parse (pi_config_json r)) (\<lambda>cfg. Inr (cfg\<lparr>pc_enabled := pi_enabled r\<rparr>))"

definition normalize_provider_config_json :: "json_parser \<Rightarrow> (jval \<Rightarrow> string) \<Rightarrow> string \<Rightarrow> string option" where
  "normalize_provider_config_json parse print raw =
     (case unmarshal_config parse raw of
        Inl err \<Rightarrow> None
      | Inr cfg \<Rightarrow> Some (trim_space (print (marshal_provider_config (cfg\<lparr>pc_key := []\<rparr>)))))"

section \<open>What is written is read back\<close>

lemma wire_value_exact:
  "wire_values names field (JObj ms) = Some (map snd (filter (\<lambda>(key, v). key = field) ms))"
  if "\<forall>key \<in> set (map fst ms). key \<in> set names"
proof -
  have "filter (\<lambda>(key, v). member_field names key = Some field) ms = filter (\<lambda>(key, v). key = field) ms"
    using that by (intro filter_cong) (auto simp: member_field_def)
  then show ?thesis by simp
qed

text \<open>Members whose names are all exact, each once.\<close>

lemma wire_map_of:
  assumes "list_all (\<lambda>(key, v). key \<in> set names) ms" "distinct (map fst ms)"
  shows "wire_values names field (JObj ms) = Some (case map_of ms field of None \<Rightarrow> [] | Some v \<Rightarrow> [v])"
proof -
  have "map snd (filter (\<lambda>(key, v). key = field) ms) = (case map_of ms field of None \<Rightarrow> [] | Some v \<Rightarrow> [v])"
    using assms(2) by (induction ms) (force simp: filter_empty_conv dest: map_of_SomeD split: option.split)+
  with assms(1) show ?thesis by (subst wire_value_exact) (auto simp: list_all_iff)
qed

lemma raw_map_of:
  assumes "list_all (\<lambda>(key, v). key \<in> set names) ms" "distinct (map fst ms)"
  shows "raw_field names field (JObj ms) = Some (map_of ms field)"
  using wire_map_of [OF assms] by (simp add: raw_field_def split: option.split)

lemma pointer_map_of:
  assumes "list_all (\<lambda>(key, v). key \<in> set names) ms" "distinct (map fst ms)"
  shows "pointer_field names field f (JObj ms) =
    (case map_of ms field of None \<Rightarrow> Some None | Some JNull \<Rightarrow> Some None | Some v \<Rightarrow> map_option Some (f v))"
  using wire_map_of [OF assms] by (auto simp: pointer_field_def split: option.split jval.split)

lemma those_scopes: "those (map as_scope (map JStr xs)) = Some xs"
  by (induction xs) auto

lemma read_written_scopes: "read_scopes (Some (if xs = [] then JNull else JArr (map JStr xs))) [] = xs"
  using those_scopes by (cases xs) auto

lemma read_written_webhook:
  "read_webhook (JObj [(''Path'', JStr p), (''Secret'', JStr s)]) z = Some \<lparr>wh_path = p, wh_secret = s\<rparr>"
  by (simp add: read_webhook_def pointer_map_of webhook_wire_def set_or_def first_of_def)

lemma read_written_app:
  assumes "- (2 ^ 63) \<le> i" "i < 2 ^ 63"
  shows "read_app (JObj ([(''AppID'', JNum (itoa i)), (''PrivateKeyPath'', JStr path)] @
          (if pem \<noteq> [] then [(''PrivateKeyPEM'', JStr pem)] else []) @ [(''AppSlug'', JStr slug)])) z = 
     Some \<lparr>app_id = i, private_key_path = path, private_key_pem = (if pem \<noteq> [] then pem else private_key_pem z), app_slug = slug\<rparr>"
  using atoi_itoa [OF assms] by (cases "pem = []") (simp_all add: read_app_def pointer_map_of app_wire_def set_or_def first_of_def)

lemma read_written_oauth:
  "read_oauth (JObj [(''ClientID'', JStr a), (''ClientSecret'', JStr b), (''Scopes'', w)]) y =
     Some \<lparr>client_id = a, client_secret = b, scopes = read_scopes (Some w) (scopes y)\<rparr>"
  by (simp add: read_oauth_def raw_map_of oauth_wire_def set_or_def first_of_def)

lemma read_written_api:
  "read_api (JObj [(''BaseURL'', JStr a), (''WebBaseURL'', JStr b)]) x = Some \<lparr>base_url = a, web_base_url = b\<rparr>"
  by (simp add: read_api_def pointer_map_of api_wire_def set_or_def first_of_def)

lemma read_written_object:
  fixes z :: provider_config
  shows "unmarshal_provider_config (JObj [(''Enabled'', JBool en), (''Key'', JStr key), (''Webhook'', wh), (''App'', app), (''OAuth'', oauth), (''API'', api)]) z =
    do { webhook \<leftarrow> read_webhook wh (pc_webhook z); appc \<leftarrow> read_app app (pc_app z); oauthc \<leftarrow> read_oauth oauth (pc_oauth z);
         apic \<leftarrow> read_api api (pc_api z);
         Some \<lparr>pc_enabled = en, pc_key = key, pc_webhook = webhook, pc_app = appc, pc_oauth = oauthc, pc_api = apic\<rparr> }"
  by (simp add: unmarshal_provider_config_def raw_map_of pointer_map_of config_wire_def set_or_def first_of_def read_part_def)

lemma read_written_config:
  assumes "- (2 ^ 63) \<le> app_id (pc_app cfg)" "app_id (pc_app cfg) < 2 ^ 63"
  shows "unmarshal_provider_config (marshal_provider_config cfg) zero_provider_config = Some cfg"
proof -
  have zero: "private_key_pem (pc_app zero_provider_config) = []" "scopes (pc_oauth zero_provider_config) = []"
    by (simp_all add: zero_provider_config_def)
  show ?thesis
    unfolding marshal_provider_config_def read_written_object read_written_webhook read_written_app [OF assms] read_written_oauth
      read_written_api zero read_written_scopes
    by simp
qed

text \<open>
  C27: The configuration of a provider that the server writes for an instance is what the cache of instances
  reads back from the record: every setting, with the key left out and the instance enabled as the record
  says. The application's id is a 64-bit integer; the JSON package parses what it has printed.
\<close>

theorem provider_config_roundtrip:
  assumes "- (2 ^ 63) \<le> app_id (pc_app cfg)" "app_id (pc_app cfg) < 2 ^ 63"
    and "raw = trim_space (print (marshal_provider_config (cfg\<lparr>pc_key := []\<rparr>)))" "raw \<noteq> []"
    and "parse raw = Inr (marshal_provider_config (cfg\<lparr>pc_key := []\<rparr>))"
  shows "provider_config_from_record parse (instance_record_of print provider cfg) = Inr (cfg\<lparr>pc_key := [], pc_enabled := True\<rparr>)"
proof -
  have "unmarshal_provider_config (marshal_provider_config (cfg\<lparr>pc_key := []\<rparr>)) zero_provider_config = Some (cfg\<lparr>pc_key := []\<rparr>)"
    using read_written_config [of "cfg\<lparr>pc_key := []\<rparr>"] assms(1,2) by simp
  then show ?thesis
    using assms(4,5) unfolding assms(3)
    by (simp add: provider_config_from_record_def unmarshal_config_def instance_record_of_def Let_def)
qed

definition sample_config :: provider_config where
  "sample_config = zero_provider_config\<lparr>pc_key := ''k'', pc_app := \<lparr>app_id = 42, private_key_path = [],
     private_key_pem = ''pem'', app_slug = ''relay''\<rparr>, pc_oauth := \<lparr>client_id = ''c'', client_secret = ''s'', scopes = [''read'']\<rparr>\<rparr>"

theorem provider_config_roundtrip_witness:
  "provider_config_from_record (\<lambda>raw. Inr (marshal_provider_config (sample_config\<lparr>pc_key := []\<rparr>)))
     (instance_record_of (\<lambda>v. ''{}'') ''github'' sample_config) = Inr (sample_config\<lparr>pc_key := [], pc_enabled := True\<rparr>)"
proof -
  have "trim_space ''{}'' = ''{}''" by code_simp
  then show ?thesis
    by (intro provider_config_roundtrip [where raw = "''{}''"]) (simp_all add: sample_config_def)
qed

end
