(* ===== verification/Instance_Stores.thy ===== *)
theory Instance_Stores
  imports Install_Stores
begin

text \<open>
  Provider instances in the database (\<^verbatim>\<open>pkg/storage/provider_instances/store.go\<close>) and the contract that
  this store and the one in memory keep. Migrating the table is not modelled.
\<close>

section \<open>The interface\<close>

record 's instance_ops =
  po_list :: "ctx \<Rightarrow> string \<Rightarrow> 's \<Rightarrow> instance_record list res"
  po_get :: "ctx \<Rightarrow> string \<Rightarrow> string \<Rightarrow> 's \<Rightarrow> instance_record option res"
  po_upsert :: "ctx \<Rightarrow> gtime \<times> gtime \<Rightarrow> instance_record \<Rightarrow> 's \<Rightarrow> instance_record res \<times> 's"
  po_delete :: "ctx \<Rightarrow> string \<Rightarrow> string \<Rightarrow> 's \<Rightarrow> go_error option \<times> 's"

definition mem_instances :: "(string \<Rightarrow> string) \<Rightarrow> instance_mem instance_ops" where
  "mem_instances sha =
     \<lparr>po_list = list_instances, po_get = get_instance, po_upsert = upsert_instance sha, po_delete = delete_instance\<rparr>"

section \<open>Instances in the database\<close>

type_synonym 't instance_db = "(instance_record, 't) sql_db"

definition instance_unique :: "string list" where
  "instance_unique = [''tenant_id'', ''provider'', ''instance_key'']"

definition instance_updates :: "string list" where
  "instance_updates = [''config_json'', ''redirect_base_url'', ''enabled'', ''updated_at'']"

definition sql_list_instances :: "'t instance_db \<Rightarrow> ctx \<Rightarrow> string \<Rightarrow> 't \<Rightarrow> instance_record list res" where
  "sql_list_instances db c provider t =
     sd_find db \<lparr>sq_where = opt_cond ''provider'' (trim_space provider) @ tenant_cond c, sq_order = [(''instance_key'', False)],
       sq_limit = None\<rparr> t"

definition instance_conds :: "string \<Rightarrow> string \<Rightarrow> sql_cond list" where
  "instance_conds provider key = [(''provider'', provider), (''instance_key'', key)]"

definition sql_get_instance :: "'t instance_db \<Rightarrow> ctx \<Rightarrow> string \<Rightarrow> string \<Rightarrow> 't \<Rightarrow> instance_record option res" where
  "sql_get_instance db c provider0 key0 t =
     (let provider = trim_space provider0; key = trim_space key0 in
      if provider = [] \<or> key = [] then Inl (Error ''provider and key are required'')
      else sd_take db (where_is (instance_conds provider key @ tenant_cond c)) t)"

definition instance_prepared :: "(string \<Rightarrow> string) \<Rightarrow> ctx \<Rightarrow> gtime \<times> gtime \<Rightarrow> instance_record \<Rightarrow> instance_record" where
  "instance_prepared sha c clk r =
     (let r = (if pi_tenant r = [] then r\<lparr>pi_tenant := tenant_from_context c\<rparr> else r);
          r = (if is_zero (pi_created_at r) then r\<lparr>pi_created_at := fst clk\<rparr> else r);
          r = r\<lparr>pi_updated_at := fst clk\<rparr>
      in if pi_id r = [] then r\<lparr>pi_id := instance_record_id sha r\<rparr> else r)"

definition sql_upsert_instance ::
  "'t instance_db \<Rightarrow> (string \<Rightarrow> string) \<Rightarrow> ctx \<Rightarrow> gtime \<times> gtime \<Rightarrow> instance_record \<Rightarrow> 't \<Rightarrow> instance_record res \<times> 't" where
  "sql_upsert_instance db sha c clk r t =
     (if pi_provider r = [] \<or> pi_key r = [] then (Inl (Error ''provider and key are required''), t)
      else sd_create db (Some (instance_unique, instance_updates)) (instance_prepared sha c clk r) t)"

definition sql_delete_instance :: "'t instance_db \<Rightarrow> ctx \<Rightarrow> string \<Rightarrow> string \<Rightarrow> 't \<Rightarrow> go_error option \<times> 't" where
  "sql_delete_instance db c provider0 key0 t =
     (let provider = trim_space provider0; key = trim_space key0 in
      if provider = [] \<or> key = [] then (Some (Error ''provider and key are required''), t)
      else sd_delete db (instance_conds provider key @ tenant_cond c) t)"

definition sql_update_instance_key ::
  "'t instance_db \<Rightarrow> gtime \<Rightarrow> string \<Rightarrow> string \<Rightarrow> string \<Rightarrow> string \<Rightarrow> 't \<Rightarrow> int res \<times> 't" where
  "sql_update_instance_key db now provider0 old0 new0 tenant0 t =
     (let provider = trim_space provider0; old_key = trim_space old0; new_key = trim_space new0 in
      if provider = [] \<or> old_key = [] \<or> new_key = [] then (Inl (Error ''provider and keys are required''), t)
      else sd_update db (instance_conds provider old_key @ [(''tenant_id'', trim_space tenant0)]) [(''instance_key'', new_key)] now t)"

definition sql_delete_instance_for_tenant :: "'t instance_db \<Rightarrow> string \<Rightarrow> string \<Rightarrow> string \<Rightarrow> 't \<Rightarrow> go_error option \<times> 't" where
  "sql_delete_instance_for_tenant db provider0 key0 tenant0 t =
     (let provider = trim_space provider0; key = trim_space key0 in
      if provider = [] \<or> key = [] then (Some (Error ''provider and key are required''), t)
      else sd_delete db (instance_conds provider key @ [(''tenant_id'', trim_space tenant0)]) t)"

definition sql_instances :: "'t instance_db \<Rightarrow> (string \<Rightarrow> string) \<Rightarrow> 't instance_ops" where
  "sql_instances db sha =
     \<lparr>po_list = sql_list_instances db, po_get = sql_get_instance db, po_upsert = sql_upsert_instance db sha,
      po_delete = sql_delete_instance db\<rparr>"

text \<open>The table \<^verbatim>\<open>githook_provider_instances\<close>; as for drivers, the column \<^verbatim>\<open>enabled\<close> has the default true.\<close>

definition instance_text :: "string \<Rightarrow> instance_record \<Rightarrow> string" where
  "instance_text column r =
     (if column = ''id'' then pi_id r else if column = ''tenant_id'' then pi_tenant r
      else if column = ''provider'' then pi_provider r else if column = ''instance_key'' then pi_key r else [])"

definition instance_copy :: "string \<Rightarrow> instance_record \<Rightarrow> instance_record \<Rightarrow> instance_record" where
  "instance_copy column r q =
     (if column = ''config_json'' then q\<lparr>pi_config_json := pi_config_json r\<rparr>
      else if column = ''redirect_base_url'' then q\<lparr>pi_redirect_base_url := pi_redirect_base_url r\<rparr>
      else if column = ''enabled'' then q\<lparr>pi_enabled := pi_enabled r\<rparr>
      else if column = ''updated_at'' then q\<lparr>pi_updated_at := pi_updated_at r\<rparr> else q)"

definition instance_schema :: "instance_record schema" where
  "instance_schema =
     \<lparr>sh_text = instance_text, sh_copy = instance_copy,
      sh_set = (\<lambda>column v r. if column = ''instance_key'' then r\<lparr>pi_key := v\<rparr> else r),
      sh_touch = (\<lambda>now r. r\<lparr>pi_updated_at := now\<rparr>),
      sh_less = (\<lambda>column a b. column = ''instance_key'' \<and> pi_key a < pi_key b),
      sh_unique = [[''id''], instance_unique],
      sh_defaults = (\<lambda>r. if pi_enabled r then r else r\<lparr>pi_enabled := True\<rparr>), sh_nonzero = (\<lambda>r. [])\<rparr>"

abbreviation instance_rows :: "(instance_record, instance_record list) sql_db" where
  "instance_rows \<equiv> table_db instance_schema"

section \<open>The contract\<close>

definition instance_identity :: "instance_record \<Rightarrow> string \<times> string \<times> string" where
  "instance_identity r = (pi_tenant r, pi_provider r, pi_key r)"

definition instance_says :: "instance_record \<Rightarrow> (string \<times> string \<times> string) \<times> string \<times> string" where
  "instance_says r = (instance_identity r, pi_config_json r, pi_redirect_base_url r)"

locale instance_store =
  fixes ops :: "'s instance_ops"
    and view :: "'s \<Rightarrow> instance_record list"
    and inv :: "'s \<Rightarrow> bool"
  assumes unique_law: "inv s \<Longrightarrow> x \<in> set (view s) \<Longrightarrow> y \<in> set (view s) \<Longrightarrow> instance_identity x = instance_identity y \<Longrightarrow> x = y"
    and list_law: "trim_space p = p \<Longrightarrow> \<exists>rs. po_list ops c p s = Inr rs \<and>
        set rs = {r \<in> set (view s). field_matches p (pi_provider r) \<and> tenant_visible c (pi_tenant r)}"
    and get_law: "inv s \<Longrightarrow> tenant_from_context c \<noteq> [] \<Longrightarrow> plain (tenant_from_context c) \<Longrightarrow> plain p \<Longrightarrow>
        trim_space p = p \<Longrightarrow> p \<noteq> [] \<Longrightarrow> trim_space k = k \<Longrightarrow> k \<noteq> [] \<Longrightarrow>
        \<exists>found. po_get ops c p k s = Inr found \<and>
          (\<forall>x. found = Some x \<longleftrightarrow> x \<in> set (view s) \<and> instance_identity x = (tenant_from_context c, p, k))"
    and upsert_law: "inv s \<Longrightarrow> plain (tenant_from_context c) \<Longrightarrow> plain (pi_provider r) \<Longrightarrow> pi_tenant r = [] \<Longrightarrow>
        po_upsert ops c clk r s = (Inr r', s') \<Longrightarrow>
        inv s' \<and> instance_says r' = ((tenant_from_context c, pi_provider r, pi_key r), pi_config_json r, pi_redirect_base_url r) \<and>
        (\<exists>x \<in> set (view s'). instance_says x = instance_says r') \<and>
        (\<forall>q. instance_identity q \<noteq> (tenant_from_context c, pi_provider r, pi_key r) \<longrightarrow> q \<in> set (view s') \<longleftrightarrow> q \<in> set (view s))"
    and upsert_error: "po_upsert ops c clk r s = (Inl err, s') \<Longrightarrow> s' = s"
    and delete_law: "inv s \<Longrightarrow> plain (tenant_from_context c) \<Longrightarrow> plain p \<Longrightarrow> trim_space p = p \<Longrightarrow> trim_space k = k \<Longrightarrow>
        po_delete ops c p k s = (failed, s') \<Longrightarrow>
        inv s' \<and> set (view s') \<subseteq> set (view s) \<and> (\<forall>r \<in> set (view s). (pi_provider r, pi_key r) \<noteq> (p, k) \<longrightarrow> r \<in> set (view s')) \<and>
        (failed = None \<longrightarrow> (\<forall>r \<in> set (view s'). instance_identity r \<noteq> (tenant_from_context c, p, k)))"
begin

lemma stored_instance_found:
  assumes "inv s" "tenant_from_context c \<noteq> []" "plain (tenant_from_context c)" "plain (pi_provider r)" "pi_tenant r = []"
    and "trim_space (pi_provider r) = pi_provider r" "pi_provider r \<noteq> []" "trim_space (pi_key r) = pi_key r" "pi_key r \<noteq> []"
    and "po_upsert ops c clk r s = (Inr r', s')"
  shows "\<exists>x. po_get ops c (pi_provider r) (pi_key r) s' = Inr (Some x) \<and> instance_says x = instance_says r'"
proof -
  from upsert_law [OF assms(1,3-5,10)] obtain x where s': "inv s'" "x \<in> set (view s')" "instance_says x = instance_says r'"
    and r': "instance_says r' = ((tenant_from_context c, pi_provider r, pi_key r), pi_config_json r, pi_redirect_base_url r)"
    by blast
  from s'(3) r' have "instance_identity x = (tenant_from_context c, pi_provider r, pi_key r)" by (simp add: instance_says_def)
  moreover from get_law [OF s'(1) assms(2,3,4,6-9)] obtain found where
    "po_get ops c (pi_provider r) (pi_key r) s' = Inr found"
    "\<And>y. found = Some y \<longleftrightarrow> y \<in> set (view s') \<and> instance_identity y = (tenant_from_context c, pi_provider r, pi_key r)"
    by blast
  ultimately show ?thesis using s'(2,3) by (intro exI [of _ x]) simp
qed

text \<open>What one tenant stores does not touch the instances of another.\<close>

lemma other_tenant_upsert:
  assumes "inv s" "plain (tenant_from_context c)" "plain (pi_provider r)" "pi_tenant r = []" "po_upsert ops c clk r s = (Inr r', s')"
    and "pi_tenant q \<noteq> tenant_from_context c"
  shows "q \<in> set (view s') \<longleftrightarrow> q \<in> set (view s)"
proof -
  have "instance_identity q \<noteq> (tenant_from_context c, pi_provider r, pi_key r)"
    using assms(6) unfolding instance_identity_def prod.inject by blast
  with upsert_law [OF assms(1-5)] show ?thesis by blast
qed

end

section \<open>Both stores keep it\<close>

definition instance_mem_inv :: "instance_mem \<Rightarrow> bool" where
  "instance_mem_inv m \<longleftrightarrow> wf_map m \<and>
     (\<forall>k r. mget m k = Some r \<longrightarrow> plain (pi_tenant r) \<and> plain (pi_provider r) \<and>
        k = provider_instance_key (pi_tenant r) (pi_provider r) (pi_key r))"

lemma provider_instance_key_inj:
  assumes "provider_instance_key a b d = provider_instance_key a' b' d'" "plain a" "plain b" "plain a'" "plain b'"
  shows "a = a' \<and> b = b' \<and> d = d'"
proof -
  note eq = assms(1) [unfolded provider_instance_key_def, simplified]
  have 1: "a = a' \<and> b @ CHR ''|'' # d = b' @ CHR ''|'' # d'"
    by (rule append_sep_inj [OF eq]) (use assms in \<open>auto simp: plain_def\<close>)
  then have "b = b' \<and> d = d'"
    by (intro append_sep_inj [of b]) (use assms in \<open>auto simp: plain_def\<close>)
  with 1 show ?thesis by blast
qed

lemma instance_keyed:
  assumes "instance_mem_inv m" "mget m k' = Some q" "plain t" "plain p"
  shows "k' = provider_instance_key t p k \<longleftrightarrow> instance_identity q = (t, p, k)"
proof -
  from assms(1,2) have "plain (pi_tenant q)" "plain (pi_provider q)" "k' = provider_instance_key (pi_tenant q) (pi_provider q) (pi_key q)"
    unfolding instance_mem_inv_def by blast+
  then show ?thesis
    unfolding instance_identity_def prod.inject using provider_instance_key_inj assms(3,4) by metis
qed

lemma mem_instances_sel:
  "po_list (mem_instances sha) = list_instances" "po_get (mem_instances sha) = get_instance"
  "po_upsert (mem_instances sha) = upsert_instance sha" "po_delete (mem_instances sha) = delete_instance"
  by (simp_all add: mem_instances_def)

lemma instance_says_identity: "instance_says x = instance_says y \<Longrightarrow> instance_identity x = instance_identity y"
  unfolding instance_says_def prod.inject by blast

lemma instance_mem_values:
  assumes "instance_mem_inv m" "plain t" "plain p"
  shows "mget m (provider_instance_key t p k) = Some x \<longleftrightarrow> x \<in> set (mvals m) \<and> instance_identity x = (t, p, k)"
proof
  assume x: "mget m (provider_instance_key t p k) = Some x"
  then show "x \<in> set (mvals m) \<and> instance_identity x = (t, p, k)"
    using instance_keyed [OF assms(1) x assms(2,3), of k] mget_in_vals [OF x] by blast
next
  assume x: "x \<in> set (mvals m) \<and> instance_identity x = (t, p, k)"
  then obtain k' where k': "mget m k' = Some x"
    using assms(1) unfolding instance_mem_inv_def by (auto simp: in_mvals mget_iff)
  with instance_keyed [OF assms(1) k' assms(2,3), of k] x show "mget m (provider_instance_key t p k) = Some x" by blast
qed

lemma upsert_instance_stores:
  assumes "pi_tenant r = []"
  shows "\<exists>x. upsert_instance sha c clk r m =
      (Inr x, mput (provider_instance_key (tenant_from_context c) (pi_provider r) (pi_key r)) x m) \<and>
    instance_says x = ((tenant_from_context c, pi_provider r, pi_key r), pi_config_json r, pi_redirect_base_url r)"
  using assms by (auto simp: upsert_instance_def Let_def instance_says_def instance_identity_def)

lemma instance_mem_put:
  assumes "instance_mem_inv m" "instance_identity x = (t, p, k)" "plain t" "plain p"
  shows "instance_mem_inv (mput (provider_instance_key t p k) x m)"
    "set (mvals (mput (provider_instance_key t p k) x m)) = insert x {q \<in> set (mvals m). instance_identity q \<noteq> (t, p, k)}"
proof -
  have "wf_map m" using assms(1) by (simp add: instance_mem_inv_def)
  then show "instance_mem_inv (mput (provider_instance_key t p k) x m)"
    using assms unfolding instance_mem_inv_def instance_identity_def prod.inject
    by (auto simp: mget_mput)
  show "set (mvals (mput (provider_instance_key t p k) x m)) = insert x {q \<in> set (mvals m). instance_identity q \<noteq> (t, p, k)}"
    unfolding assms(2) [symmetric]
    by (rule set_mvals_mput [OF \<open>wf_map m\<close>]) (simp add: assms(2) instance_keyed [OF assms(1) _ assms(3,4)])
qed

lemma instance_mem_delete:
  assumes "instance_mem_inv m" "plain t" "plain p"
  shows "instance_mem_inv (mdel (provider_instance_key t p k) m)"
    "set (mvals (mdel (provider_instance_key t p k) m)) = {q \<in> set (mvals m). instance_identity q \<noteq> (t, p, k)}"
proof -
  have wf: "wf_map m" using assms(1) by (simp add: instance_mem_inv_def)
  then show "instance_mem_inv (mdel (provider_instance_key t p k) m)"
    using assms(1) unfolding instance_mem_inv_def by (auto split: if_splits)
  show "set (mvals (mdel (provider_instance_key t p k) m)) = {q \<in> set (mvals m). instance_identity q \<noteq> (t, p, k)}"
    using wf instance_keyed [OF assms(1) _ assms(2,3), of _ _ k] by (auto simp: mvals_mget split: if_splits) blast+
qed

interpretation pmem: instance_store "mem_instances sha" mvals instance_mem_inv for sha
proof
  fix s x y
  assume s: "instance_mem_inv s" and x: "x \<in> set (mvals s)" and y: "y \<in> set (mvals s)" and eq: "instance_identity x = instance_identity y"
  from s x have "plain (pi_tenant x)" "plain (pi_provider x)"
    unfolding instance_mem_inv_def by (auto simp: in_mvals mget_iff)
  from instance_mem_values [OF s this, of "pi_key x"] x y eq show "x = y"
    unfolding instance_identity_def by (metis option.inject)
next
  fix c p s
  show "\<exists>rs. po_list (mem_instances sha) c p s = Inr rs \<and>
        set rs = {r \<in> set (mvals s). field_matches p (pi_provider r) \<and> tenant_visible c (pi_tenant r)}"
    unfolding mem_instances_sel list_instances_def by (auto simp: field_matches_def)
next
  fix c p k s
  assume "instance_mem_inv s" "plain (tenant_from_context c)" "plain p"
  from instance_mem_values [OF this]
  show "\<exists>found. po_get (mem_instances sha) c p k s = Inr found \<and>
      (\<forall>x. found = Some x \<longleftrightarrow> x \<in> set (mvals s) \<and> instance_identity x = (tenant_from_context c, p, k))"
    by (auto simp: mem_instances_sel get_instance_def)
next
  fix c r clk s r' s'
  assume s: "instance_mem_inv s" and pl: "plain (tenant_from_context c)" "plain (pi_provider r)" and t: "pi_tenant r = []"
    and up: "po_upsert (mem_instances sha) c clk r s = (Inr r', s')"
  from upsert_instance_stores [OF t, of sha c clk s] up
  have s': "s' = mput (provider_instance_key (tenant_from_context c) (pi_provider r) (pi_key r)) r' s"
    and says: "instance_says r' = ((tenant_from_context c, pi_provider r, pi_key r), pi_config_json r, pi_redirect_base_url r)"
    unfolding mem_instances_sel by auto
  from says have i: "instance_identity r' = (tenant_from_context c, pi_provider r, pi_key r)" by (simp add: instance_says_def)
  note put = instance_mem_put [OF s i pl, folded s']
  show "instance_mem_inv s' \<and>
        instance_says r' = ((tenant_from_context c, pi_provider r, pi_key r), pi_config_json r, pi_redirect_base_url r) \<and>
        (\<exists>x \<in> set (mvals s'). instance_says x = instance_says r') \<and>
        (\<forall>q. instance_identity q \<noteq> (tenant_from_context c, pi_provider r, pi_key r) \<longrightarrow> q \<in> set (mvals s') \<longleftrightarrow> q \<in> set (mvals s))"
    using put(1) says i unfolding put(2) insert_iff mem_Collect_eq by blast
next
  fix c clk r s e s'
  show "po_upsert (mem_instances sha) c clk r s = (Inl e, s') \<Longrightarrow> s' = s"
    by (simp add: mem_instances_sel upsert_instance_def Let_def)
next
  fix c p k s failed s'
  assume "instance_mem_inv s" "plain (tenant_from_context c)" "plain p" and d: "po_delete (mem_instances sha) c p k s = (failed, s')"
  note del = instance_mem_delete [OF this(1-3), of k]
  from d have s': "s' = mdel (provider_instance_key (tenant_from_context c) p k) s" by (simp add: mem_instances_sel delete_instance_def)
  show "instance_mem_inv s' \<and> set (mvals s') \<subseteq> set (mvals s) \<and>
        (\<forall>r \<in> set (mvals s). (pi_provider r, pi_key r) \<noteq> (p, k) \<longrightarrow> r \<in> set (mvals s')) \<and>
        (failed = None \<longrightarrow> (\<forall>r \<in> set (mvals s'). instance_identity r \<noteq> (tenant_from_context c, p, k)))"
    using del(1) unfolding s' del(2) by (auto simp: instance_identity_def)
qed

lemma sql_instances_sel:
  "po_list (sql_instances db sha) = sql_list_instances db" "po_get (sql_instances db sha) = sql_get_instance db"
  "po_upsert (sql_instances db sha) = sql_upsert_instance db sha" "po_delete (sql_instances db sha) = sql_delete_instance db"
  by (simp_all add: sql_instances_def)

lemma instance_columns [simp]:
  "same_columns instance_schema instance_unique r q \<longleftrightarrow> instance_identity r = instance_identity q"
  "sh_text instance_schema ''tenant_id'' r = pi_tenant r" "sh_text instance_schema ''provider'' r = pi_provider r"
  "sh_text instance_schema ''instance_key'' r = pi_key r"
  by (auto simp: instance_unique_def instance_schema_def instance_text_def instance_identity_def)

lemma instance_copied:
  assumes "instance_identity r = instance_identity q"
  shows "instance_says (copy_columns instance_schema instance_updates r q) = instance_says r \<and>
    instance_identity (copy_columns instance_schema instance_updates r q) = instance_identity q"
  using assms
  by (cases q; cases r; simp add: instance_updates_def instance_schema_def instance_copy_def instance_says_def instance_identity_def)

lemma tenant_cond_holds [simp]:
  "row_holds S (tenant_cond c) r \<longleftrightarrow> (tenant_from_context c \<noteq> [] \<longrightarrow> sh_text S ''tenant_id'' r = tenant_from_context c)"
  by (simp add: tenant_cond_def)

definition instance_rows_ok :: "instance_record list \<Rightarrow> bool" where
  "instance_rows_ok t \<longleftrightarrow> distinct (map instance_identity t)"

lemma sql_upsert_instance_rows:
  assumes "sql_upsert_instance instance_rows sha c clk r t = (Inr r', t')" "pi_tenant r = []"
  shows "instance_says r' = ((tenant_from_context c, pi_provider r, pi_key r), pi_config_json r, pi_redirect_base_url r)"
    "instance_rows_ok t \<Longrightarrow> instance_rows_ok t'" "\<exists>x \<in> set t'. instance_says x = instance_says r'"
    "\<And>q. instance_identity q \<noteq> (tenant_from_context c, pi_provider r, pi_key r) \<Longrightarrow> q \<in> set t' \<longleftrightarrow> q \<in> set t"
proof -
  let ?p = "instance_prepared sha c clk r"
  have p: "instance_says ?p = ((tenant_from_context c, pi_provider r, pi_key r), pi_config_json r, pi_redirect_base_url r)"
    using assms(2) by (simp add: instance_prepared_def Let_def instance_says_def instance_identity_def)
  have "create_row instance_schema (Some (instance_unique, instance_updates)) ?p t = (Inr r', t')"
    using assms(1) by (simp add: sql_upsert_instance_def table_db_def split: if_splits)
  note created = create_row_keyed [OF this refl, where ident = instance_identity and content = instance_says,
      OF instance_columns(1) instance_copied]
  have says: "instance_says (sh_defaults instance_schema ?p) = instance_says ?p"
    by (simp add: instance_schema_def instance_says_def instance_identity_def)
  have i: "instance_identity (sh_defaults instance_schema ?p) = (tenant_from_context c, pi_provider r, pi_key r)"
    using says p by (simp add: instance_says_def)
  show "instance_says r' = ((tenant_from_context c, pi_provider r, pi_key r), pi_config_json r, pi_redirect_base_url r)"
    using created(1) says p by simp
  show "instance_rows_ok t \<Longrightarrow> instance_rows_ok t'" using created(2) by (simp add: instance_rows_ok_def)
  show "\<exists>x \<in> set t'. instance_says x = instance_says r'" using created(1,3) by simp
  show "q \<in> set t' \<longleftrightarrow> q \<in> set t" if "instance_identity q \<noteq> (tenant_from_context c, pi_provider r, pi_key r)" for q
    using that unfolding i [symmetric] by (rule created(5) [rotated])
qed

interpretation psql: instance_store "sql_instances instance_rows sha" "\<lambda>t. t" instance_rows_ok for sha
proof
  fix s x y
  show "instance_rows_ok s \<Longrightarrow> x \<in> set s \<Longrightarrow> y \<in> set s \<Longrightarrow> instance_identity x = instance_identity y \<Longrightarrow> x = y"
    unfolding instance_rows_ok_def distinct_map by (blast dest: inj_onD)
next
  fix c p s
  assume "trim_space p = p"
  then show "\<exists>rs. po_list (sql_instances instance_rows sha) c p s = Inr rs \<and>
        set rs = {r \<in> set s. field_matches p (pi_provider r) \<and> tenant_visible c (pi_tenant r)}"
    unfolding sql_instances_sel sql_list_instances_def
    by (auto simp: table_db_def find_rows_def field_matches_def tenant_visible_def)
next
  fix c p k s
  assume s: "instance_rows_ok s" and c: "tenant_from_context c \<noteq> []" and p: "trim_space p = p" "p \<noteq> []" and k: "trim_space k = k" "k \<noteq> []"
  let ?P = "\<lambda>r. instance_identity r = (tenant_from_context c, p, k)"
  have "row_holds instance_schema (instance_conds p k @ tenant_cond c) = ?P"
    using c by (auto simp: fun_eq_iff instance_conds_def instance_identity_def)
  then have "sql_get_instance instance_rows c p k s = Inr (find ?P s)"
    using p k by (simp add: sql_get_instance_def take_where)
  moreover have "find ?P s = Some x \<longleftrightarrow> x \<in> set s \<and> ?P x" for x
  proof
    show "find ?P s = Some x \<Longrightarrow> x \<in> set s \<and> ?P x" by (rule find_Some_D)
    assume x: "x \<in> set s \<and> ?P x"
    then obtain y where y: "find ?P s = Some y" by (cases "find ?P s") (auto simp: find_None_iff)
    from find_Some_D [OF y] x s have "y = x"
      unfolding instance_rows_ok_def distinct_map by (metis inj_onD)
    with y show "find ?P s = Some x" by simp
  qed
  ultimately show "\<exists>found. po_get (sql_instances instance_rows sha) c p k s = Inr found \<and> (\<forall>x. found = Some x \<longleftrightarrow> x \<in> set s \<and> ?P x)"
    unfolding sql_instances_sel by blast
next
  fix c r clk s r' s'
  assume s: "instance_rows_ok s" and t: "pi_tenant r = []" and up: "po_upsert (sql_instances instance_rows sha) c clk r s = (Inr r', s')"
  note u = sql_upsert_instance_rows [OF up [unfolded sql_instances_sel] t]
  from u(1,3,4) u(2) [OF s] show "instance_rows_ok s' \<and>
        instance_says r' = ((tenant_from_context c, pi_provider r, pi_key r), pi_config_json r, pi_redirect_base_url r) \<and>
        (\<exists>x \<in> set s'. instance_says x = instance_says r') \<and>
        (\<forall>q. instance_identity q \<noteq> (tenant_from_context c, pi_provider r, pi_key r) \<longrightarrow> q \<in> set s' \<longleftrightarrow> q \<in> set s)"
    by blast
next
  fix c clk r s e s'
  show "po_upsert (sql_instances instance_rows sha) c clk r s = (Inl e, s') \<Longrightarrow> s' = s"
    unfolding sql_instances_sel by (auto simp: sql_upsert_instance_def table_db_def create_row_def Let_def split: if_splits)
next
  fix c p k s failed s'
  assume s: "instance_rows_ok s" and p: "trim_space p = p" and k: "trim_space k = k"
    and d: "po_delete (sql_instances instance_rows sha) c p k s = (failed, s')"
  show "instance_rows_ok s' \<and> set s' \<subseteq> set s \<and> (\<forall>r \<in> set s. (pi_provider r, pi_key r) \<noteq> (p, k) \<longrightarrow> r \<in> set s') \<and>
        (failed = None \<longrightarrow> (\<forall>r \<in> set s'. instance_identity r \<noteq> (tenant_from_context c, p, k)))"
  proof (cases "p = [] \<or> k = []")
    case True
    with d s p k show ?thesis unfolding sql_instances_sel by (auto simp: sql_delete_instance_def)
  next
    case False
    with d p k have s': "s' = filter (\<lambda>q. \<not> row_holds instance_schema (instance_conds p k @ tenant_cond c) q) s" "failed = None"
      unfolding sql_instances_sel by (auto simp: sql_delete_instance_def table_db_def)
    have "instance_rows_ok s'" using s unfolding s' instance_rows_ok_def by (rule distinct_map_filter)
    then show ?thesis unfolding s' by (auto simp: instance_conds_def instance_identity_def)
  qed
qed

end
