(* ===== verification/Provider_Instances.thy ===== *)
theory Provider_Instances
  imports Provider_Config Instance_Stores Api_Common
begin

text \<open>
  The cache of provider configurations (\<^verbatim>\<open>pkg/providerinstance/cache.go\<close>) and the provider service of the API
  (\<^verbatim>\<open>pkg/api/providers_service.go\<close>) over an interface of instance stores. The cache reads the store of the
  service, as \<^verbatim>\<open>pkg/server\<close> wires it; the order in which Go walks a map of groups is the parameter \<open>order\<close>.
  Log lines are left out.
\<close>

section \<open>The cache\<close>

type_synonym instance_configs = "provider_config gmap"

definition instance_cache_key :: "string \<Rightarrow> string \<Rightarrow> string" where
  "instance_cache_key provider key = provider @ '':'' @ key"

fun configs_of :: "json_parser \<Rightarrow> instance_record list \<Rightarrow> instance_configs \<Rightarrow> instance_configs res" where
  "configs_of parse [] m = Inr m"
| "configs_of parse (r # rs) m =
     (case provider_config_from_record parse r of
        Inl err \<Rightarrow> Inl err
      | Inr cfg \<Rightarrow> configs_of parse rs (mput (instance_cache_key (pi_provider r) (pi_key r)) cfg m))"

definition refresh_tenant_configs ::
  "json_parser \<Rightarrow> string \<Rightarrow> instance_record list \<Rightarrow> instance_configs tenant_cache \<Rightarrow> go_error option \<times> instance_configs tenant_cache" where
  "refresh_tenant_configs parse tenant_id records items =
     (case configs_of parse records [] of
        Inl err \<Rightarrow> (Some err, items)
      | Inr configs \<Rightarrow>
          if configs = [] then (None, tc_delete tenant_id items) else (None, tc_set tenant_id configs items))"

definition group_instances :: "instance_record list \<Rightarrow> instance_record list gmap" where
  "group_instances rs =
     fold (\<lambda>r g. mput (pi_tenant r) ((case mget g (pi_tenant r) of None \<Rightarrow> [] | Some xs \<Rightarrow> xs) @ [r]) g) rs []"

fun refresh_instance_groups ::
  "json_parser \<Rightarrow> instance_record list gmap \<Rightarrow> instance_configs tenant_cache \<Rightarrow> go_error option \<times> instance_configs tenant_cache" where
  "refresh_instance_groups parse [] items = (None, items)"
| "refresh_instance_groups parse ((tenant_id, rs) # groups) items =
     (case refresh_tenant_configs parse tenant_id rs items of
        (Some err, items') \<Rightarrow> (Some err, items')
      | (None, items') \<Rightarrow> refresh_instance_groups parse groups items')"

record instance_cache =
  ic_parse :: json_parser
  ic_order :: "instance_record list gmap \<Rightarrow> instance_record list gmap"
  ic_list :: "(ctx \<Rightarrow> string \<Rightarrow> instance_record list res) option"
  ic_items :: "instance_configs tenant_cache"

definition refresh_instances :: "ctx \<Rightarrow> instance_cache \<Rightarrow> go_error option \<times> instance_cache" where
  "refresh_instances c ic =
     (case ic_list ic of
        None \<Rightarrow> (None, ic)
      | Some listing \<Rightarrow>
          (case listing c [] of
             Inl err \<Rightarrow> (Some err, ic)
           | Inr records \<Rightarrow>
               (let tenant_id = tenant_from_context c in
                if tenant_id \<noteq> [] then
                  (case refresh_tenant_configs (ic_parse ic) tenant_id records (ic_items ic) of
                     (err, items) \<Rightarrow> (err, ic\<lparr>ic_items := items\<rparr>))
                else
                  (let grouped = group_instances records in
                   case refresh_instance_groups (ic_parse ic) (ic_order ic grouped) (ic_items ic) of
                     (Some err, items) \<Rightarrow> (Some err, ic\<lparr>ic_items := items\<rparr>)
                   | (None, items) \<Rightarrow>
                       (None, ic\<lparr>ic_items := fold (\<lambda>k. if k \<in> set (mkeys grouped) then (\<lambda>i. i) else tc_delete k) (tc_keys items) items\<rparr>)))))"

definition config_in :: "instance_configs \<Rightarrow> string \<Rightarrow> string \<Rightarrow> provider_config \<times> bool" where
  "config_in configs provider key =
     (case mget configs (instance_cache_key provider key) of None \<Rightarrow> (zero_provider_config, False) | Some cfg \<Rightarrow> (cfg, True))"

definition config_for :: "ctx \<Rightarrow> string \<Rightarrow> string \<Rightarrow> instance_cache option \<Rightarrow> (provider_config \<times> bool) res \<times> instance_cache option" where
  "config_for c provider key cache =
     (case cache of
        None \<Rightarrow> (Inl (Error ''provider instance cache not configured''), cache)
      | Some ic \<Rightarrow>
          (let tenant_id = tenant_from_context c in
           case tc_get (ic_items ic) tenant_id of
             Some configs \<Rightarrow> (Inr (config_in configs provider key), cache)
           | None \<Rightarrow>
               if ic_list ic = None then (Inl (Error ''provider instance store not configured''), cache)
               else (case refresh_instances c ic of
                       (Some err, ic') \<Rightarrow> (Inl err, Some ic')
                     | (None, ic') \<Rightarrow>
                         (case tc_get (ic_items ic') tenant_id of
                            Some configs \<Rightarrow> (Inr (config_in configs provider key), Some ic')
                          | None \<Rightarrow> (Inr (zero_provider_config, False), Some ic')))))"

definition close_instances :: "instance_cache \<Rightarrow> instance_cache" where
  "close_instances ic = ic\<lparr>ic_items := fold tc_delete (tc_keys (ic_items ic)) (ic_items ic)\<rparr>"

section \<open>The service\<close>

text \<open>\<open>pt_cache\<close> is the cache less its store. \<open>pv_random\<close> gives the random bytes of each attempt.\<close>

record 's providers_service =
  pv_store :: "'s instance_ops option"
  pv_random :: "nat \<Rightarrow> string res"
  pv_hex :: "string \<Rightarrow> string"

record 's providers_state =
  pt_store :: 's
  pt_cache :: "instance_cache option"

definition provider_hash_attempts :: nat where
  "provider_hash_attempts = 5"

fun generate_instance_hash :: "(string \<Rightarrow> instance_record option res) \<Rightarrow> string res list \<Rightarrow> string res" where
  "generate_instance_hash find_instance [] = Inl (Error ''unable to generate unique provider instance hash'')"
| "generate_instance_hash find_instance (h # hs) =
     (case h of
        Inl err \<Rightarrow> Inl err
      | Inr hash \<Rightarrow>
          (case find_instance hash of
             Inl err \<Rightarrow> Inl err
           | Inr None \<Rightarrow> Inr hash
           | Inr (Some r) \<Rightarrow> generate_instance_hash find_instance hs))"

definition random_hex :: "'s providers_service \<Rightarrow> nat \<Rightarrow> string res" where
  "random_hex S i = bind_res (pv_random S i) (\<lambda>bytes. Inr (pv_hex S bytes))"

definition new_instance_hash :: "'s providers_service \<Rightarrow> 's instance_ops \<Rightarrow> ctx \<Rightarrow> string \<Rightarrow> 's \<Rightarrow> string res" where
  "new_instance_hash S ops c provider s =
     generate_instance_hash (\<lambda>hash. po_get ops c provider hash s) (map (random_hex S) [0..<provider_hash_attempts])"

definition refresh_cache :: "'s providers_service \<Rightarrow> ctx \<Rightarrow> 's providers_state \<Rightarrow> go_error option \<times> 's providers_state" where
  "refresh_cache S c st =
     (case pt_cache st of
        None \<Rightarrow> (None, st)
      | Some ic \<Rightarrow>
          (case refresh_instances c (ic\<lparr>ic_list := map_option (\<lambda>ops c' p. po_list ops c' p (pt_store st)) (pv_store S)\<rparr>) of
             (err, ic') \<Rightarrow> (err, st\<lparr>pt_cache := Some ic'\<rparr>)))"

definition list_providers_rpc :: "'s providers_service \<Rightarrow> ctx \<Rightarrow> string \<Rightarrow> 's providers_state \<Rightarrow> provider_msg list rpc" where
  "list_providers_rpc S c provider st =
     (case pv_store S of
        None \<Rightarrow> rpc_fail CodeFailedPrecondition ''storage not configured''
      | Some ops \<Rightarrow>
          (case po_list ops c (normalize_provider_name provider) (pt_store st) of
             Inl err \<Rightarrow> rpc_fail CodeInternal ''list provider instances failed''
           | Inr rs \<Rightarrow> Inr (to_proto_provider_records rs)))"

text \<open>An instance that does not exist is answered with no message, not with an error.\<close>

definition get_provider_rpc :: "'s providers_service \<Rightarrow> ctx \<Rightarrow> string \<Rightarrow> string \<Rightarrow> 's providers_state \<Rightarrow> provider_msg option rpc" where
  "get_provider_rpc S c provider hash st =
     (case pv_store S of
        None \<Rightarrow> rpc_fail CodeFailedPrecondition ''storage not configured''
      | Some ops \<Rightarrow>
          (case po_get ops c (normalize_provider_name provider) (trim_space hash) (pt_store st) of
             Inl err \<Rightarrow> rpc_fail CodeInternal ''get provider instance failed''
           | Inr found \<Rightarrow> Inr (map_option to_proto_provider_record found)))"

text \<open>The key under which \<^verbatim>\<open>UpsertProvider\<close> stores, from the key asked for and the instances there are.\<close>

definition chosen_hash ::
  "'s providers_service \<Rightarrow> 's instance_ops \<Rightarrow> ctx \<Rightarrow> string \<Rightarrow> string \<Rightarrow> instance_record list \<Rightarrow> 's \<Rightarrow> string rpc" where
  "chosen_hash S ops c provider hash existing s =
     (if hash = [] then
        (if existing \<noteq> [] then rpc_fail CodeAlreadyExists ''provider instance already exists''
         else case new_instance_hash S ops c provider s of
                Inl err \<Rightarrow> rpc_fail CodeInternal ''generate provider instance hash failed''
              | Inr h \<Rightarrow> Inr h)
      else if existing \<noteq> [] \<and> \<not> list_ex (\<lambda>r. pi_key r = hash) existing then
        rpc_fail CodeAlreadyExists ''provider instance already exists''
      else Inr hash)"

definition kept_config :: "'s instance_ops \<Rightarrow> ctx \<Rightarrow> string \<Rightarrow> string \<Rightarrow> string \<Rightarrow> 's \<Rightarrow> string rpc" where
  "kept_config ops c provider hash config_json s =
     (if config_json \<noteq> [] then Inr config_json
      else case po_get ops c provider hash s of
             Inl err \<Rightarrow> rpc_fail CodeInternal ''get provider instance failed''
           | Inr None \<Rightarrow> Inr []
           | Inr (Some r) \<Rightarrow> Inr (trim_space (pi_config_json r)))"

definition instance_to_store :: "string \<Rightarrow> string \<Rightarrow> string \<Rightarrow> provider_msg \<Rightarrow> instance_record" where
  "instance_to_store provider hash config_json m =
     \<lparr>pi_id = [], pi_tenant = [], pi_provider = provider, pi_key = hash, pi_config_json = config_json,
      pi_redirect_base_url = trim_space (pg_redirect_base_url m), pi_enabled = pg_enabled m, pi_created_at = 0, pi_updated_at = 0\<rparr>"

definition upsert_provider_rpc ::
  "'s providers_service \<Rightarrow> gtime \<times> gtime \<Rightarrow> ctx \<Rightarrow> provider_msg \<Rightarrow> 's providers_state \<Rightarrow> provider_msg rpc \<times> 's providers_state" where
  "upsert_provider_rpc S clk c m st =
     (case pv_store S of
        None \<Rightarrow> (rpc_fail CodeFailedPrecondition ''storage not configured'', st)
      | Some ops \<Rightarrow>
          (let provider = normalize_provider_name (pg_provider m); s = pt_store st in
           if provider = [] then (rpc_fail CodeInvalidArgument ''provider is required'', st)
           else case po_list ops c provider s of
                  Inl err \<Rightarrow> (rpc_fail CodeInternal ''list provider instances failed'', st)
                | Inr existing \<Rightarrow>
                    (case chosen_hash S ops c provider (trim_space (pg_hash m)) existing s of
                       Inl fail \<Rightarrow> (Inl fail, st)
                     | Inr hash \<Rightarrow>
                         (case kept_config ops c provider hash (trim_space (pg_config_json m)) s of
                            Inl fail \<Rightarrow> (Inl fail, st)
                          | Inr config_json \<Rightarrow>
                              (case po_upsert ops c clk (instance_to_store provider hash config_json m) s of
                                 (Inl err, s') \<Rightarrow> (rpc_fail CodeInternal ''upsert provider instance failed'', st\<lparr>pt_store := s'\<rparr>)
                               | (Inr r, s') \<Rightarrow>
                                   (Inr (to_proto_provider_record r), snd (refresh_cache S c (st\<lparr>pt_store := s'\<rparr>))))))))"

definition delete_provider_rpc ::
  "'s providers_service \<Rightarrow> ctx \<Rightarrow> string \<Rightarrow> string \<Rightarrow> 's providers_state \<Rightarrow> unit rpc \<times> 's providers_state" where
  "delete_provider_rpc S c provider hash st =
     (case pv_store S of
        None \<Rightarrow> (rpc_fail CodeFailedPrecondition ''storage not configured'', st)
      | Some ops \<Rightarrow>
          (case po_delete ops c (normalize_provider_name provider) (trim_space hash) (pt_store st) of
             (Some err, s') \<Rightarrow> (rpc_fail CodeInternal ''delete provider instance failed'', st\<lparr>pt_store := s'\<rparr>)
           | (None, s') \<Rightarrow> (Inr (), snd (refresh_cache S c (st\<lparr>pt_store := s'\<rparr>)))))"

section \<open>Names of providers are trimmed\<close>

lemma starts_with_map:
  "list_all (\<lambda>c. \<forall>d. f d = c \<longrightarrow> d = c) e \<Longrightarrow> starts_with e (map f s) \<Longrightarrow> starts_with e s"
  by (induction e s rule: starts_with.induct) auto

lemma lead_len_map:
  "list_all (list_all (\<lambda>c. \<forall>d. f d = c \<longrightarrow> d = c)) es \<Longrightarrow> lead_len es s = 0 \<Longrightarrow> lead_len es (map f s) = 0"
  by (induction es) (auto dest: starts_with_map split: if_splits)

lemma trimmed_lead:
  assumes "trim_space t = t"
  shows "lead_len space_encs t = 0" "lead_len (map rev space_encs) (rev t) = 0"
proof -
  have "prefix t (trim_left t)" using prefix_trim_right [of "trim_left t"] assms by (simp add: trim_space_def)
  then show "lead_len space_encs t = 0" by (rule lead_len_prefix) (simp add: trim_left_def)
  have "rev t = strip_lead (map rev space_encs) (rev (trim_left t))"
    using assms by (metis trim_space_def trim_right_def rev_rev_ident)
  then show "lead_len (map rev space_encs) (rev t) = 0" by (metis lead_len_strip_lead)
qed

lemma trim_space_map:
  assumes "trim_space t = t" "list_all (list_all (\<lambda>c. \<forall>d. f d = c \<longrightarrow> d = c)) space_encs"
  shows "trim_space (map f t) = map f t"
proof -
  have "list_all (list_all (\<lambda>c. \<forall>d. f d = c \<longrightarrow> d = c)) (map rev space_encs)"
    using assms(2) by (simp add: list_all_iff)
  from lead_len_map [OF this trimmed_lead(2) [OF assms(1)]] lead_len_map [OF assms(2) trimmed_lead(1) [OF assms(1)]]
  show ?thesis by (simp add: trim_space_def trim_left_def trim_right_def strip_lead_id rev_map)
qed

lemma trim_normalized [simp]: "trim_space (normalize_provider_name provider) = normalize_provider_name provider"
proof -
  let ?f = "\<lambda>d. if d = CHR ''-'' then CHR ''_'' else d"
  have r: "replace_byte s (CHR ''-'') ''_'' = map ?f s" for s
    by (induction s) (auto simp: replace_byte_def)
  have "list_all (list_all (\<lambda>c. c \<noteq> CHR ''_'')) space_encs" by code_simp
  then have enc: "list_all (list_all (\<lambda>c. \<forall>d. ?f d = c \<longrightarrow> d = c)) space_encs" by (auto simp: list_all_iff)
  have "trim_space (map ?f (to_lower (trim_space provider))) = map ?f (to_lower (trim_space provider))"
    by (rule trim_space_map [OF _ enc]) simp
  moreover have "trim_space ''atlassian'' = ''atlassian''" by code_simp
  ultimately show ?thesis by (simp add: normalize_provider_name_def Let_def r)
qed

section \<open>One instance of each provider\<close>

definition single_instances :: "instance_record list \<Rightarrow> bool" where
  "single_instances rs \<longleftrightarrow>
     (\<forall>x \<in> set rs. \<forall>y \<in> set rs. pi_tenant x = pi_tenant y \<longrightarrow> pi_provider x = pi_provider y \<longrightarrow> x = y)"

lemma refresh_cache_store [simp]: "pt_store (snd (refresh_cache S c st)) = pt_store st"
  by (simp add: refresh_cache_def split: option.split prod.split)

lemma instance_to_store_sel [simp]:
  "pi_tenant (instance_to_store p k j m) = []" "pi_provider (instance_to_store p k j m) = p"
  "pi_key (instance_to_store p k j m) = k" "pi_config_json (instance_to_store p k j m) = j"
  by (simp_all add: instance_to_store_def)

text \<open>What a call to \<^verbatim>\<open>UpsertProvider\<close> does to the store: nothing, or one accepted instance.\<close>

lemma upsert_provider_cases:
  assumes "upsert_provider_rpc S clk c m st = (answer, st')" "pv_store S = Some ops" "normalize_provider_name (pg_provider m) = p"
  obtains (unchanged) fail where "answer = Inl fail" "st' = st"
  | (rejected) hash j err s' fail where "answer = Inl fail" "po_upsert ops c clk (instance_to_store p hash j m) (pt_store st) = (Inl err, s')"
      "pt_store st' = s'"
  | (stored) existing hash j r s' where "answer = Inr (to_proto_provider_record r)" "p \<noteq> []" "po_list ops c p (pt_store st) = Inr existing"
      "chosen_hash S ops c p (trim_space (pg_hash m)) existing (pt_store st) = Inr hash"
      "kept_config ops c p hash (trim_space (pg_config_json m)) (pt_store st) = Inr j"
      "po_upsert ops c clk (instance_to_store p hash j m) (pt_store st) = (Inr r, s')"
      "st' = snd (refresh_cache S c (st\<lparr>pt_store := s'\<rparr>))"
proof (cases "p = []")
  case True
  with assms show thesis by (intro unchanged) (auto simp: upsert_provider_rpc_def rpc_fail_def)
next
  case False
  note call = assms(1) [unfolded upsert_provider_rpc_def Let_def assms(2,3) option.case if_not_P [OF False]]
  consider (list_error) err where "po_list ops c p (pt_store st) = Inl err"
    | (refused) existing fail where "po_list ops c p (pt_store st) = Inr existing"
        "chosen_hash S ops c p (trim_space (pg_hash m)) existing (pt_store st) = Inl fail"
    | (no_config) existing hash fail where "po_list ops c p (pt_store st) = Inr existing"
        "chosen_hash S ops c p (trim_space (pg_hash m)) existing (pt_store st) = Inr hash"
        "kept_config ops c p hash (trim_space (pg_config_json m)) (pt_store st) = Inl fail"
    | (asked) existing hash j x s' where "po_list ops c p (pt_store st) = Inr existing"
        "chosen_hash S ops c p (trim_space (pg_hash m)) existing (pt_store st) = Inr hash"
        "kept_config ops c p hash (trim_space (pg_config_json m)) (pt_store st) = Inr j"
        "po_upsert ops c clk (instance_to_store p hash j m) (pt_store st) = (x, s')"
    by (metis sum.exhaust prod.exhaust)
  then show thesis
  proof cases
    case (asked existing hash j x s')
    show thesis
    proof (cases x)
      case (Inl err)
      with call asked show thesis by (intro rejected [where j = j and hash = hash and s' = s']) (auto simp: rpc_fail_def)
    next
      case (Inr r)
      with call asked False show thesis by (intro stored [where j = j and hash = hash and s' = s' and existing = existing and r = r]) auto
    qed
  qed (use call in \<open>auto simp: rpc_fail_def intro: unchanged\<close>)
qed

lemma chosen_hash_existing:
  assumes "chosen_hash S ops c p h existing s = Inr hash"
  shows "existing = [] \<or> (\<exists>r \<in> set existing. pi_key r = hash)"
  using assms by (auto simp: chosen_hash_def rpc_fail_def list_ex_iff split: if_splits)

context instance_store begin

lemma upsert_keeps_single:
  assumes "pv_store S = Some ops" "inv (pt_store st)" "single_instances (view (pt_store st))"
    and "tenant_from_context c \<noteq> []" "plain (tenant_from_context c)" "plain (normalize_provider_name (pg_provider m))"
    and "upsert_provider_rpc S clk c m st = (answer, st')"
  shows "inv (pt_store st') \<and> single_instances (view (pt_store st'))"
  using assms(7,1) refl [of "normalize_provider_name (pg_provider m)"]
proof (cases rule: upsert_provider_cases)
  case (rejected hash j err s' fail)
  with upsert_error [OF rejected(2)] assms(2,3) show ?thesis by simp
next
  case (stored existing hash j r s')
  let ?t = "tenant_from_context c" and ?p = "normalize_provider_name (pg_provider m)"
  from upsert_law [OF assms(2,5) _ _ stored(6)] assms(6) have s': "inv s'"
    and same: "\<And>q. instance_identity q \<noteq> (?t, ?p, hash) \<Longrightarrow> q \<in> set (view s') \<longleftrightarrow> q \<in> set (view (pt_store st))" by auto
  from list_law [of ?p c "pt_store st"] stored(3) have ex: "set existing = {r \<in> set (view (pt_store st)). pi_provider r = ?p \<and> pi_tenant r = ?t}"
    using stored(2) assms(4) by (auto simp: field_matches_def tenant_visible_def)
  have only: "pi_key q = hash" if q: "q \<in> set (view s')" "pi_tenant q = ?t" "pi_provider q = ?p" for q
  proof (rule ccontr)
    assume k: "pi_key q \<noteq> hash"
    then have "q \<in> set (view (pt_store st))" using q(1) same [of q] unfolding instance_identity_def by blast
    with q(2,3) have e: "q \<in> set existing" unfolding ex by blast
    with chosen_hash_existing [OF stored(4)] obtain x where x: "x \<in> set existing" "pi_key x = hash" by auto
    from x(1) e assms(3) have "x = q" unfolding ex single_instances_def by (metis (mono_tags, lifting) mem_Collect_eq)
    with k x(2) show False by simp
  qed
  have "single_instances (view s')"
    unfolding single_instances_def
  proof (intro ballI impI)
    fix x y assume xy: "x \<in> set (view s')" "y \<in> set (view s')" "pi_tenant x = pi_tenant y" "pi_provider x = pi_provider y"
    show "x = y"
    proof (cases "pi_tenant x = ?t \<and> pi_provider x = ?p")
      case True
      with xy only have "instance_identity x = instance_identity y" unfolding instance_identity_def by metis
      then show ?thesis by (rule unique_law [OF s' xy(1,2)])
    next
      case False
      then have "x \<in> set (view (pt_store st))" "y \<in> set (view (pt_store st))"
        using xy same [of x] same [of y] unfolding instance_identity_def by auto
      with xy(3,4) assms(3) show ?thesis unfolding single_instances_def by blast
    qed
  qed
  with s' show ?thesis by (simp add: stored(7))
qed (use assms(2,3) in simp)

lemma delete_keeps_single:
  assumes "pv_store S = Some ops" "inv (pt_store st)" "single_instances (view (pt_store st))"
    and "plain (tenant_from_context c)" "plain (normalize_provider_name provider)"
    and "delete_provider_rpc S c provider hash st = (answer, st')"
  shows "inv (pt_store st') \<and> single_instances (view (pt_store st'))"
proof -
  obtain err s' where d: "po_delete ops c (normalize_provider_name provider) (trim_space hash) (pt_store st) = (err, s')"
    by fastforce
  with assms(1,6) have "pt_store st' = s'" by (auto simp: delete_provider_rpc_def split: option.splits)
  moreover from delete_law [OF assms(2,4,5) _ _ d] have "inv s' \<and> set (view s') \<subseteq> set (view (pt_store st))" by simp
  ultimately show ?thesis using assms(3) unfolding single_instances_def by blast
qed

end

text \<open>Calls of tenants whose names, and those of the providers, are \<open>plain\<close>.\<close>

inductive provider_calls :: "'s providers_service \<Rightarrow> 's providers_state \<Rightarrow> 's providers_state \<Rightarrow> bool" for S where
  start: "provider_calls S st st"
| upsert: "provider_calls S st st1 \<Longrightarrow> upsert_provider_rpc S clk c m st1 = (answer, st2) \<Longrightarrow>
    tenant_from_context c \<noteq> [] \<Longrightarrow> plain (tenant_from_context c) \<Longrightarrow> plain (normalize_provider_name (pg_provider m)) \<Longrightarrow>
    provider_calls S st st2"
| delete: "provider_calls S st st1 \<Longrightarrow> delete_provider_rpc S c provider hash st1 = (answer2, st2) \<Longrightarrow>
    plain (tenant_from_context c) \<Longrightarrow> plain (normalize_provider_name provider) \<Longrightarrow> provider_calls S st st2"

context instance_store begin

lemma calls_keep_single:
  assumes "provider_calls S st st'" "pv_store S = Some ops" "inv (pt_store st)" "single_instances (view (pt_store st))"
  shows "inv (pt_store st') \<and> single_instances (view (pt_store st'))"
  using assms
proof (induction rule: provider_calls.induct)
  case (upsert st st1 clk c m answer st2)
  then have "inv (pt_store st1)" "single_instances (view (pt_store st1))" by simp_all
  from upsert_keeps_single [OF upsert(7) this upsert(3-5,2)] show ?case .
next
  case (delete st st1 c provider hash answer2 st2)
  then have "inv (pt_store st1)" "single_instances (view (pt_store st1))" by simp_all
  from delete_keeps_single [OF delete(6) this delete(3,4,2)] show ?case .
qed simp

end

text \<open>
  C26: Starting from an empty store, in memory or in the database, no sequence of calls to UpsertProvider
  (by tenants) and DeleteProvider gives a tenant two instances of one provider, whatever keys are asked for.
\<close>

theorem one_instance_per_provider:
  fixes S :: "instance_mem providers_service" and S' :: "instance_record list providers_service"
  shows "(provider_calls S st st1 \<and> pv_store S = Some (mem_instances sha) \<and> pt_store st = [] \<longrightarrow>
        single_instances (mvals (pt_store st1))) \<and>
      (provider_calls S' st' st2 \<and> pv_store S' = Some (sql_instances instance_rows sha) \<and> pt_store st' = [] \<longrightarrow>
        single_instances (pt_store st2))"
proof (intro conjI impI; elim conjE)
  assume calls: "provider_calls S st st1" "pv_store S = Some (mem_instances sha)" and empty: "pt_store st = []"
  have "instance_mem_inv (pt_store st)" "single_instances (mvals (pt_store st))"
    unfolding empty by (simp_all add: instance_mem_inv_def single_instances_def mvals_def)
  from pmem.calls_keep_single [OF calls this] show "single_instances (mvals (pt_store st1))" ..
next
  assume calls: "provider_calls S' st' st2" "pv_store S' = Some (sql_instances instance_rows sha)" and empty: "pt_store st' = []"
  have "instance_rows_ok (pt_store st')" "single_instances (pt_store st')"
    unfolding empty by (simp_all add: instance_rows_ok_def single_instances_def)
  from psql.calls_keep_single [OF calls this] show "single_instances (pt_store st2)" ..
qed

definition sample_provider :: "string \<Rightarrow> provider_msg" where
  "sample_provider config_json =
     \<lparr>pg_provider = ''GitHub'', pg_hash = [], pg_config_json = config_json, pg_enabled = True, pg_redirect_base_url = [],
      pg_created_at = None, pg_updated_at = None\<rparr>"

definition sample_providers :: "'s instance_ops \<Rightarrow> 's providers_service" where
  "sample_providers ops = \<lparr>pv_store = Some ops, pv_random = (\<lambda>i. Inr ''r''), pv_hex = (\<lambda>b. ''72'')\<rparr>"

definition no_providers :: "'s \<Rightarrow> 's providers_state" where
  "no_providers s = \<lparr>pt_store = s, pt_cache = None\<rparr>"

lemma sample_calls:
  fixes S :: "'a list providers_service"
  shows "provider_calls S (no_providers []) (snd (upsert_provider_rpc S (1, 1) ''acme'' (sample_provider ''{}'') (no_providers [])))"
proof -
  have plain: "tenant_from_context ''acme'' \<noteq> []" "plain (tenant_from_context ''acme'')"
      "plain (normalize_provider_name (pg_provider (sample_provider ''{}'')))"
    by code_simp+
  show ?thesis by (rule provider_calls.upsert [OF provider_calls.start _ plain]) (rule surjective_pairing)
qed

theorem one_instance_per_provider_witness:
  "single_instances (mvals (pt_store (snd (upsert_provider_rpc (sample_providers (mem_instances id)) (1, 1) ''acme'' (sample_provider ''{}'') (no_providers []))))) \<and>
   single_instances (pt_store (snd (upsert_provider_rpc (sample_providers (sql_instances instance_rows id)) (1, 1) ''acme'' (sample_provider ''{}'') (no_providers []))))"
proof -
  have stores: "pv_store (sample_providers ops) = Some ops" "pt_store (no_providers s) = s" for ops :: "'s instance_ops" and s :: 's
    by (simp_all add: sample_providers_def no_providers_def)
  show ?thesis
    using one_instance_per_provider [of "sample_providers (mem_instances id)" "no_providers []" _ id
        "sample_providers (sql_instances instance_rows id)" "no_providers []"] sample_calls
    by (meson one_instance_per_provider stores)
qed

section \<open>What the cache answers\<close>

lemma configs_of_ok:
  assumes "configs_of parse rs m = Inr m'" "x \<in> set rs"
    and "\<And>y. y \<in> set rs \<Longrightarrow> instance_cache_key (pi_provider y) (pi_key y) = instance_cache_key (pi_provider x) (pi_key x) \<Longrightarrow> y = x"
  shows "\<exists>cfg. provider_config_from_record parse x = Inr cfg \<and> mget m' (instance_cache_key (pi_provider x) (pi_key x)) = Some cfg"
proof -
  have other: "mget m2 k = mget m1 k"
    if "configs_of parse ys m1 = Inr m2" "\<forall>y \<in> set ys. instance_cache_key (pi_provider y) (pi_key y) \<noteq> k" for ys m1 m2 k
    using that by (induction ys arbitrary: m1) (auto split: sum.splits)
  show ?thesis
    using assms
  proof (induction rs arbitrary: m)
    case (Cons r rs)
    from Cons.prems(1) obtain cfg where cfg: "provider_config_from_record parse r = Inr cfg"
        "configs_of parse rs (mput (instance_cache_key (pi_provider r) (pi_key r)) cfg m) = Inr m'"
      by (auto split: sum.splits)
    show ?case
    proof (cases "x \<in> set rs")
      case True
      show ?thesis by (rule Cons.IH [OF cfg(2) True]) (use Cons.prems(3) in auto)
    next
      case False
      with Cons.prems(2) have "r = x" by simp
      moreover from False Cons.prems(3) have "\<forall>y \<in> set rs. instance_cache_key (pi_provider y) (pi_key y) \<noteq> instance_cache_key (pi_provider x) (pi_key x)"
        by (metis list.set_intros(2))
      ultimately show ?thesis using cfg other [OF cfg(2)] by simp
    qed
  qed simp
qed

lemma configs_of_broken:
  assumes "x \<in> set rs" "provider_config_from_record parse x = Inl err"
  shows "\<exists>err'. configs_of parse rs m = Inl err'"
  using assms by (induction rs arbitrary: m) (auto split: sum.splits)

lemma instance_cache_key_inj:
  assumes "instance_cache_key p k = instance_cache_key p' k'" "CHR '':'' \<notin> set p" "CHR '':'' \<notin> set p'"
  shows "p = p' \<and> k = k'"
  by (rule append_sep_inj [of p "CHR '':''"]) (use assms in \<open>auto simp: instance_cache_key_def\<close>)

text \<open>A refresh for a tenant whose listing is known.\<close>

lemma refresh_cache_tenant:
  assumes "pv_store S = Some ops" "pt_cache st = Some ic" "tenant_from_context c \<noteq> []" "po_list ops c [] (pt_store st) = Inr rs"
    and "refresh_cache S c st = (err, st')"
  shows "\<exists>ic'. pt_cache st' = Some ic' \<and> ic_parse ic' = ic_parse ic \<and>
    (err, ic_items ic') = refresh_tenant_configs (ic_parse ic) (tenant_from_context c) rs (ic_items ic)"
  using assms
  by (cases "refresh_tenant_configs (ic_parse ic) (tenant_from_context c) rs (ic_items ic)")
     (auto simp: refresh_cache_def refresh_instances_def Let_def)

context instance_store begin

text \<open>After a refresh that went well, the cache answers with what each instance of the tenant says.\<close>

lemma refreshed_config_for:
  assumes "inv (pt_store st)" "pv_store S = Some ops" "pt_cache st = Some ic" "tenant_from_context c \<noteq> []"
    and "\<forall>r \<in> set (view (pt_store st)). CHR '':'' \<notin> set (pi_provider r)"
    and "refresh_cache S c st = (None, st')" "x \<in> set (view (pt_store st))" "pi_tenant x = tenant_from_context c"
  shows "\<exists>cfg. provider_config_from_record (ic_parse ic) x = Inr cfg \<and>
    config_for c (pi_provider x) (pi_key x) (pt_cache st') = (Inr (cfg, True), pt_cache st')"
proof -
  from list_law [of "[]" c "pt_store st"] assms(4) obtain rs where rs: "po_list ops c [] (pt_store st) = Inr rs"
      "set rs = {r \<in> set (view (pt_store st)). pi_tenant r = tenant_from_context c}"
    by (auto simp: field_matches_def tenant_visible_def)
  from refresh_cache_tenant [OF assms(2,3,4) rs(1) assms(6)] obtain ic' where ic': "pt_cache st' = Some ic'"
      "(None, ic_items ic') = refresh_tenant_configs (ic_parse ic) (tenant_from_context c) rs (ic_items ic)" by blast
  from assms(7,8) have x: "x \<in> set rs" unfolding rs(2) by blast
  have same: "y = x" if y: "y \<in> set rs" "instance_cache_key (pi_provider y) (pi_key y) = instance_cache_key (pi_provider x) (pi_key x)" for y
  proof -
    have "pi_provider y = pi_provider x \<and> pi_key y = pi_key x"
      using instance_cache_key_inj [OF y(2)] assms(5,7) y(1) unfolding rs(2) by blast
    moreover have "pi_tenant y = pi_tenant x" using y(1) assms(8) unfolding rs(2) by simp
    ultimately have "instance_identity y = instance_identity x" by (simp add: instance_identity_def)
    then show ?thesis using unique_law [OF assms(1) _ assms(7)] y(1) unfolding rs(2) by blast
  qed
  from ic'(2) obtain configs where configs: "configs_of (ic_parse ic) rs [] = Inr configs"
    by (auto simp: refresh_tenant_configs_def split: sum.splits)
  from configs_of_ok [OF configs x same] obtain cfg where cfg: "provider_config_from_record (ic_parse ic) x = Inr cfg"
      "mget configs (instance_cache_key (pi_provider x) (pi_key x)) = Some cfg" by blast
  then have "configs \<noteq> []" by auto
  with ic'(2) configs have "ic_items ic' = tc_set (tenant_from_context c) configs (ic_items ic)"
    by (simp add: refresh_tenant_configs_def)
  then have "config_for c (pi_provider x) (pi_key x) (pt_cache st') = (Inr (cfg, True), pt_cache st')"
    using cfg(2) by (simp add: config_for_def ic'(1) Let_def config_in_def)
  with cfg(1) show ?thesis by blast
qed

lemma broken_blocks_refresh:
  assumes "pv_store S = Some ops" "pt_cache st = Some ic" "tenant_from_context c \<noteq> []"
    and "x \<in> set (view (pt_store st))" "pi_tenant x = tenant_from_context c" "provider_config_from_record (ic_parse ic) x = Inl broken"
    and "refresh_cache S c st = (err, st')"
  shows "err \<noteq> None \<and> (\<exists>ic'. pt_cache st' = Some ic' \<and> ic_parse ic' = ic_parse ic \<and> ic_items ic' = ic_items ic)"
proof -
  from list_law [of "[]" c "pt_store st"] assms(3) obtain rs where rs: "po_list ops c [] (pt_store st) = Inr rs"
      "set rs = {r \<in> set (view (pt_store st)). pi_tenant r = tenant_from_context c}"
    by (auto simp: field_matches_def tenant_visible_def)
  then have "x \<in> set rs" using assms(4,5) by blast
  from configs_of_broken [OF this assms(6)] obtain e where "configs_of (ic_parse ic) rs [] = Inl e" by blast
  with refresh_cache_tenant [OF assms(1-3) rs(1) assms(7)] show ?thesis by (auto simp: refresh_tenant_configs_def)
qed

text \<open>What was accepted is in the store, under the key the answer gives.\<close>

lemma accepted_is_stored:
  assumes "inv (pt_store st)" "pv_store S = Some ops" "plain (tenant_from_context c)" "plain (normalize_provider_name (pg_provider m))"
    and "upsert_provider_rpc S clk c m st = (Inr msg, st')"
  shows "inv (pt_store st') \<and> st' = snd (refresh_cache S c (st\<lparr>pt_store := pt_store st'\<rparr>)) \<and>
    (\<exists>x \<in> set (view (pt_store st')). instance_identity x = (tenant_from_context c, normalize_provider_name (pg_provider m), pg_hash msg) \<and>
       (trim_space (pg_config_json m) \<noteq> [] \<longrightarrow> pi_config_json x = trim_space (pg_config_json m))) \<and>
    (\<forall>q. pi_provider q \<noteq> normalize_provider_name (pg_provider m) \<longrightarrow> q \<in> set (view (pt_store st)) \<longrightarrow> q \<in> set (view (pt_store st')))"
  using assms(5,2) refl [of "normalize_provider_name (pg_provider m)"]
proof (cases rule: upsert_provider_cases)
  case (stored existing hash j r s')
  let ?p = "normalize_provider_name (pg_provider m)"
  from upsert_law [OF assms(1,3) _ _ stored(6)] assms(4) obtain x where up: "inv s'"
      "instance_says r = ((tenant_from_context c, ?p, hash), j, pi_redirect_base_url (instance_to_store ?p hash j m))"
      "x \<in> set (view s')" "instance_says x = instance_says r"
      "\<forall>q. instance_identity q \<noteq> (tenant_from_context c, ?p, hash) \<longrightarrow> q \<in> set (view s') \<longleftrightarrow> q \<in> set (view (pt_store st))" by auto
  have store: "pt_store st' = s'" by (simp add: stored(7))
  have msg: "pg_hash msg = hash" using stored(1) up(2) by (simp add: to_proto_provider_record_def instance_says_def instance_identity_def)
  have j: "trim_space (pg_config_json m) \<noteq> [] \<Longrightarrow> j = trim_space (pg_config_json m)"
    using stored(5) by (simp add: kept_config_def)
  have "instance_identity x = (tenant_from_context c, ?p, hash)" "pi_config_json x = j"
    using up(2,4) by (simp_all add: instance_says_def)
  with up(1,3,5) j show ?thesis
    unfolding store msg by (intro conjI bexI [of _ x] stored(7)) (auto simp: instance_identity_def)
qed simp_all

end

text \<open>
  C25: When UpsertProvider accepts an instance and the refresh of the cache that follows goes well, the next
  lookup by provider and key answers, for that tenant, with the configuration just stored. (The names of the
  providers hold no colon, which separates provider and key in the cache.)
\<close>

theorem accepted_provider_is_served:
  fixes st :: "instance_record list providers_state"
  assumes "pv_store S = Some (sql_instances instance_rows sha)" "instance_rows_ok (pt_store st)" "pt_cache st = Some ic"
    and "tenant_from_context c \<noteq> []" "plain (tenant_from_context c)" "plain (normalize_provider_name (pg_provider m))"
    and "upsert_provider_rpc S clk c m st = (Inr msg, st')"
    and "fst (refresh_cache S c (st\<lparr>pt_store := pt_store st'\<rparr>)) = None"
    and "list_all (\<lambda>r. CHR '':'' \<notin> set (pi_provider r)) (pt_store st')"
    and "trim_space (pg_config_json m) \<noteq> []"
  shows "\<exists>cfg enabled. unmarshal_config (ic_parse ic) (trim_space (pg_config_json m)) = Inr cfg \<and>
    config_for c (normalize_provider_name (pg_provider m)) (pg_hash msg) (pt_cache st') =
      (Inr (cfg\<lparr>pc_enabled := enabled\<rparr>, True), pt_cache st')"
proof -
  let ?p = "normalize_provider_name (pg_provider m)" and ?st = "st\<lparr>pt_store := pt_store st'\<rparr>"
  from psql.accepted_is_stored [OF assms(2,1,5,6,7)] obtain x where x: "instance_rows_ok (pt_store st')"
      "st' = snd (refresh_cache S c ?st)" "x \<in> set (pt_store st')" "instance_identity x = (tenant_from_context c, ?p, pg_hash msg)"
      "pi_config_json x = trim_space (pg_config_json m)"
    using assms(10) by blast
  have id': "pi_tenant x = tenant_from_context c" "pi_provider x = ?p" "pi_key x = pg_hash msg"
    using x(4) by (simp_all add: instance_identity_def)
  have "refresh_cache S c ?st = (None, st')" using x(2) assms(8) by (metis prod.collapse)
  from psql.refreshed_config_for [OF _ assms(1) _ assms(4) _ this, of ic x] x(1,3) id' assms(3,9) obtain cfg where
    "provider_config_from_record (ic_parse ic) x = Inr cfg" "config_for c ?p (pg_hash msg) (pt_cache st') = (Inr (cfg, True), pt_cache st')"
    by (auto simp: list_all_iff)
  then show ?thesis
    by (auto simp: provider_config_from_record_def bind_res_Inr_iff x(5))
qed

definition sample_cache :: "json_parser \<Rightarrow> instance_cache" where
  "sample_cache parse = \<lparr>ic_parse = parse, ic_order = id, ic_list = None, ic_items = new_tenant_cache\<rparr>"

definition cached_providers :: "json_parser \<Rightarrow> instance_record list providers_state" where
  "cached_providers parse = \<lparr>pt_store = [], pt_cache = Some (sample_cache parse)\<rparr>"

definition sample_instance :: "string \<Rightarrow> string \<Rightarrow> instance_record" where
  "sample_instance provider config_json = instance_prepared (\<lambda>s. s) ''acme'' (1, 1)
     \<lparr>pi_id = [], pi_tenant = [], pi_provider = provider, pi_key = ''72'', pi_config_json = config_json,
      pi_redirect_base_url = [], pi_enabled = True, pi_created_at = 0, pi_updated_at = 0\<rparr>"

abbreviation sample_sql :: "instance_record list providers_service" where
  "sample_sql \<equiv> sample_providers (sql_instances instance_rows (\<lambda>s. s))"

lemma sample_words:
  "tenant_from_context ''acme'' = ''acme''" "normalize_provider_name ''GitHub'' = ''github''" "trim_space ''github'' = ''github''"
  "trim_space ''{}'' = ''{}''" "trim_space ''72'' = ''72''" "plain ''acme''" "plain ''github''"
  by code_simp+

lemma sample_instance_says:
  "instance_identity (sample_instance p j) = (''acme'', p, ''72'')" "pi_config_json (sample_instance p j) = j" "pi_enabled (sample_instance p j)"
  "pi_tenant (sample_instance p j) = ''acme''" "pi_provider (sample_instance p j) = p" "pi_key (sample_instance p j) = ''72''"
  by (simp_all add: sample_instance_def instance_prepared_def Let_def instance_identity_def sample_words)

lemma sample_upsert:
  "\<exists>st'. upsert_provider_rpc sample_sql (1, 1) ''acme'' (sample_provider ''{}'') (cached_providers parse)
      = (Inr (to_proto_provider_record (sample_instance ''github'' ''{}'')), st') \<and> pt_store st' = [sample_instance ''github'' ''{}'']"
proof -
  let ?r = "sample_instance ''github'' ''{}''"
  have list0: "po_list (sql_instances instance_rows (\<lambda>s. s)) c p [] = Inr []" for c p
    by (simp add: sql_instances_sel sql_list_instances_def table_db_def find_rows_def sorted_rows_def sort_slice_def)
  have hash: "chosen_hash sample_sql (sql_instances instance_rows (\<lambda>s. s)) ''acme'' ''github'' [] [] [] = Inr ''72''"
    by (simp add: chosen_hash_def new_instance_hash_def provider_hash_attempts_def upt_rec sample_providers_def random_hex_def
          sql_instances_sel sql_get_instance_def table_db_def sample_words)
  have put: "po_upsert (sql_instances instance_rows (\<lambda>s. s)) ''acme'' (1, 1) (instance_to_store ''github'' ''72'' ''{}'' (sample_provider ''{}'')) []
      = (Inr ?r, [?r])"
    by (simp add: sql_instances_sel sql_upsert_instance_def table_db_def create_row_def duplicate_of_def instance_to_store_def
          sample_provider_def sample_instance_def instance_schema_def Let_def sample_words instance_prepared_def)
  have s: "pv_store sample_sql = Some (sql_instances instance_rows (\<lambda>s. s))" by (simp add: sample_providers_def)
  have m: "normalize_provider_name (pg_provider (sample_provider ''{}'')) = ''github''" "trim_space (pg_hash (sample_provider ''{}'')) = []"
    "trim_space (pg_config_json (sample_provider ''{}'')) = ''{}''" "pt_store (cached_providers parse) = []"
    by (simp_all add: sample_provider_def sample_words cached_providers_def)
  show ?thesis
    by (simp add: upsert_provider_rpc_def s m list0 hash put kept_config_def Let_def)
qed

lemma sample_listing:
  "po_list (sql_instances instance_rows (\<lambda>s. s)) ''acme'' [] [sample_instance ''github'' ''{}''] = Inr [sample_instance ''github'' ''{}'']"
  by (simp add: sql_instances_sel sql_list_instances_def table_db_def find_rows_def sorted_rows_def sort_slice_def opt_cond_def
       sample_words sample_instance_says)

theorem accepted_provider_is_served_witness:
  "\<exists>(st' :: instance_record list providers_state) cfg enabled. unmarshal_config (\<lambda>raw. Inr (JObj [])) ''{}'' = Inr cfg \<and>
    config_for ''acme'' ''github'' ''72'' (pt_cache st') = (Inr (cfg\<lparr>pc_enabled := enabled\<rparr>, True), pt_cache st')"
proof -
  let ?parse = "\<lambda>raw. Inr (JObj []) :: jval res" and ?m = "sample_provider ''{}''" and ?r = "sample_instance ''github'' ''{}''"
  from sample_upsert [of ?parse] obtain st' where
    st': "upsert_provider_rpc sample_sql (1, 1) ''acme'' ?m (cached_providers ?parse) = (Inr (to_proto_provider_record ?r), st')"
      "pt_store st' = [?r]" by blast
  have m: "normalize_provider_name (pg_provider ?m) = ''github''" "trim_space (pg_config_json ?m) = ''{}''"
    by (simp_all add: sample_provider_def sample_words)
  have hash: "pg_hash (to_proto_provider_record ?r) = ''72''" by (simp add: to_proto_provider_record_def sample_instance_says)
  have cache: "pt_cache (cached_providers ?parse) = Some (sample_cache ?parse)" "ic_parse (sample_cache ?parse) = ?parse"
    by (simp_all add: cached_providers_def sample_cache_def)
  have parsed: "provider_config_from_record ?parse ?r = Inr (zero_provider_config\<lparr>pc_enabled := True\<rparr>)"
    by (simp add: provider_config_from_record_def unmarshal_config_def sample_instance_says sample_words unmarshal_provider_config_def
          pointer_field_def raw_field_def read_part_def first_of_def set_or_def zero_provider_config_def)
  have ok: "fst (refresh_cache sample_sql ''acme'' (cached_providers ?parse\<lparr>pt_store := pt_store st'\<rparr>)) = None"
    using sample_listing parsed
    by (simp add: refresh_cache_def refresh_instances_def cached_providers_def sample_cache_def sample_providers_def st'(2) Let_def
          sample_words refresh_tenant_configs_def)
  have colon: "CHR '':'' \<notin> set ''github''" by simp
  note served = accepted_provider_is_served [OF _ _ cache(1) _ _ _ st'(1) ok, unfolded m hash cache(2)]
  have "\<exists>cfg enabled. unmarshal_config ?parse ''{}'' = Inr cfg \<and>
    config_for ''acme'' ''github'' ''72'' (pt_cache st') = (Inr (cfg\<lparr>pc_enabled := enabled\<rparr>, True), pt_cache st')"
    by (rule served [where sha = "\<lambda>s. s"])
       (simp_all add: st'(2) sample_instance_says sample_words instance_rows_ok_def cached_providers_def sample_providers_def)
  then show ?thesis by blast
qed

text \<open>
  UpsertProvider does not look at the configuration it is given. One that cannot be read is accepted and
  stored, and from then on no instance of that tenant that is accepted reaches the cache, whatever its
  provider: every refresh fails on the broken one and leaves the cache as it was.
\<close>

theorem broken_config_blocks_tenant:
  fixes st :: "instance_record list providers_state"
  assumes "pv_store S = Some (sql_instances instance_rows sha)" "instance_rows_ok (pt_store st)" "pt_cache st = Some ic"
    and "tenant_from_context c \<noteq> []" "plain (tenant_from_context c)"
    and "plain (normalize_provider_name (pg_provider m))" "plain (normalize_provider_name (pg_provider n))"
    and "trim_space (pg_config_json m) \<noteq> []" "unmarshal_config (ic_parse ic) (trim_space (pg_config_json m)) = Inl broken"
    and "upsert_provider_rpc S clk c m st = (Inr msg, st1)"
    and "upsert_provider_rpc S clk' c n st1 = (Inr msg', st2)"
    and "normalize_provider_name (pg_provider n) \<noteq> normalize_provider_name (pg_provider m)"
  shows "map_option ic_items (pt_cache st2) = Some (ic_items ic)"
proof -
  from psql.accepted_is_stored [OF assms(2,1,5,6,10)] obtain x where x: "instance_rows_ok (pt_store st1)"
      "st1 = snd (refresh_cache S c (st\<lparr>pt_store := pt_store st1\<rparr>))" "x \<in> set (pt_store st1)"
      "instance_identity x = (tenant_from_context c, normalize_provider_name (pg_provider m), pg_hash msg)"
      "pi_config_json x = trim_space (pg_config_json m)"
    using assms(8) by blast
  have id': "pi_tenant x = tenant_from_context c" "pi_provider x = normalize_provider_name (pg_provider m)"
    using x(4) by (simp_all add: instance_identity_def)
  have broken: "provider_config_from_record (ic_parse ic) x = Inl broken"
    using assms(9) by (simp add: provider_config_from_record_def x(5))
  have "pt_cache (st\<lparr>pt_store := pt_store st1\<rparr>) = Some ic" "x \<in> set (pt_store (st\<lparr>pt_store := pt_store st1\<rparr>))"
    using assms(3) x(3) by simp_all
  from psql.broken_blocks_refresh [OF assms(1) this(1) assms(4) this(2) id'(1) broken surjective_pairing, folded x(2)]
  obtain ic1 where ic1: "pt_cache st1 = Some ic1" "ic_parse ic1 = ic_parse ic" "ic_items ic1 = ic_items ic" by blast
  from psql.accepted_is_stored [OF x(1) assms(1,5,7,11)] have st2: "st2 = snd (refresh_cache S c (st1\<lparr>pt_store := pt_store st2\<rparr>))"
      "x \<in> set (pt_store st2)"
    using x(3) id'(2) assms(12) by auto
  have "pt_cache (st1\<lparr>pt_store := pt_store st2\<rparr>) = Some ic1" "x \<in> set (pt_store (st1\<lparr>pt_store := pt_store st2\<rparr>))"
    using ic1(1) st2(2) by simp_all
  from psql.broken_blocks_refresh [OF assms(1) this(1) assms(4) this(2) id'(1) broken [folded ic1(2)] surjective_pairing, folded st2(1)]
  show ?thesis using ic1(3) by auto
qed

lemma sample_second_upsert:
  assumes "pt_store st = [sample_instance ''github'' ''{}'']"
  shows "\<exists>msg st'. upsert_provider_rpc sample_sql (1, 1) ''acme'' ((sample_provider ''{}'')\<lparr>pg_provider := ''gitlab''\<rparr>) st = (Inr msg, st')"
proof -
  let ?r = "sample_instance ''gitlab'' ''{}''" and ?t = "[sample_instance ''github'' ''{}'']" and ?ops = "sql_instances instance_rows (\<lambda>s. s)"
  have words: "trim_space ''gitlab'' = ''gitlab''" "normalize_provider_name ''gitlab'' = ''gitlab''" by code_simp+
  have list0: "po_list ?ops ''acme'' ''gitlab'' ?t = Inr []"
    by (simp add: sql_instances_sel sql_list_instances_def table_db_def find_rows_def sorted_rows_def sort_slice_def words sample_instance_says)
  have hash: "chosen_hash sample_sql ?ops ''acme'' ''gitlab'' [] [] ?t = Inr ''72''"
    by (simp add: chosen_hash_def new_instance_hash_def provider_hash_attempts_def upt_rec sample_providers_def random_hex_def
          sql_instances_sel sql_get_instance_def table_db_def sample_words words instance_conds_def sample_instance_says)
  have "hash_id (\<lambda>s. s) [''acme'', ''gitlab'', ''72''] \<noteq> hash_id (\<lambda>s. s) [''acme'', ''github'', ''72'']" by code_simp
  then have fresh: "\<not> duplicate_of instance_schema ?r ?t"
    by (simp add: duplicate_of_def instance_schema_def instance_text_def sample_instance_says sample_instance_def instance_prepared_def
          instance_record_id_def instance_unique_def sample_words Let_def)
  have other: "instance_identity ?r \<noteq> instance_identity (sample_instance ''github'' ''{}'')" by (simp add: sample_instance_says)
  have row: "sh_defaults instance_schema ?r = ?r" by (simp add: instance_schema_def sample_instance_says)
  have "instance_prepared (\<lambda>s. s) ''acme'' (1, 1) (instance_to_store ''gitlab'' ''72'' ''{}'' (sample_provider ''{}'')) = ?r"
    by (simp add: instance_to_store_def sample_provider_def sample_instance_def)
  then have put: "po_upsert ?ops ''acme'' (1, 1) (instance_to_store ''gitlab'' ''72'' ''{}'' ((sample_provider ''{}'')\<lparr>pg_provider := ''gitlab''\<rparr>)) ?t
      = (Inr ?r, ?t @ [?r])"
    using fresh other row
    by (simp add: sql_instances_sel sql_upsert_instance_def table_db_def create_row_def instance_to_store_def Let_def)
  have s: "pv_store sample_sql = Some ?ops" by (simp add: sample_providers_def)
  have m: "trim_space (pg_hash (sample_provider ''{}'')) = []" "trim_space (pg_config_json (sample_provider ''{}'')) = ''{}''"
    by (simp_all add: sample_provider_def sample_words)
  show ?thesis
    by (simp add: upsert_provider_rpc_def s m words assms list0 hash put kept_config_def Let_def)
qed

theorem broken_config_blocks_tenant_witness:
  "\<exists>msg st1 msg' st2. upsert_provider_rpc sample_sql (1, 1) ''acme'' (sample_provider ''{}'') (cached_providers (\<lambda>raw. Inl (Error ''bad'')))
      = (Inr msg, st1) \<and>
    upsert_provider_rpc sample_sql (1, 1) ''acme'' ((sample_provider ''{}'')\<lparr>pg_provider := ''gitlab''\<rparr>) st1 = (Inr msg', st2) \<and>
    map_option ic_items (pt_cache st2) = Some new_tenant_cache"
proof -
  let ?parse = "\<lambda>raw. Inl (Error ''bad'') :: jval res" and ?m = "sample_provider ''{}''"
  from sample_upsert [of ?parse] obtain msg st1 where
    st1: "upsert_provider_rpc sample_sql (1, 1) ''acme'' ?m (cached_providers ?parse) = (Inr msg, st1)"
      "pt_store st1 = [sample_instance ''github'' ''{}'']" by blast
  from sample_second_upsert [OF st1(2)] obtain msg' st2 where
    st2: "upsert_provider_rpc sample_sql (1, 1) ''acme'' (?m\<lparr>pg_provider := ''gitlab''\<rparr>) st1 = (Inr msg', st2)" by blast
  have m: "normalize_provider_name (pg_provider ?m) = ''github''" "trim_space (pg_config_json ?m) = ''{}''"
      "normalize_provider_name (pg_provider (?m\<lparr>pg_provider := ''gitlab''\<rparr>)) = ''gitlab''" "plain ''gitlab''"
      "normalize_provider_name ''gitlab'' = ''gitlab''"
    by (code_simp, code_simp, code_simp, code_simp, code_simp)
  have cache: "pt_cache (cached_providers ?parse) = Some (sample_cache ?parse)" "ic_parse (sample_cache ?parse) = ?parse"
      "ic_items (sample_cache ?parse) = new_tenant_cache" "pt_store (cached_providers ?parse) = []"
    by (simp_all add: cached_providers_def sample_cache_def)
  have "map_option ic_items (pt_cache st2) = Some (ic_items (sample_cache ?parse))"
    by (rule broken_config_blocks_tenant [OF _ _ cache(1) _ _ _ _ _ _ st1(1) st2, where sha = "\<lambda>s. s" and broken = "Error ''bad''"])
       (simp_all add: m cache sample_words sample_providers_def instance_rows_ok_def unmarshal_config_def)
  with st1(1) st2 show ?thesis unfolding cache(3) by blast
qed

end
