(* ===== verification/Http_Client.thy ===== *)
theory Http_Client
  imports Go_Json Base64 App_Config Store_Records
begin

text \<open>
  Calls to the APIs of the providers (\<^verbatim>\<open>http.DefaultClient\<close>, \<^verbatim>\<open>net/url\<close>, \<^verbatim>\<open>encoding/json\<close>) as \<^verbatim>\<open>pkg/oauth\<close>,
  \<^verbatim>\<open>pkg/providers\<close> and \<^verbatim>\<open>pkg/api\<close> make them. The network is a parameter: \<open>wb_do\<close> performs a call on the state of
  the world and gives a reply or an error (a URL that cannot be parsed is such an error). \<open>wb_decode\<close>
  parses the JSON value that a body begins with, \<open>wb_print\<close> prints a value.
\<close>

section \<open>Calls and replies\<close>

record http_call =
  ht_method :: string
  ht_url :: string
  ht_headers :: "(string \<times> string) list"
  ht_body :: string

record http_reply =
  hr_status :: int
  hr_status_text :: string
  hr_headers :: "string gmap"
  hr_body :: string

record 'w web =
  wb_do :: "http_call \<Rightarrow> 'w \<Rightarrow> http_reply res \<times> 'w"
  wb_decode :: json_parser
  wb_print :: "jval \<Rightarrow> string"

definition then_web :: "'a res \<times> 'w \<Rightarrow> ('a \<Rightarrow> 'w \<Rightarrow> 'b res \<times> 'w) \<Rightarrow> 'b res \<times> 'w" where
  "then_web r f = (case r of (Inl err, w) \<Rightarrow> (Inl err, w) | (Inr x, w) \<Rightarrow> f x w)"

lemma then_web_simps [simp]: "then_web (Inl err, w) f = (Inl err, w)" "then_web (Inr x, w) f = f x w"
  by (simp_all add: then_web_def)

lemma then_web_Inr: "then_web r f = (Inr y, w') \<longleftrightarrow> (\<exists>x w. r = (Inr x, w) \<and> f x w = (Inr y, w'))"
  by (auto simp: then_web_def split: prod.splits sum.splits)

definition success_status :: "int \<Rightarrow> bool" where
  "success_status s \<longleftrightarrow> 200 \<le> s \<and> s < 300"

definition bearer :: "string \<Rightarrow> string \<times> string" where
  "bearer token = (''Authorization'', ''Bearer '' @ token)"

definition basic_auth :: "string \<Rightarrow> string \<Rightarrow> string \<times> string" where
  "basic_auth user password = (''Authorization'', ''Basic '' @ b64_encode std_encoding (user @ '':'' @ password))"

definition form_content :: "string \<times> string" where
  "form_content = (''Content-Type'', ''application/x-www-form-urlencoded'')"

definition json_content :: "string \<times> string" where
  "json_content = (''Content-Type'', ''application/json'')"

text \<open>The error for a reply that is not a success, with the first bytes of its body where the code quotes them.\<close>

definition reply_error :: "string \<Rightarrow> http_reply \<Rightarrow> go_error" where
  "reply_error what r = Error (what @ '' failed: '' @ hr_status_text r)"

definition reply_body_error :: "string \<Rightarrow> http_reply \<Rightarrow> go_error" where
  "reply_body_error what r =
     Error (what @ '' failed: '' @ hr_status_text r @ '' body='' @ trim_space (take 4096 (hr_body r)))"

definition decode_error :: go_error where
  "decode_error = Error ''invalid json''"

definition decode_reply :: "'w web \<Rightarrow> (jval \<Rightarrow> 'a option) \<Rightarrow> http_reply \<Rightarrow> 'a res" where
  "decode_reply W f r = (case unmarshal (wb_decode W) f (hr_body r) of None \<Rightarrow> Inl decode_error | Some x \<Rightarrow> Inr x)"

text \<open>A call whose reply must be a success and is decoded.\<close>

definition call_json :: "'w web \<Rightarrow> (http_reply \<Rightarrow> go_error) \<Rightarrow> (jval \<Rightarrow> 'a option) \<Rightarrow> http_call \<Rightarrow> 'w \<Rightarrow> 'a res \<times> 'w" where
  "call_json W fail f call w =
     then_web (wb_do W call w)
       (\<lambda>r w. if \<not> success_status (hr_status r) then (Inl (fail r), w) else (decode_reply W f r, w))"

text \<open>A call whose reply must be a success and is not read.\<close>

definition call_only :: "'w web \<Rightarrow> (http_reply \<Rightarrow> go_error) \<Rightarrow> http_call \<Rightarrow> 'w \<Rightarrow> unit res \<times> 'w" where
  "call_only W fail call w =
     then_web (wb_do W call w) (\<lambda>r w. if \<not> success_status (hr_status r) then (Inl (fail r), w) else (Inr (), w))"

definition get_call :: "string \<Rightarrow> string \<Rightarrow> http_call" where
  "get_call url token = \<lparr>ht_method = ''GET'', ht_url = url, ht_headers = [bearer token], ht_body = []\<rparr>"

section \<open>Escaping\<close>

text \<open>\<^verbatim>\<open>url.QueryEscape\<close> and \<^verbatim>\<open>url.PathEscape\<close>; \<^verbatim>\<open>url.Values.Encode\<close> sorts by key.\<close>

definition hex_upper :: "nat \<Rightarrow> char" where
  "hex_upper n = (if n < 10 then char_of (48 + n) else char_of (55 + n))"

definition percent :: "char \<Rightarrow> string" where
  "percent c = (let n = (of_char c :: nat) in [CHR ''%'', hex_upper (n div 16), hex_upper (n mod 16)])"

definition unreserved :: "char \<Rightarrow> bool" where
  "unreserved c \<longleftrightarrow>
     (let n = (of_char c :: nat) in (48 \<le> n \<and> n \<le> 57) \<or> (65 \<le> n \<and> n \<le> 90) \<or> (97 \<le> n \<and> n \<le> 122)) \<or>
     c \<in> set ''-_.~''"

definition query_escape :: "string \<Rightarrow> string" where
  "query_escape s =
     concat (map (\<lambda>c. if unreserved c then [c] else if c = CHR '' '' then ''+'' else percent c) s)"

definition path_escape :: "string \<Rightarrow> string" where
  "path_escape s = concat (map (\<lambda>c. if unreserved c \<or> c \<in> set ''$&+=:@'' then [c] else percent c) s)"

definition form_encode :: "(string \<times> string) list \<Rightarrow> string" where
  "form_encode kvs =
     join_str ''&'' (map (\<lambda>(k, v). query_escape k @ ''='' @ query_escape v)
       (sort_slice (\<lambda>a b. fst a < fst b) kvs))"

text \<open>A parameter that is set only when it has a value.\<close>

definition opt_param :: "string \<Rightarrow> string \<Rightarrow> (string \<times> string) list" where
  "opt_param k v = (if v \<noteq> [] then [(k, v)] else [])"

section \<open>Base URLs\<close>

definition trim_slash :: "string \<Rightarrow> string" where
  "trim_slash s = trim_right_byte s (CHR ''/'')"

definition api_base_or :: "string \<Rightarrow> provider_config \<Rightarrow> string" where
  "api_base_or fallback cfg = (let b = trim_slash (base_url (pc_api cfg)) in if b = [] then fallback else b)"

definition gitlab_api :: "provider_config \<Rightarrow> string" where
  "gitlab_api = api_base_or ''https://gitlab.com/api/v4''"

definition bitbucket_api :: "provider_config \<Rightarrow> string" where
  "bitbucket_api = api_base_or ''https://api.bitbucket.org/2.0''"

definition slack_api :: "provider_config \<Rightarrow> string" where
  "slack_api = api_base_or ''https://slack.com/api''"

definition atlassian_auth :: "provider_config \<Rightarrow> string" where
  "atlassian_auth = api_base_or ''https://auth.atlassian.com''"

end
