(* ===== verification/Oauth_Tokens.thy ===== *)
theory Oauth_Tokens
  imports Http_Client
begin

text \<open>
  The tokens of the OAuth providers: refreshing one (\<^verbatim>\<open>pkg/oauth/refresh.go\<close>), exchanging a code for one and
  asking whose it is (\<^verbatim>\<open>handler_github.go\<close>, \<^verbatim>\<open>handler_gitlab.go\<close>, \<^verbatim>\<open>handler_bitbucket.go\<close>, \<^verbatim>\<open>handler_slack.go\<close>,
  \<^verbatim>\<open>handler_jira.go\<close>). \<open>now\<close> is the clock reading of a call.
\<close>

section \<open>Tokens\<close>

record oauth_token =
  ot_access :: string
  ot_refresh :: string
  ot_expires_in :: int
  ot_type :: string
  ot_scope :: string
  ot_created_at :: int
  ot_expires_at :: "gtime option"

record token_result =
  tr_access :: string
  tr_refresh :: string
  tr_expires_at :: "gtime option"

text \<open>The field for the time of expiry, which is always overwritten, is not read.\<close>

definition read_token :: "jval \<Rightarrow> oauth_token option" where
  "read_token v = do {
     access \<leftarrow> jstr [''access_token''] v; refresh \<leftarrow> jstr [''refresh_token''] v; expires \<leftarrow> jint [''expires_in''] v;
     kind \<leftarrow> jstr [''token_type''] v; scope \<leftarrow> jstr [''scope''] v; created \<leftarrow> jint [''created_at''] v;
     Some \<lparr>ot_access = access, ot_refresh = refresh, ot_expires_in = expires, ot_type = kind, ot_scope = scope,
       ot_created_at = created, ot_expires_at = None\<rparr> }"

text \<open>A \<^verbatim>\<open>time.Duration\<close> is a 64-bit count of nanoseconds: the product wraps around.\<close>

definition wrap_duration :: "int \<Rightarrow> int" where
  "wrap_duration d = (d + 2 ^ 63) mod 2 ^ 64 - 2 ^ 63"

definition expiry_from_token :: "gtime \<Rightarrow> oauth_token \<Rightarrow> gtime option" where
  "expiry_from_token now t =
     (if ot_expires_in t \<le> 0 then None else Some (now + wrap_duration (ot_expires_in t * 1000000000)))"

definition metadata_json :: "'w web \<Rightarrow> oauth_token \<Rightarrow> string" where
  "metadata_json W t = wb_print W (JObj [(''scope'', JStr (ot_scope t)), (''token_type'', JStr (ot_type t))])"

text \<open>The end of every call that answers with a token.\<close>

definition checked_token :: "string \<Rightarrow> gtime \<Rightarrow> oauth_token \<Rightarrow> oauth_token res" where
  "checked_token missing now t0 =
     (let t = t0\<lparr>ot_expires_at := expiry_from_token now t0\<rparr> in
      if ot_access t = [] then Inl (Error missing) else Inr t)"

definition token_call ::
  "'w web \<Rightarrow> (http_reply \<Rightarrow> go_error) \<Rightarrow> string \<Rightarrow> gtime \<Rightarrow> http_call \<Rightarrow> 'w \<Rightarrow> oauth_token res \<times> 'w" where
  "token_call W fail missing now call w =
     then_web (call_json W fail read_token call w) (\<lambda>t w. (checked_token missing now t, w))"

section \<open>Refreshing\<close>

definition kept_refresh :: "string \<Rightarrow> oauth_token \<Rightarrow> token_result" where
  "kept_refresh refresh t =
     \<lparr>tr_access = ot_access t, tr_refresh = (if ot_refresh t = [] then refresh else ot_refresh t),
      tr_expires_at = ot_expires_at t\<rparr>"

definition gitlab_token_url :: "provider_config \<Rightarrow> string" where
  "gitlab_token_url cfg = trim_suffix (gitlab_api cfg) ''/api/v4'' @ ''/oauth/token''"

definition refresh_gitlab_token ::
  "'w web \<Rightarrow> gtime \<Rightarrow> provider_config \<Rightarrow> string \<Rightarrow> 'w \<Rightarrow> token_result res \<times> 'w" where
  "refresh_gitlab_token W now cfg refresh w =
     (if refresh = [] then (Inl (Error ''gitlab refresh token missing''), w)
      else then_web
        (token_call W (reply_error ''gitlab token refresh'') ''gitlab access token missing'' now
          \<lparr>ht_method = ''POST'', ht_url = gitlab_token_url cfg, ht_headers = [form_content],
           ht_body = form_encode [(''client_id'', client_id (pc_oauth cfg)), (''client_secret'', client_secret (pc_oauth cfg)),
             (''grant_type'', ''refresh_token''), (''refresh_token'', refresh)]\<rparr> w)
        (\<lambda>t w. (Inr (kept_refresh refresh t), w)))"

definition bitbucket_token_url :: string where
  "bitbucket_token_url = ''https://bitbucket.org/site/oauth2/access_token''"

definition refresh_bitbucket_token ::
  "'w web \<Rightarrow> gtime \<Rightarrow> provider_config \<Rightarrow> string \<Rightarrow> 'w \<Rightarrow> token_result res \<times> 'w" where
  "refresh_bitbucket_token W now cfg refresh w =
     (if refresh = [] then (Inl (Error ''bitbucket refresh token missing''), w)
      else then_web
        (token_call W (reply_error ''bitbucket token refresh'') ''bitbucket access token missing'' now
          \<lparr>ht_method = ''POST'', ht_url = bitbucket_token_url,
           ht_headers = [basic_auth (client_id (pc_oauth cfg)) (client_secret (pc_oauth cfg)), form_content],
           ht_body = form_encode [(''grant_type'', ''refresh_token''), (''refresh_token'', refresh)]\<rparr> w)
        (\<lambda>t w. (Inr (kept_refresh refresh t), w)))"

record slack_payload =
  sp_ok :: bool
  sp_error :: string
  sp_token :: oauth_token

definition read_slack_refresh :: "jval \<Rightarrow> slack_payload option" where
  "read_slack_refresh v = do {
     ok \<leftarrow> jbool [''ok''] v; err \<leftarrow> jstr [''error''] v; access \<leftarrow> jstr [''access_token''] v;
     refresh \<leftarrow> jstr [''refresh_token''] v; expires \<leftarrow> jint [''expires_in''] v;
     Some \<lparr>sp_ok = ok, sp_error = err, sp_token = \<lparr>ot_access = access, ot_refresh = refresh, ot_expires_in = expires,
       ot_type = [], ot_scope = [], ot_created_at = 0, ot_expires_at = None\<rparr>\<rparr> }"

definition slack_failure :: "string \<Rightarrow> string \<Rightarrow> go_error" where
  "slack_failure what err = Error (what @ (if err = [] then ''unknown_error'' else err))"

definition slack_token_url :: "provider_config \<Rightarrow> string" where
  "slack_token_url cfg = trim_suffix (slack_api cfg) ''/'' @ ''/oauth.v2.access''"

definition refresh_slack_token ::
  "'w web \<Rightarrow> gtime \<Rightarrow> provider_config \<Rightarrow> string \<Rightarrow> 'w \<Rightarrow> token_result res \<times> 'w" where
  "refresh_slack_token W now cfg refresh w =
     (if refresh = [] then (Inl (Error ''slack refresh token missing''), w)
      else if client_id (pc_oauth cfg) = [] \<or> client_secret (pc_oauth cfg) = [] then
        (Inl (Error ''slack oauth client config missing''), w)
      else then_web
        (call_json W (reply_error ''slack token refresh'') read_slack_refresh
          \<lparr>ht_method = ''POST'', ht_url = slack_token_url cfg, ht_headers = [form_content],
           ht_body = form_encode [(''client_id'', client_id (pc_oauth cfg)), (''client_secret'', client_secret (pc_oauth cfg)),
             (''grant_type'', ''refresh_token''), (''refresh_token'', refresh)]\<rparr> w)
        (\<lambda>p w.
           if \<not> sp_ok p then (Inl (slack_failure ''slack token refresh failed: '' (sp_error p)), w)
           else (bind_res (checked_token ''slack access token missing'' now (sp_token p)) (\<lambda>t. Inr (kept_refresh refresh t)), w)))"

definition refresh_jira_token ::
  "'w web \<Rightarrow> gtime \<Rightarrow> provider_config \<Rightarrow> string \<Rightarrow> 'w \<Rightarrow> token_result res \<times> 'w" where
  "refresh_jira_token W now cfg refresh w =
     (if refresh = [] then (Inl (Error ''jira refresh token missing''), w)
      else if client_id (pc_oauth cfg) = [] \<or> client_secret (pc_oauth cfg) = [] then
        (Inl (Error ''jira oauth client config missing''), w)
      else then_web
        (token_call W (reply_error ''jira token refresh'') ''jira access token missing'' now
          \<lparr>ht_method = ''POST'', ht_url = atlassian_auth cfg @ ''/oauth/token'', ht_headers = [json_content],
           ht_body = wb_print W (JObj [(''client_id'', JStr (client_id (pc_oauth cfg))),
             (''client_secret'', JStr (client_secret (pc_oauth cfg))), (''grant_type'', JStr ''refresh_token''),
             (''refresh_token'', JStr refresh)])\<rparr> w)
        (\<lambda>t w. (Inr (kept_refresh refresh t), w)))"

section \<open>Exchanging a code\<close>

definition code_form :: "provider_config \<Rightarrow> string \<Rightarrow> string \<Rightarrow> (string \<times> string) list" where
  "code_form cfg code redirect_url =
     [(''client_id'', client_id (pc_oauth cfg)), (''client_secret'', client_secret (pc_oauth cfg)), (''code'', code)] @
     opt_param ''redirect_uri'' redirect_url"

definition github_oauth_base :: "provider_config \<Rightarrow> string" where
  "github_oauth_base cfg =
     (let base = trim_slash (base_url (pc_api cfg)) in
      if base \<noteq> [] \<and> base \<noteq> ''https://api.github.com'' then trim_suffix (trim_suffix base ''/api/v3'') ''/api''
      else ''https://github.com'')"

text \<open>The message for a reply without a token goes on with the whole token; it is only logged.\<close>

definition exchange_github_token ::
  "'w web \<Rightarrow> gtime \<Rightarrow> provider_config \<Rightarrow> string \<Rightarrow> string \<Rightarrow> 'w \<Rightarrow> oauth_token res \<times> 'w" where
  "exchange_github_token W now cfg code redirect_url w =
     token_call W (reply_error ''github token exchange'') ''github access token missing response='' now
       \<lparr>ht_method = ''POST'', ht_url = github_oauth_base cfg @ ''/login/oauth/access_token'',
        ht_headers = [form_content, (''Accept'', ''application/json'')], ht_body = form_encode (code_form cfg code redirect_url)\<rparr> w"

definition exchange_gitlab_token ::
  "'w web \<Rightarrow> gtime \<Rightarrow> provider_config \<Rightarrow> string \<Rightarrow> string \<Rightarrow> 'w \<Rightarrow> oauth_token res \<times> 'w" where
  "exchange_gitlab_token W now cfg code redirect_url w =
     token_call W (reply_error ''gitlab token exchange'') ''gitlab access token missing'' now
       \<lparr>ht_method = ''POST'', ht_url = gitlab_token_url cfg, ht_headers = [form_content],
        ht_body = form_encode (code_form cfg code redirect_url @ [(''grant_type'', ''authorization_code'')])\<rparr> w"

definition exchange_bitbucket_token ::
  "'w web \<Rightarrow> gtime \<Rightarrow> provider_config \<Rightarrow> string \<Rightarrow> string \<Rightarrow> 'w \<Rightarrow> oauth_token res \<times> 'w" where
  "exchange_bitbucket_token W now cfg code redirect_url w =
     token_call W (reply_body_error ''bitbucket token exchange'') ''bitbucket access token missing'' now
       \<lparr>ht_method = ''POST'', ht_url = bitbucket_token_url,
        ht_headers = [basic_auth (client_id (pc_oauth cfg)) (client_secret (pc_oauth cfg)), form_content],
        ht_body = form_encode ([(''grant_type'', ''authorization_code''), (''code'', code)] @ opt_param ''redirect_uri'' redirect_url)\<rparr> w"

section \<open>Whose token it is\<close>

definition read_gitlab_user :: "jval \<Rightarrow> (string \<times> string) option" where
  "read_gitlab_user v = do {
     uid \<leftarrow> jint [''id''] v; username \<leftarrow> jstr [''username''] v; name \<leftarrow> jstr [''name''] v;
     Some (itoa uid, if username = [] then name else username) }"

definition resolve_gitlab_account :: "'w web \<Rightarrow> provider_config \<Rightarrow> string \<Rightarrow> 'w \<Rightarrow> (string \<times> string) res \<times> 'w" where
  "resolve_gitlab_account W cfg token w =
     (if token = [] then (Inl (Error ''gitlab access token missing''), w)
      else call_json W (reply_body_error ''gitlab user lookup'') read_gitlab_user (get_call (gitlab_api cfg @ ''/user'') token) w)"

definition read_bitbucket_user :: "jval \<Rightarrow> (string \<times> string) option" where
  "read_bitbucket_user v = do {
     uuid \<leftarrow> jstr [''uuid''] v; username \<leftarrow> jstr [''username''] v; display \<leftarrow> jstr [''display_name''] v;
     nick \<leftarrow> jstr [''nickname''] v;
     Some (uuid, if display \<noteq> [] then display else if nick \<noteq> [] then nick else username) }"

definition resolve_bitbucket_account :: "'w web \<Rightarrow> provider_config \<Rightarrow> string \<Rightarrow> 'w \<Rightarrow> (string \<times> string) res \<times> 'w" where
  "resolve_bitbucket_account W cfg token w =
     (if token = [] then (Inl (Error ''bitbucket access token missing''), w)
      else call_json W (reply_body_error ''bitbucket user lookup'') read_bitbucket_user
             (get_call (bitbucket_api cfg @ ''/user'') token) w)"

section \<open>Slack\<close>

record slack_reply =
  sy_ok :: bool
  sy_error :: string
  sy_token :: oauth_token
  sy_bot_user_id :: string
  sy_app_id :: string
  sy_team :: "string \<times> string"
  sy_enterprise :: "string \<times> string"
  sy_authed_user :: "string \<times> string"
  sy_webhook :: "string \<times> string \<times> string"

definition read_slack_reply :: "jval \<Rightarrow> slack_reply option" where
  "read_slack_reply v = do {
     ok \<leftarrow> jbool [''ok''] v; err \<leftarrow> jstr [''error''] v; access \<leftarrow> jstr [''access_token''] v;
     refresh \<leftarrow> jstr [''refresh_token''] v; expires \<leftarrow> jint [''expires_in''] v; kind \<leftarrow> jstr [''token_type''] v;
     scope \<leftarrow> jstr [''scope''] v; bot \<leftarrow> jstr [''bot_user_id''] v; app \<leftarrow> jstr [''app_id''] v;
     team \<leftarrow> jstr [''team'', ''id''] v; team_name \<leftarrow> jstr [''team'', ''name''] v;
     ent \<leftarrow> jstr [''enterprise'', ''id''] v; ent_name \<leftarrow> jstr [''enterprise'', ''name''] v;
     user \<leftarrow> jstr [''authed_user'', ''id''] v; user_scope \<leftarrow> jstr [''authed_user'', ''scope''] v;
     url \<leftarrow> jstr [''incoming_webhook'', ''url''] v; channel \<leftarrow> jstr [''incoming_webhook'', ''channel''] v;
     channel_id \<leftarrow> jstr [''incoming_webhook'', ''channel_id''] v;
     Some \<lparr>sy_ok = ok, sy_error = err,
       sy_token = \<lparr>ot_access = access, ot_refresh = refresh, ot_expires_in = expires, ot_type = kind, ot_scope = scope,
         ot_created_at = 0, ot_expires_at = None\<rparr>,
       sy_bot_user_id = bot, sy_app_id = app, sy_team = (team, team_name), sy_enterprise = (ent, ent_name),
       sy_authed_user = (user, user_scope), sy_webhook = (url, channel, channel_id)\<rparr> }"

definition slack_metadata :: "slack_reply \<Rightarrow> jval" where
  "slack_metadata p =
     (case sy_webhook p of (url, channel, channel_id) \<Rightarrow>
        JObj [(''app_id'', JStr (sy_app_id p)), (''authed_user_id'', JStr (fst (sy_authed_user p))),
          (''authed_user_scope'', JStr (snd (sy_authed_user p))), (''bot_user_id'', JStr (sy_bot_user_id p)),
          (''enterprise_id'', JStr (fst (sy_enterprise p))), (''enterprise_name'', JStr (snd (sy_enterprise p))),
          (''incoming_webhook_ch'', JStr channel), (''incoming_webhook_ch_id'', JStr channel_id),
          (''incoming_webhook_url'', JStr url), (''scope'', JStr (ot_scope (sy_token p))),
          (''token_type'', JStr (ot_type (sy_token p)))])"

text \<open>The token, the workspace's id and name, and what is kept of the reply.\<close>

definition exchange_slack_token ::
  "'w web \<Rightarrow> gtime \<Rightarrow> provider_config \<Rightarrow> string \<Rightarrow> string \<Rightarrow> 'w \<Rightarrow> (oauth_token \<times> string \<times> string \<times> string) res \<times> 'w" where
  "exchange_slack_token W now cfg code redirect_url w =
     then_web
       (call_json W (reply_body_error ''slack token exchange'') read_slack_reply
         \<lparr>ht_method = ''POST'', ht_url = slack_token_url cfg, ht_headers = [form_content],
          ht_body = form_encode (code_form cfg code redirect_url)\<rparr> w)
       (\<lambda>p w.
          if \<not> sy_ok p then (Inl (slack_failure ''slack oauth error: '' (sy_error p)), w)
          else if trim_space (ot_access (sy_token p)) = [] then (Inl (Error ''slack access token missing''), w)
          else
            let team = trim_space (fst (sy_team p));
                team_id = (if team = [] then trim_space (fst (sy_enterprise p)) else team);
                name = trim_space (snd (sy_team p));
                team_name = (if name = [] then trim_space (snd (sy_enterprise p)) else name)
            in if team_id = [] then (Inl (Error ''slack team id missing''), w)
               else (Inr ((sy_token p)\<lparr>ot_expires_at := expiry_from_token now (sy_token p)\<rparr>, team_id, team_name,
                       wb_print W (slack_metadata p)), w))"

section \<open>Jira\<close>

record jira_resource =
  jr_cloud_id :: string
  jr_name :: string
  jr_url :: string
  jr_site_host :: string
  jr_scopes :: "string list"

definition read_resource :: "jval \<Rightarrow> (string \<times> string \<times> string \<times> string list) option" where
  "read_resource v = do {
     rid \<leftarrow> jstr [''id''] v; name \<leftarrow> jstr [''name''] v; url \<leftarrow> jstr [''url''] v;
     sc \<leftarrow> jslice [''scopes''] (\<lambda>x. case x of JStr s \<Rightarrow> Some s | JNull \<Rightarrow> Some [] | _ \<Rightarrow> None) v;
     Some (rid, name, url, sc) }"

definition read_resources :: "jval \<Rightarrow> (string \<times> string \<times> string \<times> string list) list option" where
  "read_resources v = jslice [] read_resource v"

text \<open>\<open>url_host\<close> is the host of a parsed URL, \<^verbatim>\<open>None\<close> when it does not parse.\<close>

definition fetch_jira_resource :: "'w web \<Rightarrow> (string \<Rightarrow> string option) \<Rightarrow> string \<Rightarrow> 'w \<Rightarrow> jira_resource res \<times> 'w" where
  "fetch_jira_resource W url_host token w =
     then_web
       (call_json W (reply_body_error ''jira accessible-resources'') read_resources
         (get_call ''https://api.atlassian.com/oauth/token/accessible-resources'' token) w)
       (\<lambda>rs w. case rs of
          [] \<Rightarrow> (Inl (Error ''jira accessible resources empty''), w)
        | (rid, name, url, sc) # _ \<Rightarrow>
            (Inr \<lparr>jr_cloud_id = trim_space rid, jr_name = trim_space name, jr_url = trim_space url,
               jr_site_host = (case url_host (trim_space url) of None \<Rightarrow> [] | Some h \<Rightarrow> trim_space h), jr_scopes = sc\<rparr>, w))"

definition jira_metadata :: "oauth_token \<Rightarrow> jira_resource \<Rightarrow> jval" where
  "jira_metadata t r =
     JObj [(''cloud_id'', JStr (jr_cloud_id r)), (''scope'', JStr (ot_scope t)),
       (''scopes'', if jr_scopes r = [] then JNull else JArr (map JStr (jr_scopes r))),
       (''site_host'', JStr (jr_site_host r)), (''site_url'', JStr (jr_url r)), (''token_type'', JStr (ot_type t))]"

definition exchange_jira_token ::
  "'w web \<Rightarrow> (string \<Rightarrow> string option) \<Rightarrow> gtime \<Rightarrow> provider_config \<Rightarrow> string \<Rightarrow> string \<Rightarrow> 'w \<Rightarrow>
     (oauth_token \<times> jira_resource \<times> string) res \<times> 'w" where
  "exchange_jira_token W url_host now cfg code redirect_url w =
     then_web
       (token_call W (reply_body_error ''jira token exchange'') ''jira access token missing'' now
         \<lparr>ht_method = ''POST'', ht_url = atlassian_auth cfg @ ''/oauth/token'', ht_headers = [json_content],
          ht_body = wb_print W (JObj ([(''client_id'', JStr (client_id (pc_oauth cfg))),
            (''client_secret'', JStr (client_secret (pc_oauth cfg))), (''code'', JStr code),
            (''grant_type'', JStr ''authorization_code'')] @
            (if redirect_url \<noteq> [] then [(''redirect_uri'', JStr redirect_url)] else [])))\<rparr> w)
       (\<lambda>t w. then_web (fetch_jira_resource W url_host (ot_access t) w)
          (\<lambda>r w. (Inr (t, r, wb_print W (jira_metadata t r)), w)))"

section \<open>What a refreshed token is\<close>

lemma checked_token_Inr:
  "checked_token missing now t0 = Inr t \<longleftrightarrow> ot_access t0 \<noteq> [] \<and> t = t0\<lparr>ot_expires_at := expiry_from_token now t0\<rparr>"
  by (auto simp: checked_token_def Let_def)

lemma expiry_in_range:
  assumes "ot_expires_in t < 9223372036"
  shows "expiry_from_token now t = (if ot_expires_in t \<le> 0 then None else Some (now + ot_expires_in t * 1000000000))"
  using assms by (simp add: expiry_from_token_def wrap_duration_def)

end
