(* ===== verification/Github_App.thy ===== *)
theory Github_App
  imports Http_Client
begin

text \<open>
  The calls a GitHub app makes for itself (\<^verbatim>\<open>pkg/providers/github/auth.go\<close>): the signed token it proves its
  identity with, and what it asks about an installation. Reading the key file, parsing the key, the RSA
  signature and parsing a time are parameters.
\<close>

record 'k key_lib =
  kl_read_file :: "string \<Rightarrow> string res"
  kl_parse :: "string \<Rightarrow> 'k res"
  kl_sign :: "'k \<Rightarrow> string \<Rightarrow> string res"
  kl_time :: "string \<Rightarrow> gtime option"

record github_app =
  gp_app_id :: int
  gp_key_path :: string
  gp_key_pem :: string
  gp_base_url :: string

definition github_app_of :: "provider_config \<Rightarrow> github_app" where
  "github_app_of cfg =
     \<lparr>gp_app_id = app_id (pc_app cfg), gp_key_path = private_key_path (pc_app cfg), gp_key_pem = private_key_pem (pc_app cfg),
      gp_base_url = base_url (pc_api cfg)\<rparr>"

definition normalize_base_url :: "string \<Rightarrow> string" where
  "normalize_base_url base0 =
     (let base = trim_space base0 in if base = [] then ''https://api.github.com'' else trim_slash base)"

definition github_private_key :: "'k key_lib \<Rightarrow> github_app \<Rightarrow> 'k res" where
  "github_private_key K app =
     bind_res (if trim_space (gp_key_pem app) \<noteq> [] then Inr (gp_key_pem app) else kl_read_file K (gp_key_path app)) (kl_parse K)"

definition encode_segment :: "'w web \<Rightarrow> jval \<Rightarrow> string" where
  "encode_segment W v = b64_encode raw_url_encoding (wb_print W v)"

definition github_claims :: "gtime \<Rightarrow> int \<Rightarrow> jval" where
  "github_claims now app =
     JObj [(''exp'', JNum (itoa (unix_seconds (now + 9 * 60 * 1000000000)))),
       (''iat'', JNum (itoa (unix_seconds (now - 30 * 1000000000)))), (''iss'', JNum (itoa app))]"

definition github_jwt :: "'w web \<Rightarrow> 'k key_lib \<Rightarrow> gtime \<Rightarrow> github_app \<Rightarrow> string res" where
  "github_jwt W K now app =
     bind_res (github_private_key K app) (\<lambda>key.
       (let unsigned = encode_segment W (JObj [(''alg'', JStr ''RS256''), (''typ'', JStr ''JWT'')]) @ ''.'' @
              encode_segment W (github_claims now (gp_app_id app))
        in bind_res (kl_sign K key unsigned) (\<lambda>signature.
             Inr (unsigned @ ''.'' @ b64_encode raw_url_encoding signature))))"

definition app_call :: "string \<Rightarrow> string \<Rightarrow> string \<Rightarrow> http_call" where
  "app_call verb url jwt =
     \<lparr>ht_method = verb, ht_url = url, ht_headers = [bearer jwt, (''Accept'', ''application/vnd.github+json'')], ht_body = []\<rparr>"

text \<open>Unlike in \<^verbatim>\<open>pkg/oauth\<close> the whole body, and not the status, is quoted.\<close>

definition app_error :: "string \<Rightarrow> http_reply \<Rightarrow> go_error" where
  "app_error what r = Error (what @ '' failed: '' @ trim_space (hr_body r))"

definition installation_url :: "github_app \<Rightarrow> int \<Rightarrow> string" where
  "installation_url app i = normalize_base_url (gp_base_url app) @ ''/app/installations/'' @ itoa i"

definition read_account :: "jval \<Rightarrow> (int \<times> string) option" where
  "read_account v = do {
     aid \<leftarrow> jint [''account'', ''id''] v; login \<leftarrow> jstr [''account'', ''login''] v; kind \<leftarrow> jstr [''account'', ''type''] v;
     Some (aid, login) }"

text \<open>The account's id and name; its type is not used.\<close>

definition fetch_installation_account ::
  "'w web \<Rightarrow> 'k key_lib \<Rightarrow> gtime \<Rightarrow> github_app \<Rightarrow> int \<Rightarrow> 'w \<Rightarrow> (string \<times> string) res \<times> 'w" where
  "fetch_installation_account W K now app i w =
     (if i = 0 then (Inl (Error ''installation id is required''), w)
      else case github_jwt W K now app of
             Inl err \<Rightarrow> (Inl err, w)
           | Inr jwt \<Rightarrow>
               then_web (call_json W (app_error ''github installation lookup'') read_account
                   (app_call ''GET'' (installation_url app i) jwt) w)
                 (\<lambda>(aid, login) w.
                    if aid = 0 then (Inl (Error ''github installation account missing''), w) else (Inr (itoa aid, login), w)))"

definition read_installation_token :: "jval \<Rightarrow> (string \<times> string) option" where
  "read_installation_token v = do { token \<leftarrow> jstr [''token''] v; expires \<leftarrow> jstr [''expires_at''] v; Some (token, expires) }"

definition fetch_installation_token ::
  "'w web \<Rightarrow> 'k key_lib \<Rightarrow> gtime \<Rightarrow> github_app \<Rightarrow> int \<Rightarrow> 'w \<Rightarrow> (string \<times> gtime option) res \<times> 'w" where
  "fetch_installation_token W K now app i w =
     (if i = 0 then (Inl (Error ''installation id is required''), w)
      else case github_jwt W K now app of
             Inl err \<Rightarrow> (Inl err, w)
           | Inr jwt \<Rightarrow>
               then_web (call_json W (app_error ''github token exchange'') read_installation_token
                   (app_call ''POST'' (installation_url app i @ ''/access_tokens'') jwt) w)
                 (\<lambda>(token, expires) w.
                    if token = [] then (Inl (Error ''github installation token missing from response''), w)
                    else (Inr (token, if expires \<noteq> [] then kl_time K expires else None), w)))"

section \<open>What is signed\<close>

lemma b64_char_no_dot: "b64_char (CHR ''-'') (CHR ''_'') n \<noteq> CHR ''.''"
proof
  assume dot: "b64_char (CHR ''-'') (CHR ''_'') n = CHR ''.''"
  then have n: "n < 62" by (auto simp: b64_char_def split: if_splits)
  from dot have "(of_char (b64_char (CHR ''-'') (CHR ''_'') n) :: nat) = 46" by simp
  with n show False by (auto simp: b64_char_def split: if_splits)
qed

lemma b64_no_dot: "CHR ''.'' \<notin> set (b64_encode raw_url_encoding s)"
proof -
  have "b64_62 e = CHR ''-'' \<Longrightarrow> b64_63 e = CHR ''_'' \<Longrightarrow> \<not> b64_padded e \<Longrightarrow> CHR ''.'' \<notin> set (b64_encode e s)" for e
    by (induction e s rule: b64_encode.induct) (auto simp: Let_def b64_char_no_dot b64_char_no_dot [symmetric])
  then show ?thesis by (simp add: raw_url_encoding_def)
qed

fun split_dots :: "string \<Rightarrow> string list" where
  "split_dots [] = [[]]"
| "split_dots (c # s) = (if c = CHR ''.'' then [] # split_dots s else case split_dots s of [] \<Rightarrow> [[c]] | p # ps \<Rightarrow> (c # p) # ps)"

lemma split_dots_part: "CHR ''.'' \<notin> set a \<Longrightarrow> split_dots (a @ CHR ''.'' # s) = a # split_dots s"
  "CHR ''.'' \<notin> set a \<Longrightarrow> split_dots a = [a]"
  by (induction a) auto

text \<open>
  The token a GitHub app proves its identity with has the three parts of a JSON Web Token, and each is
  read back: the header, the claims and the signature, made with the app's key, of the first two parts. It
  is valid from half a minute before the present and for less than the ten minutes GitHub allows.
\<close>

theorem github_jwt_reads_back:
  assumes "github_jwt W K now app = Inr token"
  shows "\<exists>h c key sig. split_dots token = [h, c, b64_encode raw_url_encoding sig] \<and>
    b64_decode raw_url_encoding h = Some (wb_print W (JObj [(''alg'', JStr ''RS256''), (''typ'', JStr ''JWT'')])) \<and>
    b64_decode raw_url_encoding c = Some (wb_print W (github_claims now (gp_app_id app))) \<and>
    github_private_key K app = Inr key \<and> kl_sign K key (h @ ''.'' @ c) = Inr sig \<and>
    github_claims now (gp_app_id app) =
      JObj [(''exp'', JNum (itoa (unix_seconds now + 540))), (''iat'', JNum (itoa (unix_seconds now - 30))), (''iss'', JNum (itoa (gp_app_id app)))]"
proof -
  let ?h = "encode_segment W (JObj [(''alg'', JStr ''RS256''), (''typ'', JStr ''JWT'')])"
  let ?c = "encode_segment W (github_claims now (gp_app_id app))"
  from assms obtain key sig where key: "github_private_key K app = Inr key" and sig: "kl_sign K key (?h @ ''.'' @ ?c) = Inr sig"
    and token: "token = ?h @ ''.'' @ ?c @ ''.'' @ b64_encode raw_url_encoding sig"
    by (auto simp: github_jwt_def bind_res_Inr_iff Let_def)
  have "split_dots token = [?h, ?c, b64_encode raw_url_encoding sig]"
    unfolding token encode_segment_def by (simp add: split_dots_part b64_no_dot)
  moreover have "unix_seconds (now + 9 * 60 * 1000000000) = unix_seconds now + 540" "unix_seconds (now - 30 * 1000000000) = unix_seconds now - 30"
    by (simp_all add: unix_seconds_def)
  then have "github_claims now (gp_app_id app) =
      JObj [(''exp'', JNum (itoa (unix_seconds now + 540))), (''iat'', JNum (itoa (unix_seconds now - 30))), (''iss'', JNum (itoa (gp_app_id app)))]"
    unfolding github_claims_def by (simp only:)
  ultimately show ?thesis using key sig by (intro exI [of _ ?h] exI [of _ ?c] exI conjI) (simp_all add: encode_segment_def)
qed

definition plain_keys :: "string key_lib" where
  "plain_keys = \<lparr>kl_read_file = (\<lambda>path. Inl (Error ''no file'')), kl_parse = Inr, kl_sign = (\<lambda>key s. Inr (key @ s)), kl_time = (\<lambda>s. None)\<rparr>"

theorem github_jwt_reads_back_witness:
  "\<exists>token h c sig. github_jwt \<lparr>wb_do = (\<lambda>call w. (Inl (Error ''down''), w)), wb_decode = (\<lambda>s. Inr JNull), wb_print = (\<lambda>v. ''{}'')\<rparr> plain_keys
      unix_epoch \<lparr>gp_app_id = 7, gp_key_path = [], gp_key_pem = ''pem'', gp_base_url = []\<rparr> = Inr token \<and>
    split_dots token = [h, c, b64_encode raw_url_encoding sig] \<and> b64_decode raw_url_encoding h = Some ''{}''"
proof -
  let ?W = "\<lparr>wb_do = (\<lambda>call w. (Inl (Error ''down''), w)), wb_decode = (\<lambda>s. Inr JNull), wb_print = (\<lambda>v. ''{}'')\<rparr> :: unit web"
  let ?app = "\<lparr>gp_app_id = 7, gp_key_path = [], gp_key_pem = ''pem'', gp_base_url = []\<rparr> :: github_app"
  have "trim_space ''pem'' \<noteq> []" by code_simp
  then obtain token where token: "github_jwt ?W plain_keys unix_epoch ?app = Inr token"
    by (simp add: github_jwt_def github_private_key_def plain_keys_def Let_def)
  from github_jwt_reads_back [OF token] obtain h c sig where
    parts: "split_dots token = [h, c, b64_encode raw_url_encoding sig]" "b64_decode raw_url_encoding h = Some ''{}''" by auto
  have "github_jwt \<lparr>wb_do = (\<lambda>call w. (Inl (Error ''down''), w)), wb_decode = (\<lambda>s. Inr JNull), wb_print = (\<lambda>v. ''{}'')\<rparr> plain_keys
      unix_epoch ?app = Inr token"
    using token by (simp add: github_jwt_def github_claims_def encode_segment_def)
  with parts show ?thesis by blast
qed

end
