(* ===== verification/Install_Service.thy ===== *)
theory Install_Service
  imports Install_Stores Provider_Instances
begin

text \<open>
  The installations service of the API (\<^verbatim>\<open>pkg/api/installations_service.go\<close>) over an interface of installation
  stores. \<open>None\<close> is a store that is not configured; the clock readings of a call are \<open>clk 0\<close>, \<open>clk 1\<close>, ... in the
  order they are made. Log lines are left out.
\<close>

section \<open>The service\<close>

fun list_each :: "'s install_ops \<Rightarrow> ctx \<Rightarrow> string list \<Rightarrow> string \<Rightarrow> 's \<Rightarrow> install_record list res" where
  "list_each ops c [] state_id s = Inr []"
| "list_each ops c (p # ps) state_id s =
     (if trim_space p = [] then list_each ops c ps state_id s
      else bind_res (io_list ops c p state_id s) (\<lambda>items. bind_res (list_each ops c ps state_id s) (\<lambda>rest. Inr (items @ rest))))"

definition asked_providers :: "string \<Rightarrow> string list" where
  "asked_providers provider = (if provider = [] then [''github'', ''gitlab'', ''bitbucket''] else [provider])"

definition list_installations_rpc ::
  "'s install_ops option \<Rightarrow> ctx \<Rightarrow> string \<Rightarrow> string \<Rightarrow> 's \<Rightarrow> install_msg list rpc" where
  "list_installations_rpc store c state_id provider s =
     (case store of
        None \<Rightarrow> rpc_fail CodeFailedPrecondition ''storage not configured''
      | Some ops \<Rightarrow>
          (case list_each ops c (asked_providers (normalize_provider_name provider)) (trim_space state_id) s of
             Inl err \<Rightarrow> rpc_fail CodeInternal ''list installations failed''
           | Inr rs \<Rightarrow> Inr (to_proto_installations rs)))"

definition get_installation_by_id_rpc ::
  "'s install_ops option \<Rightarrow> ctx \<Rightarrow> string \<Rightarrow> string \<Rightarrow> 's \<Rightarrow> install_msg rpc" where
  "get_installation_by_id_rpc store c provider installation_id s =
     (case store of
        None \<Rightarrow> rpc_fail CodeFailedPrecondition ''storage not configured''
      | Some ops \<Rightarrow>
          (case io_by_id ops c (normalize_provider_name provider) (trim_space installation_id) s of
             Inl err \<Rightarrow> rpc_fail CodeInternal ''get installation failed''
           | Inr None \<Rightarrow> rpc_fail CodeNotFound ''installation not found''
           | Inr (Some r) \<Rightarrow> Inr (to_proto_installation r)))"

definition install_to_store :: "install_msg \<Rightarrow> install_record" where
  "install_to_store m =
     \<lparr>in_id = [], in_tenant = [], in_provider = normalize_provider_name (ig_provider m),
      in_account_id = trim_space (ig_account_id m), in_account_name = trim_space (ig_account_name m),
      in_installation_id = trim_space (ig_installation_id m), in_instance_key = trim_space (ig_instance_key m),
      in_enterprise_id = trim_space (ig_enterprise_id m), in_enterprise_slug = trim_space (ig_enterprise_slug m),
      in_enterprise_name = trim_space (ig_enterprise_name m), in_access_token = trim_space (ig_access_token m),
      in_refresh_token = trim_space (ig_refresh_token m), in_expires_at = from_proto_timestamp_ptr (ig_expires_at m),
      in_metadata_json = trim_space (ig_metadata_json m), in_created_at = 0, in_updated_at = 0\<rparr>"

text \<open>The enterprise of an installation is kept when the call names none.\<close>

definition no_enterprise :: "install_record \<Rightarrow> bool" where
  "no_enterprise r \<longleftrightarrow> in_enterprise_id r = [] \<and> in_enterprise_slug r = [] \<and> in_enterprise_name r = []"

definition keep_enterprise :: "'s install_ops \<Rightarrow> ctx \<Rightarrow> 's \<Rightarrow> install_record \<Rightarrow> install_record" where
  "keep_enterprise ops c s r =
     (if no_enterprise r then
        (case io_by_id ops c (in_provider r) (in_installation_id r) s of
           Inr (Some x) \<Rightarrow> r\<lparr>in_enterprise_id := in_enterprise_id x, in_enterprise_slug := in_enterprise_slug x,
             in_enterprise_name := in_enterprise_name x\<rparr>
         | _ \<Rightarrow> r)
      else r)"

definition upsert_installation_rpc ::
  "'s install_ops option \<Rightarrow> (nat \<Rightarrow> gtime) \<Rightarrow> ctx \<Rightarrow> install_msg \<Rightarrow> 's \<Rightarrow> install_msg rpc \<times> 's" where
  "upsert_installation_rpc store clk c m s =
     (case store of
        None \<Rightarrow> (rpc_fail CodeFailedPrecondition ''storage not configured'', s)
      | Some ops \<Rightarrow>
          (let r = keep_enterprise ops c s (install_to_store m);
               r = (if is_zero (in_created_at r) then r\<lparr>in_created_at := clk 0\<rparr> else r);
               r = r\<lparr>in_updated_at := clk 1\<rparr>
           in case io_upsert ops c (clk 2, clk 3) r s of
                (Some err, s') \<Rightarrow> (rpc_fail CodeInternal ''upsert installation failed'', s')
              | (None, s') \<Rightarrow> (Inr (to_proto_installation r), s')))"

definition delete_installation_rpc ::
  "'s install_ops option \<Rightarrow> ctx \<Rightarrow> string \<Rightarrow> string \<Rightarrow> string \<Rightarrow> string \<Rightarrow> 's \<Rightarrow> unit rpc \<times> 's" where
  "delete_installation_rpc store c provider account installation key s =
     (case store of
        None \<Rightarrow> (rpc_fail CodeFailedPrecondition ''storage not configured'', s)
      | Some ops \<Rightarrow>
          (case io_delete ops c (normalize_provider_name provider) (trim_space account) (trim_space installation) (trim_space key) s of
             (Some err, s') \<Rightarrow> (rpc_fail CodeInternal ''delete installation failed'', s')
           | (None, s') \<Rightarrow> (Inr (), s')))"

section \<open>What the calls leave in the store\<close>

lemma list_each_listed:
  "list_each ops c ps a s = Inr rs \<Longrightarrow> p \<in> set ps \<Longrightarrow> trim_space p \<noteq> [] \<Longrightarrow> \<exists>items. io_list ops c p a s = Inr items \<and> set items \<subseteq> set rs"
  by (induction ps arbitrary: rs) (auto simp: bind_res_Inr_iff split: if_splits, blast)

text \<open>A message without the time stamps, which the store sets.\<close>

definition untimed :: "install_msg \<Rightarrow> install_msg" where
  "untimed m = m\<lparr>ig_created_at := None, ig_updated_at := None\<rparr>"

lemma untimed_content: "install_content x = install_content y \<Longrightarrow> untimed (to_proto_installation x) = untimed (to_proto_installation y)"
  by (cases x; cases y) (simp add: install_content_def untimed_def to_proto_installation_def)

lemma keep_enterprise_sel:
  "in_tenant (keep_enterprise ops c s r) = in_tenant r" "in_provider (keep_enterprise ops c s r) = in_provider r"
  "in_account_id (keep_enterprise ops c s r) = in_account_id r" "in_installation_id (keep_enterprise ops c s r) = in_installation_id r"
  "in_instance_key (keep_enterprise ops c s r) = in_instance_key r" "in_created_at (keep_enterprise ops c s r) = in_created_at r"
  by (simp_all add: keep_enterprise_def split: sum.split option.split)

lemma install_to_store_sel:
  "in_tenant (install_to_store m) = []" "in_created_at (install_to_store m) = 0"
  "in_provider (install_to_store m) = normalize_provider_name (ig_provider m)"
  "in_account_id (install_to_store m) = trim_space (ig_account_id m)"
  "in_installation_id (install_to_store m) = trim_space (ig_installation_id m)"
  "in_instance_key (install_to_store m) = trim_space (ig_instance_key m)"
  by (simp_all add: install_to_store_def)

lemma upsert_installation_rpc_Inr:
  assumes "upsert_installation_rpc (Some ops) clk c m s = (Inr answer, s')"
  obtains r where "io_upsert ops c (clk 2, clk 3) r s = (None, s')" "answer = to_proto_installation r"
    "r = (keep_enterprise ops c s (install_to_store m))\<lparr>in_created_at := clk 0, in_updated_at := clk 1\<rparr>"
  using assms
  by (auto simp: upsert_installation_rpc_def Let_def rpc_fail_def keep_enterprise_sel install_to_store_sel is_zero_def
      split: prod.splits option.splits)


text \<open>
  C30: An installation that \<^verbatim>\<open>UpsertInstallation\<close> has accepted is among those that \<^verbatim>\<open>ListInstallations\<close> answers the
  same caller with, for its provider and its account: as the call answered it, time stamps apart.
\<close>

theorem stored_installation_is_listed:
  assumes "install_rows_ok s" "normalize_provider_name (ig_provider m) \<noteq> []"
    and "upsert_installation_rpc (Some (sql_installs install_table sha)) clk c m s = (Inr answer, s')"
  shows "\<exists>ms x. list_installations_rpc (Some (sql_installs install_table sha)) c (ig_account_id m) (ig_provider m) s' = Inr ms \<and>
    x \<in> set ms \<and> untimed x = untimed answer"
proof -
  let ?ops = "sql_installs install_table sha"
  from assms(3) obtain r where r: "io_upsert ?ops c (clk 2, clk 3) r s = (None, s')" "answer = to_proto_installation r"
      "r = (keep_enterprise ?ops c s (install_to_store m))\<lparr>in_created_at := clk 0, in_updated_at := clk 1\<rparr>"
    by (rule upsert_installation_rpc_Inr)
  have sel: "in_tenant r = []" "in_provider r = normalize_provider_name (ig_provider m)" "in_account_id r = trim_space (ig_account_id m)"
      "in_installation_id r = trim_space (ig_installation_id m)" "in_instance_key r = trim_space (ig_instance_key m)"
    by (simp_all add: r(3) keep_enterprise_sel install_to_store_sel)
  have rc: "in_context c r = r\<lparr>in_tenant := tenant_from_context c\<rparr>" by (simp add: in_context_def sel)
  from sql_installation_upserted [OF assms(1) r(1)] obtain x where
    x: "install_rows_ok s'" "x \<in> set s'" "install_content x = install_content (in_context c r)" by blast
  have "in_provider x = in_provider r" "in_account_id x = in_account_id r" "in_tenant x = tenant_from_context c"
    using install_content_fields [OF x(3)] by (simp_all add: rc)
  with isql.list_law [OF x(1), of sha c "in_provider r" "in_account_id r"] x(2) obtain rs where
    rs: "io_list ?ops c (in_provider r) (in_account_id r) s' = Inr rs" "x \<in> set rs"
    by (auto simp: field_matches_def tenant_visible_def)
  have "untimed (to_proto_installation x) = untimed answer"
    using untimed_content [OF x(3)] by (simp add: rc r(2) untimed_def to_proto_installation_def)
  moreover have "list_each ?ops c [in_provider r] (in_account_id r) s' = Inr rs"
    using rs(1) assms(2) by (simp add: sel)
  ultimately show ?thesis
    using rs(2) assms(2)
    by (auto simp: list_installations_rpc_def asked_providers_def sel to_proto_installations_def)
qed

definition sample_install_msg :: install_msg where
  "sample_install_msg =
     \<lparr>ig_provider = ''gitlab'', ig_account_id = ''42'', ig_account_name = ''dev'', ig_installation_id = ''9'', ig_access_token = ''t'',
      ig_refresh_token = [], ig_expires_at = None, ig_metadata_json = [], ig_created_at = None, ig_updated_at = None,
      ig_instance_key = ''k'', ig_enterprise_id = [], ig_enterprise_slug = [], ig_enterprise_name = []\<rparr>"

theorem stored_installation_is_listed_witness:
  "\<exists>answer s' ms x. upsert_installation_rpc (Some (sql_installs install_table (\<lambda>s. s))) (\<lambda>i. 7) background sample_install_msg [] = (Inr answer, s') \<and>
    list_installations_rpc (Some (sql_installs install_table (\<lambda>s. s))) background ''42'' ''gitlab'' s' = Inr ms \<and>
    x \<in> set ms \<and> untimed x = untimed answer"
proof -
  let ?ops = "sql_installs install_table (\<lambda>s. s)"
  have texts: "normalize_provider_name ''gitlab'' = ''gitlab''" "trim_space ''42'' = ''42''" "trim_space ''9'' = ''9''" "trim_space ''k'' = ''k''"
    by code_simp+
  have "\<exists>answer s'. upsert_installation_rpc (Some ?ops) (\<lambda>i. 7) background sample_install_msg [] = (Inr answer, s')"
    by (simp add: upsert_installation_rpc_def Let_def sql_installs_def sql_upsert_installation_def keep_enterprise_sel install_to_store_sel
        sample_install_msg_def texts(1) table_db_def create_row_def duplicate_of_def install_schema_def is_zero_def)
  then obtain answer s' where up: "upsert_installation_rpc (Some ?ops) (\<lambda>i. 7) background sample_install_msg [] = (Inr answer, s')" by blast
  have "install_rows_ok []" by (simp add: install_rows_ok_def)
  then show ?thesis
    using stored_installation_is_listed [OF _ _ up] up by (simp add: sample_install_msg_def texts)
qed

end
