(* ===== verification/Scm_Service.thy ===== *)
theory Scm_Service
  imports Oauth_Tokens Github_App Install_Service
begin

text \<open>
  The credentials of an installation: \<^verbatim>\<open>pkg/api/scm_service.go\<close>, \<^verbatim>\<open>provider_client_service.go\<close> and
  \<^verbatim>\<open>provider_helpers.go\<close>. A call works on the stores of installations and provider instances, the cache of
  provider configurations and the state of the world. The clock readings of a call are \<open>clk 0\<close>, \<open>clk 1\<close>, ...; log
  lines are left out.
\<close>

section \<open>Configurations\<close>

definition has_instance_config :: "provider_config \<Rightarrow> bool" where
  "has_instance_config cfg \<longleftrightarrow>
     pc_enabled cfg \<or>
     (pc_key cfg \<noteq> [] \<or> wh_path (pc_webhook cfg) \<noteq> [] \<or> wh_secret (pc_webhook cfg) \<noteq> []) \<or>
     (app_id (pc_app cfg) \<noteq> 0 \<or> private_key_path (pc_app cfg) \<noteq> [] \<or>
        private_key_pem (pc_app cfg) \<noteq> [] \<or> app_slug (pc_app cfg) \<noteq> []) \<or>
     (client_id (pc_oauth cfg) \<noteq> [] \<or> client_secret (pc_oauth cfg) \<noteq> [] \<or> scopes (pc_oauth cfg) \<noteq> []) \<or>
     (base_url (pc_api cfg) \<noteq> [] \<or> web_base_url (pc_api cfg) \<noteq> [])"

definition config_from_auth :: "auth_providers \<Rightarrow> string \<Rightarrow> provider_config" where
  "config_from_auth cfg provider0 =
     (let provider = normalize_provider_name provider0 in
      if provider = ''gitlab'' then ap_gitlab cfg
      else if provider = ''bitbucket'' then ap_bitbucket cfg
      else if provider = ''slack'' then ap_slack cfg
      else if provider = ''atlassian'' \<or> provider = ''jira'' then
        (if has_instance_config (ap_atlassian cfg) then ap_atlassian cfg else ap_jira cfg)
      else ap_github cfg)"

text \<open>The services of the API that look up a configuration: their stores, the cache, and what they call.\<close>

record ('s, 'p, 'w, 'k) access =
  ac_store :: "'s install_ops option"
  ac_instances :: "'p instance_ops option"
  ac_parse :: json_parser
  ac_providers :: auth_providers
  ac_web :: "'w web"
  ac_keys :: "'k key_lib"

record ('s, 'p, 'w) access_state =
  as_installs :: 's
  as_instances :: 'p
  as_cache :: "instance_cache option"
  as_world :: 'w

text \<open>\<open>as_cache\<close> is the cache less its store, which is the one of the service.\<close>

definition cached_config ::
  "('s, 'p, 'w, 'k) access \<Rightarrow> ctx \<Rightarrow> string \<Rightarrow> string \<Rightarrow> ('s, 'p, 'w) access_state \<Rightarrow>
     provider_config option \<times> ('s, 'p, 'w) access_state" where
  "cached_config A c provider key st =
     (case as_cache st of
        None \<Rightarrow> (None, st)
      | Some ic \<Rightarrow>
          (case config_for c provider key
              (Some (ic\<lparr>ic_list := map_option (\<lambda>ops c' p. po_list ops c' p (as_instances st)) (ac_instances A)\<rparr>)) of
             (Inr (cfg, True), cache) \<Rightarrow> (Some cfg, st\<lparr>as_cache := cache\<rparr>)
           | (r, cache) \<Rightarrow> (None, st\<lparr>as_cache := cache\<rparr>)))"

text \<open>What the store has under a key; \<open>absent\<close> is the answer when it has nothing.\<close>

definition stored_config ::
  "('s, 'p, 'w, 'k) access \<Rightarrow> ctx \<Rightarrow> string \<Rightarrow> string \<Rightarrow> provider_config res \<Rightarrow> ('s, 'p, 'w) access_state \<Rightarrow> provider_config res" where
  "stored_config A c provider key absent st =
     (case ac_instances A of
        None \<Rightarrow> absent
      | Some ops \<Rightarrow>
          (case po_get ops c provider key (as_instances st) of
             Inl err \<Rightarrow> Inl err
           | Inr (Some r) \<Rightarrow> provider_config_from_record (ac_parse A) r
           | Inr None \<Rightarrow> absent))"

definition scm_provider_config ::
  "('s, 'p, 'w, 'k) access \<Rightarrow> ctx \<Rightarrow> string \<Rightarrow> string \<Rightarrow> ('s, 'p, 'w) access_state \<Rightarrow>
     provider_config res \<times> ('s, 'p, 'w) access_state" where
  "scm_provider_config A c provider key0 st =
     (let key = trim_space key0 in
      if key = [] then (Inr (config_from_auth (ac_providers A) provider), st)
      else case cached_config A c provider key st of
             (Some cfg, st') \<Rightarrow> (Inr cfg, st')
           | (None, st') \<Rightarrow>
               (stored_config A c provider key (Inl (Error (''provider instance not found: '' @ key))) st', st'))"

section \<open>Clients\<close>

record scm_credentials =
  sm_provider :: string
  sm_api_base :: string
  sm_access_token :: string
  sm_expires_at :: "gtime option"
  sm_instance_key :: string

definition resolve_api_base :: "string \<Rightarrow> provider_config \<Rightarrow> string" where
  "resolve_api_base provider cfg =
     (let b = trim_space (base_url (pc_api cfg)) in
      if b \<noteq> [] then b
      else if provider = ''github'' then ''https://api.github.com''
      else if provider = ''gitlab'' then ''https://gitlab.com/api/v4''
      else if provider = ''bitbucket'' then ''https://api.bitbucket.org/2.0''
      else if provider = ''slack'' then ''https://slack.com/api''
      else if provider = ''atlassian'' \<or> provider = ''jira'' then ''https://api.atlassian.com''
      else [])"

definition should_refresh :: "gtime \<Rightarrow> gtime option \<Rightarrow> bool" where
  "should_refresh now expires = (case expires of None \<Rightarrow> False | Some t \<Rightarrow> t - 60 * 1000000000 < now)"

definition resolve_scm_installation ::
  "'s install_ops \<Rightarrow> ctx \<Rightarrow> string \<Rightarrow> string \<Rightarrow> string \<Rightarrow> 's \<Rightarrow> install_record option res" where
  "resolve_scm_installation ops c provider installation key s =
     (if key \<noteq> [] then io_by_key ops c provider installation key s else io_by_id ops c provider installation s)"

definition refresh_by_provider ::
  "'w web \<Rightarrow> gtime \<Rightarrow> string \<Rightarrow> provider_config \<Rightarrow> string \<Rightarrow> 'w \<Rightarrow> token_result res \<times> 'w" where
  "refresh_by_provider W now provider cfg refresh w =
     (if provider = ''gitlab'' then refresh_gitlab_token W now cfg refresh w
      else if provider = ''bitbucket'' then refresh_bitbucket_token W now cfg refresh w
      else if provider = ''slack'' then refresh_slack_token W now cfg refresh w
      else if provider = ''atlassian'' \<or> provider = ''jira'' then refresh_jira_token W now cfg refresh w
      else (Inl (Error ''unsupported provider for refresh''), w))"

definition refreshed_record :: "token_result \<Rightarrow> install_record \<Rightarrow> install_record" where
  "refreshed_record t r =
     r\<lparr>in_access_token := tr_access t, in_refresh_token := tr_refresh t, in_expires_at := tr_expires_at t\<rparr>"

definition credentials_of :: "string \<Rightarrow> provider_config \<Rightarrow> install_record \<Rightarrow> scm_credentials" where
  "credentials_of provider cfg r =
     \<lparr>sm_provider = provider, sm_api_base = resolve_api_base provider cfg, sm_access_token = in_access_token r,
      sm_expires_at = to_proto_timestamp_ptr (in_expires_at r), sm_instance_key = in_instance_key r\<rparr>"

text \<open>The new token is answered even if storing it fails.\<close>

definition token_client ::
  "('s, 'p, 'w, 'k) access \<Rightarrow> 's install_ops \<Rightarrow> (nat \<Rightarrow> gtime) \<Rightarrow> ctx \<Rightarrow> string \<Rightarrow> provider_config \<Rightarrow> install_record \<Rightarrow>
     ('s, 'p, 'w) access_state \<Rightarrow> scm_credentials res \<times> ('s, 'p, 'w) access_state" where
  "token_client A ops clk c provider cfg r st =
     (if in_access_token r = [] then (Inl (Error ''access token missing''), st)
      else if should_refresh (clk 0) (in_expires_at r) \<and> in_refresh_token r \<noteq> [] then
        (case refresh_by_provider (ac_web A) (clk 1) provider cfg (in_refresh_token r) (as_world st) of
           (Inl err, w) \<Rightarrow> (Inl (Error (''token refresh failed: '' @ error_text err)), st\<lparr>as_world := w\<rparr>)
         | (Inr t, w) \<Rightarrow>
             (case io_upsert ops c (clk 2, clk 3) (refreshed_record t r) (as_installs st) of
                (err, s) \<Rightarrow> (Inr (credentials_of provider cfg (refreshed_record t r)), st\<lparr>as_world := w, as_installs := s\<rparr>)))
      else (Inr (credentials_of provider cfg r), st))"

definition github_client ::
  "('s, 'p, 'w, 'k) access \<Rightarrow> (nat \<Rightarrow> gtime) \<Rightarrow> string \<Rightarrow> provider_config \<Rightarrow> install_record \<Rightarrow>
     ('s, 'p, 'w) access_state \<Rightarrow> scm_credentials res \<times> ('s, 'p, 'w) access_state" where
  "github_client A clk provider cfg r st =
     (if app_id (pc_app cfg) = 0 \<or> (private_key_path (pc_app cfg) = [] \<and> private_key_pem (pc_app cfg) = []) then
        (Inl (Error ''github app credentials missing''), st)
      else case atoi (trim_space (in_installation_id r)) of
             None \<Rightarrow> (Inl (Error ''github installation id invalid''), st)
           | Some i \<Rightarrow>
               if i = 0 then (Inl (Error ''github installation id invalid''), st)
               else (case fetch_installation_token (ac_web A) (ac_keys A) (clk 0)
                        ((github_app_of cfg)\<lparr>gp_base_url := trim_space (base_url (pc_api cfg))\<rparr>) i (as_world st) of
                       (Inl err, w) \<Rightarrow> (Inl (Error (''github token exchange failed: '' @ error_text err)), st\<lparr>as_world := w\<rparr>)
                     | (Inr (token, expires), w) \<Rightarrow>
                         (Inr \<lparr>sm_provider = provider, sm_api_base = resolve_api_base provider cfg, sm_access_token = token,
                            sm_expires_at = to_proto_timestamp_ptr expires, sm_instance_key = in_instance_key r\<rparr>,
                          st\<lparr>as_world := w\<rparr>)))"

definition client_for_installation ::
  "('s, 'p, 'w, 'k) access \<Rightarrow> 's install_ops \<Rightarrow> (nat \<Rightarrow> gtime) \<Rightarrow> ctx \<Rightarrow> string \<Rightarrow> provider_config \<Rightarrow> install_record \<Rightarrow>
     ('s, 'p, 'w) access_state \<Rightarrow> scm_credentials res \<times> ('s, 'p, 'w) access_state" where
  "client_for_installation A ops clk c provider cfg r st =
     (if provider = ''github'' then github_client A clk provider cfg r st
      else if provider \<in> set [''gitlab'', ''bitbucket'', ''slack'', ''atlassian'', ''jira''] then
        token_client A ops clk c provider cfg r st
      else (Inl (Error ''unsupported provider''), st))"

record provider_client =
  pl_provider :: string
  pl_type :: provider_type
  pl_api_base :: string
  pl_access_token :: string
  pl_expires_at :: "gtime option"
  pl_instance_key :: string

definition get_provider_client ::
  "('s, 'p, 'w, 'k) access \<Rightarrow> (nat \<Rightarrow> gtime) \<Rightarrow> ctx \<Rightarrow> string \<Rightarrow> string \<Rightarrow> string \<Rightarrow>
     ('s, 'p, 'w) access_state \<Rightarrow> provider_client res \<times> ('s, 'p, 'w) access_state" where
  "get_provider_client A clk c provider0 installation0 key0 st =
     (case ac_store A of
        None \<Rightarrow> (Inl (Error ''storage not configured''), st)
      | Some ops \<Rightarrow>
          (let provider = normalize_provider_name provider0; installation = trim_space installation0; key = trim_space key0 in
           if provider = [] \<or> installation = [] then (Inl (Error ''provider and installation_id are required''), st)
           else case resolve_scm_installation ops c provider installation key (as_installs st) of
                  Inl err \<Rightarrow> (Inl err, st)
                | Inr None \<Rightarrow> (Inl (Error ''installation not found''), st)
                | Inr (Some r) \<Rightarrow>
                    (case scm_provider_config A c provider (if key = [] then trim_space (in_instance_key r) else key) st of
                       (Inl err, st1) \<Rightarrow> (Inl err, st1)
                     | (Inr cfg, st1) \<Rightarrow>
                         (case client_for_installation A ops clk c provider cfg r st1 of
                            (Inl err, st2) \<Rightarrow> (Inl err, st2)
                          | (Inr cl, st2) \<Rightarrow>
                              (Inr \<lparr>pl_provider = provider, pl_type = provider_type_for provider, pl_api_base = sm_api_base cl,
                                 pl_access_token = sm_access_token cl, pl_expires_at = sm_expires_at cl,
                                 pl_instance_key = sm_instance_key cl\<rparr>, st2)))))"

text \<open>The code of a failure is read off the text of the error.\<close>

definition scm_error_code :: "go_error \<Rightarrow> rpc_code" where
  "scm_error_code err =
     (if str_contains (error_text err) ''required'' then CodeInvalidArgument
      else if str_contains (error_text err) ''not found'' then CodeNotFound
      else CodeFailedPrecondition)"

definition get_scm_client_rpc ::
  "('s, 'p, 'w, 'k) access \<Rightarrow> (nat \<Rightarrow> gtime) \<Rightarrow> ctx \<Rightarrow> string \<Rightarrow> string \<Rightarrow> string \<Rightarrow>
     ('s, 'p, 'w) access_state \<Rightarrow> scm_credentials rpc \<times> ('s, 'p, 'w) access_state" where
  "get_scm_client_rpc A clk c provider installation key st =
     (case get_provider_client A clk c (normalize_provider_name provider) (trim_space installation) (trim_space key) st of
        (Inl err, st') \<Rightarrow> (Inl (scm_error_code err, err), st')
      | (Inr cl, st') \<Rightarrow>
          (Inr \<lparr>sm_provider = pl_provider cl, sm_api_base = pl_api_base cl, sm_access_token = pl_access_token cl,
             sm_expires_at = pl_expires_at cl, sm_instance_key = pl_instance_key cl\<rparr>, st'))"

section \<open>A client's token is current\<close>

lemma token_call_Inr:
  "token_call W fail missing now call w = (Inr t, w') \<Longrightarrow> ot_access t \<noteq> []"
  by (auto simp: token_call_def then_web_Inr checked_token_Inr)

lemma kept_refresh_sel: "tr_access (kept_refresh refresh t) = ot_access t" "refresh \<noteq> [] \<Longrightarrow> tr_refresh (kept_refresh refresh t) \<noteq> []"
  by (simp_all add: kept_refresh_def)

lemma refreshed_not_empty:
  "refresh_gitlab_token W now cfg refresh w = (Inr t, w') \<Longrightarrow> tr_access t \<noteq> [] \<and> tr_refresh t \<noteq> []"
  "refresh_bitbucket_token W now cfg refresh w = (Inr t, w') \<Longrightarrow> tr_access t \<noteq> [] \<and> tr_refresh t \<noteq> []"
  "refresh_jira_token W now cfg refresh w = (Inr t, w') \<Longrightarrow> tr_access t \<noteq> [] \<and> tr_refresh t \<noteq> []"
  "refresh_slack_token W now cfg refresh w = (Inr t, w') \<Longrightarrow> tr_access t \<noteq> [] \<and> tr_refresh t \<noteq> []"
     apply (auto simp: refresh_gitlab_token_def then_web_Inr kept_refresh_sel dest!: token_call_Inr split: if_splits)[1]
    apply (auto simp: refresh_bitbucket_token_def then_web_Inr kept_refresh_sel dest!: token_call_Inr split: if_splits)[1]
   apply (auto simp: refresh_jira_token_def then_web_Inr kept_refresh_sel dest!: token_call_Inr split: if_splits)[1]
  apply (auto simp: refresh_slack_token_def then_web_Inr kept_refresh_sel checked_token_Inr bind_res_Inr_iff split: if_splits)
  done

lemma refresh_by_provider_Inr:
  "refresh_by_provider W now provider cfg refresh w = (Inr t, w') \<Longrightarrow> tr_access t \<noteq> [] \<and> tr_refresh t \<noteq> []"
  by (simp only: refresh_by_provider_def split: if_split_asm) (erule refreshed_not_empty | simp)+

lemma sql_resolved:
  assumes "install_rows_ok s" "trim_space p = p" "trim_space i = i"
    and "resolve_scm_installation (sql_installs install_table sha) c p i k s = Inr (Some r)"
  shows "r \<in> set s \<and> in_provider r = p \<and> in_installation_id r = i \<and> tenant_visible c (in_tenant r)"
proof (cases "k = []")
  case True
  with assms(4) isql.by_id_law [OF assms(1), of sha c p i] show ?thesis by (auto simp: resolve_scm_installation_def)
next
  case False
  let ?ks = "[(''provider'', p), (''installation_id'', i), (''provider_instance_key'', trim_space k)] @ tenant_cond c"
  let ?q = "\<lparr>sq_where = ?ks, sq_order = [(''updated_at'', True)], sq_limit = None\<rparr>"
  from assms False have "Some r = (case find_rows install_schema ?q s of [] \<Rightarrow> None | x # _ \<Rightarrow> Some x)"
    by (simp add: resolve_scm_installation_def sql_installs_def sql_get_by_installation_id_and_key_def table_db_def Let_def split: if_splits)
  then have "r \<in> set (find_rows install_schema ?q s)" by (cases "find_rows install_schema ?q s") auto
  then show ?thesis by (auto simp: find_rows_def tenant_cond_def tenant_visible_def install_schema_def install_text_def split: if_splits)
qed

lemma visible_in_context: "tenant_visible c (in_tenant r) \<Longrightarrow> in_context c r = r"
  by (cases r) (auto simp: in_context_def tenant_visible_def)

lemma sql_upsert_existing:
  assumes "q \<in> set s" "install_identity q = install_identity (in_context c r)" "in_provider r \<noteq> []"
  shows "\<exists>s'. io_upsert (sql_installs install_table sha) c clk r s = (None, s')"
proof -
  have create: "\<exists>y t. create_row install_schema (Some (install_unique, install_updates)) x s = (Inr y, t)"
    if "install_identity x = install_identity (in_context c r)" for x
  proof -
    have "list_ex (same_columns install_schema install_unique x) s"
      using assms(1,2) that by (simp add: list_ex_iff) metis
    then show ?thesis by (simp add: create_row_def)
  qed
  define x where "x = (let r = in_context c r; r = (if is_zero (in_created_at r) then r\<lparr>in_created_at := fst clk\<rparr> else r);
     r = r\<lparr>in_updated_at := fst clk\<rparr> in if in_id r = [] then r\<lparr>in_id := install_record_id sha r\<rparr> else r)"
  have x: "install_identity x = install_identity (in_context c r)" by (simp add: x_def install_identity_def Let_def)
  have "io_upsert (sql_installs install_table sha) c clk r s =
      (case create_row install_schema (Some (install_unique, install_updates)) x s of
         (Inl err, t) \<Rightarrow> (Some err, t) | (Inr stored, t) \<Rightarrow> (None, t))"
    using assms(3) by (simp add: sql_installs_def sql_upsert_installation_def x_def in_context_def Let_def table_db_def)
  with create [OF x] show ?thesis by auto
qed


lemma token_client_Inr:
  assumes "token_client A ops clk c provider cfg r st = (Inr cl, st')"
  obtains (stored) "\<not> (should_refresh (clk 0) (in_expires_at r) \<and> in_refresh_token r \<noteq> [])" "in_access_token r \<noteq> []"
      "cl = credentials_of provider cfg r" "st' = st"
  | (refreshed) t w err where "should_refresh (clk 0) (in_expires_at r)" "in_refresh_token r \<noteq> []"
      "refresh_by_provider (ac_web A) (clk 1) provider cfg (in_refresh_token r) (as_world st) = (Inr t, w)"
      "cl = credentials_of provider cfg (refreshed_record t r)"
      "io_upsert ops c (clk 2, clk 3) (refreshed_record t r) (as_installs st) = (err, as_installs st')"
  using assms by (auto simp: token_client_def split: if_splits prod.splits sum.splits)

lemma scm_provider_config_installs: "scm_provider_config A c provider key st = (x, st') \<Longrightarrow> as_installs st' = as_installs st \<and> as_world st' = as_world st"
  by (auto simp: scm_provider_config_def cached_config_def Let_def
      split: if_splits prod.splits option.splits sum.splits bool.splits)

lemma normalize_provider_idem: "normalize_provider_name (normalize_provider_name provider) = normalize_provider_name provider"
proof -
  let ?f = "\<lambda>d. if d = CHR ''-'' then CHR ''_'' else d"
  have r: "replace_byte s (CHR ''-'') ''_'' = map ?f s" for s
    by (induction s) (auto simp: replace_byte_def)
  define q where "q = map ?f (to_lower (trim_space provider))"
  have n: "normalize_provider_name provider = (if q = ''jira'' then ''atlassian'' else q)"
    by (simp add: normalize_provider_name_def r q_def Let_def)
  have "to_lower (map ?f (to_lower s)) = map ?f (to_lower s)" for s
  proof -
    have "to_lower [CHR ''_''] = ''_''" by code_simp
    moreover have "to_lower (to_lower s) = to_lower s" by simp
    ultimately show ?thesis by (induction s) (auto simp: to_lower_def)
  qed
  then have "to_lower q = q" "map ?f q = q" by (auto simp: q_def)
  moreover have "normalize_provider_name ''atlassian'' = ''atlassian''" by code_simp
  moreover have "trim_space q = q" if "q \<noteq> ''jira''" using n that trim_normalized [of provider] by simp
  ultimately show ?thesis unfolding n by (simp add: normalize_provider_name_def [of q] r)
qed

lemma get_scm_client_Inr:
  assumes "get_scm_client_rpc A clk c provider installation key st = (Inr cl, st')" "ac_store A = Some ops"
  obtains r cfg st1 cl1 where
    "resolve_scm_installation ops c (normalize_provider_name provider) (trim_space installation) (trim_space key) (as_installs st) = Inr (Some r)"
    "as_installs st1 = as_installs st" "as_world st1 = as_world st" "normalize_provider_name provider \<noteq> []"
    "client_for_installation A ops clk c (normalize_provider_name provider) cfg r st1 = (Inr cl1, st')"
    "sm_access_token cl = sm_access_token cl1" "sm_expires_at cl = sm_expires_at cl1"
  using assms
  by (auto simp: get_scm_client_rpc_def get_provider_client_def Let_def normalize_provider_idem dest!: scm_provider_config_installs
      split: if_splits prod.splits option.splits sum.splits)


text \<open>
  C14: A client that is answered for a provider other than GitHub has a token. It is the stored one when that
  is good for another minute or cannot be refreshed, and the store is then left alone; otherwise the
  provider has just given it for the stored refresh token, and the store has it now for this installation,
  together with a refresh token for the next time.
\<close>

theorem scm_client_is_current:
  assumes "install_rows_ok (as_installs st)" "ac_store A = Some (sql_installs install_table sha)"
    and "normalize_provider_name provider \<noteq> ''github''"
    and "get_scm_client_rpc A clk c provider installation key st = (Inr cl, st')"
  shows "sm_access_token cl \<noteq> [] \<and> (\<exists>r \<in> set (as_installs st).
     in_provider r = normalize_provider_name provider \<and> in_installation_id r = trim_space installation \<and> tenant_visible c (in_tenant r) \<and>
     (if should_refresh (clk 0) (in_expires_at r) \<and> in_refresh_token r \<noteq> [] then
        (\<exists>cfg t w. refresh_by_provider (ac_web A) (clk 1) (normalize_provider_name provider) cfg (in_refresh_token r) (as_world st) = (Inr t, w) \<and>
           sm_access_token cl = tr_access t \<and> sm_expires_at cl = to_proto_timestamp_ptr (tr_expires_at t)) \<and>
        (\<exists>x \<in> set (as_installs st'). install_identity x = install_identity r \<and> in_access_token x = sm_access_token cl \<and>
           in_refresh_token x \<noteq> [])
      else sm_access_token cl = in_access_token r \<and> as_installs st' = as_installs st))"
proof -
  let ?ops = "sql_installs install_table sha" and ?p = "normalize_provider_name provider"
  from get_scm_client_Inr [OF assms(4,2)] obtain r cfg st1 cl1 where
    res: "resolve_scm_installation ?ops c ?p (trim_space installation) (trim_space key) (as_installs st) = Inr (Some r)"
    and st1: "as_installs st1 = as_installs st" "as_world st1 = as_world st" and p: "?p \<noteq> []"
    and cl1: "client_for_installation A ?ops clk c ?p cfg r st1 = (Inr cl1, st')"
    and cl: "sm_access_token cl = sm_access_token cl1" "sm_expires_at cl = sm_expires_at cl1" by metis
  from sql_resolved [OF assms(1) _ _ res] have r: "r \<in> set (as_installs st)" "in_provider r = ?p"
      "in_installation_id r = trim_space installation" "tenant_visible c (in_tenant r)" by simp_all
  from cl1 assms(3) have "token_client A ?ops clk c ?p cfg r st1 = (Inr cl1, st')"
    by (simp add: client_for_installation_def split: if_splits)
  then show ?thesis
  proof (cases rule: token_client_Inr)
    case stored
    with r cl st1 show ?thesis by (auto simp: credentials_of_def intro!: bexI [of _ r])
  next
    case (refreshed t w err)
    let ?r = "refreshed_record t r"
    from refresh_by_provider_Inr [OF refreshed(3)] have t: "tr_access t \<noteq> []" "tr_refresh t \<noteq> []" by auto
    have vis: "in_context c ?r = ?r" using r(4) by (intro visible_in_context) (simp add: refreshed_record_def)
    have id: "install_identity ?r = install_identity r" by (simp add: refreshed_record_def install_identity_def)
    have "in_provider ?r \<noteq> []" by (simp add: refreshed_record_def r(2) p)
    from sql_upsert_existing [OF r(1) _ this, where c = c, unfolded vis id, OF refl]
    have "\<exists>s'. io_upsert ?ops c (clk 2, clk 3) ?r (as_installs st) = (None, s')" by blast
    with refreshed(5) have up: "io_upsert ?ops c (clk 2, clk 3) ?r (as_installs st) = (None, as_installs st')" by (simp add: st1)
    from sql_installation_upserted [OF assms(1) up] obtain x where
      x: "x \<in> set (as_installs st')" "install_content x = install_content ?r" unfolding vis by blast
    have x_fields: "in_access_token x = tr_access t" "in_refresh_token x = tr_refresh t"
      using arg_cong [OF x(2), of in_access_token] arg_cong [OF x(2), of in_refresh_token]
      by (simp_all add: install_content_def refreshed_record_def)
    have "install_identity x = install_identity r" using install_content_identity [OF x(2)] id by simp
    with x(1) x_fields t have kept: "\<exists>x \<in> set (as_installs st'). install_identity x = install_identity r \<and>
        in_access_token x = tr_access t \<and> in_refresh_token x \<noteq> []" by auto
    have c1: "sm_access_token cl = tr_access t" "sm_expires_at cl = to_proto_timestamp_ptr (tr_expires_at t)"
      by (simp_all add: cl refreshed(4) credentials_of_def refreshed_record_def)
    show ?thesis
      using r(2-4) refreshed(1,2) refreshed(3) [unfolded st1] kept t(1) unfolding c1
      by (intro conjI bexI [OF _ r(1)]) auto
  qed
qed


text \<open>A server that gives the token \<^verbatim>\<open>new\<close>, and a table with an installation whose token has expired.\<close>

definition token_web :: "unit web" where
  "token_web =
     \<lparr>wb_do = (\<lambda>call w. (Inr \<lparr>hr_status = 200, hr_status_text = ''200 OK'', hr_headers = [], hr_body = ''{}''\<rparr>, w)),
      wb_decode = (\<lambda>s. Inr (JObj [(''access_token'', JStr ''new'')])), wb_print = (\<lambda>v. [])\<rparr>"

definition no_auth :: auth_providers where
  "no_auth =
     \<lparr>ap_github = zero_provider_config, ap_gitlab = zero_provider_config, ap_bitbucket = zero_provider_config,
      ap_slack = zero_provider_config, ap_atlassian = zero_provider_config, ap_jira = zero_provider_config, ap_extra = None\<rparr>"

definition sample_access :: "(install_record list, instance_mem, unit, string) access" where
  "sample_access =
     \<lparr>ac_store = Some (sql_installs install_table (\<lambda>s. s)), ac_instances = None, ac_parse = (\<lambda>s. Inr JNull), ac_providers = no_auth,
      ac_web = token_web, ac_keys = plain_keys\<rparr>"

definition expired_install :: install_record where
  "expired_install =
     (install_to_store sample_install_msg)\<lparr>in_id := ''n1'', in_instance_key := [], in_refresh_token := ''r'', in_expires_at := Some 5\<rparr>"

lemma expired_install_sel:
  "in_provider expired_install = ''gitlab''" "in_account_id expired_install = ''42''" "in_installation_id expired_install = ''9''"
  "in_instance_key expired_install = []" "in_tenant expired_install = []" "in_access_token expired_install = ''t''"
  "in_refresh_token expired_install = ''r''" "in_expires_at expired_install = Some 5"
proof -
  have "normalize_provider_name ''gitlab'' = ''gitlab''" "trim_space ''42'' = ''42''" "trim_space ''9'' = ''9''" "trim_space ''t'' = ''t''"
    by code_simp+
  then show "in_provider expired_install = ''gitlab''" "in_account_id expired_install = ''42''" "in_installation_id expired_install = ''9''"
    "in_instance_key expired_install = []" "in_tenant expired_install = []" "in_access_token expired_install = ''t''"
    "in_refresh_token expired_install = ''r''" "in_expires_at expired_install = Some 5"
    by (simp_all add: expired_install_def install_to_store_def sample_install_msg_def)
qed

lemma new_token_read: "read_token (JObj [(''access_token'', JStr ''new'')]) =
    Some \<lparr>ot_access = ''new'', ot_refresh = [], ot_expires_in = 0, ot_type = [], ot_scope = [], ot_created_at = 0, ot_expires_at = None\<rparr>"
  by code_simp

lemma token_web_refreshes:
  "refresh_by_provider token_web now ''gitlab'' cfg ''r'' w = (Inr \<lparr>tr_access = ''new'', tr_refresh = ''r'', tr_expires_at = None\<rparr>, w)"
  by (simp add: refresh_by_provider_def refresh_gitlab_token_def token_call_def call_json_def token_web_def decode_reply_def
      unmarshal_def new_token_read success_status_def checked_token_def kept_refresh_def expiry_from_token_def)

theorem scm_client_is_current_witness:
  "\<exists>cl st'. get_scm_client_rpc sample_access (\<lambda>i. 100) background ''gitlab'' ''9'' []
      \<lparr>as_installs = [expired_install], as_instances = [], as_cache = None, as_world = ()\<rparr> = (Inr cl, st') \<and>
    (\<exists>x \<in> set (as_installs st'). install_identity x = install_identity expired_install \<and> in_access_token x = sm_access_token cl)"
proof -
  let ?st = "\<lparr>as_installs = [expired_install], as_instances = [], as_cache = None, as_world = ()\<rparr> :: (install_record list, instance_mem, unit) access_state"
  have texts: "normalize_provider_name ''gitlab'' = ''gitlab''" "trim_space ''9'' = ''9''" "trim_space [] = []"
    by code_simp+
  have ok: "install_rows_ok [expired_install]" by (simp add: install_rows_ok_def)
  have found: "resolve_scm_installation (sql_installs install_table (\<lambda>s. s)) background ''gitlab'' ''9'' [] [expired_install] = Inr (Some expired_install)"
    by (simp add: resolve_scm_installation_def sql_installs_def sql_get_by_installation_id_def tenant_cond_def opt_cond_def table_db_def
        find_rows_def sorted_rows_def install_schema_def install_text_def expired_install_sel sort_slice_def)
  have "\<exists>cl st'. get_scm_client_rpc sample_access (\<lambda>i. 100) background ''gitlab'' ''9'' [] ?st = (Inr cl, st')"
    by (simp add: get_scm_client_rpc_def get_provider_client_def sample_access_def Let_def texts found scm_provider_config_def
        client_for_installation_def token_client_def expired_install_sel should_refresh_def token_web_refreshes split: prod.split)
  then obtain cl st' where cl: "get_scm_client_rpc sample_access (\<lambda>i. 100) background ''gitlab'' ''9'' [] ?st = (Inr cl, st')" by blast
  have "ac_store sample_access = Some (sql_installs install_table (\<lambda>s. s))" by (simp add: sample_access_def)
  from scm_client_is_current [OF _ this _ cl] ok have
    "\<exists>x \<in> set (as_installs st'). install_identity x = install_identity expired_install \<and> in_access_token x = sm_access_token cl"
    by (auto simp: texts expired_install_sel should_refresh_def)
  with cl show ?thesis by blast
qed

end
