(* ===== verification/Namespace_Sync.thy ===== *)
theory Namespace_Sync
  imports Oauth_Tokens Github_App Namespace_Stores
begin

text \<open>
  Fetching the repositories of an installation from its provider and storing them as namespaces
  (\<^verbatim>\<open>pkg/oauth/namespaces.go\<close>). The loops go on while the provider names a further page, so they need not
  end: a sync that does not return is the value \<open>None\<close>. The client of the GitHub API is a parameter.

  The \<open>n\<close>-th call to the store that reads the clock gets \<open>clk n\<close>.
\<close>

section \<open>Storing repositories\<close>

definition existing_webhooks :: "namespace_record option \<Rightarrow> bool \<Rightarrow> bool" where
  "existing_webhooks found default_value = (case found of None \<Rightarrow> default_value | Some r \<Rightarrow> ns_webhooks_enabled r)"

text \<open>The parts of a record are texts as the answer of the provider has them.\<close>

type_synonym answer_text = string

definition synced_namespace ::
  "string \<Rightarrow> string \<Rightarrow> string \<Rightarrow> string \<Rightarrow> string \<Rightarrow> answer_text \<Rightarrow> answer_text \<Rightarrow> answer_text \<Rightarrow> answer_text \<Rightarrow> answer_text \<Rightarrow> string \<Rightarrow> string \<Rightarrow> namespace_record" where
  "synced_namespace provider key account installation repo owner name full visibility branch http ssh =
     \<lparr>ns_id = [], ns_tenant = [], ns_provider = provider, ns_account_id = account, ns_installation_id = installation,
      ns_instance_key = key, ns_repo_id = repo, ns_owner = owner, ns_repo_name = name, ns_full_name = full,
      ns_visibility = visibility, ns_default_branch = branch, ns_http_url = http, ns_ssh_url = ssh,
      ns_webhooks_enabled = False, ns_created_at = 0, ns_updated_at = 0\<rparr>"

text \<open>The body of the three loops, over the records made of the repositories.\<close>

fun keep_repos ::
  "'n namespace_ops \<Rightarrow> ctx \<Rightarrow> (nat \<Rightarrow> gtime \<times> gtime) \<Rightarrow> bool \<Rightarrow> namespace_record list \<Rightarrow> nat \<Rightarrow> 'n \<Rightarrow>
     go_error option \<times> nat \<times> 'n" where
  "keep_repos ops c clk default_value [] n s = (None, n, s)"
| "keep_repos ops c clk default_value (r # rs) n s =
     (case no_get ops c (ns_provider r) (ns_repo_id r) (ns_instance_key r) s of
        Inl err \<Rightarrow> (Some err, n, s)
      | Inr found \<Rightarrow>
          (case no_upsert ops c (clk n) (r\<lparr>ns_webhooks_enabled := existing_webhooks found default_value\<rparr>) s of
             (Some err, s') \<Rightarrow> (Some err, n, s')
           | (None, s') \<Rightarrow> keep_repos ops c clk default_value rs (Suc n) s'))"

section \<open>GitLab\<close>

definition gitlab_project :: "string \<Rightarrow> string \<Rightarrow> string \<Rightarrow> jval \<Rightarrow> namespace_record option" where
  "gitlab_project key account installation v = do {
     rid \<leftarrow> jint [''id''] v; name \<leftarrow> jstr [''name''] v; full \<leftarrow> jstr [''path_with_namespace''] v;
     visibility \<leftarrow> jstr [''visibility''] v; branch \<leftarrow> jstr [''default_branch''] v; web \<leftarrow> jstr [''web_url''] v;
     ssh \<leftarrow> jstr [''ssh_url_to_repo''] v; http \<leftarrow> jstr [''http_url_to_repo''] v;
     nsname \<leftarrow> jstr [''namespace'', ''name''] v; owner \<leftarrow> jstr [''namespace'', ''path''] v;
     Some (synced_namespace ''gitlab'' key account installation (itoa rid) owner name full visibility branch http ssh) }"

definition gitlab_page_call :: "provider_config \<Rightarrow> string \<Rightarrow> int \<Rightarrow> http_call" where
  "gitlab_page_call cfg token page =
     get_call (gitlab_api cfg @ ''/projects?membership=true&per_page=100&page='' @ itoa page) token"

definition reply_header :: "http_reply \<Rightarrow> string \<Rightarrow> string" where
  "reply_header r name = (case mget (hr_headers r) name of None \<Rightarrow> [] | Some v \<Rightarrow> v)"

definition read_projects :: "'w web \<Rightarrow> string \<Rightarrow> string \<Rightarrow> string \<Rightarrow> http_reply \<Rightarrow> namespace_record list res" where
  "read_projects W key account installation =
     decode_reply W (jslice [] (gitlab_project key account installation))"

partial_function (option) gitlab_pages ::
  "'w web \<Rightarrow> 'n namespace_ops \<Rightarrow> ctx \<Rightarrow> (nat \<Rightarrow> gtime \<times> gtime) \<Rightarrow> provider_config \<Rightarrow> string \<Rightarrow> string \<Rightarrow> string \<Rightarrow> string \<Rightarrow>
     int \<Rightarrow> nat \<Rightarrow> 'n \<Rightarrow> 'w \<Rightarrow> (go_error option \<times> 'n \<times> 'w) option" where
  "gitlab_pages W ops c clk cfg token account installation key page n s w =
     (case wb_do W (gitlab_page_call cfg token page) w of
        (Inl err, w') \<Rightarrow> Some (Some err, s, w')
      | (Inr r, w') \<Rightarrow>
          (case read_projects W key account installation r of
             Inl err \<Rightarrow> Some (Some err, s, w')
           | Inr rs \<Rightarrow>
               (case keep_repos ops c clk False rs n s of
                  (Some err, n', s') \<Rightarrow> Some (Some err, s', w')
                | (None, n', s') \<Rightarrow>
                    if reply_header r ''X-Next-Page'' = [] then Some (None, s', w')
                    else gitlab_pages W ops c clk cfg token account installation key (page + 1) n' s' w')))"

definition sync_gitlab_namespaces ::
  "'w web \<Rightarrow> 'n namespace_ops option \<Rightarrow> ctx \<Rightarrow> (nat \<Rightarrow> gtime \<times> gtime) \<Rightarrow> provider_config \<Rightarrow> string \<Rightarrow> string \<Rightarrow> string \<Rightarrow> string \<Rightarrow>
     'n \<Rightarrow> 'w \<Rightarrow> (go_error option \<times> 'n \<times> 'w) option" where
  "sync_gitlab_namespaces W store c clk cfg token account installation key s w =
     (case store of
        None \<Rightarrow> Some (None, s, w)
      | Some ops \<Rightarrow>
          if token = [] then Some (None, s, w)
          else gitlab_pages W ops c clk cfg token account installation key 1 0 s w)"

section \<open>Bitbucket\<close>

definition first_text :: "string list \<Rightarrow> string" where
  "first_text ss = (case filter (\<lambda>s. s \<noteq> []) (map trim_space ss) of [] \<Rightarrow> [] | s # _ \<Rightarrow> s)"

definition read_clone :: "jval \<Rightarrow> (string \<times> string) option" where
  "read_clone v = do { href \<leftarrow> jstr [''href''] v; name \<leftarrow> jstr [''name''] v; Some (href, name) }"

definition bitbucket_repo :: "string \<Rightarrow> string \<Rightarrow> string \<Rightarrow> jval \<Rightarrow> namespace_record option" where
  "bitbucket_repo key account installation v = do {
     uuid \<leftarrow> jstr [''uuid''] v; name \<leftarrow> jstr [''name''] v; slug \<leftarrow> jstr [''slug''] v; full0 \<leftarrow> jstr [''full_name''] v;
     workspace \<leftarrow> jstr [''workspace'', ''slug''] v; username \<leftarrow> jstr [''owner'', ''username''] v;
     display \<leftarrow> jstr [''owner'', ''display_name''] v; branch \<leftarrow> jstr [''mainbranch'', ''name''] v;
     html \<leftarrow> jstr [''links'', ''html'', ''href''] v; clones \<leftarrow> jslice [''links'', ''clone''] read_clone v;
     private \<leftarrow> jbool [''is_private''] v;
     let owner = first_text [workspace, username, display]; repo_name = first_text [slug, name]; full = trim_space full0;
         full = (if full = [] \<and> owner \<noteq> [] \<and> repo_name \<noteq> [] then owner @ ''/'' @ repo_name else full);
         ssh = (case find (\<lambda>(href, name). name = ''ssh'') clones of None \<Rightarrow> [] | Some (href, name) \<Rightarrow> href)
     in Some (synced_namespace ''bitbucket'' key account installation uuid owner repo_name full
          (if private then ''private'' else ''public'') branch html ssh) }"

definition read_repos :: "'w web \<Rightarrow> string \<Rightarrow> string \<Rightarrow> string \<Rightarrow> http_reply \<Rightarrow> (string \<times> namespace_record list) res" where
  "read_repos W key account installation =
     decode_reply W (\<lambda>v. do {
       next_url \<leftarrow> jstr [''next''] v; rs \<leftarrow> jslice [''values''] (bitbucket_repo key account installation) v;
       Some (next_url, rs) })"

partial_function (option) bitbucket_pages ::
  "'w web \<Rightarrow> 'n namespace_ops \<Rightarrow> ctx \<Rightarrow> (nat \<Rightarrow> gtime \<times> gtime) \<Rightarrow> string \<Rightarrow> string \<Rightarrow> string \<Rightarrow> string \<Rightarrow>
     string \<Rightarrow> nat \<Rightarrow> 'n \<Rightarrow> 'w \<Rightarrow> (go_error option \<times> 'n \<times> 'w) option" where
  "bitbucket_pages W ops c clk token account installation key url n s w =
     (if url = [] then Some (None, s, w)
      else case wb_do W (get_call url token) w of
        (Inl err, w') \<Rightarrow> Some (Some err, s, w')
      | (Inr r, w') \<Rightarrow>
          (case read_repos W key account installation r of
             Inl err \<Rightarrow> Some (Some err, s, w')
           | Inr (next_url, rs) \<Rightarrow>
               (case keep_repos ops c clk False rs n s of
                  (Some err, n', s') \<Rightarrow> Some (Some err, s', w')
                | (None, n', s') \<Rightarrow> bitbucket_pages W ops c clk token account installation key next_url n' s' w')))"

definition sync_bitbucket_namespaces ::
  "'w web \<Rightarrow> 'n namespace_ops option \<Rightarrow> ctx \<Rightarrow> (nat \<Rightarrow> gtime \<times> gtime) \<Rightarrow> provider_config \<Rightarrow> string \<Rightarrow> string \<Rightarrow> string \<Rightarrow> string \<Rightarrow>
     'n \<Rightarrow> 'w \<Rightarrow> (go_error option \<times> 'n \<times> 'w) option" where
  "sync_bitbucket_namespaces W store c clk cfg token account installation key s w =
     (case store of
        None \<Rightarrow> Some (None, s, w)
      | Some ops \<Rightarrow>
          if token = [] then Some (None, s, w)
          else bitbucket_pages W ops c clk token account installation key (bitbucket_api cfg @ ''/repositories?role=member'') 0 s w)"

section \<open>GitHub\<close>

record app_repo =
  ar_id :: "int option"
  ar_owner :: "string option"
  ar_name :: string
  ar_full_name :: string
  ar_private :: bool
  ar_default_branch :: string
  ar_html_url :: string
  ar_ssh_url :: string

text \<open>
  \<open>gl_client\<close> is \<^verbatim>\<open>NewAppClient\<close>; \<open>gl_list\<close> is \<^verbatim>\<open>Apps.ListRepos\<close> with a page: the repositories, which may be nil,
  and the number of the next page, 0 when there is none.
\<close>

record ('g, 'w) github_lists =
  gl_client :: "github_app \<Rightarrow> int \<Rightarrow> 'g res"
  gl_list :: "'g \<Rightarrow> int \<Rightarrow> 'w \<Rightarrow> (app_repo option list \<times> int) res \<times> 'w"

fun app_repos :: "string \<Rightarrow> string \<Rightarrow> string \<Rightarrow> app_repo option list \<Rightarrow> namespace_record list" where
  "app_repos key account installation [] = []"
| "app_repos key account installation (None # rs) = app_repos key account installation rs"
| "app_repos key account installation (Some r # rs) =
     (case ar_id r of
        None \<Rightarrow> app_repos key account installation rs
      | Some rid \<Rightarrow>
          synced_namespace ''github'' key account installation (itoa rid)
            (case ar_owner r of None \<Rightarrow> [] | Some login \<Rightarrow> login) (ar_name r) (ar_full_name r)
            (if ar_private r then ''private'' else ''public'') (ar_default_branch r) (ar_html_url r) (ar_ssh_url r)
          # app_repos key account installation rs)"

partial_function (option) github_pages ::
  "('g, 'w) github_lists \<Rightarrow> 'g \<Rightarrow> 'n namespace_ops \<Rightarrow> ctx \<Rightarrow> (nat \<Rightarrow> gtime \<times> gtime) \<Rightarrow> string \<Rightarrow> string \<Rightarrow> string \<Rightarrow>
     int \<Rightarrow> nat \<Rightarrow> 'n \<Rightarrow> 'w \<Rightarrow> (go_error option \<times> 'n \<times> 'w) option" where
  "github_pages G client ops c clk account installation key page n s w =
     (case gl_list G client page w of
        (Inl err, w') \<Rightarrow> Some (Some err, s, w')
      | (Inr (rs, next_page), w') \<Rightarrow>
          (case keep_repos ops c clk True (app_repos key account installation rs) n s of
             (Some err, n', s') \<Rightarrow> Some (Some err, s', w')
           | (None, n', s') \<Rightarrow>
               if next_page = 0 then Some (None, s', w')
               else github_pages G client ops c clk account installation key next_page n' s' w'))"

definition sync_github_namespaces ::
  "('g, 'w) github_lists \<Rightarrow> 'n namespace_ops option \<Rightarrow> ctx \<Rightarrow> (nat \<Rightarrow> gtime \<times> gtime) \<Rightarrow> provider_config \<Rightarrow> string \<Rightarrow> string \<Rightarrow> string \<Rightarrow>
     'n \<Rightarrow> 'w \<Rightarrow> (go_error option \<times> 'n \<times> 'w) option" where
  "sync_github_namespaces G store c clk cfg installation account key s w =
     (case store of
        None \<Rightarrow> Some (None, s, w)
      | Some ops \<Rightarrow>
          if installation = [] then Some (None, s, w)
          else if app_id (pc_app cfg) = 0 \<or> (private_key_path (pc_app cfg) = [] \<and> private_key_pem (pc_app cfg) = []) then
            Some (None, s, w)
          else case atoi installation of
                 None \<Rightarrow> Some (Some (Error ''strconv.ParseInt: invalid syntax''), s, w)
               | Some i \<Rightarrow>
                   (case gl_client G (github_app_of cfg) i of
                      Inl err \<Rightarrow> Some (Some err, s, w)
                    | Inr client \<Rightarrow> github_pages G client ops c clk account installation key 0 0 s w))"

section \<open>Lookup by identity\<close>

locale keyed_namespaces = namespace_store +
  assumes find_law: "inv s \<Longrightarrow> tenant_from_context c \<noteq> [] \<Longrightarrow> k \<noteq> [] \<Longrightarrow>
    \<exists>found. no_get ops c p i k s = Inr found \<and>
      (\<forall>x. found = Some x \<longleftrightarrow> x \<in> set (view s) \<and> namespace_identity x = (tenant_from_context c, p, k, i))"

lemma names_identity:
  "tenant_from_context c \<noteq> [] \<Longrightarrow> k \<noteq> [] \<Longrightarrow> names c p i k x \<longleftrightarrow> namespace_identity x = (tenant_from_context c, p, k, i)"
  by (auto simp: names_def field_matches_def tenant_visible_def namespace_identity_def)

interpretation nmemk: keyed_namespaces "mem_namespaces sha" mvals "\<lambda>m. namespace_mem_inv m" for sha
proof
  fix s c and k p i :: string
  assume s: "namespace_mem_inv s" and c: "tenant_from_context c \<noteq> []" "k \<noteq> []"
  let ?key = "namespace_key (tenant_from_context c) p k i"
  have "mget s ?key = Some x \<longleftrightarrow> x \<in> set (mvals s) \<and> namespace_identity x = (tenant_from_context c, p, k, i)" for x
  proof
    assume g: "mget s ?key = Some x"
    then have "no_get (mem_namespaces sha) c p i k s = Inr (Some x)" by (simp add: mem_namespaces_def get_namespace_def)
    from nmem.get_law [OF s this] c show "x \<in> set (mvals s) \<and> namespace_identity x = (tenant_from_context c, p, k, i)"
      by (simp add: names_identity)
  next
    assume x: "x \<in> set (mvals s) \<and> namespace_identity x = (tenant_from_context c, p, k, i)"
    moreover from this s obtain k' where k': "mget s k' = Some x"
      by (auto simp: namespace_mem_inv_def in_mvals mget_iff)
    ultimately show "mget s ?key = Some x"
      using namespace_mem_invD(2) [OF s k'] by (auto simp: namespace_identity_def)
  qed
  then show "\<exists>found. no_get (mem_namespaces sha) c p i k s = Inr found \<and>
      (\<forall>x. found = Some x \<longleftrightarrow> x \<in> set (mvals s) \<and> namespace_identity x = (tenant_from_context c, p, k, i))"
    by (auto simp: mem_namespaces_def get_namespace_def)
qed

interpretation nsqlk: keyed_namespaces "sql_namespaces namespace_table sha" "\<lambda>t. t" namespace_rows_ok for sha
proof
  fix s c and k p i :: string
  assume s: "namespace_rows_ok s" and c: "tenant_from_context c \<noteq> []" "k \<noteq> []"
  let ?P = "\<lambda>x. namespace_identity x = (tenant_from_context c, p, k, i)"
  have "row_holds namespace_schema ([(''provider'', p), (''repo_id'', i)] @ opt_cond ''provider_instance_key'' k @ tenant_cond c) = ?P"
    using c by (auto simp: fun_eq_iff namespace_identity_def tenant_visible_def)
  then have "no_get (sql_namespaces namespace_table sha) c p i k s = Inr (find ?P s)"
    by (simp add: sql_namespaces_def sql_get_namespace_def take_where)
  moreover have "find ?P s = Some x \<longleftrightarrow> x \<in> set s \<and> ?P x" for x
  proof
    show "find ?P s = Some x \<Longrightarrow> x \<in> set s \<and> ?P x" by (rule find_Some_D)
    assume x: "x \<in> set s \<and> ?P x"
    then obtain y where y: "find ?P s = Some y" by (cases "find ?P s") (auto simp: find_None_iff)
    from find_Some_D [OF y] x s have "y = x"
      unfolding namespace_rows_ok_def distinct_map by (metis inj_onD)
    with y show "find ?P s = Some x" by simp
  qed
  ultimately show "\<exists>found. no_get (sql_namespaces namespace_table sha) c p i k s = Inr found \<and>
      (\<forall>x. found = Some x \<longleftrightarrow> x \<in> set s \<and> ?P x)" by blast
qed

section \<open>A sync leaves the choice of webhooks alone\<close>

definition same_flag :: "namespace_record \<Rightarrow> namespace_record \<Rightarrow> bool" where
  "same_flag x y \<longleftrightarrow> namespace_identity x = namespace_identity y \<and> ns_webhooks_enabled x = ns_webhooks_enabled y"

text \<open>Nothing is lost, what was there keeps its flag, and what is new has the default.\<close>

definition flags_kept :: "bool \<Rightarrow> namespace_record list \<Rightarrow> namespace_record list \<Rightarrow> bool" where
  "flags_kept default_value before now \<longleftrightarrow>
     (\<forall>y \<in> set before. \<exists>x \<in> set now. same_flag x y) \<and>
     (\<forall>x \<in> set now. (\<exists>y \<in> set before. same_flag x y) \<or>
        ((\<forall>y \<in> set before. namespace_identity y \<noteq> namespace_identity x) \<and> ns_webhooks_enabled x = default_value))"

lemma flags_kept_refl: "flags_kept d xs xs"
  by (auto simp: flags_kept_def same_flag_def)

lemma flags_kept_trans:
  assumes "flags_kept d xs ys" "flags_kept d ys zs"
  shows "flags_kept d xs zs"
  unfolding flags_kept_def
proof (intro conjI ballI)
  fix y assume "y \<in> set xs"
  with assms obtain u z where "u \<in> set ys" "same_flag u y" "z \<in> set zs" "same_flag z u" unfolding flags_kept_def by meson
  then show "\<exists>x \<in> set zs. same_flag x y" unfolding same_flag_def by metis
next
  fix z assume z: "z \<in> set zs"
  consider u where "u \<in> set ys" "same_flag z u"
    | "\<forall>u \<in> set ys. namespace_identity u \<noteq> namespace_identity z" "ns_webhooks_enabled z = d"
    using assms(2) z unfolding flags_kept_def by blast
  then show "(\<exists>y \<in> set xs. same_flag z y) \<or>
      ((\<forall>y \<in> set xs. namespace_identity y \<noteq> namespace_identity z) \<and> ns_webhooks_enabled z = d)"
  proof cases
    case 1
    with assms(1) show ?thesis unfolding flags_kept_def same_flag_def by metis
  next
    case 2
    with assms(1) have "\<forall>y \<in> set xs. namespace_identity y \<noteq> namespace_identity z"
      unfolding flags_kept_def same_flag_def by metis
    with 2 show ?thesis by blast
  qed
qed

text \<open>The repositories are those of one instance, under names that can be keys.\<close>

definition repos_of :: "ctx \<Rightarrow> string \<Rightarrow> namespace_record list \<Rightarrow> bool" where
  "repos_of c key rs \<longleftrightarrow>
     list_all (\<lambda>r. ns_tenant r = [] \<and> ns_instance_key r = key \<and> plain (ns_provider r) \<and> plain (ns_repo_id r)) rs"

text \<open>What the decoders make of a page.\<close>

lemma those_in: "those (map f xs) = Some ys \<Longrightarrow> y \<in> set ys \<Longrightarrow> \<exists>x \<in> set xs. f x = Some y"
  by (induction xs arbitrary: ys) (auto split: option.splits)

lemma plain_itoa: "plain (itoa i)"
  using nat_digits_is_digit [of "nat i"] nat_digits_is_digit [of "nat (- i)"]
  by (auto simp: plain_def itoa_def list_all_iff is_digit_def)

lemma gitlab_project_of:
  "gitlab_project key account installation v = Some r \<Longrightarrow> repos_of c key [r]"
  unfolding gitlab_project_def
  by (auto simp: repos_of_def synced_namespace_def plain_itoa bind_eq_Some_conv) (simp add: plain_def)

lemma read_projects_of:
  assumes "read_projects W key account installation r = Inr rs"
  shows "repos_of c key rs"
proof -
  obtain vs where "those (map (gitlab_project key account installation) vs) = Some rs"
    using assms by (auto simp: read_projects_def decode_reply_def unmarshal_def jslice_def bind_eq_Some_conv split: option.splits sum.splits)
  then have "repos_of c key [x]" if "x \<in> set rs" for x
    using those_in [OF _ that] gitlab_project_of by blast
  then show ?thesis by (simp add: repos_of_def list_all_iff)
qed

context keyed_namespaces begin

lemma keep_repos_flags:
  assumes "inv s" "tenant_from_context c \<noteq> []" "plain (tenant_from_context c)" "key \<noteq> []" "plain key" "repos_of c key rs"
    and "keep_repos ops c clk d rs n s = (None, n', s')"
  shows "inv s' \<and> flags_kept d (view s) (view s')"
  using assms(1,6,7)
proof (induction rs arbitrary: n s)
  case Nil
  then show ?case by (simp add: flags_kept_refl)
next
  case (Cons r rs)
  let ?id = "(tenant_from_context c, ns_provider r, key, ns_repo_id r)"
  from Cons.prems(2) have r: "ns_tenant r = []" "ns_instance_key r = key" "plain (ns_provider r)" "plain (ns_repo_id r)"
      and rs: "repos_of c key rs" by (simp_all add: repos_of_def)
  from find_law [OF Cons.prems(1) assms(2,4), of "ns_provider r" "ns_repo_id r"] obtain found where
    found: "no_get ops c (ns_provider r) (ns_repo_id r) key s = Inr found"
      "\<And>x. found = Some x \<longleftrightarrow> x \<in> set (view s) \<and> namespace_identity x = ?id" by blast
  define r1 where "r1 = r\<lparr>ns_webhooks_enabled := existing_webhooks found d\<rparr>"
  have r1: "namespace_in c r1 = r1\<lparr>ns_tenant := tenant_from_context c\<rparr>" by (simp add: namespace_in_def r1_def r(1))
  have id1: "namespace_identity (namespace_in c r1) = ?id" "plain_namespace (namespace_in c r1)"
      "ns_webhooks_enabled (namespace_in c r1) = existing_webhooks found d"
    unfolding r1 by (simp_all add: namespace_identity_def plain_namespace_def r1_def r assms(3,5))
  from Cons.prems(3) obtain s1 where s1: "no_upsert ops c (clk n) r1 s = (None, s1)" "keep_repos ops c clk d rs (Suc n) s1 = (None, n', s')"
    by (auto simp: r(2) found(1) r1_def [symmetric] split: prod.splits option.splits)
  from upsert_law [OF Cons.prems(1) id1(2) s1(1)] obtain x where up: "inv s1" "x \<in> set (view s1)"
      "namespace_content x = namespace_content (namespace_in c r1)"
      "\<And>q. namespace_identity q \<noteq> ?id \<Longrightarrow> q \<in> set (view s1) \<longleftrightarrow> q \<in> set (view s)" unfolding id1(1) by blast
  have x: "namespace_identity x = ?id" "ns_webhooks_enabled x = existing_webhooks found d"
    using namespace_content_fields(5) [OF up(3)] arg_cong [OF up(3), of ns_webhooks_enabled] id1
    by (simp_all add: namespace_content_def)
  have only: "q = x" if "q \<in> set (view s1)" "namespace_identity q = ?id" for q
    using find_law [OF up(1) assms(2,4), of "ns_provider r" "ns_repo_id r"] that up(2) x(1) by (metis option.inject)
  have "flags_kept d (view s) (view s1)"
    unfolding flags_kept_def
  proof (intro conjI ballI)
    fix y assume y: "y \<in> set (view s)"
    show "\<exists>x \<in> set (view s1). same_flag x y"
    proof (cases "namespace_identity y = ?id")
      case True
      with y found(2) have "found = Some y" by blast
      with True x up(2) show ?thesis unfolding same_flag_def existing_webhooks_def by auto
    next
      case False
      with y up(4) show ?thesis unfolding same_flag_def by blast
    qed
  next
    fix q assume q: "q \<in> set (view s1)"
    show "(\<exists>y \<in> set (view s). same_flag q y) \<or>
        ((\<forall>y \<in> set (view s). namespace_identity y \<noteq> namespace_identity q) \<and> ns_webhooks_enabled q = d)"
    proof (cases "namespace_identity q = ?id")
      case False
      with q up(4) show ?thesis unfolding same_flag_def by blast
    next
      case True
      with q only have qx: "q = x" by blast
      show ?thesis
      proof (cases found)
        case None
        with found(2) have "\<forall>y \<in> set (view s). namespace_identity y \<noteq> ?id" by blast
        with None x show ?thesis unfolding qx existing_webhooks_def by simp
      next
        case (Some y)
        with found(2) have "y \<in> set (view s)" "namespace_identity y = ?id" by blast+
        with Some x show ?thesis unfolding qx same_flag_def existing_webhooks_def by auto
      qed
    qed
  qed
  moreover from Cons.IH [OF up(1) rs s1(2)] have "inv s'" "flags_kept d (view s1) (view s')" by blast+
  ultimately show ?case using flags_kept_trans by blast
qed

text \<open>A sync that comes back without an error.\<close>

lemma gitlab_pages_flags:
  assumes "gitlab_pages W ops c clk cfg token account installation key page n s w = Some (None, s', w')"
    and "inv s" "tenant_from_context c \<noteq> []" "plain (tenant_from_context c)" "key \<noteq> []" "plain key"
  shows "inv s' \<and> flags_kept False (view s) (view s')"
proof -
  let ?P = "\<lambda>W ops' c' clk cfg token account installation key' page n s w (y :: go_error option \<times> _ \<times> _).
    ops' = ops \<longrightarrow> c' = c \<longrightarrow> key' = key \<longrightarrow> inv s \<longrightarrow> fst y = None \<longrightarrow>
    inv (fst (snd y)) \<and> flags_kept False (view s) (view (fst (snd y)))"
  have "?P W ops c clk cfg token account installation key page n s w (None, s', w')"
  proof (rule gitlab_pages.raw_induct [where P = ?P, OF _ assms(1)], intro impI, goal_cases)
    case (1 rec W ops' c' clk cfg token account installation key' page n s w y)
    then obtain r rs s1 n1 w1 where
      step: "read_projects W key account installation r = Inr rs" "keep_repos ops c clk False rs n s = (None, n1, s1)"
        "y = (None, s1, w1) \<or> rec W ops c clk cfg token account installation key (page + 1) n1 s1 w1 = Some y"
      by (auto split: prod.splits sum.splits option.splits if_splits) blast+
    from keep_repos_flags [OF 1(6) assms(3-6) read_projects_of [OF step(1)] step(2)]
    have s1: "inv s1" "flags_kept False (view s) (view s1)" by blast+
    from step(3) show ?case
    proof
      assume "rec W ops c clk cfg token account installation key (page + 1) n1 s1 w1 = Some y"
      from 1(1) [OF this] 1(7) s1 show ?thesis using flags_kept_trans by blast
    qed (use s1 in simp)
  qed
  then show ?thesis using assms(2) by simp
qed

end


section \<open>A sync ends with the last page\<close>

lemma keep_repos_append:
  "keep_repos ops c clk d (xs @ ys) n s =
     (case keep_repos ops c clk d xs n s of
        (Some err, n', s') \<Rightarrow> (Some err, n', s')
      | (None, n', s') \<Rightarrow> keep_repos ops c clk d ys n' s')"
  by (induction xs arbitrary: n s) (auto split: sum.splits prod.splits option.splits)

text \<open>The API serves these pages from a number on, and names a next page on all but the last.\<close>

fun gitlab_serves ::
  "'w web \<Rightarrow> provider_config \<Rightarrow> string \<Rightarrow> string \<Rightarrow> string \<Rightarrow> string \<Rightarrow> int \<Rightarrow> namespace_record list list \<Rightarrow> bool" where
  "gitlab_serves W cfg token account installation key page [] = True"
| "gitlab_serves W cfg token account installation key page (rs # rest) =
     ((\<forall>w. \<exists>r w'. wb_do W (gitlab_page_call cfg token page) w = (Inr r, w') \<and>
         read_projects W key account installation r = Inr rs \<and>
         (reply_header r ''X-Next-Page'' = [] \<longleftrightarrow> rest = [])) \<and>
      gitlab_serves W cfg token account installation key (page + 1) rest)"

lemma gitlab_pages_served:
  assumes "pages \<noteq> []" "gitlab_serves W cfg token account installation key page pages"
    and "keep_repos ops c clk False (concat pages) n s = (err, n', s')"
  shows "\<exists>s1 w'. gitlab_pages W ops c clk cfg token account installation key page n s w = Some (err, s1, w') \<and> s1 = s'"
  using assms
proof (induction pages arbitrary: page n s w)
  case (Cons rs rest)
  from Cons.prems(2) obtain r w1 where r: "wb_do W (gitlab_page_call cfg token page) w = (Inr r, w1)"
      "read_projects W key account installation r = Inr rs" "reply_header r ''X-Next-Page'' = [] \<longleftrightarrow> rest = []"
    by (metis gitlab_serves.simps(2))
  obtain e n1 s1 where keep: "keep_repos ops c clk False rs n s = (e, n1, s1)" by (metis surj_pair)
  show ?case
  proof (cases "e = None \<and> rest \<noteq> []")
    case True
    with Cons.IH [of "page + 1" n1 s1 w1] Cons.prems keep show ?thesis
      by (subst gitlab_pages.simps) (simp add: r keep_repos_append)
  next
    case False
    with Cons.prems keep show ?thesis
      by (subst gitlab_pages.simps) (auto simp: r keep_repos_append split: option.splits)
  qed
qed simp

text \<open>
  C17: When the API serves a number of pages, a GitLab sync comes back, and it has stored the repositories of
  all the pages, in their order, as far as the first error of the store; without one it reports no error.
\<close>

theorem gitlab_sync_returns:
  assumes "token \<noteq> []" "pages \<noteq> []" "gitlab_serves W cfg token account installation key 1 pages"
  shows "\<exists>err n' s' w'. keep_repos ops c clk False (concat pages) 0 s = (err, n', s') \<and>
    sync_gitlab_namespaces W (Some ops) c clk cfg token account installation key s w = Some (err, s', w')"
proof -
  obtain err n' s' where keep: "keep_repos ops c clk False (concat pages) 0 s = (err, n', s')" by (metis surj_pair)
  with gitlab_pages_served [OF assms(2,3) keep] assms(1) show ?thesis
    by (simp add: sync_gitlab_namespaces_def)
qed

text \<open>A server that answers every call with one project, and the table of a tenant.\<close>

definition one_project_web :: "unit web" where
  "one_project_web =
     \<lparr>wb_do = (\<lambda>call w. (Inr \<lparr>hr_status = 200, hr_status_text = ''200 OK'', hr_headers = [], hr_body = ''[]''\<rparr>, w)),
      wb_decode = (\<lambda>s. Inr (JArr [JObj [(''id'', JNum ''5'')]])), wb_print = (\<lambda>v. [])\<rparr>"

definition one_project :: namespace_record where
  "one_project = synced_namespace ''gitlab'' ''k'' ''a'' ''i'' ''5'' [] [] [] [] [] [] []"

lemma one_project_page:
  "gitlab_project ''k'' ''a'' ''i'' (JObj [(''id'', JNum ''5'')]) = Some one_project"
  by code_simp

lemma one_project_served:
  "gitlab_serves one_project_web zero_provider_config ''t'' ''a'' ''i'' ''k'' 1 [[one_project]]"
  by (simp add: one_project_web_def read_projects_def decode_reply_def unmarshal_def jslice_def one_project_page reply_header_def mget_def)

theorem gitlab_sync_returns_witness:
  "\<exists>err n' s' w'. keep_repos (sql_namespaces namespace_table (\<lambda>s. s)) background (\<lambda>n. (7, 7)) False [one_project] 0 [] = (err, n', s') \<and>
    sync_gitlab_namespaces one_project_web (Some (sql_namespaces namespace_table (\<lambda>s. s))) background (\<lambda>n. (7, 7))
      zero_provider_config ''t'' ''a'' ''i'' ''k'' [] () = Some (err, s', w')"
  using gitlab_sync_returns [OF _ _ one_project_served, of "sql_namespaces namespace_table (\<lambda>s. s)" background "\<lambda>n. (7, 7)" "[]" "()"]
  by simp

definition stored_project :: namespace_record where
  "stored_project = one_project\<lparr>ns_id := ''n1'', ns_tenant := ''acme'', ns_webhooks_enabled := True\<rparr>"


end
