(* ===== verification/Provider_Webhooks.thy ===== *)
theory Provider_Webhooks
  imports Http_Client
begin

text \<open>
  Managing the webhooks of a repository at its provider (\<^verbatim>\<open>pkg/api/provider_webhooks.go\<close>): the hook that calls
  this server is created when there is none and removed when there is one.
\<close>

definition bitbucket_owner_repo :: "namespace_record \<Rightarrow> string \<times> string" where
  "bitbucket_owner_repo r =
     (let owner = trim_space (ns_owner r); repo = trim_space (ns_repo_name r); full = trim_space (ns_full_name r) in
      if full \<noteq> [] then
        (case split2 full (CHR ''/'') of
           [a, b] \<Rightarrow> (if trim_space a \<noteq> [] then trim_space a else owner, if trim_space b \<noteq> [] then trim_space b else repo)
         | _ \<Rightarrow> (owner, repo))
      else (owner, repo))"

definition hook_write :: "string \<Rightarrow> string \<Rightarrow> string \<Rightarrow> http_call" where
  "hook_write hooks_url token body =
     \<lparr>ht_method = ''POST'', ht_url = hooks_url, ht_headers = [bearer token, json_content], ht_body = body\<rparr>"

definition hook_remove :: "string \<Rightarrow> string \<Rightarrow> http_call" where
  "hook_remove hook_url token = \<lparr>ht_method = ''DELETE'', ht_url = hook_url, ht_headers = [bearer token], ht_body = []\<rparr>"

section \<open>GitLab\<close>

definition read_gitlab_hook :: "jval \<Rightarrow> (int \<times> string) option" where
  "read_gitlab_hook v = do { i \<leftarrow> jint [''id''] v; url \<leftarrow> jstr [''url''] v; Some (i, url) }"

definition hook_for :: "'i \<Rightarrow> string \<Rightarrow> ('i \<times> string) list \<Rightarrow> 'i" where
  "hook_for absent target hooks = (case find (\<lambda>(i, url). url = target) hooks of None \<Rightarrow> absent | Some (i, url) \<Rightarrow> i)"

definition gitlab_hook_id :: "'w web \<Rightarrow> string \<Rightarrow> string \<Rightarrow> string \<Rightarrow> 'w \<Rightarrow> int res \<times> 'w" where
  "gitlab_hook_id W hooks_url token target w =
     then_web (call_json W (reply_body_error ''gitlab hook list'') (jslice [] read_gitlab_hook) (get_call hooks_url token) w)
       (\<lambda>hooks w. (Inr (hook_for 0 target hooks), w))"

definition gitlab_hook_body :: "string \<Rightarrow> jval" where
  "gitlab_hook_body target =
     JObj [(''enable_ssl_verification'', JBool True), (''merge_requests_events'', JBool True), (''push_events'', JBool True),
       (''url'', JStr target)]"

definition gitlab_create_hook :: "'w web \<Rightarrow> string \<Rightarrow> string \<Rightarrow> jval \<Rightarrow> 'w \<Rightarrow> unit res \<times> 'w" where
  "gitlab_create_hook W hooks_url token payload =
     call_only W (reply_body_error ''gitlab hook create'') (hook_write hooks_url token (wb_print W payload))"

definition gitlab_delete_hook :: "'w web \<Rightarrow> string \<Rightarrow> string \<Rightarrow> 'w \<Rightarrow> unit res \<times> 'w" where
  "gitlab_delete_hook W hook_url token = call_only W (reply_body_error ''gitlab hook delete'') (hook_remove hook_url token)"

definition gitlab_hooks_url :: "provider_config \<Rightarrow> string \<Rightarrow> string" where
  "gitlab_hooks_url cfg repo_id = gitlab_api cfg @ ''/projects/'' @ path_escape repo_id @ ''/hooks''"

definition ensure_gitlab_webhook ::
  "'w web \<Rightarrow> provider_config \<Rightarrow> string \<Rightarrow> string \<Rightarrow> string \<Rightarrow> bool \<Rightarrow> 'w \<Rightarrow> unit res \<times> 'w" where
  "ensure_gitlab_webhook W cfg token repo_id target enable w =
     (if repo_id = [] then (Inl (Error ''gitlab repo_id missing''), w)
      else
        let hooks_url = gitlab_hooks_url cfg repo_id in
        then_web (gitlab_hook_id W hooks_url token target w)
          (\<lambda>existing w.
             if enable then
               (if existing \<noteq> 0 then (Inr (), w) else gitlab_create_hook W hooks_url token (gitlab_hook_body target) w)
             else if existing = 0 then (Inr (), w)
             else gitlab_delete_hook W (hooks_url @ ''/'' @ itoa existing) token w))"

section \<open>Bitbucket\<close>

definition read_bitbucket_hook :: "jval \<Rightarrow> (string \<times> string) option" where
  "read_bitbucket_hook v = do { i \<leftarrow> jstr [''uuid''] v; url \<leftarrow> jstr [''url''] v; Some (i, url) }"

definition bitbucket_hook_id :: "'w web \<Rightarrow> string \<Rightarrow> string \<Rightarrow> string \<Rightarrow> 'w \<Rightarrow> string res \<times> 'w" where
  "bitbucket_hook_id W hooks_url token target w =
     then_web (call_json W (reply_body_error ''bitbucket hook list'') (jslice [''values''] read_bitbucket_hook)
         (get_call hooks_url token) w)
       (\<lambda>hooks w. (Inr (hook_for [] target hooks), w))"

definition bitbucket_hook_body :: "string \<Rightarrow> jval" where
  "bitbucket_hook_body target =
     JObj [(''active'', JBool True), (''description'', JStr ''github.com/relaymesh/relaymesh''),
       (''events'', JArr [JStr ''repo:push'', JStr ''pullrequest:created'', JStr ''pullrequest:updated'', JStr ''pullrequest:fulfilled'']),
       (''url'', JStr target)]"

definition bitbucket_create_hook :: "'w web \<Rightarrow> string \<Rightarrow> string \<Rightarrow> jval \<Rightarrow> 'w \<Rightarrow> unit res \<times> 'w" where
  "bitbucket_create_hook W hooks_url token payload =
     call_only W (reply_body_error ''bitbucket hook create'') (hook_write hooks_url token (wb_print W payload))"

definition bitbucket_delete_hook :: "'w web \<Rightarrow> string \<Rightarrow> string \<Rightarrow> 'w \<Rightarrow> unit res \<times> 'w" where
  "bitbucket_delete_hook W hook_url token = call_only W (reply_body_error ''bitbucket hook delete'') (hook_remove hook_url token)"

definition bitbucket_hooks_url :: "provider_config \<Rightarrow> string \<Rightarrow> string \<Rightarrow> string" where
  "bitbucket_hooks_url cfg owner repo =
     bitbucket_api cfg @ ''/repositories/'' @ path_escape owner @ ''/'' @ path_escape repo @ ''/hooks''"

definition ensure_bitbucket_webhook ::
  "'w web \<Rightarrow> provider_config \<Rightarrow> string \<Rightarrow> string \<Rightarrow> string \<Rightarrow> string \<Rightarrow> bool \<Rightarrow> 'w \<Rightarrow> unit res \<times> 'w" where
  "ensure_bitbucket_webhook W cfg token owner repo target enable w =
     (if owner = [] \<or> repo = [] then (Inl (Error ''bitbucket owner/repo missing''), w)
      else
        let hooks_url = bitbucket_hooks_url cfg owner repo in
        then_web (bitbucket_hook_id W hooks_url token target w)
          (\<lambda>existing w.
             if enable then
               (if existing \<noteq> [] then (Inr (), w) else bitbucket_create_hook W hooks_url token (bitbucket_hook_body target) w)
             else if existing = [] then (Inr (), w)
             else bitbucket_delete_hook W (hooks_url @ ''/'' @ existing) token w))"

section \<open>Both\<close>

definition provider_webhook ::
  "'w web \<Rightarrow> string \<Rightarrow> provider_config \<Rightarrow> string \<Rightarrow> namespace_record \<Rightarrow> string \<Rightarrow> bool \<Rightarrow> 'w \<Rightarrow> unit res \<times> 'w" where
  "provider_webhook W provider cfg token r target enable w =
     (if provider = ''gitlab'' then ensure_gitlab_webhook W cfg token (ns_repo_id r) target enable w
      else if provider = ''bitbucket'' then
        (case bitbucket_owner_repo r of (owner, repo) \<Rightarrow> ensure_bitbucket_webhook W cfg token owner repo target enable w)
      else (Inl (Error (''unsupported provider: '' @ provider)), w))"

definition enable_provider_webhook ::
  "'w web \<Rightarrow> string \<Rightarrow> provider_config \<Rightarrow> string \<Rightarrow> namespace_record \<Rightarrow> string \<Rightarrow> 'w \<Rightarrow> unit res \<times> 'w" where
  "enable_provider_webhook W provider cfg token r target = provider_webhook W provider cfg token r target True"

definition disable_provider_webhook ::
  "'w web \<Rightarrow> string \<Rightarrow> provider_config \<Rightarrow> string \<Rightarrow> namespace_record \<Rightarrow> string \<Rightarrow> 'w \<Rightarrow> unit res \<times> 'w" where
  "disable_provider_webhook W provider cfg token r target = provider_webhook W provider cfg token r target False"

section \<open>What a hook server is left with\<close>

text \<open>
  What GitLab documents of the hooks of a project: a list of them with the identifiers it has given out, none
  of them 0; creating one, where there is none for the URL, adds one; deleting one removes it.
\<close>

definition answers :: "'w web \<Rightarrow> http_call \<Rightarrow> 'w \<Rightarrow> http_reply \<Rightarrow> 'w \<Rightarrow> bool" where
  "answers W call w r w' \<longleftrightarrow> wb_do W call w = (Inr r, w') \<and> success_status (hr_status r)"

definition gitlab_hook_server ::
  "'w web \<Rightarrow> string \<Rightarrow> string \<Rightarrow> string \<Rightarrow> ('w \<Rightarrow> (int \<times> string) list) \<Rightarrow> bool" where
  "gitlab_hook_server W hooks_url token target hooks \<longleftrightarrow>
     (\<forall>w. 0 \<notin> fst ` set (hooks w) \<and> distinct (map fst (hooks w))) \<and>
     (\<forall>w. \<exists>r w'. answers W (get_call hooks_url token) w r w' \<and> decode_reply W (jslice [] read_gitlab_hook) r = Inr (hooks w) \<and>
        hooks w' = hooks w) \<and>
     (\<forall>w. target \<notin> snd ` set (hooks w) \<longrightarrow> (\<exists>r w' i.
        answers W (hook_write hooks_url token (wb_print W (gitlab_hook_body target))) w r w' \<and> hooks w' = hooks w @ [(i, target)])) \<and>
     (\<forall>w i. i \<in> fst ` set (hooks w) \<longrightarrow> (\<exists>r w'. answers W (hook_remove (hooks_url @ ''/'' @ itoa i) token) w r w' \<and>
        hooks w' = filter (\<lambda>h. fst h \<noteq> i) (hooks w)))"

lemma gitlab_hook_serverD:
  assumes "gitlab_hook_server W hooks_url token target hooks"
  shows "0 \<notin> fst ` set (hooks w)" "distinct (map fst (hooks w))"
    "\<exists>w'. gitlab_hook_id W hooks_url token target w = (Inr (hook_for 0 target (hooks w)), w') \<and> hooks w' = hooks w"
    "target \<notin> snd ` set (hooks w) \<Longrightarrow>
       \<exists>w' i. gitlab_create_hook W hooks_url token (gitlab_hook_body target) w = (Inr (), w') \<and> hooks w' = hooks w @ [(i, target)]"
    "i \<in> fst ` set (hooks w) \<Longrightarrow> \<exists>w'. gitlab_delete_hook W (hooks_url @ ''/'' @ itoa i) token w = (Inr (), w') \<and>
       hooks w' = filter (\<lambda>h. fst h \<noteq> i) (hooks w)"
proof -
  show "0 \<notin> fst ` set (hooks w)" "distinct (map fst (hooks w))" using assms unfolding gitlab_hook_server_def by blast+
  from assms obtain r w' where "answers W (get_call hooks_url token) w r w'"
      "decode_reply W (jslice [] read_gitlab_hook) r = Inr (hooks w)" "hooks w' = hooks w" unfolding gitlab_hook_server_def by blast
  then show "\<exists>w'. gitlab_hook_id W hooks_url token target w = (Inr (hook_for 0 target (hooks w)), w') \<and> hooks w' = hooks w"
    by (simp add: answers_def gitlab_hook_id_def call_json_def)
  show "\<exists>w' i. gitlab_create_hook W hooks_url token (gitlab_hook_body target) w = (Inr (), w') \<and> hooks w' = hooks w @ [(i, target)]"
    if "target \<notin> snd ` set (hooks w)"
  proof -
    from assms that obtain r w' j where "answers W (hook_write hooks_url token (wb_print W (gitlab_hook_body target))) w r w'"
        "hooks w' = hooks w @ [(j, target)]" unfolding gitlab_hook_server_def by blast
    then show ?thesis by (simp add: answers_def gitlab_create_hook_def call_only_def)
  qed
  assume "i \<in> fst ` set (hooks w)"
  with assms obtain r w' where "answers W (hook_remove (hooks_url @ ''/'' @ itoa i) token) w r w'"
      "hooks w' = filter (\<lambda>h. fst h \<noteq> i) (hooks w)" unfolding gitlab_hook_server_def by blast
  then show "\<exists>w'. gitlab_delete_hook W (hooks_url @ ''/'' @ itoa i) token w = (Inr (), w') \<and>
      hooks w' = filter (\<lambda>h. fst h \<noteq> i) (hooks w)"
    by (simp add: answers_def gitlab_delete_hook_def call_only_def)
qed

lemma hook_for_cases:
  assumes "\<forall>h \<in> set hooks. fst h \<noteq> absent"
  shows "hook_for absent target hooks = absent \<longleftrightarrow> target \<notin> snd ` set hooks"
    "target \<in> snd ` set hooks \<Longrightarrow> (hook_for absent target hooks, target) \<in> set hooks"
  using assms by (induction hooks) (auto simp: hook_for_def)


text \<open>A server that keeps one hook or none.\<close>

definition one_hook_web :: "bool web" where
  "one_hook_web =
     \<lparr>wb_do = (\<lambda>call w.
        (Inr \<lparr>hr_status = 200, hr_status_text = ''200 OK'', hr_headers = [], hr_body = if w then ''1'' else ''0''\<rparr>,
         if ht_method call = ''POST'' then True else if ht_method call = ''DELETE'' then False else w)),
      wb_decode = (\<lambda>s. Inr (JArr (if s = ''1'' then [JObj [(''id'', JNum ''7''), (''url'', JStr ''u'')]] else []))),
      wb_print = (\<lambda>v. [])\<rparr>"


end
