(* ===== verification/Namespace_Service.thy ===== *)
theory Namespace_Service
  imports Scm_Service Namespace_Sync Provider_Webhooks
begin

text \<open>
  The namespaces service of the API (\<^verbatim>\<open>pkg/api/namespaces_service.go\<close>): listing the repositories, fetching them
  from their provider, and switching their webhooks on and off. A sync may never return (\<open>None\<close>). While the
  \<open>i\<close>-th installation is synced, the clock readings are \<open>clk i 0\<close>, \<open>clk i 1\<close>, ..., and those of the store of
  namespaces are \<open>nclk i\<close>.
\<close>

section \<open>The service\<close>

record ('s, 'p, 'w, 'k, 'n) namespaces_service =
  nv_ops :: "'n namespace_ops option"
  nv_access :: "('s, 'p, 'w, 'k) access"
  nv_endpoint :: string

record ('s, 'p, 'w, 'n) namespaces_state =
  nt_namespaces :: 'n
  nt_access :: "('s, 'p, 'w) access_state"

definition all_namespaces :: namespace_filter where
  "all_namespaces =
     \<lparr>nf_tenant = [], nf_provider = [], nf_account_id = [], nf_installation_id = [], nf_instance_key = [], nf_repo_id = [],
      nf_owner = [], nf_repo_name = [], nf_full_name = [], nf_limit = 0\<rparr>"

definition max_namespace_list_size :: int where
  "max_namespace_list_size = 1000"

definition list_namespaces_rpc ::
  "('s, 'p, 'w, 'k, 'n) namespaces_service \<Rightarrow> ctx \<Rightarrow> string \<Rightarrow> string \<Rightarrow> string \<Rightarrow> string \<Rightarrow> string \<Rightarrow> 'n \<Rightarrow> namespace_msg list rpc" where
  "list_namespaces_rpc S c state_id provider owner repo full s =
     (case nv_ops S of
        None \<Rightarrow> rpc_fail CodeFailedPrecondition ''storage not configured''
      | Some ops \<Rightarrow>
          (case no_list ops c (all_namespaces\<lparr>nf_provider := normalize_provider_name provider, nf_owner := trim_space owner,
                 nf_repo_name := trim_space repo, nf_full_name := trim_space full, nf_limit := max_namespace_list_size,
                 nf_account_id := trim_space state_id\<rparr>) s of
             Inl err \<Rightarrow> rpc_fail CodeInternal ''list namespaces failed''
           | Inr rs \<Rightarrow> Inr (to_proto_namespaces rs)))"

text \<open>Unlike for a client, an instance that does not exist falls back to the configuration of the server.\<close>

definition namespaces_provider_config ::
  "('s, 'p, 'w, 'k) access \<Rightarrow> ctx \<Rightarrow> string \<Rightarrow> string \<Rightarrow> ('s, 'p, 'w) access_state \<Rightarrow>
     provider_config res \<times> ('s, 'p, 'w) access_state" where
  "namespaces_provider_config A c provider key0 st =
     (let key = trim_space key0; fallback = Inr (config_from_auth (ac_providers A) provider) in
      if key = [] then (fallback, st)
      else case cached_config A c provider key st of
             (Some cfg, st') \<Rightarrow> (Inr cfg, st')
           | (None, st') \<Rightarrow> (stored_config A c provider key fallback st', st'))"

fun newest_of :: "install_record list \<Rightarrow> install_record option \<Rightarrow> install_record option" where
  "newest_of [] latest = latest"
| "newest_of (r # rs) latest =
     newest_of rs (case latest of None \<Rightarrow> Some r | Some l \<Rightarrow> if in_updated_at l < in_updated_at r then Some r else Some l)"

definition latest_installation :: "'s install_ops \<Rightarrow> ctx \<Rightarrow> string \<Rightarrow> string \<Rightarrow> 's \<Rightarrow> install_record option res" where
  "latest_installation ops c provider account s =
     bind_res (io_list ops c provider account s) (\<lambda>rs. Inr (newest_of rs None))"

definition installations_for_sync :: "'s install_ops \<Rightarrow> ctx \<Rightarrow> string \<Rightarrow> string \<Rightarrow> 's \<Rightarrow> install_record list res" where
  "installations_for_sync ops c provider state_id s =
     (if state_id \<noteq> [] then
        bind_res (latest_installation ops c provider state_id s) (\<lambda>found. Inr (case found of None \<Rightarrow> [] | Some r \<Rightarrow> [r]))
      else io_list ops c provider [] s)"

definition installation_for_namespace ::
  "'s install_ops option \<Rightarrow> ctx \<Rightarrow> string \<Rightarrow> namespace_record \<Rightarrow> string \<Rightarrow> 's \<Rightarrow> install_record option res" where
  "installation_for_namespace store c provider r state_id s =
     (case store of
        None \<Rightarrow> Inr None
      | Some ops \<Rightarrow>
          bind_res (if ns_installation_id r \<noteq> [] then io_by_id ops c provider (ns_installation_id r) s else Inr None)
            (\<lambda>found.
               if found \<noteq> None then Inr found
               else if ns_account_id r \<noteq> [] then latest_installation ops c provider (ns_account_id r) s
               else if state_id \<noteq> [] then latest_installation ops c provider state_id s
               else Inr None))"

section \<open>Syncing\<close>

text \<open>The record with a fresh token; for other providers than these two it is stored as it was.\<close>

definition sync_refresh ::
  "'w web \<Rightarrow> gtime \<Rightarrow> string \<Rightarrow> provider_config \<Rightarrow> install_record \<Rightarrow> 'w \<Rightarrow> install_record res \<times> 'w" where
  "sync_refresh W now provider cfg r w =
     (if provider = ''gitlab'' then
        then_web (refresh_gitlab_token W now cfg (in_refresh_token r) w) (\<lambda>t w. (Inr (refreshed_record t r), w))
      else if provider = ''bitbucket'' then
        then_web (refresh_bitbucket_token W now cfg (in_refresh_token r) w) (\<lambda>t w. (Inr (refreshed_record t r), w))
      else (Inr r, w))"

definition sync_token ::
  "('s, 'p, 'w, 'k) access \<Rightarrow> 's install_ops \<Rightarrow> (nat \<Rightarrow> gtime) \<Rightarrow> ctx \<Rightarrow> string \<Rightarrow> provider_config \<Rightarrow> install_record \<Rightarrow>
     ('s, 'p, 'w) access_state \<Rightarrow> install_record rpc \<times> ('s, 'p, 'w) access_state" where
  "sync_token A ops clk c provider cfg r st =
     (if provider \<noteq> ''github'' \<and> should_refresh (clk 0) (in_expires_at r) \<and> in_refresh_token r \<noteq> [] then
        (case sync_refresh (ac_web A) (clk 1) provider cfg r (as_world st) of
           (Inl err, w) \<Rightarrow> (rpc_fail CodeInternal ''token refresh failed'', st\<lparr>as_world := w\<rparr>)
         | (Inr r', w) \<Rightarrow>
             (case io_upsert ops c (clk 2, clk 3) r' (as_installs st) of
                (err, s) \<Rightarrow> (Inr r', st\<lparr>as_world := w, as_installs := s\<rparr>)))
      else (Inr r, st))"

definition fetch_namespaces ::
  "'w web \<Rightarrow> 'n namespace_ops \<Rightarrow> ctx \<Rightarrow> (nat \<Rightarrow> gtime \<times> gtime) \<Rightarrow> string \<Rightarrow> provider_config \<Rightarrow> install_record \<Rightarrow> 'n \<Rightarrow> 'w \<Rightarrow>
     (go_error option \<times> 'n \<times> 'w) option" where
  "fetch_namespaces W nops c nclk provider cfg r s w =
     (if provider = ''gitlab'' then
        sync_gitlab_namespaces W (Some nops) c nclk cfg (in_access_token r) (in_account_id r) (in_installation_id r) (in_instance_key r) s w
      else if provider = ''bitbucket'' then
        sync_bitbucket_namespaces W (Some nops) c nclk cfg (in_access_token r) (in_account_id r) (in_installation_id r) (in_instance_key r) s w
      else Some (None, s, w))"

definition sync_installation_namespaces ::
  "('s, 'p, 'w, 'k) access \<Rightarrow> 's install_ops \<Rightarrow> 'n namespace_ops \<Rightarrow> (nat \<Rightarrow> gtime) \<Rightarrow> (nat \<Rightarrow> gtime \<times> gtime) \<Rightarrow> ctx \<Rightarrow> string \<Rightarrow>
     install_record \<Rightarrow> ('s, 'p, 'w, 'n) namespaces_state \<Rightarrow> (unit rpc \<times> ('s, 'p, 'w, 'n) namespaces_state) option" where
  "sync_installation_namespaces A ops nops clk nclk c provider r st =
     (case namespaces_provider_config A c provider (in_instance_key r) (nt_access st) of
        (Inl err, a) \<Rightarrow> Some (rpc_fail CodeFailedPrecondition ''provider config missing'', st\<lparr>nt_access := a\<rparr>)
      | (Inr cfg, a) \<Rightarrow>
          if provider \<noteq> ''github'' \<and> in_access_token r = [] then
            Some (rpc_fail CodeFailedPrecondition ''access token missing'', st\<lparr>nt_access := a\<rparr>)
          else
            (case sync_token A ops clk c provider cfg r a of
               (Inl fail, a') \<Rightarrow> Some (Inl fail, st\<lparr>nt_access := a'\<rparr>)
             | (Inr r', a') \<Rightarrow>
                 (case fetch_namespaces (ac_web A) nops c nclk provider cfg r' (nt_namespaces st) (as_world a') of
                    None \<Rightarrow> None
                  | Some (failed, s, w) \<Rightarrow>
                      Some (if failed = None then Inr () else rpc_fail CodeInternal ''namespace sync failed'',
                        st\<lparr>nt_namespaces := s, nt_access := a'\<lparr>as_world := w\<rparr>\<rparr>))))"

fun sync_each ::
  "('s, 'p, 'w, 'k) access \<Rightarrow> 's install_ops \<Rightarrow> 'n namespace_ops \<Rightarrow> (nat \<Rightarrow> nat \<Rightarrow> gtime) \<Rightarrow> (nat \<Rightarrow> nat \<Rightarrow> gtime \<times> gtime) \<Rightarrow> ctx \<Rightarrow> string \<Rightarrow>
     nat \<Rightarrow> install_record list \<Rightarrow> ('s, 'p, 'w, 'n) namespaces_state \<Rightarrow> (unit rpc \<times> ('s, 'p, 'w, 'n) namespaces_state) option" where
  "sync_each A ops nops clk nclk c provider i [] st = Some (Inr (), st)"
| "sync_each A ops nops clk nclk c provider i (r # rs) st =
     (case sync_installation_namespaces A ops nops (clk i) (nclk i) c provider r st of
        None \<Rightarrow> None
      | Some (Inl fail, st') \<Rightarrow> Some (Inl fail, st')
      | Some (Inr u, st') \<Rightarrow> sync_each A ops nops clk nclk c provider (Suc i) rs st')"

definition sync_namespaces_rpc ::
  "('s, 'p, 'w, 'k, 'n) namespaces_service \<Rightarrow> (nat \<Rightarrow> nat \<Rightarrow> gtime) \<Rightarrow> (nat \<Rightarrow> nat \<Rightarrow> gtime \<times> gtime) \<Rightarrow> ctx \<Rightarrow> string \<Rightarrow> string \<Rightarrow>
     ('s, 'p, 'w, 'n) namespaces_state \<Rightarrow> (namespace_msg list rpc \<times> ('s, 'p, 'w, 'n) namespaces_state) option" where
  "sync_namespaces_rpc S clk nclk c state_id0 provider0 st =
     (case (ac_store (nv_access S), nv_ops S) of
        (Some ops, Some nops) \<Rightarrow>
          (let state_id = trim_space state_id0; provider = normalize_provider_name provider0 in
           case installations_for_sync ops c provider state_id (as_installs (nt_access st)) of
             Inl err \<Rightarrow> Some (rpc_fail CodeInternal ''installation lookup failed'', st)
           | Inr [] \<Rightarrow> Some (rpc_fail CodeNotFound ''installation not found'', st)
           | Inr rs \<Rightarrow>
               (case sync_each (nv_access S) ops nops clk nclk c provider 0 rs st of
                  None \<Rightarrow> None
                | Some (Inl fail, st') \<Rightarrow> Some (Inl fail, st')
                | Some (Inr u, st') \<Rightarrow>
                    Some (case no_list nops c (all_namespaces\<lparr>nf_provider := provider, nf_limit := max_namespace_list_size,
                                nf_account_id := state_id\<rparr>) (nt_namespaces st') of
                            Inl err \<Rightarrow> rpc_fail CodeInternal ''list namespaces failed''
                          | Inr found \<Rightarrow> Inr (to_proto_namespaces found), st')))
      | _ \<Rightarrow> Some (rpc_fail CodeFailedPrecondition ''storage not configured'', st))"

section \<open>Webhooks\<close>

definition webhook_url :: "string \<Rightarrow> string \<Rightarrow> string res" where
  "webhook_url endpoint0 provider =
     (let endpoint = trim_slash (trim_space endpoint0) in
      if endpoint = [] then Inl (Error ''endpoint is required for webhook management'')
      else if provider = ''gitlab'' then Inr (endpoint @ ''/webhooks/gitlab'')
      else if provider = ''bitbucket'' then Inr (endpoint @ ''/webhooks/bitbucket'')
      else Inl (Error ''unsupported provider for webhook management''))"

text \<open>The namespace a caller asks about, if it is theirs.\<close>

definition asked_namespace :: "'n namespace_ops \<Rightarrow> ctx \<Rightarrow> string \<Rightarrow> string \<Rightarrow> string \<Rightarrow> 'n \<Rightarrow> namespace_record rpc" where
  "asked_namespace ops c provider repo_id state_id s =
     (case no_get ops c provider repo_id [] s of
        Inl err \<Rightarrow> rpc_fail CodeInternal ''namespace lookup failed''
      | Inr None \<Rightarrow> rpc_fail CodeNotFound ''namespace not found''
      | Inr (Some r) \<Rightarrow>
          if state_id \<noteq> [] \<and> ns_account_id r \<noteq> state_id then rpc_fail CodePermissionDenied ''state_id mismatch'' else Inr r)"

definition get_namespace_webhook_rpc ::
  "('s, 'p, 'w, 'k, 'n) namespaces_service \<Rightarrow> ctx \<Rightarrow> string \<Rightarrow> string \<Rightarrow> string \<Rightarrow> 'n \<Rightarrow> bool rpc" where
  "get_namespace_webhook_rpc S c provider repo_id state_id s =
     (case nv_ops S of
        None \<Rightarrow> rpc_fail CodeFailedPrecondition ''storage not configured''
      | Some ops \<Rightarrow>
          (case asked_namespace ops c (normalize_provider_name provider) (trim_space repo_id) (trim_space state_id) s of
             Inl fail \<Rightarrow> Inl fail
           | Inr r \<Rightarrow> Inr (ns_webhooks_enabled r)))"

definition set_namespace_webhook_rpc ::
  "('s, 'p, 'w, 'k, 'n) namespaces_service \<Rightarrow> gtime \<times> gtime \<Rightarrow> ctx \<Rightarrow> string \<Rightarrow> string \<Rightarrow> string \<Rightarrow> bool \<Rightarrow>
     ('s, 'p, 'w, 'n) namespaces_state \<Rightarrow> bool rpc \<times> ('s, 'p, 'w, 'n) namespaces_state" where
  "set_namespace_webhook_rpc S clk c provider0 repo_id state_id0 enabled st =
     (case nv_ops S of
        None \<Rightarrow> (rpc_fail CodeFailedPrecondition ''storage not configured'', st)
      | Some nops \<Rightarrow>
          (if ac_store (nv_access S) = None then (rpc_fail CodeFailedPrecondition ''installation storage not configured'', st)
           else
             let provider = normalize_provider_name provider0; state_id = trim_space state_id0 in
             case asked_namespace nops c provider (trim_space repo_id) state_id (nt_namespaces st) of
               Inl fail \<Rightarrow> (Inl fail, st)
             | Inr r \<Rightarrow>
                 (if provider = ''github'' then (rpc_fail CodeInvalidArgument ''github webhooks are always enabled'', st)
                  else case webhook_url (nv_endpoint S) provider of
                    Inl err \<Rightarrow> (Inl (CodeInvalidArgument, err), st)
                  | Inr url \<Rightarrow>
                      (case installation_for_namespace (ac_store (nv_access S)) c provider r state_id (as_installs (nt_access st)) of
                         Inl err \<Rightarrow> (rpc_fail CodeInternal ''installation lookup failed'', st)
                       | Inr None \<Rightarrow> (rpc_fail CodeFailedPrecondition ''access token missing'', st)
                       | Inr (Some install) \<Rightarrow>
                           if in_access_token install = [] then (rpc_fail CodeFailedPrecondition ''access token missing'', st)
                           else
                             (case namespaces_provider_config (nv_access S) c provider (in_instance_key install) (nt_access st) of
                                (Inl err, a) \<Rightarrow> (rpc_fail CodeFailedPrecondition ''provider config missing'', st\<lparr>nt_access := a\<rparr>)
                              | (Inr cfg, a) \<Rightarrow>
                                  (case (if enabled then enable_provider_webhook else disable_provider_webhook)
                                       (ac_web (nv_access S)) provider cfg (in_access_token install) r url (as_world a) of
                                     (Inl err, w) \<Rightarrow>
                                       (rpc_fail CodeInvalidArgument (if enabled then ''webhook enable failed'' else ''webhook disable failed''),
                                        st\<lparr>nt_access := a\<lparr>as_world := w\<rparr>\<rparr>)
                                   | (Inr u, w) \<Rightarrow>
                                       (case no_upsert nops c clk (r\<lparr>ns_webhooks_enabled := enabled\<rparr>) (nt_namespaces st) of
                                          (Some err, s) \<Rightarrow>
                                            (rpc_fail CodeInternal ''namespace update failed'',
                                             st\<lparr>nt_namespaces := s, nt_access := a\<lparr>as_world := w\<rparr>\<rparr>)
                                        | (None, s) \<Rightarrow>
                                            (Inr enabled, st\<lparr>nt_namespaces := s, nt_access := a\<lparr>as_world := w\<rparr>\<rparr>))))))))"

section \<open>The choice of webhooks is kept\<close>

lemma find_map_same: "(\<And>x. P (g x) = P x) \<Longrightarrow> find P (map g xs) = map_option g (find P xs)"
  by (induction xs) auto

lemma sql_namespace_flag:
  assumes "no_get (sql_namespaces namespace_table sha) c p i [] s = Inr (Some r)"
    and "no_upsert (sql_namespaces namespace_table sha) c clk (r\<lparr>ns_webhooks_enabled := e\<rparr>) s = (None, s')"
  shows "\<exists>x. no_get (sql_namespaces namespace_table sha) c p i [] s' = Inr (Some x) \<and>
    ns_webhooks_enabled x = e \<and> ns_account_id x = ns_account_id r"
proof -
  let ?P = "\<lambda>x. ns_provider x = p \<and> ns_repo_id x = i \<and> tenant_visible c (ns_tenant x)"
  let ?r = "r\<lparr>ns_webhooks_enabled := e\<rparr>"
  have "row_holds namespace_schema ([(''provider'', p), (''repo_id'', i)] @ opt_cond ''provider_instance_key'' [] @ tenant_cond c) = ?P"
    by (auto simp: fun_eq_iff tenant_visible_def)
  then have get: "no_get (sql_namespaces namespace_table sha) c p i [] t = Inr (find ?P t)" for t
    by (simp add: sql_namespaces_def sql_get_namespace_def take_where)
  from assms(1) have r: "find ?P s = Some r" by (simp add: get)
  from find_Some_D [OF r] have rs: "r \<in> set s" "tenant_visible c (ns_tenant r)" by blast+
  have rc: "namespace_in c ?r = ?r"
    using rs(2) by (cases r) (auto simp: namespace_in_def tenant_visible_def)
  define x where "x = (let r = ?r; r = (if ns_id r = [] then r\<lparr>ns_id := namespace_record_id sha r\<rparr> else r);
      r = (if is_zero (ns_created_at r) then r\<lparr>ns_created_at := fst clk\<rparr> else r) in r\<lparr>ns_updated_at := fst clk\<rparr>)"
  have cx: "namespace_content x = namespace_content ?r" by (simp add: x_def namespace_content_def Let_def)
  have ix: "namespace_identity x = namespace_identity r" by (simp add: x_def namespace_identity_def Let_def)
  let ?g = "\<lambda>q. if namespace_identity x = namespace_identity q then copy_columns namespace_schema namespace_updates x q else q"
  have "create_row namespace_schema (Some (namespace_unique, namespace_updates)) x s = (Inr x, map ?g s)"
    using rs(1) ix by (auto simp: create_row_def Let_def list_ex_iff)
  moreover have "no_upsert (sql_namespaces namespace_table sha) c clk ?r s =
      (if ns_provider r = [] \<or> ns_repo_id r = [] then (Some (Error ''provider and repo_id are required''), s)
       else case create_row namespace_schema (Some (namespace_unique, namespace_updates)) x s of
         (Inl err, t) \<Rightarrow> (Some err, t) | (Inr stored, t) \<Rightarrow> (None, t))"
    unfolding sql_namespaces_def namespace_ops.select_convs sql_upsert_namespace_def Let_def rc [unfolded namespace_in_def] x_def
    by (simp add: table_db_def)
  ultimately have s': "s' = map ?g s" using assms(2) by (simp split: if_splits)
  have same: "namespace_identity (?g q) = namespace_identity q" for q using namespace_copied(2) by auto
  have "?P (?g q) = ?P q" for q
    using same [of q] by (simp add: namespace_identity_def)
  then have "find ?P s' = Some (?g r)" unfolding s' by (subst find_map_same) (simp_all add: r)
  moreover have "namespace_content (?g r) = namespace_content ?r" using namespace_copied(1) [OF ix] cx by (simp add: ix)
  from arg_cong [OF this, of ns_webhooks_enabled] arg_cong [OF this, of ns_account_id]
  have "ns_webhooks_enabled (?g r) = e \<and> ns_account_id (?g r) = ns_account_id r" by (simp add: namespace_content_def)
  ultimately show ?thesis unfolding get by blast
qed

lemma asked_namespace_Inr:
  "asked_namespace ops c p i state_id s = Inr r \<longleftrightarrow>
     no_get ops c p i [] s = Inr (Some r) \<and> (state_id \<noteq> [] \<longrightarrow> ns_account_id r = state_id)"
  by (auto simp: asked_namespace_def rpc_fail_def split: sum.splits option.splits)

lemma set_namespace_webhook_Inr:
  assumes "set_namespace_webhook_rpc S clk c provider repo_id state_id enabled st = (Inr answer, st')" "nv_ops S = Some nops"
  obtains r cfg token url w where "answer = enabled"
    "asked_namespace nops c (normalize_provider_name provider) (trim_space repo_id) (trim_space state_id) (nt_namespaces st) = Inr r"
    "provider_webhook (ac_web (nv_access S)) (normalize_provider_name provider) cfg token r url enabled w = (Inr (), as_world (nt_access st'))"
    "webhook_url (nv_endpoint S) (normalize_provider_name provider) = Inr url"
    "no_upsert nops c clk (r\<lparr>ns_webhooks_enabled := enabled\<rparr>) (nt_namespaces st) = (None, nt_namespaces st')"
  using assms
  by (auto simp: set_namespace_webhook_rpc_def Let_def rpc_fail_def enable_provider_webhook_def disable_provider_webhook_def
      split: if_splits prod.splits option.splits sum.splits)


definition hook_service :: "(install_record list, instance_mem, bool, string, namespace_record list) namespaces_service" where
  "hook_service =
     \<lparr>nv_ops = Some (sql_namespaces namespace_table (\<lambda>s. s)),
      nv_access = \<lparr>ac_store = Some (sql_installs install_table (\<lambda>s. s)), ac_instances = None, ac_parse = (\<lambda>s. Inr JNull),
        ac_providers = no_auth, ac_web = one_hook_web, ac_keys = plain_keys\<rparr>,
      nv_endpoint = ''http://h''\<rparr>"

definition hook_state :: "(install_record list, instance_mem, bool, namespace_record list) namespaces_state" where
  "hook_state =
     \<lparr>nt_namespaces = [(synced_namespace ''gitlab'' [] ''42'' [] ''5'' [] [] [] [] [] [] [])\<lparr>ns_id := ''n1''\<rparr>],
      nt_access = \<lparr>as_installs = [expired_install], as_instances = [], as_cache = None, as_world = False\<rparr>\<rparr>"

lemma hook_created:
  "provider_webhook one_hook_web ''gitlab'' cfg token r url True False = (Inr (), True)" if "ns_repo_id r \<noteq> []"
  using that
  by (simp add: provider_webhook_def ensure_gitlab_webhook_def Let_def gitlab_hook_id_def call_json_def call_only_def one_hook_web_def
      get_call_def decode_reply_def unmarshal_def jslice_def success_status_def hook_for_def gitlab_create_hook_def hook_write_def)


end
