(* ===== verification/Oauth_Start.thy ===== *)
theory Oauth_Start
  imports Scm_Service
begin

text \<open>
  Sending a user to a provider to authorize the server: the state that goes with them (\<^verbatim>\<open>pkg/oauth/state.go\<close>),
  the URLs (\<^verbatim>\<open>util.go\<close>, \<^verbatim>\<open>start.go\<close>), the registry of the providers (\<^verbatim>\<open>registry.go\<close>, \<^verbatim>\<open>providers.go\<close>) and the
  handler (\<^verbatim>\<open>start.go\<close>). Parsing a URL is a parameter; \<open>parse\<close> and \<open>print\<close> are \<^verbatim>\<open>json.Unmarshal\<close> and
  \<^verbatim>\<open>json.Marshal\<close>.
\<close>

section \<open>The state\<close>

record oauth_state =
  os_state :: string
  os_tenant :: string
  os_instance :: string

definition state_json :: "oauth_state \<Rightarrow> jval" where
  "state_json p =
     JObj ([(''state'', JStr (os_state p))] @
       (if os_tenant p = [] then [] else [(''tenant_id'', JStr (os_tenant p))]) @
       (if os_instance p = [] then [] else [(''instance_key'', JStr (os_instance p))]))"

definition read_state :: "jval \<Rightarrow> oauth_state option" where
  "read_state v = do {
     s \<leftarrow> jstr [''state''] v; t \<leftarrow> jstr [''tenant_id''] v; k \<leftarrow> jstr [''instance_key''] v;
     Some \<lparr>os_state = s, os_tenant = t, os_instance = k\<rparr> }"

definition encode_state :: "(jval \<Rightarrow> string) \<Rightarrow> string \<Rightarrow> string \<Rightarrow> string \<Rightarrow> string" where
  "encode_state print s tenant0 key0 =
     (let tenant = trim_space tenant0; key = trim_space key0 in
      if tenant = [] \<and> key = [] then s
      else b64_encode raw_url_encoding (print (state_json \<lparr>os_state = s, os_tenant = tenant, os_instance = key\<rparr>)))"

definition decode_state :: "json_parser \<Rightarrow> string \<Rightarrow> oauth_state" where
  "decode_state parse value0 =
     (let v = trim_space value0; plain_state = \<lparr>os_state = v, os_tenant = [], os_instance = []\<rparr> in
      if v = [] then plain_state
      else case b64_decode raw_url_encoding v of
             None \<Rightarrow> plain_state
           | Some raw \<Rightarrow>
               (case unmarshal parse read_state raw of
                  None \<Rightarrow> plain_state
                | Some p \<Rightarrow> if os_state p = [] then p\<lparr>os_state := v\<rparr> else p))"

section \<open>URLs\<close>

record oauth_request =
  oq_path :: string
  oq_method :: string
  oq_query :: "string \<Rightarrow> string"
  oq_header :: "string \<Rightarrow> string"
  oq_tls :: bool
  oq_host :: string

definition forwarded_proto :: "oauth_request \<Rightarrow> string" where
  "forwarded_proto r =
     (let proto = trim_space (oq_header r ''X-Forwarded-Proto'') in
      if proto \<noteq> [] then proto else if oq_tls r then ''https'' else [])"

definition forwarded_host :: "oauth_request \<Rightarrow> string" where
  "forwarded_host r = trim_space (oq_header r ''X-Forwarded-Host'')"

text \<open>The server as the request names it, when no endpoint is configured.\<close>

definition request_base :: "oauth_request \<Rightarrow> string" where
  "request_base r =
     (let scheme = forwarded_proto r; host = forwarded_host r;
          scheme = (if scheme = [] then ''http'' else scheme); host = (if host = [] then oq_host r else host)
      in if host = [] then [] else scheme @ ''://'' @ host)"

definition callback_url :: "oauth_request \<Rightarrow> string \<Rightarrow> string \<Rightarrow> string" where
  "callback_url r provider endpoint0 =
     (let endpoint = trim_slash (trim_space endpoint0); b = (if endpoint \<noteq> [] then endpoint else request_base r) in
      if b = [] then [] else b @ ''/auth/'' @ provider @ ''/callback'')"

definition provider_from_path :: "string \<Rightarrow> string" where
  "provider_from_path path0 =
     (let path = trim_slash path0 in
      if ends_with ''/auth/github/callback'' path then ''github''
      else if ends_with ''/auth/gitlab/callback'' path then ''gitlab''
      else if ends_with ''/auth/bitbucket/callback'' path then ''bitbucket''
      else if ends_with ''/auth/slack/callback'' path then ''slack''
      else if ends_with ''/auth/atlassian/callback'' path then ''atlassian''
      else if ends_with ''/auth/jira/callback'' path then ''atlassian''
      else [])"

text \<open>
  A parsed URL: its query, \<^verbatim>\<open>String\<close> as it is, and \<^verbatim>\<open>String\<close> after its query has been replaced. A query maps keys
  to lists of values.
\<close>

type_synonym url_query = "(string \<times> string list) list"

record 'u url_lib =
  ul_parse :: "string \<Rightarrow> 'u res"
  ul_query :: "'u \<Rightarrow> url_query"
  ul_string :: "'u \<Rightarrow> string"
  ul_with_query :: "'u \<Rightarrow> string \<Rightarrow> string"

definition set_value :: "string \<times> string \<Rightarrow> url_query \<Rightarrow> url_query" where
  "set_value kv q = (fst kv, [snd kv]) # filter (\<lambda>e. fst e \<noteq> fst kv) q"

definition values_encode :: "url_query \<Rightarrow> string" where
  "values_encode q =
     join_str ''&'' (concat (map (\<lambda>(k, vs). map (\<lambda>v. query_escape k @ ''='' @ query_escape v) vs)
       (sort_slice (\<lambda>a b. fst a < fst b) q)))"

definition url_with :: "'u url_lib \<Rightarrow> string \<Rightarrow> (string \<times> string) list \<Rightarrow> string res" where
  "url_with U raw params =
     bind_res (ul_parse U raw) (\<lambda>u. Inr (ul_with_query U u (values_encode (fold set_value params (ul_query U u)))))"

definition add_query_param :: "'u url_lib \<Rightarrow> string \<Rightarrow> string \<Rightarrow> string \<Rightarrow> string res" where
  "add_query_param U raw key v =
     (if v = [] then bind_res (ul_parse U raw) (\<lambda>u. Inr (ul_string U u)) else url_with U raw [(key, v)])"

definition github_web_base :: "provider_config \<Rightarrow> string" where
  "github_web_base cfg =
     (let web = trim_slash (web_base_url (pc_api cfg)); b = trim_slash (base_url (pc_api cfg)) in
      if web \<noteq> [] then web
      else if b = [] \<or> b = ''https://api.github.com'' then ''https://github.com''
      else (let web = trim_suffix (trim_suffix b ''/api/v3'') ''/api'' in if web = [] then ''https://github.com'' else web))"

definition gitlab_web_base :: "provider_config \<Rightarrow> string" where
  "gitlab_web_base cfg =
     (let web = trim_slash (web_base_url (pc_api cfg)); b = trim_slash (base_url (pc_api cfg)) in
      if web \<noteq> [] then web
      else if b = [] then ''https://gitlab.com''
      else (let web = trim_suffix b ''/api/v4'' in if web = [] then ''https://gitlab.com'' else web))"

definition github_install_url :: "'u url_lib \<Rightarrow> provider_config \<Rightarrow> string \<Rightarrow> string res" where
  "github_install_url U cfg s =
     (let slug = trim_space (app_slug (pc_app cfg)) in
      if slug = [] then Inl (Error ''github app_slug is required'')
      else add_query_param U (github_web_base cfg @ ''/apps/'' @ slug @ ''/installations/new'') ''state'' s)"

definition redirect_params :: "provider_config \<Rightarrow> string \<Rightarrow> string \<Rightarrow> string \<Rightarrow> (string \<times> string) list" where
  "redirect_params cfg separator s redirect =
     opt_param ''redirect_uri'' redirect @
     (if scopes (pc_oauth cfg) \<noteq> [] then [(''scope'', join_str separator (scopes (pc_oauth cfg)))] else []) @
     opt_param ''state'' s"

definition gitlab_authorize_url :: "'u url_lib \<Rightarrow> provider_config \<Rightarrow> string \<Rightarrow> string \<Rightarrow> string res" where
  "gitlab_authorize_url U cfg s redirect =
     (if client_id (pc_oauth cfg) = [] then Inl (Error ''gitlab oauth_client_id is required'')
      else url_with U (gitlab_web_base cfg @ ''/oauth/authorize'')
        ([(''client_id'', client_id (pc_oauth cfg)), (''response_type'', ''code'')] @ redirect_params cfg '' '' s redirect))"

definition bitbucket_authorize_url :: "'u url_lib \<Rightarrow> provider_config \<Rightarrow> string \<Rightarrow> string \<Rightarrow> string res" where
  "bitbucket_authorize_url U cfg s redirect =
     (if client_id (pc_oauth cfg) = [] then Inl (Error ''bitbucket oauth_client_id is required'')
      else
        let web = trim_slash (web_base_url (pc_api cfg)); web = (if web = [] then ''https://bitbucket.org'' else web)
        in url_with U (web @ ''/site/oauth2/authorize'')
             ([(''client_id'', client_id (pc_oauth cfg)), (''response_type'', ''code'')] @ redirect_params cfg '' '' s redirect))"

definition slack_authorize_url :: "'u url_lib \<Rightarrow> provider_config \<Rightarrow> string \<Rightarrow> string \<Rightarrow> string res" where
  "slack_authorize_url U cfg s redirect =
     (if client_id (pc_oauth cfg) = [] then Inl (Error ''slack oauth_client_id is required'')
      else url_with U (trim_suffix (slack_api cfg) ''/api'' @ ''/oauth/v2/authorize'')
             ([(''client_id'', client_id (pc_oauth cfg))] @ redirect_params cfg '','' s redirect))"

definition jira_authorize_url :: "'u url_lib \<Rightarrow> provider_config \<Rightarrow> string \<Rightarrow> string \<Rightarrow> string res" where
  "jira_authorize_url U cfg s redirect =
     (if client_id (pc_oauth cfg) = [] then Inl (Error ''jira oauth_client_id is required'')
      else
        let web = trim_slash (web_base_url (pc_api cfg)); web = (if web = [] then ''https://auth.atlassian.com'' else web)
        in url_with U (web @ ''/authorize'')
             ([(''audience'', ''api.atlassian.com''), (''client_id'', client_id (pc_oauth cfg)), (''response_type'', ''code''),
               (''prompt'', ''consent'')] @ redirect_params cfg '' '' s redirect))"

section \<open>The providers\<close>

text \<open>A plugin: its name, the path of its callback, its URL, and the provider that its handler handles.\<close>

record oauth_provider =
  op_name :: string
  op_callback_path :: string
  op_authorize_url :: "oauth_request \<Rightarrow> provider_config \<Rightarrow> string \<Rightarrow> string \<Rightarrow> string res"
  op_handles :: string

definition github_provider :: "'u url_lib \<Rightarrow> oauth_provider" where
  "github_provider U =
     \<lparr>op_name = ''github'', op_callback_path = ''/auth/github/callback'',
      op_authorize_url = (\<lambda>r cfg s endpoint. github_install_url U cfg s), op_handles = ''github''\<rparr>"

definition gitlab_provider :: "'u url_lib \<Rightarrow> oauth_provider" where
  "gitlab_provider U =
     \<lparr>op_name = ''gitlab'', op_callback_path = ''/auth/gitlab/callback'',
      op_authorize_url = (\<lambda>r cfg s endpoint. gitlab_authorize_url U cfg s (callback_url r ''gitlab'' endpoint)), op_handles = ''gitlab''\<rparr>"

definition bitbucket_provider :: "'u url_lib \<Rightarrow> oauth_provider" where
  "bitbucket_provider U =
     \<lparr>op_name = ''bitbucket'', op_callback_path = ''/auth/bitbucket/callback'',
      op_authorize_url = (\<lambda>r cfg s endpoint. bitbucket_authorize_url U cfg s (callback_url r ''bitbucket'' endpoint)),
      op_handles = ''bitbucket''\<rparr>"

definition slack_provider :: "'u url_lib \<Rightarrow> oauth_provider" where
  "slack_provider U =
     \<lparr>op_name = ''slack'', op_callback_path = ''/auth/slack/callback'',
      op_authorize_url = (\<lambda>r cfg s endpoint. slack_authorize_url U cfg s (callback_url r ''slack'' endpoint)), op_handles = ''slack''\<rparr>"

definition atlassian_provider :: "'u url_lib \<Rightarrow> oauth_provider" where
  "atlassian_provider U =
     \<lparr>op_name = ''atlassian'', op_callback_path = ''/auth/atlassian/callback'',
      op_authorize_url = (\<lambda>r cfg s endpoint. jira_authorize_url U cfg s (callback_url r ''atlassian'' endpoint)),
      op_handles = ''atlassian''\<rparr>"

definition jira_provider :: "'u url_lib \<Rightarrow> oauth_provider" where
  "jira_provider U =
     \<lparr>op_name = ''jira'', op_callback_path = ''/auth/jira/callback'',
      op_authorize_url = (\<lambda>r cfg s endpoint. jira_authorize_url U cfg s (callback_url r ''jira'' endpoint)), op_handles = ''atlassian''\<rparr>"

text \<open>\<open>None\<close> is a registry, or a provider, that is nil.\<close>

type_synonym oauth_registry = "oauth_provider gmap"

definition registry_key :: "string \<Rightarrow> string" where
  "registry_key name = to_lower (trim_space name)"

definition registry_add :: "oauth_provider option \<Rightarrow> oauth_registry option \<Rightarrow> go_error option \<times> oauth_registry option" where
  "registry_add provider registry =
     (case (registry, provider) of
        (None, _) \<Rightarrow> (Some (Error ''registry is nil''), registry)
      | (_, None) \<Rightarrow> (Some (Error ''provider is nil''), registry)
      | (Some m, Some p) \<Rightarrow>
          (let name = registry_key (op_name p) in
           if name = [] then (Some (Error ''provider name is required''), registry)
           else if mget m name \<noteq> None then (Some (Error ''provider already registered''), registry)
           else (None, Some (mput name p m))))"

definition oauth_registry_provider :: "string \<Rightarrow> oauth_registry option \<Rightarrow> oauth_provider option" where
  "oauth_registry_provider name registry = (case registry of None \<Rightarrow> None | Some m \<Rightarrow> mget m (registry_key name))"

definition oauth_registry_providers :: "oauth_registry option \<Rightarrow> oauth_provider list" where
  "oauth_registry_providers registry =
     (case registry of None \<Rightarrow> [] | Some m \<Rightarrow> sort_slice (\<lambda>p q. op_name p < op_name q) (mvals m))"

definition oauth_default_registry :: "'u url_lib \<Rightarrow> oauth_registry option" where
  "oauth_default_registry U =
     fold (\<lambda>p reg. snd (registry_add (Some p) reg))
       [github_provider U, gitlab_provider U, bitbucket_provider U, slack_provider U, atlassian_provider U, jira_provider U] (Some [])"

section \<open>The handler\<close>

record ('s, 'p, 'w, 'k, 'u) start_handler =
  sh_access :: "('s, 'p, 'w, 'k) access"
  sh_endpoint :: string
  sh_registry :: "oauth_registry option"
  sh_urls :: "'u url_lib"
  sh_print :: "jval \<Rightarrow> string"
  sh_random :: string

datatype http_answer =
    HttpFail int string
  | HttpRedirect string
  | HttpJson "(string \<times> string) list"

definition lookup_instance_config ::
  "('s, 'p, 'w, 'k) access \<Rightarrow> ctx \<Rightarrow> string \<Rightarrow> string \<Rightarrow> ('s, 'p, 'w) access_state \<Rightarrow>
     provider_config option \<times> ('s, 'p, 'w) access_state" where
  "lookup_instance_config A c provider key st =
     (case cached_config A c provider key st of
        (Some cfg, st') \<Rightarrow> (Some cfg, st')
      | (None, st') \<Rightarrow>
          (case stored_config A c provider key (Inl (Error ''not found'')) st' of
             Inl err \<Rightarrow> (None, st')
           | Inr cfg \<Rightarrow> (Some cfg, st')))"

definition start_config ::
  "('s, 'p, 'w, 'k) access \<Rightarrow> ctx \<Rightarrow> string \<Rightarrow> string \<Rightarrow> ('s, 'p, 'w) access_state \<Rightarrow>
     (provider_config \<times> string) \<times> ('s, 'p, 'w) access_state" where
  "start_config A c provider key0 st =
     (let fallback = fst (provider_config_for (ac_providers A) provider); key = trim_space key0 in
      if key \<noteq> [] then
        (case lookup_instance_config A c provider key st of
           (Some cfg, st') \<Rightarrow> ((cfg, key), st')
         | (None, st') \<Rightarrow>
             (case lookup_instance_config A background provider key st' of
                (Some cfg, st'') \<Rightarrow> ((cfg, key), st'')
              | (None, st'') \<Rightarrow> ((fallback, key), st'')))
      else
        (case (case ac_instances A of None \<Rightarrow> Inl (Error ''no store'') | Some ops \<Rightarrow> po_list ops c provider (as_instances st)) of
           Inr [r] \<Rightarrow>
             (case provider_config_from_record (ac_parse A) r of
                Inr cfg \<Rightarrow> ((cfg, pi_key r), st)
              | Inl err \<Rightarrow> ((fallback, []), st))
         | _ \<Rightarrow> ((fallback, []), st)))"

definition start_serve ::
  "('s, 'p, 'w, 'k, 'u) start_handler \<Rightarrow> ctx \<Rightarrow> oauth_request \<Rightarrow> ('s, 'p, 'w) access_state \<Rightarrow>
     http_answer \<times> ('s, 'p, 'w) access_state" where
  "start_serve H c r st =
     (if oq_path r \<noteq> ''/'' then (HttpFail 404 ''404 page not found'', st)
      else if oq_method r \<noteq> ''GET'' then (HttpFail 405 ''method not allowed'', st)
      else
        let provider = normalize_provider_name (oq_query r ''provider'') in
        if provider = [] then (HttpFail 400 ''missing provider'', st)
        else
          let s = trim_space (oq_query r ''state''); s = (if s = [] then sh_random H else s);
              tenant = trim_space (oq_query r ''tenant_id''); key = trim_space (oq_query r ''instance'')
          in case start_config (sh_access H) (with_tenant c tenant) provider key st of
               ((cfg, resolved), st') \<Rightarrow>
                 (case oauth_registry_provider provider
                     (case sh_registry H of None \<Rightarrow> oauth_default_registry (sh_urls H) | Some m \<Rightarrow> Some m) of
                    None \<Rightarrow> (HttpFail 400 ''unsupported provider'', st')
                  | Some plugin \<Rightarrow>
                      (case op_authorize_url plugin r cfg
                          (encode_state (sh_print H) s tenant (if resolved \<noteq> [] then resolved else key)) (sh_endpoint H) of
                         Inl err \<Rightarrow> (HttpFail 400 (error_text err), st')
                       | Inr target \<Rightarrow> (HttpRedirect target, st'))))"

section \<open>The state comes back\<close>

lemma state_names:
  "equal_fold ''state'' ''state''" "equal_fold ''tenant_id'' ''tenant_id''" "equal_fold ''instance_key'' ''instance_key''"
  "\<not> equal_fold ''state'' ''tenant_id''" "\<not> equal_fold ''state'' ''instance_key''" "\<not> equal_fold ''tenant_id'' ''state''"
  "\<not> equal_fold ''tenant_id'' ''instance_key''" "\<not> equal_fold ''instance_key'' ''state''" "\<not> equal_fold ''instance_key'' ''tenant_id''"
  by code_simp+

lemma read_state_json: "read_state (state_json p) = Some p"
  by (cases p) (simp add: read_state_def state_json_def jstr_def state_names)



section \<open>The registry\<close>

definition registry_ok :: "oauth_registry \<Rightarrow> bool" where
  "registry_ok m \<longleftrightarrow> wf_map m \<and> list_all (\<lambda>(k, p). k = registry_key (op_name p) \<and> k \<noteq> []) m"


definition plain_urls :: "string url_lib" where
  "plain_urls = \<lparr>ul_parse = Inr, ul_query = (\<lambda>u. []), ul_string = (\<lambda>u. u), ul_with_query = (\<lambda>u q. u @ ''?'' @ q)\<rparr>"


end
