(* ===== verification/Oauth_Callback.thy ===== *)
theory Oauth_Callback
  imports Oauth_Start Namespace_Sync
begin

text \<open>
  What happens when a provider sends a user back: \<^verbatim>\<open>pkg/oauth/handler.go\<close>, \<^verbatim>\<open>handler_helpers.go\<close> and the handlers
  of the providers. A handler answers the request and leaves the stores, the cache and the world; the sync of
  the repositories, which the code starts in a goroutine, is a job that \<open>run_sync_job\<close> runs. The clock readings
  of a call are \<open>clk 0\<close>, \<open>clk 1\<close>, ...; log lines are left out.
\<close>

section \<open>The handler\<close>

text \<open>\<open>oh_url_host\<close> is the host of a URL, \<open>oh_show\<close> the \<^verbatim>\<open>%v\<close> verb on a decoded value.\<close>

record ('s, 'p, 'w, 'k, 'u) oauth_handler =
  oh_provider :: string
  oh_config :: provider_config
  oh_access :: "('s, 'p, 'w, 'k) access"
  oh_has_namespaces :: bool
  oh_urls :: "'u url_lib"
  oh_url_host :: "string \<Rightarrow> string option"
  oh_show :: "jval \<Rightarrow> string"
  oh_redirect_base :: string
  oh_endpoint :: string

datatype sync_job =
    GithubJob provider_config string string string string
  | GitlabJob provider_config string string string string string
  | BitbucketJob provider_config string string string string string

type_synonym ('s, 'p, 'w) callback_result = "http_answer \<times> sync_job option \<times> ('s, 'p, 'w) access_state"

definition redirect_or_json :: "('s, 'p, 'w, 'k, 'u) oauth_handler \<Rightarrow> (string \<times> string) list \<Rightarrow> string \<Rightarrow> http_answer" where
  "redirect_or_json H params instance_redirect =
     (let redirect = trim_space instance_redirect;
          redirect = (if redirect = [] then trim_space (oh_redirect_base H) else redirect)
      in if redirect = [] then HttpJson params
         else case url_with (oh_urls H) redirect (filter (\<lambda>(k, v). v \<noteq> []) params) of
                Inl err \<Rightarrow> HttpJson params
              | Inr target \<Rightarrow> HttpRedirect target)"

section \<open>The instance\<close>

definition provider_config_json :: "(jval \<Rightarrow> string) \<Rightarrow> provider_config \<Rightarrow> string" where
  "provider_config_json print cfg = trim_space (print (marshal_provider_config (cfg\<lparr>pc_key := []\<rparr>)))"

definition hex_digit :: "char \<Rightarrow> bool" where
  "hex_digit c \<longleftrightarrow> (let n = (of_char c :: nat) in (48 \<le> n \<and> n \<le> 57) \<or> (65 \<le> n \<and> n \<le> 70) \<or> (97 \<le> n \<and> n \<le> 102))"

definition is_instance_hash :: "string \<Rightarrow> bool" where
  "is_instance_hash s = (let v = trim_space s in length v = 64 \<and> list_all hex_digit v)"

text \<open>The one instance with a generated key that has the given configuration, if there is just one.\<close>

definition match_config_record ::
  "json_parser \<Rightarrow> (jval \<Rightarrow> string) \<Rightarrow> instance_record list \<Rightarrow> provider_config \<Rightarrow> instance_record option" where
  "match_config_record parse print rs cfg =
     (case filter (\<lambda>r. normalize_provider_config_json parse print (pi_config_json r) = Some (provider_config_json print cfg) \<and>
            is_instance_hash (pi_key r)) rs of
        [r] \<Rightarrow> Some r
      | _ \<Rightarrow> None)"

definition instance_of_record ::
  "json_parser \<Rightarrow> instance_record \<Rightarrow> provider_config \<times> string \<times> string \<Rightarrow> provider_config \<times> string \<times> string" where
  "instance_of_record parse r absent =
     (case provider_config_from_record parse r of
        Inl err \<Rightarrow> absent
      | Inr cfg \<Rightarrow> (cfg, pi_key r, pi_redirect_base_url r))"

definition find_instance ::
  "('s, 'p, 'w, 'k) access \<Rightarrow> ctx \<Rightarrow> string \<Rightarrow> string \<Rightarrow> 'p \<Rightarrow> instance_record option" where
  "find_instance A c provider key s =
     (case ac_instances A of
        None \<Rightarrow> None
      | Some ops \<Rightarrow> (case po_get ops c provider key s of Inr (Some r) \<Rightarrow> Some r | _ \<Rightarrow> None))"

text \<open>The cache does not have the URL to redirect to.\<close>

definition redirect_of :: "instance_record option \<Rightarrow> string" where
  "redirect_of found = (case found of None \<Rightarrow> [] | Some r \<Rightarrow> pi_redirect_base_url r)"

definition only_instance ::
  "('s, 'p, 'w, 'k) access \<Rightarrow> ctx \<Rightarrow> string \<Rightarrow> provider_config \<Rightarrow> 'p \<Rightarrow> provider_config \<times> string \<times> string" where
  "only_instance A c provider fallback s =
     (case ac_instances A of
        None \<Rightarrow> (fallback, [], [])
      | Some ops \<Rightarrow>
          (case po_list ops c provider s of
             Inl err \<Rightarrow> (fallback, [], [])
           | Inr [] \<Rightarrow> (fallback, [], [])
           | Inr [r] \<Rightarrow> instance_of_record (ac_parse A) r (fallback, [], [])
           | Inr rs \<Rightarrow>
               (case match_config_record (ac_parse A) (wb_print (ac_web A)) rs fallback of
                  None \<Rightarrow> (fallback, [], [])
                | Some r \<Rightarrow> instance_of_record (ac_parse A) r (fallback, [], []))))"

definition stored_instance ::
  "('s, 'p, 'w, 'k) access \<Rightarrow> ctx \<Rightarrow> string \<Rightarrow> string \<Rightarrow> provider_config \<Rightarrow> 'p \<Rightarrow> provider_config \<times> string \<times> string" where
  "stored_instance A c provider key fallback s =
     (case (case find_instance A c provider key s of None \<Rightarrow> find_instance A background provider key s | Some r \<Rightarrow> Some r) of
        None \<Rightarrow> (fallback, key, [])
      | Some r \<Rightarrow>
          (case provider_config_from_record (ac_parse A) r of
             Inl err \<Rightarrow> (fallback, key, [])
           | Inr cfg \<Rightarrow> (cfg, key, pi_redirect_base_url r)))"

definition resolve_instance_config ::
  "('s, 'p, 'w, 'k) access \<Rightarrow> ctx \<Rightarrow> string \<Rightarrow> string \<Rightarrow> provider_config \<Rightarrow> ('s, 'p, 'w) access_state \<Rightarrow>
     (provider_config \<times> string \<times> string) \<times> ('s, 'p, 'w) access_state" where
  "resolve_instance_config A c provider0 key0 fallback st =
     (let provider = trim_space provider0; key = trim_space key0 in
      if as_cache st = None \<and> ac_instances A = None then ((fallback, key, []), st)
      else if key = [] then (only_instance A c provider fallback (as_instances st), st)
      else case cached_config A c provider key st of
             (Some cfg, st') \<Rightarrow> ((cfg, key, redirect_of (find_instance A c provider key (as_instances st'))), st')
           | (None, st') \<Rightarrow>
               (case cached_config A background provider key st' of
                  (Some cfg, st'') \<Rightarrow> ((cfg, key, redirect_of (find_instance A background provider key (as_instances st''))), st'')
                | (None, st'') \<Rightarrow> (stored_instance A c provider key fallback (as_instances st''), st'')))"

section \<open>Other installations of the account\<close>

fun best_installation :: "string \<Rightarrow> install_record list \<Rightarrow> string \<times> gtime \<Rightarrow> string" where
  "best_installation key [] best = fst best"
| "best_installation key (r # rs) best =
     best_installation key rs
       (if (key \<noteq> [] \<and> in_instance_key r \<noteq> key) \<or> in_installation_id r = [] then best
        else if fst best = [] \<or> snd best < in_updated_at r then (in_installation_id r, in_updated_at r) else best)"

definition existing_installation_id ::
  "'s install_ops option \<Rightarrow> ctx \<Rightarrow> string \<Rightarrow> string \<Rightarrow> string \<Rightarrow> 's \<Rightarrow> string" where
  "existing_installation_id store c provider0 account0 key0 s =
     (case store of
        None \<Rightarrow> []
      | Some ops \<Rightarrow>
          (let provider = trim_space provider0; account = trim_space account0; key = trim_space key0 in
           if provider = [] \<or> account = [] then []
           else case io_list ops c provider account s of
                  Inl err \<Rightarrow> []
                | Inr rs \<Rightarrow> best_installation key rs ([], 0)))"

definition superseded :: "string \<Rightarrow> string \<Rightarrow> install_record \<Rightarrow> bool" where
  "superseded key keep r \<longleftrightarrow>
     \<not> (in_installation_id r = [] \<or> in_installation_id r = keep) \<and>
     \<not> (key \<noteq> [] \<and> in_instance_key r \<noteq> [] \<and> in_instance_key r \<noteq> key)"

fun dedupe_each :: "'s install_ops \<Rightarrow> ctx \<Rightarrow> string \<Rightarrow> string \<Rightarrow> string \<Rightarrow> string \<Rightarrow> install_record list \<Rightarrow> 's \<Rightarrow> 's" where
  "dedupe_each ops c provider account key keep [] s = s"
| "dedupe_each ops c provider account key keep (r # rs) s =
     dedupe_each ops c provider account key keep rs
       (if superseded key keep r then snd (io_delete ops c provider account (in_installation_id r) (in_instance_key r) s) else s)"

definition dedupe_installations ::
  "'s install_ops \<Rightarrow> ctx \<Rightarrow> string \<Rightarrow> string \<Rightarrow> string \<Rightarrow> string \<Rightarrow> 's \<Rightarrow> 's" where
  "dedupe_installations ops c provider0 account0 key0 keep0 s =
     (let provider = trim_space provider0; account = trim_space account0; keep = trim_space keep0; key = trim_space key0 in
      if provider = [] \<or> account = [] \<or> keep = [] then s
      else case io_list ops c provider account s of
             Inl err \<Rightarrow> s
           | Inr rs \<Rightarrow> dedupe_each ops c provider account key keep rs s)"

text \<open>Storing an installation, then removing what it supersedes, even if storing it failed.\<close>

definition save_installation ::
  "'s install_ops \<Rightarrow> ctx \<Rightarrow> gtime \<times> gtime \<Rightarrow> install_record \<Rightarrow> 's \<Rightarrow> bool \<times> 's" where
  "save_installation ops c clk r s =
     (case io_upsert ops c clk r s of
        (err, s') \<Rightarrow>
          (err = None,
           dedupe_installations ops c (in_provider r) (in_account_id r) (in_instance_key r) (in_installation_id r) s'))"

definition oauth_record ::
  "string \<Rightarrow> string \<Rightarrow> string \<Rightarrow> string \<Rightarrow> string \<Rightarrow> string \<Rightarrow> oauth_token \<Rightarrow> string \<Rightarrow> install_record" where
  "oauth_record tenant provider account name installation key t metadata =
     \<lparr>in_id = [], in_tenant = tenant, in_provider = provider, in_account_id = account, in_account_name = name,
      in_installation_id = installation, in_instance_key = key, in_enterprise_id = [], in_enterprise_slug = [],
      in_enterprise_name = [], in_access_token = ot_access t, in_refresh_token = ot_refresh t, in_expires_at = ot_expires_at t,
      in_metadata_json = metadata, in_created_at = 0, in_updated_at = 0\<rparr>"

definition oauth_params :: "string \<Rightarrow> string \<Rightarrow> string \<Rightarrow> string \<Rightarrow> (string \<times> string) list" where
  "oauth_params provider account name warning =
     [(''provider'', provider), (''account_id'', account), (''account_name'', name), (''warning'', warning)]"

definition no_client :: "provider_config \<Rightarrow> bool" where
  "no_client cfg \<longleftrightarrow> client_id (pc_oauth cfg) = [] \<or> client_secret (pc_oauth cfg) = []"

definition callback_fail :: "int \<Rightarrow> string \<Rightarrow> ('s, 'p, 'w) access_state \<Rightarrow> ('s, 'p, 'w) callback_result" where
  "callback_fail status msg st = (HttpFail status msg, None, st)"

section \<open>GitHub\<close>

definition resolve_github_account ::
  "'w web \<Rightarrow> 'k key_lib \<Rightarrow> gtime \<Rightarrow> provider_config \<Rightarrow> string \<Rightarrow> 'w \<Rightarrow> (string \<times> string) res \<times> 'w" where
  "resolve_github_account W K now cfg installation w =
     (if app_id (pc_app cfg) = 0 \<or> (private_key_path (pc_app cfg) = [] \<and> private_key_pem (pc_app cfg) = []) \<or> installation = [] then
        (Inl (Error ''github app config missing''), w)
      else case atoi installation of
             None \<Rightarrow> (Inl (Error ''strconv.ParseInt: invalid syntax''), w)
           | Some i \<Rightarrow> fetch_installation_account W K now (github_app_of cfg) i w)"

definition account_or_none :: "(string \<times> string) res \<Rightarrow> string \<times> string" where
  "account_or_none r = (case r of Inl err \<Rightarrow> ([], []) | Inr a \<Rightarrow> a)"

definition zero_token :: oauth_token where
  "zero_token =
     \<lparr>ot_access = [], ot_refresh = [], ot_expires_in = 0, ot_type = [], ot_scope = [], ot_created_at = 0, ot_expires_at = None\<rparr>"

definition with_enterprise_of :: "install_record option res \<Rightarrow> install_record \<Rightarrow> install_record" where
  "with_enterprise_of found r =
     (case found of
        Inr (Some x) \<Rightarrow> r\<lparr>in_enterprise_id := in_enterprise_id x, in_enterprise_slug := in_enterprise_slug x,
          in_enterprise_name := in_enterprise_name x\<rparr>
      | _ \<Rightarrow> r)"

definition finish_github ::
  "('s, 'p, 'w, 'k, 'u) oauth_handler \<Rightarrow> (nat \<Rightarrow> gtime) \<Rightarrow> ctx \<Rightarrow> string \<Rightarrow> string \<Rightarrow> string \<Rightarrow>
     provider_config \<times> string \<times> string \<Rightarrow> oauth_token \<Rightarrow> ('s, 'p, 'w) access_state \<Rightarrow> ('s, 'p, 'w) callback_result" where
  "finish_github H clk c tenant installation code inst t st =
     (case inst of (cfg, key, redirect) \<Rightarrow>
      case resolve_github_account (ac_web (oh_access H)) (ac_keys (oh_access H)) (clk 1) cfg installation (as_world st) of
        (found, w) \<Rightarrow>
          (let (account, name) = account_or_none found;
               r0 = oauth_record tenant ''github'' account name installation key t (metadata_json (ac_web (oh_access H)) t);
               (warning, s') =
                 (case ac_store (oh_access H) of
                    None \<Rightarrow> ([], as_installs st)
                  | Some ops \<Rightarrow>
                      (let s = as_installs st; r = with_enterprise_of (io_by_id ops c ''github'' installation s) r0;
                           again = (installation = existing_installation_id (Some ops) c ''github'' account key s \<and> code = [])
                       in case save_installation ops c (clk 2, clk 3) r s of
                            (stored, s') \<Rightarrow>
                              (if \<not> stored then ''install record not saved'' else if again then ''already installed'' else [], s')))
           in (redirect_or_json H (oauth_params ''github'' account name warning @ [(''installation_id'', installation)]) redirect,
               if oh_has_namespaces H then Some (GithubJob cfg installation account key tenant) else None,
               st\<lparr>as_world := w, as_installs := s'\<rparr>)))"

definition handle_github ::
  "('s, 'p, 'w, 'k, 'u) oauth_handler \<Rightarrow> (nat \<Rightarrow> gtime) \<Rightarrow> ctx \<Rightarrow> provider_config \<Rightarrow> oauth_request \<Rightarrow>
     ('s, 'p, 'w) access_state \<Rightarrow> ('s, 'p, 'w) callback_result" where
  "handle_github H clk c0 cfg0 r st0 =
     (let sv = decode_state (ac_parse (oh_access H)) (oq_query r ''state''); installation = oq_query r ''installation_id'';
          code = oq_query r ''code'' in
      if installation = [] then callback_fail 400 ''missing installation_id'' st0
      else
        let c = with_tenant c0 (os_tenant sv) in
        case resolve_instance_config (oh_access H) c ''github'' (os_instance sv) cfg0 st0 of
          ((cfg, key, redirect), st) \<Rightarrow>
            if code = [] then finish_github H clk c (os_tenant sv) installation code (cfg, key, redirect) zero_token st
            else if no_client cfg then callback_fail 500 ''oauth client config missing'' st
            else (case exchange_github_token (ac_web (oh_access H)) (clk 0) cfg code (callback_url r ''github'' (oh_endpoint H)) (as_world st) of
                    (Inl err, w) \<Rightarrow> callback_fail 400 ''token exchange failed'' (st\<lparr>as_world := w\<rparr>)
                  | (Inr t, w) \<Rightarrow>
                      finish_github H clk c (os_tenant sv) installation code (cfg, key, redirect) t (st\<lparr>as_world := w\<rparr>)))"

section \<open>GitLab and Bitbucket\<close>

text \<open>
  The two handlers differ in the provider, the exchange, the lookup of the account and the job. They store the
  installation without an identifier.
\<close>

definition finish_token ::
  "('s, 'p, 'w, 'k, 'u) oauth_handler \<Rightarrow> (nat \<Rightarrow> gtime) \<Rightarrow> ctx \<Rightarrow> string \<Rightarrow> string \<Rightarrow> sync_job \<Rightarrow> string \<Rightarrow> string \<Rightarrow>
     string \<times> string \<Rightarrow> oauth_token \<Rightarrow> ('s, 'p, 'w) access_state \<Rightarrow> ('s, 'p, 'w) callback_result" where
  "finish_token H clk c tenant provider job key redirect acc t st =
     (case acc of (account, name) \<Rightarrow>
      let r = oauth_record tenant provider account name [] key t (metadata_json (ac_web (oh_access H)) t);
          (warning, s') =
            (case ac_store (oh_access H) of
               None \<Rightarrow> ([], as_installs st)
             | Some ops \<Rightarrow>
                 (let again = existing_installation_id (Some ops) c provider account key (as_installs st) \<noteq> []
                  in case save_installation ops c (clk 2, clk 3) r (as_installs st) of
                       (stored, s') \<Rightarrow>
                         (if \<not> stored then ''install record not saved'' else if again then ''already installed'' else [], s')))
      in (redirect_or_json H (oauth_params provider account name warning) redirect,
          if oh_has_namespaces H then Some job else None, st\<lparr>as_installs := s'\<rparr>))"

definition handle_gitlab ::
  "('s, 'p, 'w, 'k, 'u) oauth_handler \<Rightarrow> (nat \<Rightarrow> gtime) \<Rightarrow> ctx \<Rightarrow> provider_config \<Rightarrow> oauth_request \<Rightarrow>
     ('s, 'p, 'w) access_state \<Rightarrow> ('s, 'p, 'w) callback_result" where
  "handle_gitlab H clk c0 cfg0 r st0 =
     (let sv = decode_state (ac_parse (oh_access H)) (oq_query r ''state''); code = oq_query r ''code'' in
      if code = [] then callback_fail 400 ''missing code'' st0
      else
        let c = with_tenant c0 (os_tenant sv) in
        case resolve_instance_config (oh_access H) c ''gitlab'' (os_instance sv) cfg0 st0 of
          ((cfg, key, redirect), st) \<Rightarrow>
            if no_client cfg then callback_fail 500 ''oauth client config missing'' st
            else (case exchange_gitlab_token (ac_web (oh_access H)) (clk 0) cfg code (callback_url r ''gitlab'' (oh_endpoint H)) (as_world st) of
                    (Inl err, w) \<Rightarrow> callback_fail 400 ''token exchange failed'' (st\<lparr>as_world := w\<rparr>)
                  | (Inr t, w) \<Rightarrow>
                      (case resolve_gitlab_account (ac_web (oh_access H)) cfg (ot_access t) w of
                         (found, w') \<Rightarrow>
                           (let acc = account_or_none found in
                            finish_token H clk c (os_tenant sv) ''gitlab''
                              (GitlabJob cfg (ot_access t) (fst acc) [] key (os_tenant sv)) key redirect acc t (st\<lparr>as_world := w'\<rparr>)))))"

definition handle_bitbucket ::
  "('s, 'p, 'w, 'k, 'u) oauth_handler \<Rightarrow> (nat \<Rightarrow> gtime) \<Rightarrow> ctx \<Rightarrow> provider_config \<Rightarrow> oauth_request \<Rightarrow>
     ('s, 'p, 'w) access_state \<Rightarrow> ('s, 'p, 'w) callback_result" where
  "handle_bitbucket H clk c0 cfg0 r st0 =
     (let sv = decode_state (ac_parse (oh_access H)) (oq_query r ''state''); code = oq_query r ''code'' in
      if code = [] then callback_fail 400 ''missing code'' st0
      else
        let c = with_tenant c0 (os_tenant sv) in
        case resolve_instance_config (oh_access H) c ''bitbucket'' (os_instance sv) cfg0 st0 of
          ((cfg, key, redirect), st) \<Rightarrow>
            if no_client cfg then callback_fail 500 ''oauth client config missing'' st
            else (case exchange_bitbucket_token (ac_web (oh_access H)) (clk 0) cfg code (callback_url r ''bitbucket'' (oh_endpoint H)) (as_world st) of
                    (Inl err, w) \<Rightarrow> callback_fail 400 ''token exchange failed'' (st\<lparr>as_world := w\<rparr>)
                  | (Inr t, w) \<Rightarrow>
                      (case resolve_bitbucket_account (ac_web (oh_access H)) cfg (ot_access t) w of
                         (found, w') \<Rightarrow>
                           (let acc = account_or_none found in
                            finish_token H clk c (os_tenant sv) ''bitbucket''
                              (BitbucketJob cfg (ot_access t) (fst acc) [] key (os_tenant sv)) key redirect acc t (st\<lparr>as_world := w'\<rparr>)))))"

section \<open>Slack\<close>

definition finish_slack ::
  "('s, 'p, 'w, 'k, 'u) oauth_handler \<Rightarrow> (nat \<Rightarrow> gtime) \<Rightarrow> ctx \<Rightarrow> string \<Rightarrow> string \<Rightarrow> string \<Rightarrow>
     oauth_token \<times> string \<times> string \<times> string \<Rightarrow> ('s, 'p, 'w) access_state \<Rightarrow> ('s, 'p, 'w) callback_result" where
  "finish_slack H clk c tenant key redirect reply st =
     (case reply of (t, account, name, metadata) \<Rightarrow>
      let known = existing_installation_id (ac_store (oh_access H)) c ''slack'' account key (as_installs st);
          installation = (if known = [] then account else known);
          r = oauth_record tenant ''slack'' account name installation key t metadata;
          (warning, s') =
            (case ac_store (oh_access H) of
               None \<Rightarrow> ([], as_installs st)
             | Some ops \<Rightarrow>
                 (case save_installation ops c (clk 2, clk 3) r (as_installs st) of
                    (stored, s') \<Rightarrow> (if stored then [] else ''install record not saved'', s')))
      in (redirect_or_json H (oauth_params ''slack'' account name warning @ [(''installation_id'', installation)]) redirect,
          None, st\<lparr>as_installs := s'\<rparr>))"

definition handle_slack ::
  "('s, 'p, 'w, 'k, 'u) oauth_handler \<Rightarrow> (nat \<Rightarrow> gtime) \<Rightarrow> ctx \<Rightarrow> provider_config \<Rightarrow> oauth_request \<Rightarrow>
     ('s, 'p, 'w) access_state \<Rightarrow> ('s, 'p, 'w) callback_result" where
  "handle_slack H clk c0 cfg0 r st0 =
     (let sv = decode_state (ac_parse (oh_access H)) (oq_query r ''state''); code = oq_query r ''code'' in
      if code = [] then callback_fail 400 ''missing code'' st0
      else
        let c = with_tenant c0 (os_tenant sv) in
        case resolve_instance_config (oh_access H) c ''slack'' (os_instance sv) cfg0 st0 of
          ((cfg, key, redirect), st) \<Rightarrow>
            if no_client cfg then callback_fail 500 ''oauth client config missing'' st
            else (case exchange_slack_token (ac_web (oh_access H)) (clk 0) cfg code (callback_url r ''slack'' (oh_endpoint H)) (as_world st) of
                    (Inl err, w) \<Rightarrow> callback_fail 400 ''token exchange failed'' (st\<lparr>as_world := w\<rparr>)
                  | (Inr reply, w) \<Rightarrow> finish_slack H clk c (os_tenant sv) key redirect reply (st\<lparr>as_world := w\<rparr>)))"

section \<open>Atlassian\<close>

definition atlassian_webhook_url :: "oauth_request \<Rightarrow> string \<Rightarrow> string \<Rightarrow> string" where
  "atlassian_webhook_url r endpoint path0 =
     (let b = trim_slash (trim_space endpoint); b = (if b = [] then request_base r else b);
          path = trim_space path0; path = (if path = [] then ''/webhooks/atlassian'' else path);
          path = (if starts_with ''/'' path then path else ''/'' @ path)
      in if b = [] then [] else b @ path)"

text \<open>A JSON object as a map: of several members with one name the last one counts.\<close>

definition object_of :: "jval \<Rightarrow> jval gmap option" where
  "object_of v =
     (case v of JNull \<Rightarrow> Some [] | JObj ms \<Rightarrow> Some (fold (\<lambda>(k, x). mput k x) ms []) | _ \<Rightarrow> None)"

definition atlassian_json_post ::
  "'w web \<Rightarrow> json_parser \<Rightarrow> string \<Rightarrow> string \<Rightarrow> jval \<Rightarrow> 'w \<Rightarrow> jval gmap res \<times> 'w" where
  "atlassian_json_post W parse token endpoint payload w =
     then_web (wb_do W \<lparr>ht_method = ''POST'', ht_url = endpoint,
         ht_headers = [bearer token, json_content, (''Accept'', ''application/json'')], ht_body = wb_print W payload\<rparr> w)
       (\<lambda>r w.
          let body = take 8192 (hr_body r) in
          if \<not> success_status (hr_status r) then
            (Inl (Error (''atlassian webhook register failed: '' @ hr_status_text r @ '' body='' @ trim_space body)), w)
          else if trim_space body = [] then (Inr [], w)
          else (case unmarshal parse object_of body of None \<Rightarrow> Inl decode_error | Some m \<Rightarrow> Inr m, w))"

definition extract_webhook_ids :: "(jval \<Rightarrow> string) \<Rightarrow> jval gmap \<Rightarrow> string list" where
  "extract_webhook_ids show_value payload =
     filter (\<lambda>i. i \<noteq> [])
       ((case mget payload ''id'' of None \<Rightarrow> [] | Some JNull \<Rightarrow> [] | Some v \<Rightarrow> [trim_space (show_value v)]) @
        (case mget payload ''ids'' of
           Some (JArr vs) \<Rightarrow> filter (\<lambda>i. i \<noteq> []) (map (\<lambda>v. trim_space (show_value v)) vs)
         | _ \<Rightarrow> []))"

definition webhook_payload :: "string list \<Rightarrow> string \<Rightarrow> string \<Rightarrow> jval" where
  "webhook_payload events url secret =
     JObj ([(''events'', JArr (map JStr events)), (''name'', JStr ''relaymesh-atlassian'')] @
       (if secret \<noteq> [] then [(''secret'', JStr secret)] else []) @ [(''url'', JStr url)])"

definition register_jira_webhooks ::
  "'w web \<Rightarrow> json_parser \<Rightarrow> (jval \<Rightarrow> string) \<Rightarrow> string \<Rightarrow> string \<Rightarrow> string \<Rightarrow> string \<Rightarrow> 'w \<Rightarrow> string list res \<times> 'w" where
  "register_jira_webhooks W parse show_value token site0 url secret w =
     (let site = trim_slash (trim_space site0) in
      if site = [] then (Inl (Error ''jira site url missing''), w)
      else then_web (atlassian_json_post W parse token (site @ ''/rest/webhooks/1.0/webhook'')
               (webhook_payload [''jira:issue_created'', ''jira:issue_updated'', ''comment_created'', ''comment_updated''] url secret) w)
             (\<lambda>m w. (Inr (extract_webhook_ids show_value m), w)))"

definition register_confluence_webhooks ::
  "'w web \<Rightarrow> json_parser \<Rightarrow> (jval \<Rightarrow> string) \<Rightarrow> string \<Rightarrow> string \<Rightarrow> string \<Rightarrow> string \<Rightarrow> 'w \<Rightarrow> string list res \<times> 'w" where
  "register_confluence_webhooks W parse show_value token site0 url secret w =
     (let site = trim_slash (trim_space site0) in
      if site = [] then (Inl (Error ''confluence site url missing''), w)
      else then_web (atlassian_json_post W parse token (site @ ''/wiki/rest/webhooks/1.0/webhook'')
               (webhook_payload [''page_created'', ''page_updated'', ''page_removed''] url secret) w)
             (\<lambda>m w. (Inr (extract_webhook_ids show_value m), w)))"

definition registered_ids :: "string \<Rightarrow> string list res \<Rightarrow> (string \<times> jval) list" where
  "registered_ids name r = (case r of Inl err \<Rightarrow> [] | Inr ids \<Rightarrow> if ids = [] then [] else [(name, JArr (map JStr ids))])"

definition register_warning :: "string \<Rightarrow> 'a res \<Rightarrow> string list" where
  "register_warning what r = (case r of Inl err \<Rightarrow> [what @ '' webhook registration failed''] | Inr x \<Rightarrow> [])"

definition auto_register_webhooks ::
  "('s, 'p, 'w, 'k, 'u) oauth_handler \<Rightarrow> oauth_request \<Rightarrow> provider_config \<Rightarrow> string \<Rightarrow> jira_resource \<Rightarrow> 'w \<Rightarrow>
     ((string \<times> jval) list \<times> string) \<times> 'w" where
  "auto_register_webhooks H r cfg token resource w =
     (let W = ac_web (oh_access H); parse = ac_parse (oh_access H);
          url = atlassian_webhook_url r (oh_endpoint H) (wh_path (pc_webhook cfg)); secret = trim_space (wh_secret (pc_webhook cfg)) in
      if trim_space token = [] then (([], []), w)
      else if url = [] then (([], ''webhook auto-register skipped (public webhook url missing)''), w)
      else
        case register_jira_webhooks W parse (oh_show H) token (jr_url resource) url secret w of
          (jira, w1) \<Rightarrow>
            (case register_confluence_webhooks W parse (oh_show H) token (jr_url resource) url secret w1 of
               (confluence, w2) \<Rightarrow>
                 (let meta = registered_ids ''jira_webhook_ids'' jira @ registered_ids ''confluence_webhook_ids'' confluence;
                      meta = (if meta = [] then [] else meta @ [(''webhook_url'', JStr url)])
                  in ((meta, join_str ''; '' (register_warning ''jira'' jira @ register_warning ''confluence'' confluence)), w2))))"

text \<open>The base is metadata that was printed before, so it is not null; \<^verbatim>\<open>json.Marshal\<close> sorts the keys of a map.\<close>

definition merge_metadata_json ::
  "json_parser \<Rightarrow> (jval \<Rightarrow> string) \<Rightarrow> string \<Rightarrow> (string \<times> jval) list \<Rightarrow> string" where
  "merge_metadata_json parse print b extra =
     (let merged = (if trim_space b = [] then [] else case unmarshal parse object_of b of None \<Rightarrow> [] | Some m \<Rightarrow> m)
      in print (JObj (sort_slice (\<lambda>x y. fst x < fst y) (fold (\<lambda>(k, v). mput k v) extra merged))))"

definition finish_jira ::
  "('s, 'p, 'w, 'k, 'u) oauth_handler \<Rightarrow> (nat \<Rightarrow> gtime) \<Rightarrow> ctx \<Rightarrow> string \<Rightarrow> string \<Rightarrow> string \<Rightarrow> provider_config \<Rightarrow> oauth_request \<Rightarrow>
     oauth_token \<times> jira_resource \<times> string \<Rightarrow> ('s, 'p, 'w) access_state \<Rightarrow> ('s, 'p, 'w) callback_result" where
  "finish_jira H clk c tenant key redirect cfg r reply st =
     (case reply of (t, resource, metadata0) \<Rightarrow>
      let host = trim_space (jr_site_host resource); cloud = trim_space (jr_cloud_id resource);
          account = (if host = [] then cloud else host) in
      if account = [] then callback_fail 400 ''jira account resolution failed'' st
      else
        let installation = (if cloud = [] then account else cloud) in
        case auto_register_webhooks H r cfg (ot_access t) resource (as_world st) of
          ((meta, hook_warning), w) \<Rightarrow>
            (let metadata = (if meta = [] then metadata0
                   else merge_metadata_json (ac_parse (oh_access H)) (wb_print (ac_web (oh_access H))) metadata0 meta);
                 record = oauth_record tenant ''atlassian'' account (jr_name resource) installation key t metadata;
                 (warning, s') =
                   (case ac_store (oh_access H) of
                      None \<Rightarrow> (hook_warning, as_installs st)
                    | Some ops \<Rightarrow>
                        (case save_installation ops c (clk 2, clk 3) record (as_installs st) of
                           (stored, s') \<Rightarrow>
                             (if stored then hook_warning
                              else if hook_warning = [] then ''install record not saved''
                              else hook_warning @ ''; install record not saved'', s')))
             in (redirect_or_json H (oauth_params ''atlassian'' account (jr_name resource) warning @ [(''installation_id'', installation)])
                   redirect, None, st\<lparr>as_world := w, as_installs := s'\<rparr>)))"

definition handle_jira ::
  "('s, 'p, 'w, 'k, 'u) oauth_handler \<Rightarrow> (nat \<Rightarrow> gtime) \<Rightarrow> ctx \<Rightarrow> provider_config \<Rightarrow> oauth_request \<Rightarrow>
     ('s, 'p, 'w) access_state \<Rightarrow> ('s, 'p, 'w) callback_result" where
  "handle_jira H clk c0 cfg0 r st0 =
     (let sv = decode_state (ac_parse (oh_access H)) (oq_query r ''state''); code = oq_query r ''code'' in
      if code = [] then callback_fail 400 ''missing code'' st0
      else
        let c = with_tenant c0 (os_tenant sv) in
        case resolve_instance_config (oh_access H) c ''atlassian'' (os_instance sv) cfg0 st0 of
          ((cfg, key, redirect), st) \<Rightarrow>
            if no_client cfg then callback_fail 500 ''oauth client config missing'' st
            else (case exchange_jira_token (ac_web (oh_access H)) (oh_url_host H) (clk 0) cfg code
                     (callback_url r ''atlassian'' (oh_endpoint H)) (as_world st) of
                    (Inl err, w) \<Rightarrow> callback_fail 400 ''token exchange failed'' (st\<lparr>as_world := w\<rparr>)
                  | (Inr reply, w) \<Rightarrow> finish_jira H clk c (os_tenant sv) key redirect cfg r reply (st\<lparr>as_world := w\<rparr>)))"

section \<open>Any provider\<close>

definition config_for_path :: "auth_providers \<Rightarrow> string \<Rightarrow> provider_config \<Rightarrow> provider_config" where
  "config_for_path P provider cfg =
     (if provider = ''github'' then ap_github P
      else if provider = ''gitlab'' then ap_gitlab P
      else if provider = ''bitbucket'' then ap_bitbucket P
      else if provider = ''slack'' then ap_slack P
      else if provider = ''atlassian'' then ap_atlassian P
      else if provider = ''jira'' then
        (case provider_config_for P ''atlassian'' of (found, ok) \<Rightarrow> if ok then found else ap_jira P)
      else cfg)"

definition callback_serve ::
  "('s, 'p, 'w, 'k, 'u) oauth_handler \<Rightarrow> (nat \<Rightarrow> gtime) \<Rightarrow> ctx \<Rightarrow> oauth_request \<Rightarrow>
     ('s, 'p, 'w) access_state \<Rightarrow> ('s, 'p, 'w) callback_result" where
  "callback_serve H clk c r st =
     (if oq_method r \<noteq> ''GET'' then callback_fail 405 ''method not allowed'' st
      else
        let provider = (if oh_provider H = [] then provider_from_path (oq_path r) else oh_provider H);
            cfg = (if oh_provider H = [] then config_for_path (ac_providers (oh_access H)) provider (oh_config H) else oh_config H)
        in if provider = ''gitlab'' then handle_gitlab H clk c cfg r st
           else if provider = ''bitbucket'' then handle_bitbucket H clk c cfg r st
           else if provider = ''github'' then handle_github H clk c cfg r st
           else if provider = ''slack'' then handle_slack H clk c cfg r st
           else if provider = ''atlassian'' \<or> provider = ''jira'' then handle_jira H clk c cfg r st
           else callback_fail 400 ''unsupported provider'' st)"

text \<open>A provider's handler, from a handler that has the options.\<close>

definition new_oauth_handler ::
  "oauth_provider \<Rightarrow> provider_config \<Rightarrow> ('s, 'p, 'w, 'k, 'u) oauth_handler \<Rightarrow> ('s, 'p, 'w, 'k, 'u) oauth_handler" where
  "new_oauth_handler p cfg options = options\<lparr>oh_provider := op_handles p, oh_config := cfg\<rparr>"

text \<open>The goroutine; its error is only logged.\<close>

definition run_sync_job ::
  "('g, 'w) github_lists \<Rightarrow> 'w web \<Rightarrow> 'n namespace_ops \<Rightarrow> (nat \<Rightarrow> gtime \<times> gtime) \<Rightarrow> sync_job \<Rightarrow> 'n \<Rightarrow> 'w \<Rightarrow>
     (go_error option \<times> 'n \<times> 'w) option" where
  "run_sync_job G W ops clk job s w =
     (case job of
        GithubJob cfg installation account key tenant \<Rightarrow>
          sync_github_namespaces G (Some ops) (with_tenant background tenant) clk cfg installation account key s w
      | GitlabJob cfg token account installation key tenant \<Rightarrow>
          sync_gitlab_namespaces W (Some ops) (with_tenant background tenant) clk cfg token account installation key s w
      | BitbucketJob cfg token account installation key tenant \<Rightarrow>
          sync_bitbucket_namespaces W (Some ops) (with_tenant background tenant) clk cfg token account installation key s w)"

end
