(* ===== verification/Oauth_Guarantees.thy ===== *)
theory Oauth_Guarantees
  imports Oauth_Callback
begin

text \<open>
  What an OAuth callback leaves in the table of installations: it stores in the tenant named by the state and
  nowhere else, and of the installations of an account it keeps one.
\<close>

section \<open>Deleting in the database\<close>

lemma sql_deleted:
  assumes "io_delete (sql_installs install_table sha) c p a i k s = (err, s')"
  shows "set s' \<subseteq> set s" "install_rows_ok s \<Longrightarrow> install_rows_ok s'"
    "y \<in> set s \<Longrightarrow> y \<notin> set s' \<Longrightarrow> in_provider y = trim_space p \<and> in_account_id y = trim_space a \<and>
       in_installation_id y = trim_space i \<and> tenant_visible c (in_tenant y)"
  using assms
  by (auto simp: sql_installs_def sql_delete_installation_def Let_def table_db_def install_rows_ok_def distinct_map_filter
      tenant_visible_def install_schema_def install_text_def tenant_cond_def split: if_splits)

lemma sql_dedupe_each:
  fixes sha :: "string \<Rightarrow> string"
  defines "ops \<equiv> sql_installs install_table sha"
  shows "set (dedupe_each ops c p a k keep rs s) \<subseteq> set s"
    "install_rows_ok s \<Longrightarrow> install_rows_ok (dedupe_each ops c p a k keep rs s)"
    "y \<in> set s \<Longrightarrow> y \<notin> set (dedupe_each ops c p a k keep rs s) \<Longrightarrow>
       in_provider y = trim_space p \<and> in_account_id y = trim_space a \<and> tenant_visible c (in_tenant y) \<and>
       (\<exists>r \<in> set rs. superseded k keep r \<and> in_installation_id y = trim_space (in_installation_id r))"
proof -
  have step: "\<exists>err. io_delete ops c p a i x s = (err, snd (io_delete ops c p a i x s))" for i x s by (metis prod.collapse)
  show "set (dedupe_each ops c p a k keep rs s) \<subseteq> set s"
  proof (induction rs arbitrary: s)
    case (Cons r rs)
    obtain s1 err where s1: "io_delete ops c p a (in_installation_id r) (in_instance_key r) s = (err, s1)" by (metis surj_pair)
    from sql_deleted(1) [OF s1 [unfolded ops_def]] Cons.IH [of s] Cons.IH [of s1] show ?case by (simp add: s1) blast
  qed simp
  show "install_rows_ok s \<Longrightarrow> install_rows_ok (dedupe_each ops c p a k keep rs s)"
  proof (induction rs arbitrary: s)
    case (Cons r rs)
    obtain s1 err where s1: "io_delete ops c p a (in_installation_id r) (in_instance_key r) s = (err, s1)" by (metis surj_pair)
    from sql_deleted(2) [OF s1 [unfolded ops_def] Cons.prems] Cons.IH [of s] Cons.IH [of s1] Cons.prems show ?case by (simp add: s1)
  qed simp
  show "y \<in> set s \<Longrightarrow> y \<notin> set (dedupe_each ops c p a k keep rs s) \<Longrightarrow>
       in_provider y = trim_space p \<and> in_account_id y = trim_space a \<and> tenant_visible c (in_tenant y) \<and>
       (\<exists>r \<in> set rs. superseded k keep r \<and> in_installation_id y = trim_space (in_installation_id r))"
  proof (induction rs arbitrary: s)
    case (Cons r rs)
    obtain s1 err where s1: "io_delete ops c p a (in_installation_id r) (in_instance_key r) s = (err, s1)" by (metis surj_pair)
    show ?case
    proof (cases "superseded k keep r \<and> y \<notin> set s1")
      case True
      with sql_deleted(3) [OF s1 [unfolded ops_def] Cons.prems(1)] show ?thesis by simp
    next
      case False
      with Cons.IH [of s] Cons.IH [of s1] Cons.prems show ?thesis by (auto simp: s1 split: if_splits)
    qed
  qed simp
qed

text \<open>What is superseded is gone, where identifiers and keys have no white space around them.\<close>

lemma sql_dedupe_gone:
  assumes "list_all (\<lambda>r. trimmed (in_installation_id r) \<and> trimmed (in_instance_key r)) rs" "trim_space p = p" "trim_space a = a" "p \<noteq> []" "a \<noteq> []"
    and "y \<in> set rs" "superseded k keep y" "in_provider y = p" "in_account_id y = a" "tenant_visible c (in_tenant y)"
  shows "y \<notin> set (dedupe_each (sql_installs install_table sha) c p a k keep rs s)"
  using assms(1,6)
proof (induction rs arbitrary: s)
  case (Cons r rs)
  let ?ops = "sql_installs install_table sha"
  show ?case
  proof (cases "r = y")
    case True
    have i: "trim_space (in_installation_id y) = in_installation_id y" "trim_space (in_instance_key y) = in_instance_key y"
        "in_installation_id y \<noteq> []"
      using Cons.prems(1) True assms(7) by (simp_all add: trim_space_trimmed superseded_def)
    have "y \<notin> set (snd (io_delete ?ops c p a (in_installation_id y) (in_instance_key y) s))"
      using assms(2-5,8-10) i
      by (auto simp: sql_installs_def sql_delete_installation_def Let_def table_db_def tenant_visible_def install_schema_def
          install_text_def tenant_cond_def)
    with sql_dedupe_each(1) [of sha c p a k keep rs "snd (io_delete ?ops c p a (in_installation_id y) (in_instance_key y) s)"] True assms(7)
    show ?thesis by auto
  next
    case False
    with Cons show ?thesis by simp
  qed
qed simp

section \<open>Storing an installation\<close>

lemma sql_upsert_fails:
  "io_upsert (sql_installs install_table sha) c clk r s = (Some err, s') \<Longrightarrow> s' = s"
  by (auto simp: sql_installs_def sql_upsert_installation_def Let_def table_db_def create_row_def
      split: if_splits sum.splits prod.splits)

lemma sql_upsert_others:
  assumes "install_rows_ok s" "io_upsert (sql_installs install_table sha) c clk r s = (err, s')"
    and "install_identity y \<noteq> install_identity (in_context c r)"
  shows "install_rows_ok s' \<and> (y \<in> set s' \<longleftrightarrow> y \<in> set s)"
  using assms sql_installation_upserted [OF assms(1), of sha c clk r s'] sql_upsert_fails [of sha c clk r s _ s']
  by (cases err) auto

lemma dedupe_installations_cases:
  obtains "dedupe_installations ops c p a k keep s = s" "trim_space p = [] \<or> trim_space a = [] \<or> trim_space keep = [] \<or>
      (\<exists>err. io_list ops c (trim_space p) (trim_space a) s = Inl err)"
  | rs where "io_list ops c (trim_space p) (trim_space a) s = Inr rs" "trim_space p \<noteq> []" "trim_space a \<noteq> []" "trim_space keep \<noteq> []"
      "dedupe_installations ops c p a k keep s = dedupe_each ops c (trim_space p) (trim_space a) (trim_space k) (trim_space keep) rs s"
  unfolding dedupe_installations_def Let_def
  by (cases "io_list ops c (trim_space p) (trim_space a) s";
      cases "trim_space p = [] \<or> trim_space a = [] \<or> trim_space keep = []") auto

text \<open>Rows of other tenants, and of other accounts, stay as they are.\<close>

lemma save_installation_others:
  assumes "install_rows_ok s" "save_installation (sql_installs install_table sha) c clk r s = (stored, s')"
    and "install_identity y \<noteq> install_identity (in_context c r)" "\<not> tenant_visible c (in_tenant y)"
  shows "install_rows_ok s' \<and> (y \<in> set s' \<longleftrightarrow> y \<in> set s)"
proof -
  let ?ops = "sql_installs install_table sha"
  obtain err s1 where s1: "io_upsert ?ops c clk r s = (err, s1)" by (metis surj_pair)
  from sql_upsert_others [OF assms(1) s1 assms(3)] have a: "install_rows_ok s1" "y \<in> set s1 \<longleftrightarrow> y \<in> set s" by auto
  from assms(2) s1 have s': "s' = dedupe_installations ?ops c (in_provider r) (in_account_id r) (in_instance_key r) (in_installation_id r) s1"
    by (simp add: save_installation_def)
  show ?thesis
  proof (cases rule: dedupe_installations_cases [of ?ops c "in_provider r" "in_account_id r" "in_instance_key r" "in_installation_id r" s1])
    case 1
    with a show ?thesis unfolding s' by simp
  next
    case (2 rs)
    from sql_dedupe_each [where sha = sha and c = c and p = "trim_space (in_provider r)" and a = "trim_space (in_account_id r)"
        and k = "trim_space (in_instance_key r)" and keep = "trim_space (in_installation_id r)" and rs = rs and s = s1] a assms(4)
    show ?thesis unfolding s' 2(5) by blast
  qed
qed

text \<open>
  C15: When a callback has stored an installation, the table has it, with its tokens; and whether or not storing
  it succeeded, no other installation identifier is left for this account and instance: what the tenant sees
  of the account has this identifier, or none, or belongs to another instance. This needs texts without
  white space around them and an identifier; the callbacks of GitLab and Bitbucket have none.
\<close>

theorem saved_installation_supersedes:
  assumes "install_rows_ok s" "list_all (\<lambda>x. trimmed (in_installation_id x) \<and> trimmed (in_instance_key x)) s"
    and "list_all trimmed [in_provider r, in_account_id r, in_installation_id r, in_instance_key r]"
    and "in_provider r \<noteq> []" "in_account_id r \<noteq> []" "in_installation_id r \<noteq> []"
    and "save_installation (sql_installs install_table sha) c clk r s = (stored, s')"
  shows "(stored \<longrightarrow> (\<exists>x \<in> set s'. install_content x = install_content (in_context c r))) \<and>
    (\<forall>y \<in> set s'. in_provider y = in_provider r \<and> in_account_id y = in_account_id r \<and> tenant_visible c (in_tenant y) \<longrightarrow>
       in_installation_id y \<in> {[], in_installation_id r} \<or>
       in_instance_key r \<noteq> [] \<and> in_instance_key y \<noteq> [] \<and> in_instance_key y \<noteq> in_instance_key r)"
proof -
  let ?ops = "sql_installs install_table sha" and ?gone = "superseded (in_instance_key r) (in_installation_id r)"
  obtain err s1 where s1: "io_upsert ?ops c clk r s = (err, s1)" by (metis surj_pair)
  have t: "trim_space (in_provider r) = in_provider r" "trim_space (in_account_id r) = in_account_id r"
      "trim_space (in_installation_id r) = in_installation_id r" "trim_space (in_instance_key r) = in_instance_key r"
    using assms(3) by (simp_all add: trim_space_trimmed)
  from assms(7) s1 have s': "stored = (err = None)"
      "s' = dedupe_installations ?ops c (in_provider r) (in_account_id r) (in_instance_key r) (in_installation_id r) s1"
    by (simp_all add: save_installation_def)
  have ok: "install_rows_ok s1" "err = None \<Longrightarrow> \<exists>x \<in> set s1. install_content x = install_content (in_context c r)"
    using sql_installation_upserted [OF assms(1), of sha c clk r s1] sql_upsert_fails [of sha c clk r s _ s1] s1 assms(1)
    by (cases err; auto)+
  have row: "trimmed (in_installation_id x) \<and> trimmed (in_instance_key x)" if x: "x \<in> set s1" for x
  proof (cases "x \<in> set s")
    case True
    with assms(2) show ?thesis by (simp add: list_all_iff)
  next
    case False
    with sql_upsert_others [OF assms(1) s1, of x] x have "install_identity x = install_identity (in_context c r)" by blast
    with assms(3) show ?thesis by (simp add: install_identity_def in_context_def split: if_splits)
  qed
  from isql.list_law [OF ok(1), of sha c "in_provider r" "in_account_id r"] obtain rs where
    rs: "io_list ?ops c (in_provider r) (in_account_id r) s1 = Inr rs"
      "set rs = {x \<in> set s1. in_provider x = in_provider r \<and> in_account_id x = in_account_id r \<and> tenant_visible c (in_tenant x)}"
    using assms(5) by (auto simp: field_matches_def)
  have s'_eq: "s' = dedupe_each ?ops c (in_provider r) (in_account_id r) (in_instance_key r) (in_installation_id r) rs s1"
    unfolding s'(2) dedupe_installations_def using rs(1) assms(4-6) by (simp add: t Let_def)
  note dedupe = sql_dedupe_each [where sha = sha and c = c and p = "in_provider r" and a = "in_account_id r"
      and k = "in_instance_key r" and keep = "in_installation_id r" and rs = rs and s = s1, folded s'_eq]
  have "\<exists>x \<in> set s'. install_content x = install_content (in_context c r)" if err: "err = None"
  proof -
    from ok(2) [OF err] obtain x where x: "x \<in> set s1" "install_content x = install_content (in_context c r)" by blast
    have "in_installation_id x = in_installation_id r"
      using install_content_fields(4) [OF x(2)] by (simp add: in_context_def split: if_splits)
    moreover have "trim_space (in_installation_id q) = in_installation_id q" if "q \<in> set rs" for q
      using row [of q] that rs(2) by (simp add: trim_space_trimmed)
    ultimately have "x \<in> set s'" using dedupe(3) [OF x(1)] by (cases "x \<in> set s'") (auto simp: superseded_def)
    with x(2) show ?thesis by blast
  qed
  moreover have "\<not> ?gone y"
    if y: "y \<in> set s'" "in_provider y = in_provider r" "in_account_id y = in_account_id r" "tenant_visible c (in_tenant y)" for y
  proof
    assume gone: "?gone y"
    from y dedupe(1) rs(2) have "y \<in> set rs" by blast
    moreover have "list_all (\<lambda>x. trimmed (in_installation_id x) \<and> trimmed (in_instance_key x)) rs"
      using row rs(2) by (auto simp: list_all_iff)
    ultimately have "y \<notin> set s'"
      unfolding s'_eq using sql_dedupe_gone [OF _ t(1,2) assms(4,5) _ gone y(2-4)] by blast
    with y(1) show False by blast
  qed
  ultimately show ?thesis unfolding s'(1) superseded_def by blast
qed

section \<open>A callback touches one tenant\<close>

definition saves_in :: "('s, 'p, 'w, 'k, 'u) oauth_handler \<Rightarrow> ctx \<Rightarrow> string \<Rightarrow> 's \<Rightarrow> 's \<Rightarrow> bool" where
  "saves_in H c tenant s s' \<longleftrightarrow>
     s' = s \<or> (\<exists>ops clk r stored. ac_store (oh_access H) = Some ops \<and>
       save_installation ops (with_tenant c tenant) clk r s = (stored, s') \<and> in_tenant r = tenant)"

lemma saves_in_refl: "saves_in H c tenant s s"
  by (simp add: saves_in_def)

lemma saves_in_I:
  "ac_store (oh_access H) = Some ops \<Longrightarrow> save_installation ops (with_tenant c tenant) clk r s = (stored, s') \<Longrightarrow> in_tenant r = tenant \<Longrightarrow>
     saves_in H c tenant s s'"
  unfolding saves_in_def by blast

lemma cached_config_installs: "cached_config A c provider key st = (x, st') \<Longrightarrow> as_installs st' = as_installs st"
  by (auto simp: cached_config_def split: option.splits prod.splits sum.splits bool.splits)

lemma resolve_instance_installs: "resolve_instance_config A c provider key cfg st = (x, st') \<Longrightarrow> as_installs st' = as_installs st"
  by (auto simp: resolve_instance_config_def Let_def dest!: cached_config_installs split: if_splits option.splits prod.splits)

lemma callback_fail_installs: "callback_fail status msg st = (answer, job, st') \<Longrightarrow> as_installs st' = as_installs st"
  by (simp add: callback_fail_def)

lemma oauth_record_tenant: "in_tenant (oauth_record tenant provider account name installation key t metadata) = tenant"
  by (simp add: oauth_record_def)

lemma enterprise_tenant: "in_tenant (with_enterprise_of found r) = in_tenant r"
  by (simp add: with_enterprise_of_def split: sum.split option.split)

lemma finish_saves:
  "finish_github H clk (with_tenant c tenant) tenant installation code inst t st = (answer, job, st') \<Longrightarrow>
     saves_in H c tenant (as_installs st) (as_installs st')"
  "finish_token H clk (with_tenant c tenant) tenant provider sync key redirect acc t st = (answer, job, st') \<Longrightarrow>
     saves_in H c tenant (as_installs st) (as_installs st')"
  "finish_slack H clk (with_tenant c tenant) tenant key redirect reply st = (answer, job, st') \<Longrightarrow>
     saves_in H c tenant (as_installs st) (as_installs st')"
  "finish_jira H clk (with_tenant c tenant) tenant key redirect cfg r full st = (answer, job, st') \<Longrightarrow>
     saves_in H c tenant (as_installs st) (as_installs st')"
     apply (auto simp: finish_github_def Let_def oauth_record_tenant enterprise_tenant intro: saves_in_refl saves_in_I
       split: prod.splits option.splits)[1]
    apply (auto simp: finish_token_def Let_def oauth_record_tenant intro: saves_in_refl saves_in_I split: prod.splits option.splits)[1]
   apply (auto simp: finish_slack_def Let_def oauth_record_tenant intro: saves_in_refl saves_in_I split: prod.splits option.splits)[1]
  apply (auto simp: finish_jira_def Let_def oauth_record_tenant dest!: callback_fail_installs intro: saves_in_refl saves_in_I
      split: if_splits prod.splits option.splits)[1]
  done

text \<open>The tenant a request to a callback names.\<close>

definition state_tenant :: "('s, 'p, 'w, 'k, 'u) oauth_handler \<Rightarrow> oauth_request \<Rightarrow> string" where
  "state_tenant H r = os_tenant (decode_state (ac_parse (oh_access H)) (oq_query r ''state''))"

lemma access_world_installs: "as_installs (st\<lparr>as_world := w\<rparr>) = as_installs st"
  by simp

lemma handle_github_saves:
  assumes "handle_github H clk c cfg r st = (answer, job, st')"
  shows "saves_in H c (state_tenant H r) (as_installs st) (as_installs st')"
  using assms unfolding handle_github_def Let_def state_tenant_def [symmetric]
  by (auto dest!: resolve_instance_installs callback_fail_installs finish_saves intro: saves_in_refl split: if_splits prod.splits sum.splits)

lemma handle_gitlab_saves:
  assumes "handle_gitlab H clk c cfg r st = (answer, job, st')"
  shows "saves_in H c (state_tenant H r) (as_installs st) (as_installs st')"
  using assms unfolding handle_gitlab_def Let_def state_tenant_def [symmetric]
  by (auto dest!: resolve_instance_installs callback_fail_installs finish_saves intro: saves_in_refl split: if_splits prod.splits sum.splits)

lemma handle_bitbucket_saves:
  assumes "handle_bitbucket H clk c cfg r st = (answer, job, st')"
  shows "saves_in H c (state_tenant H r) (as_installs st) (as_installs st')"
  using assms unfolding handle_bitbucket_def Let_def state_tenant_def [symmetric]
  by (auto dest!: resolve_instance_installs callback_fail_installs finish_saves intro: saves_in_refl split: if_splits prod.splits sum.splits)

lemma handle_slack_saves:
  assumes "handle_slack H clk c cfg r st = (answer, job, st')"
  shows "saves_in H c (state_tenant H r) (as_installs st) (as_installs st')"
  using assms unfolding handle_slack_def Let_def state_tenant_def [symmetric]
  by (auto dest!: resolve_instance_installs callback_fail_installs finish_saves intro: saves_in_refl split: if_splits prod.splits sum.splits)

lemma handle_jira_saves:
  assumes "handle_jira H clk c cfg r st = (answer, job, st')"
  shows "saves_in H c (state_tenant H r) (as_installs st) (as_installs st')"
  using assms unfolding handle_jira_def Let_def state_tenant_def [symmetric]
  by (auto dest!: resolve_instance_installs callback_fail_installs finish_saves intro: saves_in_refl split: if_splits prod.splits sum.splits)

lemmas handler_saves = handle_github_saves handle_gitlab_saves handle_bitbucket_saves handle_slack_saves handle_jira_saves

lemma callback_saves:
  assumes "callback_serve H clk c r st = (answer, job, st')"
  shows "saves_in H c (state_tenant H r) (as_installs st) (as_installs st')"
  using assms unfolding callback_serve_def Let_def
  by (auto dest!: handler_saves callback_fail_installs intro: saves_in_refl split: if_splits)


definition slack_install :: "string \<Rightarrow> install_record" where
  "slack_install installation = oauth_record ''acme'' ''slack'' ''T1'' ''team'' installation [] zero_token []"

theorem saved_installation_supersedes_witness:
  "\<exists>stored s'. save_installation (sql_installs install_table (\<lambda>s. s)) (with_tenant background ''acme'') (7, 7) (slack_install ''T1'') [slack_install ''old'']
      = (stored, s') \<and> slack_install ''old'' \<notin> set s'"
proof -
  let ?c = "with_tenant background ''acme''"
  obtain stored s' where save: "save_installation (sql_installs install_table (\<lambda>s. s)) ?c (7, 7) (slack_install ''T1'') [slack_install ''old'']
      = (stored, s')" by (metis surj_pair)
  have sel: "in_provider (slack_install i) = ''slack''" "in_account_id (slack_install i) = ''T1''" "in_installation_id (slack_install i) = i"
      "in_instance_key (slack_install i) = []" "in_tenant (slack_install i) = ''acme''" for i
    by (simp_all add: slack_install_def oauth_record_def)
  have "trim_space ''acme'' = ''acme''" by code_simp
  then have vis: "tenant_visible ?c ''acme''" by (simp add: tenant_visible_def tenant_with_tenant)
  have "trimmed ''old''" "trimmed ''T1''" "trimmed ''slack''" "trimmed []" by code_simp+
  then have "\<forall>y \<in> set s'. in_provider y = ''slack'' \<and> in_account_id y = ''T1'' \<and> tenant_visible ?c (in_tenant y) \<longrightarrow>
      in_installation_id y \<in> {[], ''T1''}"
    using saved_installation_supersedes [OF _ _ _ _ _ _ save] by (simp add: sel install_rows_ok_def)
  with vis have "slack_install ''old'' \<notin> set s'" by (auto simp: sel)
  with save show ?thesis by blast
qed

definition slack_handler :: "(install_record list, instance_mem, unit, string, string) oauth_handler" where
  "slack_handler =
     \<lparr>oh_provider = ''slack'', oh_config = zero_provider_config,
      oh_access = sample_access\<lparr>ac_parse := (\<lambda>raw. Inr (state_json \<lparr>os_state = ''s'', os_tenant = ''beta'', os_instance = []\<rparr>))\<rparr>,
      oh_has_namespaces = False, oh_urls = plain_urls, oh_url_host = (\<lambda>u. None), oh_show = (\<lambda>v. []), oh_redirect_base = [],
      oh_endpoint = []\<rparr>"

definition slack_return :: oauth_request where
  "slack_return =
     \<lparr>oq_path = ''/auth/slack/callback'', oq_method = ''GET'', oq_query = (\<lambda>k. if k = ''state'' then ''e30'' else ''code''),
      oq_header = (\<lambda>k. []), oq_tls = True, oq_host = ''h''\<rparr>"


end
