(* ===== verification/Api_Access.thy ===== *)
theory Api_Access
  imports Install_Service Webhook_Requests
begin

text \<open>
  Who may call the API and as which tenant: the claims of a token and what the server asks of them
  (\<^verbatim>\<open>pkg/auth/oidc/verifier.go\<close>), the interceptors that every call of a service passes
  (\<^verbatim>\<open>pkg/server/auth_interceptor.go\<close>, \<^verbatim>\<open>tenant_interceptor.go\<close>).

  The OIDC library is a parameter: \<open>ol_verify\<close> checks the signature, the issuer, the audience and the expiry
  of a token, with the keys it may have to fetch, and gives the claims. An interceptor is a function
  from the handler it wraps to a handler, as in the code. The state has two parts, the network that the
  library uses and the state of the services, which only the handler can change.
\<close>

section \<open>Claims\<close>

record oidc_claims =
  cl_subject :: string
  cl_issuer :: string
  cl_audience :: "string list"
  cl_scope :: string
  cl_scopes :: "string list"
  cl_roles :: "string list"
  cl_groups :: "string list"
  cl_tenant :: string

text \<open>A string in a list of strings; null leaves it empty.\<close>

fun string_item :: "jval \<Rightarrow> string option" where
  "string_item (JStr s) = Some s"
| "string_item JNull = Some []"
| "string_item _ = None"

text \<open>The audience is one string or a list of strings.\<close>

fun read_audience :: "jval \<Rightarrow> string list option" where
  "read_audience JNull = Some []"
| "read_audience (JStr s) = Some (if trim_space s = [] then [] else [s])"
| "read_audience (JArr vs) = those (map string_item vs)"
| "read_audience _ = None"

fun last_audience :: "string list \<Rightarrow> jval list \<Rightarrow> string list option" where
  "last_audience z [] = Some z"
| "last_audience z (v # vs) = Option.bind (read_audience v) (\<lambda>x. last_audience x vs)"

definition read_claims :: "jval \<Rightarrow> oidc_claims option" where
  "read_claims v = do {
     subject \<leftarrow> jstr [''sub''] v; issuer \<leftarrow> jstr [''iss''] v;
     audience \<leftarrow> Option.bind (jreach [''aud''] v) (last_audience []);
     scope \<leftarrow> jstr [''scope''] v; scopes \<leftarrow> jslice [''scp''] string_item v;
     roles \<leftarrow> jslice [''roles''] string_item v; groups \<leftarrow> jslice [''groups''] string_item v;
     tenant \<leftarrow> jstr [''tenant_id''] v;
     Some \<lparr>cl_subject = subject, cl_issuer = issuer, cl_audience = audience, cl_scope = scope, cl_scopes = scopes,
       cl_roles = roles, cl_groups = groups, cl_tenant = tenant\<rparr> }"

section \<open>The verifier\<close>

type_synonym 'w token_check = "string \<Rightarrow> 'w \<Rightarrow> jval res \<times> 'w"

record 'w oidc_lib =
  ol_with_keys :: "string \<Rightarrow> string \<Rightarrow> string \<Rightarrow> 'w token_check"
  ol_discovered :: "string \<Rightarrow> string \<Rightarrow> 'w \<Rightarrow> 'w token_check res \<times> 'w"

record 'w verifier =
  vf_issuer :: string
  vf_scopes :: "string list"
  vf_roles :: "string list"
  vf_groups :: "string list"
  vf_check :: "'w token_check option"

definition verifier_for :: "oauth2_config \<Rightarrow> 'w token_check \<Rightarrow> 'w verifier" where
  "verifier_for cfg check =
     \<lparr>vf_issuer = o2_issuer cfg, vf_scopes = o2_required_scopes cfg, vf_roles = o2_required_roles cfg,
      vf_groups = o2_required_groups cfg, vf_check = Some check\<rparr>"

definition new_verifier :: "'w oidc_lib \<Rightarrow> oauth2_config \<Rightarrow> 'w \<Rightarrow> 'w verifier res \<times> 'w" where
  "new_verifier L cfg w =
     (if trim_space (o2_issuer cfg) = [] then (Inl (Error ''issuer is required''), w)
      else if trim_space (o2_audience cfg) = [] then (Inl (Error ''audience is required''), w)
      else if trim_space (o2_jwks_url cfg) \<noteq> [] then
        (Inr (verifier_for cfg (ol_with_keys L (o2_issuer cfg) (o2_jwks_url cfg) (o2_audience cfg))), w)
      else (case ol_discovered L (o2_issuer cfg) (o2_audience cfg) w of
              (Inl err, w') \<Rightarrow> (Inl err, w')
            | (Inr check, w') \<Rightarrow> (Inr (verifier_for cfg check), w')))"

text \<open>\<^verbatim>\<open>strings.Fields\<close>.\<close>

fun first_word :: "string \<Rightarrow> string" where
  "first_word [] = []"
| "first_word (c # s) = (if 0 < lead_len space_encs (c # s) then [] else c # first_word s)"

lemma length_first_word: "length (first_word s) \<le> length s"
  by (induction s) auto

lemma length_strip_lead: "length (strip_lead es s) \<le> length s"
  using suffix_strip_lead by (rule suffix_length_le)

function words :: "string \<Rightarrow> string list" where
  "words s =
     (let t = strip_lead space_encs s in
      if t = [] then [] else first_word t # words (drop (length (first_word t)) t))"
  by auto
termination
proof (relation "measure length", simp, goal_cases)
  case (1 s x)
  have "lead_len space_encs x = 0" unfolding 1(1) by simp
  with 1(2) have "0 < length (first_word x)" by (cases x) auto
  then have "length x - length (first_word x) < length x" using 1(2) by (intro diff_less) auto
  also have "length x \<le> length s" unfolding 1(1) by (rule length_strip_lead)
  finally show ?case by simp
qed

declare words.simps [simp del]

fun missing_value :: "string list \<Rightarrow> string list \<Rightarrow> string option" where
  "missing_value available [] = None"
| "missing_value available (r # rs) = (if r \<in> set available then missing_value available rs else Some r)"

definition granted_scopes :: "oidc_claims \<Rightarrow> string list" where
  "granted_scopes claims =
     (if cl_scope claims = [] then [] else words (cl_scope claims)) @ filter (\<lambda>s. s \<noteq> []) (cl_scopes claims)"

definition validate_scopes :: "oidc_claims \<Rightarrow> string list \<Rightarrow> go_error option" where
  "validate_scopes claims required =
     (case missing_value (granted_scopes claims) required of
        None \<Rightarrow> None | Some s \<Rightarrow> Some (Error (''missing required scope: '' @ s)))"

definition validate_list :: "string list \<Rightarrow> string list \<Rightarrow> string \<Rightarrow> go_error option" where
  "validate_list vals required name =
     (case missing_value (filter (\<lambda>s. s \<noteq> []) vals) required of
        None \<Rightarrow> None | Some s \<Rightarrow> Some (Error (''missing required '' @ name @ '': '' @ s)))"

definition check_claims :: "'w verifier \<Rightarrow> oidc_claims \<Rightarrow> oidc_claims res" where
  "check_claims v claims =
     (case validate_scopes claims (vf_scopes v) of
        Some err \<Rightarrow> Inl err
      | None \<Rightarrow>
          (case validate_list (cl_roles claims) (vf_roles v) ''roles'' of
             Some err \<Rightarrow> Inl err
           | None \<Rightarrow>
               (case validate_list (cl_groups claims) (vf_groups v) ''groups'' of
                  Some err \<Rightarrow> Inl err
                | None \<Rightarrow> Inr claims)))"

definition verify :: "'w verifier option \<Rightarrow> string \<Rightarrow> 'w \<Rightarrow> oidc_claims res \<times> 'w" where
  "verify vo token0 w =
     (case Option.bind vo vf_check of
        None \<Rightarrow> (Inl (Error ''verifier not configured''), w)
      | Some check \<Rightarrow>
          (let token = trim_space token0 in
           if token = [] then (Inl (Error ''token is required''), w)
           else (case check token w of
                   (Inl err, w') \<Rightarrow> (Inl err, w')
                 | (Inr raw, w') \<Rightarrow>
                     (case read_claims raw of
                        None \<Rightarrow> (Inl (Error ''invalid claims''), w')
                      | Some claims \<Rightarrow> (check_claims (the vo) claims, w')))))"

section \<open>The interceptors\<close>

record 'm api_request =
  aq_headers :: "string list gmap"
  aq_msg :: 'm

record call_ctx =
  cc_tenant :: ctx
  cc_claims :: "oidc_claims option"

type_synonym ('m, 'w, 's, 'a) api_handler = "call_ctx \<Rightarrow> 'm api_request \<Rightarrow> 'w \<times> 's \<Rightarrow> 'a rpc \<times> 'w \<times> 's"

definition bearer_token :: "string list gmap \<Rightarrow> string res" where
  "bearer_token header =
     (let raw = trim_space (header_get header ''Authorization'') in
      if raw = [] then Inl (Error ''missing authorization header'')
      else case split2 raw CHR '' '' of
             [scheme, rest] \<Rightarrow>
               if \<not> equal_fold scheme ''bearer'' then Inl (Error ''invalid authorization header'')
               else if trim_space rest = [] then Inl (Error ''missing bearer token'')
               else Inr (trim_space rest)
           | _ \<Rightarrow> Inl (Error ''invalid authorization header''))"

definition auth_interceptor ::
  "'w verifier option \<Rightarrow> ('m, 'w, 's, 'a) api_handler \<Rightarrow> ('m, 'w, 's, 'a) api_handler" where
  "auth_interceptor vo nxt c q ws =
     (if vo = None then nxt c q ws
      else case bearer_token (aq_headers q) of
             Inl err \<Rightarrow> (Inl (CodeUnauthenticated, err), ws)
           | Inr token \<Rightarrow>
               (case verify vo token (fst ws) of
                  (Inl err, w) \<Rightarrow> (Inl (CodeUnauthenticated, err), (w, snd ws))
                | (Inr claims, w) \<Rightarrow> nxt (c\<lparr>cc_claims := Some claims\<rparr>) q (w, snd ws)))"

definition header_tenant :: "string list gmap \<Rightarrow> string" where
  "header_tenant header =
     (let t = trim_space (header_get header ''X-Tenant-Id'') in
      if t \<noteq> [] then t else trim_space (header_get header ''X-Githooks-Tenant-Id''))"

definition tenant_id_from_request :: "bool \<Rightarrow> call_ctx \<Rightarrow> string list gmap \<Rightarrow> string" where
  "tenant_id_from_request allow c header =
     (let t = (case cc_claims c of None \<Rightarrow> [] | Some claims \<Rightarrow> trim_space (cl_tenant claims)) in
      if t \<noteq> [] then t else if \<not> allow then [] else header_tenant header)"

definition tenant_interceptor :: "bool \<Rightarrow> ('m, 'w, 's, 'a) api_handler \<Rightarrow> ('m, 'w, 's, 'a) api_handler" where
  "tenant_interceptor allow nxt c q ws =
     (let t = tenant_id_from_request allow c (aq_headers q) in
      nxt (if t \<noteq> [] then c\<lparr>cc_tenant := with_tenant (cc_tenant c) t\<rparr> else c) q ws)"

text \<open>
  The chain of \<^verbatim>\<open>BuildHandler\<close>: the validation of the message, a parameter, is outermost; the auth
  interceptor is there only when there is a verifier.
\<close>

definition validate_interceptor ::
  "('m \<Rightarrow> go_error option) \<Rightarrow> ('m, 'w, 's, 'a) api_handler \<Rightarrow> ('m, 'w, 's, 'a) api_handler" where
  "validate_interceptor valid nxt c q ws =
     (case valid (aq_msg q) of Some err \<Rightarrow> (Inl (CodeInvalidArgument, err), ws) | None \<Rightarrow> nxt c q ws)"

definition serve_api ::
  "('m \<Rightarrow> go_error option) \<Rightarrow> 'w verifier option \<Rightarrow> bool \<Rightarrow> ('m, 'w, 's, 'a) api_handler \<Rightarrow> ('m, 'w, 's, 'a) api_handler" where
  "serve_api valid vo allow handler =
     validate_interceptor valid
       (if vo = None then tenant_interceptor allow handler else auth_interceptor vo (tenant_interceptor allow handler))"

section \<open>What passes\<close>

lemma missing_value_None: "missing_value available required = None \<longleftrightarrow> set required \<subseteq> set available"
  by (induction required) auto

lemma validate_scopes_None: "validate_scopes claims required = None \<longleftrightarrow> set required \<subseteq> set (granted_scopes claims)"
  by (simp add: validate_scopes_def missing_value_None [symmetric] split: option.split)

lemma validate_list_None: "validate_list vals required name = None \<longleftrightarrow> set required \<subseteq> set vals - {[]}"
proof -
  have v: "set vals - {[]} = set (filter (\<lambda>s. s \<noteq> []) vals)" by auto
  have "validate_list vals required name = None \<longleftrightarrow> missing_value (filter (\<lambda>s. s \<noteq> []) vals) required = None"
    by (simp add: validate_list_def split: option.split)
  then show ?thesis unfolding missing_value_None v .
qed

definition meets :: "'w verifier \<Rightarrow> oidc_claims \<Rightarrow> bool" where
  "meets v claims \<longleftrightarrow>
     set (vf_scopes v) \<subseteq> set (granted_scopes claims) \<and> set (vf_roles v) \<subseteq> set (cl_roles claims) - {[]} \<and>
     set (vf_groups v) \<subseteq> set (cl_groups claims) - {[]}"

lemma check_claims_Inr: "check_claims v claims = Inr x \<longleftrightarrow> x = claims \<and> meets v claims"
proof -
  have "check_claims v claims = Inr x \<longleftrightarrow> x = claims \<and> validate_scopes claims (vf_scopes v) = None \<and>
      validate_list (cl_roles claims) (vf_roles v) ''roles'' = None \<and> validate_list (cl_groups claims) (vf_groups v) ''groups'' = None"
    by (auto simp: check_claims_def split: option.splits)
  then show ?thesis unfolding validate_scopes_None validate_list_None meets_def .
qed

lemma verify_Inr:
  "verify vo token w = (Inr claims, w') \<longleftrightarrow>
     (\<exists>v check raw. vo = Some v \<and> vf_check v = Some check \<and> trim_space token \<noteq> [] \<and>
        check (trim_space token) w = (Inr raw, w') \<and> read_claims raw = Some claims \<and> meets v claims)"
  by (cases vo) (auto simp: verify_def Let_def check_claims_Inr split: option.splits prod.splits sum.splits)


lemma auth_interceptor_accepts:
  "bearer_token (aq_headers q) = Inr token \<Longrightarrow> verify (Some v) token w = (Inr claims, w1) \<Longrightarrow>
     auth_interceptor (Some v) nxt c q (w, s) = nxt (c\<lparr>cc_claims := Some claims\<rparr>) q (w1, s)"
  by (simp add: auth_interceptor_def)

lemma auth_interceptor_refuses:
  "bearer_token (aq_headers q) = Inl err \<Longrightarrow> auth_interceptor (Some v) nxt c q (w, s) = (Inl (CodeUnauthenticated, err), w, s)"
  "bearer_token (aq_headers q) = Inr token \<Longrightarrow> verify (Some v) token w = (Inl err, w1) \<Longrightarrow>
     auth_interceptor (Some v) nxt c q (w, s) = (Inl (CodeUnauthenticated, err), w1, s)"
  by (simp_all add: auth_interceptor_def)

definition tenant_after :: "bool \<Rightarrow> call_ctx \<Rightarrow> string list gmap \<Rightarrow> ctx" where
  "tenant_after allow c header =
     (let t = tenant_id_from_request allow c header in if t \<noteq> [] then with_tenant (cc_tenant c) t else cc_tenant c)"

lemma tenant_interceptor_eq:
  "tenant_interceptor allow nxt c q ws = nxt \<lparr>cc_tenant = tenant_after allow c (aq_headers q), cc_claims = cc_claims c\<rparr> q ws"
  by (cases c) (simp add: tenant_interceptor_def tenant_after_def Let_def)

lemma tenant_after_claims:
  "cc_claims c = Some claims \<Longrightarrow> trim_space (cl_tenant claims) \<noteq> [] \<Longrightarrow>
     tenant_from_context (tenant_after allow c header) = trim_space (cl_tenant claims)"
  "cc_claims c = Some claims \<Longrightarrow> trim_space (cl_tenant claims) = [] \<Longrightarrow> \<not> allow \<Longrightarrow> tenant_after allow c header = cc_tenant c"
  by (simp_all add: tenant_after_def tenant_id_from_request_def tenant_with_tenant)

text \<open>
  C9: When the API has a verifier, a call either runs its handler with the claims of a token that the
  library accepts and that carries every required scope, role and group, as the tenant those claims name,
  or it is refused and the state of the services is as it was: refused as unauthenticated, or, before any
  token is looked at, because its message is not valid.
\<close>

theorem only_authorised_calls_run:
  assumes "serve_api valid (Some v) allow handler c q (w, s) = (answer, w', s')"
  shows "(\<exists>code err. answer = Inl (code, err) \<and> s' = s \<and>
            (code = CodeUnauthenticated \<or> (code = CodeInvalidArgument \<and> valid (aq_msg q) = Some err \<and> w' = w))) \<or>
    (\<exists>token claims w1 check raw.
       valid (aq_msg q) = None \<and> bearer_token (aq_headers q) = Inr token \<and>
       vf_check v = Some check \<and> check (trim_space token) w = (Inr raw, w1) \<and> read_claims raw = Some claims \<and>
       set (vf_scopes v) \<subseteq> set (granted_scopes claims) \<and>
       set (vf_roles v) \<subseteq> set (cl_roles claims) - {[]} \<and> set (vf_groups v) \<subseteq> set (cl_groups claims) - {[]} \<and>
       (\<exists>tenant. handler \<lparr>cc_tenant = tenant, cc_claims = Some claims\<rparr> q (w1, s) = (answer, w', s') \<and>
          (trim_space (cl_tenant claims) \<noteq> [] \<longrightarrow> tenant_from_context tenant = trim_space (cl_tenant claims)) \<and>
          (trim_space (cl_tenant claims) = [] \<and> \<not> allow \<longrightarrow> tenant = cc_tenant c)))"
proof (cases "valid (aq_msg q)")
  case (Some err)
  with assms show ?thesis by (auto simp: serve_api_def validate_interceptor_def)
next
  case None
  with assms have run: "auth_interceptor (Some v) (tenant_interceptor allow handler) c q (w, s) = (answer, w', s')"
    by (simp add: serve_api_def validate_interceptor_def)
  show ?thesis
  proof (cases "bearer_token (aq_headers q)")
    case (Inl err)
    from run show ?thesis unfolding auth_interceptor_refuses(1) [OF Inl] by auto
  next
    case (Inr token)
    obtain res w1 where ver: "verify (Some v) token w = (res, w1)" by (rule prod.exhaust)
    show ?thesis
    proof (cases res)
      case err: (Inl err)
      from run show ?thesis unfolding auth_interceptor_refuses(2) [OF Inr ver [unfolded err]] by auto
    next
      case claims: (Inr claims)
      let ?tenant = "tenant_after allow (c\<lparr>cc_claims := Some claims\<rparr>) (aq_headers q)"
      have h: "handler \<lparr>cc_tenant = ?tenant, cc_claims = Some claims\<rparr> q (w1, s) = (answer, w', s')"
        using run unfolding auth_interceptor_accepts [OF Inr ver [unfolded claims]] tenant_interceptor_eq by simp
      from ver claims obtain check raw where "vf_check v = Some check" "check (trim_space token) w = (Inr raw, w1)"
        "read_claims raw = Some claims" "meets v claims" by (auto simp: verify_Inr)
      with None Inr h show ?thesis
        using tenant_after_claims [of "c\<lparr>cc_claims := Some claims\<rparr>" claims allow "aq_headers q"]
        unfolding meets_def
        by (intro disjI2 exI [of _ token] exI [of _ claims] exI [of _ w1] exI [of _ check] exI [of _ raw]
          conjI exI [of _ ?tenant]) simp_all
    qed
  qed
qed

text \<open>What a token gives, an empty one and one for a tenant.\<close>

definition sample_verifier :: "unit verifier" where
  "sample_verifier = \<lparr>vf_issuer = ''idp'', vf_scopes = [''api''], vf_roles = [], vf_groups = [],
     vf_check = Some (\<lambda>token w. (if token = ''t1'' then Inr (JObj [(''scope'', JStr ''api''), (''tenant_id'', JStr ''acme'')])
       else Inl (Error ''bad token''), w))\<rparr>"

definition sample_call :: "string \<Rightarrow> unit api_request" where
  "sample_call authorization = \<lparr>aq_headers = [(''Authorization'', [authorization])], aq_msg = ()\<rparr>"

definition count_calls :: "(unit, unit, nat, string) api_handler" where
  "count_calls c q ws = (Inr (cc_tenant c), fst ws, Suc (snd ws))"


lemma only_authorised_calls_run_witness:
  "serve_api (\<lambda>m. None) (Some sample_verifier) False count_calls \<lparr>cc_tenant = [], cc_claims = None\<rparr> (sample_call ''Bearer t1'') ((), 0)
     = (Inr ''acme'', (), 1) \<and>
   serve_api (\<lambda>m. None) (Some sample_verifier) False count_calls \<lparr>cc_tenant = [], cc_claims = None\<rparr> (sample_call ''Bearer t2'') ((), 0)
     = (Inl (CodeUnauthenticated, Error ''bad token''), (), 0) \<and>
   (\<exists>token. bearer_token (aq_headers (sample_call ''Bearer t1'')) = Inr token)"
proof -
  let ?run = "\<lambda>h. serve_api (\<lambda>m. None) (Some sample_verifier) False count_calls \<lparr>cc_tenant = [], cc_claims = None\<rparr> (sample_call h) ((), 0)"
  have a: "?run ''Bearer t1'' = (Inr ''acme'', (), 1)" and b: "?run ''Bearer t2'' = (Inl (CodeUnauthenticated, Error ''bad token''), (), 0)"
    by code_simp+
  from only_authorised_calls_run [OF a] a b show ?thesis by auto
qed

section \<open>Calls of the installations service\<close>

definition list_installations_handler ::
  "'s install_ops option \<Rightarrow> (string \<times> string, 'w, 's, install_msg list) api_handler" where
  "list_installations_handler store c q ws =
     (list_installations_rpc store (cc_tenant c) (fst (aq_msg q)) (snd (aq_msg q)) (snd ws), ws)"

lemma list_each_member:
  "list_each ops c ps a s = Inr rs \<Longrightarrow> r \<in> set rs \<Longrightarrow> \<exists>p items. io_list ops c p a s = Inr items \<and> r \<in> set items"
proof (induction ps arbitrary: rs)
  case (Cons q ps)
  then show ?case by (cases "trim_space q = []") (auto simp: bind_res_Inr_iff, blast)
qed simp

lemma list_installations_members:
  assumes "install_rows_ok s" "list_installations_rpc (Some (sql_installs install_table sha)) c account provider s = Inr ms" "m \<in> set ms"
  shows "\<exists>r \<in> set s. m = to_proto_installation r \<and> tenant_visible c (in_tenant r)"
proof -
  from assms(2) obtain rs where rs: "list_each (sql_installs install_table sha) c (asked_providers (normalize_provider_name provider))
      (trim_space account) s = Inr rs" "ms = to_proto_installations rs"
    by (auto simp: list_installations_rpc_def rpc_fail_def split: sum.splits)
  from assms(3) rs(2) obtain r where r: "r \<in> set rs" "m = to_proto_installation r" by (auto simp: to_proto_installations_def)
  from list_each_member [OF rs(1) r(1)] obtain p items where i:
    "io_list (sql_installs install_table sha) c p (trim_space account) s = Inr items" "r \<in> set items" by blast
  with isql.list_law [OF assms(1), of sha c p "trim_space account"] r(2) show ?thesis by auto
qed

text \<open>
  C10: Whoever calls \<^verbatim>\<open>ListInstallations\<close> with a token for a tenant sees installations of that tenant only,
  whatever else the request says: the headers that name a tenant have no effect.
\<close>

theorem listing_stays_in_tenant:
  assumes "install_rows_ok s" "bearer_token (aq_headers q) = Inr token" "verify (Some v) token w = (Inr claims, w1)"
    and "trim_space (cl_tenant claims) \<noteq> []"
    and "serve_api valid (Some v) allow (list_installations_handler (Some (sql_installs install_table sha))) c q (w, s)
      = (Inr ms, w', s')"
    and "m \<in> set ms"
  shows "\<exists>r \<in> set s. m = to_proto_installation r \<and> in_tenant r = trim_space (cl_tenant claims)"
proof -
  let ?c = "c\<lparr>cc_claims := Some claims\<rparr>"
  have "valid (aq_msg q) = None" using assms(5) by (simp add: serve_api_def validate_interceptor_def split: option.splits)
  with assms(5) have "list_installations_rpc (Some (sql_installs install_table sha)) (tenant_after allow ?c (aq_headers q))
      (fst (aq_msg q)) (snd (aq_msg q)) s = Inr ms"
    by (auto simp: serve_api_def validate_interceptor_def auth_interceptor_accepts [OF assms(2,3)] tenant_interceptor_eq
        list_installations_handler_def)
  from list_installations_members [OF assms(1) this assms(6)] obtain r where
    "r \<in> set s" "m = to_proto_installation r" "tenant_visible (tenant_after allow ?c (aq_headers q)) (in_tenant r)" by blast
  with tenant_after_claims(1) [of ?c claims allow "aq_headers q"] assms(4) show ?thesis by (auto simp: tenant_visible_def)
qed

definition tenant_row :: "string \<Rightarrow> string \<Rightarrow> install_record" where
  "tenant_row i tenant = \<lparr>in_id = i, in_tenant = tenant, in_provider = ''gitlab'', in_account_id = ''a'', in_account_name = [],
     in_installation_id = i, in_instance_key = [], in_enterprise_id = [], in_enterprise_slug = [], in_enterprise_name = [],
     in_access_token = [], in_refresh_token = [], in_expires_at = None, in_metadata_json = [], in_created_at = 1, in_updated_at = 1\<rparr>"

definition sample_listing :: "(string \<times> string) api_request" where
  "sample_listing = \<lparr>aq_headers = [(''Authorization'', [''Bearer t1'']), (''X-Tenant-Id'', [''other''])], aq_msg = ([], ''gitlab'')\<rparr>"

lemma listing_stays_in_tenant_witness:
  "serve_api (\<lambda>m. None) (Some sample_verifier) True
     (list_installations_handler (Some (sql_installs install_table (\<lambda>x. x)))) \<lparr>cc_tenant = [], cc_claims = None\<rparr> sample_listing
     ((), [tenant_row ''1'' ''acme'', tenant_row ''2'' ''other'']) =
   (Inr [to_proto_installation (tenant_row ''1'' ''acme'')], (), [tenant_row ''1'' ''acme'', tenant_row ''2'' ''other'']) \<and>
   (\<exists>r \<in> {tenant_row ''1'' ''acme'', tenant_row ''2'' ''other''}.
      to_proto_installation (tenant_row ''1'' ''acme'') = to_proto_installation r \<and> in_tenant r = ''acme'')"
proof -
  let ?s = "[tenant_row ''1'' ''acme'', tenant_row ''2'' ''other'']"
  let ?ops = "Some (sql_installs install_table (\<lambda>x. x))"
  have ok: "install_rows_ok ?s" by code_simp
  have bt: "bearer_token (aq_headers sample_listing) = Inr ''t1''" by code_simp
  have ver: "verify (Some sample_verifier) ''t1'' () = (Inr \<lparr>cl_subject = [], cl_issuer = [], cl_audience = [],
      cl_scope = ''api'', cl_scopes = [], cl_roles = [], cl_groups = [], cl_tenant = ''acme''\<rparr>, ())"
    by code_simp
  have run: "serve_api (\<lambda>m. None) (Some sample_verifier) True (list_installations_handler ?ops)
      \<lparr>cc_tenant = [], cc_claims = None\<rparr> sample_listing ((), ?s) = (Inr [to_proto_installation (tenant_row ''1'' ''acme'')], (), ?s)"
    by code_simp
  have "trim_space ''acme'' = ''acme''" by code_simp
  with listing_stays_in_tenant [OF ok bt ver _ run] run show ?thesis by simp
qed

end
