(* ===== verification/Oidc_Tokens.thy ===== *)
theory Oidc_Tokens
  imports Http_Client
begin

text \<open>
  The client side of OpenID Connect: the discovery of the endpoints of an issuer with its cache
  (\<^verbatim>\<open>pkg/auth/oidc/discovery.go\<close>) and the token for client credentials (\<^verbatim>\<open>token.go\<close>). The network is the
  parameter of \<open>Http_Client\<close>; the clock is read in the order of the code, \<open>clk n\<close> being the n-th reading, and the
  jitter is the random number of seconds the code draws.

  The mutex of the cache is held for the lookup and again for each store, not during the request: these
  are the steps \<open>discover_lookup\<close> and \<open>discover_settle\<close>, between which other calls may run.
\<close>

section \<open>Discovery\<close>

record discovery =
  dc_authorize :: string
  dc_token :: string
  dc_jwks :: string

record discovery_entry =
  de_value :: discovery
  de_expires_at :: gtime
  de_retry_after :: gtime

type_synonym discovery_cache = "discovery_entry gmap"

definition read_discovery :: "jval \<Rightarrow> discovery option" where
  "read_discovery v = do {
     a \<leftarrow> jstr [''authorization_endpoint''] v; t \<leftarrow> jstr [''token_endpoint''] v; j \<leftarrow> jstr [''jwks_uri''] v;
     Some \<lparr>dc_authorize = a, dc_token = t, dc_jwks = j\<rparr> }"

definition issuer_name :: "string \<Rightarrow> string" where
  "issuer_name issuer = trim_slash (trim_space issuer)"

definition nanos_second :: int where "nanos_second = 1000000000"

text \<open>An answer from the cache, or the entry that is too old.\<close>

definition discover_lookup ::
  "(nat \<Rightarrow> gtime) \<Rightarrow> string \<Rightarrow> discovery_cache \<Rightarrow> discovery + discovery_entry option" where
  "discover_lookup clk issuer cache =
     (case mget cache issuer of
        None \<Rightarrow> Inr None
      | Some entry \<Rightarrow>
          (if clk 0 < de_expires_at entry then Inl (de_value entry)
           else if clk 1 < de_retry_after entry then Inl (de_value entry)
           else Inr (Some entry)))"

definition discover_request :: "string \<Rightarrow> http_call" where
  "discover_request issuer =
     \<lparr>ht_method = ''GET'', ht_url = issuer @ ''/.well-known/openid-configuration'', ht_headers = [], ht_body = []\<rparr>"

definition serve_stale ::
  "gtime \<Rightarrow> string \<Rightarrow> discovery_entry option \<Rightarrow> go_error \<Rightarrow> discovery_cache \<Rightarrow> discovery res \<times> discovery_cache" where
  "serve_stale now issuer stale err cache =
     (case stale of
        None \<Rightarrow> (Inl err, cache)
      | Some entry \<Rightarrow>
          (Inr (de_value entry), mput issuer (entry\<lparr>de_retry_after := now + 120 * nanos_second\<rparr>) cache))"

definition discover_settle ::
  "'w web \<Rightarrow> (nat \<Rightarrow> gtime) \<Rightarrow> int \<Rightarrow> string \<Rightarrow> discovery_entry option \<Rightarrow> http_reply res \<Rightarrow> discovery_cache \<Rightarrow>
     discovery res \<times> discovery_cache" where
  "discover_settle W clk jitter issuer stale reply cache =
     (case reply of
        Inl err \<Rightarrow> serve_stale (clk 2) issuer stale err cache
      | Inr r \<Rightarrow>
          (if \<not> success_status (hr_status r) then
             serve_stale (clk 2) issuer stale (Error (''oidc discovery failed: '' @ hr_status_text r)) cache
           else case decode_reply W read_discovery r of
                  Inl err \<Rightarrow> (case stale of None \<Rightarrow> (Inl err, cache) | Some entry \<Rightarrow> (Inr (de_value entry), cache))
                | Inr payload \<Rightarrow>
                    (Inr payload,
                     mput issuer \<lparr>de_value = payload, de_expires_at = clk 2 + (300 + jitter) * nanos_second,
                       de_retry_after = clk 3 + 60 * nanos_second\<rparr> cache)))"

definition discover ::
  "'w web \<Rightarrow> (nat \<Rightarrow> gtime) \<Rightarrow> int \<Rightarrow> string \<Rightarrow> discovery_cache \<Rightarrow> 'w \<Rightarrow> discovery res \<times> discovery_cache \<times> 'w" where
  "discover W clk jitter issuer0 cache w =
     (let issuer = issuer_name issuer0 in
      if issuer = [] then (Inl (Error ''issuer is required''), cache, w)
      else case discover_lookup clk issuer cache of
             Inl d \<Rightarrow> (Inr d, cache, w)
           | Inr stale \<Rightarrow>
               (case wb_do W (discover_request issuer) w of
                  (reply, w') \<Rightarrow>
                    (case discover_settle W clk jitter issuer stale reply cache of (res, cache') \<Rightarrow> (res, cache', w'))))"

section \<open>Endpoints and tokens\<close>

definition or_else :: "string \<Rightarrow> string \<Rightarrow> string" where
  "or_else s t = (if s = [] then t else s)"

definition resolve_endpoints ::
  "'w web \<Rightarrow> (nat \<Rightarrow> gtime) \<Rightarrow> int \<Rightarrow> oauth2_config \<Rightarrow> discovery_cache \<Rightarrow> 'w \<Rightarrow> discovery res \<times> discovery_cache \<times> 'w" where
  "resolve_endpoints W clk jitter cfg cache w =
     (let authorize = trim_space (o2_authorize_url cfg); token = trim_space (o2_token_url cfg);
          jwks = trim_space (o2_jwks_url cfg) in
      if authorize \<noteq> [] \<and> token \<noteq> [] \<and> jwks \<noteq> [] then
        (Inr \<lparr>dc_authorize = authorize, dc_token = token, dc_jwks = jwks\<rparr>, cache, w)
      else if o2_issuer cfg = [] then (Inl (Error ''issuer is required for discovery''), cache, w)
      else case discover W clk jitter (o2_issuer cfg) cache w of
             (Inl err, rest) \<Rightarrow> (Inl err, rest)
           | (Inr d, rest) \<Rightarrow>
               (Inr \<lparr>dc_authorize = or_else authorize (dc_authorize d), dc_token = or_else token (dc_token d),
                  dc_jwks = or_else jwks (dc_jwks d)\<rparr>, rest))"

text \<open>
  What an error says of the body of a failed exchange: without the tokens when the body is an object that
  has other members. \<open>parse\<close> reads a whole text, \<^verbatim>\<open>json.Unmarshal\<close>, and \<open>wb_print\<close> writes the members in the
  order it is given; \<^verbatim>\<open>json.Marshal\<close> sorts the keys of a map.
\<close>

definition json_map :: "(string \<times> jval) list \<Rightarrow> jval gmap" where
  "json_map ms = mput_all ms []"

definition sanitize_json :: "'w web \<Rightarrow> json_parser \<Rightarrow> string \<Rightarrow> string" where
  "sanitize_json W parse raw =
     (case parse raw of
        Inr (JObj ms) \<Rightarrow>
          (let payload = mdel ''id_token'' (mdel ''refresh_token'' (mdel ''access_token'' (json_map ms))) in
           if payload = [] then [] else wb_print W (JObj (sort_slice (\<lambda>a b. fst a < fst b) payload)))
      | _ \<Rightarrow> [])"

definition read_error_body :: "'w web \<Rightarrow> json_parser \<Rightarrow> string \<Rightarrow> string" where
  "read_error_body W parse text =
     (let body = trim_space (take 4096 text) in
      if body = [] then []
      else
        let sanitized = sanitize_json W parse body; body = (if sanitized \<noteq> [] then sanitized else body) in
        replace_byte (replace_byte body (CHR 0x0A) '' '') (CHR 0x0D) '' '')"

record client_token =
  ct_access :: string
  ct_expires_in :: int

definition read_client_token :: "jval \<Rightarrow> client_token option" where
  "read_client_token v = do {
     a \<leftarrow> jstr [''access_token''] v; e \<leftarrow> jint [''expires_in''] v; Some \<lparr>ct_access = a, ct_expires_in = e\<rparr> }"

definition credentials_form :: "oauth2_config \<Rightarrow> (string \<times> string) list" where
  "credentials_form cfg =
     [(''grant_type'', ''client_credentials''), (''client_id'', o2_client_id cfg), (''client_secret'', o2_client_secret cfg)] @
     opt_param ''audience'' (trim_space (o2_audience cfg)) @
     (if o2_required_scopes cfg \<noteq> [] then [(''scope'', join_str '' '' (o2_required_scopes cfg))]
      else if o2_scopes cfg \<noteq> [] then [(''scope'', join_str '' '' (o2_scopes cfg))] else [])"

definition exchange_error :: "'w web \<Rightarrow> json_parser \<Rightarrow> http_reply \<Rightarrow> go_error" where
  "exchange_error W parse r =
     (let body = read_error_body W parse (hr_body r) in
      Error (''token exchange failed: '' @ hr_status_text r @ (if body \<noteq> [] then '' ('' @ body @ '')'' else [])))"

definition client_credentials_token ::
  "'w web \<Rightarrow> json_parser \<Rightarrow> (nat \<Rightarrow> gtime) \<Rightarrow> int \<Rightarrow> oauth2_config \<Rightarrow> discovery_cache \<Rightarrow> 'w \<Rightarrow>
     client_token res \<times> discovery_cache \<times> 'w" where
  "client_credentials_token W parse clk jitter cfg cache w =
     (if o2_client_id cfg = [] \<or> o2_client_secret cfg = [] then
        (Inl (Error ''client_id and client_secret are required''), cache, w)
      else case resolve_endpoints W clk jitter cfg cache w of
             (Inl err, rest) \<Rightarrow> (Inl err, rest)
           | (Inr endpoints, cache', w') \<Rightarrow>
               (if dc_token endpoints = [] then (Inl (Error ''token_url is required''), cache', w')
                else case call_json W (exchange_error W parse) read_client_token
                       \<lparr>ht_method = ''POST'', ht_url = dc_token endpoints, ht_headers = [form_content],
                        ht_body = form_encode (credentials_form cfg)\<rparr> w' of
                     (Inl err, w'') \<Rightarrow> (Inl err, cache', w'')
                   | (Inr t, w'') \<Rightarrow>
                       (if ct_access t = [] then (Inl (Error ''access_token missing''), cache', w'') else (Inr t, cache', w''))))"

section \<open>How often an issuer is asked\<close>

lemma discover_asks:
  "issuer_name issuer \<noteq> [] \<Longrightarrow> discover_lookup clk (issuer_name issuer) cache = Inr stale \<Longrightarrow>
     wb_do W (discover_request (issuer_name issuer)) w = (reply, w') \<Longrightarrow>
     discover W clk jitter issuer cache w =
       (fst (discover_settle W clk jitter (issuer_name issuer) stale reply cache),
        snd (discover_settle W clk jitter (issuer_name issuer) stale reply cache), w')"
  by (simp add: discover_def split: prod.split)

text \<open>Settling one issuer leaves the entries of the others.\<close>

lemma discover_settle_other:
  "issuer' \<noteq> issuer \<Longrightarrow> mget (snd (discover_settle W clk jitter issuer stale reply cache)) issuer' = mget cache issuer'"
  by (simp add: discover_settle_def serve_stale_def split: sum.split option.split)

lemma discover_settle_entry:
  assumes "discover_settle W clk jitter issuer stale reply cache = (Inr d, cache')" "0 \<le> jitter"
    and "\<not> (\<exists>r err. reply = Inr r \<and> success_status (hr_status r) \<and> decode_reply W read_discovery r = Inl err)"
  shows "\<exists>entry. mget cache' issuer = Some entry \<and> de_value entry = d \<and>
    (clk 2 + 120 * nanos_second \<le> de_expires_at entry \<or> clk 2 + 120 * nanos_second \<le> de_retry_after entry)"
  using assms by (auto simp: discover_settle_def serve_stale_def nanos_second_def split: sum.splits option.splits if_splits)

lemma discover_lookup_quiet:
  "mget cache issuer = Some entry \<Longrightarrow> until \<le> de_expires_at entry \<or> until \<le> de_retry_after entry \<Longrightarrow>
     clk 0 < until \<Longrightarrow> clk 1 < until \<Longrightarrow> discover_lookup clk issuer cache = Inl (de_value entry)"
  by (auto simp: discover_lookup_def)

text \<open>
  C33: After the issuer was asked and there was an answer to give, two minutes pass in which discovery for this
  issuer, however it is spelled, answers the same without asking it again: after a reply that was read,
  and also after a failure for which the last known answer was given. The exception is a reply that is
  reported as a success and cannot be read.
\<close>

theorem issuer_is_left_alone:
  assumes "issuer_name issuer \<noteq> []" "discover_lookup clk (issuer_name issuer) cache = Inr stale"
    and "wb_do W (discover_request (issuer_name issuer)) w = (reply, w1)"
    and "\<not> (\<exists>r err. reply = Inr r \<and> success_status (hr_status r) \<and> decode_reply W read_discovery r = Inl err)"
    and "discover W clk jitter issuer cache w = (Inr d, cache', w')" "0 \<le> jitter"
    and "issuer_name issuer' = issuer_name issuer" "clk' 0 < clk 2 + 120 * nanos_second" "clk' 1 < clk 2 + 120 * nanos_second"
  shows "discover W clk' jitter' issuer' cache' w2 = (Inr d, cache', w2)"
proof -
  from assms(5) discover_asks [OF assms(1-3), of jitter]
  have "discover_settle W clk jitter (issuer_name issuer) stale reply cache = (Inr d, cache')" by (auto simp: prod_eq_iff)
  from discover_settle_entry [OF this assms(6,4)] obtain entry where
    "mget cache' (issuer_name issuer) = Some entry" "de_value entry = d"
    "clk 2 + 120 * nanos_second \<le> de_expires_at entry \<or> clk 2 + 120 * nanos_second \<le> de_retry_after entry" by blast
  with assms(7-9) have "discover_lookup clk' (issuer_name issuer) cache' = Inl d"
    using discover_lookup_quiet [of cache' "issuer_name issuer" entry "clk 2 + 120 * nanos_second" clk'] by simp
  with assms(1,7) show ?thesis by (simp add: discover_def)
qed

definition down_web :: "nat web" where
  "down_web = \<lparr>wb_do = (\<lambda>call w. (Inl (Error ''connection refused''), Suc w)), wb_decode = (\<lambda>s. Inr (JStr s)), wb_print = (\<lambda>v. [])\<rparr>"

definition old_entry :: discovery_entry where
  "old_entry = \<lparr>de_value = \<lparr>dc_authorize = ''a'', dc_token = ''t'', dc_jwks = ''j''\<rparr>, de_expires_at = 5, de_retry_after = 3\<rparr>"

lemma issuer_is_left_alone_witness:
  "discover down_web (\<lambda>n. 10) 0 ''https://idp/'' [(''https://idp'', old_entry)] 0 =
     (Inr (de_value old_entry), [(''https://idp'', old_entry\<lparr>de_retry_after := 120000000010\<rparr>)], 1) \<and>
   discover down_web (\<lambda>n. 120000000000) 7 '' https://idp'' [(''https://idp'', old_entry\<lparr>de_retry_after := 120000000010\<rparr>)] 1 =
     (Inr (de_value old_entry), [(''https://idp'', old_entry\<lparr>de_retry_after := 120000000010\<rparr>)], 1)"
proof -
  let ?i = "''https://idp/''" and ?cache = "[(''https://idp'', old_entry)]"
  have i: "issuer_name ?i = ''https://idp''" "issuer_name '' https://idp'' = ''https://idp''" by code_simp+
  have l: "discover_lookup (\<lambda>n. 10) (issuer_name ?i) ?cache = Inr (Some old_entry)" unfolding i by code_simp
  have r: "wb_do down_web (discover_request (issuer_name ?i)) 0 = (Inl (Error ''connection refused''), 1)" by (simp add: down_web_def)
  have d: "discover down_web (\<lambda>n. 10) 0 ?i ?cache 0 =
      (Inr (de_value old_entry), [(''https://idp'', old_entry\<lparr>de_retry_after := 120000000010\<rparr>)], 1)"
    by code_simp
  from issuer_is_left_alone [OF _ l r _ d, of "'' https://idp''" "\<lambda>n. 120000000000" 7 1] d show ?thesis
    by (simp add: i nanos_second_def)
qed

text \<open>
  The error of a failed exchange quotes a body that holds nothing but an access token as it is: with the
  token removed there is nothing left, and then the body is not replaced.
\<close>

lemma bare_token_is_quoted:
  assumes "parse body = Inr (JObj [(''access_token'', v)])" "trim_space body = body" "length body \<le> 4096" "body \<noteq> []"
    and "CHR 0x0A \<notin> set body" "CHR 0x0D \<notin> set body"
  shows "read_error_body W parse body = body"
proof -
  have r: "c \<notin> set s \<Longrightarrow> replace_byte s c x = s" for s c x
    by (induction s) (auto simp: replace_byte_def)
  have "sanitize_json W parse body = []"
    by (simp add: sanitize_json_def assms(1) json_map_def mput_all_def mput_def mdel_def)
  with assms r show ?thesis by (simp add: read_error_body_def)
qed

end
