(* ===== verification/Token_Cache.thy ===== *)
theory Token_Cache
  imports Oidc_Tokens
begin

text \<open>
  The file in which tokens are kept (\<^verbatim>\<open>pkg/auth/oidc/cache.go\<close>). A disk is a map from paths to files with their
  permission bits; \<open>dk_refuses\<close> says which operations the operating system refuses. Directories are not
  modelled beyond the refusal to make one. Parsing and printing JSON text and RFC 3339 times are parameters.
\<close>

section \<open>Files\<close>

record disk_file =
  df_text :: string
  df_regular :: bool
  df_perm :: nat

record disk =
  dk_files :: "disk_file gmap"
  dk_refuses :: "string \<Rightarrow> string \<Rightarrow> go_error option"

datatype 'a os_result = OsOk 'a | OsMissing | OsError go_error

definition os_file :: "string \<Rightarrow> disk \<Rightarrow> string \<Rightarrow> disk_file os_result" where
  "os_file operation d path =
     (case dk_refuses d operation path of
        Some err \<Rightarrow> OsError err
      | None \<Rightarrow> (case mget (dk_files d) path of None \<Rightarrow> OsMissing | Some f \<Rightarrow> OsOk f))"

definition os_chmod :: "string \<Rightarrow> nat \<Rightarrow> disk \<Rightarrow> go_error option \<times> disk" where
  "os_chmod path perm d =
     (case os_file ''chmod'' d path of
        OsError err \<Rightarrow> (Some err, d)
      | OsMissing \<Rightarrow> (Some (Error ''no such file''), d)
      | OsOk f \<Rightarrow> (None, d\<lparr>dk_files := mput path (f\<lparr>df_perm := perm\<rparr>) (dk_files d)\<rparr>))"

text \<open>\<^verbatim>\<open>os.WriteFile\<close>: the permission is that of a new file only.\<close>

definition os_write :: "string \<Rightarrow> string \<Rightarrow> nat \<Rightarrow> disk \<Rightarrow> go_error option \<times> disk" where
  "os_write path text perm d =
     (case os_file ''write'' d path of
        OsError err \<Rightarrow> (Some err, d)
      | OsMissing \<Rightarrow> (None, d\<lparr>dk_files := mput path \<lparr>df_text = text, df_regular = True, df_perm = perm\<rparr> (dk_files d)\<rparr>)
      | OsOk f \<Rightarrow> (None, d\<lparr>dk_files := mput path (f\<lparr>df_text := text\<rparr>) (dk_files d)\<rparr>))"

text \<open>Owner only: the six low bits of the permission are those of the group and the others.\<close>

definition private_perm :: "nat \<Rightarrow> bool" where
  "private_perm perm \<longleftrightarrow> perm mod 64 = 0"

definition owner_only :: nat where "owner_only = 384"

definition ensure_cache_permissions :: "string \<Rightarrow> disk \<Rightarrow> go_error option \<times> disk" where
  "ensure_cache_permissions path d =
     (case os_file ''stat'' d path of
        OsError err \<Rightarrow> (Some err, d)
      | OsMissing \<Rightarrow> (None, d)
      | OsOk f \<Rightarrow>
          (if \<not> df_regular f then (Some (Error ''token cache path must be a file''), d)
           else if \<not> private_perm (df_perm f) then
             (case os_chmod path owner_only d of
                (Some err, d') \<Rightarrow> (Some (Error ''token cache permissions too open''), d')
              | (None, d') \<Rightarrow> (None, d'))
           else (None, d)))"

section \<open>The file as JSON\<close>

record token_entry =
  te_access :: string
  te_expires_at :: gtime

record token_codec =
  tc_parse :: json_parser
  tc_print :: "jval \<Rightarrow> string"
  tc_parse_time :: "string \<Rightarrow> gtime option"
  tc_print_time :: "gtime \<Rightarrow> string option"

text \<open>
  Decoding goes on after a value of the wrong kind, which \<^verbatim>\<open>json.Unmarshal\<close> reports at the end, and stops at a
  time it cannot read: \<open>None\<close> is the stop, the flag says that nothing was wrong.
\<close>

fun entry_fields :: "token_codec \<Rightarrow> (string \<times> jval) list \<Rightarrow> token_entry \<times> bool \<Rightarrow> (token_entry \<times> bool) option" where
  "entry_fields C [] acc = Some acc"
| "entry_fields C ((k, v) # ms) (e, ok) =
     (if equal_fold k ''access_token'' then
        (case v of
           JStr s \<Rightarrow> entry_fields C ms (e\<lparr>te_access := s\<rparr>, ok)
         | JNull \<Rightarrow> entry_fields C ms (e, ok)
         | _ \<Rightarrow> entry_fields C ms (e, False))
      else if equal_fold k ''expires_at'' then
        (case v of
           JNull \<Rightarrow> entry_fields C ms (e, ok)
         | JStr s \<Rightarrow> (case tc_parse_time C s of None \<Rightarrow> None | Some t \<Rightarrow> entry_fields C ms (e\<lparr>te_expires_at := t\<rparr>, ok))
         | _ \<Rightarrow> None)
      else entry_fields C ms (e, ok))"

definition zero_entry :: token_entry where
  "zero_entry = \<lparr>te_access = [], te_expires_at = 0\<rparr>"

definition read_token_entry :: "token_codec \<Rightarrow> jval \<Rightarrow> (token_entry \<times> bool) option" where
  "read_token_entry C v =
     (case v of
        JNull \<Rightarrow> Some (zero_entry, True)
      | JObj ms \<Rightarrow> entry_fields C ms (zero_entry, True)
      | _ \<Rightarrow> Some (zero_entry, False))"

text \<open>The entries read so far, whether nothing was wrong, and whether to go on.\<close>

fun entry_members ::
  "token_codec \<Rightarrow> (string \<times> jval) list \<Rightarrow> token_entry gmap \<times> bool \<Rightarrow> token_entry gmap \<times> bool \<times> bool" where
  "entry_members C [] (m, ok) = (m, ok, True)"
| "entry_members C ((k, v) # ms) (m, ok) =
     (case read_token_entry C v of
        None \<Rightarrow> (m, False, False)
      | Some (e, ok') \<Rightarrow> entry_members C ms (mput k e m, ok \<and> ok'))"

fun file_members ::
  "token_codec \<Rightarrow> (string \<times> jval) list \<Rightarrow> token_entry gmap option \<times> bool \<Rightarrow> token_entry gmap option \<times> bool" where
  "file_members C [] acc = acc"
| "file_members C ((k, v) # ms) (m, ok) =
     (if equal_fold k ''entries'' then
        (case v of
           JNull \<Rightarrow> file_members C ms (None, ok)
         | JObj es \<Rightarrow>
             (case entry_members C es (case m of None \<Rightarrow> [] | Some x \<Rightarrow> x, ok) of
                (m', ok', True) \<Rightarrow> file_members C ms (Some m', ok')
              | (m', ok', False) \<Rightarrow> (Some m', False))
         | _ \<Rightarrow> file_members C ms (m, False))
      else file_members C ms (m, ok))"

definition read_cache_file ::
  "token_codec \<Rightarrow> token_entry gmap option \<Rightarrow> string \<Rightarrow> token_entry gmap option \<times> bool" where
  "read_cache_file C init raw =
     (case tc_parse C raw of
        Inl err \<Rightarrow> (init, False)
      | Inr JNull \<Rightarrow> (init, True)
      | Inr (JObj ms) \<Rightarrow> file_members C ms (init, True)
      | Inr _ \<Rightarrow> (init, False))"

text \<open>Printing fails for a time that RFC 3339 cannot write. The keys of a map are sorted.\<close>

definition entry_json :: "token_codec \<Rightarrow> token_entry \<Rightarrow> jval option" where
  "entry_json C e = map_option (\<lambda>t. JObj [(''access_token'', JStr (te_access e)), (''expires_at'', JStr t)])
     (tc_print_time C (te_expires_at e))"

definition cache_json :: "token_codec \<Rightarrow> token_entry gmap \<Rightarrow> jval option" where
  "cache_json C m =
     map_option (\<lambda>es. JObj [(''entries'', JObj es)])
       (those (map (\<lambda>(k, e). map_option (Pair k) (entry_json C e)) (sort_slice (\<lambda>a b. fst a < fst b) m)))"

section \<open>Storing and loading\<close>

definition cache_key :: "oauth2_config \<Rightarrow> string" where
  "cache_key cfg = trim_space (o2_issuer cfg) @ ''|'' @ trim_space (o2_audience cfg) @ ''|'' @ trim_space (o2_client_id cfg)"

text \<open>\<^verbatim>\<open>filepath.Dir\<close> and \<^verbatim>\<open>filepath.Join\<close> on clean absolute paths, with \<^verbatim>\<open>os.UserCacheDir\<close> a parameter.\<close>

definition default_cache_path :: "string res \<Rightarrow> string res" where
  "default_cache_path user_dir =
     (case user_dir of Inl err \<Rightarrow> Inl err | Inr base \<Rightarrow> Inr (base @ ''/github.com/relaymesh/relaymesh/token.json''))"

definition expired_entry :: "gtime \<Rightarrow> token_entry \<Rightarrow> bool" where
  "expired_entry now e \<longleftrightarrow> \<not> is_zero (te_expires_at e) \<and> te_expires_at e < now"

definition entries_on_disk :: "token_codec \<Rightarrow> string \<Rightarrow> disk \<Rightarrow> token_entry gmap" where
  "entries_on_disk C path d =
     (case os_file ''read'' d path of
        OsOk f \<Rightarrow> (case fst (read_cache_file C (Some []) (df_text f)) of None \<Rightarrow> [] | Some m \<Rightarrow> m)
      | _ \<Rightarrow> [])"

definition updated_entries :: "gtime \<Rightarrow> string \<Rightarrow> string \<Rightarrow> gtime \<Rightarrow> token_entry gmap \<Rightarrow> token_entry gmap" where
  "updated_entries now key token expires_at m =
     (let kept = filter (\<lambda>(k, e). \<not> expired_entry now e) m in
      if token \<noteq> [] then mput key \<lparr>te_access = token, te_expires_at = expires_at\<rparr> kept else mdel key kept)"

definition store_cached_token ::
  "token_codec \<Rightarrow> (string \<Rightarrow> string) \<Rightarrow> gtime \<Rightarrow> string \<Rightarrow> string \<Rightarrow> string \<Rightarrow> gtime \<Rightarrow> disk \<Rightarrow> go_error option \<times> disk" where
  "store_cached_token C dir_of now path0 key token expires_at d =
     (let path = trim_space path0 in
      if path = [] then (Some (Error ''cache path is required''), d)
      else case dk_refuses d ''mkdir'' (dir_of path) of
             Some err \<Rightarrow> (Some err, d)
           | None \<Rightarrow>
               (case ensure_cache_permissions path d of
                  (Some err, d') \<Rightarrow> (Some err, d')
                | (None, d') \<Rightarrow>
                    (case cache_json C (updated_entries now key token expires_at (entries_on_disk C path d')) of
                       None \<Rightarrow> (Some (Error ''json: unsupported time''), d')
                     | Some v \<Rightarrow>
                         (case os_write path (tc_print C v) owner_only d' of
                            (Some err, d'') \<Rightarrow> (Some err, d'')
                          | (None, d'') \<Rightarrow> os_chmod path owner_only d''))))"

definition load_cached_token ::
  "token_codec \<Rightarrow> (string \<Rightarrow> string) \<Rightarrow> (nat \<Rightarrow> gtime) \<Rightarrow> string \<Rightarrow> string \<Rightarrow> disk \<Rightarrow> (string \<times> gtime) option res \<times> disk" where
  "load_cached_token C dir_of clk path0 key d =
     (let path = trim_space path0 in
      if path = [] then (Inl (Error ''cache path is required''), d)
      else case ensure_cache_permissions path d of
             (Some err, d') \<Rightarrow> (Inl err, d')
           | (None, d') \<Rightarrow>
               (case os_file ''read'' d' path of
                  OsError err \<Rightarrow> (Inl err, d')
                | OsMissing \<Rightarrow> (Inr None, d')
                | OsOk f \<Rightarrow>
                    (case read_cache_file C None (df_text f) of
                       (_, False) \<Rightarrow> (Inl (Error ''invalid token cache''), d')
                     | (None, True) \<Rightarrow> (Inr None, d')
                     | (Some m, True) \<Rightarrow>
                         (case mget m key of
                            None \<Rightarrow> (Inr None, d')
                          | Some e \<Rightarrow>
                              (if expired_entry (clk 0) e then
                                 (Inr None, snd (store_cached_token C dir_of (clk 1) path key [] 0 d'))
                               else (Inr (Some (te_access e, te_expires_at e)), d'))))))"

section \<open>What is stored is read back\<close>

lemma read_entry_json:
  assumes "entry_json C e = Some j" "\<And>s. tc_print_time C (te_expires_at e) = Some s \<Longrightarrow> tc_parse_time C s = Some (te_expires_at e)"
  shows "read_token_entry C j = Some (e, True)"
proof -
  have k: "equal_fold ''access_token'' ''access_token''" "\<not> equal_fold ''expires_at'' ''access_token''"
    "equal_fold ''expires_at'' ''expires_at''" by code_simp+
  from assms(1) obtain s where s: "tc_print_time C (te_expires_at e) = Some s"
    "j = JObj [(''access_token'', JStr (te_access e)), (''expires_at'', JStr s)]" by (auto simp: entry_json_def)
  show ?thesis by (cases e) (use assms(2) [OF s(1)] in \<open>simp add: read_token_entry_def s(2) k zero_entry_def\<close>)
qed

lemma entry_members_json:
  assumes "those (map (\<lambda>(k, e). map_option (Pair k) (entry_json C e)) kvs) = Some es"
    and "\<And>k e s. (k, e) \<in> set kvs \<Longrightarrow> tc_print_time C (te_expires_at e) = Some s \<Longrightarrow> tc_parse_time C s = Some (te_expires_at e)"
  shows "entry_members C es (m, ok) = (mput_all kvs m, ok, True)"
  using assms
proof (induction kvs arbitrary: es m)
  case (Cons kv kvs)
  obtain k e where kv: "kv = (k, e)" by fastforce
  from Cons.prems(1) kv obtain j es' where j: "entry_json C e = Some j" "es = (k, j) # es'"
    "those (map (\<lambda>(k, e). map_option (Pair k) (entry_json C e)) kvs) = Some es'" by (auto split: option.splits)
  have "read_token_entry C j = Some (e, True)" using j(1) Cons.prems(2) [of k e] kv by (intro read_entry_json) auto
  moreover have "entry_members C es' (mput k e m, ok) = (mput_all kvs (mput k e m), ok, True)"
    using Cons.prems(2) by (intro Cons.IH [OF j(3)]) (auto simp: kv)
  ultimately show ?case by (simp add: j(2) kv)
qed simp

definition codec_reads :: "token_codec \<Rightarrow> token_entry gmap \<Rightarrow> bool" where
  "codec_reads C m \<longleftrightarrow>
     (\<forall>v. cache_json C m = Some v \<longrightarrow> tc_parse C (tc_print C v) = Inr v) \<and>
     (\<forall>(k, e) \<in> set m. \<forall>s. tc_print_time C (te_expires_at e) = Some s \<longrightarrow> tc_parse_time C s = Some (te_expires_at e))"

lemma mget_sorted:
  assumes "wf_map m"
  shows "mget (mput_all (sort_slice (\<lambda>a b. fst a < fst b) m) []) k = mget m k"
proof -
  let ?s = "sort_slice (\<lambda>a b. fst a < fst b) m"
  have "mset (map fst ?s) = mset (map fst m)" by simp
  then have d: "distinct (map fst ?s)" using assms unfolding wf_map_def by (metis mset_eq_imp_distinct_iff)
  then have "map_of (rev ?s) = map_of m"
    using assms by (subst map_of_inject_set) (simp_all add: wf_map_def rev_map [symmetric])
  then have "mget (mput_all ?s []) k = map_of m k" by (simp add: mget_mput_all split: option.split)
  then show ?thesis by (simp add: mget_def)
qed

lemma read_back:
  assumes "cache_json C m = Some v" "codec_reads C m" "wf_map m"
  shows "\<exists>m'. read_cache_file C init (tc_print C v) = (Some m', True) \<and> (init \<in> {None, Some []} \<longrightarrow> (\<forall>k. mget m' k = mget m k))"
proof -
  let ?s = "sort_slice (\<lambda>a b. fst a < fst b) m"
  from assms(1) obtain es where es: "those (map (\<lambda>(k, e). map_option (Pair k) (entry_json C e)) ?s) = Some es"
    "v = JObj [(''entries'', JObj es)]" by (auto simp: cache_json_def)
  have em: "entry_members C es (x, ok) = (mput_all ?s x, ok, True)" for x ok
    using assms(2) by (intro entry_members_json [OF es(1)]) (auto simp: codec_reads_def)
  have "equal_fold ''entries'' ''entries''" by code_simp
  moreover from assms(1,2) have "tc_parse C (tc_print C v) = Inr v" by (simp add: codec_reads_def)
  ultimately have "read_cache_file C init (tc_print C v) = (Some (mput_all ?s (case init of None \<Rightarrow> [] | Some x \<Rightarrow> x)), True)"
    by (simp add: read_cache_file_def es(2) em)
  then show ?thesis using mget_sorted [OF assms(3)] by auto
qed

lemma wf_entry_members: "wf_map m \<Longrightarrow> wf_map (fst (entry_members C es (m, ok)))"
  by (induction C es "(m, ok)" arbitrary: m ok rule: entry_members.induct) (auto split: option.splits)

lemma wf_file_members:
  "(\<forall>x. m = Some x \<longrightarrow> wf_map x) \<Longrightarrow> fst (file_members C ms (m, ok)) = Some y \<Longrightarrow> wf_map y"
proof (induction ms arbitrary: m ok)
  case (Cons kv ms)
  obtain k v where kv: "kv = (k, v)" by fastforce
  have w: "wf_map (fst (entry_members C es (case m of None \<Rightarrow> [] | Some x \<Rightarrow> x, ok)))" for es
    using Cons.prems(1) by (intro wf_entry_members) (auto split: option.split)
  show ?case
  proof (cases "equal_fold k ''entries''")
    case False
    with Cons show ?thesis by (simp add: kv)
  next
    case True
    show ?thesis
    proof (cases v)
      case (JObj es)
      obtain m' ok' go where e: "entry_members C es (case m of None \<Rightarrow> [] | Some x \<Rightarrow> x, ok) = (m', ok', go)" by (metis prod_cases3)
      with w [of es] have "wf_map m'" by simp
      with Cons.prems(2) Cons.IH [of "Some m'" ok'] show ?thesis by (cases go) (simp_all add: kv True JObj e)
    qed (use Cons True kv in auto)
  qed
qed simp

lemma wf_entries_on_disk [simp]: "wf_map (entries_on_disk C path d)"
  by (auto simp: entries_on_disk_def read_cache_file_def intro: wf_file_members [of "Some []"]
      split: os_result.splits option.splits sum.splits jval.splits)

lemma wf_updated_entries [simp]: "wf_map m \<Longrightarrow> wf_map (updated_entries now key token expires_at m)"
  by (simp add: updated_entries_def Let_def)

lemma mget_updated_entries:
  assumes "wf_map m"
  shows "mget (updated_entries now key token expires_at m) k =
    (if k = key then (if token \<noteq> [] then Some \<lparr>te_access = token, te_expires_at = expires_at\<rparr> else None)
     else case mget m k of None \<Rightarrow> None | Some e \<Rightarrow> if expired_entry now e then None else Some e)"
  using assms by (simp add: updated_entries_def Let_def mget_filter split: option.split)

lemma os_file_refuses: "os_file operation d path = OsOk f \<longleftrightarrow> dk_refuses d operation path = None \<and> mget (dk_files d) path = Some f"
  by (simp add: os_file_def split: option.split)

text \<open>Making the file private changes nothing else.\<close>

lemma os_chmod_None:
  "os_chmod path perm d = (None, d') \<longleftrightarrow>
     (\<exists>f. dk_refuses d ''chmod'' path = None \<and> mget (dk_files d) path = Some f \<and>
        d' = d\<lparr>dk_files := mput path (f\<lparr>df_perm := perm\<rparr>) (dk_files d)\<rparr>)"
  by (auto simp: os_chmod_def os_file_def split: option.splits)

lemma os_write_None:
  "os_write path text perm d = (None, d') \<Longrightarrow>
     \<exists>f. d' = d\<lparr>dk_files := mput path f (dk_files d)\<rparr> \<and> df_text f = text \<and>
       df_regular f = (case mget (dk_files d) path of None \<Rightarrow> True | Some g \<Rightarrow> df_regular g)"
  by (auto simp: os_write_def os_file_def split: option.splits)

lemma ensure_cache_permissions_None:
  assumes "ensure_cache_permissions path d = (None, d')"
  shows "dk_refuses d' = dk_refuses d" "entries_on_disk C path d' = entries_on_disk C path d"
    "p \<noteq> path \<Longrightarrow> mget (dk_files d') p = mget (dk_files d) p" "dk_refuses d ''stat'' path = None"
    "\<forall>f. mget (dk_files d') path = Some f \<longrightarrow> df_regular f"
proof -
  have "d' = d \<or> (\<exists>f. mget (dk_files d) path = Some f \<and> df_regular f \<and>
      d' = d\<lparr>dk_files := mput path (f\<lparr>df_perm := owner_only\<rparr>) (dk_files d)\<rparr>)"
    using assms by (auto simp: ensure_cache_permissions_def os_chmod_None os_file_def split: option.splits if_splits prod.splits)
  then show "dk_refuses d' = dk_refuses d" "entries_on_disk C path d' = entries_on_disk C path d"
    "p \<noteq> path \<Longrightarrow> mget (dk_files d') p = mget (dk_files d) p"
    by (auto simp: entries_on_disk_def os_file_def split: option.split)
  show "dk_refuses d ''stat'' path = None" "\<forall>f. mget (dk_files d') path = Some f \<longrightarrow> df_regular f"
    using assms
    by (auto simp: ensure_cache_permissions_def os_file_def os_chmod_None split: option.splits if_splits prod.splits)
qed

lemma private_file_stays: "mget (dk_files d) path = Some f \<Longrightarrow> df_regular f \<Longrightarrow> private_perm (df_perm f) \<Longrightarrow>
    dk_refuses d ''stat'' path = None \<Longrightarrow> ensure_cache_permissions path d = (None, d)"
  by (simp add: ensure_cache_permissions_def os_file_def)

lemma store_cached_token_None:
  assumes "store_cached_token C dir_of now path key token expires_at d = (None, d')"
  defines "m \<equiv> updated_entries now key token expires_at (entries_on_disk C (trim_space path) d)"
  obtains v f where "cache_json C m = Some v" "trim_space path \<noteq> []" "mget (dk_files d') (trim_space path) = Some f"
    "df_text f = tc_print C v" "df_regular f" "df_perm f = owner_only" "dk_refuses d' = dk_refuses d"
    "dk_refuses d ''stat'' (trim_space path) = None"
    "\<And>p. p \<noteq> trim_space path \<Longrightarrow> mget (dk_files d') p = mget (dk_files d) p"
proof -
  let ?p = "trim_space path"
  from assms(1) obtain d1 v d2 where s: "?p \<noteq> []" "ensure_cache_permissions ?p d = (None, d1)"
    "cache_json C (updated_entries now key token expires_at (entries_on_disk C ?p d1)) = Some v"
    "os_write ?p (tc_print C v) owner_only d1 = (None, d2)" "os_chmod ?p owner_only d2 = (None, d')"
    by (auto simp: store_cached_token_def Let_def split: option.splits prod.splits if_splits)
  note e = ensure_cache_permissions_None [OF s(2)]
  from os_write_None [OF s(4)] obtain f where f: "d2 = d1\<lparr>dk_files := mput ?p f (dk_files d1)\<rparr>" "df_text f = tc_print C v"
    "df_regular f = (case mget (dk_files d1) ?p of None \<Rightarrow> True | Some g \<Rightarrow> df_regular g)" by blast
  have "df_regular f" using f(3) e(5) by (auto split: option.splits)
  moreover have "d' = d1\<lparr>dk_files := mput ?p (f\<lparr>df_perm := owner_only\<rparr>) (mput ?p f (dk_files d1))\<rparr>"
    using s(5) by (simp add: os_chmod_None f(1))
  ultimately show ?thesis
    using s(1,3) f(2) e by (intro that [of v "f\<lparr>df_perm := owner_only\<rparr>"]) (simp_all add: m_def)
qed

text \<open>
  C19: A token that was stored is loaded again until it expires, by whoever names the same path and key. The
  file can be read by its owner only, no other file is touched, and of the other entries exactly the
  expired ones are gone.
\<close>

theorem token_cache_roundtrip:
  assumes "store_cached_token C dir_of now path key token expires_at d = (None, d')" "token \<noteq> []"
    and "codec_reads C (updated_entries now key token expires_at (entries_on_disk C (trim_space path) d))"
    and "dk_refuses d ''read'' (trim_space path) = None" "is_zero expires_at \<or> clk 0 \<le> expires_at"
  shows "load_cached_token C dir_of clk path key d' = (Inr (Some (token, expires_at)), d') \<and>
    (\<exists>f. mget (dk_files d') (trim_space path) = Some f \<and> private_perm (df_perm f)) \<and>
    (\<forall>p. p \<noteq> trim_space path \<longrightarrow> mget (dk_files d') p = mget (dk_files d) p) \<and>
    (\<forall>k. k \<noteq> key \<longrightarrow> mget (entries_on_disk C (trim_space path) d') k =
       (case mget (entries_on_disk C (trim_space path) d) k of
          None \<Rightarrow> None | Some e \<Rightarrow> if expired_entry now e then None else Some e))"
proof -
  let ?p = "trim_space path" and ?old = "entries_on_disk C (trim_space path) d"
  let ?m = "updated_entries now key token expires_at ?old"
  obtain v f where s: "cache_json C ?m = Some v" "?p \<noteq> []" "mget (dk_files d') ?p = Some f" "df_text f = tc_print C v"
    "df_regular f" "df_perm f = owner_only" "dk_refuses d' = dk_refuses d" "dk_refuses d ''stat'' ?p = None"
    "\<And>p. p \<noteq> ?p \<Longrightarrow> mget (dk_files d') p = mget (dk_files d) p"
    using store_cached_token_None [OF assms(1)] by blast
  have own: "private_perm (df_perm f)" by (simp add: s(6) owner_only_def private_perm_def)
  then have ens: "ensure_cache_permissions ?p d' = (None, d')" using s(3,5,7,8) by (intro private_file_stays) simp_all
  have rd: "os_file ''read'' d' ?p = OsOk f" using s(3,7) assms(4) by (simp add: os_file_def)
  from read_back [OF s(1) assms(3), of None] obtain a where
    a: "read_cache_file C None (df_text f) = (Some a, True)" "\<And>k. mget a k = mget ?m k" by (auto simp: s(4))
  from read_back [OF s(1) assms(3), of "Some []"] obtain b where
    b: "read_cache_file C (Some []) (df_text f) = (Some b, True)" "\<And>k. mget b k = mget ?m k" by (auto simp: s(4))
  have "mget a key = Some \<lparr>te_access = token, te_expires_at = expires_at\<rparr>"
    using assms(2) by (simp add: a(2) mget_updated_entries)
  with assms(5) have "load_cached_token C dir_of clk path key d' = (Inr (Some (token, expires_at)), d')"
    by (auto simp: load_cached_token_def Let_def s(2) ens rd a(1) expired_entry_def)
  moreover have "k \<noteq> key \<Longrightarrow> mget (entries_on_disk C ?p d') k =
      (case mget ?old k of None \<Rightarrow> None | Some e \<Rightarrow> if expired_entry now e then None else Some e)" for k
    by (simp add: entries_on_disk_def [of C ?p d'] rd b mget_updated_entries)
  ultimately show ?thesis using s(3,9) own by blast
qed

text \<open>An expired token is not given out, and looking for it removes it.\<close>

lemma expired_token_is_not_loaded:
  "load_cached_token C dir_of clk path key d = (Inr (Some (token, t)), d') \<Longrightarrow> is_zero t \<or> clk 0 \<le> t"
  by (auto simp: load_cached_token_def Let_def expired_entry_def split: if_splits prod.splits option.splits os_result.splits bool.splits)

definition plain_codec :: token_codec where
  "plain_codec =
     \<lparr>tc_parse = (\<lambda>s. if s = ''F'' then Inr (JObj [(''entries'', JObj [(''k'', JObj [(''access_token'', JStr ''t''), (''expires_at'', JStr ''late'')])])])
        else Inl (Error ''syntax'')),
      tc_print = (\<lambda>v. ''F''), tc_parse_time = (\<lambda>s. if s = ''late'' then Some 90 else None),
      tc_print_time = (\<lambda>t. if t = 90 then Some ''late'' else None)\<rparr>"

definition open_disk :: disk where
  "open_disk = \<lparr>dk_files = [(''/c'', \<lparr>df_text = ''damaged'', df_regular = True, df_perm = 420\<rparr>)], dk_refuses = (\<lambda>a b. None)\<rparr>"

definition written_disk :: disk where
  "written_disk = open_disk\<lparr>dk_files := [(''/c'', \<lparr>df_text = ''F'', df_regular = True, df_perm = owner_only\<rparr>)]\<rparr>"

lemma token_cache_roundtrip_witness:
  "store_cached_token plain_codec (\<lambda>p. p) 50 '' /c'' ''k'' ''t'' 90 open_disk = (None, written_disk) \<and>
   load_cached_token plain_codec (\<lambda>p. p) (\<lambda>n. 80) '' /c'' ''k'' written_disk = (Inr (Some (''t'', 90)), written_disk)"
proof -
  have p: "trim_space '' /c'' = ''/c''" by code_simp
  have e: "entries_on_disk plain_codec ''/c'' open_disk = []"
    by (simp add: entries_on_disk_def os_file_def open_disk_def mget_def read_cache_file_def plain_codec_def)
  have u: "updated_entries 50 ''k'' ''t'' 90 [] = [(''k'', \<lparr>te_access = ''t'', te_expires_at = 90\<rparr>)]"
    by (simp add: updated_entries_def mput_def)
  have j: "cache_json plain_codec [(''k'', \<lparr>te_access = ''t'', te_expires_at = 90\<rparr>)] =
      Some (JObj [(''entries'', JObj [(''k'', JObj [(''access_token'', JStr ''t''), (''expires_at'', JStr ''late'')])])])"
    by (simp add: cache_json_def sort_slice_def entry_json_def plain_codec_def)
  have r: "codec_reads plain_codec (updated_entries 50 ''k'' ''t'' 90 (entries_on_disk plain_codec (trim_space '' /c'') open_disk))"
    unfolding p e u codec_reads_def j by (simp add: plain_codec_def)
  let ?d1 = "open_disk\<lparr>dk_files := [(''/c'', \<lparr>df_text = ''damaged'', df_regular = True, df_perm = owner_only\<rparr>)]\<rparr>"
  have en: "ensure_cache_permissions ''/c'' open_disk = (None, ?d1)"
    by (simp add: ensure_cache_permissions_def os_file_def os_chmod_def open_disk_def mget_def mput_def private_perm_def)
  have e1: "entries_on_disk plain_codec ''/c'' ?d1 = []" unfolding ensure_cache_permissions_None(2) [OF en] by (rule e)
  have rf: "dk_refuses open_disk = (\<lambda>a b. None)" by (simp add: open_disk_def)
  have s: "store_cached_token plain_codec (\<lambda>p. p) 50 '' /c'' ''k'' ''t'' 90 open_disk = (None, written_disk)"
    by (simp add: store_cached_token_def Let_def p en e1 u j rf) (simp add: open_disk_def written_disk_def os_write_def os_chmod_def
        os_file_def mget_def mput_def plain_codec_def)
  from token_cache_roundtrip [OF s _ r, of "\<lambda>n. 80"] s show ?thesis by (simp add: open_disk_def)
qed

end
