(* ===== verification/Login_Handler.thy ===== *)
theory Login_Handler
  imports Token_Cache
begin

text \<open>
  The login of a person with the issuer of the API (\<^verbatim>\<open>pkg/server/oauth2_handler.go\<close>): the authorization code
  flow with PKCE. The handler keeps the states it gave out, each with its code verifier and a time to live.

  Parameters are SHA-256, the \<^verbatim>\<open>golang.org/x/oauth2\<close> library (the URL of a login, the exchange of a code), the random
  bytes of each request and the clock, read in the order of the code. The mutex is held while the states are
  looked at, so a request is a step on them.
\<close>

section \<open>The handler\<close>

record login_token =
  lt_access :: string
  lt_type :: string
  lt_expiry :: gtime

record 'w login_handler =
  lg_cfg :: oauth2_config
  lg_web :: "'w web"
  lg_sha :: "string \<Rightarrow> string"
  lg_auth_url :: "oauth2_config \<Rightarrow> discovery \<Rightarrow> string \<Rightarrow> (string \<times> string) list \<Rightarrow> string"
  lg_exchange :: "oauth2_config \<Rightarrow> discovery \<Rightarrow> string \<Rightarrow> (string \<times> string) list \<Rightarrow> 'w \<Rightarrow> login_token res \<times> 'w"
  lg_codec :: token_codec
  lg_dir_of :: "string \<Rightarrow> string"
  lg_env_path :: string
  lg_user_dir :: "string res"

record login_state =
  ls_verifier :: string
  ls_expires_at :: gtime

record 'w login_world =
  lw_states :: "login_state gmap"
  lw_discovery :: discovery_cache
  lw_disk :: disk
  lw_net :: 'w

record login_request =
  lq_method :: string
  lq_query :: "string \<Rightarrow> string"
  lq_state_bytes :: "string res"
  lq_verifier_bytes :: "string res"
  lq_clock :: "nat \<Rightarrow> gtime"
  lq_jitter :: int

datatype login_reply =
    LoginFailed nat string
  | LoginRedirect string
  | LoginDone string gtime

definition supports_auth_code :: "string \<Rightarrow> bool" where
  "supports_auth_code mode \<longleftrightarrow> to_lower (trim_space mode) \<in> {[], ''auto'', ''auth_code''}"

definition random_string :: "string res \<Rightarrow> string" where
  "random_string bytes = (case bytes of Inl err \<Rightarrow> [] | Inr b \<Rightarrow> b64_encode raw_url_encoding b)"

definition code_challenge :: "(string \<Rightarrow> string) \<Rightarrow> string \<Rightarrow> string" where
  "code_challenge sha v = b64_encode raw_url_encoding (sha v)"

definition prune_states :: "gtime \<Rightarrow> login_state gmap \<Rightarrow> login_state gmap" where
  "prune_states now states = filter (\<lambda>(k, s). \<not> ls_expires_at s < now) states"

definition consume_state :: "(nat \<Rightarrow> gtime) \<Rightarrow> string \<Rightarrow> login_state gmap \<Rightarrow> string res \<times> login_state gmap" where
  "consume_state clk st states0 =
     (let states = prune_states (clk 0) states0 in
      case mget states st of
        None \<Rightarrow> (Inl (Error ''invalid state''), mdel st states)
      | Some item \<Rightarrow>
          (if ls_expires_at item < clk 1 then (Inl (Error ''invalid state''), mdel st states)
           else (Inr (ls_verifier item), mdel st states)))"

text \<open>The checks both handlers begin with.\<close>

definition login_refused :: "oauth2_config \<Rightarrow> login_request \<Rightarrow> login_reply option" where
  "login_refused cfg q =
     (if \<not> o2_enabled cfg then Some (LoginFailed 404 ''auth disabled'')
      else if lq_method q \<noteq> ''GET'' then Some (LoginFailed 405 ''method not allowed'')
      else if \<not> supports_auth_code (o2_mode cfg) then Some (LoginFailed 400 ''auth_code flow not enabled'')
      else None)"

definition login_lifetime :: int where "login_lifetime = 600 * nanos_second"

definition remember_login :: "login_request \<Rightarrow> login_state gmap \<Rightarrow> login_state gmap" where
  "remember_login q states =
     mput (random_string (lq_state_bytes q))
       \<lparr>ls_verifier = random_string (lq_verifier_bytes q), ls_expires_at = lq_clock q 1 + login_lifetime\<rparr>
       (prune_states (lq_clock q 0) states)"

definition login :: "'w login_handler \<Rightarrow> login_request \<Rightarrow> 'w login_world \<Rightarrow> login_reply \<times> 'w login_world" where
  "login H q lw =
     (case login_refused (lg_cfg H) q of
        Some reply \<Rightarrow> (reply, lw)
      | None \<Rightarrow>
          (let cfg = lg_cfg H; lw = lw\<lparr>lw_states := remember_login q (lw_states lw)\<rparr> in
           case resolve_endpoints (lg_web H) (\<lambda>n. lq_clock q (2 + n)) (lq_jitter q) cfg (lw_discovery lw) (lw_net lw) of
             (Inl err, cache, w) \<Rightarrow> (LoginFailed 400 ''oidc discovery failed'', lw\<lparr>lw_discovery := cache, lw_net := w\<rparr>)
           | (Inr endpoints, cache, w) \<Rightarrow>
               (LoginRedirect (lg_auth_url H cfg endpoints (random_string (lq_state_bytes q))
                  [(''access_type'', ''online''),
                   (''code_challenge'', code_challenge (lg_sha H) (random_string (lq_verifier_bytes q))),
                   (''code_challenge_method'', ''S256''), (''audience'', o2_audience cfg)]),
                lw\<lparr>lw_discovery := cache, lw_net := w\<rparr>)))"

definition token_cache_path :: "string \<Rightarrow> string res \<Rightarrow> string" where
  "token_cache_path env_path user_dir =
     (if trim_space env_path \<noteq> [] then trim_space env_path
      else case default_cache_path user_dir of Inl err \<Rightarrow> [] | Inr path \<Rightarrow> path)"

definition store_token :: "'w login_handler \<Rightarrow> (nat \<Rightarrow> gtime) \<Rightarrow> string \<Rightarrow> gtime \<Rightarrow> disk \<Rightarrow> disk" where
  "store_token H clk token expiry0 d =
     (let path = token_cache_path (lg_env_path H) (lg_user_dir H) in
      if token = [] \<or> path = [] then d
      else
        let expiry = (if is_zero expiry0 then clk 0 + 1800 * nanos_second else expiry0);
            key = (if cache_key (lg_cfg H) = ''||'' then ''default'' else cache_key (lg_cfg H)) in
        snd (store_cached_token (lg_codec H) (lg_dir_of H) (clk 1) path key token expiry d))"

text \<open>The second half of a callback, with the verifier of its login.\<close>

definition finish_callback :: "'w login_handler \<Rightarrow> login_request \<Rightarrow> string \<Rightarrow> 'w login_world \<Rightarrow> login_reply \<times> 'w login_world" where
  "finish_callback H q v lw =
     (let cfg = lg_cfg H in
      case resolve_endpoints (lg_web H) (\<lambda>n. lq_clock q (2 + n)) (lq_jitter q) cfg (lw_discovery lw) (lw_net lw) of
        (Inl err, cache, w) \<Rightarrow> (LoginFailed 400 ''oidc discovery failed'', lw\<lparr>lw_discovery := cache, lw_net := w\<rparr>)
      | (Inr endpoints, cache, w) \<Rightarrow>
          (case lg_exchange H cfg endpoints (trim_space (lq_query q ''code'')) [(''code_verifier'', v), (''audience'', o2_audience cfg)] w of
             (Inl err, w') \<Rightarrow> (LoginFailed 400 ''token exchange failed'', lw\<lparr>lw_discovery := cache, lw_net := w'\<rparr>)
           | (Inr t, w') \<Rightarrow>
               (LoginDone (lt_type t) (lt_expiry t),
                lw\<lparr>lw_discovery := cache, lw_net := w',
                  lw_disk := store_token H (\<lambda>n. lq_clock q (6 + n)) (lt_access t) (lt_expiry t) (lw_disk lw)\<rparr>)))"

definition login_callback :: "'w login_handler \<Rightarrow> login_request \<Rightarrow> 'w login_world \<Rightarrow> login_reply \<times> 'w login_world" where
  "login_callback H q lw =
     (case login_refused (lg_cfg H) q of
        Some reply \<Rightarrow> (reply, lw)
      | None \<Rightarrow>
          (let st = trim_space (lq_query q ''state'') in
           if trim_space (lq_query q ''code'') = [] \<or> st = [] then (LoginFailed 400 ''missing code or state'', lw)
           else case consume_state (lq_clock q) st (lw_states lw) of
                  (Inl err, states) \<Rightarrow> (LoginFailed 400 (error_text err), lw\<lparr>lw_states := states\<rparr>)
                | (Inr v, states) \<Rightarrow> finish_callback H q v (lw\<lparr>lw_states := states\<rparr>)))"

section \<open>Runs\<close>

datatype login_step = Login login_request | Callback login_request

fun login_serve :: "'w login_handler \<Rightarrow> login_step \<Rightarrow> 'w login_world \<Rightarrow> login_reply \<times> 'w login_world" where
  "login_serve H (Login q) lw = login H q lw"
| "login_serve H (Callback q) lw = login_callback H q lw"

fun login_run :: "'w login_handler \<Rightarrow> login_step list \<Rightarrow> 'w login_world \<Rightarrow> 'w login_world" where
  "login_run H [] lw = lw"
| "login_run H (x # xs) lw = login_run H xs (snd (login_serve H x lw))"

text \<open>The steps that have to do with a state: the logins that draw it and the callbacks that name it.\<close>

fun draws :: "string \<Rightarrow> login_step \<Rightarrow> bool" where
  "draws st (Login q) \<longleftrightarrow> random_string (lq_state_bytes q) = st"
| "draws st (Callback q) \<longleftrightarrow> False"

fun names_state :: "string \<Rightarrow> login_step \<Rightarrow> bool" where
  "names_state st (Login q) \<longleftrightarrow> False"
| "names_state st (Callback q) \<longleftrightarrow> trim_space (lq_query q ''state'') = st"

fun step_time :: "login_step \<Rightarrow> gtime" where
  "step_time (Login q) = lq_clock q 0"
| "step_time (Callback q) = lq_clock q 0"

lemma states_after_login:
  "lw_states (snd (login H q lw)) = (if login_refused (lg_cfg H) q = None then remember_login q (lw_states lw) else lw_states lw)"
  by (auto simp: login_def Let_def split: option.split sum.split prod.split)

lemma states_after_finish [simp]: "lw_states (snd (finish_callback H q v lw)) = lw_states lw"
  by (auto simp: finish_callback_def Let_def split: sum.split prod.split)

lemma states_after_callback:
  "lw_states (snd (login_callback H q lw)) =
     (if login_refused (lg_cfg H) q = None \<and> trim_space (lq_query q ''code'') \<noteq> [] \<and> trim_space (lq_query q ''state'') \<noteq> []
      then snd (consume_state (lq_clock q) (trim_space (lq_query q ''state'')) (lw_states lw)) else lw_states lw)"
  by (auto simp: login_callback_def Let_def split: option.split sum.split prod.split)

lemma snd_consume_state: "snd (consume_state clk st states) = mdel st (prune_states (clk 0) states)"
  by (simp add: consume_state_def Let_def split: option.split)

lemma wf_prune [simp]: "wf_map states \<Longrightarrow> wf_map (prune_states now states)"
  by (simp add: prune_states_def)

lemma mget_prune:
  "wf_map states \<Longrightarrow> mget (prune_states now states) k =
     (case mget states k of None \<Rightarrow> None | Some s \<Rightarrow> if ls_expires_at s < now then None else Some s)"
  by (simp add: prune_states_def mget_filter split: option.split)

lemma login_serve_wf: "wf_map (lw_states lw) \<Longrightarrow> wf_map (lw_states (snd (login_serve H x lw)))"
  by (cases x) (simp_all add: states_after_login states_after_callback snd_consume_state remember_login_def)

lemma login_run_wf: "wf_map (lw_states lw) \<Longrightarrow> wf_map (lw_states (login_run H xs lw))"
  by (induction xs arbitrary: lw) (simp_all add: login_serve_wf)

text \<open>A state that is not known stays unknown until a login draws it.\<close>

lemma login_serve_unknown:
  "wf_map (lw_states lw) \<Longrightarrow> mget (lw_states lw) st = None \<Longrightarrow> \<not> draws st x \<Longrightarrow> mget (lw_states (snd (login_serve H x lw))) st = None"
  by (cases x) (simp_all add: states_after_login states_after_callback snd_consume_state remember_login_def mget_prune)

lemma login_run_unknown:
  "wf_map (lw_states lw) \<Longrightarrow> mget (lw_states lw) st = None \<Longrightarrow> \<forall>x \<in> set xs. \<not> draws st x \<Longrightarrow>
     mget (lw_states (login_run H xs lw)) st = None"
  by (induction xs arbitrary: lw) (simp_all add: login_serve_unknown login_serve_wf)

text \<open>One that is known stays so until it expires or a callback names it.\<close>

lemma login_serve_known:
  "wf_map (lw_states lw) \<Longrightarrow> mget (lw_states lw) st = Some item \<Longrightarrow> \<not> draws st x \<Longrightarrow> \<not> names_state st x \<Longrightarrow>
     step_time x \<le> ls_expires_at item \<Longrightarrow> mget (lw_states (snd (login_serve H x lw))) st = Some item"
  by (cases x) (simp_all add: states_after_login states_after_callback snd_consume_state remember_login_def mget_prune)

lemma login_run_known:
  "wf_map (lw_states lw) \<Longrightarrow> mget (lw_states lw) st = Some item \<Longrightarrow>
     \<forall>x \<in> set xs. \<not> draws st x \<and> \<not> names_state st x \<and> step_time x \<le> ls_expires_at item \<Longrightarrow>
     mget (lw_states (login_run H xs lw)) st = Some item"
  by (induction xs arbitrary: lw) (simp_all add: login_serve_known login_serve_wf)

lemma unknown_state_is_refused:
  assumes "wf_map (lw_states lw)" "mget (lw_states lw) (trim_space (lq_query q ''state'')) = None" "login_refused (lg_cfg H) q = None"
    and "trim_space (lq_query q ''code'') \<noteq> []" "trim_space (lq_query q ''state'') \<noteq> []"
  shows "fst (login_callback H q lw) = LoginFailed 400 ''invalid state''"
  using assms by (simp add: login_callback_def consume_state_def mget_prune)

text \<open>
  C18: A login is completed once. Within ten minutes, and whatever other people do in between, a callback with
  the state of the login exchanges its code with the code verifier whose challenge the login sent; and after
  this callback, whatever its outcome, every further callback with the state is refused without an exchange,
  until another login happens to draw the same random state.
\<close>

theorem login_is_completed_once:
  assumes "wf_map (lw_states lw)" "login_refused (lg_cfg H) q = None" "random_string (lq_state_bytes q) = st" "st \<noteq> []"
    and "\<forall>x \<in> set xs. \<not> draws st x \<and> \<not> names_state st x \<and> step_time x \<le> lq_clock q 1 + login_lifetime"
    and "login_run H xs (snd (login H q lw)) = lw1"
    and "login_refused (lg_cfg H) r = None" "trim_space (lq_query r ''state'') = st" "trim_space (lq_query r ''code'') \<noteq> []"
    and "lq_clock r 0 \<le> lq_clock q 1 + login_lifetime" "lq_clock r 1 \<le> lq_clock q 1 + login_lifetime"
    and "\<forall>x \<in> set ys. \<not> draws st x" "login_run H ys (snd (login_callback H r lw1)) = lw2"
    and "login_refused (lg_cfg H) r' = None" "trim_space (lq_query r' ''state'') = st" "trim_space (lq_query r' ''code'') \<noteq> []"
  shows "login_callback H r lw1 = finish_callback H r (random_string (lq_verifier_bytes q))
      (lw1\<lparr>lw_states := mdel st (prune_states (lq_clock r 0) (lw_states lw1))\<rparr>) \<and>
    fst (login_callback H r' lw2) = LoginFailed 400 ''invalid state''"
proof -
  let ?item = "\<lparr>ls_verifier = random_string (lq_verifier_bytes q), ls_expires_at = lq_clock q 1 + login_lifetime\<rparr>"
  have wf: "wf_map (lw_states (snd (login H q lw)))" using login_serve_wf [OF assms(1), of H "Login q"] by simp
  have "mget (lw_states (snd (login H q lw))) st = Some ?item" using assms(2,3) by (simp add: states_after_login remember_login_def)
  from login_run_known [OF wf this, of xs H] assms(5,6) have known: "mget (lw_states lw1) st = Some ?item" by simp
  have wf1: "wf_map (lw_states lw1)" using login_run_wf [OF wf] assms(6) by blast
  have "consume_state (lq_clock r) st (lw_states lw1) =
      (Inr (random_string (lq_verifier_bytes q)), mdel st (prune_states (lq_clock r 0) (lw_states lw1)))"
    using assms(10,11) by (simp add: consume_state_def mget_prune [OF wf1] known)
  with assms(4,7-9) have first: "login_callback H r lw1 = finish_callback H r (random_string (lq_verifier_bytes q))
      (lw1\<lparr>lw_states := mdel st (prune_states (lq_clock r 0) (lw_states lw1))\<rparr>)"
    by (simp add: login_callback_def)
  then have gone: "mget (lw_states (snd (login_callback H r lw1))) st = None" and wf2: "wf_map (lw_states (snd (login_callback H r lw1)))"
    using wf1 by simp_all
  from login_run_unknown [OF wf2 gone assms(12), of H] assms(13) have "mget (lw_states lw2) st = None" by simp
  moreover have "wf_map (lw_states lw2)" using login_run_wf [OF wf2] assms(13) by blast
  ultimately have "fst (login_callback H r' lw2) = LoginFailed 400 ''invalid state''"
    using assms(4,14-16) by (intro unknown_state_is_refused) simp_all
  with first show ?thesis by blast
qed

definition sample_login_handler :: "nat login_handler" where
  "sample_login_handler =
     \<lparr>lg_cfg = \<lparr>o2_enabled = True, o2_issuer = ''https://idp'', o2_audience = ''api'', o2_required_scopes = [], o2_required_roles = [],
        o2_required_groups = [], o2_mode = ''auto'', o2_client_id = ''c'', o2_client_secret = ''s'', o2_scopes = [],
        o2_redirect_url = ''r'', o2_authorize_url = ''a'', o2_token_url = ''t'', o2_jwks_url = ''j''\<rparr>,
      lg_web = down_web, lg_sha = (\<lambda>s. s), lg_auth_url = (\<lambda>cfg d st ps. ''a?'' @ st),
      lg_exchange = (\<lambda>cfg d code ps w. (Inr \<lparr>lt_access = [], lt_type = the (map_of ps ''code_verifier''), lt_expiry = 0\<rparr>, Suc w)),
      lg_codec = plain_codec, lg_dir_of = (\<lambda>p. p), lg_env_path = [], lg_user_dir = Inl (Error ''no home'')\<rparr>"

definition login_with :: "string \<Rightarrow> gtime \<Rightarrow> login_request" where
  "login_with st now = \<lparr>lq_method = ''GET'', lq_query = (\<lambda>k. if k = ''state'' then st else ''code''), lq_state_bytes = Inr ''S'',
     lq_verifier_bytes = Inr ''V'', lq_clock = (\<lambda>n. now), lq_jitter = 0\<rparr>"

definition fresh_world :: "nat login_world" where
  "fresh_world = \<lparr>lw_states = [], lw_discovery = [], lw_disk = open_disk, lw_net = 0\<rparr>"

lemma login_is_completed_once_witness:
  "\<exists>lw1 lw2. login_run sample_login_handler [Login ((login_with [] 2)\<lparr>lq_state_bytes := Inr ''T''\<rparr>)]
       (snd (login sample_login_handler (login_with [] 1) fresh_world)) = lw1 \<and>
     login_run sample_login_handler [] (snd (login_callback sample_login_handler (login_with ''Uw'' 3) lw1)) = lw2 \<and>
     fst (login_callback sample_login_handler (login_with ''Uw'' 3) lw1) = LoginDone ''Vg'' 0 \<and>
     fst (login_callback sample_login_handler (login_with ''Uw'' 4) lw2) = LoginFailed 400 ''invalid state''"
proof -
  let ?H = "sample_login_handler" and ?q = "login_with [] 1" and ?r = "login_with ''Uw'' 3" and ?r' = "login_with ''Uw'' 4"
  let ?xs = "[Login ((login_with [] 2)\<lparr>lq_state_bytes := Inr ''T''\<rparr>)]"
  define lw1 where "lw1 = login_run ?H ?xs (snd (login ?H ?q fresh_world))"
  define lw2 where "lw2 = login_run ?H [] (snd (login_callback ?H ?r lw1))"
  have rs: "random_string (Inr ''S'') = ''Uw''" "random_string (Inr ''T'') = ''VA''" "random_string (Inr ''V'') = ''Vg''"
    "trim_space ''Uw'' = ''Uw''" "trim_space ''code'' = ''code''" "trim_space ''a'' = ''a''" "trim_space ''t'' = ''t''"
    "trim_space ''j'' = ''j''" "supports_auth_code ''auto''" by code_simp+
  have ok: "login_refused (lg_cfg ?H) (login_with st now) = None" for st now
    by (simp add: login_refused_def sample_login_handler_def login_with_def rs)
  have q: "trim_space (lq_query (login_with ''Uw'' now) ''state'') = ''Uw''" "trim_space (lq_query (login_with st now) ''code'') \<noteq> []"
    "lq_clock (login_with st now) n = now" for st now n by (simp_all add: login_with_def rs)
  have "wf_map (lw_states fresh_world)" by (simp add: fresh_world_def)
  from login_is_completed_once [OF this ok _ _ _ lw1_def [symmetric] ok q(1,2) _ _ _ lw2_def [symmetric] ok q(1,2)]
  have r: "login_callback ?H ?r lw1 = finish_callback ?H ?r ''Vg'' (lw1\<lparr>lw_states := mdel ''Uw'' (prune_states 3 (lw_states lw1))\<rparr>) \<and>
      fst (login_callback ?H ?r' lw2) = LoginFailed 400 ''invalid state''"
    by (simp add: q rs login_with_def login_lifetime_def nanos_second_def)
  have "fst (finish_callback ?H ?r ''Vg'' lw) = LoginDone ''Vg'' 0" for lw
    by (simp add: finish_callback_def resolve_endpoints_def sample_login_handler_def rs)
  with r show ?thesis using lw1_def lw2_def by metis
qed

end
