(* ===== verification/Spec2Isabelle.thy ===== *)
theory Spec2Isabelle
  imports Webhook_Guarantees Event_Stats Event_Breakdown Rules_Guarantees Event_Log_Pages Replay_Guarantees Worker_Guarantees Webhook_Auth
    Driver_Service Rule_Sql Provider_Instances Namespace_Service Oauth_Guarantees
    Api_Access Login_Handler
begin

text \<open>
  A verification development for Relaymesh (\<^verbatim>\<open>pkg/\<close> and \<^verbatim>\<open>sdk/go/worker\<close>), the gateway that receives the webhooks
  of GitHub, GitLab, Bitbucket, Slack and Jira, matches each event against the rules of its tenant and
  publishes it to the message brokers the rules name.

  \<^bold>\<open>How the program works.\<close> A webhook handler checks a request, finds the installation it belongs to
  and builds an event. \<open>emit\<close> loads the rules of the tenant from the store, compiles them into a rule
  engine and evaluates them; every match becomes an event log record, is transformed by the JavaScript of
  its rule and is published through the publisher of the rule's driver, and the log record is updated with
  the outcome. The API services change the rules, drivers, installations, namespaces and provider
  instances in the stores and keep the running engine and the driver cache in step; they also list, page,
  aggregate and replay the event logs. A worker subscribes to the brokers and reports the outcome of each
  message back to the API.

  \<^bold>\<open>Theories.\<close>
  \<^item> \<open>Go_Prelude\<close>: errors, results, outcomes (a Go panic is a value), contexts, Go maps as association lists
    (\<open>mget\<close>, \<open>mput\<close>), trimming, case folding, numbers to text and back, sorting; the collections of simp
    rules the other theories use. \<open>Base64\<close>: the encodings of \<^verbatim>\<open>encoding/base64\<close> and their round trip.
  \<^item> \<open>Go_Values\<close>: dynamic values and \<^verbatim>\<open>core/flatten.go\<close>.
  \<^item> \<open>Rule_Rewrite\<close> (\<^verbatim>\<open>core/rules_rewrite.go\<close>), \<open>Rule_Functions\<close> (\<^verbatim>\<open>core/rules_functions.go\<close>) and
    \<open>Rule_Engine\<close> (\<^verbatim>\<open>core/rules.go\<close>, \<^verbatim>\<open>rules_resolve.go\<close>, \<^verbatim>\<open>event.go\<close>): the rule engine.
  \<^item> \<open>Publisher\<close> (\<^verbatim>\<open>core/publisher.go\<close>): building, retrying, multiplexing, dead letters.
  \<^item> \<open>App_Config\<close> (\<^verbatim>\<open>core/config.go\<close>, \<^verbatim>\<open>auth/\<close>): configuration records and defaults.
  \<^item> \<open>Tenant_Cache\<close> (\<^verbatim>\<open>cache/tenant_cache.go\<close>) and \<open>Driver_Cache\<close> (\<^verbatim>\<open>drivers/\<close>): publishers per tenant and per
    driver; the locale \<open>tenant_cache\<close> states what a client of the cache relies on.
  \<^item> \<open>Store_Records\<close> (\<^verbatim>\<open>storage/store.go\<close>, \<^verbatim>\<open>tenant.go\<close>), \<open>Mem_Stores\<close> (\<^verbatim>\<open>storage/mocks_*.go\<close>): records, identifiers
    and the in-memory stores. \<open>Event_Logs\<close>, \<open>Event_Stats\<close>, \<open>Event_Breakdown\<close>: the in-memory event log store
    and its aggregations (\<^verbatim>\<open>mocks_eventlogs.go\<close>). \<open>Event_Sql\<close>, \<open>Event_Sql_Writes\<close>: the queries, rows and updates
    of the database store (\<^verbatim>\<open>storage/eventlogs\<close>, \<^verbatim>\<open>query.go\<close>). \<open>Log_Updates\<close>: the locale \<open>log_updates\<close>, what a caller
    of \<^verbatim>\<open>UpdateEventLogStatus\<close> relies on, interpreted on both stores.
  \<^item> \<open>Event_Payload\<close>, \<open>Webhook_Pipeline\<close>, \<open>Webhook_Guarantees\<close> (\<^verbatim>\<open>pkg/webhook\<close>): from a body to an event, from
    an event to published messages and event logs.
  \<^item> \<open>Api_Common\<close>, \<open>Rules_Service\<close>, \<open>Rules_Guarantees\<close>, \<open>Event_Log_Service\<close>, \<open>Event_Log_Pages\<close> (\<^verbatim>\<open>pkg/api\<close>): messages,
    the rule service and the engine refresh, the event log service and its page tokens. \<open>Event_Replay\<close>,
    \<open>Publisher_Sends\<close>, \<open>Replay_Guarantees\<close>: the replay of a log, its background run and its limiter
    (\<^verbatim>\<open>eventlogs_service.go\<close>).
  \<^item> \<open>Worker_Subscriber\<close>, \<open>Worker_Messages\<close>, \<open>Worker_Clients\<close>, \<open>Scm_Cache\<close>, \<open>Worker_Guarantees\<close> (\<^verbatim>\<open>sdk/go/worker\<close>):
    the subscribers a worker builds, what it subscribes to, what it does with a message, the API clients it
    calls and its cache of provider clients.
  \<^item> \<open>Sql_Tables\<close>: the database as gorm offers it, a parameter, and the table that gorm and SQL document;
    \<open>Install_Stores\<close>, \<open>Namespace_Stores\<close>: the two stores on it (\<^verbatim>\<open>storage/installations\<close>, \<^verbatim>\<open>storage/namespaces\<close>)
    and the locales \<open>install_store\<close>, \<open>namespace_store\<close>, interpreted on the database and in memory.
    \<open>Driver_Stores\<close>, \<open>Rule_Sql\<close>, \<open>Instance_Stores\<close>: drivers, rules and provider instances likewise.
  \<^item> \<open>Driver_Service\<close> (\<^verbatim>\<open>api/drivers_service.go\<close>), \<open>Provider_Config\<close>, \<open>Provider_Instances\<close> (\<^verbatim>\<open>providerinstance\<close>,
    \<^verbatim>\<open>api/providers_service.go\<close>): the services over these stores and the caches they refresh.
  \<^item> \<open>Go_Json\<close>, \<open>Webhook_Requests\<close>, \<open>Github_Install\<close>, \<open>Webhook_Handlers\<close>, \<open>Webhook_Auth\<close> (\<^verbatim>\<open>pkg/webhook\<close>): reading a
    body into a struct, signatures and the sender of a request, GitHub installations, the five handlers as
    steps on the state of the server, what a sequence of requests can do.
  \<^item> \<open>Http_Client\<close>: a request and its answer, the HTTP client of the program, a parameter; \<open>Oauth_Tokens\<close>
    (\<^verbatim>\<open>oauth/refresh.go\<close>, \<^verbatim>\<open>handler_helpers.go\<close>), \<open>Github_App\<close> (\<^verbatim>\<open>providers/github/auth.go\<close>), \<open>Namespace_Sync\<close>
    (\<^verbatim>\<open>oauth/namespaces.go\<close>), \<open>Provider_Webhooks\<close> (\<^verbatim>\<open>api/provider_webhooks.go\<close>): what the program asks of the
    providers and what it makes of the answers.
  \<^item> \<open>Install_Service\<close>, \<open>Scm_Service\<close>, \<open>Namespace_Service\<close> (\<^verbatim>\<open>api/\<close>): the services for installations, provider
    clients and namespaces. \<open>Oauth_Start\<close>, \<open>Oauth_Callback\<close>, \<open>Oauth_Guarantees\<close> (\<^verbatim>\<open>pkg/oauth\<close>): the start of a
    login, the callbacks of the providers and what a callback can change.
  \<^item> \<open>Api_Access\<close> (\<^verbatim>\<open>auth/oidc/verifier.go\<close>, \<^verbatim>\<open>server/auth_interceptor.go\<close>, \<^verbatim>\<open>tenant_interceptor.go\<close>): who may call the
    API and as which tenant. \<open>Oidc_Tokens\<close>, \<open>Token_Cache\<close> (\<^verbatim>\<open>auth/oidc\<close>), \<open>Login_Handler\<close> (\<^verbatim>\<open>server/oauth2_handler.go\<close>):
    discovery of an issuer, tokens and the file that keeps them, the login with PKCE.

  \<^bold>\<open>What the lemmas show.\<close> Rule engine: the rewriting of a condition is read back token by token, the
  selection of rules, the isolation of tenants, functions against reference definitions. Publishing:
  attempts, errors and dead letters of every driver, well-formed publishers. Caches: routing to the
  tenant's own publisher, atomic refresh; the client cache of the worker refines a list that keeps the most
  recently used entries. Stores: one record per key, pages that partition a listing, the two event log
  stores agree, aggregations conserve their records. Handlers:
  a request that is not signed changes nothing. Pipeline: every match has one log, every log the
  outcome of its match, a replay rebuilds the event. Services: a stored rule reaches the engine, page
  tokens read back, replays settle their records and are bounded. Worker: a message is decoded to the
  event that was published and is reported exactly once. OAuth: a callback changes the records of one
  tenant, the installation it stores supersedes the older ones, a provider client carries a token that has
  not expired. Access: a handler runs only for a token with all that is required, as the tenant of the token; a
  login is completed once; a stored token is loaded until it expires.

  \<^bold>\<open>Loops and bounds.\<close> All loops are structural or have a measure, and there is no fuel, except for the
  three loops over the pages of a provider's listing: they are \<^verbatim>\<open>partial_function (option)\<close>, \<open>None\<close> is a loop that
  does not end, and for GitLab a theorem shows that the loop ends when the provider names a last page. Go's 64-bit integers
  are \<^verbatim>\<open>int\<close> where the code cannot reach their bounds (sizes, counts, page sizes that are clamped); times are
  nanoseconds. Iteration over a Go map takes the order as an argument, and the theorems hold for each
  order. A method that holds a mutex for its whole body is one step; concurrent replays are steps in any
  interleaving.

  \<^bold>\<open>Not modelled.\<close> Generated code (\<^verbatim>\<open>pkg/gen\<close>); HTTP exchanges with the providers and brokers, database
  engines, JavaScript, JSON and protobuf codecs and the expression evaluator, which are parameters; log
  lines; goroutine scheduling inside a publisher or a worker; the SDKs in other languages. The manifest
  lists the components that are left out.
\<close>

end
